(* ===== verification/Prelude.thy ===== *)
theory Prelude
  imports Main "HOL-Library.Word" "HOL-Library.Monad_Syntax" "HOL-Library.Code_Target_Nat"
begin

text \<open>
  What every component of the development shares: the UEFI status codes, byte buffers with
  checked loads and stores, and the walk over consecutive variable-length records that the
  PLDM code uses for descriptors, device id records, component images and parameter entries.

  A C expression that reads or writes outside a buffer, dereferences a null pointer or fails an
  \<open>ASSERT\<close> has no defined result. Such an outcome is the value \<open>None\<close> of the \<open>option\<close> monad, so
  that a theorem with a conclusion \<open>= Some r\<close> also says that none of these happens.
  Lengths, offsets and \<open>UINTN\<close> counters are \<open>nat\<close>; where a narrower type can wrap, the wrap
  is written out.
\<close>

unbundle bit_operations_syntax

named_theorems buffer_simps \<open>evaluation of loads and stores on byte buffers\<close>
named_theorems layout \<open>offsets and sizes of the packed structures\<close>
named_theorems codes \<open>numeric codes of protocol fields\<close>

section \<open>Status codes\<close>

type_synonym byte = "8 word"

datatype EFI_STATUS =
    EFI_SUCCESS | EFI_INVALID_PARAMETER | EFI_UNSUPPORTED | EFI_BAD_BUFFER_SIZE
  | EFI_NOT_READY | EFI_DEVICE_ERROR | EFI_WRITE_PROTECTED | EFI_OUT_OF_RESOURCES
  | EFI_VOLUME_CORRUPTED | EFI_NOT_FOUND | EFI_TIMEOUT | EFI_ABORTED | EFI_ALREADY_STARTED
  | EFI_INCOMPATIBLE_VERSION | EFI_SECURITY_VIOLATION | EFI_CRC_ERROR | EFI_PROTOCOL_ERROR
  | EFI_BUFFER_TOO_SMALL

abbreviation EFI_ERROR :: "EFI_STATUS \<Rightarrow> bool" where
  "EFI_ERROR s \<equiv> s \<noteq> EFI_SUCCESS"

section \<open>Byte buffers\<close>

definition load8 :: "byte list \<Rightarrow> nat \<Rightarrow> byte option" where
  "load8 b i = (if i < length b then Some (b ! i) else None)"

text \<open>Packed little-endian fields, as the ARM and x86 targets load them.\<close>

definition load16 :: "byte list \<Rightarrow> nat \<Rightarrow> nat option" where
  "load16 b i = do {
     x0 \<leftarrow> load8 b i;
     x1 \<leftarrow> load8 b (i + 1);
     Some (unat x0 + 2 ^ 8 * unat x1) }"

definition load32 :: "byte list \<Rightarrow> nat \<Rightarrow> nat option" where
  "load32 b i = do {
     lo \<leftarrow> load16 b i;
     hi \<leftarrow> load16 b (i + 2);
     Some (lo + 2 ^ 16 * hi) }"

definition load_bytes :: "byte list \<Rightarrow> nat \<Rightarrow> nat \<Rightarrow> byte list option" where
  "load_bytes b i n = (if i + n \<le> length b then Some (take n (drop i b)) else None)"

definition store_bytes :: "byte list \<Rightarrow> nat \<Rightarrow> byte list \<Rightarrow> byte list option" where
  "store_bytes b i xs =
     (if i + length xs \<le> length b then Some (take i b @ xs @ drop (i + length xs) b) else None)"

definition bytes16 :: "nat \<Rightarrow> byte list" where
  "bytes16 v = [of_nat v, of_nat (v div 2 ^ 8)]"

definition bytes32 :: "nat \<Rightarrow> byte list" where
  "bytes32 v = bytes16 v @ bytes16 (v div 2 ^ 16)"

lemma length_bytes [simp]: "length (bytes16 v) = 2" "length (bytes32 v) = 4"
  by (simp_all add: bytes16_def bytes32_def)

lemma load8_Some_iff [simp]: "load8 b i = Some x \<longleftrightarrow> i < length b \<and> b ! i = x"
  by (auto simp: load8_def)

lemma load8_None_iff [simp]: "load8 b i = None \<longleftrightarrow> length b \<le> i"
  by (auto simp: load8_def)

lemma load8_in [buffer_simps]: "i < length b \<Longrightarrow> load8 b i = Some (b ! i)"
  by simp

lemma unat_byte_bound: "unat (x :: byte) < 256"
  by (rule order_less_le_trans [OF unsigned_less]) simp

lemma load16_bound: "load16 b i = Some v \<Longrightarrow> v < 2 ^ 16 \<and> i + 2 \<le> length b"
proof -
  assume "load16 b i = Some v"
  then obtain x y where "v = unat (x :: byte) + 256 * unat (y :: byte)" "i + 2 \<le> length b"
    by (auto simp: load16_def bind_eq_Some_conv)
  moreover have "unat x < 256" "unat y < 256"
    by (rule unat_byte_bound)+
  ultimately show ?thesis by simp
qed

lemma load32_bound: "load32 b i = Some v \<Longrightarrow> v < 2 ^ 32 \<and> i + 4 \<le> length b"
proof -
  assume "load32 b i = Some v"
  then obtain x y where "load16 b i = Some x" "load16 b (i + 2) = Some y" "v = x + 65536 * y"
    by (auto simp: load32_def bind_eq_Some_conv)
  moreover from this have "x < 2 ^ 16" "y < 2 ^ 16" "i + 4 \<le> length b"
    by (auto dest: load16_bound)
  ultimately show ?thesis by simp
qed

lemma load16_total: "i + 2 \<le> length b \<Longrightarrow> \<exists>v. load16 b i = Some v"
  by (auto simp: load16_def buffer_simps)

lemma load32_total: "i + 4 \<le> length b \<Longrightarrow> \<exists>v. load32 b i = Some v"
  using load16_total [of i b] load16_total [of "i + 2" b]
  by (auto simp: load32_def)

lemma load_bytes_length: "load_bytes b i n = Some xs \<Longrightarrow> length xs = n \<and> i + n \<le> length b"
  by (auto simp: load_bytes_def split: if_splits)

lemma load_bytes_nth: "load_bytes b i n = Some xs \<Longrightarrow> k < n \<Longrightarrow> xs ! k = b ! (i + k)"
  by (auto simp: load_bytes_def split: if_splits)

lemma store_bytes_length: "store_bytes b i xs = Some b' \<Longrightarrow> length b' = length b"
  by (auto simp: store_bytes_def split: if_splits)

lemma store_bytes_fits:
  "store_bytes b i xs = Some b' \<Longrightarrow> length b' = length b \<and> i + length xs \<le> length b"
  by (auto simp: store_bytes_def split: if_splits)

lemma store_bytes_total: "i + length xs \<le> length b \<Longrightarrow> \<exists>b'. store_bytes b i xs = Some b'"
  by (simp add: store_bytes_def)

lemma store_bytes_nth:
  assumes "store_bytes b i xs = Some b'" and "k < length b"
  shows "b' ! k = (if i \<le> k \<and> k < i + length xs then xs ! (k - i) else b ! k)"
proof -
  from assms(1) have len: "i + length xs \<le> length b"
    and b': "b' = take i b @ xs @ drop (i + length xs) b"
    by (auto simp: store_bytes_def split: if_splits)
  consider "k < i" | "i \<le> k" "k < i + length xs" | "i + length xs \<le> k" by linarith
  then show ?thesis
    by cases (use len assms(2) in \<open>auto simp: b' nth_append\<close>)
qed

lemma load_bytes_store:
  assumes "store_bytes b i xs = Some b'"
  shows "load_bytes b' i (length xs) = Some xs"
proof -
  from assms have "i + length xs \<le> length b" "b' = take i b @ xs @ drop (i + length xs) b"
    by (auto simp: store_bytes_def split: if_splits)
  then show ?thesis by (simp add: load_bytes_def)
qed

text \<open>A value written field by field is read back as it was written.\<close>

lemma unat_of_nat_byte [simp]: "unat (of_nat n :: byte) = n mod 256"
  by (simp add: unat_of_nat)

lemma load16_bytes16: "v < 2 ^ 16 \<Longrightarrow> load16 (bytes16 v) 0 = Some v"
  by (simp add: load16_def bytes16_def load8_def)

section \<open>Walking consecutive variable-length records\<close>

text \<open>
  \<open>sum_records sz n r acc\<close> is the loop \<open>for (i = 0; i < n; i++) { acc += sz (r); r += sz (r); }\<close>
  where \<open>sz r\<close> is the size of the record that starts at offset \<open>r\<close>; \<open>nth_record sz n r\<close> is the
  offset of the \<open>n\<close>-th record after the one at \<open>r\<close>.
\<close>

primrec sum_records :: "(nat \<Rightarrow> nat option) \<Rightarrow> nat \<Rightarrow> nat \<Rightarrow> nat \<Rightarrow> nat option" where
  "sum_records sz 0 r acc = Some acc"
| "sum_records sz (Suc n) r acc = do { k \<leftarrow> sz r; sum_records sz n (r + k) (acc + k) }"

primrec nth_record :: "(nat \<Rightarrow> nat option) \<Rightarrow> nat \<Rightarrow> nat \<Rightarrow> nat option" where
  "nth_record sz 0 r = Some r"
| "nth_record sz (Suc n) r = do { k \<leftarrow> sz r; nth_record sz n (r + k) }"

lemma nth_record_add:
  "nth_record sz (m + n) r = do { r' \<leftarrow> nth_record sz m r; nth_record sz n r' }"
  by (induction m arbitrary: r) (auto split: bind_splits)

lemma nth_record_Suc_last:
  "nth_record sz (Suc n) r = do { r' \<leftarrow> nth_record sz n r; k \<leftarrow> sz r'; Some (r' + k) }"
  using nth_record_add [of sz n 1 r] by simp

lemma nth_record_prefix:
  assumes "nth_record sz n r = Some e" and "m \<le> n"
  shows "\<exists>e'. nth_record sz m r = Some e' \<and> e' \<le> e"
proof -
  obtain d where d: "n = m + d" using assms(2) le_Suc_ex by blast
  have mono: "nth_record sz d x = Some y \<Longrightarrow> x \<le> y" for x y
    by (induction d arbitrary: x) (force simp: bind_eq_Some_conv)+
  from assms(1) d obtain e' where "nth_record sz m r = Some e'" "nth_record sz d e' = Some e"
    by (auto simp: nth_record_add bind_eq_Some_conv)
  with mono show ?thesis by auto
qed

lemma nth_record_le: "nth_record sz n r = Some e \<Longrightarrow> r \<le> e"
  using nth_record_prefix [of sz n r e 0] by simp

lemma sum_records_nth:
  "sum_records sz n r acc = map_option (\<lambda>e. acc + (e - r)) (nth_record sz n r)"
proof (induction n arbitrary: r acc)
  case 0
  then show ?case by simp
next
  case (Suc n)
  have "x \<le> y" if "nth_record sz n x = Some y" for x y
    using nth_record_prefix [OF that, of 0] by simp
  then show ?case
    by (auto simp: Suc.IH intro!: map_option_cong split: bind_splits) (fastforce intro!: map_option_cong)
qed

text \<open>An area that starts at \<open>r\<close> and whose records start \<open>a\<close> bytes into it.\<close>

lemma sum_records_area:
  "sum_records sz n (r + a) a = Some k \<longleftrightarrow> nth_record sz n (r + a) = Some (r + k)"
proof (cases "nth_record sz n (r + a)")
  case (Some e)
  then have "r + a \<le> e" by (rule nth_record_le)
  with Some show ?thesis by (auto simp: sum_records_nth)
qed (simp add: sum_records_nth)

text \<open>
  What the users of such an area rely on: each record's size covers its fixed header, which lies
  inside the buffer. The offset of every record of the area, and of the end of the area, then
  obeys the bounds below; the components interpret the locale on their own size functions.
\<close>

locale record_area =
  fixes sz :: "byte list \<Rightarrow> nat \<Rightarrow> nat option"
    and hdr :: nat and min_size :: nat
  assumes sz_bounds: "sz b r = Some k \<Longrightarrow> min_size \<le> k \<and> r + hdr \<le> length b"
begin

lemma nth_record_ge:
  "nth_record (sz b) n r = Some e \<Longrightarrow> r + n * min_size \<le> e"
proof (induction n arbitrary: r)
  case 0
  then show ?case by simp
next
  case (Suc n)
  then obtain k where "sz b r = Some k" "nth_record (sz b) n (r + k) = Some e"
    by (auto simp: bind_eq_Some_conv)
  with Suc.IH [of "r + k"] show ?case
    by (auto dest: sz_bounds)
qed

lemma record_header_inside:
  assumes "nth_record (sz b) n r = Some e" and "i < n"
  shows "\<exists>r'. nth_record (sz b) i r = Some r' \<and> r' + hdr \<le> length b \<and> r' \<le> e"
proof -
  obtain r' where r': "nth_record (sz b) i r = Some r'" "r' \<le> e"
    using nth_record_prefix [OF assms(1), of i] assms(2) by auto
  obtain r'' where "nth_record (sz b) (Suc i) r = Some r''"
    using nth_record_prefix [OF assms(1), of "Suc i"] assms(2) by auto
  with r' obtain k where "sz b r' = Some k"
    by (auto simp only: nth_record_Suc_last bind_eq_Some_conv)
  with r' show ?thesis by (auto dest: sz_bounds)
qed

lemma area_size:
  assumes "sum_records (sz b) n r acc = Some s"
  shows "\<exists>e. nth_record (sz b) n r = Some e \<and> s = acc + (e - r) \<and> r \<le> e
    \<and> acc + n * min_size \<le> s"
proof -
  from assms obtain e where e: "nth_record (sz b) n r = Some e" "s = acc + (e - r)"
    by (auto simp: sum_records_nth)
  from nth_record_ge [OF e(1)] have "r + n * min_size \<le> e" .
  with e show ?thesis by auto
qed

end

end
