(* ===== verification/MctpPldmBase.thy ===== *)
theory MctpPldmBase
  imports Prelude
begin

text \<open>
  \<open>MctpBaseLib.c\<close> and \<open>PldmBaseLib.c\<close>: big-endian conversion, the common header of MCTP control
  and PLDM messages, and the checks that match a response to its request. A message is the byte
  buffer the code casts to \<open>MCTP_CONTROL_COMMON\<close> or \<open>MCTP_PLDM_COMMON\<close>: byte 0 is the MCTP type,
  byte 1 the instance id with the request bit, byte 2 the command of a control message and the
  PLDM type of a PLDM message, byte 3 the PLDM command, byte 4 the completion code of a response.
\<close>

section \<open>Header constants\<close>

definition MCTP_TYPE_MASK :: byte where [codes]: "MCTP_TYPE_MASK = 0x7f"
definition MCTP_TYPE_CONTROL :: byte where [codes]: "MCTP_TYPE_CONTROL = 0x00"
definition MCTP_TYPE_PLDM :: byte where [codes]: "MCTP_TYPE_PLDM = 0x01"
definition MCTP_RQ :: byte where [codes]: "MCTP_RQ = 0x80"
definition MCTP_INSTANCE_ID_MASK :: byte where [codes]: "MCTP_INSTANCE_ID_MASK = 0x3f"

definition PLDM_RQ :: byte where [codes]: "PLDM_RQ = 0x80"
definition PLDM_INSTANCE_ID_MASK :: byte where [codes]: "PLDM_INSTANCE_ID_MASK = 0x3f"
definition PLDM_TYPE_MASK :: byte where [codes]: "PLDM_TYPE_MASK = 0x3f"
definition PLDM_HDR_VER :: byte where [codes]: "PLDM_HDR_VER = 0x00"
definition PLDM_TYPE_FW_UPDATE :: byte where [codes]: "PLDM_TYPE_FW_UPDATE = 0x05"
definition PLDM_PN1_RETRIES :: nat where [codes]: "PLDM_PN1_RETRIES = 2"
definition PLDM_PT2_MS_MAX :: nat where [codes]: "PLDM_PT2_MS_MAX = 5 * 1000 - 2 * 100"
definition PLDM_SUCCESS :: byte where [codes]: "PLDM_SUCCESS = 0x00"
definition PLDM_ERROR_INVALID_LENGTH :: byte where [codes]: "PLDM_ERROR_INVALID_LENGTH = 0x03"

text \<open>\<open>sizeof (MCTP_PLDM_COMMON)\<close> and \<open>sizeof (MCTP_PLDM_RESPONSE_HEADER)\<close>.\<close>

definition sizeof_MCTP_PLDM_COMMON :: nat where [layout]: "sizeof_MCTP_PLDM_COMMON = 4"
definition sizeof_MCTP_PLDM_RESPONSE_HEADER :: nat
  where [layout]: "sizeof_MCTP_PLDM_RESPONSE_HEADER = 5"

section \<open>Big-endian conversion\<close>

definition MctpBEBufferToUint32 :: "byte list \<Rightarrow> 32 word option" where
  "MctpBEBufferToUint32 Buffer = do {
     b0 \<leftarrow> load8 Buffer 0;
     b1 \<leftarrow> load8 Buffer 1;
     b2 \<leftarrow> load8 Buffer 2;
     b3 \<leftarrow> load8 Buffer 3;
     Some (push_bit 24 (ucast b0) OR push_bit 16 (ucast b1) OR push_bit 8 (ucast b2)
           OR push_bit 0 (ucast b3)) }"

definition MctpBEBufferToUint16 :: "byte list \<Rightarrow> 16 word option" where
  "MctpBEBufferToUint16 Buffer = do {
     b0 \<leftarrow> load8 Buffer 0;
     b1 \<leftarrow> load8 Buffer 1;
     Some (push_bit 8 (ucast b0) OR push_bit 0 (ucast b1)) }"

definition MctpUint32ToBEBuffer :: "byte list \<Rightarrow> 32 word \<Rightarrow> byte list option" where
  "MctpUint32ToBEBuffer Buffer Value =
     store_bytes Buffer 0
       [ucast (drop_bit 24 Value), ucast (drop_bit 16 Value), ucast (drop_bit 8 Value), ucast Value]"

definition MctpUint16ToBEBuffer :: "byte list \<Rightarrow> 16 word \<Rightarrow> byte list option" where
  "MctpUint16ToBEBuffer Buffer Value =
     store_bytes Buffer 0 [ucast (drop_bit 8 Value), ucast Value]"

lemma load8_stored_head:
  assumes "store_bytes b 0 xs = Some b'" and "k < length xs"
  shows "load8 b' k = Some (xs ! k)"
proof -
  from assms(1) have "length xs \<le> length b" and b': "b' = xs @ drop (length xs) b"
    by (auto simp: store_bytes_def split: if_splits)
  with assms(2) show ?thesis by (simp add: nth_append)
qed

lemma word32_from_bytes:
  fixes v :: "32 word"
  shows "push_bit 24 (ucast (ucast (drop_bit 24 v) :: byte))
       OR push_bit 16 (ucast (ucast (drop_bit 16 v) :: byte))
       OR push_bit 8 (ucast (ucast (drop_bit 8 v) :: byte)) OR ucast (ucast v :: byte) = v"
    (is "?w = v")
proof (rule bit_word_eqI)
  fix n :: nat
  assume "n < LENGTH(32)"
  consider "n < 8" | "8 \<le> n" "n < 16" | "16 \<le> n" "n < 24" | "24 \<le> n" by linarith
  then show "bit ?w n = bit v n"
    using \<open>n < LENGTH(32)\<close> by cases (auto simp: bit_simps)
qed

lemma word16_from_bytes:
  fixes v :: "16 word"
  shows "push_bit 8 (ucast (ucast (drop_bit 8 v) :: byte)) OR ucast (ucast v :: byte) = v"
  by (rule bit_word_eqI) (auto simp: bit_simps)

section \<open>MCTP control messages\<close>

definition MctpControlReqFillCommon :: "byte list \<Rightarrow> byte \<Rightarrow> byte list option" where
  "MctpControlReqFillCommon Common Command =
     store_bytes Common 0 [MCTP_TYPE_CONTROL, MCTP_RQ, Command]"

definition MctpValidateResponse ::
    "byte list \<Rightarrow> byte list \<Rightarrow> byte \<Rightarrow> byte \<Rightarrow> EFI_STATUS option" where
  "MctpValidateResponse Req Rsp ReqMsgTag RspMsgTag = do {
     reqType \<leftarrow> load8 Req 0;  reqIid \<leftarrow> load8 Req 1;  reqCmd \<leftarrow> load8 Req 2;
     rspType \<leftarrow> load8 Rsp 0;  rspIid \<leftarrow> load8 Rsp 1;  rspCmd \<leftarrow> load8 Rsp 2;
     if ReqMsgTag \<noteq> RspMsgTag \<or> reqCmd \<noteq> rspCmd
        \<or> reqIid AND MCTP_INSTANCE_ID_MASK \<noteq> rspIid AND MCTP_INSTANCE_ID_MASK
        \<or> reqType AND MCTP_TYPE_MASK \<noteq> rspType AND MCTP_TYPE_MASK
     then Some EFI_PROTOCOL_ERROR
     else Some EFI_SUCCESS }"

section \<open>PLDM messages\<close>

definition PldmFillCommon :: "byte list \<Rightarrow> bool \<Rightarrow> byte \<Rightarrow> byte \<Rightarrow> byte \<Rightarrow> byte list option" where
  "PldmFillCommon Common IsRequest InstanceId PldmType Command =
     (let Control = (if IsRequest then PLDM_RQ else 0)
      in store_bytes Common 0
           [MCTP_TYPE_PLDM, (InstanceId AND PLDM_INSTANCE_ID_MASK) OR Control,
            (PldmType AND PLDM_TYPE_MASK) OR PLDM_HDR_VER, Command])"

definition PldmValidateResponse ::
    "byte list \<Rightarrow> byte list \<Rightarrow> nat \<Rightarrow> byte \<Rightarrow> byte \<Rightarrow> EFI_STATUS option" where
  "PldmValidateResponse Req Rsp RspLength ReqMsgTag RspMsgTag = do {
     Status \<leftarrow> MctpValidateResponse Req Rsp ReqMsgTag RspMsgTag;
     if EFI_ERROR Status then Some Status
     else if RspLength < sizeof_MCTP_PLDM_RESPONSE_HEADER then Some EFI_PROTOCOL_ERROR
     else do {
       reqCmd \<leftarrow> load8 Req 3;
       rspCmd \<leftarrow> load8 Rsp 3;
       if reqCmd \<noteq> rspCmd then Some EFI_PROTOCOL_ERROR else Some EFI_SUCCESS } }"

section \<open>The header contract\<close>

text \<open>
  Both protocols promise the same: filling a header touches its own bytes only, and the check
  accepts a response exactly when its tag and its header match. The locale states this contract
  over the two operations; both pairs of functions interpret it.
\<close>

locale message_header =
  fixes fill :: "byte list \<Rightarrow> byte \<Rightarrow> byte list option"
    and accepts :: "byte list \<Rightarrow> byte list \<Rightarrow> byte \<Rightarrow> byte \<Rightarrow> EFI_STATUS option"
    and hdr_len :: nat
    and matches :: "byte list \<Rightarrow> byte list \<Rightarrow> bool"
  assumes fill_defined: "hdr_len \<le> length b \<Longrightarrow> \<exists>b'. fill b c = Some b'"
    and fill_frame: "fill b c = Some b' \<Longrightarrow> length b' = length b \<and> drop hdr_len b' = drop hdr_len b"
    and accepts_iff: "hdr_len \<le> length q \<Longrightarrow> hdr_len \<le> length r \<Longrightarrow>
        accepts q r t u = Some (if t = u \<and> matches q r then EFI_SUCCESS else EFI_PROTOCOL_ERROR)"
    and matches_refl: "matches q q"
    and fill_cmd: "fill b c = Some q \<Longrightarrow> fill b' c' = Some r \<Longrightarrow> matches q r \<Longrightarrow> c = c'"
begin

text \<open>An echoed header with the same tag is accepted; another tag or command never is.\<close>

lemma echo_accepted:
  assumes "hdr_len \<le> length q"
  shows "accepts q q t t = Some EFI_SUCCESS"
  using assms by (simp add: accepts_iff matches_refl)

lemma other_tag_rejected:
  assumes "hdr_len \<le> length q" "hdr_len \<le> length r" "t \<noteq> u"
  shows "accepts q r t u = Some EFI_PROTOCOL_ERROR"
  using assms by (simp add: accepts_iff)

lemma mismatch_rejected:
  assumes "fill b c = Some q" "fill b' c' = Some r" "c \<noteq> c'"
    and "hdr_len \<le> length b" "hdr_len \<le> length b'"
  shows "accepts q r t u = Some EFI_PROTOCOL_ERROR"
proof -
  from assms(3) fill_cmd [OF assms(1,2)] have "\<not> matches q r" by blast
  moreover have "length q = length b" "length r = length b'"
    using fill_frame [OF assms(1)] fill_frame [OF assms(2)] by auto
  ultimately show ?thesis using assms(4,5) by (simp add: accepts_iff)
qed

end

definition mctp_matches :: "byte list \<Rightarrow> byte list \<Rightarrow> bool" where
  "mctp_matches q r \<longleftrightarrow> q ! 2 = r ! 2
     \<and> q ! 1 AND MCTP_INSTANCE_ID_MASK = r ! 1 AND MCTP_INSTANCE_ID_MASK
     \<and> q ! 0 AND MCTP_TYPE_MASK = r ! 0 AND MCTP_TYPE_MASK"

definition pldm_matches :: "byte list \<Rightarrow> byte list \<Rightarrow> bool" where
  "pldm_matches q r \<longleftrightarrow> mctp_matches q r \<and> q ! 3 = r ! 3"

lemma store_head_frame:
  "store_bytes b 0 xs = Some b' \<Longrightarrow> length b' = length b \<and> drop (length xs) b' = drop (length xs) b
     \<and> take (length xs) b' = xs"
  by (auto simp: store_bytes_def split: if_splits)

lemma nth_stored_head:
  "store_bytes b 0 xs = Some b' \<Longrightarrow> k < length xs \<Longrightarrow> b' ! k = xs ! k"
  by (auto simp: store_bytes_def nth_append split: if_splits)

lemma MctpValidateResponse_eq:
  assumes "3 \<le> length q" "3 \<le> length r"
  shows "MctpValidateResponse q r t u =
    Some (if t = u \<and> mctp_matches q r then EFI_SUCCESS else EFI_PROTOCOL_ERROR)"
proof -
  from assms have "q \<noteq> []" "r \<noteq> []" by auto
  with assms show ?thesis
    by (auto simp: MctpValidateResponse_def mctp_matches_def buffer_simps)
qed

lemma PldmValidateResponse_eq:
  assumes "4 \<le> length q" "4 \<le> length r"
  shows "PldmValidateResponse q r n t u =
    Some (if t = u \<and> pldm_matches q r \<and> 5 \<le> n then EFI_SUCCESS else EFI_PROTOCOL_ERROR)"
  using assms
  by (auto simp: PldmValidateResponse_def MctpValidateResponse_eq pldm_matches_def buffer_simps layout)

lemma PldmFillCommon_frame:
  "PldmFillCommon b rq i p c = Some b' \<Longrightarrow> length b' = length b \<and> drop 4 b' = drop 4 b"
  by (auto simp: PldmFillCommon_def Let_def numeral_eq_Suc dest!: store_head_frame)

lemma PldmFillCommon_bytes:
  assumes "PldmFillCommon b rq i p c = Some b'"
  shows "b' ! 0 = MCTP_TYPE_PLDM" "b' ! 1 = (i AND 0x3f) OR (if rq then 0x80 else 0)"
    "b' ! 2 = p AND 0x3f" "b' ! 3 = c"
  using assms by (auto simp: PldmFillCommon_def Let_def codes nth_stored_head)

interpretation mctp: message_header MctpControlReqFillCommon MctpValidateResponse 3 mctp_matches
proof
  show "\<exists>b'. MctpControlReqFillCommon b c = Some b'" if "3 \<le> length b" for b c
    using that store_bytes_total [of 0 "[MCTP_TYPE_CONTROL, MCTP_RQ, c]" b]
    by (simp add: MctpControlReqFillCommon_def)
  show "length b' = length b \<and> drop 3 b' = drop 3 b" if "MctpControlReqFillCommon b c = Some b'" for b c b'
    using store_head_frame [OF that [unfolded MctpControlReqFillCommon_def]]
    by (simp add: numeral_eq_Suc)
  show "c = c'" if "MctpControlReqFillCommon b c = Some q" "MctpControlReqFillCommon b' c' = Some r"
      "mctp_matches q r" for b c q b' c' r
    using that nth_stored_head [of b "[MCTP_TYPE_CONTROL, MCTP_RQ, c]" q 2]
      nth_stored_head [of b' "[MCTP_TYPE_CONTROL, MCTP_RQ, c']" r 2]
    by (simp add: MctpControlReqFillCommon_def mctp_matches_def)
qed (simp_all add: MctpValidateResponse_eq mctp_matches_def)

text \<open>A PLDM exchange of one type and instance: \<open>RspLength\<close> is the size of the response header.\<close>

interpretation pldm: message_header
  "\<lambda>b c. PldmFillCommon b True i p c" "\<lambda>q r t u. PldmValidateResponse q r 5 t u" 4 pldm_matches
  for i p
proof
  show "\<exists>b'. PldmFillCommon b True i p c = Some b'" if "4 \<le> length b" for b c
    using that by (simp add: PldmFillCommon_def store_bytes_total)
  show "length b' = length b \<and> drop 4 b' = drop 4 b" if "PldmFillCommon b True i p c = Some b'" for b c b'
    using that by (rule PldmFillCommon_frame)
  show "c = c'" if "PldmFillCommon b True i p c = Some q" "PldmFillCommon b' True i p c' = Some r"
      "pldm_matches q r" for b c q b' c' r
    using PldmFillCommon_bytes [OF that(1)] PldmFillCommon_bytes [OF that(2)] that(3)
    by (simp add: pldm_matches_def)
qed (simp_all add: PldmValidateResponse_eq pldm_matches_def mctp_matches_def)

section \<open>Properties\<close>

text \<open>
  Big-endian conversion loses nothing: what \<open>MctpUint32ToBEBuffer\<close> and \<open>MctpUint16ToBEBuffer\<close>
  write, the inverse functions read back, and only the bytes of the value are written.
\<close>

theorem BEBuffer_roundtrip:
  assumes "4 \<le> length b"
  shows "\<exists>b4 b2. MctpUint32ToBEBuffer b v = Some b4 \<and> MctpBEBufferToUint32 b4 = Some v
    \<and> drop 4 b4 = drop 4 b
    \<and> MctpUint16ToBEBuffer b w = Some b2 \<and> MctpBEBufferToUint16 b2 = Some w
    \<and> drop 2 b2 = drop 2 b"
proof -
  let ?x4 = "[ucast (drop_bit 24 v), ucast (drop_bit 16 v), ucast (drop_bit 8 v), ucast v] :: byte list"
  let ?x2 = "[ucast (drop_bit 8 w), ucast w] :: byte list"
  obtain b4 where b4: "store_bytes b 0 ?x4 = Some b4"
    using store_bytes_total [of 0 ?x4 b] assms by auto
  obtain b2 where b2: "store_bytes b 0 ?x2 = Some b2"
    using store_bytes_total [of 0 ?x2 b] assms by auto
  have "MctpBEBufferToUint32 b4 = Some v"
    using load8_stored_head [OF b4, of 0] load8_stored_head [OF b4, of 1]
      load8_stored_head [OF b4, of 2] load8_stored_head [OF b4, of 3]
    by (simp add: MctpBEBufferToUint32_def word32_from_bytes del: load8_Some_iff)
  moreover have "MctpBEBufferToUint16 b2 = Some w"
    using load8_stored_head [OF b2, of 0] load8_stored_head [OF b2, of 1]
    by (simp add: MctpBEBufferToUint16_def word16_from_bytes del: load8_Some_iff)
  ultimately show ?thesis
    using b4 b2 store_head_frame [OF b4] store_head_frame [OF b2]
    by (simp add: MctpUint32ToBEBuffer_def MctpUint16ToBEBuffer_def numeral_eq_Suc)
qed

theorem BEBuffer_roundtrip_witness:
  "\<exists>b4. MctpUint32ToBEBuffer [0, 0, 0, 0, 7] 0x12345678 = Some b4 \<and> MctpBEBufferToUint32 b4 = Some 0x12345678"
  using BEBuffer_roundtrip [of "[0, 0, 0, 0, 7]" "0x12345678" 0] by auto

text \<open>
  A PLDM response is accepted only for the command of the request: when request and response
  headers were filled for different commands, \<open>PldmValidateResponse\<close> rejects the response,
  whatever the tags are.
\<close>

theorem other_command_rejected:
  assumes "PldmFillCommon b True i p c = Some q" and "PldmFillCommon b' True i p c' = Some r"
    and "c \<noteq> c'" and "4 \<le> length b" and "4 \<le> length b'"
  shows "PldmValidateResponse q r 5 t u = Some EFI_PROTOCOL_ERROR"
  using assms by (rule pldm.mismatch_rejected)

theorem other_command_rejected_witness:
  "PldmValidateResponse [1, 0x83, 5, 0x10] [1, 0x83, 5, 0x13, 0] 5 0 0 = Some EFI_PROTOCOL_ERROR"
  by (rule other_command_rejected [where b = "[0, 0, 0, 0]" and b' = "[0, 0, 0, 0, 0]" and i = 3
        and p = 5 and c = "0x10" and c' = "0x13"])
     (simp_all add: PldmFillCommon_def store_bytes_def codes)

text \<open>
  An MCTP control request that is echoed with its tag passes \<open>MctpValidateResponse\<close>; with any
  other tag it is rejected.
\<close>

theorem control_echo:
  assumes "3 \<le> length q"
  shows "MctpValidateResponse q q t u = Some (if t = u then EFI_SUCCESS else EFI_PROTOCOL_ERROR)"
  using mctp.echo_accepted [OF assms] mctp.other_tag_rejected [OF assms assms] by simp

theorem control_echo_witness:
  "MctpValidateResponse [0, 0x80, 4] [0, 0x80, 4] 1 2 = Some EFI_PROTOCOL_ERROR"
  using control_echo [of "[0, 0x80, 4]" 1 2] by simp

end
