(* ===== verification/PldmFwUpdate.thy ===== *)
theory PldmFwUpdate
  imports MctpPldmBase
begin

text \<open>
  \<open>PldmFwUpdateLib.c\<close>: the checks on the inventory responses of a firmware device and the walks
  over their variable-length parts, the descriptors of QueryDeviceIdentifiers and the component
  parameter table of GetFirmwareParameters. A pointer into a response is an offset into its
  buffer. Log output is not modelled; the walk of \<open>PldmFwPrintQueryDeviceIdsRsp\<close> is, because it
  reads the length of every descriptor the response counts.
\<close>

section \<open>Layout and codes\<close>

definition OFFSET_FwParams_ComponentCount :: nat
  where [layout]: "OFFSET_FwParams_ComponentCount = 9"
definition OFFSET_FwParams_ActiveVersionStringLength :: nat
  where [layout]: "OFFSET_FwParams_ActiveVersionStringLength = 12"
definition OFFSET_FwParams_PendingVersionStringLength :: nat
  where [layout]: "OFFSET_FwParams_PendingVersionStringLength = 14"
definition OFFSET_FwParams_ActiveVersionString :: nat
  where [layout]: "OFFSET_FwParams_ActiveVersionString = 15"

text \<open>\<open>PLDM_FW_COMPONENT_PARAMETER_TABLE_ENTRY\<close>.\<close>

definition OFFSET_Entry_Classification :: nat where [layout]: "OFFSET_Entry_Classification = 0"
definition OFFSET_Entry_Id :: nat where [layout]: "OFFSET_Entry_Id = 2"
definition OFFSET_Entry_ClassificationIndex :: nat
  where [layout]: "OFFSET_Entry_ClassificationIndex = 4"
definition OFFSET_Entry_ActiveVersionStringLength :: nat
  where [layout]: "OFFSET_Entry_ActiveVersionStringLength = 10"
definition OFFSET_Entry_PendingVersionStringLength :: nat
  where [layout]: "OFFSET_Entry_PendingVersionStringLength = 24"
definition OFFSET_Entry_ActiveVersionString :: nat
  where [layout]: "OFFSET_Entry_ActiveVersionString = 39"

text \<open>\<open>PLDM_FW_QUERY_DEVICE_IDS_RESPONSE\<close> and \<open>PLDM_FW_DESCRIPTOR\<close>.\<close>

definition OFFSET_QueryIds_Length :: nat where [layout]: "OFFSET_QueryIds_Length = 5"
definition OFFSET_QueryIds_Count :: nat where [layout]: "OFFSET_QueryIds_Count = 9"
definition OFFSET_QueryIds_Descriptors :: nat where [layout]: "OFFSET_QueryIds_Descriptors = 10"
definition OFFSET_Desc_Type :: nat where [layout]: "OFFSET_Desc_Type = 0"
definition OFFSET_Desc_Length :: nat where [layout]: "OFFSET_Desc_Length = 2"
definition OFFSET_Desc_Data :: nat where [layout]: "OFFSET_Desc_Data = 4"

definition PLDM_FW_QUERY_DEVICE_IDS :: byte where [codes]: "PLDM_FW_QUERY_DEVICE_IDS = 0x01"
definition PLDM_FW_GET_FW_PARAMS :: byte where [codes]: "PLDM_FW_GET_FW_PARAMS = 0x02"
definition PLDM_FW_REQUEST_UPDATE :: byte where [codes]: "PLDM_FW_REQUEST_UPDATE = 0x10"
definition PLDM_FW_PASS_COMPONENT_TABLE :: byte where [codes]: "PLDM_FW_PASS_COMPONENT_TABLE = 0x13"
definition PLDM_FW_UPDATE_COMPONENT :: byte where [codes]: "PLDM_FW_UPDATE_COMPONENT = 0x14"
definition PLDM_FW_REQUEST_FW_DATA :: byte where [codes]: "PLDM_FW_REQUEST_FW_DATA = 0x15"
definition PLDM_FW_TRANSFER_COMPLETE :: byte where [codes]: "PLDM_FW_TRANSFER_COMPLETE = 0x16"
definition PLDM_FW_VERIFY_COMPLETE :: byte where [codes]: "PLDM_FW_VERIFY_COMPLETE = 0x17"
definition PLDM_FW_APPLY_COMPLETE :: byte where [codes]: "PLDM_FW_APPLY_COMPLETE = 0x18"
definition PLDM_FW_ACTIVATE_FW :: byte where [codes]: "PLDM_FW_ACTIVATE_FW = 0x1a"
definition PLDM_FW_CANCEL_UPDATE_COMPONENT :: byte
  where [codes]: "PLDM_FW_CANCEL_UPDATE_COMPONENT = 0x1c"
definition PLDM_FW_CANCEL_UPDATE :: byte where [codes]: "PLDM_FW_CANCEL_UPDATE = 0x1d"

definition PLDM_FW_BASELINE_TRANSFER_SIZE :: nat where [codes]: "PLDM_FW_BASELINE_TRANSFER_SIZE = 32"
definition PLDM_FW_UA_T2_MS_MAX :: nat where [codes]: "PLDM_FW_UA_T2_MS_MAX = 90 * 1000"
definition PLDM_FW_DATA_OUT_OF_RANGE :: byte where [codes]: "PLDM_FW_DATA_OUT_OF_RANGE = 0x82"
definition PLDM_FW_INVALID_TRANSFER_LENGTH :: byte
  where [codes]: "PLDM_FW_INVALID_TRANSFER_LENGTH = 0x83"
definition PLDM_FW_COMMAND_NOT_EXPECTED :: byte where [codes]: "PLDM_FW_COMMAND_NOT_EXPECTED = 0x88"

section \<open>Headers and completion codes\<close>

definition PldmFwFillCommon :: "byte list \<Rightarrow> bool \<Rightarrow> byte \<Rightarrow> byte \<Rightarrow> byte list option" where
  "PldmFwFillCommon Common IsRequest InstanceId Command =
     PldmFillCommon Common IsRequest InstanceId PLDM_TYPE_FW_UPDATE Command"

definition PldmFwCheckRspCompletion :: "byte list \<Rightarrow> EFI_STATUS option" where
  "PldmFwCheckRspCompletion Rsp = do {
     CompletionCode \<leftarrow> load8 Rsp 4;
     if CompletionCode \<noteq> PLDM_SUCCESS then Some EFI_DEVICE_ERROR else Some EFI_SUCCESS }"

definition PldmFwCheckRspCompletionAndLength :: "byte list \<Rightarrow> nat \<Rightarrow> nat \<Rightarrow> EFI_STATUS option" where
  "PldmFwCheckRspCompletionAndLength Rsp RspLength RspLengthExpected = do {
     Status \<leftarrow> PldmFwCheckRspCompletion Rsp;
     if EFI_ERROR Status then Some Status
     else if RspLength \<noteq> RspLengthExpected then Some EFI_DEVICE_ERROR
     else Some EFI_SUCCESS }"

lemma CheckRspCompletion_Some:
  "4 < length r \<Longrightarrow> PldmFwCheckRspCompletion r =
     Some (if r ! 4 = PLDM_SUCCESS then EFI_SUCCESS else EFI_DEVICE_ERROR)"
  by (simp add: PldmFwCheckRspCompletion_def buffer_simps)

lemma CheckRspCompletionAndLength_Some:
  "4 < length r \<Longrightarrow> PldmFwCheckRspCompletionAndLength r n m =
     Some (if r ! 4 = PLDM_SUCCESS \<and> n = m then EFI_SUCCESS else EFI_DEVICE_ERROR)"
  by (simp add: PldmFwCheckRspCompletionAndLength_def CheckRspCompletion_Some)

section \<open>The component parameter table\<close>

definition PldmFwGetFwParamsComponentTableOffset :: "byte list \<Rightarrow> nat option" where
  "PldmFwGetFwParamsComponentTableOffset Rsp = do {
     active \<leftarrow> load8 Rsp OFFSET_FwParams_ActiveVersionStringLength;
     pending \<leftarrow> load8 Rsp OFFSET_FwParams_PendingVersionStringLength;
     Some (OFFSET_FwParams_ActiveVersionString + unat active + unat pending) }"

definition FwParamsEntrySize :: "byte list \<Rightarrow> nat \<Rightarrow> nat option" where
  "FwParamsEntrySize Rsp entry = do {
     active \<leftarrow> load8 Rsp (entry + OFFSET_Entry_ActiveVersionStringLength);
     pending \<leftarrow> load8 Rsp (entry + OFFSET_Entry_PendingVersionStringLength);
     Some (OFFSET_Entry_ActiveVersionString + unat active + unat pending) }"

definition FwParamsComponentCount :: "byte list \<Rightarrow> nat option" where
  "FwParamsComponentCount Rsp = load16 Rsp OFFSET_FwParams_ComponentCount"

definition PldmFwGetFwParamsComponent :: "byte list \<Rightarrow> nat \<Rightarrow> nat option" where
  "PldmFwGetFwParamsComponent Rsp ComponentIndex = do {
     count \<leftarrow> FwParamsComponentCount Rsp;
     if ComponentIndex < count then do {
       table \<leftarrow> PldmFwGetFwParamsComponentTableOffset Rsp;
       nth_record (FwParamsEntrySize Rsp) ComponentIndex table }
     else None }"

primrec FwParamsLengthLoop :: "byte list \<Rightarrow> nat list \<Rightarrow> nat \<Rightarrow> nat option" where
  "FwParamsLengthLoop Rsp [] Length = Some Length"
| "FwParamsLengthLoop Rsp (Index # rest) Length = do {
     entry \<leftarrow> PldmFwGetFwParamsComponent Rsp Index;
     size \<leftarrow> FwParamsEntrySize Rsp entry;
     FwParamsLengthLoop Rsp rest (Length + size) }"

definition PldmFwGetFwParamsCheckRsp :: "byte list \<Rightarrow> nat \<Rightarrow> EFI_STATUS option" where
  "PldmFwGetFwParamsCheckRsp Rsp RspLength = do {
     Status \<leftarrow> PldmFwCheckRspCompletion Rsp;
     if EFI_ERROR Status then Some Status
     else do {
       table \<leftarrow> PldmFwGetFwParamsComponentTableOffset Rsp;
       count \<leftarrow> FwParamsComponentCount Rsp;
       Length \<leftarrow> FwParamsLengthLoop Rsp [0..<count] table;
       if RspLength \<noteq> Length then Some EFI_DEVICE_ERROR else Some EFI_SUCCESS } }"

primrec FwParamsMatchLoop ::
    "byte list \<Rightarrow> nat \<Rightarrow> nat \<Rightarrow> nat list \<Rightarrow> (nat \<times> nat option) option" where
  "FwParamsMatchLoop Rsp Classification Ident [] = Some (0, None)"
| "FwParamsMatchLoop Rsp Classification Ident (Index # rest) = do {
     entry \<leftarrow> PldmFwGetFwParamsComponent Rsp Index;
     class \<leftarrow> load16 Rsp (entry + OFFSET_Entry_Classification);
     ident \<leftarrow> load16 Rsp (entry + OFFSET_Entry_Id);
     if class = Classification \<and> ident = Ident
     then Some (Index, Some entry)
     else FwParamsMatchLoop Rsp Classification Ident rest }"

text \<open>
  The in-out parameter \<open>FwParamsComponentIndex\<close> is the argument and the first component of the
  result; the second is the returned pointer, \<open>None\<close> for \<open>NULL\<close>.
\<close>

definition PldmFwGetNextFwParamsMatchingComponent ::
    "byte list \<Rightarrow> nat \<Rightarrow> nat \<Rightarrow> nat \<Rightarrow> (nat \<times> nat option) option" where
  "PldmFwGetNextFwParamsMatchingComponent Rsp FwParamsComponentIndex Classification Ident = do {
     count \<leftarrow> FwParamsComponentCount Rsp;
     FwParamsMatchLoop Rsp Classification Ident [FwParamsComponentIndex..<count] }"

section \<open>Descriptors\<close>

definition DescSize :: "byte list \<Rightarrow> nat \<Rightarrow> nat option" where
  "DescSize b Desc = do {
     len \<leftarrow> load16 b (Desc + OFFSET_Desc_Length);
     Some (len + OFFSET_Desc_Data) }"

definition PldmFwDescNext :: "byte list \<Rightarrow> nat \<Rightarrow> nat option" where
  "PldmFwDescNext b Desc = do { size \<leftarrow> DescSize b Desc; Some (Desc + size) }"

definition PldmFwPrintQueryDeviceIdsRsp :: "byte list \<Rightarrow> unit option" where
  "PldmFwPrintQueryDeviceIdsRsp Rsp = do {
     count \<leftarrow> load8 Rsp OFFSET_QueryIds_Count;
     _ \<leftarrow> nth_record (DescSize Rsp) (unat count) OFFSET_QueryIds_Descriptors;
     Some () }"

definition PldmFwQueryDeviceIdsCheckRsp :: "byte list \<Rightarrow> nat \<Rightarrow> EFI_STATUS option" where
  "PldmFwQueryDeviceIdsCheckRsp Rsp RspLength = do {
     Status \<leftarrow> PldmFwCheckRspCompletion Rsp;
     if EFI_ERROR Status then Some Status
     else do {
       len \<leftarrow> load32 Rsp OFFSET_QueryIds_Length;
       if RspLength \<noteq> OFFSET_QueryIds_Descriptors + len then Some EFI_DEVICE_ERROR
       else do {
         _ \<leftarrow> PldmFwPrintQueryDeviceIdsRsp Rsp;
         Some EFI_SUCCESS } } }"

text \<open>\<open>DescriptorEq\<close> is the condition of the loop's \<open>if\<close>: type, length, then the data.\<close>

definition DescriptorEq :: "byte list \<Rightarrow> nat \<Rightarrow> byte list \<Rightarrow> nat \<Rightarrow> bool option" where
  "DescriptorEq b Descriptor lb ListDescriptor = do {
     type \<leftarrow> load16 b (Descriptor + OFFSET_Desc_Type);
     ltype \<leftarrow> load16 lb (ListDescriptor + OFFSET_Desc_Type);
     if type \<noteq> ltype then Some False
     else do {
       len \<leftarrow> load16 b (Descriptor + OFFSET_Desc_Length);
       llen \<leftarrow> load16 lb (ListDescriptor + OFFSET_Desc_Length);
       if len \<noteq> llen then Some False
       else do {
         data \<leftarrow> load_bytes b (Descriptor + OFFSET_Desc_Data) len;
         ldata \<leftarrow> load_bytes lb (ListDescriptor + OFFSET_Desc_Data) len;
         Some (data = ldata) } } }"

primrec PldmFwDescriptorIsInList ::
    "byte list \<Rightarrow> nat \<Rightarrow> byte list \<Rightarrow> nat \<Rightarrow> nat \<Rightarrow> bool option" where
  "PldmFwDescriptorIsInList b Descriptor lb List 0 = Some False"
| "PldmFwDescriptorIsInList b Descriptor lb List (Suc Count) = do {
     eq \<leftarrow> DescriptorEq b Descriptor lb List;
     if eq then Some True
     else do {
       next \<leftarrow> PldmFwDescNext lb List;
       PldmFwDescriptorIsInList b Descriptor lb next Count } }"

section \<open>Walks as record areas\<close>

interpretation params: record_area FwParamsEntrySize 25 39
  by unfold_locales (auto simp: FwParamsEntrySize_def bind_eq_Some_conv layout)

interpretation desc: record_area DescSize 4 4
  by unfold_locales (auto simp: DescSize_def bind_eq_Some_conv layout dest: load16_bound)

section \<open>The parameter table of an accepted response\<close>

lemma FwParamsLengthLoop_append:
  "FwParamsLengthLoop r (xs @ ys) n = do { m \<leftarrow> FwParamsLengthLoop r xs n; FwParamsLengthLoop r ys m }"
  by (induction xs arbitrary: n) (auto split: bind_splits)

lemma FwParamsLengthLoop_nth:
  assumes "FwParamsComponentCount r = Some c" and "PldmFwGetFwParamsComponentTableOffset r = Some t"
    and "n \<le> c"
  shows "FwParamsLengthLoop r [0..<n] t = nth_record (FwParamsEntrySize r) n t"
  using assms(3)
proof (induction n)
  case 0
  then show ?case by simp
next
  case (Suc n)
  then have "PldmFwGetFwParamsComponent r n = nth_record (FwParamsEntrySize r) n t"
    using assms(1,2) by (simp add: PldmFwGetFwParamsComponent_def)
  with Suc show ?case
    by (simp add: FwParamsLengthLoop_append nth_record_Suc_last del: nth_record.simps
        split: bind_splits)
qed

lemma GetFwParamsCheckRsp_SuccessD:
  assumes "PldmFwGetFwParamsCheckRsp r n = Some EFI_SUCCESS"
  obtains c t where "FwParamsComponentCount r = Some c"
    and "PldmFwGetFwParamsComponentTableOffset r = Some t"
    and "nth_record (FwParamsEntrySize r) c t = Some n"
    and "4 < length r" "r ! 4 = PLDM_SUCCESS"
proof -
  from assms obtain c t where ct: "FwParamsComponentCount r = Some c"
      "PldmFwGetFwParamsComponentTableOffset r = Some t" "FwParamsLengthLoop r [0..<c] t = Some n"
      "PldmFwCheckRspCompletion r = Some EFI_SUCCESS"
    by (auto simp: PldmFwGetFwParamsCheckRsp_def bind_eq_Some_conv split: if_splits)
  moreover have "4 < length r" "r ! 4 = PLDM_SUCCESS"
    using ct(4) by (auto simp: PldmFwCheckRspCompletion_def bind_eq_Some_conv split: if_splits)
  ultimately show ?thesis
    using that FwParamsLengthLoop_nth [OF ct(1,2), of c] by simp
qed

lemma GetFwParamsComponent_checked:
  assumes "PldmFwGetFwParamsCheckRsp r n = Some EFI_SUCCESS"
    and "FwParamsComponentCount r = Some c" and "i < c"
  shows "\<exists>e k. PldmFwGetFwParamsComponent r i = Some e \<and> FwParamsEntrySize r e = Some k
     \<and> 39 \<le> k \<and> e + k \<le> n"
proof -
  from assms(1,2) obtain t where t: "PldmFwGetFwParamsComponentTableOffset r = Some t"
      "nth_record (FwParamsEntrySize r) c t = Some n"
    by (auto elim: GetFwParamsCheckRsp_SuccessD)
  obtain e' where e': "nth_record (FwParamsEntrySize r) (Suc i) t = Some e'" "e' \<le> n"
    using nth_record_prefix [OF t(2), of "Suc i"] assms(3) by auto
  then obtain e k where "nth_record (FwParamsEntrySize r) i t = Some e"
      "FwParamsEntrySize r e = Some k" "e' = e + k"
    by (auto simp only: nth_record_Suc_last bind_eq_Some_conv)
  with e' t assms(2,3) show ?thesis
    by (auto simp: PldmFwGetFwParamsComponent_def dest: params.sz_bounds)
qed

section \<open>The search for a matching component\<close>

definition ComponentKey :: "byte list \<Rightarrow> nat \<Rightarrow> (nat \<times> nat) option" where
  "ComponentKey r i = do {
     e \<leftarrow> PldmFwGetFwParamsComponent r i;
     c \<leftarrow> load16 r (e + OFFSET_Entry_Classification);
     d \<leftarrow> load16 r (e + OFFSET_Entry_Id);
     Some (c, d) }"

lemma FwParamsMatchLoop_find:
  assumes "\<And>i. i \<in> set is \<Longrightarrow> ComponentKey r i \<noteq> None"
  shows "FwParamsMatchLoop r cl d is =
    Some (case find (\<lambda>i. ComponentKey r i = Some (cl, d)) is of
            None \<Rightarrow> (0, None) | Some i \<Rightarrow> (i, PldmFwGetFwParamsComponent r i))"
  using assms
proof (induction "is")
  case Nil
  then show ?case by simp
next
  case (Cons i "is")
  then obtain e c' d' where "PldmFwGetFwParamsComponent r i = Some e"
      "load16 r (e + OFFSET_Entry_Classification) = Some c'" "load16 r (e + OFFSET_Entry_Id) = Some d'"
    by (fastforce simp: ComponentKey_def bind_eq_None_conv)
  with Cons show ?case by (auto simp: ComponentKey_def)
qed

section \<open>Descriptor lists\<close>

text \<open>
  What a run of descriptors says: the list of their types and data. Searching a decodable list is
  membership in it.
\<close>

definition DescriptorAt :: "byte list \<Rightarrow> nat \<Rightarrow> (nat \<times> byte list) option" where
  "DescriptorAt b d = do {
     t \<leftarrow> load16 b (d + OFFSET_Desc_Type);
     n \<leftarrow> load16 b (d + OFFSET_Desc_Length);
     xs \<leftarrow> load_bytes b (d + OFFSET_Desc_Data) n;
     Some (t, xs) }"

primrec DescriptorsAt :: "byte list \<Rightarrow> nat \<Rightarrow> nat \<Rightarrow> (nat \<times> byte list) list option" where
  "DescriptorsAt b d 0 = Some []"
| "DescriptorsAt b d (Suc n) = do {
     x \<leftarrow> DescriptorAt b d;
     xs \<leftarrow> DescriptorsAt b (d + OFFSET_Desc_Data + length (snd x)) n;
     Some (x # xs) }"

lemma DescriptorEq_decoded:
  assumes "DescriptorAt b d = Some x" and "DescriptorAt lb l = Some y"
  shows "DescriptorEq b d lb l = Some (x = y)"
proof -
  obtain t n xs t' n' ys where
      "load16 b (d + OFFSET_Desc_Type) = Some t" "load16 lb (l + OFFSET_Desc_Type) = Some t'"
      "load16 b (d + OFFSET_Desc_Length) = Some n" "load16 lb (l + OFFSET_Desc_Length) = Some n'"
      "load_bytes b (d + OFFSET_Desc_Data) n = Some xs" "x = (t, xs)"
      "load_bytes lb (l + OFFSET_Desc_Data) n' = Some ys" "y = (t', ys)"
    using assms by (auto simp: DescriptorAt_def bind_eq_Some_conv)
  moreover from this have "length xs = n" "length ys = n'"
    by (auto dest: load_bytes_length)
  ultimately show ?thesis by (auto simp: DescriptorEq_def)
qed

lemma DescNext_decoded:
  assumes "DescriptorAt b d = Some x"
  shows "PldmFwDescNext b d = Some (d + OFFSET_Desc_Data + length (snd x))"
    "DescSize b d = Some (OFFSET_Desc_Data + length (snd x))"
  using assms by (auto simp: DescriptorAt_def PldmFwDescNext_def DescSize_def bind_eq_Some_conv
      dest: load_bytes_length)

lemma DescriptorIsInList_decoded:
  assumes "DescriptorAt b d = Some x" and "DescriptorsAt lb l n = Some xs"
  shows "PldmFwDescriptorIsInList b d lb l n = Some (x \<in> set xs)"
  using assms(2)
proof (induction n arbitrary: l xs)
  case 0
  then show ?case by simp
next
  case (Suc n)
  then obtain y ys where "DescriptorAt lb l = Some y" "xs = y # ys"
      "DescriptorsAt lb (l + OFFSET_Desc_Data + length (snd y)) n = Some ys"
    by (auto simp: bind_eq_Some_conv)
  with Suc.IH assms(1) show ?case
    by (auto simp: DescriptorEq_decoded DescNext_decoded)
qed

lemma DescriptorsAt_nth_record:
  "DescriptorsAt b d n = Some xs \<Longrightarrow>
     nth_record (DescSize b) n d = Some (d + sum_list (map (\<lambda>x. OFFSET_Desc_Data + length (snd x)) xs))
     \<and> length xs = n"
  by (induction n arbitrary: d xs) (auto simp: bind_eq_Some_conv DescNext_decoded add.assoc)

section \<open>Properties\<close>

text \<open>
  Once \<open>PldmFwGetFwParamsCheckRsp\<close> accepts a response, every entry its component count
  promises exists and ends within the response, and the search of
  \<open>PldmFwGetNextFwParamsMatchingComponent\<close> is total: it returns the first entry from the given
  index on with the given classification and id, or \<open>NULL\<close> and index 0.
\<close>

theorem accepted_params_search:
  assumes "PldmFwGetFwParamsCheckRsp r n = Some EFI_SUCCESS" and "n \<le> length r"
    and "FwParamsComponentCount r = Some c"
  shows "(\<forall>i < c. \<exists>e k. PldmFwGetFwParamsComponent r i = Some e \<and> FwParamsEntrySize r e = Some k
       \<and> e + k \<le> n)
    \<and> PldmFwGetNextFwParamsMatchingComponent r s cl d = Some
       (case find (\<lambda>i. ComponentKey r i = Some (cl, d)) [s..<c] of
          None \<Rightarrow> (0, None) | Some i \<Rightarrow> (i, PldmFwGetFwParamsComponent r i))"
proof
  show entries: "\<forall>i < c. \<exists>e k. PldmFwGetFwParamsComponent r i = Some e
      \<and> FwParamsEntrySize r e = Some k \<and> e + k \<le> n"
    using GetFwParamsComponent_checked [OF assms(1,3)] by blast
  have "ComponentKey r i \<noteq> None" if "i \<in> set [s..<c]" for i
  proof -
    obtain e k where e: "PldmFwGetFwParamsComponent r i = Some e" "e + k \<le> n" "39 \<le> k"
      using GetFwParamsComponent_checked [OF assms(1,3), of i] \<open>i \<in> _\<close> by auto
    with assms(2) obtain x y where "load16 r (e + OFFSET_Entry_Classification) = Some x"
        "load16 r (e + OFFSET_Entry_Id) = Some y"
      using load16_total [of "e + OFFSET_Entry_Classification" r]
        load16_total [of "e + OFFSET_Entry_Id" r] by (auto simp: layout)
    with e show ?thesis by (simp add: ComponentKey_def)
  qed
  then show "PldmFwGetNextFwParamsMatchingComponent r s cl d = Some
       (case find (\<lambda>i. ComponentKey r i = Some (cl, d)) [s..<c] of
          None \<Rightarrow> (0, None) | Some i \<Rightarrow> (i, PldmFwGetFwParamsComponent r i))"
    using FwParamsMatchLoop_find [of "[s..<c]" r cl d] assms(3)
    by (simp add: PldmFwGetNextFwParamsMatchingComponent_def)
qed

definition exampleParams :: "byte list" where
  "exampleParams = [1, 2, 5, 2, 0, 0, 0, 0, 0, 1, 0, 0, 0, 0, 0]
     @ [10, 0, 7, 0, 3, 0, 0, 0, 0, 0, 0] @ replicate 28 0"

theorem accepted_params_search_witness:
  "PldmFwGetFwParamsCheckRsp exampleParams 54 = Some EFI_SUCCESS
    \<and> PldmFwGetNextFwParamsMatchingComponent exampleParams 0 10 7 = Some (0, Some 15)"
proof -
  have ok: "PldmFwGetFwParamsCheckRsp exampleParams 54 = Some EFI_SUCCESS"
      "FwParamsComponentCount exampleParams = Some 1" "54 \<le> length exampleParams"
      "ComponentKey exampleParams 0 = Some (10, 7)" "PldmFwGetFwParamsComponent exampleParams 0 = Some 15"
    by code_simp+
  with accepted_params_search [OF ok(1,3,2), of 0 10 7] show ?thesis by simp
qed

text \<open>
  On a readable descriptor list \<open>PldmFwDescriptorIsInList\<close> decides membership: descriptors
  are compared by type and data, and their encodings in the two buffers do not matter.
\<close>

theorem IsInList_membership:
  assumes "DescriptorAt b d = Some x" and "DescriptorsAt lb l n = Some xs"
  shows "PldmFwDescriptorIsInList b d lb l n = Some (x \<in> set xs)"
  using assms by (rule DescriptorIsInList_decoded)

theorem IsInList_membership_witness:
  "PldmFwDescriptorIsInList [0, 0, 1, 0, 0xAA] 0 [2, 0, 1, 0, 0xAA, 0, 0, 1, 0, 0xAA] 0 2 = Some True"
proof -
  have "DescriptorAt [0, 0, 1, 0, 0xAA] 0 = Some (0, [0xAA])"
      "DescriptorsAt [2, 0, 1, 0, 0xAA, 0, 0, 1, 0, 0xAA] 0 2 = Some [(2, [0xAA]), (0, [0xAA])]"
    by code_simp+
  then show ?thesis by (simp add: IsInList_membership)
qed

end
