(* ===== verification/PldmFwPkg.thy ===== *)
theory PldmFwPkg
  imports PldmFwUpdate
begin

text \<open>
  \<open>PldmFwUpdatePkgLib.c\<close>: the header of a PLDM firmware update package, its device id area and
  component image area, the match of a package against a device's descriptors, and the
  validation every package goes through. A package is the byte list that starts at \<open>Hdr\<close>, and a
  pointer into it an offset. \<open>CalculateCrc32\<close> belongs to another repository and is the argument
  \<open>crc32\<close>.
\<close>

section \<open>Layout\<close>

definition OFFSET_Hdr_FormatRevision :: nat where [layout]: "OFFSET_Hdr_FormatRevision = 16"
definition OFFSET_Hdr_Size :: nat where [layout]: "OFFSET_Hdr_Size = 17"
definition OFFSET_Hdr_ComponentBitmapBitLength :: nat
  where [layout]: "OFFSET_Hdr_ComponentBitmapBitLength = 32"
definition OFFSET_Hdr_VersionStringType :: nat where [layout]: "OFFSET_Hdr_VersionStringType = 34"
definition OFFSET_Hdr_VersionStringLength :: nat where [layout]: "OFFSET_Hdr_VersionStringLength = 35"
definition OFFSET_Hdr_VersionString :: nat where [layout]: "OFFSET_Hdr_VersionString = 36"
definition sizeof_PLDM_FW_PKG_HDR :: nat where [layout]: "sizeof_PLDM_FW_PKG_HDR = 37"

definition OFFSET_Area_RecordCount :: nat where [layout]: "OFFSET_Area_RecordCount = 0"
definition OFFSET_Area_Records :: nat where [layout]: "OFFSET_Area_Records = 1"

definition OFFSET_Record_Length :: nat where [layout]: "OFFSET_Record_Length = 0"
definition OFFSET_Record_DescriptorCount :: nat where [layout]: "OFFSET_Record_DescriptorCount = 2"
definition OFFSET_Record_ImageSetVersionStringType :: nat
  where [layout]: "OFFSET_Record_ImageSetVersionStringType = 7"
definition OFFSET_Record_ImageSetVersionStringLength :: nat
  where [layout]: "OFFSET_Record_ImageSetVersionStringLength = 8"
definition OFFSET_Record_PackageDataLength :: nat
  where [layout]: "OFFSET_Record_PackageDataLength = 9"
definition OFFSET_Record_ApplicableComponents :: nat
  where [layout]: "OFFSET_Record_ApplicableComponents = 11"

definition OFFSET_ImageArea_ImageCount :: nat where [layout]: "OFFSET_ImageArea_ImageCount = 0"
definition OFFSET_ImageArea_ImageInfo :: nat where [layout]: "OFFSET_ImageArea_ImageInfo = 2"

definition OFFSET_Image_Classification :: nat where [layout]: "OFFSET_Image_Classification = 0"
definition OFFSET_Image_Id :: nat where [layout]: "OFFSET_Image_Id = 2"
definition OFFSET_Image_ComparisonStamp :: nat where [layout]: "OFFSET_Image_ComparisonStamp = 4"
definition OFFSET_Image_RequestedActivationMethod :: nat
  where [layout]: "OFFSET_Image_RequestedActivationMethod = 10"
definition OFFSET_Image_LocationOffset :: nat where [layout]: "OFFSET_Image_LocationOffset = 12"
definition OFFSET_Image_Size :: nat where [layout]: "OFFSET_Image_Size = 16"
definition OFFSET_Image_VersionStringType :: nat where [layout]: "OFFSET_Image_VersionStringType = 20"
definition OFFSET_Image_VersionStringLength :: nat
  where [layout]: "OFFSET_Image_VersionStringLength = 21"
definition OFFSET_Image_VersionString :: nat where [layout]: "OFFSET_Image_VersionString = 22"

definition mPldmGuidV1_0 :: "byte list" where
  "mPldmGuidV1_0 = [0xF0, 0x18, 0x87, 0x8C, 0xCB, 0x7D, 0x49, 0x43,
                    0x98, 0x00, 0xA0, 0x2F, 0x05, 0x9A, 0xCA, 0x02]"
definition mPldmGuidV1_1 :: "byte list" where
  "mPldmGuidV1_1 = [0x12, 0x44, 0xd2, 0x64, 0x8d, 0x7d, 0x47, 0x18,
                    0xa0, 0x30, 0xfc, 0x8a, 0x56, 0x58, 0x7d, 0x5a]"

section \<open>The device id area\<close>

definition PldmFwPkgGetFwDeviceIdArea :: "byte list \<Rightarrow> nat option" where
  "PldmFwPkgGetFwDeviceIdArea Hdr = do {
     len \<leftarrow> load8 Hdr OFFSET_Hdr_VersionStringLength;
     Some (OFFSET_Hdr_VersionString + unat len) }"

definition RecordLength :: "byte list \<Rightarrow> nat \<Rightarrow> nat option" where
  "RecordLength Hdr Record = load16 Hdr (Record + OFFSET_Record_Length)"

definition PldmFwPkgGetNextDeviceIdRecord :: "byte list \<Rightarrow> nat \<Rightarrow> nat option" where
  "PldmFwPkgGetNextDeviceIdRecord Hdr Record = do {
     len \<leftarrow> RecordLength Hdr Record;
     Some (Record + len) }"

definition PldmFwPkgGetDeviceIdAreaSize :: "byte list \<Rightarrow> nat \<Rightarrow> nat option" where
  "PldmFwPkgGetDeviceIdAreaSize Hdr DeviceIdArea = do {
     count \<leftarrow> load8 Hdr (DeviceIdArea + OFFSET_Area_RecordCount);
     sum_records (RecordLength Hdr) (unat count) (DeviceIdArea + OFFSET_Area_Records)
       OFFSET_Area_Records }"

text \<open>The inner \<open>None\<close> is the \<open>NULL\<close> the function returns for a revision 1 package.\<close>

definition PldmFwPkgGetDownstreamDeviceIdArea :: "byte list \<Rightarrow> nat option option" where
  "PldmFwPkgGetDownstreamDeviceIdArea Hdr = do {
     rev \<leftarrow> load8 Hdr OFFSET_Hdr_FormatRevision;
     if rev < 2 then Some None
     else do {
       FwDeviceIdArea \<leftarrow> PldmFwPkgGetFwDeviceIdArea Hdr;
       AreaSize \<leftarrow> PldmFwPkgGetDeviceIdAreaSize Hdr FwDeviceIdArea;
       Some (Some (FwDeviceIdArea + AreaSize)) } }"

definition PldmFwPkgGetDeviceIdRecordImageSetVersionString :: "byte list \<Rightarrow> nat \<Rightarrow> nat option" where
  "PldmFwPkgGetDeviceIdRecordImageSetVersionString Hdr Record = do {
     bits \<leftarrow> load16 Hdr OFFSET_Hdr_ComponentBitmapBitLength;
     Some (Record + OFFSET_Record_ApplicableComponents + bits div 8) }"

definition PldmFwPkgGetFwDeviceIdRecordDescriptors :: "byte list \<Rightarrow> nat \<Rightarrow> nat option" where
  "PldmFwPkgGetFwDeviceIdRecordDescriptors Hdr Record = do {
     ptr \<leftarrow> PldmFwPkgGetDeviceIdRecordImageSetVersionString Hdr Record;
     len \<leftarrow> load8 Hdr (Record + OFFSET_Record_ImageSetVersionStringLength);
     Some (ptr + unat len) }"

section \<open>The component image area\<close>

definition PldmFwPkgGetComponentImageInfoArea :: "byte list \<Rightarrow> nat option" where
  "PldmFwPkgGetComponentImageInfoArea Hdr = do {
     down \<leftarrow> PldmFwPkgGetDownstreamDeviceIdArea Hdr;
     fw \<leftarrow> PldmFwPkgGetFwDeviceIdArea Hdr;
     let DeviceIdArea = (case down of None \<Rightarrow> fw | Some d \<Rightarrow> d);
     AreaSize \<leftarrow> PldmFwPkgGetDeviceIdAreaSize Hdr DeviceIdArea;
     Some (DeviceIdArea + AreaSize) }"

definition PldmFwPkgGetComponentImageInfoSize :: "byte list \<Rightarrow> nat \<Rightarrow> nat option" where
  "PldmFwPkgGetComponentImageInfoSize Hdr ImageInfo = do {
     len \<leftarrow> load8 Hdr (ImageInfo + OFFSET_Image_VersionStringLength);
     Some (OFFSET_Image_VersionString + unat len) }"

definition PldmFwPkgGetNextComponentImage :: "byte list \<Rightarrow> nat \<Rightarrow> nat option" where
  "PldmFwPkgGetNextComponentImage Hdr ImageInfo = do {
     size \<leftarrow> PldmFwPkgGetComponentImageInfoSize Hdr ImageInfo;
     Some (ImageInfo + size) }"

definition PldmFwPkgGetComponentImageInfoAreaSize :: "byte list \<Rightarrow> nat \<Rightarrow> nat option" where
  "PldmFwPkgGetComponentImageInfoAreaSize Hdr ImageInfoArea = do {
     count \<leftarrow> load16 Hdr (ImageInfoArea + OFFSET_ImageArea_ImageCount);
     sum_records (PldmFwPkgGetComponentImageInfoSize Hdr) count
       (ImageInfoArea + OFFSET_ImageArea_ImageInfo) OFFSET_ImageArea_ImageInfo }"

section \<open>Matching a package with a device\<close>

text \<open>
  The inner loop of \<open>PldmFwPkgMatchesFD\<close> returns the negation of \<open>Mismatch\<close>; the outer one the
  record the function stores into \<open>*FwDeviceRecord\<close> when it returns \<open>TRUE\<close>. The device's own
  descriptors lie in another buffer, its response to QueryDeviceIdentifiers.
\<close>

primrec RecordMatchesLoop ::
    "byte list \<Rightarrow> nat \<Rightarrow> byte list \<Rightarrow> nat \<Rightarrow> nat \<Rightarrow> nat \<Rightarrow> bool option" where
  "RecordMatchesLoop Hdr DescriptorCount Fd FwDescriptors 0 Descriptor = Some True"
| "RecordMatchesLoop Hdr DescriptorCount Fd FwDescriptors (Suc n) Descriptor = do {
     found \<leftarrow> PldmFwDescriptorIsInList Hdr Descriptor Fd FwDescriptors DescriptorCount;
     if \<not> found then Some False
     else do {
       next \<leftarrow> PldmFwDescNext Hdr Descriptor;
       RecordMatchesLoop Hdr DescriptorCount Fd FwDescriptors n next } }"

primrec MatchesFDLoop ::
    "byte list \<Rightarrow> nat \<Rightarrow> byte list \<Rightarrow> nat \<Rightarrow> nat \<Rightarrow> nat \<Rightarrow> nat option option" where
  "MatchesFDLoop Hdr DescriptorCount Fd FwDescriptors 0 Record = Some None"
| "MatchesFDLoop Hdr DescriptorCount Fd FwDescriptors (Suc n) Record = do {
     Descriptor \<leftarrow> PldmFwPkgGetFwDeviceIdRecordDescriptors Hdr Record;
     count \<leftarrow> load8 Hdr (Record + OFFSET_Record_DescriptorCount);
     match \<leftarrow> RecordMatchesLoop Hdr DescriptorCount Fd FwDescriptors (unat count) Descriptor;
     if match then Some (Some Record)
     else do {
       next \<leftarrow> PldmFwPkgGetNextDeviceIdRecord Hdr Record;
       MatchesFDLoop Hdr DescriptorCount Fd FwDescriptors n next } }"

definition PldmFwPkgMatchesFD :: "byte list \<Rightarrow> nat \<Rightarrow> byte list \<Rightarrow> nat \<Rightarrow> nat option option" where
  "PldmFwPkgMatchesFD Hdr DescriptorCount Fd FwDescriptors = do {
     FwDeviceIdArea \<leftarrow> PldmFwPkgGetFwDeviceIdArea Hdr;
     count \<leftarrow> load8 Hdr (FwDeviceIdArea + OFFSET_Area_RecordCount);
     MatchesFDLoop Hdr DescriptorCount Fd FwDescriptors (unat count)
       (FwDeviceIdArea + OFFSET_Area_Records) }"

definition PldmFwPkgComponentIsApplicable :: "nat \<Rightarrow> byte list \<Rightarrow> nat \<Rightarrow> bool option" where
  "PldmFwPkgComponentIsApplicable ComponentIndex Hdr Record = do {
     let Byte = ComponentIndex div 8;
     bits \<leftarrow> load16 Hdr OFFSET_Hdr_ComponentBitmapBitLength;
     if \<not> Byte < bits div 8 then None
     else do {
       let Bit = ComponentIndex mod 8;
       b \<leftarrow> load8 Hdr (Record + OFFSET_Record_ApplicableComponents + Byte);
       Some (b AND push_bit Bit 1 \<noteq> 0) } }"

section \<open>Validation\<close>

primrec ImageSizesLoop :: "byte list \<Rightarrow> nat \<Rightarrow> nat \<Rightarrow> nat \<Rightarrow> nat option" where
  "ImageSizesLoop Hdr 0 ImageInfo PkgLength = Some PkgLength"
| "ImageSizesLoop Hdr (Suc n) ImageInfo PkgLength = do {
     size \<leftarrow> load32 Hdr (ImageInfo + OFFSET_Image_Size);
     next \<leftarrow> PldmFwPkgGetNextComponentImage Hdr ImageInfo;
     ImageSizesLoop Hdr n next (PkgLength + size) }"

text \<open>The header length the walk over both device id areas and the image area adds up to.\<close>

definition HdrPkgLength :: "byte list \<Rightarrow> nat option" where
  "HdrPkgLength Hdr = do {
     vlen \<leftarrow> load8 Hdr OFFSET_Hdr_VersionStringLength;
     FwDeviceIdArea \<leftarrow> PldmFwPkgGetFwDeviceIdArea Hdr;
     fwSize \<leftarrow> PldmFwPkgGetDeviceIdAreaSize Hdr FwDeviceIdArea;
     down \<leftarrow> PldmFwPkgGetDownstreamDeviceIdArea Hdr;
     downSize \<leftarrow> (case down of None \<Rightarrow> Some 0 | Some d \<Rightarrow> PldmFwPkgGetDeviceIdAreaSize Hdr d);
     ImageInfoArea \<leftarrow> PldmFwPkgGetComponentImageInfoArea Hdr;
     imgSize \<leftarrow> PldmFwPkgGetComponentImageInfoAreaSize Hdr ImageInfoArea;
     Some (OFFSET_Hdr_VersionString + unat vlen + fwSize + downSize + imgSize + 4) }"

definition PkgGuid :: "byte \<Rightarrow> byte list option" where
  "PkgGuid FormatRevision =
     (if FormatRevision = 1 then Some mPldmGuidV1_0
      else if FormatRevision = 2 then Some mPldmGuidV1_1 else None)"

text \<open>
  \<open>Hdr->Size - sizeof (UINT32)\<close> wraps for a \<open>Size\<close> below four; the CRC is then taken over nearly
  the whole address space, so that the model has no result.
\<close>

definition PldmFwPkgHdrValidate ::
    "(byte list \<Rightarrow> nat) \<Rightarrow> byte list \<Rightarrow> nat \<Rightarrow> EFI_STATUS option" where
  "PldmFwPkgHdrValidate crc32 Hdr Length =
     (if Length < sizeof_PLDM_FW_PKG_HDR then Some EFI_BAD_BUFFER_SIZE
      else do {
        Size \<leftarrow> load16 Hdr OFFSET_Hdr_Size;
        if Length < Size then Some EFI_BAD_BUFFER_SIZE
        else do {
          rev \<leftarrow> load8 Hdr OFFSET_Hdr_FormatRevision;
          ident \<leftarrow> load_bytes Hdr 0 16;
          case PkgGuid rev of
            None \<Rightarrow> Some EFI_UNSUPPORTED
          | Some PldmGuid \<Rightarrow>
              if ident \<noteq> PldmGuid then Some EFI_UNSUPPORTED
              else if Size < 4 then None
              else do {
                let CrcOffset = Size - 4;
                HdrCrc \<leftarrow> load32 Hdr CrcOffset;
                body \<leftarrow> load_bytes Hdr 0 CrcOffset;
                if HdrCrc \<noteq> crc32 body then Some EFI_CRC_ERROR
                else do {
                  bits \<leftarrow> load16 Hdr OFFSET_Hdr_ComponentBitmapBitLength;
                  if bits mod 8 \<noteq> 0 then Some EFI_UNSUPPORTED
                  else do {
                  PkgLength \<leftarrow> HdrPkgLength Hdr;
                  if PkgLength \<noteq> Size then Some EFI_UNSUPPORTED
                  else do {
                    ImageInfoArea \<leftarrow> PldmFwPkgGetComponentImageInfoArea Hdr;
                    count \<leftarrow> load16 Hdr (ImageInfoArea + OFFSET_ImageArea_ImageCount);
                    total \<leftarrow> ImageSizesLoop Hdr count
                      (ImageInfoArea + OFFSET_ImageArea_ImageInfo) PkgLength;
                    if total \<noteq> Length then Some EFI_UNSUPPORTED
                    else Some EFI_SUCCESS } } } } } })"

section \<open>Walks as record areas\<close>

interpretation device_record: record_area RecordLength 2 0
  by unfold_locales (auto simp: RecordLength_def layout dest: load16_bound)

interpretation image: record_area PldmFwPkgGetComponentImageInfoSize 22 22
  by unfold_locales (auto simp: PldmFwPkgGetComponentImageInfoSize_def bind_eq_Some_conv layout)

section \<open>The layout a valid package has\<close>

text \<open>
  The declarative reading of the header, to which validation is compared: each area starts where
  the one before it ends.
\<close>

definition AreaEnd :: "byte list \<Rightarrow> nat \<Rightarrow> nat \<Rightarrow> bool" where
  "AreaEnd p a e \<longleftrightarrow>
     (\<exists>n. load8 p a = Some n \<and> nth_record (RecordLength p) (unat n) (a + 1) = Some e)"

definition DeviceAreasEnd :: "byte list \<Rightarrow> nat \<Rightarrow> bool" where
  "DeviceAreasEnd p e \<longleftrightarrow>
     (\<exists>rev v fw. load8 p OFFSET_Hdr_FormatRevision = Some rev
        \<and> load8 p OFFSET_Hdr_VersionStringLength = Some v
        \<and> AreaEnd p (OFFSET_Hdr_VersionString + unat v) fw
        \<and> (if rev < 2 then e = fw else AreaEnd p fw e))"

primrec ImagesAt :: "byte list \<Rightarrow> nat \<Rightarrow> nat \<Rightarrow> (nat \<times> nat) list option" where
  "ImagesAt p x 0 = Some []"
| "ImagesAt p x (Suc n) = do {
     size \<leftarrow> load32 p (x + OFFSET_Image_Size);
     next \<leftarrow> PldmFwPkgGetNextComponentImage p x;
     xs \<leftarrow> ImagesAt p next n;
     Some ((x, size) # xs) }"

text \<open>\<open>imgs\<close> are the offset and the \<open>Size\<close> of each image information record.\<close>

definition PkgWellFormed :: "(byte list \<Rightarrow> nat) \<Rightarrow> byte list \<Rightarrow> nat \<Rightarrow> nat \<Rightarrow> (nat \<times> nat) list \<Rightarrow> bool"
where
  "PkgWellFormed crc32 p sz ia imgs \<longleftrightarrow>
     37 \<le> length p \<and> load16 p OFFSET_Hdr_Size = Some sz \<and> 4 \<le> sz
     \<and> PkgGuid (p ! 16) = Some (take 16 p)
     \<and> (\<exists>bits. load16 p OFFSET_Hdr_ComponentBitmapBitLength = Some bits \<and> 8 dvd bits)
     \<and> load32 p (sz - 4) = Some (crc32 (take (sz - 4) p))
     \<and> DeviceAreasEnd p ia
     \<and> load16 p ia = Some (length imgs)
     \<and> ImagesAt p (ia + 2) (length imgs) = Some imgs
     \<and> nth_record (PldmFwPkgGetComponentImageInfoSize p) (length imgs) (ia + 2) = Some (sz - 4)
     \<and> length p = sz + sum_list (map snd imgs)"

lemma AreaSize_iff:
  "PldmFwPkgGetDeviceIdAreaSize p a = Some k \<longleftrightarrow> AreaEnd p a (a + k)"
  by (auto simp: PldmFwPkgGetDeviceIdAreaSize_def AreaEnd_def bind_eq_Some_conv sum_records_area
      layout simp del: One_nat_def add_Suc_right)

lemma AreaEnd_ge: "AreaEnd p a e \<Longrightarrow> a < e"
  using device_record.nth_record_ge by (fastforce simp: AreaEnd_def)

lemma AreaEnd_unique: "AreaEnd p a e \<Longrightarrow> AreaEnd p a e' \<Longrightarrow> e = e'"
  by (auto simp: AreaEnd_def)

lemma AreaEnd_size: "AreaEnd p a e \<longleftrightarrow> (\<exists>k. e = a + k \<and> PldmFwPkgGetDeviceIdAreaSize p a = Some k)"
  by (metis AreaEnd_ge AreaSize_iff le_add_diff_inverse less_imp_le)

lemma ComponentImageInfoArea_iff:
  "PldmFwPkgGetComponentImageInfoArea p = Some ia \<longleftrightarrow> DeviceAreasEnd p ia"
  unfolding PldmFwPkgGetComponentImageInfoArea_def PldmFwPkgGetDownstreamDeviceIdArea_def
    PldmFwPkgGetFwDeviceIdArea_def DeviceAreasEnd_def
  by (auto simp: bind_eq_Some_conv AreaEnd_size Let_def)

lemma HdrPkgLength_iff:
  "HdrPkgLength p = Some L \<longleftrightarrow>
     (\<exists>ia n e. DeviceAreasEnd p ia \<and> load16 p ia = Some n
        \<and> nth_record (PldmFwPkgGetComponentImageInfoSize p) n (ia + 2) = Some e \<and> L = e + 4)"
  (is "?l \<longleftrightarrow> ?r")
proof -
  have img: "PldmFwPkgGetComponentImageInfoAreaSize p ia = Some k \<longleftrightarrow>
      (\<exists>n. load16 p ia = Some n
        \<and> nth_record (PldmFwPkgGetComponentImageInfoSize p) n (ia + 2) = Some (ia + k))" for ia k
    by (auto simp: PldmFwPkgGetComponentImageInfoAreaSize_def bind_eq_Some_conv sum_records_area
        layout simp del: add_2_eq_Suc')
  have "?l \<longleftrightarrow> (\<exists>ia k. PldmFwPkgGetComponentImageInfoArea p = Some ia
      \<and> PldmFwPkgGetComponentImageInfoAreaSize p ia = Some k \<and> L = ia + k + 4)"
    unfolding HdrPkgLength_def PldmFwPkgGetComponentImageInfoArea_def
      PldmFwPkgGetDownstreamDeviceIdArea_def PldmFwPkgGetFwDeviceIdArea_def
    by (auto simp: bind_eq_Some_conv Let_def)
  also have "\<dots> \<longleftrightarrow> ?r"
    unfolding ComponentImageInfoArea_iff img
  proof (intro iffI; elim exE conjE)
    fix ia n e
    assume a: "DeviceAreasEnd p ia" "load16 p ia = Some n" "L = e + 4"
      "nth_record (PldmFwPkgGetComponentImageInfoSize p) n (ia + 2) = Some e"
    then have "e = ia + (e - ia)" using nth_record_le [OF a(4)] by simp
    with a show "\<exists>ia k. DeviceAreasEnd p ia \<and> (\<exists>n. load16 p ia = Some n
        \<and> nth_record (PldmFwPkgGetComponentImageInfoSize p) n (ia + 2) = Some (ia + k)) \<and> L = ia + k + 4"
      by metis
  qed blast
  finally show ?thesis .
qed

lemma ImageSizesLoop_ImagesAt:
  "ImageSizesLoop p n x L = map_option (\<lambda>xs. L + sum_list (map snd xs)) (ImagesAt p x n)"
  by (induction n arbitrary: x L) (auto simp: option.map_comp comp_def add.assoc split: bind_splits
      intro!: option.map_cong)

lemma ImagesAt_length: "ImagesAt p x n = Some xs \<Longrightarrow> length xs = n"
  by (induction n arbitrary: x xs) (auto simp: bind_eq_Some_conv)

lemma ImagesAt_nth:
  assumes "ImagesAt p x n = Some xs" and "i < n"
  shows "nth_record (PldmFwPkgGetComponentImageInfoSize p) i x = Some (fst (xs ! i))
    \<and> load32 p (fst (xs ! i) + OFFSET_Image_Size) = Some (snd (xs ! i))"
  using assms
proof (induction n arbitrary: x xs i)
  case 0
  then show ?case by simp
next
  case (Suc n)
  then show ?case
    by (cases i) (auto simp: bind_eq_Some_conv PldmFwPkgGetNextComponentImage_def)
qed

section \<open>Descriptors of the package against those of the device\<close>

definition RecordDescriptors :: "byte list \<Rightarrow> nat \<Rightarrow> (nat \<times> byte list) list option" where
  "RecordDescriptors p r = do {
     d \<leftarrow> PldmFwPkgGetFwDeviceIdRecordDescriptors p r;
     n \<leftarrow> load8 p (r + OFFSET_Record_DescriptorCount);
     DescriptorsAt p d (unat n) }"

primrec RecordsAt :: "byte list \<Rightarrow> nat \<Rightarrow> nat \<Rightarrow> (nat \<times> (nat \<times> byte list) list) list option" where
  "RecordsAt p r 0 = Some []"
| "RecordsAt p r (Suc n) = do {
     ds \<leftarrow> RecordDescriptors p r;
     next \<leftarrow> PldmFwPkgGetNextDeviceIdRecord p r;
     xs \<leftarrow> RecordsAt p next n;
     Some ((r, ds) # xs) }"

definition PkgRecords :: "byte list \<Rightarrow> (nat \<times> (nat \<times> byte list) list) list option" where
  "PkgRecords p = do {
     area \<leftarrow> PldmFwPkgGetFwDeviceIdArea p;
     n \<leftarrow> load8 p (area + OFFSET_Area_RecordCount);
     RecordsAt p (area + OFFSET_Area_Records) (unat n) }"

lemma RecordMatchesLoop_decoded:
  assumes "DescriptorsAt p d n = Some ds" and "DescriptorsAt fb fd c = Some fds"
  shows "RecordMatchesLoop p c fb fd n d = Some (set ds \<subseteq> set fds)"
  using assms(1)
proof (induction n arbitrary: d ds)
  case 0
  then show ?case by simp
next
  case (Suc n)
  then obtain x xs where "DescriptorAt p d = Some x" "ds = x # xs"
      "DescriptorsAt p (d + OFFSET_Desc_Data + length (snd x)) n = Some xs"
    by (auto simp: bind_eq_Some_conv)
  with Suc.IH assms(2) show ?case
    by (simp add: DescriptorIsInList_decoded DescNext_decoded)
qed

lemma MatchesFDLoop_decoded:
  assumes "RecordsAt p r n = Some rs" and "DescriptorsAt fb fd c = Some fds"
  shows "MatchesFDLoop p c fb fd n r =
    Some (map_option fst (find (\<lambda>(r, ds). set ds \<subseteq> set fds) rs))"
  using assms(1)
proof (induction n arbitrary: r rs)
  case 0
  then show ?case by simp
next
  case (Suc n)
  then obtain ds nxt xs d k where r: "rs = (r, ds) # xs"
      "PldmFwPkgGetFwDeviceIdRecordDescriptors p r = Some d"
      "load8 p (r + OFFSET_Record_DescriptorCount) = Some k" "DescriptorsAt p d (unat k) = Some ds"
      "PldmFwPkgGetNextDeviceIdRecord p r = Some nxt" "RecordsAt p nxt n = Some xs"
    by (auto simp: RecordDescriptors_def bind_eq_Some_conv)
  then have "RecordMatchesLoop p c fb fd (unat k) d = Some (set ds \<subseteq> set fds)"
    using assms(2) by (simp add: RecordMatchesLoop_decoded)
  with r Suc.IH show ?case by (simp add: buffer_simps)
qed

section \<open>An example package\<close>

text \<open>
  Revision 1, one device id record with one descriptor, one component image of two bytes. In the
  witnesses the length stands for the checksum function.
\<close>

definition examplePkg :: "byte list" where
  "examplePkg = mPldmGuidV1_0
     @ [1, 83, 0] @ [0, 0, 0, 0, 0, 0, 0, 0, 0, 0, 0, 0, 0] @ [8, 0, 0, 0]
     @ [1] @ [18, 0, 1, 0, 0, 0, 0, 0, 0, 0, 0, 1] @ [0, 0, 2, 0, 0xAA, 0xBB]
     @ [1, 0] @ [10, 0, 7, 0, 0, 0, 0, 0, 0, 0, 0, 0, 83, 0, 0, 0, 2, 0, 0, 0, 0, 0]
     @ [79, 0, 0, 0] @ [0x11, 0x22]"

lemma examplePkg_valid: "PldmFwPkgHdrValidate length examplePkg (length examplePkg) = Some EFI_SUCCESS"
  by code_simp

section \<open>Properties\<close>

lemma single_bit_test: "(b :: byte) AND push_bit n 1 \<noteq> 0 \<longleftrightarrow> bit b n"
  by (simp add: bit_iff_and_push_bit_not_eq_0)

lemma hdr_validate_iff:
  "PldmFwPkgHdrValidate crc32 p (length p) = Some EFI_SUCCESS
     \<longleftrightarrow> (\<exists>sz ia imgs. PkgWellFormed crc32 p sz ia imgs)"
proof
  assume "PldmFwPkgHdrValidate crc32 p (length p) = Some EFI_SUCCESS"
  then obtain sz bits guid ia n total where
      h: "37 \<le> length p" "load16 p OFFSET_Hdr_Size = Some sz" "4 \<le> sz"
        "PkgGuid (p ! 16) = Some guid" "load_bytes p 0 16 = Some guid"
        "load16 p OFFSET_Hdr_ComponentBitmapBitLength = Some bits" "bits mod 8 = 0"
        "sz \<le> length p" "load32 p (sz - 4) = Some (crc32 (take (sz - 4) p))"
      and i: "HdrPkgLength p = Some sz" "DeviceAreasEnd p ia" "load16 p ia = Some n"
        "ImageSizesLoop p n (ia + 2) sz = Some (length p)"
    by (auto simp: PldmFwPkgHdrValidate_def bind_eq_Some_conv ComponentImageInfoArea_iff Let_def
        load_bytes_def layout split: if_splits option.splits)
  from i(4) obtain imgs where imgs: "ImagesAt p (ia + 2) n = Some imgs"
      "length p = sz + sum_list (map snd imgs)"
    by (auto simp: ImageSizesLoop_ImagesAt)
  from i(1-3) have "nth_record (PldmFwPkgGetComponentImageInfoSize p) n (ia + 2) = Some (sz - 4)"
    unfolding HdrPkgLength_iff by (auto simp flip: ComponentImageInfoArea_iff)
  with h i imgs ImagesAt_length [OF imgs(1)] have "PkgWellFormed crc32 p sz ia imgs"
    by (auto simp: PkgWellFormed_def load_bytes_def mod_eq_0_iff_dvd)
  then show "\<exists>sz ia imgs. PkgWellFormed crc32 p sz ia imgs" by blast
next
  assume "\<exists>sz ia imgs. PkgWellFormed crc32 p sz ia imgs"
  then obtain sz ia imgs where w: "PkgWellFormed crc32 p sz ia imgs" by blast
  then have "HdrPkgLength p = Some sz"
    by (force simp: PkgWellFormed_def HdrPkgLength_iff)
  moreover have "PldmFwPkgGetComponentImageInfoArea p = Some ia"
    using w by (simp add: PkgWellFormed_def ComponentImageInfoArea_iff)
  ultimately show "PldmFwPkgHdrValidate crc32 p (length p) = Some EFI_SUCCESS"
    using w by (auto simp: PkgWellFormed_def PldmFwPkgHdrValidate_def ImageSizesLoop_ImagesAt
        load_bytes_def load8_def Let_def layout)
qed

text \<open>
  C19: A package of exactly the buffer's length passes \<open>PldmFwPkgHdrValidate\<close> if and only if it
  has the declared layout: identifier and revision agree, the header checksum holds, the version
  string, the device id areas and the image area tile the header up to its checksum, and the
  image sizes add up to the rest of the package.
\<close>

theorem HdrValidate_iff:
  "PldmFwPkgHdrValidate crc32 p (length p) = Some EFI_SUCCESS
     \<longleftrightarrow> (\<exists>sz ia imgs. PkgWellFormed crc32 p sz ia imgs)"
  by (rule hdr_validate_iff)

text \<open>The example package has the layout; with one image byte less, or with another revision, it has not.\<close>

theorem HdrValidate_iff_witness:
  "(\<exists>sz ia imgs. PkgWellFormed length examplePkg sz ia imgs)
   \<and> \<not> (\<exists>sz ia imgs. PkgWellFormed length (butlast examplePkg) sz ia imgs)
   \<and> \<not> (\<exists>sz ia imgs. PkgWellFormed length (examplePkg[16 := 2]) sz ia imgs)"
proof -
  have "PldmFwPkgHdrValidate length (butlast examplePkg) (length (butlast examplePkg)) \<noteq> Some EFI_SUCCESS"
      "PldmFwPkgHdrValidate length (examplePkg[16 := 2]) (length (examplePkg[16 := 2])) \<noteq> Some EFI_SUCCESS"
    by code_simp+
  with examplePkg_valid show ?thesis by (simp only: HdrValidate_iff simp_thms)
qed

text \<open>
  Validation does not look at the descriptors. The example package with a descriptor of 255 bytes is valid although
  its records cannot be read, and the comparison with a device that reports a descriptor of the same type and length
  leaves the package, whose last bytes agree with those of the device.
\<close>

definition overlongPkg :: "byte list" where
  "overlongPkg = examplePkg[51 := 255]"

theorem valid_package_overread:
  "PldmFwPkgHdrValidate length overlongPkg (length overlongPkg) = Some EFI_SUCCESS
   \<and> PkgRecords overlongPkg = None
   \<and> PldmFwPkgMatchesFD overlongPkg 1 ([0, 0, 255, 0] @ drop 53 overlongPkg @ replicate 223 0) 0 = None"
  by code_simp

text \<open>
  In a package that passed validation every image information record the header counts lies
  inside the header, and the image it describes fits into the part of the package that follows
  the header.
\<close>

theorem validated_images_inside:
  assumes "PldmFwPkgHdrValidate crc32 p (length p) = Some EFI_SUCCESS"
    and "PldmFwPkgGetComponentImageInfoArea p = Some ia" and "load16 p ia = Some n" and "i < n"
  shows "\<exists>sz e k. load16 p OFFSET_Hdr_Size = Some sz
    \<and> nth_record (PldmFwPkgGetComponentImageInfoSize p) i (ia + 2) = Some e
    \<and> load32 p (e + OFFSET_Image_Size) = Some k \<and> e + 22 + 4 \<le> sz \<and> sz + k \<le> length p"
proof -
  from assms(1) obtain sz ia' imgs where w: "PkgWellFormed crc32 p sz ia' imgs"
    by (auto simp: hdr_validate_iff)
  then have "ia' = ia" "length imgs = n"
    using assms(2,3) by (auto simp: PkgWellFormed_def simp flip: ComponentImageInfoArea_iff)
  with w have w: "load16 p OFFSET_Hdr_Size = Some sz" "ImagesAt p (ia + 2) n = Some imgs"
      "nth_record (PldmFwPkgGetComponentImageInfoSize p) n (ia + 2) = Some (sz - 4)" "4 \<le> sz"
      "length p = sz + sum_list (map snd imgs)"
    by (auto simp: PkgWellFormed_def)
  let ?e = "fst (imgs ! i)" and ?k = "snd (imgs ! i)"
  have img: "nth_record (PldmFwPkgGetComponentImageInfoSize p) i (ia + 2) = Some ?e"
      "load32 p (?e + OFFSET_Image_Size) = Some ?k"
    using ImagesAt_nth [OF w(2) assms(4)] by auto
  obtain e' where e': "nth_record (PldmFwPkgGetComponentImageInfoSize p) (Suc i) (ia + 2) = Some e'"
      "e' \<le> sz - 4"
    using nth_record_prefix [OF w(3), of "Suc i"] assms(4) by auto
  then have "?e + 22 \<le> e'"
    using img(1) by (auto simp: nth_record_Suc_last bind_eq_Some_conv simp del: nth_record.simps
        dest: image.sz_bounds)
  moreover have "?k \<in> set (map snd imgs)"
    using assms(4) \<open>length imgs = n\<close> by simp
  then have "?k \<le> sum_list (map snd imgs)" by (rule member_le_sum_list) simp
  ultimately show ?thesis using w e' img by auto
qed

theorem validated_images_inside_witness:
  "\<exists>sz e k. load16 examplePkg OFFSET_Hdr_Size = Some sz
    \<and> nth_record (PldmFwPkgGetComponentImageInfoSize examplePkg) 0 (55 + 2) = Some e
    \<and> load32 examplePkg (e + OFFSET_Image_Size) = Some k \<and> e + 22 + 4 \<le> sz
    \<and> sz + k \<le> length examplePkg"
  by (rule validated_images_inside [of length examplePkg 55 1 0, OF examplePkg_valid]; code_simp)

text \<open>
  C33: When the descriptors of the package's records and of the device can be read,
  \<open>PldmFwPkgMatchesFD\<close> selects the first device id record all of whose descriptors the device
  reports, and reports no match exactly when there is no such record.
\<close>

theorem MatchesFD_first_record:
  assumes "PkgRecords p = Some rs" and "DescriptorsAt fb fd c = Some fds"
  shows "PldmFwPkgMatchesFD p c fb fd =
    Some (map_option fst (find (\<lambda>(r, ds). set ds \<subseteq> set fds) rs))"
  using assms by (auto simp: PkgRecords_def PldmFwPkgMatchesFD_def bind_eq_Some_conv
      MatchesFDLoop_decoded)

theorem MatchesFD_first_record_witness:
  "PldmFwPkgMatchesFD examplePkg 2 [9, 9, 0, 0, 0, 0, 2, 0, 0xAA, 0xBB] 0 = Some (Some 37)"
proof -
  have "PkgRecords examplePkg = Some [(37, [(0, [0xAA, 0xBB])])]" by code_simp
  moreover have "DescriptorsAt [9, 9, 0, 0, 0, 0, 2, 0, 0xAA, 0xBB] 0 2
      = Some [(2313, []), (0, [0xAA, 0xBB])]" by code_simp
  ultimately show ?thesis by (simp add: MatchesFD_first_record)
qed

text \<open>
  \<open>PldmFwPkgComponentIsApplicable\<close> reads bit \<open>ComponentIndex\<close> of the record's bitmap, and its
  assertion fails exactly for the components that lie outside the bitmap.
\<close>

theorem ComponentIsApplicable_bit:
  "PldmFwPkgComponentIsApplicable i p r = do {
     bits \<leftarrow> load16 p OFFSET_Hdr_ComponentBitmapBitLength;
     if i < bits - bits mod 8
     then map_option (\<lambda>b. bit b (i mod 8)) (load8 p (r + OFFSET_Record_ApplicableComponents + i div 8))
     else None }"
proof -
  have byte_lt: "(i div 8 < k div 8) = (i < k - k mod 8)" for k :: nat
    by (simp add: div_less_iff_less_mult minus_mod_eq_div_mult)
  show ?thesis
    unfolding PldmFwPkgComponentIsApplicable_def Let_def single_bit_test not_less [symmetric] byte_lt
    by (cases "load16 p OFFSET_Hdr_ComponentBitmapBitLength") (simp_all add: map_option_case load8_def)
qed

end
