(* ===== verification/PldmTask.thy ===== *)
theory PldmTask
  imports PldmFwPkg
begin

text \<open>
  \<open>PldmFwUpdateTaskLib.c\<close>, first part: the data of the update state machine and its helpers. One
  task drives the update of one firmware device (FD); all tasks advance in turn, one handler call
  at a time, and share the globals of the file.

  A handler is called with what the outside world answers during that call, the record \<open>fd_env\<close>:
  the time, the result of a \<open>Send\<close> and the result of a \<open>Recv\<close>. A pointer into the package is an
  offset, \<open>None\<close> for \<open>NULL\<close>, and the instance of the MCTP protocol that a task talks to is its
  address. An access outside an array has no result. Device names and log output are left out. The field \<open>Sent\<close> and the
  global \<open>ProgressLog\<close> are not in the code: they record the calls to \<open>Send\<close> and to the client's
  progress function.
\<close>

section \<open>Codes and layout\<close>

definition PLDM_FW_TASK_REQUEST_SIZE :: nat where [codes]: "PLDM_FW_TASK_REQUEST_SIZE = 128"
definition PLDM_FW_TASK_RESPONSE_SIZE :: nat where [codes]: "PLDM_FW_TASK_RESPONSE_SIZE = 4 * 1024"
definition PLDM_FW_TASK_RECV_BUFFER_SIZE :: nat where [codes]: "PLDM_FW_TASK_RECV_BUFFER_SIZE = 1024"
definition PLDM_FW_TASK_FW_PARAMS_SIZE :: nat where [codes]: "PLDM_FW_TASK_FW_PARAMS_SIZE = 512"
definition PLDM_FW_TASK_MAX_TRANSFER_SIZE :: nat
  where [codes]: "PLDM_FW_TASK_MAX_TRANSFER_SIZE = PLDM_FW_TASK_RESPONSE_SIZE"

definition PLDM_FW_TRANSFER_FLAG_START :: byte where [codes]: "PLDM_FW_TRANSFER_FLAG_START = 0x01"
definition PLDM_FW_TRANSFER_FLAG_MIDDLE :: byte where [codes]: "PLDM_FW_TRANSFER_FLAG_MIDDLE = 0x02"
definition PLDM_FW_TRANSFER_FLAG_END :: byte where [codes]: "PLDM_FW_TRANSFER_FLAG_END = 0x04"

definition RESULT_SPEC_RANGE_MIN :: byte where [codes]: "RESULT_SPEC_RANGE_MIN = 0x00"
definition RESULT_SPEC_RANGE_MAX :: byte where [codes]: "RESULT_SPEC_RANGE_MAX = 0x1f"
definition PLDM_FW_TRANSFER_RESULT_VENDOR_RANGE_MIN :: byte
  where [codes]: "PLDM_FW_TRANSFER_RESULT_VENDOR_RANGE_MIN = 0x70"
definition PLDM_FW_TRANSFER_RESULT_VENDOR_RANGE_MAX :: byte
  where [codes]: "PLDM_FW_TRANSFER_RESULT_VENDOR_RANGE_MAX = 0x8f"
definition PLDM_FW_VERIFY_RESULT_VENDOR_RANGE_MIN :: byte
  where [codes]: "PLDM_FW_VERIFY_RESULT_VENDOR_RANGE_MIN = 0x90"
definition PLDM_FW_VERIFY_RESULT_VENDOR_RANGE_MAX :: byte
  where [codes]: "PLDM_FW_VERIFY_RESULT_VENDOR_RANGE_MAX = 0xaf"
definition PLDM_FW_APPLY_RESULT_VENDOR_RANGE_MIN :: byte
  where [codes]: "PLDM_FW_APPLY_RESULT_VENDOR_RANGE_MIN = 0xb0"
definition PLDM_FW_APPLY_RESULT_VENDOR_RANGE_MAX :: byte
  where [codes]: "PLDM_FW_APPLY_RESULT_VENDOR_RANGE_MAX = 0xcf"

section \<open>Enumerations\<close>

datatype PLDM_FW_TASK_STATE =
    StateStart
  | StateQueryDeviceIdentifiersSetupReq | StateQueryDeviceIdentifiersProcessRsp
  | StateGetFwParamsSetupReq | StateGetFwParamsProcessRsp
  | StateProcessPackage
  | StateRequestUpdateSetupReq | StateRequestUpdateProcessRsp
  | StatePassComponentTableSetupReq | StatePassComponentTableProcessRsp
  | StatePassComponentTableNextComponent
  | StateUpdateComponentSetupReq | StateUpdateComponentProcessRsp
  | StateWaitForRequests
  | StateRequestFwDataHandleReq | StateTransferCompleteHandleReq
  | StateVerifyCompleteHandleReq | StateApplyCompleteHandleReq
  | StateNextComponent
  | StateActivateFwSetupReq | StateActivateFwProcessRsp
  | StateComplete
  | StateReceive | StateSendReq | StateProcessRsp | StateRetryReq
  | StateFatalError
  | StateCancelUpdateComponentSetupReq | StateCancelUpdateComponentProcessRsp
  | StateCancelUpdateSetupReq | StateCancelUpdateProcessRsp
  | StateMax

datatype PLDM_FW_TASK_FD_STATE =
    FDStateIdle | FDStateLearnComponents | FDStateReadyXfer | FDStateDownload
  | FDStateVerify | FDStateApply | FDStateActivate

text \<open>
  The error enumeration. A value of one of its six ranges is written as the constructor of the
  range applied to the offset from the range's minimum.
\<close>

datatype PLDM_FW_UPDATE_TASK_ERROR =
    ERROR_NONE
  | ERROR_QUERY_DEVICE_IDS_FAILED | ERROR_NO_FD_MATCH_IN_PKG
  | ERROR_GET_FW_PARAMS_FAILED | ERROR_GET_FW_PARAMS_BUFFER_TOO_SMALL
  | ERROR_NO_UPDATE_COMPONENTS
  | ERROR_REQUEST_UPDATE_FAILED | ERROR_REQUEST_UPDATE_UNSUPPORTED
  | ERROR_PASS_COMPONENT_TABLE_FAILED | ERROR_PASS_COMPONENT_TABLE_BAD_RSP
  | ERROR_UPDATE_COMPONENT_FAILED | ERROR_UPDATE_COMPONENT_WILL_NOT_UPDATE
  | ERROR_TRANSFER_COMPLETE_BAD_LEN | ERROR_TRANSFER_COMPLETE_RESULT_ERR
  | ERROR_VERIFY_COMPLETE_BAD_LEN | ERROR_VERIFY_COMPLETE_FAILED
  | ERROR_APPLY_COMPLETE_BAD_LEN | ERROR_APPLY_COMPLETE_FAILED
  | ERROR_ACTIVATE_FW_FAILED | ERROR_REQUEST_FW_DATA_TIMEOUT
  | ERROR_RECEIVE_FAILED | ERROR_RECEIVE_BAD_LEN | ERROR_RECEIVE_BAD_TYPE
  | ERROR_UNSUPPORTED_CMD | ERROR_SEND_REQ_FAILED | ERROR_REQ_RETRIES_EXHAUSTED
  | ERROR_TRANSFER_COMPLETE_FAILED_SPEC_RANGE byte
  | ERROR_TRANSFER_COMPLETE_FAILED_VENDOR_RANGE byte
  | ERROR_VERIFY_COMPLETE_FAILED_SPEC_RANGE byte
  | ERROR_VERIFY_COMPLETE_FAILED_VENDOR_RANGE byte
  | ERROR_APPLY_COMPLETE_FAILED_SPEC_RANGE byte
  | ERROR_APPLY_COMPLETE_FAILED_VENDOR_RANGE byte

section \<open>State\<close>

record PLDM_FW_TASK_TIMER =
  Enabled :: bool
  EndNs :: "64 word"

record PLDM_FW_UPDATE_TASK =
  FD :: nat
  TaskState :: PLDM_FW_TASK_STATE
  Status :: EFI_STATUS
  Complete :: bool
  IsExpectingFDRequests :: bool
  RetryCount :: nat
  FDState :: PLDM_FW_TASK_FD_STATE
  RspExtraMs :: nat
  RspTimer :: PLDM_FW_TASK_TIMER
  RequestFwDataTimer :: PLDM_FW_TASK_TIMER
  InstanceId :: byte
  RecvBuffer :: "byte list"
  RecvLength :: nat
  RecvMsgTag :: byte
  Request :: "byte list"
  RequestLength :: nat
  RequestMsgTag :: byte
  RequestIsActive :: bool
  Response :: "byte list"
  ResponseLength :: nat
  ProcessResponseState :: PLDM_FW_TASK_STATE
  PkgHdr :: "byte list"
  PkgLen :: nat
  DeviceIdRecord :: "nat option"
  ImageInfoArea :: "nat option"
  ImageInfo :: "nat option"
  ComponentImageIndex :: nat
  NumUpdateComponents :: nat
  UpdateComponentIndex :: nat
  LastFwDataRequested :: nat
  GetFwParamsResponseBuffer :: "byte list"
  GetFwParamsResponse :: "byte list option"
  FwParamsComponentIndex :: nat
  Sent :: "(bool \<times> byte list) list"

text \<open>\<open>mNumTasks\<close> is the length of \<open>mTasks\<close>, the tasks created so far.\<close>

record task_globals =
  mNumDevices :: nat
  mTasks :: "PLDM_FW_UPDATE_TASK list"
  mNumTasksComplete :: nat
  mStatus :: EFI_STATUS
  mActivationMethod :: "16 word"
  mError :: PLDM_FW_UPDATE_TASK_ERROR
  mProgressFunction :: bool
  mCompletion :: nat
  mCancelAllUpdates :: bool
  ProgressLog :: "nat list"

record fd_env =
  EnvNs :: "64 word"
  EnvSendStatus :: EFI_STATUS
  EnvSendTag :: byte
  EnvRecvStatus :: EFI_STATUS
  EnvRecvMessage :: "byte list"
  EnvRecvTag :: byte

type_synonym task_step = "(task_globals \<times> PLDM_FW_UPDATE_TASK \<times> PLDM_FW_TASK_STATE) option"

section \<open>Helpers\<close>

definition PldmFwTaskProgress :: "nat \<Rightarrow> task_globals \<Rightarrow> task_globals" where
  "PldmFwTaskProgress Completion G =
     (if mProgressFunction G \<and> Completion > mCompletion G
      then G\<lparr>ProgressLog := ProgressLog G @ [Completion], mCompletion := Completion\<rparr>
      else G)"

text \<open>\<open>T\<close> is the current value of the task with index \<open>Index\<close>.\<close>

definition PldmFwTaskDataProgressCompute ::
    "nat \<Rightarrow> task_globals \<Rightarrow> PLDM_FW_UPDATE_TASK \<Rightarrow> task_globals option" where
  "PldmFwTaskDataProgressCompute Index G T =
     (let tasks = (mTasks G)[Index := T];
          TotalCompleted = sum_list (map LastFwDataRequested tasks);
          TotalLength = sum_list (map PkgLen tasks)
      in if TotalLength = 0 then None
         else Some (PldmFwTaskProgress (TotalCompleted * 99 div TotalLength) G))"

definition PldmFwTaskSetError :: "PLDM_FW_UPDATE_TASK_ERROR \<Rightarrow> task_globals \<Rightarrow> task_globals" where
  "PldmFwTaskSetError Error G = (if mError G = ERROR_NONE then G\<lparr>mError := Error\<rparr> else G)"

definition PldmFwTaskStartTimer :: "fd_env \<Rightarrow> nat \<Rightarrow> PLDM_FW_TASK_TIMER \<Rightarrow> PLDM_FW_TASK_TIMER" where
  "PldmFwTaskStartTimer e TimeoutMs Timer =
     Timer\<lparr>Enabled := True, EndNs := EnvNs e + of_nat (TimeoutMs * 1000 * 1000)\<rparr>"

definition PldmFwTaskCancelTimer :: "PLDM_FW_TASK_TIMER \<Rightarrow> PLDM_FW_TASK_TIMER" where
  "PldmFwTaskCancelTimer Timer = Timer\<lparr>Enabled := False\<rparr>"

definition PldmFwTaskTimerIsExpired :: "fd_env \<Rightarrow> PLDM_FW_TASK_TIMER \<Rightarrow> bool" where
  "PldmFwTaskTimerIsExpired e Timer = (if Enabled Timer then EndNs Timer \<le> EnvNs e else False)"

definition PldmFwTaskSetFDState ::
    "PLDM_FW_TASK_FD_STATE \<Rightarrow> PLDM_FW_UPDATE_TASK \<Rightarrow> PLDM_FW_UPDATE_TASK" where
  "PldmFwTaskSetFDState State T = T\<lparr>FDState := State\<rparr>"

definition PldmFwTaskResetComponentInfo :: "PLDM_FW_UPDATE_TASK \<Rightarrow> PLDM_FW_UPDATE_TASK option" where
  "PldmFwTaskResetComponentInfo T = do {
     area \<leftarrow> PldmFwPkgGetComponentImageInfoArea (PkgHdr T);
     Some (T\<lparr>ImageInfoArea := Some area, ImageInfo := Some (area + OFFSET_ImageArea_ImageInfo),
             ComponentImageIndex := 0, FwParamsComponentIndex := 0, UpdateComponentIndex := 0,
             LastFwDataRequested := 0\<rparr>) }"

definition PldmFwTaskSendReqSetup ::
    "byte \<Rightarrow> nat \<Rightarrow> PLDM_FW_TASK_STATE \<Rightarrow> PLDM_FW_UPDATE_TASK \<Rightarrow> PLDM_FW_UPDATE_TASK option" where
  "PldmFwTaskSendReqSetup Command Length RspState T =
     (if \<not> Length \<le> PLDM_FW_TASK_REQUEST_SIZE then None
      else do {
        let Iid = InstanceId T + 1;
        req \<leftarrow> PldmFwFillCommon (Request T) True Iid Command;
        Some (T\<lparr>RetryCount := PLDM_PN1_RETRIES, InstanceId := Iid, RequestLength := Length,
                ProcessResponseState := RspState, RspExtraMs := 0, Request := req\<rparr>) })"

text \<open>The call \<open>Task->FD->Send\<close> on the first \<open>len\<close> bytes of a buffer.\<close>

definition FDSend :: "bool \<Rightarrow> byte list \<Rightarrow> nat \<Rightarrow> PLDM_FW_UPDATE_TASK \<Rightarrow> PLDM_FW_UPDATE_TASK option" where
  "FDSend IsRequest buf len T = do {
     msg \<leftarrow> load_bytes buf 0 len;
     Some (T\<lparr>Sent := Sent T @ [(IsRequest, msg)]\<rparr>) }"

text \<open>\<open>Response->Common = Request->Common\<close> and the completion code, sent as the reply's head.\<close>

definition ResponseHead :: "byte \<Rightarrow> PLDM_FW_UPDATE_TASK \<Rightarrow> byte list option" where
  "ResponseHead CompletionCode T = do {
     common \<leftarrow> load_bytes (RecvBuffer T) 0 sizeof_MCTP_PLDM_COMMON;
     Some (common @ [CompletionCode]) }"

section \<open>Inventory and package handlers\<close>

definition PldmFwTaskStart :: "task_globals \<Rightarrow> PLDM_FW_UPDATE_TASK \<Rightarrow> task_step" where
  "PldmFwTaskStart G T = Some (G, T, StateQueryDeviceIdentifiersSetupReq)"

definition PldmFwTaskQueryDeviceIdentifiersSetupReq ::
    "task_globals \<Rightarrow> PLDM_FW_UPDATE_TASK \<Rightarrow> task_step" where
  "PldmFwTaskQueryDeviceIdentifiersSetupReq G T = do {
     T \<leftarrow> PldmFwTaskSendReqSetup PLDM_FW_QUERY_DEVICE_IDS sizeof_MCTP_PLDM_COMMON
            StateQueryDeviceIdentifiersProcessRsp T;
     Some (G, T, StateSendReq) }"

definition PldmFwTaskQueryDeviceIdentifiersProcessRsp ::
    "task_globals \<Rightarrow> PLDM_FW_UPDATE_TASK \<Rightarrow> task_step" where
  "PldmFwTaskQueryDeviceIdentifiersProcessRsp G T = do {
     let rsp = RecvBuffer T;
     S \<leftarrow> PldmFwQueryDeviceIdsCheckRsp rsp (RecvLength T);
     if EFI_ERROR S then Some (PldmFwTaskSetError ERROR_QUERY_DEVICE_IDS_FAILED G, T, StateFatalError)
     else do {
       count \<leftarrow> load8 rsp OFFSET_QueryIds_Count;
       match \<leftarrow> PldmFwPkgMatchesFD (PkgHdr T) (unat count) rsp OFFSET_QueryIds_Descriptors;
       case match of
         None \<Rightarrow> Some (PldmFwTaskSetError ERROR_NO_FD_MATCH_IN_PKG G, T, StateFatalError)
       | Some r \<Rightarrow> Some (G, T\<lparr>DeviceIdRecord := Some r\<rparr>, StateGetFwParamsSetupReq) } }"

definition PldmFwTaskGetFwParamsSetupReq :: "task_globals \<Rightarrow> PLDM_FW_UPDATE_TASK \<Rightarrow> task_step" where
  "PldmFwTaskGetFwParamsSetupReq G T = do {
     T \<leftarrow> PldmFwTaskSendReqSetup PLDM_FW_GET_FW_PARAMS sizeof_MCTP_PLDM_COMMON
            StateGetFwParamsProcessRsp T;
     Some (G, T, StateSendReq) }"

definition PldmFwTaskGetFwParamsProcessRsp :: "task_globals \<Rightarrow> PLDM_FW_UPDATE_TASK \<Rightarrow> task_step" where
  "PldmFwTaskGetFwParamsProcessRsp G T = do {
     S \<leftarrow> PldmFwGetFwParamsCheckRsp (RecvBuffer T) (RecvLength T);
     if EFI_ERROR S then Some (PldmFwTaskSetError ERROR_GET_FW_PARAMS_FAILED G, T, StateFatalError)
     else if RecvLength T > PLDM_FW_TASK_FW_PARAMS_SIZE
     then Some (PldmFwTaskSetError ERROR_GET_FW_PARAMS_BUFFER_TOO_SMALL G, T, StateFatalError)
     else do {
       rsp \<leftarrow> load_bytes (RecvBuffer T) 0 (RecvLength T);
       buf \<leftarrow> store_bytes (GetFwParamsResponseBuffer T) 0 rsp;
       Some (G, T\<lparr>GetFwParamsResponseBuffer := buf, GetFwParamsResponse := Some buf\<rparr>,
             StateProcessPackage) } }"

text \<open>The inner and the outer counting loop of \<open>PldmFwTaskProcessPackage\<close>.\<close>

primrec CountParamsLoop :: "byte list \<Rightarrow> nat \<Rightarrow> nat \<Rightarrow> nat list \<Rightarrow> nat \<Rightarrow> nat option" where
  "CountParamsLoop Rsp cls ident [] n = Some n"
| "CountParamsLoop Rsp cls ident (Index1 # rest) n = do {
     entry \<leftarrow> PldmFwGetFwParamsComponent Rsp Index1;
     c \<leftarrow> load16 Rsp (entry + OFFSET_Entry_Classification);
     d \<leftarrow> load16 Rsp (entry + OFFSET_Entry_Id);
     CountParamsLoop Rsp cls ident rest (if c = cls \<and> d = ident then n + 1 else n) }"

primrec ProcessPackageLoop ::
    "byte list \<Rightarrow> nat \<Rightarrow> byte list \<Rightarrow> nat list \<Rightarrow> nat \<Rightarrow> nat \<Rightarrow> nat option" where
  "ProcessPackageLoop Hdr Record Rsp [] Img n = Some n"
| "ProcessPackageLoop Hdr Record Rsp (Index # rest) Img n = do {
     applicable \<leftarrow> PldmFwPkgComponentIsApplicable Index Hdr Record;
     n' \<leftarrow> (if applicable then do {
              count \<leftarrow> FwParamsComponentCount Rsp;
              cls \<leftarrow> load16 Hdr (Img + OFFSET_Image_Classification);
              ident \<leftarrow> load16 Hdr (Img + OFFSET_Image_Id);
              CountParamsLoop Rsp cls ident [0..<count] n }
            else Some n);
     next \<leftarrow> PldmFwPkgGetNextComponentImage Hdr Img;
     ProcessPackageLoop Hdr Record Rsp rest next n' }"

definition PldmFwTaskProcessPackage :: "task_globals \<Rightarrow> PLDM_FW_UPDATE_TASK \<Rightarrow> task_step" where
  "PldmFwTaskProcessPackage G T = do {
     T \<leftarrow> PldmFwTaskResetComponentInfo T;
     area \<leftarrow> ImageInfoArea T;
     ImageCount \<leftarrow> load16 (PkgHdr T) (area + OFFSET_ImageArea_ImageCount);
     rec \<leftarrow> DeviceIdRecord T;
     rsp \<leftarrow> GetFwParamsResponse T;
     n \<leftarrow> ProcessPackageLoop (PkgHdr T) rec rsp [0..<ImageCount] (area + OFFSET_ImageArea_ImageInfo) 0;
     let T = T\<lparr>NumUpdateComponents := n\<rparr>;
     if n = 0 then Some (PldmFwTaskSetError ERROR_NO_UPDATE_COMPONENTS G, T, StateFatalError)
     else Some (G, T, StateRequestUpdateSetupReq) }"

end
