(* ===== verification/PldmTaskHandlers.thy ===== *)
theory PldmTaskHandlers
  imports PldmTask
begin

text \<open>
  \<open>PldmFwUpdateTaskLib.c\<close>, second part: the handlers of the update phase, of receiving and sending,
  and of errors and cancellation; the state table, the loop that runs all tasks, and the three
  entry points of the library.
\<close>

section \<open>Requesting the update and passing the component table\<close>

definition PldmFwTaskRequestUpdateSetupReq :: "task_globals \<Rightarrow> PLDM_FW_UPDATE_TASK \<Rightarrow> task_step" where
  "PldmFwTaskRequestUpdateSetupReq G T =
     (if mCancelAllUpdates G then Some (G, T, StateCancelUpdateSetupReq)
      else do {
        rec \<leftarrow> DeviceIdRecord T;
        let pkg = PkgHdr T;
        dataLen \<leftarrow> load16 pkg (rec + OFFSET_Record_PackageDataLength);
        vtype \<leftarrow> load8 pkg (rec + OFFSET_Record_ImageSetVersionStringType);
        vlen \<leftarrow> load8 pkg (rec + OFFSET_Record_ImageSetVersionStringLength);
        vptr \<leftarrow> PldmFwPkgGetDeviceIdRecordImageSetVersionString pkg rec;
        vstr \<leftarrow> load_bytes pkg vptr (unat vlen);
        req \<leftarrow> store_bytes (Request T) sizeof_MCTP_PLDM_COMMON
          (bytes32 PLDM_FW_TASK_MAX_TRANSFER_SIZE @ bytes16 (NumUpdateComponents T) @ [1]
           @ bytes16 dataLen @ [vtype, vlen] @ vstr);
        T \<leftarrow> PldmFwTaskSendReqSetup PLDM_FW_REQUEST_UPDATE (15 + unat vlen)
               StateRequestUpdateProcessRsp (T\<lparr>Request := req\<rparr>);
        Some (G, T, StateSendReq) })"

definition PldmFwTaskRequestUpdateProcessRsp :: "task_globals \<Rightarrow> PLDM_FW_UPDATE_TASK \<Rightarrow> task_step" where
  "PldmFwTaskRequestUpdateProcessRsp G T =
     (if mCancelAllUpdates G then Some (G, T, StateCancelUpdateSetupReq)
      else do {
        let rsp = RecvBuffer T;
        S \<leftarrow> PldmFwCheckRspCompletionAndLength rsp (RecvLength T) 8;
        if EFI_ERROR S then Some (PldmFwTaskSetError ERROR_REQUEST_UPDATE_FAILED G, T, StateFatalError)
        else do {
          metaLen \<leftarrow> load16 rsp 5;
          willSend \<leftarrow> load8 rsp 7;
          if metaLen > 0 \<or> willSend \<noteq> 0
          then Some (PldmFwTaskSetError ERROR_REQUEST_UPDATE_UNSUPPORTED G, T, StateFatalError)
          else Some (G, PldmFwTaskSetFDState FDStateLearnComponents T, StatePassComponentTableSetupReq)
        } })"

text \<open>\<open>Task->NumUpdateComponents - 1\<close> is \<open>UINTN\<close> arithmetic.\<close>

definition TransferFlag :: "PLDM_FW_UPDATE_TASK \<Rightarrow> byte" where
  "TransferFlag T =
     (let f = (if UpdateComponentIndex T = 0 then PLDM_FW_TRANSFER_FLAG_START else 0)
            OR (if UpdateComponentIndex T = (NumUpdateComponents T + 2 ^ 64 - 1) mod 2 ^ 64
                then PLDM_FW_TRANSFER_FLAG_END else 0)
      in if f = 0 then PLDM_FW_TRANSFER_FLAG_MIDDLE else f)"

text \<open>
  The search for the next entry of the device's parameter table that the current image matches,
  from the task's \<open>FwParamsComponentIndex\<close> on; it leaves the entry's index there. The inner \<open>None\<close>
  is the \<open>NULL\<close> for no such entry.
\<close>

definition NextMatchingEntry ::
    "PLDM_FW_UPDATE_TASK \<Rightarrow> (PLDM_FW_UPDATE_TASK \<times> nat option) option" where
  "NextMatchingEntry T = do {
     img \<leftarrow> ImageInfo T;
     rsp \<leftarrow> GetFwParamsResponse T;
     cls \<leftarrow> load16 (PkgHdr T) (img + OFFSET_Image_Classification);
     ident \<leftarrow> load16 (PkgHdr T) (img + OFFSET_Image_Id);
     (idx, entry) \<leftarrow> PldmFwGetNextFwParamsMatchingComponent rsp (FwParamsComponentIndex T) cls ident;
     Some (T\<lparr>FwParamsComponentIndex := idx\<rparr>, entry) }"

text \<open>
  The fields both requests copy from the image: classification and id, the classification index
  the device reports for the entry, the comparison stamp; and the version string.
\<close>

definition ComponentFields :: "PLDM_FW_UPDATE_TASK \<Rightarrow> (byte list \<times> byte list) option" where
  "ComponentFields T = do {
     img \<leftarrow> ImageInfo T;
     rsp \<leftarrow> GetFwParamsResponse T;
     let pkg = PkgHdr T;
     cls \<leftarrow> load16 pkg (img + OFFSET_Image_Classification);
     ident \<leftarrow> load16 pkg (img + OFFSET_Image_Id);
     entry \<leftarrow> PldmFwGetFwParamsComponent rsp (FwParamsComponentIndex T);
     clsIndex \<leftarrow> load8 rsp (entry + OFFSET_Entry_ClassificationIndex);
     stamp \<leftarrow> load32 pkg (img + OFFSET_Image_ComparisonStamp);
     vtype \<leftarrow> load8 pkg (img + OFFSET_Image_VersionStringType);
     vlen \<leftarrow> load8 pkg (img + OFFSET_Image_VersionStringLength);
     vstr \<leftarrow> load_bytes pkg (img + OFFSET_Image_VersionString) (unat vlen);
     Some (bytes16 cls @ bytes16 ident @ [clsIndex] @ bytes32 stamp, [vtype, vlen] @ vstr) }"

definition PldmFwTaskPassComponentTableSetupReq ::
    "task_globals \<Rightarrow> PLDM_FW_UPDATE_TASK \<Rightarrow> task_step" where
  "PldmFwTaskPassComponentTableSetupReq G T =
     (if mCancelAllUpdates G then Some (G, T, StateCancelUpdateSetupReq)
      else do {
        rec \<leftarrow> DeviceIdRecord T;
        applicable \<leftarrow> PldmFwPkgComponentIsApplicable (ComponentImageIndex T) (PkgHdr T) rec;
        if \<not> applicable then Some (G, T, StatePassComponentTableNextComponent)
        else do {
          (T, entry) \<leftarrow> NextMatchingEntry T;
          if entry = None then Some (G, T, StatePassComponentTableNextComponent)
          else do {
            (fields, version) \<leftarrow> ComponentFields T;
            req \<leftarrow> store_bytes (Request T) sizeof_MCTP_PLDM_COMMON ([TransferFlag T] @ fields @ version);
            T \<leftarrow> PldmFwTaskSendReqSetup PLDM_FW_PASS_COMPONENT_TABLE (14 + length version)
                   StatePassComponentTableProcessRsp (T\<lparr>Request := req\<rparr>);
            Some (G, T, StateSendReq) } } })"

definition PldmFwTaskPassComponentTableProcessRsp ::
    "task_globals \<Rightarrow> PLDM_FW_UPDATE_TASK \<Rightarrow> task_step" where
  "PldmFwTaskPassComponentTableProcessRsp G T =
     (if mCancelAllUpdates G then Some (G, T, StateCancelUpdateSetupReq)
      else do {
        let rsp = RecvBuffer T;
        S \<leftarrow> PldmFwCheckRspCompletionAndLength rsp (RecvLength T) 7;
        if EFI_ERROR S
        then Some (PldmFwTaskSetError ERROR_PASS_COMPONENT_TABLE_FAILED G, T, StateFatalError)
        else do {
          r \<leftarrow> load8 rsp 5;
          if r \<noteq> 0
          then Some (PldmFwTaskSetError ERROR_PASS_COMPONENT_TABLE_BAD_RSP G, T, StateFatalError)
          else Some (G, T, StatePassComponentTableNextComponent) } })"

text \<open>
  Both \<open>PassComponentTableNextComponent\<close> and \<open>NextComponent\<close> look for a further entry of the
  device that the current image matches.
\<close>

definition AdvanceMatch :: "PLDM_FW_UPDATE_TASK \<Rightarrow> (PLDM_FW_UPDATE_TASK \<times> nat option) option" where
  "AdvanceMatch T = NextMatchingEntry (T\<lparr>FwParamsComponentIndex := FwParamsComponentIndex T + 1\<rparr>)"

definition PldmFwTaskPassComponentTableNextComponent ::
    "task_globals \<Rightarrow> PLDM_FW_UPDATE_TASK \<Rightarrow> task_step" where
  "PldmFwTaskPassComponentTableNextComponent G T =
     (if mCancelAllUpdates G then Some (G, T, StateCancelUpdateSetupReq)
      else do {
        (T, entry) \<leftarrow> AdvanceMatch T;
        if entry \<noteq> None then Some (G, T, StatePassComponentTableSetupReq)
        else do {
          area \<leftarrow> ImageInfoArea T;
          count \<leftarrow> load16 (PkgHdr T) (area + OFFSET_ImageArea_ImageCount);
          let T = T\<lparr>ComponentImageIndex := ComponentImageIndex T + 1\<rparr>;
          if ComponentImageIndex T \<ge> count then do {
            T \<leftarrow> PldmFwTaskResetComponentInfo T;
            Some (G, PldmFwTaskSetFDState FDStateReadyXfer T, StateUpdateComponentSetupReq) }
          else do {
            img \<leftarrow> ImageInfo T;
            next \<leftarrow> PldmFwPkgGetNextComponentImage (PkgHdr T) img;
            Some (G, T\<lparr>ImageInfo := Some next\<rparr>, StatePassComponentTableSetupReq) } } })"

section \<open>Updating a component\<close>

definition PldmFwTaskUpdateComponentSetupReq ::
    "task_globals \<Rightarrow> PLDM_FW_UPDATE_TASK \<Rightarrow> task_step" where
  "PldmFwTaskUpdateComponentSetupReq G T =
     (if mCancelAllUpdates G then Some (G, T, StateCancelUpdateComponentSetupReq)
      else do {
        rec \<leftarrow> DeviceIdRecord T;
        applicable \<leftarrow> PldmFwPkgComponentIsApplicable (ComponentImageIndex T) (PkgHdr T) rec;
        if \<not> applicable then Some (G, T, StateNextComponent)
        else do {
          (T, entry) \<leftarrow> NextMatchingEntry T;
          if entry = None then Some (G, T, StateNextComponent)
          else do {
            (fields, version) \<leftarrow> ComponentFields T;
            img \<leftarrow> ImageInfo T;
            size \<leftarrow> load32 (PkgHdr T) (img + OFFSET_Image_Size);
            options \<leftarrow> load16 (PkgHdr T) (img + 8);
            let flags = (if bit options 0 then 1 else 0);
            req \<leftarrow> store_bytes (Request T) sizeof_MCTP_PLDM_COMMON
                     (fields @ bytes32 size @ bytes32 flags @ version);
            T \<leftarrow> PldmFwTaskSendReqSetup PLDM_FW_UPDATE_COMPONENT (21 + length version)
                   StateUpdateComponentProcessRsp (T\<lparr>Request := req\<rparr>);
            Some (G, T, StateSendReq) } } })"

definition PldmFwTaskUpdateComponentProcessRsp ::
    "fd_env \<Rightarrow> task_globals \<Rightarrow> PLDM_FW_UPDATE_TASK \<Rightarrow> task_step" where
  "PldmFwTaskUpdateComponentProcessRsp e G T =
     (if mCancelAllUpdates G then Some (G, T, StateCancelUpdateComponentSetupReq)
      else do {
        let rsp = RecvBuffer T;
        S \<leftarrow> PldmFwCheckRspCompletionAndLength rsp (RecvLength T) 13;
        if EFI_ERROR S then Some (PldmFwTaskSetError ERROR_UPDATE_COMPONENT_FAILED G, T, StateFatalError)
        else do {
          compat \<leftarrow> load8 rsp 5;
          if compat \<noteq> 0
          then Some (PldmFwTaskSetError ERROR_UPDATE_COMPONENT_WILL_NOT_UPDATE G, T, StateFatalError)
          else do {
            time \<leftarrow> load16 rsp 11;
            let T = PldmFwTaskSetFDState FDStateDownload T;
            let timeout = (if time > 0 then time + PLDM_FW_UA_T2_MS_MAX else PLDM_FW_UA_T2_MS_MAX);
            Some (G, T\<lparr>RequestFwDataTimer := PldmFwTaskStartTimer e timeout (RequestFwDataTimer T)\<rparr>,
                  StateWaitForRequests) } } })"

definition PldmFwTaskWaitForRequests :: "task_globals \<Rightarrow> PLDM_FW_UPDATE_TASK \<Rightarrow> task_step" where
  "PldmFwTaskWaitForRequests G T =
     (if mCancelAllUpdates G then Some (G, T, StateCancelUpdateComponentSetupReq)
      else Some (G, T\<lparr>IsExpectingFDRequests := True\<rparr>, StateReceive))"

text \<open>
  The checks on a data request, with the offset into the package it reads from. \<open>Offset\<close> is
  \<open>UINTN\<close>; \<open>ImageInfo->Size + PLDM_FW_BASELINE_TRANSFER_SIZE\<close> is \<open>UINT32\<close> arithmetic.
\<close>

definition RequestFwDataCheck :: "PLDM_FW_UPDATE_TASK \<Rightarrow> nat \<Rightarrow> nat \<Rightarrow> (byte \<times> nat) option" where
  "RequestFwDataCheck T Offset Length =
     (if FDState T \<noteq> FDStateDownload then Some (PLDM_FW_COMMAND_NOT_EXPECTED, 0)
      else if RecvLength T < 12 then Some (PLDM_ERROR_INVALID_LENGTH, 0)
      else do {
        img \<leftarrow> ImageInfo T;
        size \<leftarrow> load32 (PkgHdr T) (img + OFFSET_Image_Size);
        location \<leftarrow> load32 (PkgHdr T) (img + OFFSET_Image_LocationOffset);
        let code =
          (if Length > PLDM_FW_TASK_RESPONSE_SIZE then PLDM_FW_INVALID_TRANSFER_LENGTH
           else if Length + Offset > (size + PLDM_FW_BASELINE_TRANSFER_SIZE) mod 2 ^ 32
           then PLDM_FW_DATA_OUT_OF_RANGE
           else PLDM_SUCCESS);
        Some (code, Offset + location) })"

definition PldmFwTaskRequestFwDataHandleReq ::
    "fd_env \<Rightarrow> nat \<Rightarrow> task_globals \<Rightarrow> PLDM_FW_UPDATE_TASK \<Rightarrow> task_step" where
  "PldmFwTaskRequestFwDataHandleReq e Index G T =
     (if mCancelAllUpdates G then Some (G, T, StateCancelUpdateComponentSetupReq)
      else do {
        Offset \<leftarrow> load32 (RecvBuffer T) 4;
        Length \<leftarrow> load32 (RecvBuffer T) 8;
        let T = T\<lparr>LastFwDataRequested := (Offset + Length) mod 2 ^ 32\<rparr>;
        G \<leftarrow> PldmFwTaskDataProgressCompute Index G T;
        (code, from) \<leftarrow> RequestFwDataCheck T Offset Length;
        head \<leftarrow> ResponseHead code T;
        image \<leftarrow> (if code = PLDM_SUCCESS then load_bytes (PkgHdr T) from Length else Some []);
        rsp \<leftarrow> store_bytes (Response T) 0 (head @ image);
        let T = T\<lparr>Response := rsp, ResponseLength := length head + length image\<rparr>;
        T \<leftarrow> FDSend False (Response T) (ResponseLength T) T;
        Some (G, T\<lparr>RequestFwDataTimer :=
                     PldmFwTaskStartTimer e PLDM_FW_UA_T2_MS_MAX (RequestFwDataTimer T)\<rparr>,
              StateWaitForRequests) })"

text \<open>The acknowledgement of the three completion requests.\<close>

definition AcknowledgeRequest :: "PLDM_FW_UPDATE_TASK \<Rightarrow> PLDM_FW_UPDATE_TASK option" where
  "AcknowledgeRequest T = do {
     head \<leftarrow> ResponseHead PLDM_SUCCESS T;
     rsp \<leftarrow> store_bytes (Response T) 0 head;
     let T = T\<lparr>Response := rsp, ResponseLength := sizeof_MCTP_PLDM_RESPONSE_HEADER\<rparr>;
     FDSend False (Response T) (ResponseLength T) T }"

text \<open>The error for a result code that is in the specified, in the vendor's or in no range.\<close>

definition ResultError ::
    "(byte \<Rightarrow> PLDM_FW_UPDATE_TASK_ERROR) \<Rightarrow> byte \<Rightarrow> byte
     \<Rightarrow> (byte \<Rightarrow> PLDM_FW_UPDATE_TASK_ERROR) \<Rightarrow> PLDM_FW_UPDATE_TASK_ERROR \<Rightarrow> byte
     \<Rightarrow> PLDM_FW_UPDATE_TASK_ERROR" where
  "ResultError spec vmin vmax vendor other r =
     (if RESULT_SPEC_RANGE_MIN \<le> r \<and> r \<le> RESULT_SPEC_RANGE_MAX then spec (r - RESULT_SPEC_RANGE_MIN)
      else if vmin \<le> r \<and> r \<le> vmax then vendor (r - vmin)
      else other)"

definition PldmFwTaskTransferCompleteHandleReq ::
    "nat \<Rightarrow> task_globals \<Rightarrow> PLDM_FW_UPDATE_TASK \<Rightarrow> task_step" where
  "PldmFwTaskTransferCompleteHandleReq Index G T =
     (if mCancelAllUpdates G then Some (G, T, StateCancelUpdateComponentSetupReq)
      else if RecvLength T < 5
      then Some (PldmFwTaskSetError ERROR_TRANSFER_COMPLETE_BAD_LEN G, T, StateFatalError)
      else do {
        TransferResult \<leftarrow> load8 (RecvBuffer T) 4;
        T \<leftarrow> AcknowledgeRequest (T\<lparr>RequestFwDataTimer := PldmFwTaskCancelTimer (RequestFwDataTimer T)\<rparr>);
        if TransferResult \<noteq> 0 then
          Some (PldmFwTaskSetError
                  (ResultError ERROR_TRANSFER_COMPLETE_FAILED_SPEC_RANGE
                     PLDM_FW_TRANSFER_RESULT_VENDOR_RANGE_MIN PLDM_FW_TRANSFER_RESULT_VENDOR_RANGE_MAX
                     ERROR_TRANSFER_COMPLETE_FAILED_VENDOR_RANGE ERROR_TRANSFER_COMPLETE_RESULT_ERR
                     TransferResult) G,
                T, StateFatalError)
        else do {
          let T = T\<lparr>LastFwDataRequested := PkgLen T\<rparr>;
          G \<leftarrow> PldmFwTaskDataProgressCompute Index G T;
          Some (G, PldmFwTaskSetFDState FDStateVerify T, StateWaitForRequests) } })"

definition PldmFwTaskVerifyCompleteHandleReq ::
    "task_globals \<Rightarrow> PLDM_FW_UPDATE_TASK \<Rightarrow> task_step" where
  "PldmFwTaskVerifyCompleteHandleReq G T =
     (if mCancelAllUpdates G then Some (G, T, StateCancelUpdateComponentSetupReq)
      else if RecvLength T < 5
      then Some (PldmFwTaskSetError ERROR_VERIFY_COMPLETE_BAD_LEN G, T, StateFatalError)
      else do {
        VerifyResult \<leftarrow> load8 (RecvBuffer T) 4;
        T \<leftarrow> AcknowledgeRequest T;
        if VerifyResult \<noteq> 0 then
          Some (PldmFwTaskSetError
                  (ResultError ERROR_VERIFY_COMPLETE_FAILED_SPEC_RANGE
                     PLDM_FW_VERIFY_RESULT_VENDOR_RANGE_MIN PLDM_FW_VERIFY_RESULT_VENDOR_RANGE_MAX
                     ERROR_VERIFY_COMPLETE_FAILED_VENDOR_RANGE ERROR_VERIFY_COMPLETE_FAILED
                     VerifyResult) G,
                T, StateFatalError)
        else Some (G, PldmFwTaskSetFDState FDStateApply T, StateWaitForRequests) })"

definition PldmFwTaskApplyCompleteHandleReq ::
    "task_globals \<Rightarrow> PLDM_FW_UPDATE_TASK \<Rightarrow> task_step" where
  "PldmFwTaskApplyCompleteHandleReq G T =
     (if mCancelAllUpdates G then Some (G, T, StateCancelUpdateComponentSetupReq)
      else if RecvLength T < 7
      then Some (PldmFwTaskSetError ERROR_APPLY_COMPLETE_BAD_LEN G, T, StateFatalError)
      else do {
        ApplyResult \<leftarrow> load8 (RecvBuffer T) 4;
        camm \<leftarrow> load16 (RecvBuffer T) 5;
        let ApplyFailed = (ApplyResult \<noteq> 0 \<and> ApplyResult \<noteq> 1);
        method \<leftarrow> (if ApplyResult = 1 then Some camm
                   else do { img \<leftarrow> ImageInfo T;
                             load16 (PkgHdr T) (img + OFFSET_Image_RequestedActivationMethod) });
        let G = G\<lparr>mActivationMethod := mActivationMethod G OR of_nat method\<rparr>;
        T \<leftarrow> AcknowledgeRequest T;
        if ApplyFailed then
          Some (PldmFwTaskSetError
                  (ResultError ERROR_APPLY_COMPLETE_FAILED_SPEC_RANGE
                     PLDM_FW_APPLY_RESULT_VENDOR_RANGE_MIN PLDM_FW_APPLY_RESULT_VENDOR_RANGE_MAX
                     ERROR_APPLY_COMPLETE_FAILED_VENDOR_RANGE ERROR_APPLY_COMPLETE_FAILED
                     ApplyResult) G,
                T, StateFatalError)
        else Some (G, PldmFwTaskSetFDState FDStateReadyXfer T, StateNextComponent) })"

definition PldmFwTaskNextComponent :: "task_globals \<Rightarrow> PLDM_FW_UPDATE_TASK \<Rightarrow> task_step" where
  "PldmFwTaskNextComponent G T =
     (if mCancelAllUpdates G then Some (G, T, StateCancelUpdateComponentSetupReq)
      else do {
        (T, entry) \<leftarrow> AdvanceMatch T;
        if entry \<noteq> None then Some (G, T, StatePassComponentTableSetupReq)
        else do {
          area \<leftarrow> ImageInfoArea T;
          count \<leftarrow> load16 (PkgHdr T) (area + OFFSET_ImageArea_ImageCount);
          let T = T\<lparr>ComponentImageIndex := ComponentImageIndex T + 1\<rparr>;
          if ComponentImageIndex T \<ge> count
          then Some (G, T\<lparr>IsExpectingFDRequests := False\<rparr>, StateActivateFwSetupReq)
          else do {
            img \<leftarrow> ImageInfo T;
            next \<leftarrow> PldmFwPkgGetNextComponentImage (PkgHdr T) img;
            Some (G, T\<lparr>ImageInfo := Some next\<rparr>, StateUpdateComponentSetupReq) } } })"

section \<open>Activation and completion\<close>

definition PldmFwTaskActivateFwSetupReq :: "task_globals \<Rightarrow> PLDM_FW_UPDATE_TASK \<Rightarrow> task_step" where
  "PldmFwTaskActivateFwSetupReq G T =
     (if mCancelAllUpdates G then Some (G, T, StateCancelUpdateComponentSetupReq)
      else do {
        req \<leftarrow> store_bytes (Request T) 4 [0];
        T \<leftarrow> PldmFwTaskSendReqSetup PLDM_FW_ACTIVATE_FW 5 StateActivateFwProcessRsp
               (T\<lparr>Request := req\<rparr>);
        let T = T\<lparr>RspExtraMs := 20 * 1000\<rparr>;
        Some (G, PldmFwTaskSetFDState FDStateActivate T, StateSendReq) })"

text \<open>The response read here is \<open>Task->Response\<close>, as in the code.\<close>

definition PldmFwTaskActivateFwProcessRsp :: "task_globals \<Rightarrow> PLDM_FW_UPDATE_TASK \<Rightarrow> task_step" where
  "PldmFwTaskActivateFwProcessRsp G T = do {
     S \<leftarrow> PldmFwCheckRspCompletionAndLength (Response T) (RecvLength T) 7;
     if EFI_ERROR S then Some (PldmFwTaskSetError ERROR_ACTIVATE_FW_FAILED G, T, StateFatalError)
     else Some (G, PldmFwTaskSetFDState FDStateIdle T, StateComplete) }"

definition PldmFwTaskComplete :: "task_globals \<Rightarrow> PLDM_FW_UPDATE_TASK \<Rightarrow> task_step" where
  "PldmFwTaskComplete G T = Some (G, T\<lparr>Complete := True\<rparr>, StateMax)"

section \<open>Receiving, sending and retrying\<close>

text \<open>
  A successful \<open>Recv\<close> puts a message of at most \<open>Length\<close> bytes at the start of the buffer and
  sets \<open>Length\<close> and the tag; a message that does not fit is against the protocol's contract.
\<close>

definition PldmFwTaskReceive ::
    "fd_env \<Rightarrow> task_globals \<Rightarrow> PLDM_FW_UPDATE_TASK \<Rightarrow> task_step" where
  "PldmFwTaskReceive e G T =
     (if \<not> (IsExpectingFDRequests T \<or> RequestIsActive T) then None
      else
       let T = T\<lparr>RecvLength := PLDM_FW_TASK_RECV_BUFFER_SIZE\<rparr>
       in if EnvRecvStatus e = EFI_TIMEOUT then
            if PldmFwTaskTimerIsExpired e (RequestFwDataTimer T)
            then Some (PldmFwTaskSetError ERROR_REQUEST_FW_DATA_TIMEOUT G, T, StateFatalError)
            else if PldmFwTaskTimerIsExpired e (RspTimer T) then Some (G, T, StateRetryReq)
            else Some (G, T, StateReceive)
          else if EFI_ERROR (EnvRecvStatus e) then Some (G, T, StateReceive)
          else do {
            buf \<leftarrow> store_bytes (RecvBuffer T) 0 (EnvRecvMessage e);
            let T = T\<lparr>RecvBuffer := buf, RecvLength := length (EnvRecvMessage e),
                      RecvMsgTag := EnvRecvTag e\<rparr>;
            if RecvLength T < sizeof_MCTP_PLDM_COMMON then Some (G, T, StateReceive)
            else do {
              mctpType \<leftarrow> load8 buf 0;
              pldmType \<leftarrow> load8 buf 2;
              if mctpType \<noteq> MCTP_TYPE_PLDM \<and> pldmType \<noteq> PLDM_TYPE_FW_UPDATE
              then Some (G, T, StateReceive)
              else do {
                iid \<leftarrow> load8 buf 1;
                Command \<leftarrow> load8 buf 3;
                if iid AND PLDM_RQ \<noteq> 0 then
                  Some (G, T,
                    if Command = PLDM_FW_REQUEST_FW_DATA then StateRequestFwDataHandleReq
                    else if Command = PLDM_FW_TRANSFER_COMPLETE then StateTransferCompleteHandleReq
                    else if Command = PLDM_FW_VERIFY_COMPLETE then StateVerifyCompleteHandleReq
                    else if Command = PLDM_FW_APPLY_COMPLETE then StateApplyCompleteHandleReq
                    else StateReceive)
                else Some (G, T, StateProcessRsp) } } })"

definition PldmFwTaskSendReq ::
    "fd_env \<Rightarrow> task_globals \<Rightarrow> PLDM_FW_UPDATE_TASK \<Rightarrow> task_step" where
  "PldmFwTaskSendReq e G T = do {
     T \<leftarrow> FDSend True (Request T) (RequestLength T) T;
     if EFI_ERROR (EnvSendStatus e)
     then Some (PldmFwTaskSetError ERROR_SEND_REQ_FAILED G, T, StateFatalError)
     else Some (G, T\<lparr>RequestMsgTag := EnvSendTag e, RequestIsActive := True,
                     RspTimer := PldmFwTaskStartTimer e (PLDM_PT2_MS_MAX + RspExtraMs T) (RspTimer T)\<rparr>,
                StateReceive) }"

definition PldmFwTaskProcessRsp :: "task_globals \<Rightarrow> PLDM_FW_UPDATE_TASK \<Rightarrow> task_step" where
  "PldmFwTaskProcessRsp G T =
     (if \<not> RequestIsActive T then Some (G, T, StateReceive)
      else do {
        let T = T\<lparr>RequestIsActive := False, RspTimer := PldmFwTaskCancelTimer (RspTimer T)\<rparr>;
        S \<leftarrow> PldmValidateResponse (Request T) (RecvBuffer T) (RecvLength T) (RequestMsgTag T) (RecvMsgTag T);
        if EFI_ERROR S then Some (G, T, StateRetryReq)
        else Some (G, T, ProcessResponseState T) })"

definition PldmFwTaskRetryReq :: "task_globals \<Rightarrow> PLDM_FW_UPDATE_TASK \<Rightarrow> task_step" where
  "PldmFwTaskRetryReq G T =
     (if RetryCount T = 0
      then Some (PldmFwTaskSetError ERROR_REQ_RETRIES_EXHAUSTED G, T, StateFatalError)
      else Some (G, T\<lparr>RetryCount := RetryCount T - 1\<rparr>, StateSendReq))"

section \<open>Errors and cancellation\<close>

definition PldmFwTaskFatalError :: "task_globals \<Rightarrow> PLDM_FW_UPDATE_TASK \<Rightarrow> task_step" where
  "PldmFwTaskFatalError G T =
     (if mError G = ERROR_NONE then None
      else Some (G, T\<lparr>Status := EFI_PROTOCOL_ERROR\<rparr>, StateComplete))"

definition PldmFwTaskCancelUpdateComponentSetupReq ::
    "task_globals \<Rightarrow> PLDM_FW_UPDATE_TASK \<Rightarrow> task_step" where
  "PldmFwTaskCancelUpdateComponentSetupReq G T = do {
     T \<leftarrow> PldmFwTaskSendReqSetup PLDM_FW_CANCEL_UPDATE_COMPONENT sizeof_MCTP_PLDM_COMMON
            StateCancelUpdateComponentProcessRsp T;
     Some (G, T, StateSendReq) }"

text \<open>The completion code is read for the log only.\<close>

definition PldmFwTaskCancelUpdateComponentProcessRsp ::
    "task_globals \<Rightarrow> PLDM_FW_UPDATE_TASK \<Rightarrow> task_step" where
  "PldmFwTaskCancelUpdateComponentProcessRsp G T = do {
     _ \<leftarrow> load8 (RecvBuffer T) 4;
     Some (G, T, StateCancelUpdateSetupReq) }"

definition PldmFwTaskCancelUpdateSetupReq :: "task_globals \<Rightarrow> PLDM_FW_UPDATE_TASK \<Rightarrow> task_step" where
  "PldmFwTaskCancelUpdateSetupReq G T = do {
     T \<leftarrow> PldmFwTaskSendReqSetup PLDM_FW_CANCEL_UPDATE sizeof_MCTP_PLDM_COMMON
            StateCancelUpdateProcessRsp T;
     Some (G, T, StateSendReq) }"

definition PldmFwTaskCancelUpdateProcessRsp :: "task_globals \<Rightarrow> PLDM_FW_UPDATE_TASK \<Rightarrow> task_step" where
  "PldmFwTaskCancelUpdateProcessRsp G T = do {
     _ \<leftarrow> load8 (RecvBuffer T) 4;
     Some (G, T, StateComplete) }"

section \<open>The state table and the loop\<close>

text \<open>\<open>StateMax\<close> has no entry: the loop asserts that a task it runs is in another state.\<close>

fun mPldmFwTaskStateTable ::
    "PLDM_FW_TASK_STATE \<Rightarrow> fd_env \<Rightarrow> nat \<Rightarrow> task_globals \<Rightarrow> PLDM_FW_UPDATE_TASK \<Rightarrow> task_step" where
  "mPldmFwTaskStateTable StateStart e i = PldmFwTaskStart"
| "mPldmFwTaskStateTable StateQueryDeviceIdentifiersSetupReq e i = PldmFwTaskQueryDeviceIdentifiersSetupReq"
| "mPldmFwTaskStateTable StateQueryDeviceIdentifiersProcessRsp e i = PldmFwTaskQueryDeviceIdentifiersProcessRsp"
| "mPldmFwTaskStateTable StateGetFwParamsSetupReq e i = PldmFwTaskGetFwParamsSetupReq"
| "mPldmFwTaskStateTable StateGetFwParamsProcessRsp e i = PldmFwTaskGetFwParamsProcessRsp"
| "mPldmFwTaskStateTable StateProcessPackage e i = PldmFwTaskProcessPackage"
| "mPldmFwTaskStateTable StateRequestUpdateSetupReq e i = PldmFwTaskRequestUpdateSetupReq"
| "mPldmFwTaskStateTable StateRequestUpdateProcessRsp e i = PldmFwTaskRequestUpdateProcessRsp"
| "mPldmFwTaskStateTable StatePassComponentTableSetupReq e i = PldmFwTaskPassComponentTableSetupReq"
| "mPldmFwTaskStateTable StatePassComponentTableProcessRsp e i = PldmFwTaskPassComponentTableProcessRsp"
| "mPldmFwTaskStateTable StatePassComponentTableNextComponent e i = PldmFwTaskPassComponentTableNextComponent"
| "mPldmFwTaskStateTable StateUpdateComponentSetupReq e i = PldmFwTaskUpdateComponentSetupReq"
| "mPldmFwTaskStateTable StateUpdateComponentProcessRsp e i = PldmFwTaskUpdateComponentProcessRsp e"
| "mPldmFwTaskStateTable StateWaitForRequests e i = PldmFwTaskWaitForRequests"
| "mPldmFwTaskStateTable StateRequestFwDataHandleReq e i = PldmFwTaskRequestFwDataHandleReq e i"
| "mPldmFwTaskStateTable StateTransferCompleteHandleReq e i = PldmFwTaskTransferCompleteHandleReq i"
| "mPldmFwTaskStateTable StateVerifyCompleteHandleReq e i = PldmFwTaskVerifyCompleteHandleReq"
| "mPldmFwTaskStateTable StateApplyCompleteHandleReq e i = PldmFwTaskApplyCompleteHandleReq"
| "mPldmFwTaskStateTable StateNextComponent e i = PldmFwTaskNextComponent"
| "mPldmFwTaskStateTable StateActivateFwSetupReq e i = PldmFwTaskActivateFwSetupReq"
| "mPldmFwTaskStateTable StateActivateFwProcessRsp e i = PldmFwTaskActivateFwProcessRsp"
| "mPldmFwTaskStateTable StateComplete e i = PldmFwTaskComplete"
| "mPldmFwTaskStateTable StateReceive e i = PldmFwTaskReceive e"
| "mPldmFwTaskStateTable StateSendReq e i = PldmFwTaskSendReq e"
| "mPldmFwTaskStateTable StateProcessRsp e i = PldmFwTaskProcessRsp"
| "mPldmFwTaskStateTable StateRetryReq e i = PldmFwTaskRetryReq"
| "mPldmFwTaskStateTable StateFatalError e i = PldmFwTaskFatalError"
| "mPldmFwTaskStateTable StateCancelUpdateComponentSetupReq e i = PldmFwTaskCancelUpdateComponentSetupReq"
| "mPldmFwTaskStateTable StateCancelUpdateComponentProcessRsp e i = PldmFwTaskCancelUpdateComponentProcessRsp"
| "mPldmFwTaskStateTable StateCancelUpdateSetupReq e i = PldmFwTaskCancelUpdateSetupReq"
| "mPldmFwTaskStateTable StateCancelUpdateProcessRsp e i = PldmFwTaskCancelUpdateProcessRsp"
| "mPldmFwTaskStateTable StateMax e i = (\<lambda>G T. None)"

text \<open>
  What the loop does with a task that has just become complete; the flag is \<open>True\<close> when the loop
  returns.
\<close>

definition TaskCompleted :: "PLDM_FW_UPDATE_TASK \<Rightarrow> task_globals \<Rightarrow> task_globals \<times> bool" where
  "TaskCompleted T G =
     (let G = (if EFI_ERROR (Status T)
               then G\<lparr>mStatus := EFI_PROTOCOL_ERROR, mCancelAllUpdates := True\<rparr> else G);
          G = G\<lparr>mNumTasksComplete := mNumTasksComplete G + 1\<rparr>
      in if mNumTasksComplete G = length (mTasks G)
         then (if mStatus G = EFI_SUCCESS then PldmFwTaskProgress 100 G else G, True)
         else (G, False))"

text \<open>One pass through the body of the \<open>for\<close> loop.\<close>

definition TaskTurn :: "fd_env \<Rightarrow> nat \<Rightarrow> task_globals \<Rightarrow> (task_globals \<times> bool) option" where
  "TaskTurn e Index G = do {
     let T = mTasks G ! Index;
     if Complete T then Some (G, False)
     else do {
       (G, T, State) \<leftarrow> mPldmFwTaskStateTable (TaskState T) e Index G T;
       let T = T\<lparr>TaskState := State\<rparr>;
       let G = G\<lparr>mTasks := (mTasks G)[Index := T]\<rparr>;
       Some (if Complete T then TaskCompleted T G else (G, False)) } }"

text \<open>
  The two nested loops over a finite run of environments, from the task with index \<open>Index\<close>; the
  flag tells whether the loop has returned. Without tasks the code's loop never does.
\<close>

primrec PldmFwTaskStateMachineLoop ::
    "fd_env list \<Rightarrow> nat \<Rightarrow> task_globals \<Rightarrow> (task_globals \<times> bool) option" where
  "PldmFwTaskStateMachineLoop [] Index G = Some (G, False)"
| "PldmFwTaskStateMachineLoop (e # es) Index G =
     (if mTasks G = [] then Some (G, False)
      else do {
        let i = (if Index < length (mTasks G) then Index else 0);
        (G, done) \<leftarrow> TaskTurn e i G;
        if done then Some (G, True) else PldmFwTaskStateMachineLoop es (i + 1) G })"

section \<open>Entry points\<close>

text \<open>
  \<open>PldmFwUpdateTaskExecuteAll\<close> returns \<open>mStatus\<close>, the error and the activation method. The inner
  \<open>None\<close> says that the loop is still running after the given environments.
\<close>

definition PldmFwUpdateTaskExecuteAll ::
    "fd_env list \<Rightarrow> task_globals
     \<Rightarrow> (task_globals \<times> (EFI_STATUS \<times> PLDM_FW_UPDATE_TASK_ERROR \<times> 16 word) option) option" where
  "PldmFwUpdateTaskExecuteAll es G = do {
     (G, done) \<leftarrow> PldmFwTaskStateMachineLoop es 0 G;
     Some (G, if done then Some (mStatus G, mError G, mActivationMethod G) else None) }"

definition ZeroTimer :: PLDM_FW_TASK_TIMER where
  "ZeroTimer = \<lparr>Enabled = False, EndNs = 0\<rparr>"

definition NewTask :: "nat \<Rightarrow> byte list \<Rightarrow> nat \<Rightarrow> PLDM_FW_UPDATE_TASK" where
  "NewTask Protocol Package Length =
     \<lparr>FD = Protocol, TaskState = StateStart, Status = EFI_SUCCESS, Complete = False,
      IsExpectingFDRequests = False, RetryCount = 0, FDState = FDStateIdle, RspExtraMs = 0,
      RspTimer = ZeroTimer, RequestFwDataTimer = ZeroTimer, InstanceId = 0,
      RecvBuffer = replicate PLDM_FW_TASK_RECV_BUFFER_SIZE 0, RecvLength = 0, RecvMsgTag = 0,
      Request = replicate PLDM_FW_TASK_REQUEST_SIZE 0, RequestLength = 0, RequestMsgTag = 0,
      RequestIsActive = False,
      Response = replicate PLDM_FW_TASK_RESPONSE_SIZE 0, ResponseLength = 0,
      ProcessResponseState = StateStart, PkgHdr = Package, PkgLen = Length, DeviceIdRecord = None,
      ImageInfoArea = None, ImageInfo = None, ComponentImageIndex = 0, NumUpdateComponents = 0,
      UpdateComponentIndex = 0, LastFwDataRequested = 0,
      GetFwParamsResponseBuffer = replicate PLDM_FW_TASK_FW_PARAMS_SIZE 0,
      GetFwParamsResponse = None, FwParamsComponentIndex = 0, Sent = []\<rparr>"

text \<open>
  \<open>Protocol\<close> is the instance of the protocol that the task is for. The task is counted before \<open>GetDeviceAttributes\<close>, whose status is the argument \<open>Attributes\<close>, can
  fail. A task beyond the allocated array has no result.
\<close>

definition PldmFwUpdateTaskCreate ::
    "nat \<Rightarrow> EFI_STATUS \<Rightarrow> byte list \<Rightarrow> nat \<Rightarrow> task_globals \<Rightarrow> (task_globals \<times> EFI_STATUS) option" where
  "PldmFwUpdateTaskCreate Protocol Attributes Package Length G =
     (if length (mTasks G) < mNumDevices G
      then Some (G\<lparr>mTasks := mTasks G @ [NewTask Protocol Package Length]\<rparr>, Attributes)
      else None)"

text \<open>\<open>allocated\<close> tells whether \<open>AllocateRuntimePool\<close> succeeds. The table check always passes.\<close>

definition PldmFwUpdateTaskLibInit ::
    "bool \<Rightarrow> nat \<Rightarrow> bool \<Rightarrow> task_globals \<Rightarrow> task_globals \<times> EFI_STATUS" where
  "PldmFwUpdateTaskLibInit allocated NumDevices ProgressFunction G =
     (let G = G\<lparr>mNumDevices := NumDevices, mTasks := [], mNumTasksComplete := 0,
                mStatus := EFI_SUCCESS, mActivationMethod := 0\<rparr>
      in if \<not> allocated then (G, EFI_OUT_OF_RESOURCES)
         else (G\<lparr>mError := ERROR_NONE, mProgressFunction := ProgressFunction, mCompletion := 0,
                 ProgressLog := []\<rparr>, EFI_SUCCESS))"

end
