(* ===== verification/PldmTaskContract.thy ===== *)
theory PldmTaskContract
  imports PldmTaskHandlers
begin

text \<open>
  What one call of a handler of the state table does, for every handler at once: which globals it
  may change, which states may follow, what it sends, and when it prepares a new request. The
  properties of the state machine follow from this contract without the handlers' bodies.
\<close>

section \<open>Taking a handler apart\<close>

lemmas handler_defs =
  PldmFwTaskStart_def PldmFwTaskQueryDeviceIdentifiersSetupReq_def
  PldmFwTaskQueryDeviceIdentifiersProcessRsp_def PldmFwTaskGetFwParamsSetupReq_def
  PldmFwTaskGetFwParamsProcessRsp_def PldmFwTaskProcessPackage_def
  PldmFwTaskRequestUpdateSetupReq_def PldmFwTaskRequestUpdateProcessRsp_def
  PldmFwTaskPassComponentTableSetupReq_def PldmFwTaskPassComponentTableProcessRsp_def
  PldmFwTaskPassComponentTableNextComponent_def PldmFwTaskUpdateComponentSetupReq_def
  PldmFwTaskUpdateComponentProcessRsp_def PldmFwTaskWaitForRequests_def
  PldmFwTaskRequestFwDataHandleReq_def PldmFwTaskTransferCompleteHandleReq_def
  PldmFwTaskVerifyCompleteHandleReq_def PldmFwTaskApplyCompleteHandleReq_def
  PldmFwTaskNextComponent_def PldmFwTaskActivateFwSetupReq_def PldmFwTaskActivateFwProcessRsp_def
  PldmFwTaskComplete_def PldmFwTaskReceive_def PldmFwTaskSendReq_def PldmFwTaskProcessRsp_def
  PldmFwTaskRetryReq_def PldmFwTaskFatalError_def PldmFwTaskCancelUpdateComponentSetupReq_def
  PldmFwTaskCancelUpdateComponentProcessRsp_def PldmFwTaskCancelUpdateSetupReq_def
  PldmFwTaskCancelUpdateProcessRsp_def

lemma bind_SomeE:
  assumes "Option.bind m f = Some r" obtains x where "m = Some x" "f x = Some r"
  using assms by (auto simp: bind_eq_Some_conv)

lemma if_SomeE:
  assumes "(if c then a else b) = Some r"
  obtains "c" "a = Some r" | "\<not> c" "b = Some r"
  using assms by (auto split: if_splits)

lemma let_SomeE:
  assumes "Let x f = Some r" obtains "f x = Some r"
  using assms by simp

lemma prod_SomeE:
  assumes "case_prod f p = Some r" obtains a b where "p = (a, b)" "f a b = Some r"
  using assms by (cases p) auto

lemma option_SomeE:
  assumes "case_option a f x = Some r"
  obtains "x = None" "a = Some r" | y where "x = Some y" "f y = Some r"
  using assms by (cases x) auto

lemma step_resultE:
  assumes "Some (a, b, c) = Some (a', b', c')" obtains "a' = a" "b' = b" "c' = c"
  using assms by simp

lemmas step_elims = bind_SomeE if_SomeE let_SomeE prod_SomeE option_SomeE step_resultE

section \<open>The helpers\<close>

definition ProgressOK :: "task_globals \<Rightarrow> bool" where
  "ProgressOK G \<longleftrightarrow> sorted_wrt (<) (0 # ProgressLog G) \<and> last (0 # ProgressLog G) = mCompletion G"

lemma sorted_last_bound: "sorted_wrt (<) xs \<Longrightarrow> x \<in> set xs \<Longrightarrow> x \<le> (last xs :: nat)"
  by (induction xs) (auto simp: less_imp_le split: if_splits)

lemma ProgressOK_Progress: "ProgressOK G \<Longrightarrow> ProgressOK (PldmFwTaskProgress c G)"
proof -
  assume ok: "ProgressOK G"
  have "x < c" if "x \<in> set (0 # ProgressLog G)" "mCompletion G < c" for x
    using sorted_last_bound [of "0 # ProgressLog G" x] ok that by (simp add: ProgressOK_def)
  with ok show ?thesis
    by (auto simp: ProgressOK_def PldmFwTaskProgress_def sorted_wrt_append)
qed

lemma SetError_simps [simp]:
  "mTasks (PldmFwTaskSetError x G) = mTasks G"
  "mStatus (PldmFwTaskSetError x G) = mStatus G"
  "mCancelAllUpdates (PldmFwTaskSetError x G) = mCancelAllUpdates G"
  "mNumTasksComplete (PldmFwTaskSetError x G) = mNumTasksComplete G"
  "mNumDevices (PldmFwTaskSetError x G) = mNumDevices G"
  "mProgressFunction (PldmFwTaskSetError x G) = mProgressFunction G"
  "ProgressOK (PldmFwTaskSetError x G) = ProgressOK G"
  by (simp_all add: PldmFwTaskSetError_def ProgressOK_def)

lemma ActivationMethod_ok [simp]: "ProgressOK (G\<lparr>mActivationMethod := m\<rparr>) = ProgressOK G"
  by (simp add: ProgressOK_def)

lemma Progress_simps [simp]:
  "mTasks (PldmFwTaskProgress x G) = mTasks G"
  "mStatus (PldmFwTaskProgress x G) = mStatus G"
  "mCancelAllUpdates (PldmFwTaskProgress x G) = mCancelAllUpdates G"
  "mNumTasksComplete (PldmFwTaskProgress x G) = mNumTasksComplete G"
  "mNumDevices (PldmFwTaskProgress x G) = mNumDevices G"
  "mProgressFunction (PldmFwTaskProgress x G) = mProgressFunction G"
  "mError (PldmFwTaskProgress x G) = mError G"
  by (simp_all add: PldmFwTaskProgress_def)

lemma SetError_keeps: "mError G \<noteq> ERROR_NONE \<Longrightarrow> mError (PldmFwTaskSetError x G) = mError G"
  by (simp add: PldmFwTaskSetError_def)

lemma SetError_not_none [simp]:
  "mError (PldmFwTaskSetError x G) = ERROR_NONE \<longleftrightarrow> mError G = ERROR_NONE \<and> x = ERROR_NONE"
  by (auto simp: PldmFwTaskSetError_def)

lemma ResultError_not_none [simp]:
  "ResultError ERROR_TRANSFER_COMPLETE_FAILED_SPEC_RANGE a b ERROR_TRANSFER_COMPLETE_FAILED_VENDOR_RANGE
     ERROR_TRANSFER_COMPLETE_RESULT_ERR r \<noteq> ERROR_NONE"
  "ResultError ERROR_VERIFY_COMPLETE_FAILED_SPEC_RANGE a b ERROR_VERIFY_COMPLETE_FAILED_VENDOR_RANGE
     ERROR_VERIFY_COMPLETE_FAILED r \<noteq> ERROR_NONE"
  "ResultError ERROR_APPLY_COMPLETE_FAILED_SPEC_RANGE a b ERROR_APPLY_COMPLETE_FAILED_VENDOR_RANGE
     ERROR_APPLY_COMPLETE_FAILED r \<noteq> ERROR_NONE"
  by (simp_all add: ResultError_def)

lemma DataProgressE:
  assumes "PldmFwTaskDataProgressCompute i G T = Some G'"
  obtains c where "G' = PldmFwTaskProgress c G"
  using assms by (auto simp: PldmFwTaskDataProgressCompute_def Let_def split: if_splits)

lemma SendReqSetupE:
  assumes "PldmFwTaskSendReqSetup c n r T = Some T'"
  obtains q where "n \<le> 128" "PldmFwFillCommon (Request T) True (InstanceId T + 1) c = Some q"
    "T' = T\<lparr>RetryCount := 2, InstanceId := InstanceId T + 1, RequestLength := n,
             ProcessResponseState := r, RspExtraMs := 0, Request := q\<rparr>"
  using assms by (auto simp: PldmFwTaskSendReqSetup_def codes bind_eq_Some_conv Let_def split: if_splits)

lemma FDSendE:
  assumes "FDSend b buf n T = Some T'"
  obtains m where "load_bytes buf 0 n = Some m" "T' = T\<lparr>Sent := Sent T @ [(b, m)]\<rparr>"
  using assms by (auto simp: FDSend_def bind_eq_Some_conv)

lemma AcknowledgeRequestE:
  assumes "AcknowledgeRequest T = Some T'"
  obtains r m where "length r = length (Response T)"
    "T' = T\<lparr>Response := r, ResponseLength := 5, Sent := Sent T @ [(False, m)]\<rparr>"
  using assms by (auto simp: AcknowledgeRequest_def bind_eq_Some_conv Let_def layout elim!: FDSendE
      dest!: store_bytes_length)

lemma ResetComponentInfoE:
  assumes "PldmFwTaskResetComponentInfo T = Some T'"
  obtains a where "PldmFwPkgGetComponentImageInfoArea (PkgHdr T) = Some a"
    "T' = T\<lparr>ImageInfoArea := Some a, ImageInfo := Some (a + 2),
             ComponentImageIndex := 0, FwParamsComponentIndex := 0, UpdateComponentIndex := 0,
             LastFwDataRequested := 0\<rparr>"
  using assms by (auto simp: PldmFwTaskResetComponentInfo_def bind_eq_Some_conv layout)

lemma NextMatchingEntryE:
  assumes "NextMatchingEntry T = Some p"
  obtains k x where "p = (T\<lparr>FwParamsComponentIndex := k\<rparr>, x)"
  using assms by (auto simp: NextMatchingEntry_def bind_eq_Some_conv)

lemma AdvanceMatchE:
  assumes "AdvanceMatch T = Some p"
  obtains k x where "p = (T\<lparr>FwParamsComponentIndex := k\<rparr>, x)"
  using assms by (auto simp: AdvanceMatch_def elim!: NextMatchingEntryE)

lemmas helper_elims = DataProgressE SendReqSetupE FDSendE AcknowledgeRequestE
  ResetComponentInfoE NextMatchingEntryE AdvanceMatchE

section \<open>The contract\<close>

text \<open>Requests the task has sent, and the one its request buffer holds.\<close>

definition requests :: "PLDM_FW_UPDATE_TASK \<Rightarrow> byte list list" where
  "requests T = map snd (filter fst (Sent T))"

definition curReq :: "PLDM_FW_UPDATE_TASK \<Rightarrow> byte list" where
  "curReq T = take (RequestLength T) (Request T)"

definition TaskWf :: "PLDM_FW_UPDATE_TASK \<Rightarrow> bool" where
  "TaskWf T \<longleftrightarrow> length (Request T) = 128 \<and> length (RecvBuffer T) = 1024 \<and> length (Response T) = 4096
     \<and> RequestLength T \<le> 128 \<and> RecvLength T \<le> 1024 \<and> RetryCount T \<le> 2
     \<and> UpdateComponentIndex T = 0"

text \<open>The states that prepare a request, with its command and the state that handles the response.\<close>

fun setup_request :: "PLDM_FW_TASK_STATE \<Rightarrow> (byte \<times> PLDM_FW_TASK_STATE) option" where
  "setup_request StateQueryDeviceIdentifiersSetupReq =
     Some (PLDM_FW_QUERY_DEVICE_IDS, StateQueryDeviceIdentifiersProcessRsp)"
| "setup_request StateGetFwParamsSetupReq = Some (PLDM_FW_GET_FW_PARAMS, StateGetFwParamsProcessRsp)"
| "setup_request StateRequestUpdateSetupReq =
     Some (PLDM_FW_REQUEST_UPDATE, StateRequestUpdateProcessRsp)"
| "setup_request StatePassComponentTableSetupReq =
     Some (PLDM_FW_PASS_COMPONENT_TABLE, StatePassComponentTableProcessRsp)"
| "setup_request StateUpdateComponentSetupReq =
     Some (PLDM_FW_UPDATE_COMPONENT, StateUpdateComponentProcessRsp)"
| "setup_request StateActivateFwSetupReq = Some (PLDM_FW_ACTIVATE_FW, StateActivateFwProcessRsp)"
| "setup_request StateCancelUpdateComponentSetupReq =
     Some (PLDM_FW_CANCEL_UPDATE_COMPONENT, StateCancelUpdateComponentProcessRsp)"
| "setup_request StateCancelUpdateSetupReq =
     Some (PLDM_FW_CANCEL_UPDATE, StateCancelUpdateProcessRsp)"
| "setup_request _ = None"

text \<open>Where \<open>ProcessResponseState\<close> may point: \<open>StateStart\<close> before the first request.\<close>

definition response_states :: "PLDM_FW_TASK_STATE list" where
  "response_states =
     [StateStart, StateQueryDeviceIdentifiersProcessRsp, StateGetFwParamsProcessRsp,
      StateRequestUpdateProcessRsp, StatePassComponentTableProcessRsp,
      StateUpdateComponentProcessRsp, StateActivateFwProcessRsp,
      StateCancelUpdateComponentProcessRsp, StateCancelUpdateProcessRsp]"

lemma setup_request_response: "setup_request s = Some (c, r) \<Longrightarrow> r \<in> set response_states"
  by (cases s) (auto simp: response_states_def)

definition cancel_states :: "PLDM_FW_TASK_STATE list" where
  "cancel_states =
     [StateCancelUpdateComponentSetupReq, StateCancelUpdateComponentProcessRsp,
      StateCancelUpdateSetupReq, StateCancelUpdateProcessRsp]"

text \<open>
  The states that may follow, apart from the jump of \<open>ProcessRsp\<close> to \<open>ProcessResponseState\<close> and from
  the jumps to the cancel states.
\<close>

fun successors :: "PLDM_FW_TASK_STATE \<Rightarrow> PLDM_FW_TASK_STATE list" where
  "successors StateStart = [StateQueryDeviceIdentifiersSetupReq]"
| "successors StateQueryDeviceIdentifiersSetupReq = [StateSendReq]"
| "successors StateQueryDeviceIdentifiersProcessRsp = [StateFatalError, StateGetFwParamsSetupReq]"
| "successors StateGetFwParamsSetupReq = [StateSendReq]"
| "successors StateGetFwParamsProcessRsp = [StateFatalError, StateProcessPackage]"
| "successors StateProcessPackage = [StateFatalError, StateRequestUpdateSetupReq]"
| "successors StateRequestUpdateSetupReq = [StateSendReq]"
| "successors StateRequestUpdateProcessRsp = [StateFatalError, StatePassComponentTableSetupReq]"
| "successors StatePassComponentTableSetupReq = [StatePassComponentTableNextComponent, StateSendReq]"
| "successors StatePassComponentTableProcessRsp =
     [StateFatalError, StatePassComponentTableNextComponent]"
| "successors StatePassComponentTableNextComponent =
     [StatePassComponentTableSetupReq, StateUpdateComponentSetupReq]"
| "successors StateUpdateComponentSetupReq = [StateNextComponent, StateSendReq]"
| "successors StateUpdateComponentProcessRsp = [StateFatalError, StateWaitForRequests]"
| "successors StateWaitForRequests = [StateReceive]"
| "successors StateRequestFwDataHandleReq = [StateWaitForRequests]"
| "successors StateTransferCompleteHandleReq = [StateFatalError, StateWaitForRequests]"
| "successors StateVerifyCompleteHandleReq = [StateFatalError, StateWaitForRequests]"
| "successors StateApplyCompleteHandleReq = [StateFatalError, StateNextComponent]"
| "successors StateNextComponent =
     [StatePassComponentTableSetupReq, StateActivateFwSetupReq, StateUpdateComponentSetupReq]"
| "successors StateActivateFwSetupReq = [StateSendReq]"
| "successors StateActivateFwProcessRsp = [StateFatalError, StateComplete]"
| "successors StateComplete = [StateMax]"
| "successors StateReceive =
     [StateFatalError, StateRetryReq, StateReceive, StateRequestFwDataHandleReq,
      StateTransferCompleteHandleReq, StateVerifyCompleteHandleReq, StateApplyCompleteHandleReq,
      StateProcessRsp]"
| "successors StateSendReq = [StateFatalError, StateReceive]"
| "successors StateProcessRsp = [StateReceive, StateRetryReq]"
| "successors StateRetryReq = [StateFatalError, StateSendReq]"
| "successors StateFatalError = [StateComplete]"
| "successors StateCancelUpdateComponentSetupReq = [StateSendReq]"
| "successors StateCancelUpdateComponentProcessRsp = [StateCancelUpdateSetupReq]"
| "successors StateCancelUpdateSetupReq = [StateSendReq]"
| "successors StateCancelUpdateProcessRsp = [StateComplete]"
| "successors StateMax = []"

definition globals_kept :: "task_globals \<Rightarrow> task_globals \<Rightarrow> bool" where
  "globals_kept G G' \<longleftrightarrow> mTasks G' = mTasks G \<and> mStatus G' = mStatus G
     \<and> mCancelAllUpdates G' = mCancelAllUpdates G \<and> mNumTasksComplete G' = mNumTasksComplete G
     \<and> mNumDevices G' = mNumDevices G \<and> mProgressFunction G' = mProgressFunction G
     \<and> (mError G \<noteq> ERROR_NONE \<longrightarrow> mError G' = mError G) \<and> (ProgressOK G \<longrightarrow> ProgressOK G')"

definition request_kept :: "PLDM_FW_TASK_STATE \<Rightarrow> PLDM_FW_UPDATE_TASK \<Rightarrow> PLDM_FW_UPDATE_TASK
    \<Rightarrow> PLDM_FW_TASK_STATE \<Rightarrow> bool" where
  "request_kept s T T' s' \<longleftrightarrow>
     Request T' = Request T \<and> RequestLength T' = RequestLength T \<and> InstanceId T' = InstanceId T
     \<and> ProcessResponseState T' = ProcessResponseState T
     \<and> RetryCount T' = (if s = StateRetryReq then RetryCount T - 1 else RetryCount T)
     \<and> (s' = StateSendReq \<longrightarrow> s = StateRetryReq \<and> 0 < RetryCount T)"

definition request_prepared :: "PLDM_FW_TASK_STATE \<Rightarrow> PLDM_FW_UPDATE_TASK \<Rightarrow> PLDM_FW_UPDATE_TASK
    \<Rightarrow> PLDM_FW_TASK_STATE \<Rightarrow> bool" where
  "request_prepared s T T' s' \<longleftrightarrow>
     (\<exists>c. setup_request s = Some (c, ProcessResponseState T') \<and> Request T' ! 3 = c) \<and> s' = StateSendReq
     \<and> InstanceId T' = InstanceId T + 1
     \<and> Request T' ! 1 = (InstanceId T' AND 0x3f) OR 0x80
     \<and> RetryCount T' = 2 \<and> 4 \<le> RequestLength T'"

text \<open>The states whose handler looks at \<open>mCancelAllUpdates\<close> first.\<close>

definition cancellable_states :: "PLDM_FW_TASK_STATE list" where
  "cancellable_states =
     [StateRequestUpdateSetupReq, StateRequestUpdateProcessRsp, StatePassComponentTableSetupReq,
      StatePassComponentTableProcessRsp, StatePassComponentTableNextComponent,
      StateUpdateComponentSetupReq, StateUpdateComponentProcessRsp, StateWaitForRequests,
      StateRequestFwDataHandleReq, StateTransferCompleteHandleReq, StateVerifyCompleteHandleReq,
      StateApplyCompleteHandleReq, StateNextComponent, StateActivateFwSetupReq]"

definition next_state :: "PLDM_FW_TASK_STATE \<Rightarrow> bool \<Rightarrow> PLDM_FW_UPDATE_TASK
    \<Rightarrow> PLDM_FW_TASK_STATE \<Rightarrow> bool" where
  "next_state s cancel T s' \<longleftrightarrow>
     (if cancel \<and> s \<in> set cancellable_states
      then s' \<in> {StateCancelUpdateSetupReq, StateCancelUpdateComponentSetupReq}
      else s' \<in> set (successors s)
           \<or> s = StateProcessRsp \<and> RequestIsActive T \<and> s' = ProcessResponseState T)"

definition task_kept :: "PLDM_FW_TASK_STATE \<Rightarrow> PLDM_FW_UPDATE_TASK \<Rightarrow> PLDM_FW_UPDATE_TASK \<Rightarrow> bool"
where
  "task_kept s T T' \<longleftrightarrow>
     (TaskWf T \<longrightarrow> TaskWf T') \<and> FD T' = FD T \<and> PkgHdr T' = PkgHdr T \<and> PkgLen T' = PkgLen T
     \<and> Status T' = (if s = StateFatalError then EFI_PROTOCOL_ERROR else Status T)
     \<and> Complete T' = (s = StateComplete \<or> Complete T)"

definition request_effect :: "PLDM_FW_TASK_STATE \<Rightarrow> PLDM_FW_UPDATE_TASK \<Rightarrow> PLDM_FW_UPDATE_TASK
    \<Rightarrow> PLDM_FW_TASK_STATE \<Rightarrow> bool" where
  "request_effect s T T' s' \<longleftrightarrow>
     requests T' = requests T @ (if s = StateSendReq then [curReq T] else [])
     \<and> (request_kept s T T' s' \<or> request_prepared s T T' s')
     \<and> RequestIsActive T' = (if s = StateSendReq then RequestIsActive T \<or> s' = StateReceive
                             else s \<noteq> StateProcessRsp \<and> RequestIsActive T)
     \<and> (IsExpectingFDRequests T' = IsExpectingFDRequests T
        \<or> s = StateWaitForRequests \<and> IsExpectingFDRequests T'
        \<or> s = StateNextComponent \<and> s' = StateActivateFwSetupReq)
     \<and> (s = StateWaitForRequests \<and> s' = StateReceive \<longrightarrow> IsExpectingFDRequests T')
     \<and> (s = StateProcessRsp \<and> s' = StateReceive \<longrightarrow> \<not> RequestIsActive T)
     \<and> (s = StateReceive \<longrightarrow> IsExpectingFDRequests T \<or> RequestIsActive T)"

definition handler_contract :: "PLDM_FW_TASK_STATE \<Rightarrow> task_globals \<Rightarrow> PLDM_FW_UPDATE_TASK
    \<Rightarrow> task_globals \<Rightarrow> PLDM_FW_UPDATE_TASK \<Rightarrow> PLDM_FW_TASK_STATE \<Rightarrow> bool" where
  "handler_contract s G T G' T' s' \<longleftrightarrow>
     globals_kept G G' \<and> (s' = StateFatalError \<longrightarrow> mError G' \<noteq> ERROR_NONE)
     \<and> task_kept s T T' \<and> request_effect s T T' s' \<and> next_state s (mCancelAllUpdates G) T s'"

lemmas contract_defs = handler_contract_def globals_kept_def task_kept_def request_effect_def
  next_state_def cancellable_states_def requests_def curReq_def

lemma FwFillE:
  assumes "PldmFwFillCommon b True i c = Some q"
  shows "length q = length b \<and> q ! 3 = c \<and> q ! 1 = (i AND 0x3f) OR 0x80"
  using assms PldmFillCommon_frame [of b True i PLDM_TYPE_FW_UPDATE c q]
    PldmFillCommon_bytes [of b True i PLDM_TYPE_FW_UPDATE c q]
  by (simp add: PldmFwFillCommon_def)

lemma load_bytes_take: "load_bytes b 0 n = Some m \<Longrightarrow> m = take n b"
  by (auto simp: load_bytes_def split: if_splits)

lemmas leaf_simps = contract_defs TaskWf_def request_kept_def request_prepared_def SetError_keeps
  ProgressOK_Progress PldmFwTaskSetFDState_def codes layout

text \<open>
  The states are taken in groups, each within a few seconds: open the table entry, take the
  handler's computation apart, and read the contract off every outcome.
\<close>

lemma contract_inventory:
  assumes "s \<in> {StateStart, StateQueryDeviceIdentifiersSetupReq, StateQueryDeviceIdentifiersProcessRsp,
      StateGetFwParamsSetupReq, StateGetFwParamsProcessRsp, StateProcessPackage}"
    and "mPldmFwTaskStateTable s e i G T = Some (G', T', s')"
  shows "handler_contract s G T G' T' s'"
  using assms
  by (elim insertE emptyE; hypsubst; simp only: mPldmFwTaskStateTable.simps handler_defs;
      elim step_elims helper_elims)
     (auto simp: leaf_simps dest!: FwFillE store_bytes_fits load_bytes_take)

lemma contract_component_table:
  assumes "s \<in> {StateRequestUpdateSetupReq, StateRequestUpdateProcessRsp,
      StatePassComponentTableSetupReq, StatePassComponentTableProcessRsp,
      StatePassComponentTableNextComponent}"
    and "mPldmFwTaskStateTable s e i G T = Some (G', T', s')"
  shows "handler_contract s G T G' T' s'"
  using assms
  by (elim insertE emptyE; hypsubst; simp only: mPldmFwTaskStateTable.simps handler_defs;
      elim step_elims helper_elims)
     (auto simp: leaf_simps dest!: FwFillE store_bytes_fits load_bytes_take)

lemma contract_update:
  assumes "s \<in> {StateUpdateComponentSetupReq, StateUpdateComponentProcessRsp, StateWaitForRequests,
      StateNextComponent, StateActivateFwSetupReq, StateActivateFwProcessRsp, StateComplete}"
    and "mPldmFwTaskStateTable s e i G T = Some (G', T', s')"
  shows "handler_contract s G T G' T' s'"
  using assms
  by (elim insertE emptyE; hypsubst; simp only: mPldmFwTaskStateTable.simps handler_defs;
      elim step_elims helper_elims)
     (auto simp: leaf_simps dest!: FwFillE store_bytes_fits load_bytes_take)

lemma contract_fd_requests:
  assumes "s \<in> {StateRequestFwDataHandleReq, StateTransferCompleteHandleReq,
      StateVerifyCompleteHandleReq, StateApplyCompleteHandleReq}"
    and "mPldmFwTaskStateTable s e i G T = Some (G', T', s')"
  shows "handler_contract s G T G' T' s'"
  using assms
  by (elim insertE emptyE; hypsubst; simp only: mPldmFwTaskStateTable.simps handler_defs;
      elim step_elims helper_elims)
     (auto simp: leaf_simps dest!: FwFillE store_bytes_fits load_bytes_take)

lemma contract_receive:
  assumes "mPldmFwTaskStateTable StateReceive e i G T = Some (G', T', s')"
  shows "handler_contract StateReceive G T G' T' s'"
  using assms
  by (simp only: mPldmFwTaskStateTable.simps handler_defs; elim step_elims helper_elims;
      simp add: leaf_simps split: if_splits)
     (auto dest!: store_bytes_fits)

lemma contract_process_rsp:
  assumes "mPldmFwTaskStateTable StateProcessRsp e i G T = Some (G', T', s')"
    and "ProcessResponseState T \<in> set response_states"
  shows "handler_contract StateProcessRsp G T G' T' s'"
proof -
  have "ProcessResponseState T \<noteq> StateFatalError" "ProcessResponseState T \<noteq> StateSendReq"
      "ProcessResponseState T \<noteq> StateReceive"
    using assms(2) by (auto simp: response_states_def)
  with assms(1) show ?thesis
    by (auto simp: handler_defs leaf_simps bind_eq_Some_conv Let_def split: if_splits)
qed

lemma contract_transport:
  assumes "s \<in> {StateSendReq, StateRetryReq, StateFatalError}"
    and "mPldmFwTaskStateTable s e i G T = Some (G', T', s')"
  shows "handler_contract s G T G' T' s'"
  using assms
  by (elim insertE emptyE; hypsubst; simp only: mPldmFwTaskStateTable.simps handler_defs;
      elim step_elims helper_elims)
     (auto simp: leaf_simps dest!: FwFillE store_bytes_fits load_bytes_take)

lemma contract_cancel:
  assumes "s \<in> {StateCancelUpdateComponentSetupReq,
      StateCancelUpdateComponentProcessRsp, StateCancelUpdateSetupReq, StateCancelUpdateProcessRsp}"
    and "mPldmFwTaskStateTable s e i G T = Some (G', T', s')"
  shows "handler_contract s G T G' T' s'"
  using assms
  by (elim insertE emptyE; hypsubst; simp only: mPldmFwTaskStateTable.simps handler_defs;
      elim step_elims helper_elims)
     (auto simp: leaf_simps dest!: FwFillE store_bytes_fits load_bytes_take)

theorem handlers_meet_contract:
  assumes "mPldmFwTaskStateTable s e i G T = Some (G', T', s')"
    and "ProcessResponseState T \<in> set response_states"
  shows "handler_contract s G T G' T' s'"
proof (cases "s = StateMax")
  case True
  with assms show ?thesis by simp
next
  case False
  note groups = contract_inventory [OF _ assms(1)] contract_component_table [OF _ assms(1)]
    contract_update [OF _ assms(1)] contract_fd_requests [OF _ assms(1)]
    contract_transport [OF _ assms(1)] contract_cancel [OF _ assms(1)]
  show ?thesis
  proof (cases "s = StateReceive \<or> s = StateProcessRsp")
    case True
    with assms show ?thesis by (auto intro: contract_receive contract_process_rsp)
  next
    case False
    with \<open>s \<noteq> StateMax\<close> show ?thesis
      by (cases s) (rule groups, force)+
  qed
qed

end
