(* ===== verification/PldmTaskProps.thy ===== *)
theory PldmTaskProps
  imports PldmTaskContract
begin

text \<open>
  The runs of the update state machine: the invariant of a task, the invariant of all tasks with
  the globals, and what they give for the loop and for \<open>PldmFwUpdateTaskExecuteAll\<close>.
\<close>

section \<open>The invariant of one task\<close>

text \<open>The instance byte of the current request, and whether the activation request was sent.\<close>

definition iid_byte :: "PLDM_FW_UPDATE_TASK \<Rightarrow> byte" where
  "iid_byte T = (InstanceId T AND 0x3f) OR 0x80"

definition activated :: "PLDM_FW_UPDATE_TASK \<Rightarrow> bool" where
  "activated T \<longleftrightarrow> (\<exists>m \<in> set (requests T). 3 < length m \<and> m ! 3 = PLDM_FW_ACTIVATE_FW)"

text \<open>How often the current request has been sent since the last other request.\<close>

definition resends :: "PLDM_FW_UPDATE_TASK \<Rightarrow> nat" where
  "resends T = length (takeWhile (\<lambda>m. m = curReq T) (rev (requests T)))"

definition task_control :: "bool \<Rightarrow> PLDM_FW_UPDATE_TASK \<Rightarrow> bool" where
  "task_control err T \<longleftrightarrow>
     TaskWf T \<and> ProcessResponseState T \<in> set response_states
     \<and> (Complete T \<longleftrightarrow> TaskState T = StateMax)
     \<and> (TaskState T \<in> {StateReceive, StateProcessRsp} \<longrightarrow> IsExpectingFDRequests T \<or> RequestIsActive T)
     \<and> (TaskState T = StateFatalError \<longrightarrow> err)
     \<and> Status T \<in> {EFI_SUCCESS, EFI_PROTOCOL_ERROR}
     \<and> (Status T \<noteq> EFI_SUCCESS \<longrightarrow> err \<and> TaskState T \<in> {StateComplete, StateMax})"

definition task_activation :: "bool \<Rightarrow> PLDM_FW_UPDATE_TASK \<Rightarrow> bool" where
  "task_activation cancel T \<longleftrightarrow>
     (ProcessResponseState T = StateActivateFwProcessRsp \<and> Status T = EFI_SUCCESS \<longrightarrow>
        activated T \<or> TaskState T = StateFatalError
        \<or> TaskState T = StateSendReq \<and> Request T ! 3 = PLDM_FW_ACTIVATE_FW \<and> 4 \<le> RequestLength T)
     \<and> (TaskState T = StateActivateFwProcessRsp \<longrightarrow> activated T)
     \<and> (TaskState T \<in> {StateComplete, StateMax} \<and> Status T = EFI_SUCCESS \<longrightarrow> activated T \<or> cancel)
     \<and> (TaskState T \<in> set cancel_states \<or> ProcessResponseState T \<in> set cancel_states \<longrightarrow> cancel)"

definition task_retries :: "PLDM_FW_UPDATE_TASK \<Rightarrow> bool" where
  "task_retries T \<longleftrightarrow>
     (TaskState T \<in> {StateStart, StateQueryDeviceIdentifiersSetupReq}
        \<or> ProcessResponseState T \<noteq> StateStart)
     \<and> (ProcessResponseState T \<noteq> StateStart \<longrightarrow> Request T ! 1 = iid_byte T \<and> 4 \<le> RequestLength T)
     \<and> (ProcessResponseState T = StateStart \<longrightarrow> requests T = [])
     \<and> (TaskState T \<noteq> StateSendReq \<and> requests T \<noteq> [] \<longrightarrow>
          1 < length (last (requests T)) \<and> last (requests T) ! 1 = iid_byte T)
     \<and> resends T + RetryCount T \<le> (if TaskState T = StateSendReq then 2 else 3)
     \<and> (\<forall>xs m ys. requests T \<noteq> xs @ [m, m, m, m] @ ys)"

lemma TaskState_update_simps [simp]:
  "requests (T\<lparr>TaskState := s\<rparr>) = requests T" "curReq (T\<lparr>TaskState := s\<rparr>) = curReq T"
  "activated (T\<lparr>TaskState := s\<rparr>) = activated T" "resends (T\<lparr>TaskState := s\<rparr>) = resends T"
  "iid_byte (T\<lparr>TaskState := s\<rparr>) = iid_byte T" "TaskWf (T\<lparr>TaskState := s\<rparr>) = TaskWf T"
  by (simp_all add: requests_def curReq_def activated_def resends_def iid_byte_def TaskWf_def)

lemma contractD:
  assumes "handler_contract s G T G' T' s'"
  shows "globals_kept G G'" "s' = StateFatalError \<longrightarrow> mError G' \<noteq> ERROR_NONE"
    "task_kept s T T'" "request_effect s T T' s'" "next_state s (mCancelAllUpdates G) T s'"
  using assms by (simp_all add: handler_contract_def)

lemma request_effectD:
  assumes "request_effect s T T' s'"
  shows "requests T' = requests T @ (if s = StateSendReq then [curReq T] else [])"
    "request_kept s T T' s' \<or> request_prepared s T T' s'"
    "RequestIsActive T' = (if s = StateSendReq then RequestIsActive T \<or> s' = StateReceive
                           else s \<noteq> StateProcessRsp \<and> RequestIsActive T)"
    "IsExpectingFDRequests T' = IsExpectingFDRequests T
      \<or> s = StateWaitForRequests \<and> IsExpectingFDRequests T'
      \<or> s = StateNextComponent \<and> s' = StateActivateFwSetupReq"
    "s = StateWaitForRequests \<and> s' = StateReceive \<Longrightarrow> IsExpectingFDRequests T'"
    "s = StateProcessRsp \<and> s' = StateReceive \<Longrightarrow> \<not> RequestIsActive T"
    "s = StateReceive \<Longrightarrow> IsExpectingFDRequests T \<or> RequestIsActive T"
  using assms by (simp_all add: request_effect_def)

lemma request_response_state:
  assumes "request_effect s T T' s'" and "ProcessResponseState T \<in> set response_states"
  shows "ProcessResponseState T' \<in> set response_states"
  using request_effectD(2) [OF assms(1)] assms(2)
  by (elim disjE) (auto simp: request_kept_def request_prepared_def dest: setup_request_response)

lemma next_state_Max:
  assumes "next_state s c T s'" "ProcessResponseState T \<in> set response_states"
  shows "s' = StateMax \<longleftrightarrow> s = StateComplete"
  using assms by (cases s) (auto simp: next_state_def cancellable_states_def response_states_def
      split: if_splits)

lemma next_state_expecting:
  assumes "next_state s c T s'" "s' \<in> {StateReceive, StateProcessRsp}"
    "ProcessResponseState T \<in> set response_states"
  shows "s \<in> {StateWaitForRequests, StateReceive, StateSendReq, StateProcessRsp}"
    "s' = StateProcessRsp \<longrightarrow> s = StateReceive"
  using assms by (cases s; auto simp: next_state_def cancellable_states_def response_states_def
      split: if_splits)+

lemma control_step:
  assumes "handler_contract (TaskState T) G T G' T' s'" and "\<not> Complete T"
    and "task_control (mError G \<noteq> ERROR_NONE) T"
  shows "task_control (mError G' \<noteq> ERROR_NONE) (T'\<lparr>TaskState := s'\<rparr>)"
proof -
  note c = contractD [OF assms(1)]
  from assms(3) have prs: "ProcessResponseState T \<in> set response_states"
    by (simp add: task_control_def)
  have err: "mError G \<noteq> ERROR_NONE \<Longrightarrow> mError G' \<noteq> ERROR_NONE"
    using c(1) by (simp add: globals_kept_def)
  have "IsExpectingFDRequests T' \<or> RequestIsActive T'" if "s' \<in> {StateReceive, StateProcessRsp}"
  proof -
    note e = request_effectD [OF c(4)]
    have "TaskState T = StateProcessRsp \<longrightarrow> IsExpectingFDRequests T \<or> RequestIsActive T"
      using assms(3) by (simp add: task_control_def)
    with next_state_expecting [OF c(5) that prs] that e(3-7) show ?thesis
      by (elim insertE emptyE) auto
  qed
  moreover have "TaskState T = StateFatalError \<Longrightarrow> s' = StateComplete"
    using c(5) by (simp add: next_state_def cancellable_states_def)
  moreover have "TaskState T = StateComplete \<Longrightarrow> s' = StateMax"
    using next_state_Max [OF c(5) prs] by simp
  moreover have "TaskState T \<noteq> StateMax"
    using assms(2,3) by (simp add: task_control_def)
  ultimately show ?thesis
    using assms(2,3) c(2,3) request_response_state [OF c(4) prs] next_state_Max [OF c(5) prs] err
    by (auto simp: task_control_def task_kept_def)
qed

section \<open>Retries\<close>

lemma next_instance_byte: "((x + 1) AND 0x3f) OR 0x80 \<noteq> (x AND 0x3f) OR (0x80 :: byte)"
proof
  assume eq: "((x + 1) AND 0x3f) OR 0x80 = (x AND 0x3f) OR (0x80 :: byte)"
  have "bit (((x + 1) AND 0x3f) OR 0x80) 0 = (\<not> bit ((x AND 0x3f) OR (0x80 :: byte)) 0)"
    by (simp add: bit_0 even_and_iff even_or_iff)
  with eq show False by simp
qed

lemma takeWhile_snoc_run:
  assumes "rs = xs @ [m, m, m, m] @ ys" and "rs = qs @ [q]"
    and "\<forall>xs m ys. qs \<noteq> xs @ [m, m, m, m] @ ys"
  shows "3 < length (takeWhile (\<lambda>m. m = q) (rev rs))"
proof (cases ys rule: rev_cases)
  case Nil
  with assms(1,2) show ?thesis by auto
next
  case (snoc zs z)
  with assms(1,2) have "qs = xs @ [m, m, m, m] @ zs" by simp
  with assms(3) show ?thesis by blast
qed

lemma retries_send:
  assumes "task_retries T" "TaskState T = StateSendReq" "TaskWf T"
    and "requests T' = requests T @ [curReq T]" "request_kept StateSendReq T T' s'"
    and "s' \<noteq> StateSendReq"
  shows "task_retries (T'\<lparr>TaskState := s'\<rparr>)"
proof -
  have kept: "curReq T' = curReq T" "iid_byte T' = iid_byte T" "RetryCount T' = RetryCount T"
      "ProcessResponseState T' = ProcessResponseState T" "Request T' = Request T"
      "RequestLength T' = RequestLength T"
    using assms(5) by (simp_all add: request_kept_def curReq_def iid_byte_def)
  have prs: "ProcessResponseState T \<noteq> StateStart"
    using assms(1,2) by (simp add: task_retries_def)
  then have len: "Request T ! 1 = iid_byte T" "4 \<le> RequestLength T"
    using assms(1) by (simp_all add: task_retries_def)
  then have last: "1 < length (curReq T)" "curReq T ! 1 = iid_byte T"
    using assms(3) by (simp_all add: curReq_def TaskWf_def)
  have more: "resends T' = resends T + 1"
    by (simp add: resends_def assms(4) kept)
  have few: "resends T + RetryCount T \<le> 2"
    using assms(1,2) by (simp add: task_retries_def)
  have "requests T' \<noteq> xs @ [m, m, m, m] @ ys" for xs m ys
  proof
    assume "requests T' = xs @ [m, m, m, m] @ ys"
    moreover have "\<forall>xs m ys. requests T \<noteq> xs @ [m, m, m, m] @ ys"
      using assms(1) by (simp add: task_retries_def)
    ultimately have "3 < length (takeWhile (\<lambda>m. m = curReq T) (rev (requests T')))"
      by (rule takeWhile_snoc_run [OF _ assms(4)])
    then have "3 < resends T'" by (simp add: resends_def kept)
    with more few show False by simp
  qed
  with prs len last more few assms(4,6) kept show ?thesis
    by (simp add: task_retries_def)
qed

lemma retries_prepare:
  assumes "task_retries T" "TaskState T \<noteq> StateSendReq" "TaskWf T'"
    and "requests T' = requests T" "request_prepared (TaskState T) T T' s'"
  shows "task_retries (T'\<lparr>TaskState := s'\<rparr>)"
proof -
  have prep: "Request T' ! 1 = iid_byte T'" "4 \<le> RequestLength T'" "RetryCount T' = 2"
      "s' = StateSendReq" "InstanceId T' = InstanceId T + 1"
      "ProcessResponseState T' \<noteq> StateStart"
    using assms(5) by (auto simp: request_prepared_def iid_byte_def response_states_def
        dest: setup_request_response elim: setup_request.elims)
  have cur: "1 < length (curReq T')" "curReq T' ! 1 = iid_byte T'"
    using prep assms(3) by (simp_all add: curReq_def TaskWf_def)
  have fresh: "iid_byte T' \<noteq> iid_byte T"
    using next_instance_byte [of "InstanceId T"] by (simp add: iid_byte_def prep(5))
  have "resends T' = 0"
  proof (cases "requests T" rule: rev_cases)
    case Nil
    then show ?thesis by (simp add: resends_def assms(4))
  next
    case (snoc ms m)
    then have "m ! 1 = iid_byte T"
      using assms(1,2) by (simp add: task_retries_def)
    with cur fresh have "m \<noteq> curReq T'" by auto
    with snoc show ?thesis by (simp add: resends_def assms(4))
  qed
  with prep assms(1,4) show ?thesis
    by (simp add: task_retries_def)
qed

lemma retries_step:
  assumes "handler_contract (TaskState T) G T G' T' s'"
    and "task_control err T" "task_retries T"
  shows "task_retries (T'\<lparr>TaskState := s'\<rparr>)"
proof -
  note c = contractD [OF assms(1)]
  note e = request_effectD [OF c(4)]
  have wf: "TaskWf T" "TaskWf T'" and prs: "ProcessResponseState T \<in> set response_states"
    using assms(2) c(3) by (simp_all add: task_control_def task_kept_def)
  show ?thesis
  proof (cases "TaskState T = StateSendReq")
    case True
    with c(5) have "s' \<noteq> StateSendReq" by (auto simp: next_state_def cancellable_states_def)
    moreover have "request_kept StateSendReq T T' s'"
      using e(2) True by (auto simp: request_prepared_def)
    ultimately show ?thesis
      using retries_send assms(3) True wf e(1) by auto
  next
    case False
    then have req: "requests T' = requests T" using e(1) by simp
    show ?thesis
    proof (cases "request_prepared (TaskState T) T T' s'")
      case True
      show ?thesis by (rule retries_prepare [OF assms(3) False wf(2) req True])
    next
      case np: False
      then have k: "request_kept (TaskState T) T T' s'" using e(2) by blast
      then have same: "curReq T' = curReq T" "iid_byte T' = iid_byte T" "Request T' = Request T"
          "RequestLength T' = RequestLength T"
          "ProcessResponseState T' = ProcessResponseState T"
          "RetryCount T' = (if TaskState T = StateRetryReq then RetryCount T - 1 else RetryCount T)"
          "s' = StateSendReq \<longrightarrow> TaskState T = StateRetryReq \<and> 0 < RetryCount T"
        by (simp_all add: request_kept_def curReq_def iid_byte_def)
      have start: "s' \<in> {StateStart, StateQueryDeviceIdentifiersSetupReq}
          \<or> ProcessResponseState T \<noteq> StateStart"
        using assms(3) c(5) np k
        by (auto simp: task_retries_def next_state_def cancellable_states_def request_kept_def
            split: if_splits)
      have "resends T' = resends T" by (simp add: resends_def req same)
      with start same req False assms(3) show ?thesis
        by (auto simp: task_retries_def)
    qed
  qed
qed

section \<open>Activation\<close>

lemma activated_requests: "requests T' = requests T @ xs \<Longrightarrow> activated T \<Longrightarrow> activated T'"
  by (auto simp: activated_def)

lemma setup_request_activate:
  "setup_request s = Some (c, StateActivateFwProcessRsp) \<Longrightarrow> c = PLDM_FW_ACTIVATE_FW"
  "setup_request s = Some (c, r) \<Longrightarrow> r \<in> set cancel_states \<Longrightarrow> s \<in> set cancel_states"
  by (cases s; simp add: cancel_states_def)+

lemma next_state_activation:
  assumes "next_state s c T s'"
  shows "s' = StateActivateFwProcessRsp \<Longrightarrow>
      s = StateProcessRsp \<and> ProcessResponseState T = StateActivateFwProcessRsp"
    and "s' = StateComplete \<Longrightarrow>
      s \<in> {StateActivateFwProcessRsp, StateFatalError, StateCancelUpdateProcessRsp}
      \<or> s = StateProcessRsp \<and> ProcessResponseState T = StateComplete"
    and "s' \<in> set cancel_states \<Longrightarrow>
      c \<or> s \<in> set cancel_states \<or> ProcessResponseState T \<in> set cancel_states"
  using assms by (cases s; auto simp: next_state_def cancellable_states_def cancel_states_def
      split: if_splits)+

lemma activation_step:
  assumes "handler_contract (TaskState T) G T G' T' s'" and "\<not> Complete T"
    and "task_control err T" and "task_activation (mCancelAllUpdates G) T"
  shows "task_activation (mCancelAllUpdates G') (T'\<lparr>TaskState := s'\<rparr>)"
proof -
  note c = contractD [OF assms(1)]
  note e = request_effectD [OF c(4)]
  let ?cancel = "mCancelAllUpdates G"
  have wf: "TaskWf T" and prs: "ProcessResponseState T \<in> set response_states"
    and st: "TaskState T \<noteq> StateMax"
    and ok: "Status T \<noteq> EFI_SUCCESS \<Longrightarrow> TaskState T \<in> {StateComplete, StateMax}"
    using assms(2,3) by (auto simp: task_control_def)
  have cancel': "mCancelAllUpdates G' = ?cancel"
    using c(1) by (simp add: globals_kept_def)
  have act: "activated T \<Longrightarrow> activated T'"
    using activated_requests [OF e(1)] .
  have st': "Status T' = (if TaskState T = StateFatalError then EFI_PROTOCOL_ERROR else Status T)"
    using c(3) by (simp add: task_kept_def)
  have rsp: "activated T" if "TaskState T = StateProcessRsp"
      "ProcessResponseState T = StateActivateFwProcessRsp"
    using assms(4) that ok by (auto simp: task_activation_def)
  have sent: "activated T'" if "TaskState T = StateSendReq"
      "Request T ! 3 = PLDM_FW_ACTIVATE_FW" "4 \<le> RequestLength T"
    using that e(1) wf by (auto simp: activated_def curReq_def TaskWf_def)
  have cancelled: ?cancel if "TaskState T \<in> set cancel_states \<or> ProcessResponseState T \<in> set cancel_states"
    using assms(4) that by (simp add: task_activation_def)
  have p1: "activated T' \<or> s' = StateFatalError
      \<or> s' = StateSendReq \<and> Request T' ! 3 = PLDM_FW_ACTIVATE_FW \<and> 4 \<le> RequestLength T'"
    if "ProcessResponseState T' = StateActivateFwProcessRsp" "Status T' = EFI_SUCCESS"
    using e(2)
  proof
    assume "request_prepared (TaskState T) T T' s'"
    with that(1) show ?thesis
      by (auto simp: request_prepared_def dest: setup_request_activate)
  next
    assume "request_kept (TaskState T) T T' s'"
    then have "ProcessResponseState T = StateActivateFwProcessRsp"
      using that(1) by (simp add: request_kept_def)
    moreover have "Status T = EFI_SUCCESS" "TaskState T \<noteq> StateFatalError"
      using that(2) st' by (auto split: if_splits)
    ultimately show ?thesis
      using assms(4) act sent by (auto simp: task_activation_def)
  qed
  have p2: "activated T'" if "s' = StateActivateFwProcessRsp"
    using next_state_activation(1) [OF c(5) that] rsp act by blast
  have p3: "activated T' \<or> ?cancel" if "s' \<in> {StateComplete, StateMax}" "Status T' = EFI_SUCCESS"
  proof (cases "s' = StateMax")
    case True
    then have "TaskState T = StateComplete" using next_state_Max [OF c(5) prs] by simp
    then show ?thesis using assms(4) that(2) st' act by (auto simp: task_activation_def)
  next
    case False
    with that(1) have "s' = StateComplete" by simp
    moreover have "ProcessResponseState T \<noteq> StateComplete"
      using prs by (auto simp: response_states_def)
    ultimately have "TaskState T \<in> {StateActivateFwProcessRsp, StateFatalError, StateCancelUpdateProcessRsp}"
      using next_state_activation(2) [OF c(5)] by blast
    then show ?thesis
      using assms(4) act st' that(2) cancelled
      by (elim insertE emptyE) (auto simp: task_activation_def cancel_states_def)
  qed
  have p4: ?cancel if "s' \<in> set cancel_states \<or> ProcessResponseState T' \<in> set cancel_states"
    using that
  proof
    assume "s' \<in> set cancel_states"
    then show ?thesis using next_state_activation(3) [OF c(5)] cancelled by blast
  next
    assume a: "ProcessResponseState T' \<in> set cancel_states"
    from e(2) have "ProcessResponseState T \<in> set cancel_states \<or> TaskState T \<in> set cancel_states"
      using a by (auto simp: request_kept_def request_prepared_def dest: setup_request_activate)
    then show ?thesis using cancelled by blast
  qed
  from p1 p2 p3 p4 cancel' show ?thesis
    by (simp add: task_activation_def)
qed

section \<open>The invariant of all tasks\<close>

definition task_inv :: "bool \<Rightarrow> bool \<Rightarrow> PLDM_FW_UPDATE_TASK \<Rightarrow> bool" where
  "task_inv err cancel T \<longleftrightarrow> task_control err T \<and> task_activation cancel T \<and> task_retries T"

definition machine_inv :: "task_globals \<Rightarrow> bool" where
  "machine_inv G \<longleftrightarrow>
     (\<forall>T \<in> set (mTasks G). task_inv (mError G \<noteq> ERROR_NONE) (mCancelAllUpdates G) T)
     \<and> mNumTasksComplete G = length (filter Complete (mTasks G))
     \<and> mStatus G = (if \<exists>T \<in> set (mTasks G). Complete T \<and> Status T \<noteq> EFI_SUCCESS
                    then EFI_PROTOCOL_ERROR else EFI_SUCCESS)
     \<and> ProgressOK G"

lemma task_inv_mono:
  "task_inv err cancel T \<Longrightarrow> (err \<longrightarrow> err') \<Longrightarrow> (cancel \<longrightarrow> cancel') \<Longrightarrow> task_inv err' cancel' T"
  by (auto simp: task_inv_def task_control_def task_activation_def)

lemma ProgressOK_update_simps [simp]:
  "ProgressOK (G\<lparr>mNumTasksComplete := n\<rparr>) = ProgressOK G"
  "ProgressOK (G\<lparr>mStatus := x\<rparr>) = ProgressOK G"
  "ProgressOK (G\<lparr>mCancelAllUpdates := b\<rparr>) = ProgressOK G"
  "ProgressOK (G\<lparr>mTasks := ts\<rparr>) = ProgressOK G"
  by (simp_all add: ProgressOK_def)

lemma TaskCompleted_globals:
  "mTasks (fst (TaskCompleted T G)) = mTasks G"
  "mError (fst (TaskCompleted T G)) = mError G"
  "mNumTasksComplete (fst (TaskCompleted T G)) = mNumTasksComplete G + 1"
  "mStatus (fst (TaskCompleted T G)) = (if EFI_ERROR (Status T) then EFI_PROTOCOL_ERROR else mStatus G)"
  "mCancelAllUpdates (fst (TaskCompleted T G)) = (mCancelAllUpdates G \<or> EFI_ERROR (Status T))"
  "ProgressOK G \<Longrightarrow> ProgressOK (fst (TaskCompleted T G))"
  "snd (TaskCompleted T G) \<longleftrightarrow> mNumTasksComplete G + 1 = length (mTasks G)"
  by (auto simp: TaskCompleted_def Let_def intro!: ProgressOK_Progress)

lemma filter_update_length:
  assumes "i < length xs" "\<not> P (xs ! i)"
  shows "length (filter P (xs[i := x])) = length (filter P xs) + (if P x then 1 else 0)"
proof -
  have "length (filter P xs) = length (filter P (take i xs)) + length (filter P (drop (Suc i) xs))"
    using arg_cong [OF id_take_nth_drop [OF assms(1)], of "\<lambda>l. length (filter P l)"] assms(2)
    by simp
  then show ?thesis
    by (simp add: upd_conv_take_nth_drop [OF assms(1)])
qed

text \<open>What one turn does to a task that is not complete yet.\<close>

lemma TaskTurnE:
  assumes "TaskTurn e i G = Some (G', d)" and "\<not> Complete (mTasks G ! i)"
  obtains G1 T1 s1 where
    "mPldmFwTaskStateTable (TaskState (mTasks G ! i)) e i G (mTasks G ! i) = Some (G1, T1, s1)"
    "(G', d) = (if Complete T1
       then TaskCompleted (T1\<lparr>TaskState := s1\<rparr>) (G1\<lparr>mTasks := (mTasks G1)[i := T1\<lparr>TaskState := s1\<rparr>]\<rparr>)
       else (G1\<lparr>mTasks := (mTasks G1)[i := T1\<lparr>TaskState := s1\<rparr>]\<rparr>, False))"
proof -
  have "Option.bind (mPldmFwTaskStateTable (TaskState (mTasks G ! i)) e i G (mTasks G ! i))
      (\<lambda>(G1, T1, s1). Some (if Complete (T1\<lparr>TaskState := s1\<rparr>)
         then TaskCompleted (T1\<lparr>TaskState := s1\<rparr>) (G1\<lparr>mTasks := (mTasks G1)[i := T1\<lparr>TaskState := s1\<rparr>]\<rparr>)
         else (G1\<lparr>mTasks := (mTasks G1)[i := T1\<lparr>TaskState := s1\<rparr>]\<rparr>, False))) = Some (G', d)"
    using assms by (simp add: TaskTurn_def Let_def)
  then show ?thesis
    by (elim bind_SomeE prod_SomeE) (simp add: that)
qed

lemma task_inv_step:
  assumes "mPldmFwTaskStateTable (TaskState T) e i G T = Some (G', T', s')" "\<not> Complete T"
    and "task_inv (mError G \<noteq> ERROR_NONE) (mCancelAllUpdates G) T"
  shows "task_inv (mError G' \<noteq> ERROR_NONE) (mCancelAllUpdates G') (T'\<lparr>TaskState := s'\<rparr>)"
    and "handler_contract (TaskState T) G T G' T' s'"
proof -
  have prs: "ProcessResponseState T \<in> set response_states"
    using assms(3) by (simp add: task_inv_def task_control_def)
  show c: "handler_contract (TaskState T) G T G' T' s'"
    by (rule handlers_meet_contract [OF assms(1) prs])
  show "task_inv (mError G' \<noteq> ERROR_NONE) (mCancelAllUpdates G') (T'\<lparr>TaskState := s'\<rparr>)"
    using control_step [OF c assms(2)] activation_step [OF c assms(2)] retries_step [OF c] assms(3)
    unfolding task_inv_def by blast
qed

text \<open>How the globals develop: devices and packages are fixed, an error stays, and so does cancellation.\<close>

definition evolves :: "task_globals \<Rightarrow> task_globals \<Rightarrow> bool" where
  "evolves G G' \<longleftrightarrow> map FD (mTasks G') = map FD (mTasks G)
     \<and> map PkgHdr (mTasks G') = map PkgHdr (mTasks G)
     \<and> (mError G \<noteq> ERROR_NONE \<longrightarrow> mError G' = mError G)
     \<and> (mCancelAllUpdates G \<longrightarrow> mCancelAllUpdates G')
     \<and> (mStatus G \<noteq> EFI_SUCCESS \<longrightarrow> mStatus G' \<noteq> EFI_SUCCESS)
     \<and> (mCancelAllUpdates G' \<longrightarrow> mCancelAllUpdates G \<or> mStatus G' \<noteq> EFI_SUCCESS)"

lemma evolves_refl: "evolves G G"
  by (simp add: evolves_def)

lemma evolves_trans: "evolves G G' \<Longrightarrow> evolves G' G'' \<Longrightarrow> evolves G G''"
  by (auto simp: evolves_def)

lemma map_update_same: "f y = f (xs ! i) \<Longrightarrow> map f (xs[i := y]) = map f xs"
  by (cases "i < length xs") (auto simp: map_update list_update_beyond list_update_same_conv)

lemma exists_update:
  assumes "i < length xs" "\<not> P (xs ! i)"
  shows "(\<exists>x \<in> set (xs[i := y]). P x) \<longleftrightarrow> (\<exists>x \<in> set xs. P x) \<or> P y"
proof (intro iffI; elim bexE disjE)
  fix x
  assume x: "x \<in> set xs" "P x"
  then obtain j where "j < length xs" "xs ! j = x" by (auto simp: in_set_conv_nth)
  moreover from this assms(2) x have "j \<noteq> i" by auto
  ultimately have "x \<in> set (xs[i := y])"
    by (auto simp: in_set_conv_nth intro!: exI [of _ j])
  with x show "\<exists>x \<in> set (xs[i := y]). P x" by blast
next
  assume "P y"
  then show "\<exists>x \<in> set (xs[i := y]). P x"
    using assms(1) by (auto intro: set_update_memI)
qed (use set_update_subset_insert in fast)

lemma TaskTurn_inv:
  assumes inv: "machine_inv G" and i: "i < length (mTasks G)" and turn: "TaskTurn e i G = Some (G', d)"
  shows "machine_inv G' \<and> evolves G G' \<and> (d \<longrightarrow> mNumTasksComplete G' = length (mTasks G'))"
proof (cases "Complete (mTasks G ! i)")
  case True
  with turn inv show ?thesis by (simp add: TaskTurn_def Let_def evolves_refl)
next
  case False
  let ?T = "mTasks G ! i"
  from turn False obtain G1 T1 s1 where
      h: "mPldmFwTaskStateTable (TaskState ?T) e i G ?T = Some (G1, T1, s1)"
      and G': "(G', d) = (if Complete T1
         then TaskCompleted (T1\<lparr>TaskState := s1\<rparr>) (G1\<lparr>mTasks := (mTasks G1)[i := T1\<lparr>TaskState := s1\<rparr>]\<rparr>)
         else (G1\<lparr>mTasks := (mTasks G1)[i := T1\<lparr>TaskState := s1\<rparr>]\<rparr>, False))"
    by (rule TaskTurnE)
  define T2 where "T2 = T1\<lparr>TaskState := s1\<rparr>"
  define G2 where "G2 = G1\<lparr>mTasks := (mTasks G1)[i := T2]\<rparr>"
  have Tinv: "task_inv (mError G \<noteq> ERROR_NONE) (mCancelAllUpdates G) ?T"
    using inv i by (simp add: machine_inv_def)
  note step = task_inv_step [OF h False Tinv]
  note c = contractD [OF step(2)]
  have k: "mTasks G1 = mTasks G" "mStatus G1 = mStatus G" "mNumTasksComplete G1 = mNumTasksComplete G"
      "mCancelAllUpdates G1 = mCancelAllUpdates G" "mError G \<noteq> ERROR_NONE \<longrightarrow> mError G1 = mError G"
      "ProgressOK G \<longrightarrow> ProgressOK G1"
    using c(1) by (simp_all add: globals_kept_def)
  have pkg: "FD T2 = FD ?T" "PkgHdr T2 = PkgHdr ?T" and cT: "Complete T2 = Complete T1" and sT: "Status T2 = Status T1"
    using c(3) by (simp_all add: task_kept_def T2_def)
  define G3 where "G3 = (if Complete T1 then fst (TaskCompleted T2 G2) else G2)"
  have G3: "G' = G3" "d \<longleftrightarrow> Complete T1 \<and> mNumTasksComplete G + 1 = length (mTasks G)"
    using G' k TaskCompleted_globals(7) [of T2 G2]
    by (auto simp: G3_def G2_def T2_def split: if_splits dest: arg_cong [where f = fst] arg_cong [where f = snd])
  have g3: "mTasks G3 = (mTasks G)[i := T2]" "mError G3 = mError G1"
      "mNumTasksComplete G3 = mNumTasksComplete G + (if Complete T2 then 1 else 0)"
      "mStatus G3 = (if Complete T2 \<and> EFI_ERROR (Status T2) then EFI_PROTOCOL_ERROR else mStatus G)"
      "mCancelAllUpdates G3 = (mCancelAllUpdates G \<or> Complete T2 \<and> EFI_ERROR (Status T2))"
      "ProgressOK G \<longrightarrow> ProgressOK G3"
    using k cT by (simp_all add: G3_def TaskCompleted_globals) (simp_all add: G2_def TaskCompleted_globals)
  have tasks: "set ((mTasks G)[i := T2]) \<subseteq> insert T2 (set (mTasks G))"
    by (rule set_update_subset_insert)
  have all: "\<forall>T \<in> set (mTasks G3). task_inv (mError G3 \<noteq> ERROR_NONE) (mCancelAllUpdates G3) T"
  proof
    fix T
    assume "T \<in> set (mTasks G3)"
    with tasks g3(1) have "T = T2 \<or> T \<in> set (mTasks G)" by auto
    then show "task_inv (mError G3 \<noteq> ERROR_NONE) (mCancelAllUpdates G3) T"
    proof
      assume "T = T2"
      then show ?thesis
        using step(1) k(4) g3(2,5) by (auto simp: T2_def intro: task_inv_mono)
    next
      assume "T \<in> set (mTasks G)"
      then have "task_inv (mError G \<noteq> ERROR_NONE) (mCancelAllUpdates G) T"
        using inv by (simp add: machine_inv_def)
      then show ?thesis
        by (rule task_inv_mono) (use k(5) g3(2,5) in auto)
    qed
  qed
  have status: "mStatus G3 = (if \<exists>T \<in> set (mTasks G3). Complete T \<and> Status T \<noteq> EFI_SUCCESS
      then EFI_PROTOCOL_ERROR else EFI_SUCCESS)"
  proof -
    have "(\<exists>T \<in> set ((mTasks G)[i := T2]). Complete T \<and> Status T \<noteq> EFI_SUCCESS) \<longleftrightarrow>
        (\<exists>T \<in> set (mTasks G). Complete T \<and> Status T \<noteq> EFI_SUCCESS)
        \<or> Complete T2 \<and> Status T2 \<noteq> EFI_SUCCESS"
      by (rule exists_update) (use i False in simp_all)
    then show ?thesis
      using inv g3 by (auto simp: machine_inv_def)
  qed
  have "mNumTasksComplete G3 = length (filter Complete (mTasks G3))"
    using inv g3 filter_update_length [OF i, of Complete T2] False by (simp add: machine_inv_def)
  with all status g3(6) inv have "machine_inv G3"
    by (simp add: machine_inv_def)
  moreover have "evolves G G3"
    using g3 k pkg by (auto simp: evolves_def intro: map_update_same)
  ultimately show ?thesis
    using G3 g3 cT by simp
qed

end
