(* ===== verification/PldmTaskRun.thy ===== *)
theory PldmTaskRun
  imports PldmTaskContract
begin

text \<open>
  Two complete runs of the update of one device with the example package, evaluated by
  simplification: one that succeeds, and one that starts with \<open>mCancelAllUpdates\<close> set. They are the
  concrete inputs of the witnesses. Each element of a message list is what \<open>Recv\<close> would deliver
  during that turn of the loop; only turns in the state \<open>StateReceive\<close> ask for it.
\<close>

definition exampleGlobals :: "bool \<Rightarrow> task_globals" where
  "exampleGlobals cancel =
     \<lparr>mNumDevices = 1, mTasks = [NewTask 0 examplePkg 85], mNumTasksComplete = 0, mStatus = EFI_SUCCESS,
      mActivationMethod = 0, mError = ERROR_NONE, mProgressFunction = True, mCompletion = 0,
      mCancelAllUpdates = cancel, ProgressLog = []\<rparr>"

definition exampleEnv :: "byte list \<Rightarrow> fd_env" where
  "exampleEnv msg = \<lparr>EnvNs = 0, EnvSendStatus = EFI_SUCCESS, EnvSendTag = 0,
     EnvRecvStatus = EFI_SUCCESS, EnvRecvMessage = msg, EnvRecvTag = 0\<rparr>"

definition exampleQueryRsp :: "byte list" where
  "exampleQueryRsp = [1, 1, 5, 1, 0, 6, 0, 0, 0, 1, 0, 0, 2, 0, 0xAA, 0xBB]"
definition exampleParamsRsp :: "byte list" where
  "exampleParamsRsp = [1, 2, 5, 2, 0, 0, 0, 0, 0, 1, 0, 0, 0, 0, 0]
     @ [10, 0, 7, 0, 3, 0, 0, 0, 0, 0, 0] @ replicate 28 0"

definition exampleMessages :: "byte list list" where
  "exampleMessages =
     [[], [], [], exampleQueryRsp, [], [], [], [], exampleParamsRsp, [], [], [],
      [], [], [1, 3, 5, 0x10, 0, 0, 0, 0], [], [],
      [], [], [1, 4, 5, 0x13, 0, 0, 0], [], [], [],
      [], [], [1, 5, 5, 0x14, 0, 0, 0, 0, 0, 0, 0, 0, 0], [], [],
      [], [1, 0x81, 5, 0x15, 0, 0, 0, 0, 2, 0, 0, 0], [],
      [], [1, 0x82, 5, 0x16, 0], [], [], [1, 0x83, 5, 0x17, 0], [],
      [], [1, 0x84, 5, 0x18, 0, 0, 0], [],
      [], [], [], [1, 6, 5, 0x1a, 0, 0, 0], [], [], []]"


definition cancelMessages :: "byte list list" where
  "cancelMessages =
     [[], [], [], exampleQueryRsp, [], [], [], [], exampleParamsRsp, [], [], [],
      [], [], [], [1, 3, 5, 0x1d, 0, 0, 0, 0, 0, 0, 0, 0, 0, 0], [], [], []]"

lemmas run_simps = PldmFwUpdateTaskExecuteAll_def TaskTurn_def Let_def handler_defs codes layout
  exampleGlobals_def exampleEnv_def NewTask_def exampleQueryRsp_def exampleParamsRsp_def
  PldmFwTaskSendReqSetup_def PldmFwFillCommon_def PldmFillCommon_def store_bytes_def FDSend_def
  load_bytes_def load8_def load16_def load32_def nth_append upt_rec bytes16_def bytes32_def
  PldmFwTaskStartTimer_def PldmFwTaskCancelTimer_def ZeroTimer_def
  PldmValidateResponse_def MctpValidateResponse_def
  PldmFwQueryDeviceIdsCheckRsp_def PldmFwCheckRspCompletion_def PldmFwPrintQueryDeviceIdsRsp_def
  DescSize_def TaskCompleted_def PldmFwTaskProgress_def PldmFwTaskSetFDState_def

lemmas package_simps = examplePkg_def mPldmGuidV1_0_def PldmFwPkgMatchesFD_def
  PldmFwPkgGetFwDeviceIdArea_def PldmFwPkgGetFwDeviceIdRecordDescriptors_def
  PldmFwPkgGetDeviceIdRecordImageSetVersionString_def DescriptorEq_def PldmFwDescNext_def
  PldmFwPkgComponentIsApplicable_def PldmFwPkgGetComponentImageInfoArea_def
  PldmFwPkgGetDownstreamDeviceIdArea_def PldmFwPkgGetDeviceIdAreaSize_def RecordLength_def
  PldmFwPkgGetNextComponentImage_def PldmFwPkgGetComponentImageInfoSize_def
  PldmFwGetFwParamsCheckRsp_def PldmFwGetFwParamsComponentTableOffset_def FwParamsComponentCount_def
  PldmFwGetFwParamsComponent_def FwParamsEntrySize_def PldmFwTaskResetComponentInfo_def

lemmas component_simps = TransferFlag_def NextMatchingEntry_def ComponentFields_def AdvanceMatch_def
  PldmFwGetNextFwParamsMatchingComponent_def PldmFwCheckRspCompletionAndLength_def
  RequestFwDataCheck_def ResponseHead_def PldmFwTaskDataProgressCompute_def AcknowledgeRequest_def

lemma cancel_run:
  "\<exists>G'. PldmFwUpdateTaskExecuteAll (map exampleEnv cancelMessages) (exampleGlobals True)
      = Some (G', Some (EFI_SUCCESS, ERROR_NONE, 0))
    \<and> map requests (mTasks G') = [[[1, 129, 5, 1], [1, 130, 5, 2], [1, 131, 5, 29]]]"
  by (simp add: run_simps package_simps cancelMessages_def requests_def)

lemma success_run:
  "\<exists>G'. PldmFwUpdateTaskExecuteAll (map exampleEnv exampleMessages) (exampleGlobals False)
      = Some (G', Some (EFI_SUCCESS, ERROR_NONE, 0)) \<and> ProgressLog G' = [2, 99, 100]"
  by (simp add: run_simps package_simps component_simps exampleMessages_def)

definition failingEnv :: fd_env where
  "failingEnv = (exampleEnv [])\<lparr>EnvSendStatus := EFI_DEVICE_ERROR\<rparr>"

text \<open>
  The first turns of a run, until the first task waits for the response to its first request, and the same ones with a
  \<open>Send\<close> that fails.
\<close>

lemma waiting_run:
  "\<exists>G'. PldmFwUpdateTaskExecuteAll (map exampleEnv [[], [], []]) (exampleGlobals False) = Some (G', None)
    \<and> map TaskState (mTasks G') = [StateReceive] \<and> map Complete (mTasks G') = [False]"
  by (simp add: run_simps package_simps)

lemma fatal_run:
  "\<exists>G'. PldmFwUpdateTaskExecuteAll (map exampleEnv [[], []] @ [failingEnv]) (exampleGlobals False) = Some (G', None)
    \<and> map TaskState (mTasks G') = [StateFatalError] \<and> map Complete (mTasks G') = [False]"
  by (simp add: run_simps package_simps failingEnv_def PldmFwTaskSetError_def)

lemma failing_run:
  "\<exists>G1 G2. PldmFwTaskStateMachineLoop (map exampleEnv [[], []] @ [failingEnv]) 0 (exampleGlobals False)
      = Some (G1, False)
    \<and> PldmFwTaskStateMachineLoop (map exampleEnv [[], []]) 0 G1 = Some (G2, True)
    \<and> mError G1 = ERROR_SEND_REQ_FAILED"
  by (simp add: run_simps package_simps failingEnv_def PldmFwTaskSetError_def)

end
