(* ===== verification/PldmTaskTheorems.thy ===== *)
theory PldmTaskTheorems
  imports PldmTaskProps PldmTaskRun
begin

text \<open>
  What the invariants give for \<open>PldmFwUpdateTaskExecuteAll\<close> and for single handlers.
\<close>

section \<open>From the entry points to the loop\<close>

text \<open>The globals after \<open>PldmFwUpdateTaskLibInit\<close> and any number of \<open>PldmFwUpdateTaskCreate\<close>.\<close>

definition machine_start :: "task_globals \<Rightarrow> bool" where
  "machine_start G \<longleftrightarrow> mNumTasksComplete G = 0 \<and> mStatus G = EFI_SUCCESS \<and> mError G = ERROR_NONE
     \<and> mCompletion G = 0 \<and> ProgressLog G = []
     \<and> (\<forall>T \<in> set (mTasks G). \<exists>p pkg n. T = NewTask p pkg n)"

lemma NewTask_inv: "task_inv False cancel (NewTask p pkg n)"
  by (simp add: task_inv_def task_control_def task_activation_def task_retries_def TaskWf_def
      NewTask_def codes response_states_def requests_def resends_def cancel_states_def)

lemma machine_start_inv:
  assumes "machine_start G"
  shows "machine_inv G"
proof -
  have "\<not> Complete T" if "T \<in> set (mTasks G)" for T
  proof -
    obtain p pkg n where "T = NewTask p pkg n" using assms \<open>T \<in> _\<close> by (auto simp: machine_start_def)
    then show ?thesis by (simp add: NewTask_def)
  qed
  then have "filter Complete (mTasks G) = []" "\<not> (\<exists>T \<in> set (mTasks G). Complete T)"
    by (auto simp: filter_empty_conv)
  moreover have "\<forall>T \<in> set (mTasks G). task_inv (mError G \<noteq> ERROR_NONE) (mCancelAllUpdates G) T"
    using assms by (auto simp: machine_start_def NewTask_inv)
  ultimately show ?thesis
    using assms by (auto simp: machine_inv_def machine_start_def ProgressOK_def)
qed

lemma loop_inv:
  assumes "machine_inv G" and "PldmFwTaskStateMachineLoop es i G = Some (G', d)"
  shows "machine_inv G' \<and> evolves G G' \<and> (d \<longrightarrow> mNumTasksComplete G' = length (mTasks G'))"
  using assms
proof (induction es arbitrary: i G)
  case Nil
  then show ?case by (simp add: evolves_refl)
next
  case (Cons e es)
  show ?case
  proof (cases "mTasks G = []")
    case True
    with Cons.prems show ?thesis by (simp add: evolves_refl)
  next
    case False
    define j where "j = (if i < length (mTasks G) then i else 0)"
    have j: "j < length (mTasks G)" using False by (simp add: j_def)
    from Cons.prems(2) False obtain G1 d1 where turn: "TaskTurn e j G = Some (G1, d1)"
        and rest: "if d1 then G' = G1 \<and> d else PldmFwTaskStateMachineLoop es (j + 1) G1 = Some (G', d)"
      by (auto simp: j_def [symmetric] bind_eq_Some_conv split: if_splits)
    note inv = TaskTurn_inv [OF Cons.prems(1) j turn]
    show ?thesis
    proof (cases d1)
      case True
      with rest inv show ?thesis by simp
    next
      case False
      with rest inv Cons.IH [of G1 "j + 1"] show ?thesis by (auto intro: evolves_trans)
    qed
  qed
qed

lemma all_complete:
  assumes "machine_inv G" "mNumTasksComplete G = length (mTasks G)"
  shows "\<forall>T \<in> set (mTasks G). Complete T"
  using assms length_filter_less [of _ "mTasks G" Complete] by (fastforce simp: machine_inv_def)

lemma ExecuteAll_inv:
  assumes "machine_inv G" "PldmFwUpdateTaskExecuteAll es G = Some (G', r)"
  shows "machine_inv G'" "evolves G G'"
    "r = Some (st, err, act) \<Longrightarrow> (\<forall>T \<in> set (mTasks G'). Complete T)
        \<and> st = mStatus G' \<and> err = mError G' \<and> act = mActivationMethod G'"
proof -
  from assms(2) obtain d where loop: "PldmFwTaskStateMachineLoop es 0 G = Some (G', d)"
      and r: "r = (if d then Some (mStatus G', mError G', mActivationMethod G') else None)"
    by (auto simp: PldmFwUpdateTaskExecuteAll_def bind_eq_Some_conv)
  note inv = loop_inv [OF assms(1) loop]
  then show "machine_inv G'" "evolves G G'" by auto
  assume "r = Some (st, err, act)"
  with r inv all_complete show "(\<forall>T \<in> set (mTasks G'). Complete T)
      \<and> st = mStatus G' \<and> err = mError G' \<and> act = mActivationMethod G'"
    by (auto split: if_splits)
qed

lemma exampleGlobals_start: "machine_start (exampleGlobals c)"
  by (auto simp: machine_start_def exampleGlobals_def)

section \<open>Properties of a complete execution\<close>

text \<open>
  C1: When \<open>PldmFwUpdateTaskExecuteAll\<close> returns, after \<open>PldmFwUpdateTaskLibInit\<close> and
  \<open>PldmFwUpdateTaskCreate\<close>, every task is complete. It returns \<open>EFI_SUCCESS\<close> exactly when no task
  ended in the fatal error state, and otherwise \<open>EFI_PROTOCOL_ERROR\<close> together with the cause.
\<close>

theorem ExecuteAll_outcome:
  assumes "machine_start G" and "PldmFwUpdateTaskExecuteAll es G = Some (G', Some (st, err, act))"
  shows "(\<forall>T \<in> set (mTasks G'). Complete T)
    \<and> st = (if \<forall>T \<in> set (mTasks G'). Status T = EFI_SUCCESS then EFI_SUCCESS else EFI_PROTOCOL_ERROR)
    \<and> (st \<noteq> EFI_SUCCESS \<longrightarrow> err \<noteq> ERROR_NONE)"
proof -
  note inv = ExecuteAll_inv [OF machine_start_inv [OF assms(1)] assms(2)]
  have "mStatus G' = (if \<forall>T \<in> set (mTasks G'). Status T = EFI_SUCCESS
      then EFI_SUCCESS else EFI_PROTOCOL_ERROR)"
    using inv(1) inv(3) [OF refl] by (auto simp: machine_inv_def)
  moreover have "mError G' \<noteq> ERROR_NONE" if "T \<in> set (mTasks G')" "Status T \<noteq> EFI_SUCCESS" for T
    using inv(1) that by (auto simp: machine_inv_def task_inv_def task_control_def)
  ultimately show ?thesis using inv(3) [OF refl] by auto
qed

theorem ExecuteAll_outcome_witness:
  "\<exists>G'. PldmFwUpdateTaskExecuteAll (map exampleEnv exampleMessages) (exampleGlobals False)
      = Some (G', Some (EFI_SUCCESS, ERROR_NONE, 0))
    \<and> (\<forall>T \<in> set (mTasks G'). Complete T) \<and> (\<forall>T \<in> set (mTasks G'). Status T = EFI_SUCCESS)"
proof -
  obtain G' where run: "PldmFwUpdateTaskExecuteAll (map exampleEnv exampleMessages) (exampleGlobals False)
      = Some (G', Some (EFI_SUCCESS, ERROR_NONE, 0))"
    using success_run by blast
  from ExecuteAll_outcome [OF exampleGlobals_start run] run show ?thesis
    by (auto split: if_splits)
qed

text \<open>
  C21: Unless updates were already being cancelled when it was called, an execution that returns
  \<open>EFI_SUCCESS\<close> has sent the ActivateFirmware request to every device.
\<close>

theorem ExecuteAll_success_activates:
  assumes "machine_start G" "\<not> mCancelAllUpdates G"
    and "PldmFwUpdateTaskExecuteAll es G = Some (G', Some (EFI_SUCCESS, err, act))"
  shows "\<forall>T \<in> set (mTasks G'). \<exists>m \<in> set (requests T). 3 < length m \<and> m ! 3 = PLDM_FW_ACTIVATE_FW"
proof
  fix T
  assume T: "T \<in> set (mTasks G')"
  note inv = ExecuteAll_inv [OF machine_start_inv [OF assms(1)] assms(3)]
  have ok: "mStatus G' = EFI_SUCCESS" "Complete T"
    using inv(3) [OF refl] T by auto
  then have "\<not> mCancelAllUpdates G'" "Status T = EFI_SUCCESS"
    using inv(1,2) assms(2) T by (auto simp: evolves_def machine_inv_def split: if_splits)
  moreover have "task_inv (mError G' \<noteq> ERROR_NONE) (mCancelAllUpdates G') T"
    using inv(1) T by (simp add: machine_inv_def)
  ultimately have "activated T"
    using ok(2) by (auto simp: task_inv_def task_control_def task_activation_def)
  then show "\<exists>m \<in> set (requests T). 3 < length m \<and> m ! 3 = PLDM_FW_ACTIVATE_FW"
    by (simp add: activated_def)
qed

theorem ExecuteAll_success_activates_witness:
  "\<exists>G'. PldmFwUpdateTaskExecuteAll (map exampleEnv exampleMessages) (exampleGlobals False)
      = Some (G', Some (EFI_SUCCESS, ERROR_NONE, 0))
    \<and> (\<forall>T \<in> set (mTasks G'). \<exists>m \<in> set (requests T). 3 < length m \<and> m ! 3 = PLDM_FW_ACTIVATE_FW)"
proof -
  obtain G' where run: "PldmFwUpdateTaskExecuteAll (map exampleEnv exampleMessages) (exampleGlobals False)
      = Some (G', Some (EFI_SUCCESS, ERROR_NONE, 0))"
    using success_run by blast
  have "\<not> mCancelAllUpdates (exampleGlobals False)" by (simp add: exampleGlobals_def)
  from ExecuteAll_success_activates [OF exampleGlobals_start this run] run show ?thesis by blast
qed

text \<open>
  C31: A request is sent at most three times in a row: in the requests a task has sent at any point
  of an execution, no four consecutive ones are equal.
\<close>

theorem at_most_three_sends:
  assumes "machine_start G" and "PldmFwUpdateTaskExecuteAll es G = Some (G', r)"
    and "T \<in> set (mTasks G')"
  shows "requests T \<noteq> xs @ [m, m, m, m] @ ys"
proof -
  have "task_inv (mError G' \<noteq> ERROR_NONE) (mCancelAllUpdates G') T"
    using ExecuteAll_inv(1) [OF machine_start_inv [OF assms(1)] assms(2)] assms(3)
    by (simp add: machine_inv_def)
  then show ?thesis by (simp add: task_inv_def task_retries_def)
qed

theorem at_most_three_sends_witness:
  "\<exists>G' r. PldmFwUpdateTaskExecuteAll (map exampleEnv exampleMessages) (exampleGlobals False) = Some (G', r)
    \<and> (\<forall>T \<in> set (mTasks G'). \<forall>xs m ys. requests T \<noteq> xs @ [m, m, m, m] @ ys)"
proof -
  obtain G' r where run:
      "PldmFwUpdateTaskExecuteAll (map exampleEnv exampleMessages) (exampleGlobals False) = Some (G', r)"
    using success_run by blast
  with at_most_three_sends [OF exampleGlobals_start run] show ?thesis by blast
qed

text \<open>
  The client's progress function is called with strictly increasing percentages, all positive,
  over the whole execution.
\<close>

theorem progress_increases:
  assumes "machine_start G" and "PldmFwUpdateTaskExecuteAll es G = Some (G', r)"
  shows "sorted_wrt (<) (0 # ProgressLog G')"
  using ExecuteAll_inv(1) [OF machine_start_inv [OF assms(1)] assms(2)]
  by (simp add: machine_inv_def ProgressOK_def)

theorem progress_increases_witness:
  "\<exists>G' r. PldmFwUpdateTaskExecuteAll (map exampleEnv exampleMessages) (exampleGlobals False) = Some (G', r)
    \<and> ProgressLog G' = [2, 99, 100] \<and> sorted_wrt (<) (0 # ProgressLog G')"
  using success_run progress_increases [OF exampleGlobals_start] by blast

section \<open>Invariants of single tasks along a run\<close>

lemma TaskTurn_tasks:
  assumes "machine_inv G" "i < length (mTasks G)" "TaskTurn e i G = Some (G', d)"
  shows "mTasks G' = mTasks G \<or> (\<exists>G1 T1 s1. \<not> Complete (mTasks G ! i)
     \<and> task_inv (mError G \<noteq> ERROR_NONE) (mCancelAllUpdates G) (mTasks G ! i)
     \<and> handler_contract (TaskState (mTasks G ! i)) G (mTasks G ! i) G1 T1 s1
     \<and> mTasks G' = (mTasks G)[i := T1\<lparr>TaskState := s1\<rparr>])"
proof (cases "Complete (mTasks G ! i)")
  case True
  with assms(3) show ?thesis by (simp add: TaskTurn_def Let_def)
next
  case False
  have inv: "task_inv (mError G \<noteq> ERROR_NONE) (mCancelAllUpdates G) (mTasks G ! i)"
    using assms(1,2) by (simp add: machine_inv_def)
  from assms(3) False obtain G1 T1 s1 where
      h: "mPldmFwTaskStateTable (TaskState (mTasks G ! i)) e i G (mTasks G ! i) = Some (G1, T1, s1)"
      and G': "(G', d) = (if Complete T1
         then TaskCompleted (T1\<lparr>TaskState := s1\<rparr>) (G1\<lparr>mTasks := (mTasks G1)[i := T1\<lparr>TaskState := s1\<rparr>]\<rparr>)
         else (G1\<lparr>mTasks := (mTasks G1)[i := T1\<lparr>TaskState := s1\<rparr>]\<rparr>, False))"
    by (rule TaskTurnE)
  note step = task_inv_step [OF h False inv]
  have "mTasks G1 = mTasks G"
    using contractD(1) [OF step(2)] by (simp add: globals_kept_def)
  then have "mTasks G' = (mTasks G)[i := T1\<lparr>TaskState := s1\<rparr>]"
    using G' TaskCompleted_globals(1) by (auto split: if_splits dest: arg_cong [where f = fst])
  with False inv step show ?thesis by blast
qed

lemma loop_task_invariant:
  assumes step: "\<And>G T G' T' s'. \<not> Complete T \<Longrightarrow> task_inv (mError G \<noteq> ERROR_NONE) (mCancelAllUpdates G) T
      \<Longrightarrow> Q G \<Longrightarrow> handler_contract (TaskState T) G T G' T' s' \<Longrightarrow> P T \<Longrightarrow> P (T'\<lparr>TaskState := s'\<rparr>)"
    and keep: "\<And>G G'. Q G \<Longrightarrow> evolves G G' \<Longrightarrow> Q G'"
    and "machine_inv G" "Q G" "\<forall>T \<in> set (mTasks G). P T"
    and "PldmFwTaskStateMachineLoop es i G = Some (G', d)"
  shows "\<forall>T \<in> set (mTasks G'). P T"
  using assms(3-6)
proof (induction es arbitrary: i G)
  case Nil
  then show ?case by simp
next
  case (Cons e es)
  show ?case
  proof (cases "mTasks G = []")
    case True
    with Cons.prems show ?thesis by simp
  next
    case False
    define j where "j = (if i < length (mTasks G) then i else 0)"
    have j: "j < length (mTasks G)" using False by (simp add: j_def)
    from Cons.prems(4) False obtain G1 d1 where turn: "TaskTurn e j G = Some (G1, d1)"
        and rest: "if d1 then G' = G1 else PldmFwTaskStateMachineLoop es (j + 1) G1 = Some (G', d)"
      by (auto simp: j_def [symmetric] bind_eq_Some_conv split: if_splits)
    note inv = TaskTurn_inv [OF Cons.prems(1) j turn]
    have "\<forall>T \<in> set (mTasks G1). P T"
      using TaskTurn_tasks [OF Cons.prems(1) j turn]
    proof (elim disjE exE conjE)
      fix Gx T1 s1
      assume a: "\<not> Complete (mTasks G ! j)"
        "task_inv (mError G \<noteq> ERROR_NONE) (mCancelAllUpdates G) (mTasks G ! j)"
        "handler_contract (TaskState (mTasks G ! j)) G (mTasks G ! j) Gx T1 s1"
        "mTasks G1 = (mTasks G)[j := T1\<lparr>TaskState := s1\<rparr>]"
      have "P (T1\<lparr>TaskState := s1\<rparr>)"
        using step [OF a(1,2) Cons.prems(2) a(3)] Cons.prems(3) j by auto
      with a(4) Cons.prems(3) set_update_subset_insert [of "mTasks G" j] show ?thesis by fastforce
    qed (use Cons.prems(3) in simp)
    with inv rest Cons.IH [of G1 "j + 1"] keep [OF Cons.prems(2)] show ?thesis
      by (auto split: if_splits)
  qed
qed

text \<open>The commands that change the firmware of a device.\<close>

definition update_commands :: "byte list" where
  "update_commands = [PLDM_FW_REQUEST_UPDATE, PLDM_FW_PASS_COMPONENT_TABLE,
     PLDM_FW_UPDATE_COMPONENT, PLDM_FW_ACTIVATE_FW]"

definition no_update_sent :: "PLDM_FW_UPDATE_TASK \<Rightarrow> bool" where
  "no_update_sent T \<longleftrightarrow> (\<forall>m \<in> set (requests T). m ! 3 \<notin> set update_commands)
     \<and> (ProcessResponseState T \<noteq> StateStart \<longrightarrow> Request T ! 3 \<notin> set update_commands)"

lemma cancelled_setup:
  assumes "next_state s True T StateSendReq" "setup_request s = Some (c, r)"
  shows "c \<notin> set update_commands"
  using assms by (cases s) (auto simp: next_state_def cancellable_states_def update_commands_def codes)

lemma no_update_step:
  assumes "task_inv err cancel T" "mCancelAllUpdates G"
    and "handler_contract (TaskState T) G T G' T' s'" "no_update_sent T"
  shows "no_update_sent (T'\<lparr>TaskState := s'\<rparr>)"
proof -
  note c = contractD [OF assms(3)]
  note e = request_effectD [OF c(4)]
  have "m ! 3 \<notin> set update_commands" if "m \<in> set (requests T')" for m
  proof (cases "m \<in> set (requests T)")
    case True
    then show ?thesis using assms(4) by (simp add: no_update_sent_def)
  next
    case False
    with that e(1) have m: "m = curReq T" "TaskState T = StateSendReq" by (auto split: if_splits)
    with assms(1) have "ProcessResponseState T \<noteq> StateStart" "4 \<le> RequestLength T" "TaskWf T"
      by (auto simp: task_inv_def task_retries_def task_control_def)
    then show ?thesis
      using m assms(4) by (simp add: curReq_def TaskWf_def no_update_sent_def)
  qed
  moreover have "Request T' ! 3 \<notin> set update_commands" if "ProcessResponseState T' \<noteq> StateStart"
    using e(2)
  proof
    assume "request_kept (TaskState T) T T' s'"
    then show ?thesis using assms(4) that by (simp add: request_kept_def no_update_sent_def)
  next
    assume "request_prepared (TaskState T) T T' s'"
    then obtain cmd r where "setup_request (TaskState T) = Some (cmd, r)" "Request T' ! 3 = cmd"
        "s' = StateSendReq"
      by (auto simp: request_prepared_def)
    then show ?thesis using cancelled_setup c(5) assms(2) by auto
  qed
  ultimately show ?thesis by (simp add: no_update_sent_def)
qed

lemma no_update_sent_start: "no_update_sent (NewTask p pkg n)"
  by (simp add: no_update_sent_def NewTask_def requests_def)

section \<open>Further properties of an execution\<close>

text \<open>
  An execution that starts with \<open>mCancelAllUpdates\<close> set sends no device any of the commands of
  an update, whatever it returns. \<open>PldmFwUpdateTaskLibInit\<close> does not reset the flag.
\<close>

theorem cancelled_execution_updates_nothing:
  assumes "machine_start G" and "mCancelAllUpdates G"
    and "PldmFwUpdateTaskExecuteAll es G = Some (G', r)" and "T \<in> set (mTasks G')"
    and "m \<in> set (requests T)"
  shows "m ! 3 \<notin> {PLDM_FW_REQUEST_UPDATE, PLDM_FW_PASS_COMPONENT_TABLE, PLDM_FW_UPDATE_COMPONENT,
     PLDM_FW_ACTIVATE_FW}"
proof -
  have start: "\<forall>T \<in> set (mTasks G). no_update_sent T"
    using assms(1) no_update_sent_start by (auto simp: machine_start_def)
  obtain d where loop: "PldmFwTaskStateMachineLoop es 0 G = Some (G', d)"
    using assms(3) by (auto simp: PldmFwUpdateTaskExecuteAll_def bind_eq_Some_conv)
  have "\<forall>T \<in> set (mTasks G'). no_update_sent T"
    by (rule loop_task_invariant [where Q = mCancelAllUpdates, OF _ _ machine_start_inv [OF assms(1)]
          assms(2) start loop])
       (auto intro: no_update_step simp: evolves_def)
  with assms(4,5) show ?thesis by (auto simp: no_update_sent_def update_commands_def)
qed

theorem cancelled_execution_updates_nothing_witness:
  "\<exists>G'. PldmFwUpdateTaskExecuteAll (map exampleEnv cancelMessages) (exampleGlobals True)
      = Some (G', Some (EFI_SUCCESS, ERROR_NONE, 0))
    \<and> (\<forall>T \<in> set (mTasks G'). \<forall>m \<in> set (requests T). m ! 3 \<noteq> PLDM_FW_ACTIVATE_FW)"
proof -
  obtain G' where run: "PldmFwUpdateTaskExecuteAll (map exampleEnv cancelMessages) (exampleGlobals True)
      = Some (G', Some (EFI_SUCCESS, ERROR_NONE, 0))"
    using cancel_run by blast
  have "mCancelAllUpdates (exampleGlobals True)" by (simp add: exampleGlobals_def)
  from cancelled_execution_updates_nothing [OF exampleGlobals_start this run] run show ?thesis
    by auto
qed







text \<open>
  The error an execution reports is the first one: once an error is recorded, no later turn of
  any task changes it, and cancellation is never withdrawn.
\<close>

theorem first_error_kept:
  assumes "machine_start G" and "PldmFwTaskStateMachineLoop es1 0 G = Some (G1, False)"
    and "PldmFwTaskStateMachineLoop es2 i G1 = Some (G2, d)"
  shows "(mError G1 \<noteq> ERROR_NONE \<longrightarrow> mError G2 = mError G1)
    \<and> (mCancelAllUpdates G1 \<longrightarrow> mCancelAllUpdates G2)"
  using loop_inv [OF _ assms(3)] loop_inv [OF machine_start_inv [OF assms(1)] assms(2)]
  by (simp add: evolves_def)

theorem first_error_kept_witness:
  "\<exists>G1 G2. PldmFwTaskStateMachineLoop (map exampleEnv [[], []] @ [failingEnv]) 0 (exampleGlobals False)
      = Some (G1, False)
    \<and> PldmFwTaskStateMachineLoop (map exampleEnv [[], []]) 0 G1 = Some (G2, True)
    \<and> mError G1 = ERROR_SEND_REQ_FAILED \<and> mError G2 = mError G1"
  using failing_run first_error_kept [OF exampleGlobals_start] by fastforce

end
