(* ===== verification/PldmTaskFunctional.thy ===== *)
theory PldmTaskFunctional
  imports PldmTaskRun
begin

text \<open>
  Functional behaviour of single handlers: what the task answers to a data request, when it takes a
  message for the response it waits for, how many updates it plans, and what it makes of the
  response to the activation request.
\<close>

section \<open>Requests for firmware data\<close>

text \<open>The reply to a data request: the request's header, the completion code, and the data.\<close>

lemma ResponseHead_wf:
  assumes "TaskWf T"
  shows "ResponseHead code T = Some (take 4 (RecvBuffer T) @ [code])"
  using assms by (simp add: ResponseHead_def TaskWf_def load_bytes_def layout)

lemma DataProgress_defined:
  assumes "i < length (mTasks G)" "0 < PkgLen T"
  shows "\<exists>c. PldmFwTaskDataProgressCompute i G T = Some (PldmFwTaskProgress c G)"
proof -
  have "T \<in> set ((mTasks G)[i := T])"
    using assms(1) by (rule set_update_memI)
  with assms(2) show ?thesis
    by (auto simp: PldmFwTaskDataProgressCompute_def Let_def)
qed

lemma RequestFwDataCheck_success_length:
  "RequestFwDataCheck T off len = Some (PLDM_SUCCESS, from) \<Longrightarrow> len \<le> 4096"
  by (auto simp: RequestFwDataCheck_def bind_eq_Some_conv codes Let_def split: if_splits)

text \<open>
  C34: While updates are not cancelled, a task with a package of a length above 0 answers a data request with exactly one
  reply, as long as the bytes asked for lie inside the package whenever the checks of the handler accept them. The reply repeats the header of the request and
  carries the completion code of these checks; after code \<open>PLDM_SUCCESS\<close> follow the requested bytes of the package, and
  after any other code nothing. The one exception is an accepted request for 4092 to 4096 bytes: its reply, five bytes
  longer, is written past the end of the 4096 byte response buffer.
\<close>

theorem RequestFwData_reply:
  assumes "TaskWf T" and "\<not> mCancelAllUpdates G" and "i < length (mTasks G)" and "0 < PkgLen T"
    and "load32 (RecvBuffer T) 4 = Some off" and "load32 (RecvBuffer T) 8 = Some len"
    and "RequestFwDataCheck T off len = Some (code, from)"
    and "code = PLDM_SUCCESS \<Longrightarrow> from + len \<le> length (PkgHdr T)"
  shows "if code = PLDM_SUCCESS \<and> len \<in> {4092..4096}
    then PldmFwTaskRequestFwDataHandleReq e i G T = None
    else \<exists>G' T'. PldmFwTaskRequestFwDataHandleReq e i G T = Some (G', T', StateWaitForRequests)
      \<and> Sent T' = Sent T @ [(False, take 4 (RecvBuffer T) @ [code]
          @ (if code = PLDM_SUCCESS then take len (drop from (PkgHdr T)) else []))]
      \<and> Enabled (RequestFwDataTimer T')"
proof -
  let ?T1 = "T\<lparr>LastFwDataRequested := (off + len) mod 2 ^ 32\<rparr>"
  let ?data = "if code = PLDM_SUCCESS then take len (drop from (PkgHdr T)) else []"
  let ?msg = "(take 4 (RecvBuffer T) @ [code]) @ ?data"
  obtain c where prog: "PldmFwTaskDataProgressCompute i G ?T1 = Some (PldmFwTaskProgress c G)"
    using DataProgress_defined [OF assms(3), of ?T1] assms(4) by auto
  have check: "RequestFwDataCheck ?T1 off len = Some (code, from)"
  proof -
    have "RequestFwDataCheck ?T1 off len = RequestFwDataCheck T off len"
      by (simp add: RequestFwDataCheck_def)
    then show ?thesis using assms(7) by simp
  qed
  have head: "ResponseHead code ?T1 = Some (take 4 (RecvBuffer T) @ [code])"
    using ResponseHead_wf [of ?T1 code] assms(1) by (simp add: TaskWf_def)
  have data: "(if code = PLDM_SUCCESS then load_bytes (PkgHdr T) from len else Some []) = Some ?data"
    using assms(8) by (simp add: load_bytes_def)
  have short: "code = PLDM_SUCCESS \<longrightarrow> len \<le> 4096"
    using RequestFwDataCheck_success_length [of T off len "from"] assms(7) by auto
  have len: "length ?msg = 5 + (if code = PLDM_SUCCESS then len else 0)" "length (Response T) = 4096"
    using assms(1,8) by (auto simp: TaskWf_def)
  show ?thesis
  proof (cases "code = PLDM_SUCCESS \<and> 4092 \<le> len")
    case True
    then have "store_bytes (Response T) 0 ?msg = None"
      using len by (simp add: store_bytes_def)
    with True short show ?thesis
      using assms(2,5,6) prog check head data
      by (simp add: PldmFwTaskRequestFwDataHandleReq_def Let_def)
  next
    case False
    have "0 + length ?msg \<le> length (Response T)"
      unfolding len using False by auto
    from store_bytes_total [OF this] obtain r where r: "store_bytes (Response T) 0 ?msg = Some r" by blast
    moreover have "load_bytes r 0 (length ?msg) = Some ?msg"
      using load_bytes_store [OF r] by simp
    ultimately show ?thesis
      using False assms(2,5,6) prog check head data
      by (cases "code = PLDM_SUCCESS")
         (auto simp: PldmFwTaskRequestFwDataHandleReq_def FDSend_def PldmFwTaskStartTimer_def Let_def)
  qed
qed

theorem RequestFwData_reply_witness:
  "\<exists>G' T'. PldmFwTaskRequestFwDataHandleReq (exampleEnv []) 0 (exampleGlobals False)
      ((NewTask 0 examplePkg 85)\<lparr>RecvBuffer := [1, 0x81, 5, 0x15, 0, 0, 0, 0, 2, 0, 0, 0] @ replicate 1012 0,
         RecvLength := 12, FDState := FDStateDownload, ImageInfo := Some 57\<rparr>)
      = Some (G', T', StateWaitForRequests)
    \<and> Sent T' = [(False, [1, 0x81, 5, 0x15, 0, 0x11, 0x22])] \<and> Enabled (RequestFwDataTimer T')"
proof -
  let ?T = "(NewTask 0 examplePkg 85)\<lparr>RecvBuffer := [1, 0x81, 5, 0x15, 0, 0, 0, 0, 2, 0, 0, 0]
    @ replicate 1012 0, RecvLength := 12, FDState := FDStateDownload, ImageInfo := Some 57\<rparr>"
  have img: "load32 examplePkg (57 + OFFSET_Image_Size) = Some 2"
      "load32 examplePkg (57 + OFFSET_Image_LocationOffset) = Some 83" "length examplePkg = 85"
    by code_simp+
  have wf: "TaskWf ?T" by (simp add: TaskWf_def NewTask_def codes)
  have ld: "load32 (RecvBuffer ?T) 4 = Some 0" "load32 (RecvBuffer ?T) 8 = Some 2"
    by (simp_all add: load32_def load16_def load8_def)
  have chk: "RequestFwDataCheck ?T 0 2 = Some (PLDM_SUCCESS, 83)"
    using img by (simp add: RequestFwDataCheck_def NewTask_def codes Let_def)
  have data: "take 2 (drop 83 examplePkg) = [0x11, 0x22]" by code_simp
  have "if PLDM_SUCCESS = PLDM_SUCCESS \<and> 2 \<in> {4092..4096 :: nat}
    then PldmFwTaskRequestFwDataHandleReq (exampleEnv []) 0 (exampleGlobals False) ?T = None
    else \<exists>G' T'. PldmFwTaskRequestFwDataHandleReq (exampleEnv []) 0 (exampleGlobals False) ?T
        = Some (G', T', StateWaitForRequests)
      \<and> Sent T' = Sent ?T @ [(False, take 4 (RecvBuffer ?T) @ [PLDM_SUCCESS]
          @ (if PLDM_SUCCESS = PLDM_SUCCESS then take 2 (drop 83 (PkgHdr ?T)) else []))]
      \<and> Enabled (RequestFwDataTimer T')"
    by (rule RequestFwData_reply [OF wf _ _ _ ld chk])
       (simp_all add: exampleGlobals_def NewTask_def img)
  then show ?thesis using data by (simp add: NewTask_def codes)
qed

text \<open>
  The completion code of a data request: unexpected outside the download state, invalid for
  a short message or more than 4096 bytes, out of range when it ends more than 32 bytes behind the
  image (in 32-bit arithmetic), and success otherwise; data is read at the image's location plus
  the requested offset.
\<close>

theorem RequestFwData_code:
  assumes "ImageInfo T = Some img" and "load32 (PkgHdr T) (img + OFFSET_Image_Size) = Some sz"
    and "load32 (PkgHdr T) (img + OFFSET_Image_LocationOffset) = Some loc"
  shows "RequestFwDataCheck T off len = Some
    (if FDState T \<noteq> FDStateDownload then (0x88, 0)
     else if RecvLength T < 12 then (0x03, 0)
     else (if 4096 < len then 0x83
           else if (sz + 32) mod 2 ^ 32 < off + len then 0x82
           else 0x00, off + loc))"
  using assms by (simp add: RequestFwDataCheck_def codes Let_def add.commute)

theorem RequestFwData_code_witness:
  "RequestFwDataCheck ((NewTask 0 examplePkg 85)\<lparr>RecvLength := 12, FDState := FDStateDownload,
      ImageInfo := Some 57\<rparr>) 10 25 = Some (0x82, 93)"
proof -
  have "load32 examplePkg (57 + OFFSET_Image_Size) = Some 2"
      "load32 examplePkg (57 + OFFSET_Image_LocationOffset) = Some 83"
    by code_simp+
  then show ?thesis
    by (subst RequestFwData_code [where img = 57 and sz = 2 and loc = 83]) (simp_all add: NewTask_def)
qed

text \<open>
  The tolerance of 32 bytes lets a device read beyond the end of the package: for the example
  package, whose image of two bytes is the last thing in it, a request for 34 bytes from offset 0
  passes the checks and the copy leaves the package.
\<close>

theorem RequestFwData_reads_past_package:
  "RequestFwDataCheck ((NewTask 0 examplePkg 85)\<lparr>RecvLength := 12, FDState := FDStateDownload,
      ImageInfo := Some 57\<rparr>) 0 34 = Some (PLDM_SUCCESS, 83)
    \<and> length examplePkg = 85
    \<and> PldmFwTaskRequestFwDataHandleReq e 0 (exampleGlobals False)
      ((NewTask 0 examplePkg 85)\<lparr>RecvBuffer := [1, 0x81, 5, 0x15, 0, 0, 0, 0, 34, 0, 0, 0] @ replicate 1012 0,
         RecvLength := 12, FDState := FDStateDownload, ImageInfo := Some 57\<rparr>) = None"
  by (simp add: run_simps package_simps component_simps NewTask_def exampleGlobals_def)

section \<open>Responses\<close>

text \<open>
  While a request is active, \<open>PldmFwTaskProcessRsp\<close> takes a message for its response exactly
  when the tag, the MCTP type, the instance id, the PLDM type and the command agree and it has a
  completion code; it then goes on to the state that handles the response. Any other message makes
  the task retry. Either way the response timer is stopped.
\<close>

theorem ProcessRsp_accepts:
  assumes "TaskWf T" and "RequestIsActive T"
  shows "PldmFwTaskProcessRsp G T = Some (G,
    T\<lparr>RequestIsActive := False, RspTimer := (RspTimer T)\<lparr>Enabled := False\<rparr>\<rparr>,
    if RequestMsgTag T = RecvMsgTag T \<and> 5 \<le> RecvLength T
       \<and> (\<forall>k < 4. Request T ! k AND [0x7f, 0x3f, 0xff, 0xff] ! k
                   = RecvBuffer T ! k AND [0x7f, 0x3f, 0xff, 0xff] ! k)
    then ProcessResponseState T else StateRetryReq)"
proof -
  have full: "x AND 0xff = x" for x :: byte
  proof -
    have "(0xff :: byte) = -1" by simp
    then show ?thesis by (simp only: and.right_neutral)
  qed
  have "(\<forall>k < 4. P k) \<longleftrightarrow> P 0 \<and> P 1 \<and> P 2 \<and> P (3 :: nat)" for P
    by (auto simp: numeral_eq_Suc less_Suc_eq)
  then have "pldm_matches (Request T) (RecvBuffer T) \<longleftrightarrow>
      (\<forall>k < 4. Request T ! k AND [0x7f, 0x3f, 0xff, 0xff] ! k
             = RecvBuffer T ! k AND [0x7f, 0x3f, 0xff, 0xff] ! k)"
    by (auto simp: pldm_matches_def mctp_matches_def codes full)
  moreover have "4 \<le> length (Request T)" "4 \<le> length (RecvBuffer T)"
    using assms(1) by (simp_all add: TaskWf_def)
  ultimately show ?thesis
    using assms(2)
    by (auto simp: PldmFwTaskProcessRsp_def PldmValidateResponse_eq Let_def PldmFwTaskCancelTimer_def)
qed

theorem ProcessRsp_accepts_witness:
  "PldmFwTaskProcessRsp (exampleGlobals False)
     ((NewTask 0 [] 0)\<lparr>RequestIsActive := True, ProcessResponseState := StateGetFwParamsProcessRsp,
        RecvBuffer := [1] @ replicate 1023 0, RecvLength := 5\<rparr>)
   = Some (exampleGlobals False,
       (NewTask 0 [] 0)\<lparr>ProcessResponseState := StateGetFwParamsProcessRsp,
        RecvBuffer := [1] @ replicate 1023 0, RecvLength := 5\<rparr>, StateRetryReq)"
  by (subst ProcessRsp_accepts)
     (auto simp: TaskWf_def NewTask_def codes ZeroTimer_def intro!: exI [of _ 0])

text \<open>
  What the device answers to ActivateFirmware does not matter: \<open>PldmFwTaskActivateFwProcessRsp\<close>
  reads the completion code of \<open>Task->Response\<close>, the last reply this side sent, so that it decides
  the same way whatever the receive buffer holds.
\<close>

theorem ActivateFwProcessRsp_ignores_response:
  "PldmFwTaskActivateFwProcessRsp G (T\<lparr>RecvBuffer := b\<rparr>)
     = map_option (\<lambda>(G', T', s). (G', T'\<lparr>RecvBuffer := b\<rparr>, s)) (PldmFwTaskActivateFwProcessRsp G T)"
  by (cases "PldmFwCheckRspCompletionAndLength (Response T) (RecvLength T) 7")
     (simp_all add: PldmFwTaskActivateFwProcessRsp_def PldmFwTaskSetFDState_def)

text \<open>
  Every PassComponentTable request of a task carries the start flag, since no code counts
  \<open>UpdateComponentIndex\<close> up; the end flag is set only when there is a single component.
\<close>

theorem TransferFlag_always_start:
  assumes "TaskWf T" and "0 < NumUpdateComponents T" and "NumUpdateComponents T < 2 ^ 64"
  shows "TransferFlag T = (if NumUpdateComponents T = 1 then 0x05 else 0x01)"
proof -
  have "(NumUpdateComponents T + 2 ^ 64 - 1) mod 2 ^ 64 = NumUpdateComponents T - 1"
  proof -
    have "NumUpdateComponents T + 2 ^ 64 - 1 = (NumUpdateComponents T - 1) + 2 ^ 64"
      using assms(2) by simp
    then show ?thesis using assms(3) by (simp only: mod_add_self2) simp
  qed
  then show ?thesis
    using assms by (auto simp: TransferFlag_def TaskWf_def codes Let_def)
qed

theorem TransferFlag_always_start_witness:
  "TransferFlag ((NewTask 0 examplePkg 85)\<lparr>NumUpdateComponents := 3\<rparr>) = 0x01"
  by (subst TransferFlag_always_start) (simp_all add: TaskWf_def NewTask_def codes)

section \<open>Planning the update\<close>

text \<open>The classification and id of the image at an offset of the package.\<close>

definition ImageKey :: "byte list \<Rightarrow> nat \<Rightarrow> (nat \<times> nat) option" where
  "ImageKey p x = do {
     c \<leftarrow> load16 p (x + OFFSET_Image_Classification);
     d \<leftarrow> load16 p (x + OFFSET_Image_Id);
     Some (c, d) }"

lemma CountParamsLoop_count:
  assumes "\<And>i. i \<in> set is \<Longrightarrow> ComponentKey r i \<noteq> None"
  shows "CountParamsLoop r c d is n = Some (n + length (filter (\<lambda>i. ComponentKey r i = Some (c, d)) is))"
  using assms
proof (induction "is" arbitrary: n)
  case Nil
  then show ?case by simp
next
  case (Cons i "is")
  then obtain e c' d' where "PldmFwGetFwParamsComponent r i = Some e"
      "load16 r (e + OFFSET_Entry_Classification) = Some c'" "load16 r (e + OFFSET_Entry_Id) = Some d'"
    by (fastforce simp: ComponentKey_def bind_eq_None_conv)
  with Cons show ?case by (auto simp: ComponentKey_def)
qed

text \<open>
  The number of updates a package means for a device: for each applicable image, the entries of
  the device's parameter table with the image's classification and id.
\<close>

definition planned_updates ::
    "byte list \<Rightarrow> byte list \<Rightarrow> (nat \<Rightarrow> bool) \<Rightarrow> nat \<Rightarrow> nat list \<Rightarrow> (nat \<times> nat) list \<Rightarrow> nat" where
  "planned_updates p r app c is imgs =
     sum_list (map (\<lambda>(i, x, _). if app i
                 then length (filter (\<lambda>j. ComponentKey r j = ImageKey p x) [0..<c]) else 0)
       (zip is imgs))"

lemma ProcessPackageLoop_count:
  assumes "ImagesAt p x (length is) = Some imgs"
    and "\<And>i. i \<in> set is \<Longrightarrow> PldmFwPkgComponentIsApplicable i p rec = Some (app i)"
    and "\<And>y k. (y, k) \<in> set imgs \<Longrightarrow> ImageKey p y \<noteq> None"
    and "FwParamsComponentCount r = Some c" and "\<And>j. j < c \<Longrightarrow> ComponentKey r j \<noteq> None"
  shows "ProcessPackageLoop p rec r is x n = Some (n + planned_updates p r app c is imgs)"
  using assms(1-3)
proof (induction "is" arbitrary: x n imgs)
  case Nil
  then show ?case by (simp add: planned_updates_def)
next
  case (Cons i "is")
  from Cons.prems(1) obtain k nxt ys where imgs: "imgs = (x, k) # ys"
      "PldmFwPkgGetNextComponentImage p x = Some nxt" "ImagesAt p nxt (length is) = Some ys"
    by (auto simp: bind_eq_Some_conv)
  obtain cl d where key: "load16 p (x + OFFSET_Image_Classification) = Some cl"
      "load16 p (x + OFFSET_Image_Id) = Some d"
    using Cons.prems(3) imgs(1) by (fastforce simp: ImageKey_def bind_eq_None_conv)
  have cnt: "CountParamsLoop r cl d [0..<c] n
      = Some (n + length (filter (\<lambda>j. ComponentKey r j = ImageKey p x) [0..<c]))"
    using CountParamsLoop_count [of "[0..<c]" r cl d n] assms(5) key by (simp add: ImageKey_def)
  have "ProcessPackageLoop p rec r is nxt m = Some (m + planned_updates p r app c is ys)" for m
    by (rule Cons.IH [OF imgs(3)]; use Cons.prems(2,3) imgs(1) in fastforce)
  then show ?case
    using Cons.prems(2) imgs key cnt assms(4) by (simp add: planned_updates_def)
qed

text \<open>
  \<open>PldmFwTaskProcessPackage\<close> plans one update for every pair of an applicable image and an
  entry of the device's parameter table with the same classification and id, and it gives up with
  an error exactly when there is no such pair.
\<close>

theorem ProcessPackage_plans:
  assumes "PldmFwPkgGetComponentImageInfoArea (PkgHdr T) = Some ia"
    and "load16 (PkgHdr T) ia = Some count" and "ImagesAt (PkgHdr T) (ia + 2) count = Some imgs"
    and "DeviceIdRecord T = Some rec" and "GetFwParamsResponse T = Some r"
    and "\<And>i. i < count \<Longrightarrow> PldmFwPkgComponentIsApplicable i (PkgHdr T) rec = Some (app i)"
    and "\<And>y k. (y, k) \<in> set imgs \<Longrightarrow> ImageKey (PkgHdr T) y \<noteq> None"
    and "FwParamsComponentCount r = Some c" and "\<And>j. j < c \<Longrightarrow> ComponentKey r j \<noteq> None"
  shows "\<exists>T'. PldmFwTaskProcessPackage G T =
      (if planned_updates (PkgHdr T) r app c [0..<count] imgs = 0
       then Some (PldmFwTaskSetError ERROR_NO_UPDATE_COMPONENTS G, T', StateFatalError)
       else Some (G, T', StateRequestUpdateSetupReq))
    \<and> NumUpdateComponents T' = planned_updates (PkgHdr T) r app c [0..<count] imgs"
proof -
  have "ProcessPackageLoop (PkgHdr T) rec r [0..<count] (ia + 2) 0
      = Some (planned_updates (PkgHdr T) r app c [0..<count] imgs)"
    using ProcessPackageLoop_count [of "PkgHdr T" "ia + 2" "[0..<count]" imgs rec app r c 0] assms
    by simp
  then show ?thesis
    using assms by (simp add: PldmFwTaskProcessPackage_def PldmFwTaskResetComponentInfo_def Let_def layout)
qed

theorem ProcessPackage_plans_witness:
  "\<exists>T'. PldmFwTaskProcessPackage (exampleGlobals False)
      ((NewTask 0 examplePkg 85)\<lparr>DeviceIdRecord := Some 37, GetFwParamsResponse := Some exampleParamsRsp\<rparr>)
      = Some (exampleGlobals False, T', StateRequestUpdateSetupReq) \<and> NumUpdateComponents T' = 1"
proof -
  let ?T = "(NewTask 0 examplePkg 85)\<lparr>DeviceIdRecord := Some 37,
    GetFwParamsResponse := Some exampleParamsRsp\<rparr>"
  have pkg: "PldmFwPkgGetComponentImageInfoArea examplePkg = Some 55" "load16 examplePkg 55 = Some 1"
      "load32 examplePkg (57 + OFFSET_Image_Size) = Some 2"
      "PldmFwPkgGetNextComponentImage examplePkg 57 = Some 79"
      "PldmFwPkgComponentIsApplicable 0 examplePkg 37 = Some True"
      "ImageKey examplePkg 57 = Some (10, 7)" "FwParamsComponentCount exampleParamsRsp = Some 1"
      "ComponentKey exampleParamsRsp 0 = Some (10, 7)"
    by code_simp+
  have one: "planned_updates examplePkg exampleParamsRsp (\<lambda>_. True) 1 [0..<1] [(57, 2)] = 1"
    by (simp add: planned_updates_def pkg)
  have "\<exists>T'. PldmFwTaskProcessPackage (exampleGlobals False) ?T =
      (if planned_updates (PkgHdr ?T) exampleParamsRsp (\<lambda>_. True) 1 [0..<1] [(57, 2)] = 0
       then Some (PldmFwTaskSetError ERROR_NO_UPDATE_COMPONENTS (exampleGlobals False), T', StateFatalError)
       else Some (exampleGlobals False, T', StateRequestUpdateSetupReq))
    \<and> NumUpdateComponents T' = planned_updates (PkgHdr ?T) exampleParamsRsp (\<lambda>_. True) 1 [0..<1] [(57, 2)]"
    by (rule ProcessPackage_plans [where ia = 55 and rec = 37]) (auto simp: NewTask_def pkg)
  with one show ?thesis by (simp add: NewTask_def)
qed

end
