(* ===== verification/Crc8.thy ===== *)
theory Crc8
  imports Prelude
begin

text \<open>
  \<open>Crc8Lib.c\<close>: the table-driven CRC-8 with its two tables, and the bit-serial definition of the
  same checksums. Reading past the buffer has no result.
\<close>

definition CRC8MaximTable :: "byte list" where
  "CRC8MaximTable =
    [0x00, 0x5e, 0xbc, 0xe2, 0x61, 0x3f, 0xdd, 0x83, 0xc2, 0x9c, 0x7e, 0x20, 0xa3, 0xfd, 0x1f, 0x41,
     0x9d, 0xc3, 0x21, 0x7f, 0xfc, 0xa2, 0x40, 0x1e, 0x5f, 0x01, 0xe3, 0xbd, 0x3e, 0x60, 0x82, 0xdc,
     0x23, 0x7d, 0x9f, 0xc1, 0x42, 0x1c, 0xfe, 0xa0, 0xe1, 0xbf, 0x5d, 0x03, 0x80, 0xde, 0x3c, 0x62,
     0xbe, 0xe0, 0x02, 0x5c, 0xdf, 0x81, 0x63, 0x3d, 0x7c, 0x22, 0xc0, 0x9e, 0x1d, 0x43, 0xa1, 0xff,
     0x46, 0x18, 0xfa, 0xa4, 0x27, 0x79, 0x9b, 0xc5, 0x84, 0xda, 0x38, 0x66, 0xe5, 0xbb, 0x59, 0x07,
     0xdb, 0x85, 0x67, 0x39, 0xba, 0xe4, 0x06, 0x58, 0x19, 0x47, 0xa5, 0xfb, 0x78, 0x26, 0xc4, 0x9a,
     0x65, 0x3b, 0xd9, 0x87, 0x04, 0x5a, 0xb8, 0xe6, 0xa7, 0xf9, 0x1b, 0x45, 0xc6, 0x98, 0x7a, 0x24,
     0xf8, 0xa6, 0x44, 0x1a, 0x99, 0xc7, 0x25, 0x7b, 0x3a, 0x64, 0x86, 0xd8, 0x5b, 0x05, 0xe7, 0xb9,
     0x8c, 0xd2, 0x30, 0x6e, 0xed, 0xb3, 0x51, 0x0f, 0x4e, 0x10, 0xf2, 0xac, 0x2f, 0x71, 0x93, 0xcd,
     0x11, 0x4f, 0xad, 0xf3, 0x70, 0x2e, 0xcc, 0x92, 0xd3, 0x8d, 0x6f, 0x31, 0xb2, 0xec, 0x0e, 0x50,
     0xaf, 0xf1, 0x13, 0x4d, 0xce, 0x90, 0x72, 0x2c, 0x6d, 0x33, 0xd1, 0x8f, 0x0c, 0x52, 0xb0, 0xee,
     0x32, 0x6c, 0x8e, 0xd0, 0x53, 0x0d, 0xef, 0xb1, 0xf0, 0xae, 0x4c, 0x12, 0x91, 0xcf, 0x2d, 0x73,
     0xca, 0x94, 0x76, 0x28, 0xab, 0xf5, 0x17, 0x49, 0x08, 0x56, 0xb4, 0xea, 0x69, 0x37, 0xd5, 0x8b,
     0x57, 0x09, 0xeb, 0xb5, 0x36, 0x68, 0x8a, 0xd4, 0x95, 0xcb, 0x29, 0x77, 0xf4, 0xaa, 0x48, 0x16,
     0xe9, 0xb7, 0x55, 0x0b, 0x88, 0xd6, 0x34, 0x6a, 0x2b, 0x75, 0x97, 0xc9, 0x4a, 0x14, 0xf6, 0xa8,
     0x74, 0x2a, 0xc8, 0x96, 0x15, 0x4b, 0xa9, 0xf7, 0xb6, 0xe8, 0x0a, 0x54, 0xd7, 0x89, 0x6b, 0x35]"

definition CRC8Table :: "byte list" where
  "CRC8Table =
    [0x00, 0x07, 0x0e, 0x09, 0x1c, 0x1b, 0x12, 0x15, 0x38, 0x3f, 0x36, 0x31, 0x24, 0x23, 0x2a, 0x2d,
     0x70, 0x77, 0x7e, 0x79, 0x6c, 0x6b, 0x62, 0x65, 0x48, 0x4f, 0x46, 0x41, 0x54, 0x53, 0x5a, 0x5d,
     0xe0, 0xe7, 0xee, 0xe9, 0xfc, 0xfb, 0xf2, 0xf5, 0xd8, 0xdf, 0xd6, 0xd1, 0xc4, 0xc3, 0xca, 0xcd,
     0x90, 0x97, 0x9e, 0x99, 0x8c, 0x8b, 0x82, 0x85, 0xa8, 0xaf, 0xa6, 0xa1, 0xb4, 0xb3, 0xba, 0xbd,
     0xc7, 0xc0, 0xc9, 0xce, 0xdb, 0xdc, 0xd5, 0xd2, 0xff, 0xf8, 0xf1, 0xf6, 0xe3, 0xe4, 0xed, 0xea,
     0xb7, 0xb0, 0xb9, 0xbe, 0xab, 0xac, 0xa5, 0xa2, 0x8f, 0x88, 0x81, 0x86, 0x93, 0x94, 0x9d, 0x9a,
     0x27, 0x20, 0x29, 0x2e, 0x3b, 0x3c, 0x35, 0x32, 0x1f, 0x18, 0x11, 0x16, 0x03, 0x04, 0x0d, 0x0a,
     0x57, 0x50, 0x59, 0x5e, 0x4b, 0x4c, 0x45, 0x42, 0x6f, 0x68, 0x61, 0x66, 0x73, 0x74, 0x7d, 0x7a,
     0x89, 0x8e, 0x87, 0x80, 0x95, 0x92, 0x9b, 0x9c, 0xb1, 0xb6, 0xbf, 0xb8, 0xad, 0xaa, 0xa3, 0xa4,
     0xf9, 0xfe, 0xf7, 0xf0, 0xe5, 0xe2, 0xeb, 0xec, 0xc1, 0xc6, 0xcf, 0xc8, 0xdd, 0xda, 0xd3, 0xd4,
     0x69, 0x6e, 0x67, 0x60, 0x75, 0x72, 0x7b, 0x7c, 0x51, 0x56, 0x5f, 0x58, 0x4d, 0x4a, 0x43, 0x44,
     0x19, 0x1e, 0x17, 0x10, 0x05, 0x02, 0x0b, 0x0c, 0x21, 0x26, 0x2f, 0x28, 0x3d, 0x3a, 0x33, 0x34,
     0x4e, 0x49, 0x40, 0x47, 0x52, 0x55, 0x5c, 0x5b, 0x76, 0x71, 0x78, 0x7f, 0x6a, 0x6d, 0x64, 0x63,
     0x3e, 0x39, 0x30, 0x37, 0x22, 0x25, 0x2c, 0x2b, 0x06, 0x01, 0x08, 0x0f, 0x1a, 0x1d, 0x14, 0x13,
     0xae, 0xa9, 0xa0, 0xa7, 0xb2, 0xb5, 0xbc, 0xbb, 0x96, 0x91, 0x98, 0x9f, 0x8a, 0x8d, 0x84, 0x83,
     0xde, 0xd9, 0xd0, 0xd7, 0xc2, 0xc5, 0xcc, 0xcb, 0xe6, 0xe1, 0xe8, 0xef, 0xfa, 0xfd, 0xf4, 0xf3]"

definition TYPE_CRC8 :: byte where "TYPE_CRC8 = 0"
definition TYPE_CRC8_MAXIM :: byte where "TYPE_CRC8_MAXIM = 1"

primrec Crc8Loop :: "byte list \<Rightarrow> byte list \<Rightarrow> nat list \<Rightarrow> byte \<Rightarrow> byte option" where
  "Crc8Loop Table Buffer [] Crc8 = Some Crc8"
| "Crc8Loop Table Buffer (Index # rest) Crc8 = do {
     b \<leftarrow> load8 Buffer Index;
     Crc8Loop Table Buffer rest (Table ! unat (b XOR Crc8)) }"

definition CalculateCrc8 :: "byte list \<Rightarrow> nat \<Rightarrow> byte \<Rightarrow> byte \<Rightarrow> byte option" where
  "CalculateCrc8 Buffer Size Seed Type =
     (if Type = TYPE_CRC8 then Crc8Loop CRC8Table Buffer [0..<Size] Seed
      else if Type = TYPE_CRC8_MAXIM then Crc8Loop CRC8MaximTable Buffer [0..<Size] Seed
      else Some 0)"

section \<open>The checksums bit by bit\<close>

text \<open>Polynomial \<open>0x07\<close>, most significant bit first; and \<open>0x31\<close> reflected, least significant first.\<close>

definition crc8_shift :: "byte \<Rightarrow> byte" where
  "crc8_shift x = (if bit x 7 then push_bit 1 x XOR 0x07 else push_bit 1 x)"

definition maxim_shift :: "byte \<Rightarrow> byte" where
  "maxim_shift x = (if bit x 0 then drop_bit 1 x XOR 0x8c else drop_bit 1 x)"

definition crc8_byte :: "byte \<Rightarrow> byte" where
  "crc8_byte x = (crc8_shift ^^ 8) x"

definition maxim_byte :: "byte \<Rightarrow> byte" where
  "maxim_byte x = (maxim_shift ^^ 8) x"

lemma eight_times: "(f ^^ 8) x = f (f (f (f (f (f (f (f x)))))))"
  by (simp add: numeral_eq_Suc)

text \<open>Both tables are checked entry by entry against the shifts.\<close>

definition all_bytes :: "byte list" where
  "all_bytes =
    [0x00, 0x01, 0x02, 0x03, 0x04, 0x05, 0x06, 0x07, 0x08, 0x09, 0x0a, 0x0b, 0x0c, 0x0d, 0x0e, 0x0f,
     0x10, 0x11, 0x12, 0x13, 0x14, 0x15, 0x16, 0x17, 0x18, 0x19, 0x1a, 0x1b, 0x1c, 0x1d, 0x1e, 0x1f,
     0x20, 0x21, 0x22, 0x23, 0x24, 0x25, 0x26, 0x27, 0x28, 0x29, 0x2a, 0x2b, 0x2c, 0x2d, 0x2e, 0x2f,
     0x30, 0x31, 0x32, 0x33, 0x34, 0x35, 0x36, 0x37, 0x38, 0x39, 0x3a, 0x3b, 0x3c, 0x3d, 0x3e, 0x3f,
     0x40, 0x41, 0x42, 0x43, 0x44, 0x45, 0x46, 0x47, 0x48, 0x49, 0x4a, 0x4b, 0x4c, 0x4d, 0x4e, 0x4f,
     0x50, 0x51, 0x52, 0x53, 0x54, 0x55, 0x56, 0x57, 0x58, 0x59, 0x5a, 0x5b, 0x5c, 0x5d, 0x5e, 0x5f,
     0x60, 0x61, 0x62, 0x63, 0x64, 0x65, 0x66, 0x67, 0x68, 0x69, 0x6a, 0x6b, 0x6c, 0x6d, 0x6e, 0x6f,
     0x70, 0x71, 0x72, 0x73, 0x74, 0x75, 0x76, 0x77, 0x78, 0x79, 0x7a, 0x7b, 0x7c, 0x7d, 0x7e, 0x7f,
     0x80, 0x81, 0x82, 0x83, 0x84, 0x85, 0x86, 0x87, 0x88, 0x89, 0x8a, 0x8b, 0x8c, 0x8d, 0x8e, 0x8f,
     0x90, 0x91, 0x92, 0x93, 0x94, 0x95, 0x96, 0x97, 0x98, 0x99, 0x9a, 0x9b, 0x9c, 0x9d, 0x9e, 0x9f,
     0xa0, 0xa1, 0xa2, 0xa3, 0xa4, 0xa5, 0xa6, 0xa7, 0xa8, 0xa9, 0xaa, 0xab, 0xac, 0xad, 0xae, 0xaf,
     0xb0, 0xb1, 0xb2, 0xb3, 0xb4, 0xb5, 0xb6, 0xb7, 0xb8, 0xb9, 0xba, 0xbb, 0xbc, 0xbd, 0xbe, 0xbf,
     0xc0, 0xc1, 0xc2, 0xc3, 0xc4, 0xc5, 0xc6, 0xc7, 0xc8, 0xc9, 0xca, 0xcb, 0xcc, 0xcd, 0xce, 0xcf,
     0xd0, 0xd1, 0xd2, 0xd3, 0xd4, 0xd5, 0xd6, 0xd7, 0xd8, 0xd9, 0xda, 0xdb, 0xdc, 0xdd, 0xde, 0xdf,
     0xe0, 0xe1, 0xe2, 0xe3, 0xe4, 0xe5, 0xe6, 0xe7, 0xe8, 0xe9, 0xea, 0xeb, 0xec, 0xed, 0xee, 0xef,
     0xf0, 0xf1, 0xf2, 0xf3, 0xf4, 0xf5, 0xf6, 0xf7, 0xf8, 0xf9, 0xfa, 0xfb, 0xfc, 0xfd, 0xfe, 0xff]"

lemma all_bytes_unat: "map unat all_bytes = [0..<256]"
  by (simp add: all_bytes_def upt_rec)

lemma CRC8Table_bits: "map crc8_byte all_bytes = CRC8Table"
  by (simp add: all_bytes_def crc8_byte_def crc8_shift_def eight_times CRC8Table_def)

lemma CRC8MaximTable_bits: "map maxim_byte all_bytes = CRC8MaximTable"
  by (simp add: all_bytes_def maxim_byte_def maxim_shift_def eight_times CRC8MaximTable_def)

lemma crc8_shift_inj: "inj crc8_shift"
proof (rule injI)
  fix x y
  assume eq: "crc8_shift x = crc8_shift y"
  have low: "bit (crc8_shift z) 0 = bit z 7" for z
  proof -
    have "\<not> bit (push_bit 1 z) 0" by (simp only: bit_push_bit_iff) simp
    moreover have "bit (0x07 :: byte) 0" by simp
    ultimately show ?thesis by (auto simp only: crc8_shift_def bit_xor_iff split: if_splits)
  qed
  from eq have top: "bit x 7 = bit y 7"
    using low [of x] low [of y] by simp
  have "push_bit 1 x = push_bit 1 y"
  proof (cases "bit x 7")
    case True
    with eq top have "(push_bit 1 x XOR 0x07) XOR 0x07 = (push_bit 1 y XOR 0x07) XOR 0x07"
      by (simp add: crc8_shift_def)
    then show ?thesis by (simp add: xor.assoc)
  next
    case False
    with eq top show ?thesis by (simp add: crc8_shift_def)
  qed
  then have up: "bit (push_bit 1 x) n = bit (push_bit 1 y) n" for n by simp
  have shift: "bit (push_bit 1 z) (Suc n) = bit z n" if "Suc n < 8" for z :: byte and n
    using that by (simp only: bit_push_bit_iff) simp
  show "x = y"
  proof (rule bit_word_eqI)
    fix n :: nat
    assume "n < LENGTH(8)"
    then consider "n = 7" | "Suc n < 8" by fastforce
    then show "bit x n = bit y n"
      using top up [of "Suc n"] shift [of n x] shift [of n y] by cases (simp_all only: simp_thms)
  qed
qed

lemma maxim_shift_inj: "inj maxim_shift"
proof (rule injI)
  fix x y
  assume eq: "maxim_shift x = maxim_shift y"
  have "\<not> bit (drop_bit 1 z) 7" for z :: byte
    using bit_imp_le_length [of z 8] by (auto simp: bit_drop_bit_eq)
  moreover have "bit (0x8c :: byte) 7" by simp
  ultimately have high: "bit (maxim_shift z) 7 = bit z 0" for z
    by (simp add: maxim_shift_def bit_xor_iff del: bit_0 bit_numeral_word_iff)
  from eq have low: "bit x 0 = bit y 0"
    using high [of x] high [of y] by simp
  have "drop_bit 1 x = drop_bit 1 y"
  proof (cases "bit x 0")
    case True
    with eq low have "(drop_bit 1 x XOR 0x8c) XOR 0x8c = (drop_bit 1 y XOR 0x8c) XOR 0x8c"
      by (simp add: maxim_shift_def)
    then show ?thesis by (simp add: xor.assoc)
  next
    case False
    with eq low show ?thesis by (simp add: maxim_shift_def)
  qed
  then have down: "bit (drop_bit 1 x) n = bit (drop_bit 1 y) n" for n by simp
  show "x = y"
  proof (rule bit_word_eqI)
    fix n :: nat
    assume "n < LENGTH(8)"
    show "bit x n = bit y n"
      using low down [of "n - 1"] by (cases n) (simp_all add: bit_drop_bit_eq)
  qed
qed

lemma table_byte_inj: "inj crc8_byte" "inj maxim_byte"
  using inj_fn [OF crc8_shift_inj, of 8] inj_fn [OF maxim_shift_inj, of 8]
  by (simp_all add: crc8_byte_def [abs_def] maxim_byte_def [abs_def])

lemmas table_byte_eq = inj_eq [OF table_byte_inj(1)] inj_eq [OF table_byte_inj(2)]

lemma all_bytes_nth: "all_bytes ! unat (x :: byte) = x"
proof -
  have len: "length all_bytes = 256" by (simp add: all_bytes_def)
  have "map unat all_bytes ! unat x = unat x"
    using unat_byte_bound [of x] by (simp add: all_bytes_unat)
  then have "unat (all_bytes ! unat x) = unat x"
    using unat_byte_bound [of x] len by simp
  then show ?thesis by (rule unsigned_word_eqI)
qed

lemma table_lookup: "CRC8Table ! unat x = crc8_byte x" "CRC8MaximTable ! unat (x :: byte) = maxim_byte x"
proof -
  have "length all_bytes = 256" by (simp add: all_bytes_def)
  then show "CRC8Table ! unat x = crc8_byte x" "CRC8MaximTable ! unat x = maxim_byte x"
    using unat_byte_bound [of x] by (simp_all flip: CRC8Table_bits CRC8MaximTable_bits add: all_bytes_nth)
qed

lemma Crc8Loop_fold:
  assumes "\<And>x. T ! unat x = f x" and "m + n \<le> length b"
  shows "Crc8Loop T b [m..<m + n] c = Some (fold (\<lambda>x c. f (x XOR c)) (take n (drop m b)) c)"
  using assms(2)
proof (induction n arbitrary: m c)
  case 0
  then show ?case by simp
next
  case (Suc n)
  have "[m..<m + Suc n] = m # [Suc m..<Suc m + n]"
    by (simp add: upt_conv_Cons)
  moreover have "take (Suc n) (drop m b) = b ! m # take n (drop (Suc m) b)"
    using Suc.prems by (simp add: take_Suc_conv_app_nth Cons_nth_drop_Suc [symmetric])
  ultimately show ?case
    using Suc.IH [of "Suc m" "f (b ! m XOR c)"] Suc.prems assms(1) by (simp add: buffer_simps)
qed

definition crc_serial :: "byte \<Rightarrow> byte list \<Rightarrow> byte \<Rightarrow> byte" where
  "crc_serial Type xs Seed =
     fold (\<lambda>x c. (if Type = TYPE_CRC8 then crc8_byte else maxim_byte) (x XOR c)) xs Seed"

lemma CalculateCrc8_serial:
  assumes "Size \<le> length b" and "Type \<in> {TYPE_CRC8, TYPE_CRC8_MAXIM}"
  shows "CalculateCrc8 b Size Seed Type = Some (crc_serial Type (take Size b) Seed)"
proof -
  have "TYPE_CRC8 \<noteq> TYPE_CRC8_MAXIM" by (simp add: TYPE_CRC8_def TYPE_CRC8_MAXIM_def)
  with assms Crc8Loop_fold [OF table_lookup(1), of 0 Size b Seed]
      Crc8Loop_fold [OF table_lookup(2), of 0 Size b Seed]
  show ?thesis by (auto simp: CalculateCrc8_def crc_serial_def)
qed

lemma crc_serial_step_inj: "crc_serial Type xs c = crc_serial Type xs d \<Longrightarrow> c = d"
proof (induction xs arbitrary: c d)
  case Nil
  then show ?case by (simp add: crc_serial_def)
next
  case (Cons x xs)
  let ?f = "if Type = TYPE_CRC8 then crc8_byte else maxim_byte"
  from Cons.prems have "crc_serial Type xs (?f (x XOR c)) = crc_serial Type xs (?f (x XOR d))"
    by (simp add: crc_serial_def)
  then have "?f (x XOR c) = ?f (x XOR d)" by (rule Cons.IH)
  then have "x XOR c = x XOR d"
    by (simp add: table_byte_eq split: if_splits)
  then have "x XOR (x XOR c) = x XOR (x XOR d)" by simp
  then show ?case by (simp add: xor.assoc [symmetric])
qed

section \<open>Properties\<close>

text \<open>
  The table-driven \<open>CalculateCrc8\<close> computes the bit-serial CRC-8 with polynomial \<open>0x07\<close> for
  \<open>TYPE_CRC8\<close> and the reflected one with polynomial \<open>0x31\<close> for \<open>TYPE_CRC8_MAXIM\<close>, for every
  buffer and seed; all 512 table entries are right.
\<close>

theorem CalculateCrc8_correct:
  assumes "Size \<le> length b" and "Type \<in> {TYPE_CRC8, TYPE_CRC8_MAXIM}"
  shows "CalculateCrc8 b Size Seed Type = Some
    (fold (\<lambda>x c. ((if Type = TYPE_CRC8 then crc8_shift else maxim_shift) ^^ 8) (x XOR c))
       (take Size b) Seed)"
  using CalculateCrc8_serial [OF assms, of Seed]
  by (cases "Type = TYPE_CRC8")
     (simp_all only: crc_serial_def crc8_byte_def maxim_byte_def if_True if_False simp_thms)

theorem CalculateCrc8_correct_witness:
  "CalculateCrc8 [0x31, 0x32, 0x33] 3 0 TYPE_CRC8 = Some 0xc0"
proof -
  have "(crc8_shift ^^ 8) 0x31 = 0x97" "(crc8_shift ^^ 8) 0xa5 = 0x72" "(crc8_shift ^^ 8) 0x41 = 0xc0"
    by (simp_all add: eight_times crc8_shift_def)
  then show ?thesis
    using CalculateCrc8_correct [of 3 "[0x31, 0x32, 0x33]" TYPE_CRC8 0] by simp
qed

text \<open>
  The checksum detects every error in a single byte: two buffers of the same length that differ
  in exactly one of the checked bytes have different checksums.
\<close>

theorem Crc8_detects_byte_error:
  assumes "length b = length b'" and "Size \<le> length b" and "k < Size" and "b ! k \<noteq> b' ! k"
    and "\<And>j. j < Size \<Longrightarrow> j \<noteq> k \<Longrightarrow> b ! j = b' ! j" and "Type \<in> {TYPE_CRC8, TYPE_CRC8_MAXIM}"
  shows "CalculateCrc8 b Size Seed Type \<noteq> CalculateCrc8 b' Size Seed Type"
proof
  let ?f = "if Type = TYPE_CRC8 then crc8_byte else maxim_byte"
  assume "CalculateCrc8 b Size Seed Type = CalculateCrc8 b' Size Seed Type"
  then have eq: "crc_serial Type (take Size b) Seed = crc_serial Type (take Size b') Seed"
    using assms(1,2,6) by (simp add: CalculateCrc8_serial)
  have split: "take Size x = take k x @ x ! k # take (Size - Suc k) (drop (Suc k) x)"
    if "length x = length b" for x :: "byte list"
  proof -
    have "k < length (take Size x)" using that assms(2,3) by simp
    from id_take_nth_drop [OF this] show ?thesis
      using assms(3) by (simp only: drop_take) (simp add: min_def)
  qed
  have head: "take k b = take k b'"
    using assms by (auto intro!: nth_equalityI)
  have tail: "take (Size - Suc k) (drop (Suc k) b) = take (Size - Suc k) (drop (Suc k) b')"
    using assms by (auto intro!: nth_equalityI)
  define c where "c = crc_serial Type (take k b) Seed"
  have "crc_serial Type (take (Size - Suc k) (drop (Suc k) b)) (?f (b ! k XOR c))
      = crc_serial Type (take (Size - Suc k) (drop (Suc k) b)) (?f (b' ! k XOR c))"
    using eq split [of b] split [of b'] assms(1) head tail by (simp add: crc_serial_def c_def)
  then have "?f (b ! k XOR c) = ?f (b' ! k XOR c)" by (rule crc_serial_step_inj)
  then have "b ! k XOR c = b' ! k XOR c"
    by (simp add: table_byte_eq split: if_splits)
  then have "(b ! k XOR c) XOR c = (b' ! k XOR c) XOR c" by simp
  with assms(4) show False by (simp add: xor.assoc)
qed

theorem Crc8_detects_byte_error_witness:
  "CalculateCrc8 [1, 2, 3] 3 0xff TYPE_CRC8_MAXIM \<noteq> CalculateCrc8 [1, 7, 3] 3 0xff TYPE_CRC8_MAXIM"
proof (rule Crc8_detects_byte_error [where k = 1])
  fix j :: nat
  assume "j < 3" "j \<noteq> 1"
  then have "j = 0 \<or> j = 2" by auto
  then show "[1, 2, 3 :: byte] ! j = [1, 7, 3] ! j" by auto
qed (simp_all add: TYPE_CRC8_MAXIM_def)

end
