(* ===== verification/BootChainInfo.thy ===== *)
theory BootChainInfo
  imports Prelude
begin

text \<open>
  \<open>BootChainInfoLib.c\<close>: from a partition's base name and a boot chain to the name of the chain's own
  partition, and back. A \<open>CHAR16\<close> string is the list of its characters without the terminating
  zero. The platform queries (chip, silicon, PCDs, the resource HOB) are a record; the copy and print
  functions of EDK2's BaseLib and PrintLib are a parameter, with their documented behaviour as the
  predicate \<open>documented_strings\<close>.
\<close>

type_synonym CHAR16 = "16 word"
type_synonym wstring = "CHAR16 list"

section \<open>The platform and the string functions\<close>

record PLATFORM =
  IsSilicon :: bool
  PcdPartitionNamesHaveSuffixes :: bool
  PcdGptIsPerBootChain :: bool
  TegraGetChipID :: nat
  HobActiveBootChain :: "nat option"

text \<open>
  The destination's old content is an argument, since a refused copy leaves it alone;
  \<open>UnicodeSPrint2 n s t\<close> is what \<open>UnicodeSPrint (buf, n, L"%s%s", s, t)\<close> leaves in the buffer.
\<close>

record EDK2_STRINGS =
  StrCpyS :: "nat \<Rightarrow> wstring \<Rightarrow> wstring \<Rightarrow> EFI_STATUS \<times> wstring"
  StrnCpyS :: "nat \<Rightarrow> wstring \<Rightarrow> nat \<Rightarrow> wstring \<Rightarrow> EFI_STATUS \<times> wstring"
  UnicodeSPrint2 :: "nat \<Rightarrow> wstring \<Rightarrow> wstring \<Rightarrow> wstring"

definition documented_strings :: "EDK2_STRINGS \<Rightarrow> bool" where
  "documented_strings L \<longleftrightarrow>
     (\<forall>n s d. StrCpyS L n s d
        = (if length s < n then (EFI_SUCCESS, s) else (EFI_BUFFER_TOO_SMALL, d)))
   \<and> (\<forall>n s k d. StrnCpyS L n s k d
        = (if min k (length s) < n then (EFI_SUCCESS, take k s) else (EFI_BUFFER_TOO_SMALL, d)))
   \<and> (\<forall>n s t. UnicodeSPrint2 L n s t = take (n div 2 - 1) (s @ t))"

definition edk2_strings :: EDK2_STRINGS where
  "edk2_strings = \<lparr>
     StrCpyS = (\<lambda>n s d. if length s < n then (EFI_SUCCESS, s) else (EFI_BUFFER_TOO_SMALL, d)),
     StrnCpyS = (\<lambda>n s k d. if min k (length s) < n then (EFI_SUCCESS, take k s)
                            else (EFI_BUFFER_TOO_SMALL, d)),
     UnicodeSPrint2 = (\<lambda>n s t. take (n div 2 - 1) (s @ t)) \<rparr>"

lemma edk2_strings_documented: "documented_strings edk2_strings"
  by (simp add: documented_strings_def edk2_strings_def)

lemma string_functions:
  assumes "documented_strings L"
  shows "length s < n \<Longrightarrow> StrCpyS L n s d = (EFI_SUCCESS, s)"
    and "min k (length s) < n \<Longrightarrow> StrnCpyS L n s k d = (EFI_SUCCESS, take k s)"
    and "length s + length t < n div 2 \<Longrightarrow> UnicodeSPrint2 L n s t = s @ t"
  using assms by (simp_all add: documented_strings_def)

text \<open>\<open>StrnCmp (s, t, n) == 0\<close> on zero-terminated strings.\<close>

primrec StrnCmpIsZero :: "wstring \<Rightarrow> wstring \<Rightarrow> nat \<Rightarrow> bool" where
  "StrnCmpIsZero s t 0 = True"
| "StrnCmpIsZero s t (Suc n) = (case (s, t) of
     ([], []) \<Rightarrow> True
   | (c # s', d # t') \<Rightarrow> c = d \<and> StrnCmpIsZero s' t' n
   | _ \<Rightarrow> False)"

lemma StrnCmpIsZero_take: "StrnCmpIsZero s t n \<longleftrightarrow> take n s = take n t"
  by (induction n arbitrary: s t) (auto split: list.splits)

section \<open>The code\<close>

definition MAX_BOOT_CHAIN_INFO_MAPPING :: nat where "MAX_BOOT_CHAIN_INFO_MAPPING = 2"
definition PARTITION_PREFIX_LENGTH :: nat where "PARTITION_PREFIX_LENGTH = 2"
definition PARTITION_SUFFIX_LENGTH :: nat where "PARTITION_SUFFIX_LENGTH = 2"
definition MAX_PARTITION_NAME_LEN :: nat where "MAX_PARTITION_NAME_LEN = 36"
definition BOOT_CHAIN_A :: nat where "BOOT_CHAIN_A = 0"
definition BOOT_CHAIN_B :: nat where "BOOT_CHAIN_B = 1"
definition BOOT_CHAIN_COUNT :: nat where "BOOT_CHAIN_COUNT = 2"
definition T234_CHIP_ID :: nat where "T234_CHIP_ID = 0x23"
definition T264_CHIP_ID :: nat where "T264_CHIP_ID = 0x26"

lemmas boot_chain_constants [codes] =
  MAX_BOOT_CHAIN_INFO_MAPPING_def PARTITION_PREFIX_LENGTH_def PARTITION_SUFFIX_LENGTH_def
  MAX_PARTITION_NAME_LEN_def BOOT_CHAIN_A_def BOOT_CHAIN_B_def BOOT_CHAIN_COUNT_def

definition SuffixPartitionNameId :: "wstring list" where
  "SuffixPartitionNameId = [[0x5f, 0x61], [0x5f, 0x62]]"

definition T234PartitionNameId :: "wstring list" where
  "T234PartitionNameId = [[0x41, 0x5f], [0x42, 0x5f]]"

text \<open>A null pointer is \<open>None\<close>; the output buffer is returned as the call leaves it.\<close>

definition GetBootChainPartitionName ::
  "PLATFORM \<Rightarrow> EDK2_STRINGS \<Rightarrow> wstring option \<Rightarrow> nat \<Rightarrow> wstring option
   \<Rightarrow> EFI_STATUS \<times> wstring option" where
  "GetBootChainPartitionName P L BasePartitionName BootChain BootChainPartitionName =
     (case (BasePartitionName, BootChainPartitionName) of
        (Some Base, Some Out) \<Rightarrow>
          if BootChain \<ge> MAX_BOOT_CHAIN_INFO_MAPPING then (EFI_INVALID_PARAMETER, Some Out)
          else if \<not> IsSilicon P then apsnd Some (StrCpyS L MAX_PARTITION_NAME_LEN Base Out)
          else if PcdPartitionNamesHaveSuffixes P then
            (EFI_SUCCESS, Some (UnicodeSPrint2 L (2 * MAX_PARTITION_NAME_LEN)
                                  Base (SuffixPartitionNameId ! BootChain)))
          else if TegraGetChipID P \<in> {T234_CHIP_ID, T264_CHIP_ID} then
            (EFI_SUCCESS, Some (UnicodeSPrint2 L (2 * MAX_PARTITION_NAME_LEN)
                                  (T234PartitionNameId ! BootChain) Base))
          else (EFI_UNSUPPORTED, Some Out)
      | _ \<Rightarrow> (EFI_INVALID_PARAMETER, BootChainPartitionName))"

definition GetActivePartitionName ::
  "PLATFORM \<Rightarrow> EDK2_STRINGS \<Rightarrow> wstring option \<Rightarrow> wstring option
   \<Rightarrow> EFI_STATUS \<times> wstring option" where
  "GetActivePartitionName P L GeneralPartitionName ActivePartitionName =
     (case (GeneralPartitionName, ActivePartitionName) of
        (Some Name, Some Out) \<Rightarrow>
          (case HobActiveBootChain P of
             Some BootChain \<Rightarrow>
               GetBootChainPartitionName P L GeneralPartitionName BootChain ActivePartitionName
           | None \<Rightarrow> apsnd Some (StrCpyS L MAX_PARTITION_NAME_LEN Name Out))
      | _ \<Rightarrow> (EFI_INVALID_PARAMETER, ActivePartitionName))"

text \<open>The first \<open>Index\<close> below \<open>n\<close> for which the loop's test holds.\<close>

definition FirstIndex :: "(nat \<Rightarrow> bool) \<Rightarrow> nat \<Rightarrow> nat option" where
  "FirstIndex p n = find p [0..<n]"

text \<open>
  The start of a suffix lies before the string when the name has fewer characters than a suffix:
  the comparison then reads in front of the buffer and the call has no result.
\<close>

definition GetPartitionBaseNameAndBootChainAny ::
  "EDK2_STRINGS \<Rightarrow> wstring option \<Rightarrow> wstring option \<Rightarrow> nat option
   \<Rightarrow> (EFI_STATUS \<times> wstring option \<times> nat option) option" where
  "GetPartitionBaseNameAndBootChainAny L PartitionName BaseName BootChain =
     (case (PartitionName, BaseName, BootChain) of
        (Some Name, Some Out, Some _) \<Rightarrow>
          (case FirstIndex (\<lambda>Index. StrnCmpIsZero Name (T234PartitionNameId ! Index)
                              PARTITION_PREFIX_LENGTH) MAX_BOOT_CHAIN_INFO_MAPPING of
             Some Index \<Rightarrow>
               Some (EFI_SUCCESS,
                 Some (snd (StrCpyS L MAX_PARTITION_NAME_LEN (drop PARTITION_PREFIX_LENGTH Name) Out)),
                 Some Index)
           | None \<Rightarrow>
               let NameLength = length Name in
               if NameLength < PARTITION_SUFFIX_LENGTH then None
               else
                 let SuffixStart = drop (NameLength - PARTITION_SUFFIX_LENGTH) Name in
                 (case FirstIndex (\<lambda>Index. StrnCmpIsZero SuffixStart (SuffixPartitionNameId ! Index)
                                     PARTITION_SUFFIX_LENGTH) MAX_BOOT_CHAIN_INFO_MAPPING of
                    Some Index \<Rightarrow>
                      Some (EFI_SUCCESS,
                        Some (snd (StrnCpyS L MAX_PARTITION_NAME_LEN Name
                                     (NameLength - PARTITION_SUFFIX_LENGTH) Out)),
                        Some Index)
                  | None \<Rightarrow>
                      Some (EFI_SUCCESS,
                        Some (snd (StrCpyS L MAX_PARTITION_NAME_LEN Name Out)),
                        Some BOOT_CHAIN_A)))
      | _ \<Rightarrow> Some (EFI_INVALID_PARAMETER, BaseName, BootChain))"

text \<open>\<open>NV_ASSERT_RETURN\<close> returns the default chain when its condition fails in a release build.\<close>

definition GetBootChainForGpt :: "PLATFORM \<Rightarrow> nat" where
  "GetBootChainForGpt P =
     (if \<not> PcdGptIsPerBootChain P then BOOT_CHAIN_A
      else case HobActiveBootChain P of Some BootChain \<Rightarrow> BootChain | None \<Rightarrow> BOOT_CHAIN_A)"

section \<open>Lemmas\<close>

lemma FirstIndex_two:
  "FirstIndex p 2 = (if p 0 then Some 0 else if p 1 then Some 1 else None)"
  by (simp add: FirstIndex_def upt_rec numeral_2_eq_2)

lemma below_two: "(n :: nat) < 2 \<longleftrightarrow> n = 0 \<or> n = 1"
  by auto

lemmas name_simps = FirstIndex_two StrnCmpIsZero_take boot_chain_constants
  SuffixPartitionNameId_def T234PartitionNameId_def

text \<open>How a partition name splits, case by case.\<close>

lemma prefixed_name:
  assumes "documented_strings L" and "Chain < 2" and "length Base < MAX_PARTITION_NAME_LEN"
  shows "GetPartitionBaseNameAndBootChainAny L (Some (T234PartitionNameId ! Chain @ Base))
           (Some Out) (Some c) = Some (EFI_SUCCESS, Some Base, Some Chain)"
  using assms
  by (auto simp: GetPartitionBaseNameAndBootChainAny_def name_simps below_two string_functions)

lemma suffixed_name:
  assumes "documented_strings L" and "Chain < 2" and "length Base < MAX_PARTITION_NAME_LEN"
    and "take 2 (Base @ SuffixPartitionNameId ! Chain) \<notin> set T234PartitionNameId"
  shows "GetPartitionBaseNameAndBootChainAny L (Some (Base @ SuffixPartitionNameId ! Chain))
           (Some Out) (Some c) = Some (EFI_SUCCESS, Some Base, Some Chain)"
  using assms
  by (auto simp: GetPartitionBaseNameAndBootChainAny_def name_simps below_two string_functions)

section \<open>Properties\<close>

text \<open>
  The two directions agree: on silicon, with suffixed names or on a T234 or T264, the name built
  from a base name of at most 33 characters and a boot chain is taken apart into the same base name
  and chain. With suffixes the base name must not itself begin like a prefixed name.
\<close>

theorem partition_name_roundtrip:
  assumes "documented_strings L" and "IsSilicon P"
    and "PcdPartitionNamesHaveSuffixes P \<or> TegraGetChipID P \<in> {T234_CHIP_ID, T264_CHIP_ID}"
    and "Chain < BOOT_CHAIN_COUNT" and "length Base + 2 < MAX_PARTITION_NAME_LEN"
    and "PcdPartitionNamesHaveSuffixes P \<Longrightarrow>
           take 2 (Base @ SuffixPartitionNameId ! Chain) \<notin> set T234PartitionNameId"
  shows "\<exists>Name. GetBootChainPartitionName P L (Some Base) Chain (Some Out) = (EFI_SUCCESS, Some Name)
    \<and> length Name < MAX_PARTITION_NAME_LEN
    \<and> GetPartitionBaseNameAndBootChainAny L (Some Name) (Some Out') (Some c)
        = Some (EFI_SUCCESS, Some Base, Some Chain)"
proof (cases "PcdPartitionNamesHaveSuffixes P")
  case True
  have "GetBootChainPartitionName P L (Some Base) Chain (Some Out)
      = (EFI_SUCCESS, Some (Base @ SuffixPartitionNameId ! Chain))"
    using assms True
    by (auto simp: GetBootChainPartitionName_def name_simps below_two string_functions)
  moreover have "length (Base @ SuffixPartitionNameId ! Chain) < MAX_PARTITION_NAME_LEN"
    using assms(4,5) by (auto simp: name_simps below_two)
  ultimately show ?thesis
    using suffixed_name [OF assms(1)] assms(4-6) True by (auto simp: boot_chain_constants)
next
  case False
  have "GetBootChainPartitionName P L (Some Base) Chain (Some Out)
      = (EFI_SUCCESS, Some (T234PartitionNameId ! Chain @ Base))"
    using assms False
    by (auto simp: GetBootChainPartitionName_def name_simps below_two string_functions)
  moreover have "length (T234PartitionNameId ! Chain @ Base) < MAX_PARTITION_NAME_LEN"
    using assms(4,5) by (auto simp: name_simps below_two)
  ultimately show ?thesis
    using prefixed_name [OF assms(1)] assms(4,5) by (auto simp: boot_chain_constants)
qed

definition examplePlatform :: PLATFORM where
  "examplePlatform = \<lparr> IsSilicon = True, PcdPartitionNamesHaveSuffixes = True,
     PcdGptIsPerBootChain = False, TegraGetChipID = 0x24, HobActiveBootChain = Some 1 \<rparr>"

theorem partition_name_roundtrip_witness:
  "\<exists>Name. GetBootChainPartitionName examplePlatform edk2_strings (Some [0x6d, 0x62, 0x31]) 1 (Some [])
      = (EFI_SUCCESS, Some Name)
    \<and> length Name < MAX_PARTITION_NAME_LEN
    \<and> GetPartitionBaseNameAndBootChainAny edk2_strings (Some Name) (Some []) (Some 0)
        = Some (EFI_SUCCESS, Some [0x6d, 0x62, 0x31], Some 1)"
  by (rule partition_name_roundtrip [OF edk2_strings_documented])
     (simp_all add: examplePlatform_def name_simps)

lemma BaseName_None_iff:
  "GetPartitionBaseNameAndBootChainAny L (Some Name) (Some Out) (Some c) = None
     \<longleftrightarrow> length Name < 2"
proof (cases Name)
  case Nil
  then show ?thesis
    by (simp add: GetPartitionBaseNameAndBootChainAny_def name_simps)
next
  case (Cons a Rest)
  then show ?thesis
    by (cases Rest)
       (auto simp: GetPartitionBaseNameAndBootChainAny_def name_simps Let_def split: option.splits)
qed

text \<open>
  \<open>GetPartitionBaseNameAndBootChainAny\<close> has a result exactly when the name has at least two
  characters: for the empty name and for names of one character the suffix test reads before the
  start of the name.
\<close>

theorem BaseName_needs_two_characters:
  "GetPartitionBaseNameAndBootChainAny L (Some Name) (Some Out) (Some c) = None
     \<longleftrightarrow> length Name < 2"
  by (rule BaseName_None_iff)

end
