(* ===== verification/BootChain.thy ===== *)
theory BootChain
  imports BootChainInfo
begin

text \<open>
  \<open>BootChainDxe.c\<close>: the driver that carries out a requested switch to the other firmware boot chain.
  The request, its progress and its result are UEFI variables that survive the resets of the update.

  The world the driver acts on is a type parameter; the runtime services and the platform calls on
  it are the record \<open>BC_SERVICES\<close>. A reset ends the call: its outcome is the world the next boot
  finds.
\<close>

type_synonym u32 = "32 word"

section \<open>Variables\<close>

datatype BC_VARIABLE_INDEX =
    BC_CURRENT | BC_NEXT | BC_STATUS | BC_PREVIOUS | BC_RESET_COUNT | AUTO_UPDATE_BR_BCT
  | BC_VARIABLE_INDEX_MAX

datatype EFI_GUID = gNVIDIAPublicVariableGuid | gNVIDIATokenSpaceGuid | gEfiGlobalVariableGuid

record BC_VARIABLE =
  Name :: string
  Attributes :: nat
  Bytes :: nat
  Guid :: EFI_GUID

definition EFI_VARIABLE_NON_VOLATILE :: nat where "EFI_VARIABLE_NON_VOLATILE = 1"
definition EFI_VARIABLE_BOOTSERVICE_ACCESS :: nat where "EFI_VARIABLE_BOOTSERVICE_ACCESS = 2"
definition EFI_VARIABLE_RUNTIME_ACCESS :: nat where "EFI_VARIABLE_RUNTIME_ACCESS = 4"

fun mBCVariables :: "BC_VARIABLE_INDEX \<Rightarrow> BC_VARIABLE option" where
  "mBCVariables BC_CURRENT = Some \<lparr> Name = ''BootChainFwCurrent'',
     Attributes = EFI_VARIABLE_BOOTSERVICE_ACCESS + EFI_VARIABLE_RUNTIME_ACCESS,
     Bytes = 4, Guid = gNVIDIAPublicVariableGuid \<rparr>"
| "mBCVariables BC_NEXT = Some \<lparr> Name = ''BootChainFwNext'',
     Attributes = EFI_VARIABLE_BOOTSERVICE_ACCESS + EFI_VARIABLE_RUNTIME_ACCESS
                    + EFI_VARIABLE_NON_VOLATILE,
     Bytes = 4, Guid = gNVIDIAPublicVariableGuid \<rparr>"
| "mBCVariables BC_STATUS = Some \<lparr> Name = ''BootChainFwStatus'',
     Attributes = EFI_VARIABLE_BOOTSERVICE_ACCESS + EFI_VARIABLE_RUNTIME_ACCESS
                    + EFI_VARIABLE_NON_VOLATILE,
     Bytes = 4, Guid = gNVIDIAPublicVariableGuid \<rparr>"
| "mBCVariables BC_PREVIOUS = Some \<lparr> Name = ''BootChainFwPrevious'',
     Attributes = EFI_VARIABLE_BOOTSERVICE_ACCESS + EFI_VARIABLE_NON_VOLATILE,
     Bytes = 4, Guid = gNVIDIATokenSpaceGuid \<rparr>"
| "mBCVariables BC_RESET_COUNT = Some \<lparr> Name = ''BootChainFwResetCount'',
     Attributes = EFI_VARIABLE_BOOTSERVICE_ACCESS + EFI_VARIABLE_NON_VOLATILE,
     Bytes = 4, Guid = gNVIDIATokenSpaceGuid \<rparr>"
| "mBCVariables AUTO_UPDATE_BR_BCT = Some \<lparr> Name = ''AutoUpdateBrBct'',
     Attributes = EFI_VARIABLE_BOOTSERVICE_ACCESS + EFI_VARIABLE_NON_VOLATILE,
     Bytes = 4, Guid = gNVIDIAPublicVariableGuid \<rparr>"
| "mBCVariables BC_VARIABLE_INDEX_MAX = None"

text \<open>
  \<open>GetVariable name guid size old w\<close> gives the status and the content of the caller's \<open>UINT32\<close>
  afterwards, which held \<open>old\<close>; a size of 0 only asks whether the variable exists.
\<close>

record 'w BC_SERVICES =
  GetVariable :: "string \<Rightarrow> EFI_GUID \<Rightarrow> nat \<Rightarrow> u32 \<Rightarrow> 'w \<Rightarrow> EFI_STATUS \<times> u32"
  SetVariable :: "string \<Rightarrow> EFI_GUID \<Rightarrow> nat \<Rightarrow> nat \<Rightarrow> u32 \<Rightarrow> 'w \<Rightarrow> EFI_STATUS \<times> 'w"
  UpdateFwChain :: "u32 \<Rightarrow> 'w \<Rightarrow> EFI_STATUS \<times> 'w"
  BootChainIsFailed :: "u32 \<Rightarrow> 'w \<Rightarrow> bool"
  ValidateActiveBootChain :: "'w \<Rightarrow> 'w"
  ClearUpdateBrBctFlag :: "'w \<Rightarrow> 'w"
  StatusRegReset :: "'w \<Rightarrow> 'w"

record BC_GLOBALS =
  mBootChain :: u32
  mUpdateBrBctFlag :: bool
  mBrBctUpdateProtocol :: bool   \<comment> \<open>whether the protocol has been located\<close>

section \<open>Status codes\<close>

definition BOOT_CHAIN_MAX_RESET_COUNT :: u32 where "BOOT_CHAIN_MAX_RESET_COUNT = 3"
definition STATUS_SUCCESS :: u32 where "STATUS_SUCCESS = 0"
definition STATUS_IN_PROGRESS :: u32 where "STATUS_IN_PROGRESS = 1"
definition STATUS_ERROR_NO_OPERATION_REQUIRED :: u32 where "STATUS_ERROR_NO_OPERATION_REQUIRED = 2"
definition STATUS_ERROR_CANCELED_FOR_FMP_CONFLICT :: u32 where
  "STATUS_ERROR_CANCELED_FOR_FMP_CONFLICT = 3"
definition STATUS_ERROR_READING_STATUS :: u32 where "STATUS_ERROR_READING_STATUS = 4"
definition STATUS_ERROR_MAX_RESET_COUNT :: u32 where "STATUS_ERROR_MAX_RESET_COUNT = 5"
definition STATUS_ERROR_SETTING_RESET_COUNT :: u32 where "STATUS_ERROR_SETTING_RESET_COUNT = 6"
definition STATUS_ERROR_SETTING_IN_PROGRESS :: u32 where "STATUS_ERROR_SETTING_IN_PROGRESS = 7"
definition STATUS_ERROR_BAD_BOOT_CHAIN_NEXT :: u32 where "STATUS_ERROR_BAD_BOOT_CHAIN_NEXT = 9"
definition STATUS_ERROR_READING_NEXT :: u32 where "STATUS_ERROR_READING_NEXT = 10"
definition STATUS_ERROR_UPDATING_FW_CHAIN :: u32 where "STATUS_ERROR_UPDATING_FW_CHAIN = 11"
definition STATUS_ERROR_BOOT_CHAIN_FAILED :: u32 where "STATUS_ERROR_BOOT_CHAIN_FAILED = 12"
definition STATUS_ERROR_READING_RESET_COUNT :: u32 where "STATUS_ERROR_READING_RESET_COUNT = 13"
definition STATUS_ERROR_BOOT_NEXT_EXISTS :: u32 where "STATUS_ERROR_BOOT_NEXT_EXISTS = 14"
definition STATUS_ERROR_UPDATE_BR_BCT_FLAG_SET :: u32 where
  "STATUS_ERROR_UPDATE_BR_BCT_FLAG_SET = 17"
definition STATUS_ERROR_SETTING_PREVIOUS :: u32 where "STATUS_ERROR_SETTING_PREVIOUS = 18"
definition STATUS_ERROR_BOOT_CHAIN_IS_FAILED :: u32 where "STATUS_ERROR_BOOT_CHAIN_IS_FAILED = 19"
definition MAX_UINT32 :: u32 where "MAX_UINT32 = 0xffffffff"

lemmas bc_codes =
  BOOT_CHAIN_MAX_RESET_COUNT_def STATUS_SUCCESS_def STATUS_IN_PROGRESS_def
  STATUS_ERROR_NO_OPERATION_REQUIRED_def STATUS_ERROR_CANCELED_FOR_FMP_CONFLICT_def
  STATUS_ERROR_READING_STATUS_def STATUS_ERROR_MAX_RESET_COUNT_def
  STATUS_ERROR_SETTING_RESET_COUNT_def STATUS_ERROR_SETTING_IN_PROGRESS_def
  STATUS_ERROR_BAD_BOOT_CHAIN_NEXT_def STATUS_ERROR_READING_NEXT_def
  STATUS_ERROR_UPDATING_FW_CHAIN_def STATUS_ERROR_BOOT_CHAIN_FAILED_def
  STATUS_ERROR_READING_RESET_COUNT_def STATUS_ERROR_BOOT_NEXT_EXISTS_def
  STATUS_ERROR_UPDATE_BR_BCT_FLAG_SET_def STATUS_ERROR_SETTING_PREVIOUS_def
  STATUS_ERROR_BOOT_CHAIN_IS_FAILED_def MAX_UINT32_def BOOT_CHAIN_COUNT_def

section \<open>Operations\<close>

definition BCDeleteVariable ::
  "'w BC_SERVICES \<Rightarrow> BC_VARIABLE_INDEX \<Rightarrow> 'w \<Rightarrow> EFI_STATUS \<times> 'w" where
  "BCDeleteVariable S VariableIndex w =
     (case mBCVariables VariableIndex of
        None \<Rightarrow> (EFI_INVALID_PARAMETER, w)
      | Some V \<Rightarrow> SetVariable S (Name V) (Guid V) (Attributes V) 0 0 w)"

definition BCGetVariable ::
  "'w BC_SERVICES \<Rightarrow> BC_VARIABLE_INDEX \<Rightarrow> u32 \<Rightarrow> 'w \<Rightarrow> EFI_STATUS \<times> u32" where
  "BCGetVariable S VariableIndex old w =
     (case mBCVariables VariableIndex of
        None \<Rightarrow> (EFI_INVALID_PARAMETER, old)
      | Some V \<Rightarrow> GetVariable S (Name V) (Guid V) (Bytes V) 0 w)"

definition BCSetVariable ::
  "'w BC_SERVICES \<Rightarrow> BC_VARIABLE_INDEX \<Rightarrow> u32 \<Rightarrow> 'w \<Rightarrow> EFI_STATUS \<times> 'w" where
  "BCSetVariable S VariableIndex Val w =
     (case mBCVariables VariableIndex of
        None \<Rightarrow> (EFI_INVALID_PARAMETER, w)
      | Some V \<Rightarrow> SetVariable S (Name V) (Guid V) (Attributes V) (Bytes V) Val w)"

definition BrBctUpdateNeeded :: "'w BC_SERVICES \<Rightarrow> BC_GLOBALS \<Rightarrow> 'w \<Rightarrow> bool" where
  "BrBctUpdateNeeded S G w =
     (let (Status, Val) = BCGetVariable S AUTO_UPDATE_BR_BCT 0 w in
      if EFI_ERROR Status then False else Val = 1 \<and> mUpdateBrBctFlag G)"

text \<open>How a call ends: with a value, or by resetting the machine.\<close>

datatype ('a, 'w) BC_OUTCOME = Returned 'a 'w | MachineReset 'w

definition BootChainReset :: "'w BC_SERVICES \<Rightarrow> u32 \<Rightarrow> 'w \<Rightarrow> ('a, 'w) BC_OUTCOME" where
  "BootChainReset S BootChain w = MachineReset (StatusRegReset S w)"

definition BootChainCheckAndCancelUpdate ::
  "'w BC_SERVICES \<Rightarrow> bool \<Rightarrow> bool option \<Rightarrow> 'w \<Rightarrow> EFI_STATUS \<times> bool option \<times> 'w" where
  "BootChainCheckAndCancelUpdate S ThisOk Canceled w =
     (if \<not> ThisOk \<or> Canceled = None then (EFI_INVALID_PARAMETER, Canceled, w)
      else
        let (Status, BCNext) = BCGetVariable S BC_NEXT 0 w;
            (Canceled1, w1) = (if Status \<noteq> EFI_NOT_FOUND then (True, snd (BCDeleteVariable S BC_NEXT w))
                               else (False, w));
            (Status2, BCStatus) = BCGetVariable S BC_STATUS 0 w1;
            Canceled2 = (Status2 \<noteq> EFI_NOT_FOUND \<or> Canceled1);
            w2 = (if Canceled2
                  then snd (BCSetVariable S BC_STATUS STATUS_ERROR_CANCELED_FOR_FMP_CONFLICT w1)
                  else w1)
        in (EFI_SUCCESS, Some Canceled2, w2))"

definition BootChainReadyToBootNotify :: "'w BC_SERVICES \<Rightarrow> 'w \<Rightarrow> 'w" where
  "BootChainReadyToBootNotify S w = ValidateActiveBootChain S w"

text \<open>The jump targets of \<open>BootChainExecuteUpdate\<close>, with \<open>BCStatus\<close> at the jump.\<close>

datatype BC_LABEL = SetStatusAndBootOs u32 | FinishUpdateAndBootOs u32 | BootOs u32

definition BootChainFinishUpdate ::
  "'w BC_SERVICES \<Rightarrow> BC_GLOBALS \<Rightarrow> u32 \<Rightarrow> 'w \<Rightarrow> (unit, 'w) BC_OUTCOME" where
  "BootChainFinishUpdate S G BCStatus w =
     (let (Status, BCPrevious) = BCGetVariable S BC_PREVIOUS 0 w;
          RebootOriginalBootChain =
            (BCStatus \<noteq> STATUS_SUCCESS \<and> \<not> EFI_ERROR Status \<and> mBootChain G \<noteq> BCPrevious);
          w1 = snd (BCDeleteVariable S BC_PREVIOUS w);
          w2 = snd (BCDeleteVariable S BC_NEXT w1);
          w3 = snd (BCDeleteVariable S BC_RESET_COUNT w2)
      in if RebootOriginalBootChain then
           let (Status, w4) = UpdateFwChain S BCPrevious w3 in
           if EFI_ERROR Status then Returned () w4
           else BootChainReset S BCPrevious w4
         else Returned () w3)"

text \<open>
  The first half of \<open>BootChainExecuteUpdate\<close>: what the variables ask for. \<open>Inl\<close> is a jump,
  with the variables as they are then; \<open>Inr BCNext\<close> goes on to a new update.
\<close>

definition ExecuteUpdateRequest ::
  "'w BC_SERVICES \<Rightarrow> BC_GLOBALS \<Rightarrow> 'w \<Rightarrow> (BC_LABEL \<times> 'w) + u32" where
  "ExecuteUpdateRequest S G w =
     (let (Status, BCNext) = BCGetVariable S BC_NEXT 0 w in
      if Status = EFI_NOT_FOUND then Inl (BootOs MAX_UINT32, w)
      else if EFI_ERROR Status then Inl (SetStatusAndBootOs STATUS_ERROR_READING_NEXT, w)
      else
        let (Status, BCStatus) = BCGetVariable S BC_STATUS MAX_UINT32 w in
        if EFI_ERROR Status \<and> Status \<noteq> EFI_NOT_FOUND
        then Inl (SetStatusAndBootOs STATUS_ERROR_READING_STATUS, w)
        else if Status = EFI_NOT_FOUND then
          if unat BCNext \<ge> BOOT_CHAIN_COUNT
          then Inl (SetStatusAndBootOs STATUS_ERROR_BAD_BOOT_CHAIN_NEXT, w)
          else if fst (GetVariable S ''BootNext'' gEfiGlobalVariableGuid 0 0 w) \<noteq> EFI_NOT_FOUND
          then Inl (SetStatusAndBootOs STATUS_ERROR_BOOT_NEXT_EXISTS, w)
          else Inr BCNext
        else if BCStatus = STATUS_IN_PROGRESS then
          if mBootChain G = BCNext
          then Inl (FinishUpdateAndBootOs STATUS_SUCCESS, snd (BCSetVariable S BC_STATUS STATUS_SUCCESS w))
          else Inl (SetStatusAndBootOs STATUS_ERROR_BOOT_CHAIN_FAILED, w)
        else Inl (FinishUpdateAndBootOs BCStatus, w))"

text \<open>The second half: check and start a new update. \<open>Inr w\<close> is the reset into the new chain.\<close>

definition ExecuteUpdateStart ::
  "'w BC_SERVICES \<Rightarrow> BC_GLOBALS \<Rightarrow> u32 \<Rightarrow> 'w \<Rightarrow> (BC_LABEL \<times> 'w) + 'w" where
  "ExecuteUpdateStart S G BCNext w =
     (if BCNext = mBootChain G then Inl (SetStatusAndBootOs STATUS_ERROR_NO_OPERATION_REQUIRED, w)
      else if mUpdateBrBctFlag G then Inl (SetStatusAndBootOs STATUS_ERROR_UPDATE_BR_BCT_FLAG_SET, w)
      else if BootChainIsFailed S BCNext w
      then Inl (SetStatusAndBootOs STATUS_ERROR_BOOT_CHAIN_IS_FAILED, w)
      else
        let (Status, w1) = BCSetVariable S BC_PREVIOUS (mBootChain G) w in
        if EFI_ERROR Status then Inl (SetStatusAndBootOs STATUS_ERROR_SETTING_PREVIOUS, w1)
        else
          let (Status, w2) = BCSetVariable S BC_STATUS STATUS_IN_PROGRESS w1 in
          if EFI_ERROR Status then Inl (SetStatusAndBootOs STATUS_ERROR_SETTING_IN_PROGRESS, w2)
          else
            let (Status, Count) = BCGetVariable S BC_RESET_COUNT 0 w2 in
            if EFI_ERROR Status \<and> Status \<noteq> EFI_NOT_FOUND
            then Inl (SetStatusAndBootOs STATUS_ERROR_READING_RESET_COUNT, w2)
            else
              let BCResetCount = (if Status = EFI_NOT_FOUND then 0 else Count) in
              if BCResetCount \<ge> BOOT_CHAIN_MAX_RESET_COUNT
              then Inl (SetStatusAndBootOs STATUS_ERROR_MAX_RESET_COUNT, w2)
              else
                let (Status, w3) = BCSetVariable S BC_RESET_COUNT (BCResetCount + 1) w2 in
                if EFI_ERROR Status then Inl (SetStatusAndBootOs STATUS_ERROR_SETTING_RESET_COUNT, w3)
                else
                  let (Status, w5) = UpdateFwChain S BCNext (ValidateActiveBootChain S w3) in
                  if EFI_ERROR Status then Inl (SetStatusAndBootOs STATUS_ERROR_UPDATING_FW_CHAIN, w5)
                  else Inr w5)"

text \<open>The code behind the label \<open>BootOs\<close>, and the fall-through from the labels before it.\<close>

definition ExecuteUpdateBootOs ::
  "'w BC_SERVICES \<Rightarrow> BC_GLOBALS \<Rightarrow> u32 \<Rightarrow> 'w \<Rightarrow> (EFI_STATUS, 'w) BC_OUTCOME" where
  "ExecuteUpdateBootOs S G BCStatus w =
     (if BCStatus = MAX_UINT32 \<and> BrBctUpdateNeeded S G w
      then Returned EFI_SUCCESS (ClearUpdateBrBctFlag S (snd (UpdateFwChain S (mBootChain G) w)))
      else Returned EFI_SUCCESS w)"

definition ExecuteUpdateFinish ::
  "'w BC_SERVICES \<Rightarrow> BC_GLOBALS \<Rightarrow> u32 \<Rightarrow> 'w \<Rightarrow> (EFI_STATUS, 'w) BC_OUTCOME" where
  "ExecuteUpdateFinish S G BCStatus w =
     (case BootChainFinishUpdate S G BCStatus w of
        Returned _ w' \<Rightarrow> ExecuteUpdateBootOs S G BCStatus w'
      | MachineReset w' \<Rightarrow> MachineReset w')"

definition ExecuteUpdateLabel ::
  "'w BC_SERVICES \<Rightarrow> BC_GLOBALS \<Rightarrow> BC_LABEL \<Rightarrow> 'w \<Rightarrow> (EFI_STATUS, 'w) BC_OUTCOME" where
  "ExecuteUpdateLabel S G label w =
     (case label of
        SetStatusAndBootOs BCStatus \<Rightarrow>
          ExecuteUpdateFinish S G BCStatus (snd (BCSetVariable S BC_STATUS BCStatus w))
      | FinishUpdateAndBootOs BCStatus \<Rightarrow> ExecuteUpdateFinish S G BCStatus w
      | BootOs BCStatus \<Rightarrow> ExecuteUpdateBootOs S G BCStatus w)"

definition BootChainExecuteUpdate ::
  "'w BC_SERVICES \<Rightarrow> BC_GLOBALS \<Rightarrow> bool \<Rightarrow> 'w \<Rightarrow> (EFI_STATUS, 'w) BC_OUTCOME" where
  "BootChainExecuteUpdate S G ThisOk w =
     (if \<not> ThisOk then Returned EFI_INVALID_PARAMETER w
      else if \<not> mBrBctUpdateProtocol G then Returned EFI_NOT_READY w
      else case ExecuteUpdateRequest S G w of
        Inl (label, w') \<Rightarrow> ExecuteUpdateLabel S G label w'
      | Inr BCNext \<Rightarrow>
          (case ExecuteUpdateStart S G BCNext w of
             Inl (label, w') \<Rightarrow> ExecuteUpdateLabel S G label w'
           | Inr w' \<Rightarrow> BootChainReset S BCNext w'))"

text \<open>
  Event handlers and the entry point; the statuses of the boot services are arguments, and so is
  whether \<open>LocateProtocol\<close> stored an interface. The callback's first result is whether it closes
  its event.
\<close>

definition BrBctProtocolCallback :: "EFI_STATUS \<times> bool \<Rightarrow> BC_GLOBALS \<Rightarrow> bool \<times> BC_GLOBALS" where
  "BrBctProtocolCallback located G =
     (let (LocateStatus, Interface) = located
      in (\<not> EFI_ERROR LocateStatus, G\<lparr>mBrBctUpdateProtocol := Interface\<rparr>))"

record BOOT_CHAIN_PROTOCOL =
  ActiveBootChain :: u32

definition BootChainDxeInitialize ::
  "'w BC_SERVICES \<Rightarrow> (u32 \<times> bool) option \<Rightarrow> EFI_STATUS \<Rightarrow> EFI_STATUS \<Rightarrow> BC_GLOBALS \<Rightarrow> 'w
   \<Rightarrow> EFI_STATUS \<times> BC_GLOBALS \<times> BOOT_CHAIN_PROTOCOL option \<times> 'w" where
  "BootChainDxeInitialize S ResourceInfo CreateEventStatus InstallStatus G w =
     (case ResourceInfo of
        None \<Rightarrow> (EFI_UNSUPPORTED, G, None, w)
      | Some (Active, Flag) \<Rightarrow>
          let G1 = G\<lparr>mBootChain := Active, mUpdateBrBctFlag := Flag\<rparr>;
              w1 = snd (BCSetVariable S BC_CURRENT Active w)
          in if EFI_ERROR CreateEventStatus then (CreateEventStatus, G1, None, w1)
             else if EFI_ERROR InstallStatus then (EFI_SUCCESS, G1, None, w1)
             else (EFI_SUCCESS, G1, Some \<lparr>ActiveBootChain = Active\<rparr>, w1))"

end
