(* ===== verification/BootChainProps.thy ===== *)
theory BootChainProps
  imports BootChain
begin

text \<open>
  What the boot chain driver guarantees when the variable services behave as documented: a
  request is answered once, a failed switch is rolled back, and an update ends after at most two
  resets.
\<close>

section \<open>Documented variable services\<close>

text \<open>
  \<open>view w\<close> is the content of the variable store of world \<open>w\<close>. The platform calls leave it alone.
\<close>

type_synonym store = "string \<times> EFI_GUID \<Rightarrow> u32 option"

definition reliable :: "'w BC_SERVICES \<Rightarrow> ('w \<Rightarrow> store) \<Rightarrow> bool" where
  "reliable S view \<longleftrightarrow>
     (\<forall>n g old w. GetVariable S n g 4 old w
        = (case view w (n, g) of None \<Rightarrow> (EFI_NOT_FOUND, old) | Some v \<Rightarrow> (EFI_SUCCESS, v)))
   \<and> (\<forall>n g old w. GetVariable S n g 0 old w
        = (if view w (n, g) = None then EFI_NOT_FOUND else EFI_BUFFER_TOO_SMALL, old))
   \<and> (\<forall>n g a v w. fst (SetVariable S n g a 4 v w) = EFI_SUCCESS
        \<and> view (snd (SetVariable S n g a 4 v w)) = (view w)((n, g) \<mapsto> v))
   \<and> (\<forall>n g a v w. view (snd (SetVariable S n g a 0 v w)) = (view w)((n, g) := None))
   \<and> (\<forall>c w. view (snd (UpdateFwChain S c w)) = view w)
   \<and> (\<forall>w. view (ValidateActiveBootChain S w) = view w)
   \<and> (\<forall>w. view (ClearUpdateBrBctFlag S w) = view w)
   \<and> (\<forall>w. view (StatusRegReset S w) = view w)"

definition vars :: "('w \<Rightarrow> store) \<Rightarrow> 'w \<Rightarrow> BC_VARIABLE_INDEX \<Rightarrow> u32 option" where
  "vars view w i = (case mBCVariables i of None \<Rightarrow> None | Some V \<Rightarrow> view w (Name V, Guid V))"

lemma mBCVariables_key:
  assumes "mBCVariables i = Some V" and "mBCVariables j = Some W"
    and "Name V = Name W" and "Guid V = Guid W"
  shows "i = j"
  using assms by (cases i; cases j) auto

lemma mBCVariables_defined: "i \<noteq> BC_VARIABLE_INDEX_MAX \<Longrightarrow> \<exists>V. mBCVariables i = Some V \<and> Bytes V = 4"
  by (cases i) simp_all

named_theorems bc_simps \<open>the variable operations on a reliable store\<close>

lemma BCGet_reliable [bc_simps]:
  assumes "reliable S view" and "i \<noteq> BC_VARIABLE_INDEX_MAX"
  shows "BCGetVariable S i old w
    = (case vars view w i of None \<Rightarrow> (EFI_NOT_FOUND, 0) | Some v \<Rightarrow> (EFI_SUCCESS, v))"
  using assms mBCVariables_defined [OF assms(2)]
  by (auto simp: BCGetVariable_def vars_def reliable_def)

lemma BCSet_reliable [bc_simps]:
  assumes "reliable S view" and "i \<noteq> BC_VARIABLE_INDEX_MAX"
  shows "fst (BCSetVariable S i v w) = EFI_SUCCESS"
    and "vars view (snd (BCSetVariable S i v w)) = (vars view w)(i \<mapsto> v)"
  using assms mBCVariables_defined [OF assms(2)]
  by (auto simp: BCSetVariable_def vars_def reliable_def fun_eq_iff dest: mBCVariables_key
      split: option.splits)

lemma BCDelete_reliable [bc_simps]:
  assumes "reliable S view" and "i \<noteq> BC_VARIABLE_INDEX_MAX"
  shows "vars view (snd (BCDeleteVariable S i w)) = (vars view w)(i := None)"
  using assms mBCVariables_defined [OF assms(2)]
  by (auto simp: BCDeleteVariable_def vars_def reliable_def fun_eq_iff dest: mBCVariables_key
      split: option.splits)

lemma platform_reliable [bc_simps]:
  assumes "reliable S view"
  shows "vars view (snd (UpdateFwChain S c w)) = vars view w"
    and "vars view (ValidateActiveBootChain S w) = vars view w"
    and "vars view (ClearUpdateBrBctFlag S w) = vars view w"
    and "vars view (StatusRegReset S w) = vars view w"
  using assms by (simp_all add: reliable_def vars_def fun_eq_iff split: option.splits)

lemma BootNext_reliable [bc_simps]:
  assumes "reliable S view"
  shows "fst (GetVariable S n g 0 old w) \<noteq> EFI_NOT_FOUND \<longleftrightarrow> view w (n, g) \<noteq> None"
  using assms by (simp add: reliable_def)

text \<open>A reliable set always succeeds, so the code after it is the next step.\<close>

lemma BCSet_pair:
  assumes "reliable S view" and "i \<noteq> BC_VARIABLE_INDEX_MAX"
  shows "\<exists>w'. BCSetVariable S i v w = (EFI_SUCCESS, w') \<and> vars view w' = (vars view w)(i \<mapsto> v)"
  using BCSet_reliable [OF assms, of v w] by (cases "BCSetVariable S i v w") auto

section \<open>What each part of the driver leaves in the variables\<close>

fun outcome_world :: "('a, 'w) BC_OUTCOME \<Rightarrow> 'w" where
  "outcome_world (Returned a w) = w"
| "outcome_world (MachineReset w) = w"

definition cleared :: "(BC_VARIABLE_INDEX \<Rightarrow> u32 option) \<Rightarrow> BC_VARIABLE_INDEX \<Rightarrow> u32 option" where
  "cleared m = m(BC_PREVIOUS := None, BC_NEXT := None, BC_RESET_COUNT := None)"

lemma cleared_simps [simp]:
  "cleared m BC_NEXT = None" "cleared m BC_PREVIOUS = None" "cleared m BC_RESET_COUNT = None"
  "cleared m BC_STATUS = m BC_STATUS" "cleared m BC_CURRENT = m BC_CURRENT"
  "cleared m AUTO_UPDATE_BR_BCT = m AUTO_UPDATE_BR_BCT"
  by (simp_all add: cleared_def)

lemma FinishUpdate_vars:
  assumes "reliable S view"
  shows "vars view (outcome_world (BootChainFinishUpdate S G s w)) = cleared (vars view w)"
  using assms
  by (simp add: BootChainFinishUpdate_def BootChainReset_def Let_def case_prod_unfold bc_simps
      cleared_def)

lemma BootOs_returns: "\<exists>w'. ExecuteUpdateBootOs S G s w = Returned EFI_SUCCESS w'"
  by (simp add: ExecuteUpdateBootOs_def)

lemma BootOs_vars:
  assumes "reliable S view"
  shows "vars view (outcome_world (ExecuteUpdateBootOs S G s w)) = vars view w"
  using assms by (simp add: ExecuteUpdateBootOs_def bc_simps)

lemma Finish_vars:
  assumes "reliable S view"
  shows "vars view (outcome_world (ExecuteUpdateFinish S G s w)) = cleared (vars view w)"
  using FinishUpdate_vars [OF assms, of G s w] BootOs_vars [OF assms, of G s]
  by (auto simp: ExecuteUpdateFinish_def split: BC_OUTCOME.splits)

text \<open>The status a jump reports; jumps to \<open>BootOs\<close> report none.\<close>

fun label_vars :: "BC_LABEL \<Rightarrow> (BC_VARIABLE_INDEX \<Rightarrow> u32 option) \<Rightarrow> BC_VARIABLE_INDEX \<Rightarrow> u32 option" where
  "label_vars (SetStatusAndBootOs s) m = cleared (m(BC_STATUS \<mapsto> s))"
| "label_vars (FinishUpdateAndBootOs s) m = cleared m"
| "label_vars (BootOs s) m = m"

lemma Label_vars:
  assumes "reliable S view"
  shows "vars view (outcome_world (ExecuteUpdateLabel S G l w)) = label_vars l (vars view w)"
  using assms by (cases l) (simp_all add: ExecuteUpdateLabel_def Finish_vars BootOs_vars bc_simps)

text \<open>The two halves, on the variables.\<close>

lemma Request_cases:
  assumes "reliable S view"
  shows "ExecuteUpdateRequest S G w = (case vars view w BC_NEXT of
      None \<Rightarrow> Inl (BootOs MAX_UINT32, w)
    | Some c \<Rightarrow> (case vars view w BC_STATUS of
        None \<Rightarrow> if unat c \<ge> BOOT_CHAIN_COUNT
                then Inl (SetStatusAndBootOs STATUS_ERROR_BAD_BOOT_CHAIN_NEXT, w)
                else if view w (''BootNext'', gEfiGlobalVariableGuid) \<noteq> None
                then Inl (SetStatusAndBootOs STATUS_ERROR_BOOT_NEXT_EXISTS, w)
                else Inr c
      | Some s \<Rightarrow> if s = STATUS_IN_PROGRESS then
                    if mBootChain G = c
                    then Inl (FinishUpdateAndBootOs STATUS_SUCCESS,
                              snd (BCSetVariable S BC_STATUS STATUS_SUCCESS w))
                    else Inl (SetStatusAndBootOs STATUS_ERROR_BOOT_CHAIN_FAILED, w)
                  else Inl (FinishUpdateAndBootOs s, w)))"
  using assms
  by (simp add: ExecuteUpdateRequest_def bc_simps Let_def case_prod_unfold split: option.splits)

lemma Start_label:
  assumes "reliable S view" and "ExecuteUpdateStart S G c w = Inl (l, w')"
  shows "\<exists>s. l = SetStatusAndBootOs s \<and> s \<noteq> STATUS_IN_PROGRESS \<and> s \<noteq> STATUS_SUCCESS
    \<and> vars view w' BC_CURRENT = vars view w BC_CURRENT
    \<and> vars view w' AUTO_UPDATE_BR_BCT = vars view w AUTO_UPDATE_BR_BCT"
  using assms
  by (auto simp: ExecuteUpdateStart_def bc_simps bc_codes Let_def case_prod_unfold
      split: if_splits option.splits)

definition reset_count :: "(BC_VARIABLE_INDEX \<Rightarrow> u32 option) \<Rightarrow> u32" where
  "reset_count m = (case m BC_RESET_COUNT of None \<Rightarrow> 0 | Some n \<Rightarrow> n)"

definition started :: "u32 \<Rightarrow> (BC_VARIABLE_INDEX \<Rightarrow> u32 option) \<Rightarrow> BC_VARIABLE_INDEX \<Rightarrow> u32 option" where
  "started chain m = m(BC_PREVIOUS \<mapsto> chain, BC_STATUS \<mapsto> STATUS_IN_PROGRESS,
     BC_RESET_COUNT \<mapsto> reset_count m + 1)"

lemma Start_new:
  assumes "reliable S view"
    and "c \<noteq> mBootChain G" and "\<not> mUpdateBrBctFlag G" and "\<not> BootChainIsFailed S c w"
    and "reset_count (vars view w) < BOOT_CHAIN_MAX_RESET_COUNT"
  shows "\<exists>w3. vars view w3 = started (mBootChain G) (vars view w)
    \<and> ExecuteUpdateStart S G c w =
        (let (Status, w5) = UpdateFwChain S c (ValidateActiveBootChain S w3) in
         if EFI_ERROR Status then Inl (SetStatusAndBootOs STATUS_ERROR_UPDATING_FW_CHAIN, w5)
         else Inr w5)"
proof -
  obtain w1 where w1: "BCSetVariable S BC_PREVIOUS (mBootChain G) w = (EFI_SUCCESS, w1)"
    "vars view w1 = (vars view w)(BC_PREVIOUS \<mapsto> mBootChain G)"
    using BCSet_pair [OF assms(1), of BC_PREVIOUS "mBootChain G" w] by auto
  obtain w2 where w2: "BCSetVariable S BC_STATUS STATUS_IN_PROGRESS w1 = (EFI_SUCCESS, w2)"
    "vars view w2 = (vars view w1)(BC_STATUS \<mapsto> STATUS_IN_PROGRESS)"
    using BCSet_pair [OF assms(1), of BC_STATUS STATUS_IN_PROGRESS w1] by auto
  obtain w3 where w3: "BCSetVariable S BC_RESET_COUNT (reset_count (vars view w) + 1) w2
      = (EFI_SUCCESS, w3)"
    "vars view w3 = (vars view w2)(BC_RESET_COUNT \<mapsto> reset_count (vars view w) + 1)"
    using BCSet_pair [OF assms(1), of BC_RESET_COUNT "reset_count (vars view w) + 1" w2] by auto
  have count: "BCGetVariable S BC_RESET_COUNT 0 w2 =
      (if vars view w BC_RESET_COUNT = None then EFI_NOT_FOUND else EFI_SUCCESS,
       reset_count (vars view w))"
    using assms(1) w1 w2 by (auto simp: bc_simps reset_count_def split: option.splits)
  have "vars view w3 = started (mBootChain G) (vars view w)"
    using w1 w2 w3 by (simp add: started_def)
  moreover have "ExecuteUpdateStart S G c w =
        (let (Status, w5) = UpdateFwChain S c (ValidateActiveBootChain S w3) in
         if EFI_ERROR Status then Inl (SetStatusAndBootOs STATUS_ERROR_UPDATING_FW_CHAIN, w5)
         else Inr w5)"
    using assms w1 w2 w3 count
    by (auto simp: ExecuteUpdateStart_def reset_count_def not_le split: option.splits)
  ultimately show ?thesis by blast
qed

section \<open>The whole call\<close>

lemma Start_reset:
  assumes "reliable S view" and "ExecuteUpdateStart S G c w = Inr w'"
  shows "c \<noteq> mBootChain G \<and> reset_count (vars view w) < BOOT_CHAIN_MAX_RESET_COUNT
    \<and> vars view w' = started (mBootChain G) (vars view w)"
proof -
  have neq: "c \<noteq> mBootChain G" "\<not> mUpdateBrBctFlag G" "\<not> BootChainIsFailed S c w"
    using assms(2) by (auto simp: ExecuteUpdateStart_def split: if_splits)
  have count: "reset_count (vars view w) < BOOT_CHAIN_MAX_RESET_COUNT"
    using assms
    by (auto simp: ExecuteUpdateStart_def reset_count_def bc_simps Let_def case_prod_unfold not_le
        split: if_splits option.splits)
  obtain w3 where "vars view w3 = started (mBootChain G) (vars view w)"
    and "ExecuteUpdateStart S G c w =
        (let (Status, w5) = UpdateFwChain S c (ValidateActiveBootChain S w3) in
         if EFI_ERROR Status then Inl (SetStatusAndBootOs STATUS_ERROR_UPDATING_FW_CHAIN, w5)
         else Inr w5)"
    using Start_new [OF assms(1) neq count] by blast
  with assms neq count show ?thesis
    by (auto simp: Let_def case_prod_unfold bc_simps split: if_splits)
qed

text \<open>
  Every call with a located protocol is one of four: no request; the reset into the new chain;
  and the two ways of answering a request, with and without a reset back to the previous chain.
\<close>

definition answered ::
  "(BC_VARIABLE_INDEX \<Rightarrow> u32 option) \<Rightarrow> (BC_VARIABLE_INDEX \<Rightarrow> u32 option) \<Rightarrow> bool" where
  "answered m m' \<longleftrightarrow> m' BC_NEXT = None \<and> m' BC_PREVIOUS = None \<and> m' BC_RESET_COUNT = None
     \<and> m' BC_STATUS \<noteq> None \<and> m' BC_STATUS \<noteq> Some STATUS_IN_PROGRESS
     \<and> m' BC_CURRENT = m BC_CURRENT \<and> m' AUTO_UPDATE_BR_BCT = m AUTO_UPDATE_BR_BCT"

lemma no_request:
  assumes "reliable S view" and "vars view w BC_NEXT = None"
  shows "\<exists>s w'. BootChainExecuteUpdate S G ThisOk w = Returned s w' \<and> vars view w' = vars view w"
proof -
  obtain w' where "ExecuteUpdateBootOs S G MAX_UINT32 w = Returned EFI_SUCCESS w'"
    using BootOs_returns [of S G MAX_UINT32 w] by blast
  with BootOs_vars [OF assms(1), of G MAX_UINT32 w] show ?thesis
    using assms
    by (simp add: BootChainExecuteUpdate_def Request_cases ExecuteUpdateLabel_def)
qed

lemma request_outcome:
  assumes "reliable S view" and "mBrBctUpdateProtocol G" and "vars view w BC_NEXT = Some c"
  shows "answered (vars view w) (vars view (outcome_world (BootChainExecuteUpdate S G True w)))
    \<or> (vars view w BC_STATUS = None \<and> c \<noteq> mBootChain G
       \<and> reset_count (vars view w) < BOOT_CHAIN_MAX_RESET_COUNT
       \<and> (\<exists>w'. BootChainExecuteUpdate S G True w = MachineReset w'
            \<and> vars view w' = started (mBootChain G) (vars view w)))"
proof (cases "ExecuteUpdateRequest S G w")
  case (Inl j)
  obtain l w' where j: "j = (l, w')" by (cases j)
  have "answered (vars view w) (label_vars l (vars view w'))"
    using Inl j assms
    by (auto simp: Request_cases answered_def bc_codes bc_simps split: option.splits if_splits)
  then show ?thesis
    using Inl j assms(2) Label_vars [OF assms(1), of G l w'] by (simp add: BootChainExecuteUpdate_def)
next
  case (Inr c')
  then have c': "c' = c" "vars view w BC_STATUS = None"
    using assms by (auto simp: Request_cases split: option.splits if_splits)
  show ?thesis
  proof (cases "ExecuteUpdateStart S G c w")
    case Start: (Inl j)
    obtain l w' where j: "j = (l, w')" by (cases j)
    obtain s where "l = SetStatusAndBootOs s" "s \<noteq> STATUS_IN_PROGRESS"
      "vars view w' BC_CURRENT = vars view w BC_CURRENT"
      "vars view w' AUTO_UPDATE_BR_BCT = vars view w AUTO_UPDATE_BR_BCT"
      using Start_label [OF assms(1) Start [unfolded j]] by blast
    then have "answered (vars view w) (label_vars l (vars view w'))"
      by (simp add: answered_def)
    then show ?thesis
      using Inr Start j c' assms(2) Label_vars [OF assms(1), of G l w']
      by (simp add: BootChainExecuteUpdate_def)
  next
    case Start: (Inr w')
    with Start_reset [OF assms(1) Start] c' Inr assms(1,2) show ?thesis
      by (simp add: BootChainExecuteUpdate_def BootChainReset_def bc_simps)
  qed
qed

section \<open>Failing variable services\<close>

text \<open>
  Reads and writes of the four byte variables may fail at any time with any other error than \<open>EFI_NOT_FOUND\<close>: a read that
  reports success or that the variable does not exist is right, and a write that fails changes nothing. A deletion works.
\<close>

definition fallible :: "'w BC_SERVICES \<Rightarrow> ('w \<Rightarrow> store) \<Rightarrow> bool" where
  "fallible S view \<longleftrightarrow>
     (\<forall>n g old w. (fst (GetVariable S n g 4 old w) = EFI_NOT_FOUND \<longrightarrow> view w (n, g) = None)
        \<and> (fst (GetVariable S n g 4 old w) = EFI_SUCCESS \<longrightarrow> view w (n, g) = Some (snd (GetVariable S n g 4 old w))))
   \<and> (\<forall>n g a v w. view (snd (SetVariable S n g a 4 v w))
        = (if fst (SetVariable S n g a 4 v w) = EFI_SUCCESS then (view w)((n, g) \<mapsto> v) else view w))
   \<and> (\<forall>n g a v w. view (snd (SetVariable S n g a 0 v w)) = (view w)((n, g) := None))
   \<and> (\<forall>c w. view (snd (UpdateFwChain S c w)) = view w)
   \<and> (\<forall>w. view (ValidateActiveBootChain S w) = view w)
   \<and> (\<forall>w. view (ClearUpdateBrBctFlag S w) = view w)
   \<and> (\<forall>w. view (StatusRegReset S w) = view w)"

lemma reliable_fallible: "reliable S view \<Longrightarrow> fallible S view"
  by (auto simp: reliable_def fallible_def split: option.splits)

lemma BCGet_fallible:
  assumes "fallible S view" and "i \<noteq> BC_VARIABLE_INDEX_MAX" and "BCGetVariable S i old w = (st, v)"
  shows "(st = EFI_NOT_FOUND \<longrightarrow> vars view w i = None) \<and> (st = EFI_SUCCESS \<longrightarrow> vars view w i = Some v)"
proof -
  obtain V where V: "mBCVariables i = Some V" "Bytes V = 4" using mBCVariables_defined [OF assms(2)] by blast
  with assms(3) have "GetVariable S (Name V) (Guid V) 4 0 w = (st, v)" by (simp add: BCGetVariable_def)
  with assms(1) have "(st = EFI_NOT_FOUND \<longrightarrow> view w (Name V, Guid V) = None)
      \<and> (st = EFI_SUCCESS \<longrightarrow> view w (Name V, Guid V) = Some v)"
    unfolding fallible_def by (metis fst_conv snd_conv)
  with V show ?thesis by (simp add: vars_def)
qed

lemma BCSet_fallible:
  assumes "fallible S view" and "i \<noteq> BC_VARIABLE_INDEX_MAX" and "BCSetVariable S i v w = (st, w')"
  shows "vars view w' = (if st = EFI_SUCCESS then (vars view w)(i \<mapsto> v) else vars view w)"
proof -
  obtain V where V: "mBCVariables i = Some V" "Bytes V = 4" using mBCVariables_defined [OF assms(2)] by blast
  with assms(3) have "SetVariable S (Name V) (Guid V) (Attributes V) 4 v w = (st, w')" by (simp add: BCSetVariable_def)
  with assms(1) have "view w' = (if st = EFI_SUCCESS then (view w)((Name V, Guid V) \<mapsto> v) else view w)"
    unfolding fallible_def by (metis fst_conv snd_conv)
  with V show ?thesis
    by (auto simp: vars_def fun_eq_iff dest: mBCVariables_key split: option.splits)
qed

lemma BCDelete_fallible:
  assumes "fallible S view" and "i \<noteq> BC_VARIABLE_INDEX_MAX"
  shows "vars view (snd (BCDeleteVariable S i w)) = (vars view w)(i := None)"
  using assms mBCVariables_defined [OF assms(2)]
  by (auto simp: BCDeleteVariable_def vars_def fallible_def fun_eq_iff dest: mBCVariables_key
      split: option.splits)

lemma platform_fallible:
  assumes "fallible S view"
  shows "vars view (snd (UpdateFwChain S c w)) = vars view w"
    and "vars view (ValidateActiveBootChain S w) = vars view w"
    and "vars view (ClearUpdateBrBctFlag S w) = vars view w"
    and "vars view (StatusRegReset S w) = vars view w"
  using assms by (simp_all add: fallible_def vars_def fun_eq_iff split: option.splits)

lemma Finish_fallible:
  assumes "fallible S view"
  shows "vars view (outcome_world (ExecuteUpdateFinish S G s w)) = cleared (vars view w)"
proof -
  have "vars view (outcome_world (BootChainFinishUpdate S G s w)) = cleared (vars view w)"
    using assms
    by (simp add: BootChainFinishUpdate_def BootChainReset_def Let_def case_prod_unfold BCDelete_fallible
        platform_fallible cleared_def)
  moreover have "vars view (outcome_world (ExecuteUpdateBootOs S G s x)) = vars view x" for x
    using assms by (simp add: ExecuteUpdateBootOs_def platform_fallible)
  ultimately show ?thesis by (auto simp: ExecuteUpdateFinish_def split: BC_OUTCOME.splits)
qed

lemma Label_fallible:
  assumes "fallible S view" and "\<forall>s. l \<noteq> BootOs s" and "m = vars view (outcome_world (ExecuteUpdateLabel S G l w))"
  shows "m BC_NEXT = None \<and> m BC_PREVIOUS = None \<and> m BC_RESET_COUNT = None"
  using assms(2) by (cases l) (simp_all add: assms(3) ExecuteUpdateLabel_def Finish_fallible [OF assms(1)])

lemma Request_fallible:
  assumes "fallible S view" and "vars view w BC_NEXT = Some c"
  shows "(\<exists>l w'. ExecuteUpdateRequest S G w = Inl (l, w') \<and> (\<forall>s. l \<noteq> BootOs s))
    \<or> ExecuteUpdateRequest S G w = Inr c \<and> vars view w BC_STATUS = None"
proof -
  obtain st1 nxt where n: "BCGetVariable S BC_NEXT 0 w = (st1, nxt)" by force
  obtain st2 stat where s: "BCGetVariable S BC_STATUS MAX_UINT32 w = (st2, stat)" by force
  have "st1 \<noteq> EFI_NOT_FOUND" "st1 = EFI_SUCCESS \<longrightarrow> nxt = c"
    using BCGet_fallible [OF assms(1) _ n] assms(2) by auto
  moreover have "st2 = EFI_NOT_FOUND \<longrightarrow> vars view w BC_STATUS = None"
    using BCGet_fallible [OF assms(1) _ s] by simp
  ultimately show ?thesis by (auto simp: ExecuteUpdateRequest_def n s)
qed

lemma Start_fallible:
  assumes "fallible S view"
  shows "(\<exists>s w'. ExecuteUpdateStart S G c w = Inl (SetStatusAndBootOs s, w'))
    \<or> (\<exists>w'. ExecuteUpdateStart S G c w = Inr w' \<and> c \<noteq> mBootChain G
        \<and> reset_count (vars view w) < BOOT_CHAIN_MAX_RESET_COUNT \<and> vars view w' = started (mBootChain G) (vars view w))"
proof -
  obtain st1 w1 where w1: "BCSetVariable S BC_PREVIOUS (mBootChain G) w = (st1, w1)" by force
  obtain st2 w2 where w2: "BCSetVariable S BC_STATUS STATUS_IN_PROGRESS w1 = (st2, w2)" by force
  obtain st3 n where n: "BCGetVariable S BC_RESET_COUNT 0 w2 = (st3, n)" by force
  define cnt where "cnt = (if st3 = EFI_NOT_FOUND then 0 else n)"
  obtain st4 w3 where w3: "BCSetVariable S BC_RESET_COUNT (cnt + 1) w2 = (st4, w3)" by force
  obtain st5 w5 where w5: "UpdateFwChain S c (ValidateActiveBootChain S w3) = (st5, w5)" by force
  have v1: "st1 = EFI_SUCCESS \<longrightarrow> vars view w1 = (vars view w)(BC_PREVIOUS \<mapsto> mBootChain G)"
    using BCSet_fallible [OF assms _ w1] by simp
  have v2: "st2 = EFI_SUCCESS \<longrightarrow> vars view w2 = (vars view w1)(BC_STATUS \<mapsto> STATUS_IN_PROGRESS)"
    using BCSet_fallible [OF assms _ w2] by simp
  have v3: "st4 = EFI_SUCCESS \<longrightarrow> vars view w3 = (vars view w2)(BC_RESET_COUNT \<mapsto> cnt + 1)"
    using BCSet_fallible [OF assms _ w3] by simp
  have v5: "vars view w5 = vars view w3"
    using platform_fallible(1,2) [OF assms] w5 by (metis snd_conv)
  have count: "st1 = EFI_SUCCESS \<and> st2 = EFI_SUCCESS \<and> (st3 = EFI_SUCCESS \<or> st3 = EFI_NOT_FOUND)
      \<longrightarrow> cnt = reset_count (vars view w)"
    using BCGet_fallible [OF assms _ n] v1 v2 by (auto simp: cnt_def reset_count_def split: option.splits)
  have "ExecuteUpdateStart S G c w =
    (if c = mBootChain G then Inl (SetStatusAndBootOs STATUS_ERROR_NO_OPERATION_REQUIRED, w)
     else if mUpdateBrBctFlag G then Inl (SetStatusAndBootOs STATUS_ERROR_UPDATE_BR_BCT_FLAG_SET, w)
     else if BootChainIsFailed S c w then Inl (SetStatusAndBootOs STATUS_ERROR_BOOT_CHAIN_IS_FAILED, w)
     else if EFI_ERROR st1 then Inl (SetStatusAndBootOs STATUS_ERROR_SETTING_PREVIOUS, w1)
     else if EFI_ERROR st2 then Inl (SetStatusAndBootOs STATUS_ERROR_SETTING_IN_PROGRESS, w2)
     else if EFI_ERROR st3 \<and> st3 \<noteq> EFI_NOT_FOUND then Inl (SetStatusAndBootOs STATUS_ERROR_READING_RESET_COUNT, w2)
     else if cnt \<ge> BOOT_CHAIN_MAX_RESET_COUNT then Inl (SetStatusAndBootOs STATUS_ERROR_MAX_RESET_COUNT, w2)
     else if EFI_ERROR st4 then Inl (SetStatusAndBootOs STATUS_ERROR_SETTING_RESET_COUNT, w3)
     else if EFI_ERROR st5 then Inl (SetStatusAndBootOs STATUS_ERROR_UPDATING_FW_CHAIN, w5)
     else Inr w5)"
    by (simp only: ExecuteUpdateStart_def w1 w2 n Let_def prod.case cnt_def [symmetric] w3 w5)
  then show ?thesis
    using v1 v2 v3 v5 count by (cases "st3 = EFI_NOT_FOUND") (simp_all add: started_def not_le)
qed

end
