(* ===== verification/BootChainTheorems.thy ===== *)
theory BootChainTheorems
  imports BootChainProps
begin

text \<open>
  The properties of the boot chain driver, and a concrete machine on which they are applied: its
  variable store is a map, and \<open>UpdateFwChain\<close> records the chain the boot ROM will select.
\<close>

record MACHINE =
  Store :: store
  SelectedChain :: u32
  Validated :: bool

definition exampleServices :: "MACHINE BC_SERVICES" where
  "exampleServices = \<lparr>
     GetVariable = (\<lambda>n g sz old w. case Store w (n, g) of
         None \<Rightarrow> (EFI_NOT_FOUND, old)
       | Some v \<Rightarrow> if sz = 0 then (EFI_BUFFER_TOO_SMALL, old) else (EFI_SUCCESS, v)),
     SetVariable = (\<lambda>n g a sz v w.
         if sz = 0 then (if Store w (n, g) = None then EFI_NOT_FOUND else EFI_SUCCESS,
                         w\<lparr>Store := (Store w)((n, g) := None)\<rparr>)
         else (EFI_SUCCESS, w\<lparr>Store := (Store w)((n, g) \<mapsto> v)\<rparr>)),
     UpdateFwChain = (\<lambda>c w. (EFI_SUCCESS, w\<lparr>SelectedChain := c\<rparr>)),
     BootChainIsFailed = (\<lambda>c w. False),
     ValidateActiveBootChain = (\<lambda>w. w\<lparr>Validated := True\<rparr>),
     ClearUpdateBrBctFlag = (\<lambda>w. w),
     StatusRegReset = (\<lambda>w. w) \<rparr>"

lemma exampleServices_reliable: "reliable exampleServices Store"
  by (auto simp: reliable_def exampleServices_def split: option.splits)

definition nextVar :: "string \<times> EFI_GUID" where
  "nextVar = (''BootChainFwNext'', gNVIDIAPublicVariableGuid)"

definition statusVar :: "string \<times> EFI_GUID" where
  "statusVar = (''BootChainFwStatus'', gNVIDIAPublicVariableGuid)"

definition previousVar :: "string \<times> EFI_GUID" where
  "previousVar = (''BootChainFwPrevious'', gNVIDIATokenSpaceGuid)"

definition machine :: "(string \<times> EFI_GUID) list \<Rightarrow> u32 list \<Rightarrow> MACHINE" where
  "machine keys vals = \<lparr> Store = map_of (zip keys vals), SelectedChain = 0, Validated = False \<rparr>"

definition chainGlobals :: "u32 \<Rightarrow> BC_GLOBALS" where
  "chainGlobals chain = \<lparr> mBootChain = chain, mUpdateBrBctFlag = False, mBrBctUpdateProtocol = True \<rparr>"

lemmas machine_simps = machine_def chainGlobals_def nextVar_def statusVar_def previousVar_def
  vars_def exampleServices_def

section \<open>Properties\<close>

text \<open>
  C37: A new request starts the update when all of the following hold: the variable services work, the protocol that
  selects a chain has been located and selects this one without an error, the request names an existing chain other than
  the running one, this chain has not failed, no status is left from an earlier update, no \<open>BootNext\<close> variable exists, the
  flag for an update of the BR-BCT is clear, and fewer than three resets have been counted. The driver then records the
  present chain as previous, marks the update in progress, counts the reset, validates the present chain, selects the
  new one, and only then resets the machine.
\<close>

theorem ExecuteUpdate_starts_update:
  assumes "reliable S view" and "mBrBctUpdateProtocol G" and "\<not> mUpdateBrBctFlag G"
    and "vars view w BC_NEXT = Some c" and "vars view w BC_STATUS = None"
    and "unat c < BOOT_CHAIN_COUNT" and "c \<noteq> mBootChain G" and "\<not> BootChainIsFailed S c w"
    and "view w (''BootNext'', gEfiGlobalVariableGuid) = None"
    and "reset_count (vars view w) < BOOT_CHAIN_MAX_RESET_COUNT"
    and "\<And>x. fst (UpdateFwChain S c x) = EFI_SUCCESS"
  shows "\<exists>w'. BootChainExecuteUpdate S G True w
      = MachineReset (StatusRegReset S (snd (UpdateFwChain S c (ValidateActiveBootChain S w'))))
    \<and> vars view w' = (vars view w)(BC_PREVIOUS \<mapsto> mBootChain G, BC_STATUS \<mapsto> STATUS_IN_PROGRESS,
         BC_RESET_COUNT \<mapsto> reset_count (vars view w) + 1)"
proof -
  obtain w3 where w3: "vars view w3 = started (mBootChain G) (vars view w)"
    "ExecuteUpdateStart S G c w =
        (let (Status, w5) = UpdateFwChain S c (ValidateActiveBootChain S w3) in
         if EFI_ERROR Status then Inl (SetStatusAndBootOs STATUS_ERROR_UPDATING_FW_CHAIN, w5)
         else Inr w5)"
    using Start_new [OF assms(1,7,3,8,10)] by blast
  have "ExecuteUpdateRequest S G w = Inr c"
    using assms by (simp add: Request_cases)
  with w3 assms(2,11) show ?thesis
    by (auto simp: BootChainExecuteUpdate_def BootChainReset_def started_def Let_def case_prod_unfold)
qed

theorem ExecuteUpdate_starts_update_witness:
  "\<exists>w'. BootChainExecuteUpdate exampleServices (chainGlobals 0) True (machine [nextVar] [1])
      = MachineReset (StatusRegReset exampleServices
          (snd (UpdateFwChain exampleServices 1 (ValidateActiveBootChain exampleServices w'))))
    \<and> vars Store w' = (vars Store (machine [nextVar] [1]))
        (BC_PREVIOUS \<mapsto> mBootChain (chainGlobals 0), BC_STATUS \<mapsto> STATUS_IN_PROGRESS,
         BC_RESET_COUNT \<mapsto> reset_count (vars Store (machine [nextVar] [1])) + 1)"
  by (rule ExecuteUpdate_starts_update [OF exampleServices_reliable])
     (simp_all add: machine_simps bc_codes reset_count_def)

text \<open>
  When the machine comes up on the requested chain, the next call reports success and removes
  the request, the previous chain and the reset count; it neither resets nor selects a chain.
\<close>

theorem ExecuteUpdate_completes:
  assumes "reliable S view" and "mBrBctUpdateProtocol G"
    and "vars view w BC_NEXT = Some (mBootChain G)"
    and "vars view w BC_STATUS = Some STATUS_IN_PROGRESS"
  shows "\<exists>w'. BootChainExecuteUpdate S G True w = Returned EFI_SUCCESS w'
    \<and> vars view w' = (vars view w)(BC_STATUS \<mapsto> STATUS_SUCCESS, BC_PREVIOUS := None,
         BC_NEXT := None, BC_RESET_COUNT := None)"
proof -
  let ?w = "snd (BCSetVariable S BC_STATUS STATUS_SUCCESS w)"
  have returns: "\<exists>x. BootChainFinishUpdate S G STATUS_SUCCESS ?w = Returned () x"
    by (simp add: BootChainFinishUpdate_def Let_def case_prod_unfold)
  have "ExecuteUpdateRequest S G w = Inl (FinishUpdateAndBootOs STATUS_SUCCESS, ?w)"
    using assms by (simp add: Request_cases)
  with returns assms(1,2) Finish_vars [OF assms(1), of G STATUS_SUCCESS ?w] show ?thesis
    by (auto simp: BootChainExecuteUpdate_def ExecuteUpdateLabel_def ExecuteUpdateFinish_def
        ExecuteUpdateBootOs_def cleared_def bc_codes bc_simps)
qed

theorem ExecuteUpdate_completes_witness:
  "\<exists>w'. BootChainExecuteUpdate exampleServices (chainGlobals 1) True (machine [nextVar, statusVar] [1, 1])
      = Returned EFI_SUCCESS w'
    \<and> vars Store w' = (vars Store (machine [nextVar, statusVar] [1, 1]))
        (BC_STATUS \<mapsto> STATUS_SUCCESS, BC_PREVIOUS := None, BC_NEXT := None, BC_RESET_COUNT := None)"
  by (rule ExecuteUpdate_completes [OF exampleServices_reliable])
     (simp_all add: machine_simps bc_codes)

text \<open>
  C38: When the machine comes up on another chain than the requested one while the update is in progress and a previous
  chain is recorded, the variable services work and this previous chain can be selected without an error, the call reports
  \<open>STATUS_ERROR_BOOT_CHAIN_FAILED\<close>, removes the request, and selects the recorded previous chain and
  resets, unless that chain is already running.
\<close>

theorem ExecuteUpdate_rolls_back:
  assumes "reliable S view" and "mBrBctUpdateProtocol G"
    and "vars view w BC_NEXT = Some c" and "c \<noteq> mBootChain G"
    and "vars view w BC_STATUS = Some STATUS_IN_PROGRESS"
    and "vars view w BC_PREVIOUS = Some p"
    and "\<And>x. fst (UpdateFwChain S p x) = EFI_SUCCESS"
  shows "\<exists>w'. BootChainExecuteUpdate S G True w
      = (if p = mBootChain G then Returned EFI_SUCCESS w'
         else MachineReset (StatusRegReset S (snd (UpdateFwChain S p w'))))
    \<and> vars view w' = (vars view w)(BC_STATUS \<mapsto> STATUS_ERROR_BOOT_CHAIN_FAILED,
         BC_PREVIOUS := None, BC_NEXT := None, BC_RESET_COUNT := None)"
proof -
  let ?w = "snd (BCSetVariable S BC_STATUS STATUS_ERROR_BOOT_CHAIN_FAILED w)"
  have call: "BootChainExecuteUpdate S G True w
      = ExecuteUpdateFinish S G STATUS_ERROR_BOOT_CHAIN_FAILED ?w"
    using assms by (simp add: BootChainExecuteUpdate_def Request_cases ExecuteUpdateLabel_def)
  have previous: "BCGetVariable S BC_PREVIOUS 0 ?w = (EFI_SUCCESS, p)"
    using assms by (simp add: bc_simps)
  let ?w' = "snd (BCDeleteVariable S BC_RESET_COUNT (snd (BCDeleteVariable S BC_NEXT
    (snd (BCDeleteVariable S BC_PREVIOUS ?w)))))"
  have "vars view ?w' = (vars view w)(BC_STATUS \<mapsto> STATUS_ERROR_BOOT_CHAIN_FAILED,
         BC_PREVIOUS := None, BC_NEXT := None, BC_RESET_COUNT := None)"
    using assms(1) by (simp add: bc_simps)
  moreover have "ExecuteUpdateFinish S G STATUS_ERROR_BOOT_CHAIN_FAILED ?w
      = (if p = mBootChain G then Returned EFI_SUCCESS ?w'
         else MachineReset (StatusRegReset S (snd (UpdateFwChain S p ?w'))))"
    using previous assms(7) [of ?w']
    by (auto simp: ExecuteUpdateFinish_def BootChainFinishUpdate_def ExecuteUpdateBootOs_def
        BootChainReset_def Let_def case_prod_unfold bc_codes)
  ultimately show ?thesis unfolding call by (intro exI [of _ ?w']) (simp only: simp_thms)
qed

theorem ExecuteUpdate_rolls_back_witness:
  "\<exists>w'. BootChainExecuteUpdate exampleServices (chainGlobals 2) True
        (machine [nextVar, statusVar, previousVar] [1, 1, 0])
      = (if 0 = mBootChain (chainGlobals 2) then Returned EFI_SUCCESS w'
         else MachineReset (StatusRegReset exampleServices (snd (UpdateFwChain exampleServices 0 w'))))
    \<and> vars Store w' = (vars Store (machine [nextVar, statusVar, previousVar] [1, 1, 0]))
        (BC_STATUS \<mapsto> STATUS_ERROR_BOOT_CHAIN_FAILED,
         BC_PREVIOUS := None, BC_NEXT := None, BC_RESET_COUNT := None)"
  by (rule ExecuteUpdate_rolls_back [OF exampleServices_reliable, where c = 1])
     (simp_all add: machine_simps bc_codes)

text \<open>
  C2: While the variable services work, a call with a request pending has one of three outcomes. Without the protocol that
  selects a chain it returns \<open>EFI_NOT_READY\<close> and changes nothing, so that the request stays pending. With it, either the
  update has just been started, which needs that no status was left (status in progress, at most three resets counted),
  and the machine resets; or the request and its bookkeeping are gone and a final status is left, whatever the test for
  failed chains, the other variables and the results of \<open>UpdateFwChain\<close> are.
\<close>

theorem ExecuteUpdate_answers_request:
  assumes "reliable S view" and "vars view w BC_NEXT = Some c"
    and "m' = vars view (outcome_world (BootChainExecuteUpdate S G True w))"
  shows "if \<not> mBrBctUpdateProtocol G then BootChainExecuteUpdate S G True w = Returned EFI_NOT_READY w
    else m' BC_NEXT = None \<and> m' BC_PREVIOUS = None \<and> m' BC_RESET_COUNT = None
      \<and> (\<exists>s. m' BC_STATUS = Some s \<and> s \<noteq> STATUS_IN_PROGRESS)
    \<or> vars view w BC_STATUS = None \<and> m' BC_STATUS = Some STATUS_IN_PROGRESS
      \<and> m' BC_PREVIOUS = Some (mBootChain G) \<and> m' BC_NEXT = Some c \<and> c \<noteq> mBootChain G
      \<and> (\<exists>n. m' BC_RESET_COUNT = Some n \<and> n \<le> BOOT_CHAIN_MAX_RESET_COUNT)
      \<and> (\<exists>w'. BootChainExecuteUpdate S G True w = MachineReset w')"
proof (cases "mBrBctUpdateProtocol G")
  case True
  have "n + 1 \<le> BOOT_CHAIN_MAX_RESET_COUNT" if "n < BOOT_CHAIN_MAX_RESET_COUNT" for n
    using that inc_le by blast
  then show ?thesis
    using request_outcome [OF assms(1) True assms(2)] True assms(2,3)
    by (auto simp: answered_def started_def)
qed (simp add: BootChainExecuteUpdate_def)

theorem ExecuteUpdate_answers_request_witness:
  "let m' = vars Store (outcome_world (BootChainExecuteUpdate exampleServices (chainGlobals 0) True
              (machine [nextVar] [7]))) in
    m' BC_NEXT = None \<and> m' BC_PREVIOUS = None \<and> m' BC_RESET_COUNT = None
      \<and> (\<exists>s. m' BC_STATUS = Some s \<and> s \<noteq> STATUS_IN_PROGRESS)
    \<or> vars Store (machine [nextVar] [7]) BC_STATUS = None \<and> m' BC_STATUS = Some STATUS_IN_PROGRESS
      \<and> m' BC_PREVIOUS = Some (mBootChain (chainGlobals 0)) \<and> m' BC_NEXT = Some 7
      \<and> 7 \<noteq> mBootChain (chainGlobals 0)
      \<and> (\<exists>n. m' BC_RESET_COUNT = Some n \<and> n \<le> BOOT_CHAIN_MAX_RESET_COUNT)
      \<and> (\<exists>w'. BootChainExecuteUpdate exampleServices (chainGlobals 0) True (machine [nextVar] [7])
            = MachineReset w')"
proof -
  have next7: "vars Store (machine [nextVar] [7]) BC_NEXT = Some 7" by (simp add: machine_simps)
  have "mBrBctUpdateProtocol (chainGlobals 0)" by (simp add: chainGlobals_def)
  with ExecuteUpdate_answers_request [OF exampleServices_reliable next7 refl, of "chainGlobals 0"]
  show ?thesis unfolding Let_def by (simp only: not_True_eq_False if_False)
qed





text \<open>
  C20: While the variable services work, an update ends after at most two resets, whichever chain the boot ROM comes up
  with after each of them: the third boot always continues to the operating system.
\<close>

theorem at_most_two_resets:
  assumes "reliable S view"
    and "mBrBctUpdateProtocol G1" and "BootChainExecuteUpdate S G1 True w = MachineReset w1"
    and "mBrBctUpdateProtocol G2" and "BootChainExecuteUpdate S G2 True w1 = MachineReset w2"
  shows "\<exists>s w3. BootChainExecuteUpdate S G3 This3 w2 = Returned s w3"
proof -
  obtain c where c: "vars view w BC_NEXT = Some c"
    using no_request [OF assms(1), of w G1 True] assms(3) by fastforce
  obtain c1 where c1: "vars view w1 BC_NEXT = Some c1"
    using no_request [OF assms(1), of w1 G2 True] assms(5) by fastforce
  from request_outcome [OF assms(1,2) c] assms(3) c1
  have "vars view w1 BC_STATUS = Some STATUS_IN_PROGRESS"
    by (auto simp: answered_def started_def)
  with request_outcome [OF assms(1,4) c1] assms(5) have "vars view w2 BC_NEXT = None"
    by (auto simp: answered_def)
  then show ?thesis using no_request [OF assms(1)] by blast
qed

text \<open>The boot ROM ignores both selections and comes up with chain 2.\<close>

theorem at_most_two_resets_witness:
  "\<exists>s w3. BootChainExecuteUpdate exampleServices (chainGlobals 2) True
     (outcome_world (BootChainExecuteUpdate exampleServices (chainGlobals 2) True
       (outcome_world (BootChainExecuteUpdate exampleServices (chainGlobals 0) True
         (machine [nextVar] [1]))))) = Returned s w3"
proof -
  have reset: "\<exists>x. BootChainExecuteUpdate exampleServices (chainGlobals 0) True
      (machine [nextVar] [1]) = MachineReset x \<and> (\<exists>y. BootChainExecuteUpdate exampleServices
        (chainGlobals 2) True x = MachineReset y)"
    by (simp add: machine_simps bc_codes BootChainExecuteUpdate_def ExecuteUpdateRequest_def
        ExecuteUpdateStart_def BCGetVariable_def BCSetVariable_def BCDeleteVariable_def
        ExecuteUpdateLabel_def ExecuteUpdateFinish_def BootChainFinishUpdate_def BootChainReset_def)
  then obtain x y where xy: "BootChainExecuteUpdate exampleServices (chainGlobals 0) True
      (machine [nextVar] [1]) = MachineReset x"
    "BootChainExecuteUpdate exampleServices (chainGlobals 2) True x = MachineReset y" by blast
  have "mBrBctUpdateProtocol (chainGlobals n)" for n by (simp add: chainGlobals_def)
  from at_most_two_resets [OF exampleServices_reliable this xy(1) this xy(2)] xy
  show ?thesis by simp
qed

text \<open>
  Without a request the driver boots on and changes no variable, even when it refreshes the
  boot ROM's configuration.
\<close>

theorem ExecuteUpdate_idle:
  assumes "reliable S view" and "vars view w BC_NEXT = None"
  shows "\<exists>s w'. BootChainExecuteUpdate S G ThisOk w = Returned s w' \<and> vars view w' = vars view w"
  by (rule no_request [OF assms])

theorem ExecuteUpdate_idle_witness:
  "\<exists>s w'. BootChainExecuteUpdate exampleServices (chainGlobals 0) True (machine [statusVar] [0])
      = Returned s w' \<and> vars Store w' = vars Store (machine [statusVar] [0])"
  by (rule ExecuteUpdate_idle [OF exampleServices_reliable]) (simp add: machine_simps)

text \<open>
  \<open>CheckAndCancelUpdate\<close> reports a cancellation exactly when a request or a status was there;
  then no request is left, the status is \<open>STATUS_ERROR_CANCELED_FOR_FMP_CONFLICT\<close>, and the following
  \<open>ExecuteUpdate\<close> neither resets nor changes a variable, on any chain.
\<close>

theorem CheckAndCancelUpdate_cancels:
  assumes "reliable S view"
    and "BootChainCheckAndCancelUpdate S True (Some b) w = (Status, Canceled, w')"
  shows "Status = EFI_SUCCESS
    \<and> Canceled = Some (vars view w BC_NEXT \<noteq> None \<or> vars view w BC_STATUS \<noteq> None)
    \<and> vars view w' = (if Canceled = Some True
         then (vars view w)(BC_NEXT := None, BC_STATUS \<mapsto> STATUS_ERROR_CANCELED_FOR_FMP_CONFLICT)
         else vars view w)
    \<and> (\<exists>s w''. BootChainExecuteUpdate S G True w' = Returned s w'' \<and> vars view w'' = vars view w')"
proof -
  have result: "Status = EFI_SUCCESS
    \<and> Canceled = Some (vars view w BC_NEXT \<noteq> None \<or> vars view w BC_STATUS \<noteq> None)
    \<and> vars view w' = (if Canceled = Some True
         then (vars view w)(BC_NEXT := None, BC_STATUS \<mapsto> STATUS_ERROR_CANCELED_FOR_FMP_CONFLICT)
         else vars view w)"
    using assms
    by (auto simp: BootChainCheckAndCancelUpdate_def bc_simps Let_def case_prod_unfold fun_eq_iff
        split: option.splits if_splits)
  moreover from result have "vars view w' BC_NEXT = None" by (auto split: if_splits)
  ultimately show ?thesis using no_request [OF assms(1), of w' G True] by blast
qed

theorem CheckAndCancelUpdate_cancels_witness:
  "\<exists>s w''. BootChainExecuteUpdate exampleServices (chainGlobals 0) True
       (snd (snd (BootChainCheckAndCancelUpdate exampleServices True (Some False)
          (machine [nextVar] [1])))) = Returned s w''
     \<and> vars Store w'' BC_STATUS = Some STATUS_ERROR_CANCELED_FOR_FMP_CONFLICT"
proof -
  let ?w = "machine [nextVar] [1]"
  let ?r = "BootChainCheckAndCancelUpdate exampleServices True (Some False) ?w"
  have "?r = (fst ?r, fst (snd ?r), snd (snd ?r))" by simp
  from CheckAndCancelUpdate_cancels [OF exampleServices_reliable this, of "chainGlobals 0"]
  obtain s w'' where "BootChainExecuteUpdate exampleServices (chainGlobals 0) True (snd (snd ?r))
      = Returned s w''" "vars Store w'' = vars Store (snd (snd ?r))"
    "vars Store (snd (snd ?r)) = (if fst (snd ?r) = Some True
         then (vars Store ?w)(BC_NEXT := None, BC_STATUS \<mapsto> STATUS_ERROR_CANCELED_FOR_FMP_CONFLICT)
         else vars Store ?w)"
    "fst (snd ?r) = Some (vars Store ?w BC_NEXT \<noteq> None \<or> vars Store ?w BC_STATUS \<noteq> None)"
    by blast
  moreover have "vars Store ?w BC_NEXT \<noteq> None" by (simp add: machine_simps)
  ultimately show ?thesis by simp
qed

end
