(* ===== verification/MachineArith.thy ===== *)
theory MachineArith
  imports Prelude
begin

text \<open>Arithmetic of \<open>UINT32\<close>, \<open>UINT64\<close> and \<open>UINTN\<close> on natural numbers, with its wrap-around.\<close>

text \<open>Differences and sums of \<open>UINT64\<close> and \<open>UINTN\<close> values wrap.\<close>

definition sub64 :: "nat \<Rightarrow> nat \<Rightarrow> nat" where "sub64 x y = (x + 2 ^ 64 - y) mod 2 ^ 64"
definition add64 :: "nat \<Rightarrow> nat \<Rightarrow> nat" where "add64 x y = (x + y) mod 2 ^ 64"

lemma sub64_le: "y \<le> x \<Longrightarrow> x < 2 ^ 64 \<Longrightarrow> sub64 x y = x - y"
proof -
  assume a: "y \<le> x" "x < 2 ^ 64"
  then have eq: "x + 2 ^ 64 - y = (x - y) + 2 ^ 64" by (simp only: add_diff_assoc2)
  from a(2) have "((x - y) + 2 ^ 64) mod 2 ^ 64 = x - y"
    by (simp only: mod_add_self2) simp
  then show ?thesis unfolding sub64_def eq .
qed

lemma add64_less: "x + y < 2 ^ 64 \<Longrightarrow> add64 x y = x + y"
  by (simp add: add64_def)

definition u32 :: "nat \<Rightarrow> nat" where "u32 x = x mod 2 ^ 32"

lemma u32_less [simp]: "x < 2 ^ 32 \<Longrightarrow> u32 x = x"
  by (simp add: u32_def)

text \<open>A field of four bytes is read back as it was written.\<close>

lemma load32_drop: "load32 b i = load32 (drop i b) 0"
proof -
  have "load8 b (i + n) = load8 (drop i b) n" for n
    by (auto simp: load8_def add.commute)
  from this [of 0] this [of 1] this [of 2] this [of 3] show ?thesis
    by (simp add: load32_def load16_def numeral_3_eq_3 numeral_2_eq_2)
qed

lemmas load32_numeral = load32_drop [of _ "numeral k" for k]

lemma load32_field [simp]: "v < 2 ^ 32 \<Longrightarrow> load32 (bytes32 v @ rest) 0 = Some v"
proof -
  assume v: "v < 2 ^ 32"
  have "v mod 256 + 256 * (v div 256 mod 256) + 65536 * (v div 65536 mod 256
      + 256 * (v div 65536 div 256 mod 256)) = v"
  proof -
    have "v div 65536 = v div 256 div 256" by (simp flip: div_mult2_eq)
    moreover have "v div 256 div 256 div 256 < 256" using v by (simp flip: div_mult2_eq add: less_mult_imp_div_less)
    moreover have "v mod 256 + 256 * (v div 256 mod 256) + 65536 * (v div 256 div 256) = v"
      using mult_div_mod_eq [of 256 v] mult_div_mod_eq [of 256 "v div 256"] by linarith
    ultimately show ?thesis by simp
  qed
  then show ?thesis
    by (simp add: load32_def load16_def load8_def bytes32_def bytes16_def)
qed

end
