(* ===== verification/FwPackage.thy ===== *)
theory FwPackage
  imports MachineArith
begin

text \<open>
  \<open>FwPackageLib.c\<close>: the NVIDIA firmware package, a header, an array of image records and the image
  data in one buffer. The buffer is a byte list that starts with the header; reading past it, a failed
  \<open>ASSERT\<close> and a store past a local array have no result. A zero-terminated string is the list of its
  characters.
\<close>

type_synonym cstring = "byte list"

section \<open>Layout\<close>

definition FW_PACKAGE_MAGIC :: cstring where
  "FW_PACKAGE_MAGIC = [0x4e, 0x56, 0x49, 0x44, 0x49, 0x41, 0x5f, 0x5f,
                       0x42, 0x4c, 0x4f, 0x42, 0x5f, 0x5f, 0x56, 0x33]"
definition FW_PACKAGE_MAGIC_SIZE :: nat where "FW_PACKAGE_MAGIC_SIZE = 16"
definition FW_PACKAGE_TYPE_FW :: nat where "FW_PACKAGE_TYPE_FW = 0"
definition FW_PACKAGE_UPDATE_MODE_ALWAYS :: nat where "FW_PACKAGE_UPDATE_MODE_ALWAYS = 0"
definition FW_PACKAGE_UPDATE_MODE_NON_PRODUCTION :: nat where
  "FW_PACKAGE_UPDATE_MODE_NON_PRODUCTION = 1"
definition FW_PACKAGE_UPDATE_MODE_PRODUCTION :: nat where "FW_PACKAGE_UPDATE_MODE_PRODUCTION = 2"
definition FW_PACKAGE_NAME_LENGTH :: nat where "FW_PACKAGE_NAME_LENGTH = 40"
definition FW_PACKAGE_TNSPEC_LENGTH :: nat where "FW_PACKAGE_TNSPEC_LENGTH = 128"

lemmas fw_package_codes [codes] =
  FW_PACKAGE_MAGIC_SIZE_def FW_PACKAGE_TYPE_FW_def FW_PACKAGE_UPDATE_MODE_ALWAYS_def
  FW_PACKAGE_UPDATE_MODE_NON_PRODUCTION_def FW_PACKAGE_UPDATE_MODE_PRODUCTION_def
  FW_PACKAGE_NAME_LENGTH_def FW_PACKAGE_TNSPEC_LENGTH_def

text \<open>Offsets of the fields of \<open>FW_PACKAGE_HEADER\<close>, at the start of the buffer.\<close>

definition PackageSize :: "byte list \<Rightarrow> nat option" where "PackageSize b = load32 b 20"
definition HeaderSize :: "byte list \<Rightarrow> nat option" where "HeaderSize b = load32 b 24"
definition ImageCount :: "byte list \<Rightarrow> nat option" where "ImageCount b = load32 b 28"
definition PackageType :: "byte list \<Rightarrow> nat option" where "PackageType b = load32 b 32"

text \<open>Offsets and size of \<open>FW_PACKAGE_IMAGE_INFO\<close>, for a record at offset \<open>r\<close>.\<close>

definition SIZE_OF_IMAGE_INFO :: nat where "SIZE_OF_IMAGE_INFO = 184"
definition ImageOffset :: "byte list \<Rightarrow> nat \<Rightarrow> nat option" where "ImageOffset b r = load32 b (r + 40)"
definition ImageBytes :: "byte list \<Rightarrow> nat \<Rightarrow> nat option" where "ImageBytes b r = load32 b (r + 44)"
definition ImageUpdateMode :: "byte list \<Rightarrow> nat \<Rightarrow> nat option" where
  "ImageUpdateMode b r = load32 b (r + 52)"
definition TNSPEC_OFFSET :: nat where "TNSPEC_OFFSET = 56"

section \<open>Strings in the buffer\<close>

function CString :: "byte list \<Rightarrow> nat \<Rightarrow> cstring option" where
  "CString b i =
     (if i < length b then
        if b ! i = 0 then Some [] else map_option ((#) (b ! i)) (CString b (i + 1))
      else None)"
  by auto
termination by (relation "measure (\<lambda>(b, i). length b - i)") auto

declare CString.simps [simp del]

text \<open>\<open>AsciiStrnCmp (&b[i], t, n) == 0\<close> with a zero-terminated \<open>t\<close>.\<close>

fun AsciiStrnCmpIsZero :: "byte list \<Rightarrow> nat \<Rightarrow> cstring \<Rightarrow> nat \<Rightarrow> bool option" where
  "AsciiStrnCmpIsZero b i t 0 = Some True"
| "AsciiStrnCmpIsZero b i t (Suc n) = do {
     c \<leftarrow> load8 b i;
     let d = (case t of [] \<Rightarrow> 0 | d # _ \<Rightarrow> d);
     if c \<noteq> d then Some False
     else if c = 0 then Some True
     else AsciiStrnCmpIsZero b (i + 1) (tl t) n }"

section \<open>TNSPEC comparison\<close>

text \<open>The token before the first delimiter, and the string that is left (\<open>NULL\<close> is \<open>None\<close>).\<close>

definition AsciiStrSep :: "cstring option \<Rightarrow> byte \<Rightarrow> cstring option \<times> cstring option" where
  "AsciiStrSep StringPtr Delimiter =
     (case StringPtr of
        None \<Rightarrow> (None, None)
      | Some SubString \<Rightarrow>
          (case find (\<lambda>Index. SubString ! Index = Delimiter) [0..<length SubString] of
             Some Index \<Rightarrow> (Some (take Index SubString), Some (drop (Index + 1) SubString))
           | None \<Rightarrow> (Some SubString, None)))"

definition DASH :: byte where "DASH = 0x2d"

text \<open>
  The loop that fills a token array of \<open>FW_PACKAGE_TNSPEC_LENGTH / 2\<close> pointers, from \<open>Index\<close> on; the
  \<open>NULL\<close> that ends the loop is stored as well.
\<close>

function SpecTokens :: "nat \<Rightarrow> cstring option \<Rightarrow> cstring list option" where
  "SpecTokens Index Spec =
     (if Index \<ge> FW_PACKAGE_TNSPEC_LENGTH div 2 then None
      else case AsciiStrSep Spec DASH of
        (None, _) \<Rightarrow> Some []
      | (Some Token, Rest) \<Rightarrow> map_option ((#) Token) (SpecTokens (Index + 1) Rest))"
  by auto
termination by (relation "measure (\<lambda>(Index, Spec). FW_PACKAGE_TNSPEC_LENGTH - Index)") auto

declare SpecTokens.simps [simp del]

fun CompareTokens :: "cstring list \<Rightarrow> cstring list \<Rightarrow> EFI_STATUS" where
  "CompareTokens (t # ts) (u # us) =
     (if t = [] \<or> u = [] then CompareTokens ts us
      else if t \<noteq> u then EFI_NOT_FOUND
      else CompareTokens ts us)"
| "CompareTokens _ _ = EFI_SUCCESS"

text \<open>A string that does not fit is not copied, and the tokens are those of an uninitialised array.\<close>

definition FwPackageCheckTnSpec :: "cstring option \<Rightarrow> cstring option \<Rightarrow> EFI_STATUS option" where
  "FwPackageCheckTnSpec S1 S2 =
     (case (S1, S2) of
        (Some Spec1, Some Spec2) \<Rightarrow>
          if length Spec1 \<ge> FW_PACKAGE_TNSPEC_LENGTH \<or> length Spec2 \<ge> FW_PACKAGE_TNSPEC_LENGTH then None
          else do {
            Spec1Tokens \<leftarrow> SpecTokens 0 (Some Spec1);
            Spec2Tokens \<leftarrow> SpecTokens 0 (Some Spec2);
            if length Spec1Tokens \<noteq> length Spec2Tokens then Some EFI_INVALID_PARAMETER
            else Some (CompareTokens Spec1Tokens Spec2Tokens) }
      | _ \<Rightarrow> Some EFI_INVALID_PARAMETER)"

section \<open>Image records\<close>

text \<open>\<open>Print\<close> is \<open>UnicodeSPrintAsciiFormat\<close>: the text in the buffer and its length.\<close>

definition FwPackageCopyImageName ::
  "(nat \<Rightarrow> cstring \<Rightarrow> 16 word list \<times> nat) \<Rightarrow> byte list \<Rightarrow> nat \<Rightarrow> nat \<Rightarrow> (16 word list \<times> nat) option" where
  "FwPackageCopyImageName Print b r NameBufferBytes = do {
     imgName \<leftarrow> CString b r;
     Some (Print NameBufferBytes imgName) }"

definition FwPackageImageInfoArraySize :: "byte list \<Rightarrow> nat option" where
  "FwPackageImageInfoArraySize b = do { n \<leftarrow> ImageCount b; Some (n * SIZE_OF_IMAGE_INFO) }"

definition FwPackageImageInfoPtr :: "byte list \<Rightarrow> nat \<Rightarrow> nat option" where
  "FwPackageImageInfoPtr b ImageIndex = do {
     n \<leftarrow> ImageCount b;
     if \<not> ImageIndex < n then None
     else do { h \<leftarrow> HeaderSize b; Some (h + ImageIndex * SIZE_OF_IMAGE_INFO) } }"

definition FwPackageImageDataPtr :: "byte list \<Rightarrow> nat \<Rightarrow> nat option" where
  "FwPackageImageDataPtr b ImageIndex = do {
     r \<leftarrow> FwPackageImageInfoPtr b ImageIndex;
     ImageOffset b r }"

definition FwPackageUpdateModeIsOk :: "byte list \<Rightarrow> nat \<Rightarrow> bool \<Rightarrow> bool option" where
  "FwPackageUpdateModeIsOk b r IsProductionFused = do {
     mode \<leftarrow> ImageUpdateMode b r;
     if mode \<noteq> FW_PACKAGE_UPDATE_MODE_ALWAYS then
       if (IsProductionFused \<and> mode \<noteq> FW_PACKAGE_UPDATE_MODE_PRODUCTION)
          \<or> (\<not> IsProductionFused \<and> mode \<noteq> FW_PACKAGE_UPDATE_MODE_NON_PRODUCTION)
       then Some False else Some True
     else Some True }"

text \<open>The end of an image is a sum of two \<open>UINT32\<close> values and wraps.\<close>

definition FwPackageValidateImageInfo :: "byte list \<Rightarrow> nat \<Rightarrow> EFI_STATUS option" where
  "FwPackageValidateImageInfo b ImageIndex = do {
     r \<leftarrow> FwPackageImageInfoPtr b ImageIndex;
     imgName \<leftarrow> CString b r;
     if length imgName + 1 > FW_PACKAGE_NAME_LENGTH then Some EFI_INVALID_PARAMETER
     else do {
       mode \<leftarrow> ImageUpdateMode b r;
       if mode \<notin> {FW_PACKAGE_UPDATE_MODE_ALWAYS, FW_PACKAGE_UPDATE_MODE_NON_PRODUCTION,
                    FW_PACKAGE_UPDATE_MODE_PRODUCTION}
       then Some EFI_INVALID_PARAMETER
       else do {
         off \<leftarrow> ImageOffset b r;
         n \<leftarrow> ImageBytes b r;
         pkg \<leftarrow> PackageSize b;
         if (off + n) mod 2 ^ 32 > pkg then Some EFI_BAD_BUFFER_SIZE else Some EFI_SUCCESS } } }"

definition FwPackageValidateHeader :: "byte list \<Rightarrow> EFI_STATUS option" where
  "FwPackageValidateHeader b = do {
     magicOk \<leftarrow> AsciiStrnCmpIsZero b 0 FW_PACKAGE_MAGIC FW_PACKAGE_MAGIC_SIZE;
     if \<not> magicOk then Some EFI_INCOMPATIBLE_VERSION
     else do {
       pkg \<leftarrow> PackageSize b;
       h \<leftarrow> HeaderSize b;
       infos \<leftarrow> FwPackageImageInfoArraySize b;
       if pkg < h + infos then Some EFI_BAD_BUFFER_SIZE
       else do {
         t \<leftarrow> PackageType b;
         if t = FW_PACKAGE_TYPE_FW then Some EFI_SUCCESS else Some EFI_INVALID_PARAMETER } } }"

text \<open>The loop over the image records, with the package size added up so far.\<close>

primrec ValidateImageInfoLoop ::
  "byte list \<Rightarrow> nat list \<Rightarrow> nat \<Rightarrow> (EFI_STATUS + nat) option" where
  "ValidateImageInfoLoop b [] Acc = Some (Inr Acc)"
| "ValidateImageInfoLoop b (Index # rest) Acc = do {
     Status \<leftarrow> FwPackageValidateImageInfo b Index;
     if EFI_ERROR Status then Some (Inl Status)
     else do {
       r \<leftarrow> FwPackageImageInfoPtr b Index;
       n \<leftarrow> ImageBytes b r;
       ValidateImageInfoLoop b rest (Acc + n) } }"

definition FwPackageValidateImageInfoArray :: "byte list \<Rightarrow> EFI_STATUS option" where
  "FwPackageValidateImageInfoArray b = do {
     h \<leftarrow> HeaderSize b;
     infos \<leftarrow> FwPackageImageInfoArraySize b;
     count \<leftarrow> ImageCount b;
     result \<leftarrow> ValidateImageInfoLoop b [0..<count] (h + infos);
     (case result of
        Inl Status \<Rightarrow> Some Status
      | Inr Acc \<Rightarrow> do {
          pkg \<leftarrow> PackageSize b;
          if Acc \<noteq> pkg then Some EFI_BAD_BUFFER_SIZE else Some EFI_SUCCESS }) }"

text \<open>
  One image of the search: \<open>None\<close> skips it, \<open>Some True\<close> takes it and ends the search, \<open>Some False\<close> takes
  it unless an earlier one was taken.
\<close>

definition ImageMatch ::
  "byte list \<Rightarrow> cstring \<Rightarrow> bool \<Rightarrow> cstring option \<Rightarrow> cstring option \<Rightarrow> nat \<Rightarrow> bool option option" where
  "ImageMatch b AsciiName IsProductionFused CompatSpec FullSpec Index = do {
     r \<leftarrow> FwPackageImageInfoPtr b Index;
     same \<leftarrow> AsciiStrnCmpIsZero b r AsciiName FW_PACKAGE_NAME_LENGTH;
     if \<not> same then Some None
     else do {
       modeOk \<leftarrow> FwPackageUpdateModeIsOk b r IsProductionFused;
       if \<not> modeOk then Some None
       else do {
         spec \<leftarrow> CString b (r + TNSPEC_OFFSET);
         if length spec > 0 then do {
           full \<leftarrow> (if FullSpec \<noteq> None then FwPackageCheckTnSpec FullSpec (Some spec)
                    else Some EFI_NOT_FOUND);
           if \<not> EFI_ERROR full then Some (Some True)
           else do {
             compat \<leftarrow> (if CompatSpec \<noteq> None then FwPackageCheckTnSpec CompatSpec (Some spec)
                        else Some EFI_SUCCESS);
             if EFI_ERROR compat then Some None else Some (Some False) } }
         else Some (Some False) } } }"

primrec GetImageIndexLoop ::
  "(nat \<Rightarrow> bool option option) \<Rightarrow> nat list \<Rightarrow> nat option \<Rightarrow> nat option option" where
  "GetImageIndexLoop match [] Found = Some Found"
| "GetImageIndexLoop match (Index # rest) Found = do {
     m \<leftarrow> match Index;
     (case m of
        None \<Rightarrow> GetImageIndexLoop match rest Found
      | Some True \<Rightarrow> Some (Some Index)
      | Some False \<Rightarrow>
          GetImageIndexLoop match rest (if Found = None then Some Index else Found)) }"

text \<open>\<open>AsciiName\<close> is what \<open>AsciiSPrintUnicodeFormat\<close> makes of the requested name.\<close>

definition FwPackageGetImageIndex ::
  "byte list \<Rightarrow> cstring \<Rightarrow> bool \<Rightarrow> cstring option \<Rightarrow> cstring option \<Rightarrow> (EFI_STATUS \<times> nat option) option" where
  "FwPackageGetImageIndex b AsciiName IsProductionFused CompatSpec FullSpec = do {
     count \<leftarrow> ImageCount b;
     Found \<leftarrow> GetImageIndexLoop
       (ImageMatch b AsciiName IsProductionFused CompatSpec FullSpec) [0..<count] None;
     Some (if Found \<noteq> None then EFI_SUCCESS else EFI_NOT_FOUND, Found) }"

section \<open>Lemmas\<close>

text \<open>The fields of a TNSPEC, by recursion on the string.\<close>

primrec fields :: "cstring \<Rightarrow> cstring list" where
  "fields [] = [[]]"
| "fields (c # s) = (if c = DASH then [] # fields s else (c # hd (fields s)) # tl (fields s))"

lemma fields_nonempty [simp]: "fields s \<noteq> []"
  by (cases s) simp_all

lemma length_fields: "length (fields s) = Suc (length (filter (\<lambda>c. c = DASH) s))"
  by (induction s) simp_all

lemma fields_unfold:
  "fields s = takeWhile (\<lambda>c. c \<noteq> DASH) s
     # (if DASH \<in> set s then fields (tl (dropWhile (\<lambda>c. c \<noteq> DASH) s)) else [])"
  by (induction s) auto

lemma find_map_list: "find p (map f xs) = map_option f (find (\<lambda>x. p (f x)) xs)"
  by (induction xs) simp_all

lemma find_first:
  "find (\<lambda>i. s ! i = d) [0..<length s]
     = (if d \<in> set s then Some (length (takeWhile (\<lambda>c. c \<noteq> d) s)) else None)"
proof (induction s)
  case (Cons a s)
  have "find (\<lambda>i. (a # s) ! i = d) [0..<length (a # s)]
      = (if a = d then Some 0 else map_option Suc (find (\<lambda>i. s ! i = d) [0..<length s]))"
    by (simp add: upt_conv_Cons map_Suc_upt [symmetric] find_map_list del: upt_Suc)
  with Cons.IH show ?case by auto
qed simp

lemma AsciiStrSep_Some:
  "AsciiStrSep (Some s) d = (Some (takeWhile (\<lambda>c. c \<noteq> d) s),
     if d \<in> set s then Some (tl (dropWhile (\<lambda>c. c \<noteq> d) s)) else None)"
proof (cases "d \<in> set s")
  case True
  then show ?thesis
    by (simp add: AsciiStrSep_def find_first takeWhile_eq_take [symmetric] dropWhile_eq_drop drop_Suc
        tl_drop)
next
  case False
  then have whole: "takeWhile (\<lambda>c. c \<noteq> d) s = s" by (subst takeWhile_eq_all_conv) auto
  show ?thesis using False by (simp add: AsciiStrSep_def find_first whole)
qed

lemma SpecTokens_fields:
  "SpecTokens i (Some s)
     = (if i + length (fields s) < FW_PACKAGE_TNSPEC_LENGTH div 2 then Some (fields s) else None)"
proof (induction "length s" arbitrary: i s rule: less_induct)
  case less
  show ?case
  proof (cases "DASH \<in> set s")
    case True
    let ?rest = "tl (dropWhile (\<lambda>c. c \<noteq> DASH) s)"
    from True have "dropWhile (\<lambda>c. c \<noteq> DASH) s \<noteq> []" by (auto simp: dropWhile_eq_Nil_conv)
    moreover have "length (dropWhile (\<lambda>c. c \<noteq> DASH) s) \<le> length s" by (rule length_dropWhile_le)
    ultimately have "length ?rest < length s" by (cases "dropWhile (\<lambda>c. c \<noteq> DASH) s") auto
    from less.hyps [OF this, of "i + 1"] True fields_unfold [of s] show ?thesis
      by (subst SpecTokens.simps) (simp add: AsciiStrSep_Some)
  next
    case False
    have "SpecTokens (i + 1) None
        = (if FW_PACKAGE_TNSPEC_LENGTH div 2 \<le> i + 1 then None else Some [])"
      by (subst SpecTokens.simps) (simp add: AsciiStrSep_def)
    with False fields_unfold [of s] show ?thesis
      by (subst SpecTokens.simps) (simp add: AsciiStrSep_Some)
  qed
qed

lemma CompareTokens_all2:
  "length ts = length us \<Longrightarrow>
   CompareTokens ts us = (if list_all2 (\<lambda>t u. t = [] \<or> u = [] \<or> t = u) ts us then EFI_SUCCESS
     else EFI_NOT_FOUND)"
  by (induction ts us rule: list_induct2) auto

text \<open>The loops over the image records.\<close>

lemma ImageInfoPtr_Some:
  "FwPackageImageInfoPtr b i = Some r \<longleftrightarrow>
     (\<exists>n h. ImageCount b = Some n \<and> i < n \<and> HeaderSize b = Some h \<and> r = h + i * SIZE_OF_IMAGE_INFO)"
  by (auto simp: FwPackageImageInfoPtr_def bind_eq_Some_conv)

definition ImageInfoValid :: "byte list \<Rightarrow> nat \<Rightarrow> nat \<Rightarrow> bool" where
  "ImageInfoValid b r k \<longleftrightarrow> ImageBytes b r = Some k
     \<and> (\<exists>imgName. CString b r = Some imgName \<and> length imgName < FW_PACKAGE_NAME_LENGTH)
     \<and> (\<exists>mode. ImageUpdateMode b r = Some mode \<and> mode \<le> FW_PACKAGE_UPDATE_MODE_PRODUCTION)
     \<and> (\<exists>off pkg. ImageOffset b r = Some off \<and> PackageSize b = Some pkg
          \<and> (off + k) mod 2 ^ 32 \<le> pkg)"

lemma ValidateImageInfo_success:
  assumes "FwPackageValidateImageInfo b i = Some EFI_SUCCESS"
    and "FwPackageImageInfoPtr b i = Some r" and "ImageBytes b r = Some k"
  shows "ImageInfoValid b r k"
  using assms
  by (auto simp: FwPackageValidateImageInfo_def ImageInfoValid_def bind_eq_Some_conv
      fw_package_codes not_le split: if_splits)

lemma ValidateImageInfoLoop_error [simp]: "ValidateImageInfoLoop b is acc \<noteq> Some (Inl EFI_SUCCESS)"
  by (induction "is" arbitrary: acc) (auto simp: bind_eq_Some_conv split: if_splits)

lemma ValidateImageInfoLoop_success:
  assumes "ValidateImageInfoLoop b is acc = Some (Inr pkg)"
    and "\<And>i. i \<in> set is \<Longrightarrow> FwPackageImageInfoPtr b i = Some (p i)"
  shows "\<exists>ks. length ks = length is \<and> pkg = acc + sum_list ks
    \<and> list_all2 (\<lambda>i k. ImageInfoValid b (p i) k) is ks"
  using assms
proof (induction "is" arbitrary: acc)
  case (Cons i is')
  then obtain k where k: "FwPackageValidateImageInfo b i = Some EFI_SUCCESS"
    "ImageBytes b (p i) = Some k" "ValidateImageInfoLoop b is' (acc + k) = Some (Inr pkg)"
    by (auto simp: bind_eq_Some_conv split: if_splits)
  from Cons.IH [OF k(3)] Cons.prems(2) obtain ks where
    ks: "length ks = length is'" "pkg = acc + k + sum_list ks"
      "list_all2 (\<lambda>i k. ImageInfoValid b (p i) k) is' ks" by auto
  have "ImageInfoValid b (p i) k"
    using ValidateImageInfo_success [OF k(1) _ k(2)] Cons.prems(2) by simp
  with ks show ?case by (intro exI [of _ "k # ks"]) simp
qed simp

lemma AsciiStrnCmp_string:
  "AsciiStrnCmpIsZero b i t (length t) = Some True \<Longrightarrow> 0 \<notin> set t \<Longrightarrow>
   take (length t) (drop i b) = t"
proof (induction t arbitrary: i)
  case Nil
  then show ?case by simp
next
  case (Cons c t)
  then have "i < length b" "b ! i = c"
    "AsciiStrnCmpIsZero b (i + 1) t (length t) = Some True"
    by (auto simp: bind_eq_Some_conv Let_def split: if_splits)
  with Cons.IH [of "i + 1"] Cons.prems(2) show ?case
    by (auto simp: Cons_nth_drop_Suc [symmetric])
qed

lemma length_magic: "length FW_PACKAGE_MAGIC = 16"
  by (simp add: FW_PACKAGE_MAGIC_def)

lemma GetImageIndexLoop_find:
  assumes "\<And>i. i \<in> set is \<Longrightarrow> match i = Some (m i)"
  shows "GetImageIndexLoop match is Found = Some (case find (\<lambda>i. m i = Some True) is of
      Some i \<Rightarrow> Some i
    | None \<Rightarrow> if Found \<noteq> None then Found else find (\<lambda>i. m i = Some False) is)"
  using assms
  by (induction "is" arbitrary: Found) (auto split: option.splits bool.splits)

lemma GetImageIndexLoop_sound:
  assumes "GetImageIndexLoop match is Found = Some (Some i)"
  shows "Found = Some i \<or> i \<in> set is \<and> (\<exists>taken. match i = Some (Some taken))"
  using assms
  by (induction "is" arbitrary: Found)
     (auto simp: bind_eq_Some_conv split: option.splits bool.splits if_splits)

section \<open>A package to apply the properties to\<close>

text \<open>A package with one image record, whose data is the two bytes after it.\<close>

definition onePackage :: "nat \<Rightarrow> nat \<Rightarrow> cstring \<Rightarrow> byte list" where
  "onePackage off k spec = FW_PACKAGE_MAGIC @ bytes32 0 @ bytes32 234 @ bytes32 48 @ bytes32 1
     @ bytes32 0 @ bytes32 0 @ replicate 8 0
     @ [0x6d, 0x62, 0x31] @ replicate 37 0 @ bytes32 off @ bytes32 k @ bytes32 0 @ bytes32 0
     @ spec @ replicate (128 - length spec) 0 @ [0xaa, 0xbb]"

lemma CString_drop:
  "CString b i = (if 0 \<in> set (drop i b) then Some (takeWhile (\<lambda>c. c \<noteq> 0) (drop i b)) else None)"
proof (induction b i rule: CString.induct)
  case (1 b i)
  show ?case
  proof (cases "i < length b")
    case True
    with 1 show ?thesis
      by (subst CString.simps) (auto simp: Cons_nth_drop_Suc [symmetric])
  qed (simp add: CString.simps [of b i])
qed

lemma AsciiStrnCmp_drop: "AsciiStrnCmpIsZero b i t n = AsciiStrnCmpIsZero (drop i b) 0 t n"
proof (induction n arbitrary: b i t)
  case (Suc n)
  have "AsciiStrnCmpIsZero (drop i b) 1 (tl t) n = AsciiStrnCmpIsZero b (i + 1) (tl t) n"
    using Suc [of b "i + 1" "tl t"] Suc [of "drop i b" 1 "tl t"] by (simp add: add.commute)
  then show ?case by (simp add: load8_def add.commute)
qed simp

lemmas package_fields = PackageSize_def HeaderSize_def ImageCount_def PackageType_def
  ImageOffset_def ImageBytes_def ImageUpdateMode_def SIZE_OF_IMAGE_INFO_def TNSPEC_OFFSET_def

lemma onePackage_header:
  "PackageSize (onePackage off k spec) = Some 234" "HeaderSize (onePackage off k spec) = Some 48"
  "ImageCount (onePackage off k spec) = Some 1" "PackageType (onePackage off k spec) = Some 0"
  by (simp_all add: package_fields load32_numeral onePackage_def length_magic)

lemma onePackage_image:
  "off < 2 ^ 32 \<Longrightarrow> ImageOffset (onePackage off k spec) 48 = Some off"
  "k < 2 ^ 32 \<Longrightarrow> ImageBytes (onePackage off k spec) 48 = Some k"
  "ImageUpdateMode (onePackage off k spec) 48 = Some 0"
  "CString (onePackage off k spec) 48 = Some [0x6d, 0x62, 0x31]"
  by (simp_all add: package_fields load32_numeral CString_drop onePackage_def length_magic)

lemma onePackage_spec:
  "0 \<notin> set spec \<Longrightarrow> length spec < 128 \<Longrightarrow> CString (onePackage off k spec) 104 = Some spec"
  by (auto simp: CString_drop onePackage_def length_magic takeWhile_append)

lemma AsciiStrnCmp_Cons:
  assumes "c \<noteq> 0"
  shows "AsciiStrnCmpIsZero (c # rest) 0 (c # t) (Suc n) = AsciiStrnCmpIsZero rest 0 t n"
proof -
  have "AsciiStrnCmpIsZero (c # rest) 1 t n = AsciiStrnCmpIsZero rest 0 t n"
    using AsciiStrnCmp_drop [of "c # rest" 1 t n] by simp
  with assms show ?thesis by (simp add: load8_def)
qed

lemma AsciiStrnCmp_same:
  "0 \<notin> set t \<Longrightarrow> AsciiStrnCmpIsZero (t @ rest) 0 t (length t) = Some True"
  "0 \<notin> set t \<Longrightarrow> AsciiStrnCmpIsZero (t @ 0 # rest) 0 t (Suc (length t + n)) = Some True"
  "0 \<notin> set t \<Longrightarrow> d \<noteq> 0 \<Longrightarrow>
     AsciiStrnCmpIsZero (t @ d # rest) 0 t (Suc (length t + n)) = Some False"
  by (induction t)
     (simp_all add: AsciiStrnCmp_Cons load8_def del: AsciiStrnCmpIsZero.simps(2),
      simp_all add: load8_def)

lemma onePackage_magic:
  "AsciiStrnCmpIsZero (onePackage off k spec) 0 FW_PACKAGE_MAGIC 16 = Some True"
proof -
  have "0 \<notin> set FW_PACKAGE_MAGIC" by (simp add: FW_PACKAGE_MAGIC_def)
  from AsciiStrnCmp_same(1) [OF this] show ?thesis by (simp add: onePackage_def length_magic)
qed

lemma onePackage_name:
  "AsciiStrnCmpIsZero (onePackage off k spec) 48 [0x6d, 0x62, 0x31] 40 = Some True"
  "AsciiStrnCmpIsZero (onePackage off k spec) 48 [0x6d, 0x62] 40 = Some False"
proof -
  define rest where "rest = drop 52 (onePackage off k spec)"
  have rest: "drop 48 (onePackage off k spec) = [0x6d, 0x62, 0x31] @ 0 # rest"
    using replicate_Suc [of 36 "0 :: byte"]
    by (simp add: rest_def onePackage_def length_magic del: replicate_Suc)
  show "AsciiStrnCmpIsZero (onePackage off k spec) 48 [0x6d, 0x62, 0x31] 40 = Some True"
    using AsciiStrnCmp_same(2) [of "[0x6d, 0x62, 0x31]" rest 36] rest
    by (simp add: AsciiStrnCmp_drop [of _ 48])
  show "AsciiStrnCmpIsZero (onePackage off k spec) 48 [0x6d, 0x62] 40 = Some False"
    using AsciiStrnCmp_same(3) [of "[0x6d, 0x62]" "0x31" "0 # rest" 37] rest
    by (simp add: AsciiStrnCmp_drop [of _ 48])
qed

lemmas onePackage_simps = onePackage_header onePackage_image onePackage_spec onePackage_magic
  onePackage_name fw_package_codes package_fields(8,9)

section \<open>Properties\<close>

text \<open>A TNSPEC the code can take apart: it fits the local copy, and its tokens fit the array.\<close>

definition usable_spec :: "cstring \<Rightarrow> bool" where
  "usable_spec s \<longleftrightarrow> length s < FW_PACKAGE_TNSPEC_LENGTH
     \<and> length (filter (\<lambda>c. c = DASH) s) + 2 \<le> FW_PACKAGE_TNSPEC_LENGTH div 2"

text \<open>
  Two TNSPECs match exactly when they have the same number of dash-separated fields and agree
  on every field that is not empty in one of them; the comparison has a result exactly when both have
  at most 127 characters and 62 dashes, since the token array has 64 entries.
\<close>

theorem CheckTnSpec_spec:
  "FwPackageCheckTnSpec (Some S1) (Some S2) =
     (if usable_spec S1 \<and> usable_spec S2 then
        Some (if length (fields S1) \<noteq> length (fields S2) then EFI_INVALID_PARAMETER
              else if list_all2 (\<lambda>t u. t = [] \<or> u = [] \<or> t = u) (fields S1) (fields S2)
              then EFI_SUCCESS else EFI_NOT_FOUND)
      else None)"
  by (auto simp: FwPackageCheckTnSpec_def usable_spec_def SpecTokens_fields length_fields
      CompareTokens_all2 fw_package_codes)

text \<open>
  C40: A package that passes both validations starts with the magic and has the firmware type; the
  image records follow the header, every name is terminated in its field, every update mode is known,
  and the package size is the sum of the header, the records and the image sizes. The end of each
  image is checked modulo \<open>2 ^ 32\<close>.
\<close>

theorem validated_package:
  assumes "FwPackageValidateHeader b = Some EFI_SUCCESS"
    and "FwPackageValidateImageInfoArray b = Some EFI_SUCCESS"
  shows "take 16 b = FW_PACKAGE_MAGIC \<and> PackageType b = Some FW_PACKAGE_TYPE_FW
    \<and> (\<exists>h n pkg ks. HeaderSize b = Some h \<and> ImageCount b = Some n \<and> PackageSize b = Some pkg
        \<and> length ks = n \<and> pkg = h + n * SIZE_OF_IMAGE_INFO + sum_list ks
        \<and> list_all2 (\<lambda>i k. ImageInfoValid b (h + i * SIZE_OF_IMAGE_INFO) k) [0..<n] ks)"
proof -
  from assms(1) have head: "PackageType b = Some FW_PACKAGE_TYPE_FW"
    "AsciiStrnCmpIsZero b 0 FW_PACKAGE_MAGIC (length FW_PACKAGE_MAGIC) = Some True"
    by (auto simp: FwPackageValidateHeader_def FW_PACKAGE_MAGIC_SIZE_def bind_eq_Some_conv
        length_magic simp del: AsciiStrnCmpIsZero.simps split: if_splits)
  have "0 \<notin> set FW_PACKAGE_MAGIC" by (simp add: FW_PACKAGE_MAGIC_def)
  with AsciiStrnCmp_string [OF head(2)] have magic: "take 16 b = FW_PACKAGE_MAGIC"
    by (simp add: length_magic)
  from assms(2) obtain h n res where
    res: "HeaderSize b = Some h" "ImageCount b = Some n"
      "ValidateImageInfoLoop b [0..<n] (h + n * SIZE_OF_IMAGE_INFO) = Some res"
      "(case res of Inl Status \<Rightarrow> Some Status | Inr Acc \<Rightarrow> do {
          pkg \<leftarrow> PackageSize b;
          if Acc \<noteq> pkg then Some EFI_BAD_BUFFER_SIZE else Some EFI_SUCCESS }) = Some EFI_SUCCESS"
    unfolding FwPackageValidateImageInfoArray_def FwPackageImageInfoArraySize_def bind_eq_Some_conv
    by auto
  then obtain pkg where h: "HeaderSize b = Some h" "ImageCount b = Some n" "PackageSize b = Some pkg"
      "ValidateImageInfoLoop b [0..<n] (h + n * SIZE_OF_IMAGE_INFO) = Some (Inr pkg)"
    by (cases res) (auto simp: bind_eq_Some_conv split: if_splits)
  have "FwPackageImageInfoPtr b i = Some (h + i * SIZE_OF_IMAGE_INFO)" if "i \<in> set [0..<n]" for i
    using h that by (simp add: ImageInfoPtr_Some)
  from ValidateImageInfoLoop_success [OF h(4) this] h(1-3) head(1) magic show ?thesis by auto
qed

theorem validated_package_witness:
  "take 16 (onePackage 232 2 []) = FW_PACKAGE_MAGIC
    \<and> PackageType (onePackage 232 2 []) = Some FW_PACKAGE_TYPE_FW
    \<and> (\<exists>h n pkg ks. HeaderSize (onePackage 232 2 []) = Some h \<and> ImageCount (onePackage 232 2 []) = Some n
        \<and> PackageSize (onePackage 232 2 []) = Some pkg
        \<and> length ks = n \<and> pkg = h + n * SIZE_OF_IMAGE_INFO + sum_list ks
        \<and> list_all2 (\<lambda>i k. ImageInfoValid (onePackage 232 2 []) (h + i * SIZE_OF_IMAGE_INFO) k) [0..<n] ks)"
  by (rule validated_package)
     (simp_all add: FwPackageValidateHeader_def FwPackageValidateImageInfoArray_def
        FwPackageValidateImageInfo_def FwPackageImageInfoArraySize_def FwPackageImageInfoPtr_def
        onePackage_simps)

text \<open>
  Because the end of an image wraps at 32 bits, a package can pass both validations while its
  image starts almost \<open>2 ^ 32\<close> bytes past its header, far outside the 234 bytes of the package.
\<close>

theorem wrapped_image_accepted:
  "FwPackageValidateHeader (onePackage 0xffffffff 2 []) = Some EFI_SUCCESS
   \<and> FwPackageValidateImageInfoArray (onePackage 0xffffffff 2 []) = Some EFI_SUCCESS
   \<and> FwPackageImageDataPtr (onePackage 0xffffffff 2 []) 0 = Some 0xffffffff
   \<and> length (onePackage 0xffffffff 2 []) = 234"
  by (simp add: FwPackageValidateHeader_def FwPackageValidateImageInfoArray_def
      FwPackageValidateImageInfo_def FwPackageImageInfoArraySize_def FwPackageImageInfoPtr_def
      FwPackageImageDataPtr_def onePackage_simps) (simp add: onePackage_def length_magic)

text \<open>
  An image that \<open>FwPackageGetImageIndex\<close> returns is one of the package's, has the requested name,
  an update mode the fuse state allows, and a TNSPEC that is empty, matches the full or the
  compatibility TNSPEC, or no compatibility TNSPEC was given.
\<close>

theorem GetImageIndex_sound:
  assumes "FwPackageGetImageIndex b AsciiName Fused CompatSpec FullSpec = Some (Status, Some i)"
  shows "Status = EFI_SUCCESS \<and> (\<exists>n h spec. ImageCount b = Some n \<and> i < n \<and> HeaderSize b = Some h
    \<and> AsciiStrnCmpIsZero b (h + i * SIZE_OF_IMAGE_INFO) AsciiName FW_PACKAGE_NAME_LENGTH = Some True
    \<and> FwPackageUpdateModeIsOk b (h + i * SIZE_OF_IMAGE_INFO) Fused = Some True
    \<and> CString b (h + i * SIZE_OF_IMAGE_INFO + TNSPEC_OFFSET) = Some spec
    \<and> (spec = [] \<or> CompatSpec = None
        \<or> FwPackageCheckTnSpec FullSpec (Some spec) = Some EFI_SUCCESS
        \<or> FwPackageCheckTnSpec CompatSpec (Some spec) = Some EFI_SUCCESS))"
proof -
  from assms obtain n where n: "ImageCount b = Some n" "Status = EFI_SUCCESS"
    "GetImageIndexLoop (ImageMatch b AsciiName Fused CompatSpec FullSpec) [0..<n] None = Some (Some i)"
    by (auto simp: FwPackageGetImageIndex_def bind_eq_Some_conv)
  from GetImageIndexLoop_sound [OF n(3)] obtain taken where "i < n"
    "ImageMatch b AsciiName Fused CompatSpec FullSpec i = Some (Some taken)" by auto
  then obtain r spec where r: "FwPackageImageInfoPtr b i = Some r"
    "AsciiStrnCmpIsZero b r AsciiName FW_PACKAGE_NAME_LENGTH = Some True"
    "FwPackageUpdateModeIsOk b r Fused = Some True" "CString b (r + TNSPEC_OFFSET) = Some spec"
    "spec = [] \<or> CompatSpec = None \<or> FwPackageCheckTnSpec FullSpec (Some spec) = Some EFI_SUCCESS
        \<or> FwPackageCheckTnSpec CompatSpec (Some spec) = Some EFI_SUCCESS"
    unfolding ImageMatch_def bind_eq_Some_conv by (fastforce simp: bind_eq_Some_conv split: if_splits)
  from r(1) n(1) obtain h where "HeaderSize b = Some h" "r = h + i * SIZE_OF_IMAGE_INFO"
    by (auto simp: ImageInfoPtr_Some)
  with r n \<open>i < n\<close> show ?thesis by auto
qed

definition specPackage :: "byte list" where
  "specPackage = onePackage 232 2 [0x32]"

theorem GetImageIndex_sound_witness:
  "EFI_SUCCESS = EFI_SUCCESS \<and> (\<exists>n h spec. ImageCount specPackage = Some n \<and> 0 < n
    \<and> HeaderSize specPackage = Some h
    \<and> AsciiStrnCmpIsZero specPackage (h + 0 * SIZE_OF_IMAGE_INFO) [0x6d, 0x62, 0x31]
        FW_PACKAGE_NAME_LENGTH = Some True
    \<and> FwPackageUpdateModeIsOk specPackage (h + 0 * SIZE_OF_IMAGE_INFO) True = Some True
    \<and> CString specPackage (h + 0 * SIZE_OF_IMAGE_INFO + TNSPEC_OFFSET) = Some spec
    \<and> (spec = [] \<or> Some [0x32 :: byte] = None
        \<or> FwPackageCheckTnSpec None (Some spec) = Some EFI_SUCCESS
        \<or> FwPackageCheckTnSpec (Some [0x32]) (Some spec) = Some EFI_SUCCESS))"
proof (rule GetImageIndex_sound)
  show "FwPackageGetImageIndex specPackage [0x6d, 0x62, 0x31] True (Some [0x32]) None
      = Some (EFI_SUCCESS, Some 0)"
    by (simp add: specPackage_def FwPackageGetImageIndex_def ImageMatch_def FwPackageCheckTnSpec_def
        FwPackageImageInfoPtr_def FwPackageUpdateModeIsOk_def SpecTokens_fields onePackage_simps)
qed

text \<open>
  The choice among several matching images: the first one whose TNSPEC matches the full TNSPEC,
  and when there is none the first one acceptable otherwise. The search fails exactly when no image
  is acceptable.
\<close>

theorem GetImageIndex_choice:
  assumes "ImageCount b = Some n"
    and "\<And>i. i < n \<Longrightarrow> ImageMatch b AsciiName Fused CompatSpec FullSpec i = Some (m i)"
  shows "FwPackageGetImageIndex b AsciiName Fused CompatSpec FullSpec =
    (let r = (case find (\<lambda>i. m i = Some True) [0..<n] of
                Some i \<Rightarrow> Some i
              | None \<Rightarrow> find (\<lambda>i. m i = Some False) [0..<n])
     in Some (if r = None then EFI_NOT_FOUND else EFI_SUCCESS, r))"
proof -
  have "GetImageIndexLoop (ImageMatch b AsciiName Fused CompatSpec FullSpec) [0..<n] None =
      Some (case find (\<lambda>i. m i = Some True) [0..<n] of
          Some i \<Rightarrow> Some i
        | None \<Rightarrow> if (None :: nat option) \<noteq> None then None else find (\<lambda>i. m i = Some False) [0..<n])"
    using assms(2) by (intro GetImageIndexLoop_find) simp
  with assms(1) show ?thesis by (simp add: FwPackageGetImageIndex_def Let_def)
qed

theorem GetImageIndex_choice_witness:
  "FwPackageGetImageIndex specPackage [0x6d, 0x62] True None None
     = Some (EFI_NOT_FOUND, None)"
proof -
  have "ImageCount specPackage = Some 1" by (simp add: specPackage_def onePackage_simps)
  moreover have "ImageMatch specPackage [0x6d, 0x62] True None None 0 = Some None"
    by (simp add: specPackage_def ImageMatch_def FwPackageImageInfoPtr_def onePackage_simps)
  ultimately show ?thesis
    by (subst GetImageIndex_choice [where n = 1 and m = "\<lambda>_. None"]) simp_all
qed

end
