(* ===== verification/WildcardString.thy ===== *)
theory WildcardString
  imports Prelude
begin

text \<open>
  \<open>WildcardStringLib.c\<close>: matching a name against a pattern in which \<open>*\<close> stands for any characters.
  A zero-terminated string is the list of its characters, a pointer into it the list of the
  characters from there on, \<open>None\<close> a null pointer. \<open>AsciiStrStr\<close> of EDK2's BaseLib is a
  parameter with its documented behaviour, \<open>AllocatePool\<close> one that says whether it succeeds.
\<close>

section \<open>The code\<close>

definition WILDCARD_MAX_STRING_SIZE :: nat where "WILDCARD_MAX_STRING_SIZE = 0x100"

definition star :: byte where "star = 0x2a"

text \<open>
  The main loop. Both failure exits of the code that follow \<open>AsciiStrStr\<close> are the first two branches
  of its result: no occurrence, and a first token that does not occur at the very beginning.
\<close>

function MatchTokens ::
  "(byte list \<Rightarrow> byte list \<Rightarrow> byte list option) \<Rightarrow> byte list \<Rightarrow> byte list \<Rightarrow> byte list \<Rightarrow> byte list
   \<Rightarrow> bool" where
  "MatchTokens StrStr Wildcard Check NextToken Current =
     (case NextToken of
        [] \<Rightarrow> Current = []
      | c # Rest \<Rightarrow>
          if c = star then
            MatchTokens StrStr Wildcard Check Rest (if Rest = [] then [] else Current)
          else
            let Token = takeWhile (\<lambda>x. x \<noteq> star) NextToken;
                TokenEnd = dropWhile (\<lambda>x. x \<noteq> star) NextToken in
            (case StrStr Current Token of
               None \<Rightarrow> False
             | Some Found \<Rightarrow>
                 if NextToken = Wildcard \<and> Found \<noteq> Check then False
                 else MatchTokens StrStr Wildcard Check TokenEnd (drop (length Token) Found)))"
  by pat_completeness auto

termination
  by (relation "measure (\<lambda>(StrStr, Wildcard, Check, NextToken, Current). length NextToken)")
     (auto simp: length_dropWhile_le le_imp_less_Suc)

definition WildcardStringMatchAscii ::
  "(byte list \<Rightarrow> byte list \<Rightarrow> byte list option) \<Rightarrow> (nat \<Rightarrow> bool)
   \<Rightarrow> byte list option \<Rightarrow> byte list option \<Rightarrow> bool" where
  "WildcardStringMatchAscii StrStr AllocatePool WildcardString CheckString =
     (case (WildcardString, CheckString) of
        (Some Wildcard, Some Check) \<Rightarrow>
          let WildcardStringSize = length Wildcard + 1 in
          if WildcardStringSize = 1 \<or> (WildcardStringSize = 2 \<and> hd Wildcard = star) then True
          else if WildcardStringSize > WILDCARD_MAX_STRING_SIZE \<and> \<not> AllocatePool WildcardStringSize
          then False
          else MatchTokens StrStr Wildcard Check Wildcard Check
      | _ \<Rightarrow> False)"

declare MatchTokens.simps [simp del]

section \<open>Documented behaviour of AsciiStrStr\<close>

text \<open>The first occurrence of a non-empty string, or null when there is none.\<close>

definition documented_StrStr :: "(byte list \<Rightarrow> byte list \<Rightarrow> byte list option) \<Rightarrow> bool" where
  "documented_StrStr StrStr \<longleftrightarrow> (\<forall>s t. t \<noteq> [] \<longrightarrow>
     (case StrStr s t of
        None \<Rightarrow> \<not> (\<exists>a r. s = a @ t @ r)
      | Some u \<Rightarrow> \<exists>a r. s = a @ u \<and> u = t @ r
                    \<and> (\<forall>a' r'. s = a' @ t @ r' \<longrightarrow> length a \<le> length a')))"

lemma StrStr_Some:
  "documented_StrStr StrStr \<Longrightarrow> StrStr s t = Some u \<Longrightarrow> t \<noteq> [] \<Longrightarrow>
     \<exists>a r. s = a @ u \<and> u = t @ r \<and> (\<forall>a' r'. s = a' @ t @ r' \<longrightarrow> length a \<le> length a')"
  unfolding documented_StrStr_def by (drule spec [of _ s], drule spec [of _ t]) simp

lemma StrStr_None:
  "documented_StrStr StrStr \<Longrightarrow> StrStr s t = None \<Longrightarrow> t \<noteq> [] \<Longrightarrow> s \<noteq> a @ t @ r"
  unfolding documented_StrStr_def by (drule spec [of _ s], drule spec [of _ t]) auto

fun FirstOccurrence :: "byte list \<Rightarrow> byte list \<Rightarrow> byte list option" where
  "FirstOccurrence [] t = (if t = [] then Some [] else None)"
| "FirstOccurrence (c # s) t =
     (if take (length t) (c # s) = t then Some (c # s) else FirstOccurrence s t)"

lemma FirstOccurrence_Some:
  "FirstOccurrence s t = Some u \<Longrightarrow> t \<noteq> [] \<Longrightarrow>
     \<exists>a r. s = a @ u \<and> u = t @ r \<and> (\<forall>a' r'. s = a' @ t @ r' \<longrightarrow> length a \<le> length a')"
proof (induction s)
  case (Cons c s)
  show ?case
  proof (cases "take (length t) (c # s) = t")
    case True
    with Cons.prems have "u = c # s" by simp
    moreover have "c # s = t @ drop (length t) (c # s)"
      by (metis True append_take_drop_id)
    ultimately show ?thesis
      by (intro exI [of _ "[]"] exI [of _ "drop (length t) (c # s)"]) simp
  next
    case False
    with Cons obtain a r where *: "s = a @ u" "u = t @ r"
      "\<forall>a' r'. s = a' @ t @ r' \<longrightarrow> length a \<le> length a'" by auto
    have "Suc (length a) \<le> length a'" if "c # s = a' @ t @ r'" for a' r'
    proof (cases a')
      case Nil
      with that have "take (length t) (c # s) = t" by simp
      with False show ?thesis by simp
    next
      case (Cons b a'')
      with that * show ?thesis by auto
    qed
    with * show ?thesis by (intro exI [of _ "c # a"] exI [of _ r]) auto
  qed
qed auto

lemma FirstOccurrence_None: "FirstOccurrence s t = None \<Longrightarrow> t \<noteq> [] \<Longrightarrow> s \<noteq> a @ t @ r"
proof (induction s arbitrary: a)
  case (Cons c s)
  then show ?case
    by (cases a) (auto split: if_splits dest: arg_cong [of _ _ "take (length t)"])
qed auto

lemma FirstOccurrence_documented: "documented_StrStr FirstOccurrence"
  unfolding documented_StrStr_def
  by (auto split: option.splits simp: FirstOccurrence_None dest: FirstOccurrence_Some)

section \<open>What a pattern means\<close>

fun Glob :: "byte list \<Rightarrow> byte list \<Rightarrow> bool" where
  "Glob [] s = (s = [])"
| "Glob (c # p) s =
     (if c = star then \<exists>k \<le> length s. Glob p (drop k s)
      else (case s of [] \<Rightarrow> False | d # s' \<Rightarrow> c = d \<and> Glob p s'))"

lemma Glob_star: "Glob (star # p) s \<longleftrightarrow> (\<exists>a r. s = a @ r \<and> Glob p r)"
proof
  assume "Glob (star # p) s"
  then obtain k where "Glob p (drop k s)" by auto
  then show "\<exists>a r. s = a @ r \<and> Glob p r" by (metis append_take_drop_id)
next
  assume "\<exists>a r. s = a @ r \<and> Glob p r"
  then obtain a r where "s = a @ r" "Glob p r" by blast
  then show "Glob (star # p) s" by (auto intro!: exI [of _ "length a"])
qed

lemma Glob_star_extend: "Glob (star # p) r \<Longrightarrow> Glob (star # p) (a @ r)"
  unfolding Glob_star by (metis append.assoc)

lemma Glob_star_twice: "Glob (star # star # p) s \<longleftrightarrow> Glob (star # p) s"
  unfolding Glob_star by (metis append.assoc append_Nil)

lemma Glob_star_alone: "Glob [star] s"
  by (auto simp: Glob_star)

lemma Glob_token: "star \<notin> set t \<Longrightarrow> Glob (t @ p) s \<longleftrightarrow> (\<exists>r. s = t @ r \<and> Glob p r)"
  by (induction t arbitrary: s) (auto split: list.splits)

declare Glob.simps(2) [simp del]

lemma token_split:
  fixes NextToken :: "byte list"
  defines "T \<equiv> takeWhile (\<lambda>x. x \<noteq> star) NextToken" and "E \<equiv> dropWhile (\<lambda>x. x \<noteq> star) NextToken"
  shows "NextToken = T @ E" and "star \<notin> set T" and "E = [] \<or> (\<exists>E'. E = star # E')"
proof -
  show "NextToken = T @ E" by (simp add: T_def E_def)
  show "star \<notin> set T" unfolding T_def by (auto dest: set_takeWhileD)
  show "E = [] \<or> (\<exists>E'. E = star # E')"
    by (cases E) (auto simp: E_def dropWhile_eq_Cons_conv)
qed

section \<open>The loop\<close>

text \<open>The three kinds of step, on a pattern that is not at its beginning any more.\<close>

lemma MatchTokens_Nil: "MatchTokens StrStr W C [] Cur \<longleftrightarrow> Cur = []"
  by (simp add: MatchTokens.simps)

lemma MatchTokens_star:
  "MatchTokens StrStr W C (star # p) Cur
     \<longleftrightarrow> MatchTokens StrStr W C p (if p = [] then [] else Cur)"
  by (simp add: MatchTokens.simps [of _ _ _ "star # p"])

lemma MatchTokens_token:
  assumes "star \<notin> set t" and "t \<noteq> []" and "e = [] \<or> hd e = star"
  shows "MatchTokens StrStr W C (t @ e) Cur \<longleftrightarrow>
    (\<exists>u. StrStr Cur t = Some u \<and> (t @ e = W \<longrightarrow> u = C)
       \<and> MatchTokens StrStr W C e (drop (length t) u))"
proof -
  have *: "takeWhile (\<lambda>x. x \<noteq> star) (t @ e) = t" "dropWhile (\<lambda>x. x \<noteq> star) (t @ e) = e"
    using assms by (cases e; force simp: takeWhile_append dropWhile_append)+
  obtain c t' where "t = c # t'" "c \<noteq> star" using assms by (cases t) auto
  with * show ?thesis
    by (subst MatchTokens.simps) (auto simp: Let_def split: option.splits)
qed

lemmas MatchTokens_steps = MatchTokens_Nil MatchTokens_star MatchTokens_token

text \<open>Induction over the tokens of a pattern.\<close>

lemma pattern_induct [case_names Nil star token]:
  assumes "P []" and "\<And>p. P p \<Longrightarrow> P (star # p)"
    and "\<And>t e. star \<notin> set t \<Longrightarrow> t \<noteq> [] \<Longrightarrow> e = [] \<or> hd e = star \<Longrightarrow> P e \<Longrightarrow> P (t @ e)"
  shows "P p"
proof (induction "length p" arbitrary: p rule: less_induct)
  case less
  show ?case
  proof (cases p)
    case Nil
    with assms(1) show ?thesis by simp
  next
    case (Cons c q)
    define t e where "t = takeWhile (\<lambda>x. x \<noteq> star) p" and "e = dropWhile (\<lambda>x. x \<noteq> star) p"
    have p: "p = t @ e" "star \<notin> set t" "e = [] \<or> hd e = star"
      using token_split [of p] by (auto simp: t_def e_def)
    show ?thesis
    proof (cases "c = star")
      case True
      with Cons less assms(2) [of q] show ?thesis by simp
    next
      case False
      with Cons have "t \<noteq> []" by (simp add: t_def)
      moreover from this p(1) have "length e < length p" by (simp add: \<open>p = t @ e\<close>)
      ultimately show ?thesis using p assms(3) [of t e] less by metis
    qed
  qed
qed

lemma MatchTokens_sound:
  assumes "documented_StrStr StrStr"
  shows "MatchTokens StrStr W C p Cur \<Longrightarrow> Glob (star # p) Cur"
proof (induction p arbitrary: Cur rule: pattern_induct)
  case (star p)
  then show ?case
    using Glob_star_alone by (cases "p = []") (auto simp: MatchTokens_star Glob_star_twice)
next
  case (token t e)
  then obtain u where u: "StrStr Cur t = Some u" "MatchTokens StrStr W C e (drop (length t) u)"
      "Glob (star # e) (drop (length t) u)"
    by (auto simp: MatchTokens_token)
  from assms u(1) token(2) obtain a r where ar: "Cur = a @ u" "u = t @ r"
    by (blast dest: StrStr_Some)
  with u have "Glob (star # e) r" by simp
  show ?case
  proof (cases e)
    case Nil
    with u ar have "r = []" by (simp add: MatchTokens_Nil)
    with ar Nil token(1) Glob_token [of t "[]" t] show ?thesis
      unfolding Glob_star by (intro exI [of _ a] exI [of _ t]) simp
  next
    case (Cons x e')
    with token(3) \<open>Glob (star # e) r\<close> have "Glob e r" by (simp add: Glob_star_twice)
    with ar token(1) show ?thesis
      unfolding Glob_star by (intro exI [of _ a] exI [of _ "t @ r"]) (simp add: Glob_token)
  qed
qed (simp add: MatchTokens_Nil Glob_star_alone)

text \<open>
  Taking the first occurrence loses nothing when another \<open>*\<close> follows: what is left after a later
  occurrence is a suffix of what is left after the first.
\<close>

lemma MatchTokens_complete:
  assumes "documented_StrStr StrStr"
  shows "p \<noteq> [] \<Longrightarrow> last p = star \<Longrightarrow> length p < length W \<Longrightarrow> Glob (star # p) Cur
    \<Longrightarrow> MatchTokens StrStr W C p Cur"
proof (induction p arbitrary: Cur rule: pattern_induct)
  case (star p)
  then show ?case
    by (cases "p = []") (auto simp: MatchTokens_star MatchTokens_Nil Glob_star_twice)
next
  case (token t e)
  from token have "e \<noteq> []" by (metis append_Nil2 last_in_set)
  then obtain e' where e: "e = star # e'" using token(3) by (cases e) auto
  from token obtain a r where ar: "Cur = a @ t @ r" "Glob e r"
    by (auto simp: Glob_star Glob_token)
  with assms token(2) obtain u where "StrStr Cur t = Some u"
    by (cases "StrStr Cur t") (auto dest: StrStr_None)
  with assms token(2) obtain a' r' where u: "StrStr Cur t = Some (t @ r')"
      "Cur = a' @ t @ r'" "length a' \<le> length a"
    using ar(1) by (blast dest: StrStr_Some)
  have "r = drop (length a + length t) Cur" "r' = drop (length a' + length t) Cur"
    by (simp add: ar(1)) (simp add: u(2))
  with u(3) have "r = drop (length a - length a') r'" by (simp add: add.commute)
  with ar(2) e have "Glob e r'"
    by (metis Glob_star_extend append_take_drop_id)
  with e have "Glob (star # e) r'" by (simp add: Glob_star_twice)
  moreover have "last e = star" "length e < length W"
    using token(6,7) \<open>e \<noteq> []\<close> by simp_all
  ultimately have "MatchTokens StrStr W C e r'" using token(4) \<open>e \<noteq> []\<close> by blast
  moreover have "t @ e \<noteq> W" using token(7) by auto
  ultimately show ?case using token(1-3) u(1) by (simp add: MatchTokens_token)
qed auto

section \<open>Properties\<close>

lemma Match_MatchTokens:
  assumes "documented_StrStr StrStr" and "p \<noteq> []" and "length p < WILDCARD_MAX_STRING_SIZE \<or> AllocatePool (length p + 1)"
  shows "WildcardStringMatchAscii StrStr AllocatePool (Some p) (Some s)
    \<longleftrightarrow> MatchTokens StrStr p s p s"
proof (cases "p = [star]")
  case True
  then show ?thesis by (simp add: WildcardStringMatchAscii_def MatchTokens_star MatchTokens_Nil)
next
  case False
  with assms(2) have "\<not> (length p = 1 \<and> hd p = star)" by (cases p) auto
  with assms show ?thesis by (auto simp: WildcardStringMatchAscii_def Let_def)
qed

text \<open>A pattern that starts with a token: the token must be a prefix of the name.\<close>

lemma first_token:
  assumes "documented_StrStr StrStr" and "star \<notin> set t" and "t \<noteq> []" and "e = [] \<or> hd e = star"
  shows "MatchTokens StrStr (t @ e) s (t @ e) s
    \<longleftrightarrow> (\<exists>r. s = t @ r \<and> MatchTokens StrStr (t @ e) s e r)"
proof -
  have "StrStr s t = Some s \<longleftrightarrow> (\<exists>r. s = t @ r)"
  proof
    assume "StrStr s t = Some s"
    with assms(1,3) show "\<exists>r. s = t @ r" by (blast dest: StrStr_Some)
  next
    assume "\<exists>r. s = t @ r"
    then obtain r where r: "s = [] @ t @ r" by auto
    with assms(1,3) obtain u where u: "StrStr s t = Some u"
      by (cases "StrStr s t") (blast dest: StrStr_None)+
    with assms(1,3) obtain a where "s = a @ u" "length a \<le> length ([] :: byte list)"
      using r by (blast dest: StrStr_Some)
    with u show "StrStr s t = Some s" by simp
  qed
  with assms show ?thesis
    by (auto simp: MatchTokens_token)
qed

lemma pattern_tokens:
  assumes "p \<noteq> []"
  obtains (star) q where "p = star # q"
  | (token) t e where "p = t @ e" "star \<notin> set t" "t \<noteq> []" "e = [] \<or> (\<exists>e'. e = star # e')"
proof (cases "hd p = star")
  case True
  with assms star show ?thesis by (cases p) auto
next
  case False
  with assms have "takeWhile (\<lambda>x. x \<noteq> star) p \<noteq> []" by (cases p) auto
  then show ?thesis using token token_split [of p] by blast
qed

lemma MatchTokens_whole_sound:
  assumes "documented_StrStr StrStr" and "p \<noteq> []" and m: "MatchTokens StrStr p s p s"
  shows "Glob p s"
  using assms(2)
proof (cases rule: pattern_tokens)
  case (star q)
  with m have "MatchTokens StrStr p s q (if q = [] then [] else s)"
    by (simp add: MatchTokens_star)
  with star show ?thesis
    using MatchTokens_sound [OF assms(1), of p s q s] Glob_star_alone by (cases "q = []") auto
next
  case (token t e)
  with m assms(1) obtain r where r: "s = t @ r" "MatchTokens StrStr p s e r"
    using first_token [of StrStr t e s] by auto
  from token(4) have "Glob e r"
  proof
    assume "e = []"
    with r(2) show ?thesis by (simp add: MatchTokens_Nil)
  next
    assume "\<exists>e'. e = star # e'"
    with MatchTokens_sound [OF assms(1) r(2)] show ?thesis by (auto simp: Glob_star_twice)
  qed
  with token r show ?thesis by (simp add: Glob_token)
qed

lemma MatchTokens_whole_complete:
  assumes "documented_StrStr StrStr" and "p \<noteq> []" and "star \<notin> set p \<or> last p = star"
    and g: "Glob p s"
  shows "MatchTokens StrStr p s p s"
  using assms(2)
proof (cases rule: pattern_tokens)
  case (star q)
  then show ?thesis
    using assms(3) g MatchTokens_complete [OF assms(1), of q p s s]
    by (cases "q = []") (auto simp: MatchTokens_star MatchTokens_Nil)
next
  case (token t e)
  with g obtain r where r: "s = t @ r" "Glob e r" by (auto simp: Glob_token)
  from token(4) have "MatchTokens StrStr p s e r"
  proof
    assume "e = []"
    with r(2) show ?thesis by (simp add: MatchTokens_Nil)
  next
    assume "\<exists>e'. e = star # e'"
    with token assms(3) r(2) show ?thesis
      by (intro MatchTokens_complete [OF assms(1)]) (auto simp: Glob_star_twice split: if_splits)
  qed
  with token r assms(1) show ?thesis
    using first_token [of StrStr t e s] by auto
qed

text \<open>
  A name is only matched by a pattern that describes it: whenever the function returns TRUE for a
  non-empty pattern, the name is the pattern with every \<open>*\<close> replaced by some characters.
\<close>

theorem wildcard_match_sound:
  assumes "documented_StrStr StrStr"
    and "WildcardStringMatchAscii StrStr AllocatePool (Some p) (Some s)" and "p \<noteq> []"
  shows "Glob p s"
proof (cases "p = [star]")
  case False
  with assms(2,3) have "MatchTokens StrStr p s p s"
    by (cases p) (auto simp: WildcardStringMatchAscii_def Let_def split: if_splits)
  with assms(1,3) show ?thesis by (rule MatchTokens_whole_sound)
qed (simp add: Glob_star_alone)

theorem wildcard_match_sound_witness: "Glob [0x61, star, 0x63] [0x61, 0x62, 0x63]"
  by (rule wildcard_match_sound [of FirstOccurrence "\<lambda>_. True", OF FirstOccurrence_documented])
     (simp_all add: WildcardStringMatchAscii_def MatchTokens.simps star_def)

text \<open>
  The match is exact for a pattern without \<open>*\<close> and for a pattern that ends in \<open>*\<close>: the greedy
  choice of the first occurrence of every token then finds a match whenever there is one. A
  pattern of 256 bytes or more needs the allocation to succeed.
\<close>

theorem wildcard_match_exact:
  assumes "documented_StrStr StrStr" and "p \<noteq> []" and "star \<notin> set p \<or> last p = star"
    and "length p < WILDCARD_MAX_STRING_SIZE \<or> AllocatePool (length p + 1)"
  shows "WildcardStringMatchAscii StrStr AllocatePool (Some p) (Some s) \<longleftrightarrow> Glob p s"
  using assms MatchTokens_whole_sound MatchTokens_whole_complete by (metis Match_MatchTokens)

theorem wildcard_match_exact_witness:
  "WildcardStringMatchAscii FirstOccurrence (\<lambda>_. False) (Some [0x61, star]) (Some [0x61, 0x62])
     \<longleftrightarrow> Glob [0x61, star] [0x61, 0x62]"
  by (rule wildcard_match_exact [OF FirstOccurrence_documented])
     (simp_all add: WILDCARD_MAX_STRING_SIZE_def)

text \<open>
  The greedy choice is wrong for the last token of a pattern like \<open>*abc\<close>: a name in which the
  token occurs twice, at the end and before it, fits the pattern, but the function stops
  at the first occurrence, finds characters left over, and returns FALSE.
\<close>

theorem wildcard_suffix_missed:
  assumes "documented_StrStr StrStr" and "t \<noteq> []" and "star \<notin> set t"
  shows "Glob (star # t) (t @ x @ t)
    \<and> \<not> WildcardStringMatchAscii StrStr AllocatePool (Some (star # t)) (Some (t @ x @ t))"
proof
  show "Glob (star # t) (t @ x @ t)"
    using Glob_token [of t "[]" t] assms(3) unfolding Glob_star
    by (intro exI [of _ "t @ x"] exI [of _ t]) simp
  have "StrStr (t @ x @ t) t = Some (t @ x @ t)"
  proof -
    have eq: "t @ x @ t = [] @ t @ (x @ t)" by simp
    with assms(1,2) obtain u where u: "StrStr (t @ x @ t) t = Some u"
      by (cases "StrStr (t @ x @ t) t") (blast dest: StrStr_None)+
    with assms(1,2) obtain a where "t @ x @ t = a @ u" "length a \<le> length ([] :: byte list)"
      using eq by (blast dest: StrStr_Some)
    with u show ?thesis by simp
  qed
  then have "\<not> MatchTokens StrStr (star # t) (t @ x @ t) (star # t) (t @ x @ t)"
    using assms(2,3) MatchTokens_token [of t "[]"] by (auto simp: MatchTokens_star MatchTokens_Nil)
  then show "\<not> WildcardStringMatchAscii StrStr AllocatePool (Some (star # t)) (Some (t @ x @ t))"
    using assms(2) by (auto simp: WildcardStringMatchAscii_def Let_def)
qed

theorem wildcard_suffix_missed_witness:
  "Glob [star, 0x61] [0x61, 0x61]
    \<and> \<not> WildcardStringMatchAscii FirstOccurrence (\<lambda>_. True) (Some [star, 0x61]) (Some [0x61, 0x61])"
  using wildcard_suffix_missed [OF FirstOccurrence_documented, of "[0x61]" "[]"]
  by (simp add: star_def)

end
