(* ===== verification/GptLib.thy ===== *)
theory GptLib
  imports BootChainInfo MachineArith
begin

text \<open>
  \<open>GptLib.c\<close>: validation of a GUID partition table and the places where the firmware keeps its two
  copies. Header and table lie in byte buffers, a pointer is an offset into its buffer; the field
  offsets are those of the UEFI specification, whose header and entry take 92 and 128 bytes.
  Reading past a buffer and a failed \<open>ASSERT\<close> have no result. \<open>CalculateCrc32\<close> is a parameter.
\<close>

section \<open>Layout\<close>

definition NVIDIA_GPT_BLOCK_SIZE :: nat where "NVIDIA_GPT_BLOCK_SIZE = 512"
definition NVIDIA_GPT_MAX_ENTRIES :: nat where "NVIDIA_GPT_MAX_ENTRIES = 128"
definition NVIDIA_GPT_ALIGN_MIN :: nat where "NVIDIA_GPT_ALIGN_MIN = 0x10000"
definition SIZE_OF_GPT_HEADER :: nat where "SIZE_OF_GPT_HEADER = 92"
definition SIZE_OF_GPT_ENTRY :: nat where "SIZE_OF_GPT_ENTRY = 128"
definition EFI_PTAB_HEADER_ID :: nat where "EFI_PTAB_HEADER_ID = 0x5452415020494645"
definition MAX_UINT64 :: nat where "MAX_UINT64 = 2 ^ 64 - 1"

definition NVIDIA_GPT_PARTITION_TABLE_SIZE :: nat where
  "NVIDIA_GPT_PARTITION_TABLE_SIZE = NVIDIA_GPT_MAX_ENTRIES * SIZE_OF_GPT_ENTRY"

lemmas gpt_sizes = NVIDIA_GPT_BLOCK_SIZE_def NVIDIA_GPT_MAX_ENTRIES_def NVIDIA_GPT_ALIGN_MIN_def
  SIZE_OF_GPT_HEADER_def SIZE_OF_GPT_ENTRY_def NVIDIA_GPT_PARTITION_TABLE_SIZE_def

definition load64 :: "byte list \<Rightarrow> nat \<Rightarrow> nat option" where
  "load64 b i = do { lo \<leftarrow> load32 b i; hi \<leftarrow> load32 b (i + 4); Some (lo + 2 ^ 32 * hi) }"

text \<open>The fields of a table header at \<open>h\<close> and of an entry at \<open>p\<close>.\<close>

abbreviation Gpt_Signature where "Gpt_Signature b h \<equiv> load64 b h"
abbreviation Gpt_HeaderSize where "Gpt_HeaderSize b h \<equiv> load32 b (h + 12)"
abbreviation Gpt_CRC32 where "Gpt_CRC32 b h \<equiv> load32 b (h + 16)"
abbreviation FirstUsableLBA where "FirstUsableLBA b h \<equiv> load64 b (h + 40)"
abbreviation LastUsableLBA where "LastUsableLBA b h \<equiv> load64 b (h + 48)"
abbreviation PartitionEntryLBA where "PartitionEntryLBA b h \<equiv> load64 b (h + 72)"
abbreviation NumberOfPartitionEntries where "NumberOfPartitionEntries b h \<equiv> load32 b (h + 80)"
abbreviation SizeOfPartitionEntry where "SizeOfPartitionEntry b h \<equiv> load32 b (h + 84)"
abbreviation PartitionEntryArrayCRC32 where "PartitionEntryArrayCRC32 b h \<equiv> load32 b (h + 88)"

abbreviation StartingLBA where "StartingLBA b p \<equiv> load64 b (p + 32)"
abbreviation EndingLBA where "EndingLBA b p \<equiv> load64 b (p + 40)"
abbreviation PartitionName_at :: "nat \<Rightarrow> nat" where "PartitionName_at p \<equiv> p + 56"

text \<open>
  The zero-terminated string at an offset, as \<open>StrLen\<close> and the copies read it, and the comparison
  \<open>StrnCmp (at i, s, n) == 0\<close>.
\<close>

function StrAt :: "byte list \<Rightarrow> nat \<Rightarrow> wstring option" where
  "StrAt b i = (case load16 b i of
     None \<Rightarrow> None
   | Some c \<Rightarrow> if c = 0 then Some [] else map_option (Cons (of_nat c)) (StrAt b (i + 2)))"
  by pat_completeness auto

termination
  by (relation "measure (\<lambda>(b, i). length b - i)") (auto dest: load16_bound)

primrec StrnCmpIsZeroAt :: "byte list \<Rightarrow> nat \<Rightarrow> wstring \<Rightarrow> nat \<Rightarrow> bool option" where
  "StrnCmpIsZeroAt b i s 0 = Some True"
| "StrnCmpIsZeroAt b i s (Suc n) = do {
     c \<leftarrow> load16 b i;
     (case s of
        [] \<Rightarrow> Some (c = 0)
      | d # s' \<Rightarrow> if c \<noteq> 0 \<and> of_nat c = d then StrnCmpIsZeroAt b (i + 2) s' n else Some False) }"

declare StrAt.simps [simp del]

section \<open>The code\<close>

definition GptValidateHeader :: "(byte list \<Rightarrow> nat) \<Rightarrow> byte list \<Rightarrow> nat \<Rightarrow> EFI_STATUS option" where
  "GptValidateHeader CalculateCrc32 b h = do {
     HeaderSize \<leftarrow> Gpt_HeaderSize b h;
     if HeaderSize \<noteq> SIZE_OF_GPT_HEADER then Some EFI_VOLUME_CORRUPTED
     else do {
       OriginalCrc \<leftarrow> Gpt_CRC32 b h;
       zeroed \<leftarrow> store_bytes b (h + 16) (bytes32 0);
       bytes \<leftarrow> load_bytes zeroed h HeaderSize;
       let Crc = CalculateCrc32 bytes;
       Signature \<leftarrow> Gpt_Signature b h;
       EntrySize \<leftarrow> SizeOfPartitionEntry b h;
       Entries \<leftarrow> NumberOfPartitionEntries b h;
       if Signature \<noteq> EFI_PTAB_HEADER_ID \<or> OriginalCrc \<noteq> Crc
          \<or> EntrySize < SIZE_OF_GPT_ENTRY \<or> Entries > MAX_UINT64 div EntrySize
       then Some EFI_VOLUME_CORRUPTED
       else Some EFI_SUCCESS } }"

definition GptPartitionTableLba :: "byte list \<Rightarrow> nat \<Rightarrow> nat \<Rightarrow> nat option" where
  "GptPartitionTableLba b h DeviceBytes = do {
     PartitionTableLba \<leftarrow> PartitionEntryLBA b h;
     let DeviceSizeInBlocks = DeviceBytes div NVIDIA_GPT_BLOCK_SIZE;
     Some (if PartitionTableLba > DeviceSizeInBlocks then PartitionTableLba - DeviceSizeInBlocks
           else PartitionTableLba) }"

text \<open>The product of two \<open>UINT32\<close> is taken in 32 bits.\<close>

definition GptPartitionTableSizeInBytes :: "byte list \<Rightarrow> nat \<Rightarrow> nat option" where
  "GptPartitionTableSizeInBytes b h = do {
     Entries \<leftarrow> NumberOfPartitionEntries b h;
     EntrySize \<leftarrow> SizeOfPartitionEntry b h;
     Some (Entries * EntrySize mod 2 ^ 32) }"

primrec ValidateEntriesLoop :: "byte list \<Rightarrow> nat \<Rightarrow> nat \<Rightarrow> nat \<Rightarrow> nat \<Rightarrow> EFI_STATUS option" where
  "ValidateEntriesLoop t FirstBlock LastBlock 0 p = Some EFI_SUCCESS"
| "ValidateEntriesLoop t FirstBlock LastBlock (Suc n) p = do {
     name \<leftarrow> StrAt t (PartitionName_at p);
     if name = [] then ValidateEntriesLoop t FirstBlock LastBlock n (p + SIZE_OF_GPT_ENTRY)
     else do {
       start \<leftarrow> StartingLBA t p;
       end' \<leftarrow> EndingLBA t p;
       if start > LastBlock \<or> end' > LastBlock \<or> start < FirstBlock \<or> end' < FirstBlock
       then Some EFI_VOLUME_CORRUPTED
       else ValidateEntriesLoop t FirstBlock LastBlock n (p + SIZE_OF_GPT_ENTRY) } }"

definition GptValidatePartitionTable ::
  "(byte list \<Rightarrow> nat) \<Rightarrow> byte list \<Rightarrow> nat \<Rightarrow> byte list \<Rightarrow> nat \<Rightarrow> EFI_STATUS option" where
  "GptValidatePartitionTable CalculateCrc32 b h t p = do {
     TableSize \<leftarrow> GptPartitionTableSizeInBytes b h;
     bytes \<leftarrow> load_bytes t p TableSize;
     Expected \<leftarrow> PartitionEntryArrayCRC32 b h;
     if Expected \<noteq> CalculateCrc32 bytes then Some EFI_CRC_ERROR
     else do {
       FirstBlock \<leftarrow> FirstUsableLBA b h;
       LastBlock \<leftarrow> LastUsableLBA b h;
       Entries \<leftarrow> NumberOfPartitionEntries b h;
       ValidateEntriesLoop t FirstBlock LastBlock Entries p } }"

text \<open>\<open>FindPartitionLoop\<close> tries \<open>n\<close> entries from \<open>Index\<close> on.\<close>

primrec FindPartitionLoop ::
  "byte list \<Rightarrow> nat \<Rightarrow> wstring \<Rightarrow> nat \<Rightarrow> nat \<Rightarrow> nat \<Rightarrow> nat option option" where
  "FindPartitionLoop t p Name' EntrySize 0 Index = Some None"
| "FindPartitionLoop t p Name' EntrySize (Suc n) Index = do {
     let Partition = p + Index * EntrySize;
     equal \<leftarrow> StrnCmpIsZeroAt t (PartitionName_at Partition) Name' 36;
     if equal then Some (Some Partition)
     else FindPartitionLoop t p Name' EntrySize n (Index + 1) }"

definition GptFindPartitionByName ::
  "byte list \<Rightarrow> nat \<Rightarrow> byte list \<Rightarrow> nat \<Rightarrow> wstring \<Rightarrow> nat option option" where
  "GptFindPartitionByName b h t p Name' = do {
     Entries \<leftarrow> NumberOfPartitionEntries b h;
     EntrySize \<leftarrow> SizeOfPartitionEntry b h;
     FindPartitionLoop t p Name' EntrySize Entries 0 }"

definition GptPartitionSizeInBlocks :: "byte list \<Rightarrow> nat \<Rightarrow> nat option" where
  "GptPartitionSizeInBlocks t p = do {
     end' \<leftarrow> EndingLBA t p;
     start \<leftarrow> StartingLBA t p;
     Some (add64 (sub64 end' start) 1) }"

definition GptGetHeaderOffset :: "nat \<Rightarrow> nat \<Rightarrow> nat \<Rightarrow> nat option" where
  "GptGetHeaderOffset BootChain DeviceSize DeviceBlockSize =
     (let PartitionAlign = max DeviceBlockSize NVIDIA_GPT_ALIGN_MIN in
      if BootChain = 0 then Some (sub64 DeviceSize NVIDIA_GPT_BLOCK_SIZE)
      else if BootChain = 1 then
        let SecondaryGptStart = sub64 DeviceSize (4 * PartitionAlign mod 2 ^ 32) in
        Some (add64 SecondaryGptStart NVIDIA_GPT_PARTITION_TABLE_SIZE)
      else None)"

definition GptGetGptDataOffset :: "nat \<Rightarrow> nat \<Rightarrow> nat \<Rightarrow> nat option" where
  "GptGetGptDataOffset BootChain DeviceSize DeviceBlockSize = do {
     GptHeaderOffset \<leftarrow> GptGetHeaderOffset BootChain DeviceSize DeviceBlockSize;
     Some (sub64 GptHeaderOffset NVIDIA_GPT_PARTITION_TABLE_SIZE) }"

definition GptGetGptDataSize :: nat where
  "GptGetGptDataSize = NVIDIA_GPT_PARTITION_TABLE_SIZE + NVIDIA_GPT_BLOCK_SIZE"

section \<open>Lemmas\<close>

lemma load64_total: "i + 8 \<le> length b \<Longrightarrow> \<exists>v. load64 b i = Some v"
  using load32_total [of i b] load32_total [of "i + 4" b] by (auto simp: load64_def)

lemma load64_bound: "load64 b i = Some v \<Longrightarrow> v < 2 ^ 64 \<and> i + 8 \<le> length b"
proof -
  assume "load64 b i = Some v"
  then obtain x y where "load32 b i = Some x" "load32 b (i + 4) = Some y" "v = x + 2 ^ 32 * y"
    by (auto simp: load64_def bind_eq_Some_conv)
  then show ?thesis using load32_bound [of b i x] load32_bound [of b "i + 4" y] by simp
qed

text \<open>A string that compares equal to \<open>s\<close> and is the string at \<open>i\<close> agrees with it on 36 characters.\<close>

lemma StrAt_Some:
  "StrAt b i = Some s \<longleftrightarrow> (\<exists>c. load16 b i = Some c \<and>
     (if c = 0 then s = [] else \<exists>s'. s = of_nat c # s' \<and> StrAt b (i + 2) = Some s'))"
  by (subst StrAt.simps) (auto split: option.splits if_splits)

lemma StrnCmpIsZeroAt_StrAt:
  "StrAt b i = Some s \<Longrightarrow> StrnCmpIsZeroAt b i s' n = Some (take n s = take n s')"
proof (induction n arbitrary: i s s')
  case (Suc n)
  from Suc.prems obtain c where c: "load16 b i = Some c"
    and s: "if c = 0 then s = [] else \<exists>r. s = of_nat c # r \<and> StrAt b (i + 2) = Some r"
    by (subst (asm) StrAt_Some) auto
  show ?case
    using s by (cases s'; cases "c = 0") (auto simp: c dest!: Suc.IH)
qed simp

text \<open>What passing the loop over the entries means.\<close>

lemma ValidateEntriesLoop_success:
  assumes "ValidateEntriesLoop t F L n p = Some EFI_SUCCESS" and "i < n"
  shows "\<exists>name. StrAt t (PartitionName_at (p + i * SIZE_OF_GPT_ENTRY)) = Some name
    \<and> (name \<noteq> [] \<longrightarrow> (\<exists>s e. StartingLBA t (p + i * SIZE_OF_GPT_ENTRY) = Some s
         \<and> EndingLBA t (p + i * SIZE_OF_GPT_ENTRY) = Some e \<and> {s, e} \<subseteq> {F..L}))"
  using assms
proof (induction n arbitrary: p i)
  case (Suc n)
  then have rest: "ValidateEntriesLoop t F L n (p + SIZE_OF_GPT_ENTRY) = Some EFI_SUCCESS"
    by (auto simp: bind_eq_Some_conv split: if_splits)
  show ?case
  proof (cases i)
    case 0
    with Suc.prems(1) show ?thesis by (auto simp: bind_eq_Some_conv split: if_splits)
  next
    case (Suc j)
    with Suc.prems(2) have "j < n" by simp
    from Suc.IH [OF rest this] Suc show ?thesis by (simp add: algebra_simps)
  qed
qed simp

lemma FindPartitionLoop_found:
  assumes "FindPartitionLoop t p Name' S n k = Some (Some q)"
  shows "\<exists>i < k + n. q = p + i * S \<and> k \<le> i
    \<and> StrnCmpIsZeroAt t (PartitionName_at q) Name' 36 = Some True"
  using assms
proof (induction n arbitrary: k)
  case (Suc n)
  then consider "q = p + k * S" "StrnCmpIsZeroAt t (PartitionName_at q) Name' 36 = Some True"
    | "FindPartitionLoop t p Name' S n (k + 1) = Some (Some q)"
    by (auto simp: bind_eq_Some_conv Let_def split: if_splits)
  then show ?case
  proof cases
    case 1
    then show ?thesis by (intro exI [of _ k]) simp
  next
    case 2
    from Suc.IH [OF this] show ?thesis by auto
  qed
qed simp

section \<open>Properties\<close>

text \<open>The header with its checksum field zeroed, over which the checksum is taken.\<close>

definition ZeroedHeader :: "byte list \<Rightarrow> nat \<Rightarrow> byte list" where
  "ZeroedHeader b h = take 16 (drop h b) @ replicate 4 0 @ take 72 (drop (h + 20) b)"

lemma zeroed_bytes:
  assumes "h + 92 \<le> length b"
  shows "\<exists>z. store_bytes b (h + 16) (bytes32 0) = Some z \<and> load_bytes z h 92 = Some (ZeroedHeader b h)"
proof -
  have "replicate 4 (0 :: byte) = [0, 0, 0, 0]"
    by (simp add: numeral_eq_Suc)
  then have "bytes32 0 = replicate 4 (0 :: byte)"
    by (simp add: bytes32_def bytes16_def)
  moreover have "take (h + 16) b = take h b @ take 16 (drop h b)"
    using assms by (simp add: take_add)
  ultimately show ?thesis
    using assms by (simp add: store_bytes_def load_bytes_def ZeroedHeader_def add.commute)
qed

lemma header_accepted:
  assumes "h + SIZE_OF_GPT_HEADER \<le> length b"
  shows "GptValidateHeader CalculateCrc32 b h = Some EFI_SUCCESS \<longleftrightarrow>
      Gpt_HeaderSize b h = Some SIZE_OF_GPT_HEADER
    \<and> Gpt_Signature b h = Some EFI_PTAB_HEADER_ID
    \<and> Gpt_CRC32 b h = Some (CalculateCrc32 (ZeroedHeader b h))
    \<and> (\<exists>EntrySize. SizeOfPartitionEntry b h = Some EntrySize \<and> SIZE_OF_GPT_ENTRY \<le> EntrySize)"
proof -
  have len: "h + 92 \<le> length b" using assms by (simp add: gpt_sizes)
  obtain hs crc sig es n where f: "Gpt_HeaderSize b h = Some hs" "Gpt_CRC32 b h = Some crc"
      "Gpt_Signature b h = Some sig" "SizeOfPartitionEntry b h = Some es"
      "NumberOfPartitionEntries b h = Some n"
    using load32_total [of "h + 12" b] load32_total [of "h + 16" b] load64_total [of h b]
      load32_total [of "h + 84" b] load32_total [of "h + 80" b] len by auto
  obtain z where z: "store_bytes b (h + 16) (bytes32 0) = Some z"
      "load_bytes z h 92 = Some (ZeroedHeader b h)"
    using zeroed_bytes [OF len] by blast
  have fits: "n \<le> MAX_UINT64 div es" if "128 \<le> es"
  proof -
    have "n * es \<le> (2 ^ 32 - 1) * (2 ^ 32 - 1)"
      using load32_bound [OF f(4)] load32_bound [OF f(5)] by (intro mult_le_mono) auto
    with that show ?thesis
      by (simp add: MAX_UINT64_def less_eq_div_iff_mult_less_eq)
  qed
  show ?thesis
    using fits z by (auto simp: GptValidateHeader_def f gpt_sizes Let_def not_less)
qed

text \<open>
  A partition table header is accepted exactly when its size field is 92, its signature and the
  checksum over the header with a zeroed checksum field are right and its entries have at least 128
  bytes. The test meant to keep the table size from overflowing rejects nothing: it compares
  with the 64-bit maximum, while the table size is computed in 32 bits and can wrap.
\<close>

theorem GptValidateHeader_iff:
  assumes "h + SIZE_OF_GPT_HEADER \<le> length b"
  shows "GptValidateHeader CalculateCrc32 b h = Some EFI_SUCCESS \<longleftrightarrow>
      Gpt_HeaderSize b h = Some SIZE_OF_GPT_HEADER
    \<and> Gpt_Signature b h = Some EFI_PTAB_HEADER_ID
    \<and> Gpt_CRC32 b h = Some (CalculateCrc32 (ZeroedHeader b h))
    \<and> (\<exists>EntrySize. SizeOfPartitionEntry b h = Some EntrySize \<and> SIZE_OF_GPT_ENTRY \<le> EntrySize)"
  using assms by (rule header_accepted)

definition exampleHeader :: "byte list" where
  "exampleHeader = [0x45, 0x46, 0x49, 0x20, 0x50, 0x41, 0x52, 0x54, 0, 0, 1, 0, 92, 0, 0, 0]
     @ replicate 24 0 @ [34, 0, 0, 0, 0, 0, 0, 0, 100, 0, 0, 0, 0, 0, 0, 0] @ replicate 24 0
     @ [1, 0, 0, 0, 128, 0, 0, 0, 0, 0, 0, 0]"

text \<open>One entry named \<open>A\<close>, from block 40 to block 50.\<close>

definition exampleTable :: "byte list" where
  "exampleTable = replicate 32 0 @ [40, 0, 0, 0, 0, 0, 0, 0, 50, 0, 0, 0, 0, 0, 0, 0]
     @ replicate 8 0 @ [0x41] @ replicate 71 0"

lemmas load_defs = load8_def load16_def load32_def load64_def

lemma exampleHeader_fields:
  "length exampleHeader = 92"
  "Gpt_HeaderSize exampleHeader 0 = Some 92" "Gpt_CRC32 exampleHeader 0 = Some 0"
  "Gpt_Signature exampleHeader 0 = Some EFI_PTAB_HEADER_ID"
  "FirstUsableLBA exampleHeader 0 = Some 34" "LastUsableLBA exampleHeader 0 = Some 100"
  "NumberOfPartitionEntries exampleHeader 0 = Some 1"
  "SizeOfPartitionEntry exampleHeader 0 = Some 128"
  "PartitionEntryArrayCRC32 exampleHeader 0 = Some 0"
  by (simp_all add: exampleHeader_def load_defs nth_append EFI_PTAB_HEADER_ID_def)

lemma exampleTable_fields:
  "length exampleTable = 128"
  "StartingLBA exampleTable 0 = Some 40" "EndingLBA exampleTable 0 = Some 50"
  "load16 exampleTable 56 = Some 0x41" "load16 exampleTable 58 = Some 0"
  by (simp_all add: exampleTable_def load_defs nth_append)

theorem GptValidateHeader_iff_witness:
  "GptValidateHeader (\<lambda>_. 0) exampleHeader 0 = Some EFI_SUCCESS"
  using GptValidateHeader_iff [of 0 exampleHeader "\<lambda>_. 0"] exampleHeader_fields
  by (simp add: gpt_sizes)

text \<open>
  C32: When a partition table was validated whose header declares entries of the standard 128 bytes, every entry that
  \<open>GptFindPartitionByName\<close> finds in it by a non-empty name has its first and its last block in the usable range that the
  header declares. Whether the last block lies behind the first one is not checked.
\<close>

theorem found_partition_in_range:
  assumes "GptValidatePartitionTable CalculateCrc32 b h t p = Some EFI_SUCCESS"
    and "SizeOfPartitionEntry b h = Some SIZE_OF_GPT_ENTRY"
    and "GptFindPartitionByName b h t p Name' = Some (Some q)" and "Name' \<noteq> []"
  shows "\<exists>First Last' s e. FirstUsableLBA b h = Some First \<and> LastUsableLBA b h = Some Last'
    \<and> StartingLBA t q = Some s \<and> EndingLBA t q = Some e \<and> {s, e} \<subseteq> {First..Last'}"
proof -
  from assms(1) obtain F L n where v: "FirstUsableLBA b h = Some F" "LastUsableLBA b h = Some L"
      "NumberOfPartitionEntries b h = Some n" "ValidateEntriesLoop t F L n p = Some EFI_SUCCESS"
    by (auto simp: GptValidatePartitionTable_def bind_eq_Some_conv Let_def split: if_splits)
  from assms(2,3) v(3) have "FindPartitionLoop t p Name' SIZE_OF_GPT_ENTRY n 0 = Some (Some q)"
    by (simp add: GptFindPartitionByName_def)
  then obtain i where i: "i < n" "q = p + i * SIZE_OF_GPT_ENTRY"
      "StrnCmpIsZeroAt t (PartitionName_at q) Name' 36 = Some True"
    by (auto dest!: FindPartitionLoop_found)
  from ValidateEntriesLoop_success [OF v(4) i(1)] obtain name
    where name: "StrAt t (PartitionName_at q) = Some name"
      "name \<noteq> [] \<longrightarrow> (\<exists>s e. StartingLBA t q = Some s \<and> EndingLBA t q = Some e \<and> {s, e} \<subseteq> {F..L})"
    unfolding i(2) by blast
  from StrnCmpIsZeroAt_StrAt [OF name(1)] i(3) assms(4) have "name \<noteq> []" by auto
  with name(2) v show ?thesis by auto
qed

lemma exampleTable_valid:
  "GptValidatePartitionTable (\<lambda>_. 0) exampleHeader 0 exampleTable 0 = Some EFI_SUCCESS"
  "GptFindPartitionByName exampleHeader 0 exampleTable 0 [0x41] = Some (Some 0)"
proof -
  have "StrAt exampleTable 56 = Some [0x41]"
    using exampleTable_fields by (subst StrAt_Some, simp) (subst StrAt_Some, simp)
  then show "GptValidatePartitionTable (\<lambda>_. 0) exampleHeader 0 exampleTable 0 = Some EFI_SUCCESS"
    using exampleHeader_fields exampleTable_fields
    by (simp add: GptValidatePartitionTable_def GptPartitionTableSizeInBytes_def load_bytes_def)
  show "GptFindPartitionByName exampleHeader 0 exampleTable 0 [0x41] = Some (Some 0)"
    using exampleHeader_fields exampleTable_fields
    by (simp add: GptFindPartitionByName_def numeral_eq_Suc)
qed

theorem found_partition_in_range_witness:
  "\<exists>First Last' s e. FirstUsableLBA exampleHeader 0 = Some First
    \<and> LastUsableLBA exampleHeader 0 = Some Last'
    \<and> StartingLBA exampleTable 0 = Some s \<and> EndingLBA exampleTable 0 = Some e
    \<and> {s, e} \<subseteq> {First..Last'}"
  by (rule found_partition_in_range [OF exampleTable_valid(1) _ exampleTable_valid(2)])
     (use exampleHeader_fields in \<open>simp_all add: gpt_sizes\<close>)

text \<open>
  The two copies of the table never overlap: on a device of at least four partition alignments
  the copy of each boot chain, table and header, lies inside the device, the header directly
  behind its table, and the copy of chain 1 ends before the copy of chain 0 begins.
\<close>

theorem gpt_copies_disjoint:
  assumes "4 * max DeviceBlockSize NVIDIA_GPT_ALIGN_MIN \<le> DeviceSize"
    and "DeviceSize < 2 ^ 64" and "DeviceBlockSize < 2 ^ 30"
  shows "\<exists>d0 d1. GptGetGptDataOffset 0 DeviceSize DeviceBlockSize = Some d0
    \<and> GptGetGptDataOffset 1 DeviceSize DeviceBlockSize = Some d1
    \<and> GptGetHeaderOffset 0 DeviceSize DeviceBlockSize = Some (d0 + NVIDIA_GPT_PARTITION_TABLE_SIZE)
    \<and> GptGetHeaderOffset 1 DeviceSize DeviceBlockSize = Some (d1 + NVIDIA_GPT_PARTITION_TABLE_SIZE)
    \<and> d1 + GptGetGptDataSize \<le> d0 \<and> d0 + GptGetGptDataSize = DeviceSize"
proof -
  define A where "A = max DeviceBlockSize NVIDIA_GPT_ALIGN_MIN"
  have A: "65536 \<le> A" "4 * A \<le> DeviceSize" "4 * A < 2 ^ 32"
    using assms by (auto simp: A_def gpt_sizes)
  have h: "GptGetHeaderOffset 0 DeviceSize DeviceBlockSize = Some (DeviceSize - 512)"
    using A assms(2) by (simp add: GptGetHeaderOffset_def gpt_sizes sub64_le)
  have h1: "GptGetHeaderOffset 1 DeviceSize DeviceBlockSize = Some (DeviceSize - 4 * A + 16384)"
    using A assms(2) add64_less [of "DeviceSize - 4 * A" 16384]
    by (simp add: GptGetHeaderOffset_def Let_def sub64_le flip: A_def) (simp add: gpt_sizes)
  have "GptGetGptDataOffset 0 DeviceSize DeviceBlockSize = Some (DeviceSize - 512 - 16384)"
      "GptGetGptDataOffset 1 DeviceSize DeviceBlockSize = Some (DeviceSize - 4 * A)"
    using A assms(2) sub64_le [of 16384 "DeviceSize - 4 * A + 16384"]
    by (simp_all add: GptGetGptDataOffset_def h h1 [unfolded One_nat_def] gpt_sizes sub64_le)
  with h h1 A show ?thesis by (auto simp: GptGetGptDataSize_def gpt_sizes)
qed

theorem gpt_copies_disjoint_witness:
  "\<exists>d0 d1. GptGetGptDataOffset 0 0x4000000 0x10000 = Some d0
    \<and> GptGetGptDataOffset 1 0x4000000 0x10000 = Some d1
    \<and> GptGetHeaderOffset 0 0x4000000 0x10000 = Some (d0 + NVIDIA_GPT_PARTITION_TABLE_SIZE)
    \<and> GptGetHeaderOffset 1 0x4000000 0x10000 = Some (d1 + NVIDIA_GPT_PARTITION_TABLE_SIZE)
    \<and> d1 + GptGetGptDataSize \<le> d0 \<and> d0 + GptGetGptDataSize = 0x4000000"
  by (rule gpt_copies_disjoint) (simp_all add: gpt_sizes)

end
