(* ===== verification/FwPartition.thy ===== *)
theory FwPartition
  imports GptLib
begin

text \<open>
  \<open>FwPartitionDeviceLib.c\<close>: the registry of firmware partitions that the partition drivers share,
  the checked access to a partition, and the pseudo partition through which an update of the
  partition table moves the partitions of the inactive boot chain.

  The array \<open>mPrivate\<close> is the list of its first \<open>mNumFwPartitions\<close> elements, a pointer into it an
  index. A device is one of the drivers' devices, by number, or the pseudo device with the device
  of the management mode it passes writes to. What the devices do to the world is the record
  \<open>DEVICE_OPS\<close>. A call that dereferences a null function pointer, reads past a buffer or fails an
  \<open>ASSERT\<close> has no result. Pointer conversion for the runtime phase and log output are left out.
\<close>

section \<open>Data\<close>

record FW_PARTITION_INFO =
  Name :: wstring
  Bytes :: nat
  Offset :: nat
  IsActivePartition :: bool

datatype FW_PARTITION_DEVICE_INFO = Device nat | PseudoDevice (MmDeviceInfo: "nat option")

record FW_PARTITION_PRIVATE_DATA =
  PartitionInfo :: FW_PARTITION_INFO
  DeviceInfo :: FW_PARTITION_DEVICE_INFO

record FW_PARTITION_GLOBALS =
  mPrivate :: "FW_PARTITION_PRIVATE_DATA list"
  mMaxFwPartitions :: nat
  mActiveBootChain :: nat
  mOverwriteActiveFwPartition :: bool
  mChipId :: nat
  mGptBootChain :: nat

record FW_PARTITION_ATTRIBUTES =
  AttrBytes :: nat
  AttrBlockSize :: nat
  AttrEraseBlockSize :: nat

text \<open>
  The operations of the drivers' devices, on a device number: name, offset, length, the buffer or
  the data, and the world.
\<close>

record 'w DEVICE_OPS =
  DeviceRead :: "nat \<Rightarrow> wstring \<Rightarrow> nat \<Rightarrow> nat \<Rightarrow> byte list \<Rightarrow> 'w
    \<Rightarrow> (EFI_STATUS \<times> byte list \<times> 'w) option"
  DevicePrmRead :: "nat \<Rightarrow> wstring \<Rightarrow> nat \<Rightarrow> nat \<Rightarrow> byte list \<Rightarrow> 'w
    \<Rightarrow> (EFI_STATUS \<times> byte list \<times> 'w) option"
  DeviceWrite :: "nat \<Rightarrow> wstring \<Rightarrow> nat \<Rightarrow> nat \<Rightarrow> byte list \<Rightarrow> 'w \<Rightarrow> (EFI_STATUS \<times> 'w) option"
  DeviceBlockSize :: "nat \<Rightarrow> nat"
  DeviceEraseBlockSize :: "nat \<Rightarrow> nat"

text \<open>
  EDK2 services outside the repository: the string copies, the checksum, and the pool, which for a
  size gives the content of a new buffer or fails.
\<close>

record EDK2_SERVICES =
  Strings :: EDK2_STRINGS
  CalculateCrc32 :: "byte list \<Rightarrow> nat"
  AllocatePool :: "nat \<Rightarrow> byte list option"

section \<open>Names\<close>

definition W :: "string \<Rightarrow> wstring" where "W s = map (\<lambda>c. of_nat (of_char c)) s"

definition FW_PARTITION_UPDATE_INACTIVE_PARTITIONS :: wstring where
  "FW_PARTITION_UPDATE_INACTIVE_PARTITIONS = W ''update_inactive_partitions''"

definition NonABPartitionNames :: "wstring list" where
  "NonABPartitionNames = [W ''BCT'', W ''BCT-boot-chain_backup'', W ''mb2-applet'',
     W ''NorFlash-Blob'', W ''MM-NorFlash'', W ''MM-RAS'', W ''MM-Capsule'',
     FW_PARTITION_UPDATE_INACTIVE_PARTITIONS]"

definition GptPseudoPartitionName :: "wstring list" where
  "GptPseudoPartitionName = [W ''A_GPT'', W ''B_GPT'']"

definition FW_PARTITION_NAME_LENGTH :: nat where "FW_PARTITION_NAME_LENGTH = 36"

definition OTHER_BOOT_CHAIN :: "nat \<Rightarrow> nat" where "OTHER_BOOT_CHAIN BootChain = BootChain XOR 1"

primrec NameIsInList :: "wstring \<Rightarrow> wstring list \<Rightarrow> bool" where
  "NameIsInList Name' [] = False"
| "NameIsInList Name' (x # List') = (Name' = x \<or> NameIsInList Name' List')"

definition FwPartitionIsActive ::
  "EDK2_SERVICES \<Rightarrow> FW_PARTITION_GLOBALS \<Rightarrow> wstring \<Rightarrow> bool option" where
  "FwPartitionIsActive S G Name' =
     (if NameIsInList Name' NonABPartitionNames then Some False
      else do {
        (Status, BaseName, BootChain) \<leftarrow>
          GetPartitionBaseNameAndBootChainAny (Strings S) (Some Name') (Some []) (Some 0);
        if EFI_ERROR Status then Some True
        else Some (BootChain = Some (mActiveBootChain G)) })"

section \<open>The registry\<close>

text \<open>\<open>FindFrom\<close> is the index of the first partition with the name, counted from \<open>Index\<close>.\<close>

primrec FindFrom :: "wstring \<Rightarrow> FW_PARTITION_PRIVATE_DATA list \<Rightarrow> nat \<Rightarrow> nat option" where
  "FindFrom Name' [] Index = None"
| "FindFrom Name' (P # Ps) Index =
     (if Name (PartitionInfo P) = Name' then Some Index else FindFrom Name' Ps (Index + 1))"

definition FwPartitionFindByName :: "FW_PARTITION_GLOBALS \<Rightarrow> wstring \<Rightarrow> nat option" where
  "FwPartitionFindByName G Name' = FindFrom Name' (mPrivate G) 0"

definition FwPartitionGetCount :: "FW_PARTITION_GLOBALS \<Rightarrow> nat" where
  "FwPartitionGetCount G = length (mPrivate G)"

definition FwPartitionGetPrivateArray :: "FW_PARTITION_GLOBALS \<Rightarrow> FW_PARTITION_PRIVATE_DATA list" where
  "FwPartitionGetPrivateArray G = mPrivate G"

text \<open>
  The initialization of the next element, which \<open>FwPartitionAdd\<close> and \<open>FwDeviceAddAsPartition\<close> share.
  The element is still zero, so that a refused copy leaves an empty name.
\<close>

definition AppendPartition ::
  "EDK2_SERVICES \<Rightarrow> FW_PARTITION_GLOBALS \<Rightarrow> wstring \<Rightarrow> FW_PARTITION_DEVICE_INFO \<Rightarrow> nat \<Rightarrow> nat
   \<Rightarrow> (EFI_STATUS \<times> FW_PARTITION_GLOBALS) option" where
  "AppendPartition S G Name' Device' Offset' Bytes' = do {
     Active \<leftarrow> FwPartitionIsActive S G Name';
     let Copied = snd (StrnCpyS (Strings S) FW_PARTITION_NAME_LENGTH Name' (length Name') []);
     let Private = \<lparr> PartitionInfo = \<lparr> Name = Copied, Bytes = Bytes', Offset = Offset',
                                        IsActivePartition = Active \<rparr>,
                     DeviceInfo = Device' \<rparr>;
     Some (EFI_SUCCESS, G\<lparr>mPrivate := mPrivate G @ [Private]\<rparr>) }"

definition FwPartitionAdd ::
  "EDK2_SERVICES \<Rightarrow> FW_PARTITION_GLOBALS \<Rightarrow> wstring \<Rightarrow> FW_PARTITION_DEVICE_INFO \<Rightarrow> nat \<Rightarrow> nat
   \<Rightarrow> (EFI_STATUS \<times> FW_PARTITION_GLOBALS) option" where
  "FwPartitionAdd S G Name' Device' Offset' Bytes' =
     (if length (mPrivate G) \<ge> mMaxFwPartitions G then Some (EFI_OUT_OF_RESOURCES, G)
      else if FwPartitionFindByName G Name' \<noteq> None then Some (EFI_ALREADY_STARTED, G)
      else AppendPartition S G Name' Device' Offset' Bytes')"

text \<open>
  \<open>GetPartitionData\<close> looks a partition up in what the secure boot loader passed to the management
  mode; it is a parameter here, with the offset and the size it reports.
\<close>

datatype CPUBL_PARTITION =
  TEGRABL_RAS_ERROR_LOGS | TEGRABL_CMET | TEGRABL_EARLY_BOOT_VARS | TEGRAUEFI_CAPSULE

definition AddSubPartition ::
  "EDK2_SERVICES \<Rightarrow> (CPUBL_PARTITION \<Rightarrow> EFI_STATUS \<times> nat \<times> nat) \<Rightarrow> FW_PARTITION_DEVICE_INFO
   \<Rightarrow> CPUBL_PARTITION \<Rightarrow> wstring \<Rightarrow> FW_PARTITION_GLOBALS \<Rightarrow> FW_PARTITION_GLOBALS option" where
  "AddSubPartition S GetPartitionData Device' Which Name' G =
     (case GetPartitionData Which of (Status, PartitionByteOffset, PartitionSize) \<Rightarrow>
        if EFI_ERROR Status then Some G
        else do {
          (_, G') \<leftarrow> FwPartitionAdd S G Name' Device' PartitionByteOffset PartitionSize;
          Some G' })"

definition FwDeviceAddAsPartition ::
  "EDK2_SERVICES \<Rightarrow> (CPUBL_PARTITION \<Rightarrow> EFI_STATUS \<times> nat \<times> nat) \<Rightarrow> FW_PARTITION_GLOBALS \<Rightarrow> wstring
   \<Rightarrow> FW_PARTITION_DEVICE_INFO \<Rightarrow> nat \<Rightarrow> nat \<Rightarrow> (EFI_STATUS \<times> FW_PARTITION_GLOBALS) option" where
  "FwDeviceAddAsPartition S GetPartitionData G Name' Device' Offset' Bytes' =
     (if length (mPrivate G) \<ge> mMaxFwPartitions G then Some (EFI_OUT_OF_RESOURCES, G)
      else if Name' = W ''MM-NorFlash'' then do {
        G \<leftarrow> AddSubPartition S GetPartitionData Device' TEGRABL_RAS_ERROR_LOGS (W ''MM-RAS'') G;
        G \<leftarrow> AddSubPartition S GetPartitionData Device' TEGRABL_CMET (W ''MM-CMET'') G;
        G \<leftarrow> AddSubPartition S GetPartitionData Device' TEGRABL_EARLY_BOOT_VARS (W ''MM-EBV'') G;
        G \<leftarrow> AddSubPartition S GetPartitionData Device' TEGRAUEFI_CAPSULE (W ''MM-Capsule'') G;
        Some (EFI_SUCCESS, G) }
      else if length (mPrivate G) \<ge> mMaxFwPartitions G then Some (EFI_OUT_OF_RESOURCES, G)
      else AppendPartition S G Name' Device' Offset' Bytes')"

text \<open>\<open>sizeof (FW_PARTITION_PSEUDO_DEVICE_INFO)\<close> with 64-bit pointers.\<close>

definition SIZE_OF_PSEUDO_DEVICE_INFO :: nat where "SIZE_OF_PSEUDO_DEVICE_INFO = 56"

definition FwPartitionAddPseudoPartition ::
  "EDK2_SERVICES \<Rightarrow> FW_PARTITION_GLOBALS \<Rightarrow> nat option \<Rightarrow> (EFI_STATUS \<times> FW_PARTITION_GLOBALS) option" where
  "FwPartitionAddPseudoPartition S G Mm =
     (if AllocatePool S SIZE_OF_PSEUDO_DEVICE_INFO = None then Some (EFI_OUT_OF_RESOURCES, G)
      else FwPartitionAdd S G FW_PARTITION_UPDATE_INACTIVE_PARTITIONS (PseudoDevice Mm) 0
             GptGetGptDataSize)"

section \<open>Access to a partition\<close>

definition FwPartitionCheckOffsetAndBytes :: "nat \<Rightarrow> nat \<Rightarrow> nat \<Rightarrow> EFI_STATUS" where
  "FwPartitionCheckOffsetAndBytes MaxOffset Offset' Bytes' =
     (if Offset' > MaxOffset \<or> Bytes' > MaxOffset \<or> add64 Offset' Bytes' > MaxOffset
      then EFI_INVALID_PARAMETER else EFI_SUCCESS)"

text \<open>
  \<open>This\<close> is the index of the partition whose protocol is called, \<open>None\<close> a null pointer. The pseudo
  device has null read functions.
\<close>

definition FwPartitionGetAttributes ::
  "'w DEVICE_OPS \<Rightarrow> FW_PARTITION_GLOBALS \<Rightarrow> nat option \<Rightarrow> FW_PARTITION_ATTRIBUTES option
   \<Rightarrow> (EFI_STATUS \<times> FW_PARTITION_ATTRIBUTES option) option" where
  "FwPartitionGetAttributes D G This Attributes =
     (case (This, Attributes) of
        (Some i, Some _) \<Rightarrow>
          if i < length (mPrivate G) then
            let Private = mPrivate G ! i;
                Sizes = (case DeviceInfo Private of
                    Device d \<Rightarrow> (DeviceBlockSize D d, DeviceEraseBlockSize D d)
                  | PseudoDevice _ \<Rightarrow> (1, 1)) in
            Some (EFI_SUCCESS,
                  Some \<lparr> AttrBytes = Bytes (PartitionInfo Private), AttrBlockSize = fst Sizes,
                         AttrEraseBlockSize = snd Sizes \<rparr>)
          else None
      | _ \<Rightarrow> Some (EFI_INVALID_PARAMETER, Attributes))"

definition FwPartitionRead ::
  "'w DEVICE_OPS \<Rightarrow> FW_PARTITION_GLOBALS \<Rightarrow> nat option \<Rightarrow> nat \<Rightarrow> nat \<Rightarrow> byte list option \<Rightarrow> 'w
   \<Rightarrow> (EFI_STATUS \<times> byte list option \<times> 'w) option" where
  "FwPartitionRead D G This Offset' Bytes' Buffer w =
     (case (This, Buffer) of
        (Some i, Some buf) \<Rightarrow>
          if i < length (mPrivate G) then
            let Private = mPrivate G ! i; Info = PartitionInfo Private;
                Status = FwPartitionCheckOffsetAndBytes (Bytes Info) Offset' Bytes' in
            if EFI_ERROR Status then Some (Status, Buffer, w)
            else (case DeviceInfo Private of
                Device d \<Rightarrow>
                  do {
                    (Status, buf', w') \<leftarrow>
                      DeviceRead D d (Name Info) (add64 Offset' (Offset Info)) Bytes' buf w;
                    Some (Status, Some buf', w') }
              | PseudoDevice _ \<Rightarrow> None)
          else None
      | _ \<Rightarrow> Some (EFI_INVALID_PARAMETER, Buffer, w))"

definition FwPartitionPrmRead ::
  "'w DEVICE_OPS \<Rightarrow> FW_PARTITION_GLOBALS \<Rightarrow> nat option \<Rightarrow> nat \<Rightarrow> nat \<Rightarrow> byte list option \<Rightarrow> 'w
   \<Rightarrow> (EFI_STATUS \<times> byte list option \<times> 'w) option" where
  "FwPartitionPrmRead D G This Offset' Bytes' Buffer w =
     (case (This, Buffer) of
        (Some i, Some buf) \<Rightarrow>
          if i < length (mPrivate G) then
            let Private = mPrivate G ! i; Info = PartitionInfo Private;
                Status = FwPartitionCheckOffsetAndBytes (Bytes Info) Offset' Bytes' in
            if EFI_ERROR Status then Some (Status, Buffer, w)
            else (case DeviceInfo Private of
                Device d \<Rightarrow>
                  do {
                    (Status, buf', w') \<leftarrow>
                      DevicePrmRead D d (Name Info) (add64 Offset' (Offset Info)) Bytes' buf w;
                    Some (Status, Some buf', w') }
              | PseudoDevice _ \<Rightarrow> None)
          else None
      | _ \<Rightarrow> Some (EFI_INVALID_PARAMETER, Buffer, w))"

section \<open>Moving the partitions of the inactive boot chain\<close>

text \<open>The search for a protected partition other than \<open>k\<close> that the new range would meet.\<close>

definition Protected :: "FW_PARTITION_PRIVATE_DATA \<Rightarrow> bool" where
  "Protected P \<longleftrightarrow> IsActivePartition (PartitionInfo P)
                  \<or> NameIsInList (Name (PartitionInfo P)) NonABPartitionNames"

definition Overlaps :: "FW_PARTITION_GLOBALS \<Rightarrow> nat \<Rightarrow> nat \<Rightarrow> nat \<Rightarrow> bool" where
  "Overlaps G k NewOffset NewBytes \<longleftrightarrow>
     find (\<lambda>i. let Other = mPrivate G ! i;
                   OtherStart = Offset (PartitionInfo Other);
                   OtherEnd = add64 OtherStart (Bytes (PartitionInfo Other));
                   NewEnd = add64 NewOffset NewBytes in
               i \<noteq> k \<and> Protected Other \<and> NewOffset < OtherEnd \<and> OtherStart < NewEnd)
          [0..<length (mPrivate G)] \<noteq> None"

definition SetRange :: "FW_PARTITION_GLOBALS \<Rightarrow> nat \<Rightarrow> nat \<Rightarrow> nat \<Rightarrow> FW_PARTITION_GLOBALS" where
  "SetRange G k NewOffset NewBytes =
     (let P = mPrivate G ! k in
      G\<lparr>mPrivate := (mPrivate G)[k := P\<lparr>PartitionInfo :=
          (PartitionInfo P)\<lparr>Offset := NewOffset, Bytes := NewBytes\<rparr>\<rparr>]\<rparr>)"

text \<open>One known partition of the inactive chain; a product is taken in 64 bits.\<close>

definition MovePartition ::
  "FW_PARTITION_GLOBALS \<Rightarrow> nat option \<Rightarrow> nat \<Rightarrow> nat \<Rightarrow> nat \<Rightarrow> EFI_STATUS \<times> FW_PARTITION_GLOBALS" where
  "MovePartition G Mm k start Blocks =
     (if start > MAX_UINT64 div NVIDIA_GPT_BLOCK_SIZE \<or> Blocks > MAX_UINT64 div NVIDIA_GPT_BLOCK_SIZE
      then (EFI_SECURITY_VIOLATION, G)
      else
        let NewOffset = (if Mm = None then start * NVIDIA_GPT_BLOCK_SIZE mod 2 ^ 64
                         else Offset (PartitionInfo (mPrivate G ! k)));
            NewBytes = Blocks * NVIDIA_GPT_BLOCK_SIZE mod 2 ^ 64 in
        if sub64 MAX_UINT64 NewOffset < NewBytes then (EFI_SECURITY_VIOLATION, G)
        else if Overlaps G k NewOffset NewBytes then (EFI_SECURITY_VIOLATION, G)
        else (EFI_SUCCESS, SetRange G k NewOffset NewBytes))"

text \<open>A partition the registry does not know is added on the device of the partition \<open>BCT\<close>.\<close>

definition AddNewPartition ::
  "EDK2_SERVICES \<Rightarrow> FW_PARTITION_GLOBALS \<Rightarrow> nat option \<Rightarrow> wstring \<Rightarrow> nat \<Rightarrow> nat
   \<Rightarrow> (EFI_STATUS \<times> FW_PARTITION_GLOBALS) option" where
  "AddNewPartition S G Mm Name' start Blocks =
     (case FwPartitionFindByName G (W ''BCT'') of
        None \<Rightarrow> Some (EFI_DEVICE_ERROR, G)
      | Some Bct \<Rightarrow>
          FwPartitionAdd S G Name' (DeviceInfo (mPrivate G ! Bct))
            (if Mm = None then start * NVIDIA_GPT_BLOCK_SIZE mod 2 ^ 64 else 0)
            (Blocks * NVIDIA_GPT_BLOCK_SIZE mod 2 ^ 64))"

text \<open>The loop over \<open>n\<close> entries of the new table from offset \<open>p\<close> on.\<close>

primrec UpdateEntriesLoop ::
  "EDK2_SERVICES \<Rightarrow> nat option \<Rightarrow> byte list \<Rightarrow> nat \<Rightarrow> nat \<Rightarrow> FW_PARTITION_GLOBALS
   \<Rightarrow> (EFI_STATUS \<times> FW_PARTITION_GLOBALS) option" where
  "UpdateEntriesLoop S Mm t 0 p G = Some (EFI_SUCCESS, G)"
| "UpdateEntriesLoop S Mm t (Suc n) p G = do {
     Name' \<leftarrow> StrAt t (PartitionName_at p);
     if Name' = [] then UpdateEntriesLoop S Mm t n (p + SIZE_OF_GPT_ENTRY) G
     else do {
       (Status, BaseName, PartitionBootChain) \<leftarrow>
         GetPartitionBaseNameAndBootChainAny (Strings S) (Some Name') (Some []) (Some 0);
       if EFI_ERROR Status then UpdateEntriesLoop S Mm t n (p + SIZE_OF_GPT_ENTRY) G
       else do {
         start \<leftarrow> StartingLBA t p;
         Blocks \<leftarrow> GptPartitionSizeInBlocks t p;
         (Status, G') \<leftarrow> (case FwPartitionFindByName G Name' of
             None \<Rightarrow> AddNewPartition S G Mm Name' start Blocks
           | Some k \<Rightarrow>
               if PartitionBootChain \<noteq> Some (OTHER_BOOT_CHAIN (mActiveBootChain G))
               then Some (EFI_SUCCESS, G)
               else Some (MovePartition G Mm k start Blocks));
         if EFI_ERROR Status then Some (Status, G')
         else UpdateEntriesLoop S Mm t n (p + SIZE_OF_GPT_ENTRY) G' } } }"

definition FwPartitionWriteToUpdateInactivePartitions ::
  "EDK2_SERVICES \<Rightarrow> 'w DEVICE_OPS \<Rightarrow> FW_PARTITION_GLOBALS \<Rightarrow> wstring \<Rightarrow> nat option \<Rightarrow> nat \<Rightarrow> nat
   \<Rightarrow> byte list \<Rightarrow> 'w \<Rightarrow> (EFI_STATUS \<times> FW_PARTITION_GLOBALS \<times> 'w) option" where
  "FwPartitionWriteToUpdateInactivePartitions S D G PartitionName Mm Offset' Bytes' Buffer w = do {
     AlignedBuffer \<leftarrow> load_bytes Buffer 0 Bytes';
     if AllocatePool S Bytes' = None then Some (EFI_OUT_OF_RESOURCES, G, w)
     else do {
       let GptHeader = NVIDIA_GPT_PARTITION_TABLE_SIZE;
       Status \<leftarrow> GptValidateHeader (CalculateCrc32 S) AlignedBuffer GptHeader;
       if EFI_ERROR Status then Some (Status, G, w)
       else do {
         Status \<leftarrow> GptValidatePartitionTable (CalculateCrc32 S) AlignedBuffer GptHeader AlignedBuffer 0;
         if EFI_ERROR Status then Some (Status, G, w)
         else do {
           Entries \<leftarrow> NumberOfPartitionEntries AlignedBuffer GptHeader;
           (Status, G') \<leftarrow> UpdateEntriesLoop S Mm AlignedBuffer Entries 0 G;
           if EFI_ERROR Status then Some (Status, G', w)
           else (case Mm of
               None \<Rightarrow> Some (EFI_SUCCESS, G', w)
             | Some d \<Rightarrow> do {
                 (Status, w') \<leftarrow> DeviceWrite D d PartitionName Offset' Bytes' Buffer w;
                 Some (Status, G', w') }) } } } }"

definition FwPartitionWrite ::
  "EDK2_SERVICES \<Rightarrow> 'w DEVICE_OPS \<Rightarrow> FW_PARTITION_GLOBALS \<Rightarrow> nat option \<Rightarrow> nat \<Rightarrow> nat
   \<Rightarrow> byte list option \<Rightarrow> 'w \<Rightarrow> (EFI_STATUS \<times> FW_PARTITION_GLOBALS \<times> 'w) option" where
  "FwPartitionWrite S D G This Offset' Bytes' Buffer w =
     (case (This, Buffer) of
        (Some i, Some buf) \<Rightarrow>
          if i < length (mPrivate G) then
            let Private = mPrivate G ! i; Info = PartitionInfo Private;
                Status = FwPartitionCheckOffsetAndBytes (Bytes Info) Offset' Bytes' in
            if EFI_ERROR Status then Some (Status, G, w)
            else if IsActivePartition Info \<and> \<not> mOverwriteActiveFwPartition G then
              Some (EFI_WRITE_PROTECTED, G, w)
            else (case DeviceInfo Private of
                Device d \<Rightarrow>
                  do {
                    (Status, w') \<leftarrow>
                      DeviceWrite D d (Name Info) (add64 Offset' (Offset Info)) Bytes' buf w;
                    Some (Status, G, w') }
              | PseudoDevice Mm \<Rightarrow>
                  FwPartitionWriteToUpdateInactivePartitions S D G (Name Info) Mm
                    (add64 Offset' (Offset Info)) Bytes' buf w)
          else None
      | _ \<Rightarrow> Some (EFI_INVALID_PARAMETER, G, w))"

section \<open>Filling the registry from a partition table\<close>

text \<open>\<open>Status\<close> is the value the loop has left in the variable of that name so far.\<close>

primrec AddEntriesLoop ::
  "EDK2_SERVICES \<Rightarrow> FW_PARTITION_DEVICE_INFO \<Rightarrow> byte list \<Rightarrow> nat \<Rightarrow> nat \<Rightarrow> EFI_STATUS
   \<Rightarrow> FW_PARTITION_GLOBALS \<Rightarrow> (EFI_STATUS \<times> FW_PARTITION_GLOBALS) option" where
  "AddEntriesLoop S Device' t 0 p Status G = Some (Status, G)"
| "AddEntriesLoop S Device' t (Suc n) p Status G = do {
     Name' \<leftarrow> StrAt t (PartitionName_at p);
     if Name' = [] then AddEntriesLoop S Device' t n (p + SIZE_OF_GPT_ENTRY) Status G
     else do {
       (Status, BaseName, PartitionBootChain) \<leftarrow>
         GetPartitionBaseNameAndBootChainAny (Strings S) (Some Name') (Some []) (Some 0);
       if EFI_ERROR Status then AddEntriesLoop S Device' t n (p + SIZE_OF_GPT_ENTRY) Status G
       else do {
         start \<leftarrow> StartingLBA t p;
         Blocks \<leftarrow> GptPartitionSizeInBlocks t p;
         (Status, G') \<leftarrow> FwPartitionAdd S G Name' Device'
           (start * NVIDIA_GPT_BLOCK_SIZE mod 2 ^ 64) (Blocks * NVIDIA_GPT_BLOCK_SIZE mod 2 ^ 64);
         if EFI_ERROR Status then Some (Status, G')
         else AddEntriesLoop S Device' t n (p + SIZE_OF_GPT_ENTRY) Status G' } } }"

definition FwPartitionAddFromPartitionTable ::
  "EDK2_SERVICES \<Rightarrow> FW_PARTITION_GLOBALS \<Rightarrow> byte list \<Rightarrow> byte list \<Rightarrow> FW_PARTITION_DEVICE_INFO
   \<Rightarrow> (EFI_STATUS \<times> FW_PARTITION_GLOBALS) option" where
  "FwPartitionAddFromPartitionTable S G GptHeader PartitionTable Device' = do {
     Status \<leftarrow> GptValidatePartitionTable (CalculateCrc32 S) GptHeader 0 PartitionTable 0;
     if EFI_ERROR Status then Some (Status, G)
     else do {
       Entries \<leftarrow> NumberOfPartitionEntries GptHeader 0;
       AddEntriesLoop S Device' PartitionTable Entries 0 Status G } }"

text \<open>The pseudo partitions for updates of the two copies of the table, from chain \<open>BootChain\<close> on.\<close>

primrec AddGptPartitions ::
  "EDK2_SERVICES \<Rightarrow> 'w DEVICE_OPS \<Rightarrow> nat \<Rightarrow> nat \<Rightarrow> nat \<Rightarrow> nat \<Rightarrow> FW_PARTITION_GLOBALS
   \<Rightarrow> (EFI_STATUS \<times> FW_PARTITION_GLOBALS) option" where
  "AddGptPartitions S D d DeviceSizeInBytes 0 BootChain G = Some (EFI_SUCCESS, G)"
| "AddGptPartitions S D d DeviceSizeInBytes (Suc n) BootChain G = do {
     GptDataOffset \<leftarrow> GptGetGptDataOffset BootChain DeviceSizeInBytes (DeviceBlockSize D d);
     (Status, G') \<leftarrow> FwPartitionAdd S G (GptPseudoPartitionName ! BootChain) (Device d)
       GptDataOffset GptGetGptDataSize;
     if EFI_ERROR Status then Some (Status, G')
     else AddGptPartitions S D d DeviceSizeInBytes n (BootChain + 1) G' }"

text \<open>
  What follows the partitions of the table: nothing when none was added, the \<open>PcdGptIsPerBootChain\<close>
  is off or the device is not the boot device, and else the pseudo partitions.
\<close>

definition AddPseudoPartitions ::
  "EDK2_SERVICES \<Rightarrow> PLATFORM \<Rightarrow> 'w DEVICE_OPS \<Rightarrow> nat \<Rightarrow> nat \<Rightarrow> nat \<Rightarrow> EFI_STATUS
   \<Rightarrow> FW_PARTITION_GLOBALS \<Rightarrow> (EFI_STATUS \<times> FW_PARTITION_GLOBALS) option" where
  "AddPseudoPartitions S P D d DeviceSizeInBytes OldCount Status G =
     (if length (mPrivate G) - OldCount = 0 then Some (EFI_NOT_FOUND, G)
      else if \<not> PcdGptIsPerBootChain P then Some (Status, G)
      else if FwPartitionFindByName G (W ''BCT'') = None then Some (Status, G)
      else do {
        (Status, G) \<leftarrow> AddGptPartitions S D d DeviceSizeInBytes BOOT_CHAIN_COUNT 0 G;
        if EFI_ERROR Status then Some (Status, G)
        else FwPartitionAddPseudoPartition S G None })"

definition FwPartitionAddFromDeviceGpt ::
  "EDK2_SERVICES \<Rightarrow> PLATFORM \<Rightarrow> 'w DEVICE_OPS \<Rightarrow> FW_PARTITION_GLOBALS \<Rightarrow> nat \<Rightarrow> nat \<Rightarrow> 'w
   \<Rightarrow> (EFI_STATUS \<times> FW_PARTITION_GLOBALS \<times> 'w) option" where
  "FwPartitionAddFromDeviceGpt S P D G d DeviceSizeInBytes w = do {
     GptHeaderOffset \<leftarrow> GptGetHeaderOffset (mGptBootChain G) DeviceSizeInBytes (DeviceBlockSize D d);
     (case AllocatePool S NVIDIA_GPT_BLOCK_SIZE of
        None \<Rightarrow> Some (EFI_OUT_OF_RESOURCES, G, w)
      | Some Pool \<Rightarrow> do {
          (Status, GptHeader, w) \<leftarrow>
            DeviceRead D d (W ''GPT-Header'') GptHeaderOffset NVIDIA_GPT_BLOCK_SIZE Pool w;
          if EFI_ERROR Status then Some (Status, G, w)
          else do {
            Status \<leftarrow> GptValidateHeader (CalculateCrc32 S) GptHeader 0;
            if EFI_ERROR Status then Some (Status, G, w)
            else do {
              TableSize \<leftarrow> GptPartitionTableSizeInBytes GptHeader 0;
              if AllocatePool S TableSize = None then Some (EFI_OUT_OF_RESOURCES, G, w)
              else do {
                TableLba \<leftarrow> GptPartitionTableLba GptHeader 0 DeviceSizeInBytes;
                (Status, PartitionTable, w) \<leftarrow>
                  DeviceRead D d (W ''GPT-Table'') (TableLba * NVIDIA_GPT_BLOCK_SIZE mod 2 ^ 64)
                    TableSize (replicate TableSize 0) w;
                if EFI_ERROR Status then Some (Status, G, w)
                else do {
                  (Status, G') \<leftarrow>
                    FwPartitionAddFromPartitionTable S G GptHeader PartitionTable (Device d);
                  if EFI_ERROR Status then Some (Status, G', w)
                  else do {
                    (Status, G'') \<leftarrow> AddPseudoPartitions S P D d DeviceSizeInBytes
                      (length (mPrivate G)) Status G';
                    Some (Status, G'', w) } } } } } }) }"

section \<open>Initialization\<close>

text \<open>\<open>sizeof (FW_PARTITION_PRIVATE_DATA)\<close> with 64-bit pointers.\<close>

definition SIZE_OF_PRIVATE_DATA :: nat where "SIZE_OF_PRIVATE_DATA = 160"

text \<open>
  All callers initialize an empty registry. In one with elements the new array would hold as many
  zeroed ones, with null devices, which the model does not represent.
\<close>

definition FwPartitionDeviceLibInit ::
  "EDK2_SERVICES \<Rightarrow> FW_PARTITION_GLOBALS \<Rightarrow> nat \<Rightarrow> nat \<Rightarrow> bool \<Rightarrow> nat \<Rightarrow> nat
   \<Rightarrow> (EFI_STATUS \<times> FW_PARTITION_GLOBALS) option" where
  "FwPartitionDeviceLibInit S G ActiveBootChain MaxFwPartitions Overwrite ChipId GptBootChain =
     (let G' = \<lparr> mPrivate = [], mMaxFwPartitions = MaxFwPartitions,
                 mActiveBootChain = ActiveBootChain, mOverwriteActiveFwPartition = Overwrite,
                 mChipId = ChipId, mGptBootChain = GptBootChain \<rparr> in
      if mPrivate G \<noteq> [] then None
      else if AllocatePool S (MaxFwPartitions * SIZE_OF_PRIVATE_DATA mod 2 ^ 64) = None
      then Some (EFI_OUT_OF_RESOURCES, G')
      else Some (EFI_SUCCESS, G'))"

definition FwPartitionDeviceLibDeinit :: "FW_PARTITION_GLOBALS \<Rightarrow> FW_PARTITION_GLOBALS" where
  "FwPartitionDeviceLibDeinit G =
     G\<lparr>mPrivate := [], mMaxFwPartitions := 0, mActiveBootChain := 2 ^ 32 - 1,
       mOverwriteActiveFwPartition := False\<rparr>"

definition InitialGlobals :: FW_PARTITION_GLOBALS where
  "InitialGlobals = \<lparr> mPrivate = [], mMaxFwPartitions = 0, mActiveBootChain = 2 ^ 32 - 1,
     mOverwriteActiveFwPartition = False, mChipId = 2 ^ 64 - 1, mGptBootChain = 2 ^ 32 - 1 \<rparr>"

end
