(* ===== verification/FwPartitionProps.thy ===== *)
theory FwPartitionProps
  imports FwPartition
begin

text \<open>
  What the partition registry guarantees: names stay unique, the partitions of the active boot
  chain are neither written nor moved, and an update of the partition table cannot move another
  partition over them, unless it adds one.
\<close>

text \<open>Two positions of a list with the same relevant value, when those are distinct.\<close>

lemma distinct_filter_index:
  assumes "distinct (filter P (map f xs))" and "i < length xs" and "j < length xs"
    and "f (xs ! i) = f (xs ! j)" and "P (f (xs ! i))"
  shows "i = j"
  using assms
proof (induction xs arbitrary: i j)
  case (Cons x xs)
  show ?case
  proof (cases i; cases j)
    fix i' j' assume "i = Suc i'" "j = Suc j'"
    with Cons show ?thesis by (auto split: if_splits)
  next
    fix j' assume ij: "i = 0" "j = Suc j'"
    with Cons.prems have "f x \<in> f ` set xs" by (auto intro: rev_image_eqI [of "xs ! j'"])
    with ij Cons.prems show ?thesis by (auto split: if_splits)
  next
    fix i' assume ij: "i = Suc i'" "j = 0"
    with Cons.prems have "f x \<in> f ` set xs" by (auto intro: rev_image_eqI [of "xs ! i'"])
    with ij Cons.prems show ?thesis by (auto split: if_splits)
  qed simp
qed simp
section \<open>Looking up\<close>

abbreviation PName :: "FW_PARTITION_PRIVATE_DATA \<Rightarrow> wstring" where "PName P \<equiv> Name (PartitionInfo P)"
abbreviation POffset :: "FW_PARTITION_PRIVATE_DATA \<Rightarrow> nat" where "POffset P \<equiv> Offset (PartitionInfo P)"
abbreviation PBytes :: "FW_PARTITION_PRIVATE_DATA \<Rightarrow> nat" where "PBytes P \<equiv> Bytes (PartitionInfo P)"
abbreviation PActive :: "FW_PARTITION_PRIVATE_DATA \<Rightarrow> bool" where
  "PActive P \<equiv> IsActivePartition (PartitionInfo P)"

lemma NameIsInList_iff [simp]: "NameIsInList n xs \<longleftrightarrow> n \<in> set xs"
  by (induction xs) auto

lemma FindFrom_Some: "FindFrom n Ps j = Some k \<Longrightarrow> j \<le> k \<and> k < j + length Ps \<and> PName (Ps ! (k - j)) = n"
proof (induction Ps arbitrary: j)
  case (Cons P Ps)
  show ?case
  proof (cases "PName P = n")
    case False
    with Cons.prems have "FindFrom n Ps (j + 1) = Some k" by simp
    from Cons.IH [OF this] show ?thesis by (auto simp: nth_Cons' intro: arg_cong)
  qed (use Cons.prems in auto)
qed simp

lemma FindFrom_None: "FindFrom n Ps j = None \<longleftrightarrow> n \<notin> PName ` set Ps"
  by (induction Ps arbitrary: j) auto

lemma FindByName_Some:
  "FwPartitionFindByName G n = Some k \<Longrightarrow> k < length (mPrivate G) \<and> PName (mPrivate G ! k) = n"
  unfolding FwPartitionFindByName_def by (auto dest: FindFrom_Some)

lemma FindByName_None: "FwPartitionFindByName G n = None \<longleftrightarrow> n \<notin> PName ` set (mPrivate G)"
  by (simp add: FwPartitionFindByName_def FindFrom_None)

lemma FindFrom_append:
  "FindFrom n (Ps @ [P]) j = (case FindFrom n Ps j of Some k \<Rightarrow> Some k
     | None \<Rightarrow> if PName P = n then Some (j + length Ps) else None)"
  by (induction Ps arbitrary: j) (auto split: option.splits)

lemma IsActive_cong [simp]:
  "FwPartitionIsActive S (G\<lparr>mPrivate := Ps\<rparr>) n = FwPartitionIsActive S G n"
  by (simp add: FwPartitionIsActive_def cong: if_cong)

section \<open>Adding\<close>

definition NewPrivate ::
  "wstring \<Rightarrow> FW_PARTITION_DEVICE_INFO \<Rightarrow> nat \<Rightarrow> nat \<Rightarrow> bool \<Rightarrow> FW_PARTITION_PRIVATE_DATA" where
  "NewPrivate n d off bytes active =
     \<lparr> PartitionInfo = \<lparr> Name = (if length n < FW_PARTITION_NAME_LENGTH then n else []),
                         Bytes = bytes, Offset = off, IsActivePartition = active \<rparr>,
       DeviceInfo = d \<rparr>"

lemma AppendPartition_Some:
  assumes "documented_strings (Strings S)"
  shows "AppendPartition S G n d off bytes = Some (st, G') \<longleftrightarrow>
    st = EFI_SUCCESS \<and> (\<exists>active. FwPartitionIsActive S G n = Some active
      \<and> G' = G\<lparr>mPrivate := mPrivate G @ [NewPrivate n d off bytes active]\<rparr>)"
proof -
  have "snd (StrnCpyS (Strings S) FW_PARTITION_NAME_LENGTH n (length n) [])
      = (if length n < FW_PARTITION_NAME_LENGTH then n else [])"
    using assms by (simp add: documented_strings_def)
  then show ?thesis
    by (auto simp: AppendPartition_def NewPrivate_def bind_eq_Some_conv)
qed

lemma FwPartitionAdd_Some:
  assumes "documented_strings (Strings S)"
  shows "FwPartitionAdd S G n d off bytes = Some (st, G') \<longleftrightarrow>
    (if mMaxFwPartitions G \<le> length (mPrivate G) then st = EFI_OUT_OF_RESOURCES \<and> G' = G
     else if n \<in> PName ` set (mPrivate G) then st = EFI_ALREADY_STARTED \<and> G' = G
     else st = EFI_SUCCESS \<and> (\<exists>active. FwPartitionIsActive S G n = Some active
       \<and> G' = G\<lparr>mPrivate := mPrivate G @ [NewPrivate n d off bytes active]\<rparr>))"
  using AppendPartition_Some [OF assms, of G n d off bytes st G']
  by (auto simp: FwPartitionAdd_def FindByName_None)

lemma FwPartitionAdd_new:
  assumes "documented_strings (Strings S)" and "length (mPrivate G) < mMaxFwPartitions G"
    and "n \<notin> PName ` set (mPrivate G)" and "FwPartitionIsActive S G n = Some active"
  shows "FwPartitionAdd S G n d off bytes =
    Some (EFI_SUCCESS, G\<lparr>mPrivate := mPrivate G @ [NewPrivate n d off bytes active]\<rparr>)"
  using FwPartitionAdd_Some [OF assms(1)] assms(2-4) by simp

section \<open>The invariant of the registry\<close>

text \<open>
  The registry fits its array, no two partitions have the same name, apart from those whose name
  was too long to be stored, and the active flag is what the name says.
\<close>

definition registry_ok :: "EDK2_SERVICES \<Rightarrow> FW_PARTITION_GLOBALS \<Rightarrow> bool" where
  "registry_ok S G \<longleftrightarrow>
     length (mPrivate G) \<le> mMaxFwPartitions G
   \<and> distinct (filter (\<lambda>n. n \<noteq> []) (map PName (mPrivate G)))
   \<and> (\<forall>P \<in> set (mPrivate G). PName P \<noteq> [] \<longrightarrow> FwPartitionIsActive S G (PName P) = Some (PActive P))"

lemma registry_ok_append:
  assumes "registry_ok S G" and "length (mPrivate G) < mMaxFwPartitions G"
    and "n \<notin> PName ` set (mPrivate G)" and "FwPartitionIsActive S G n = Some active"
  shows "registry_ok S (G\<lparr>mPrivate := mPrivate G @ [NewPrivate n d off bytes active]\<rparr>)"
  using assms by (auto simp: registry_ok_def NewPrivate_def)

lemma FwPartitionAdd_ok:
  assumes "documented_strings (Strings S)" and "registry_ok S G"
    and "FwPartitionAdd S G n d off bytes = Some (st, G')"
  shows "registry_ok S G'"
  using assms registry_ok_append [OF assms(2), of n _ d off bytes]
  by (auto simp: FwPartitionAdd_Some not_le split: if_splits)

lemma SetRange_simps [simp]:
  "length (mPrivate (SetRange G k off bytes)) = length (mPrivate G)"
  "mMaxFwPartitions (SetRange G k off bytes) = mMaxFwPartitions G"
  "mActiveBootChain (SetRange G k off bytes) = mActiveBootChain G"
  "FwPartitionIsActive S (SetRange G k off bytes) n = FwPartitionIsActive S G n"
  by (simp_all add: SetRange_def Let_def cong: if_cong)

lemma SetRange_nth:
  "i < length (mPrivate G) \<Longrightarrow> mPrivate (SetRange G k off bytes) ! i =
     (if i = k then (mPrivate G ! k)\<lparr>PartitionInfo :=
          (PartitionInfo (mPrivate G ! k))\<lparr>Offset := off, Bytes := bytes\<rparr>\<rparr>
      else mPrivate G ! i)"
  by (auto simp: SetRange_def Let_def nth_list_update)

lemma SetRange_ok: "registry_ok S G \<Longrightarrow> registry_ok S (SetRange G k off bytes)"
proof -
  assume ok: "registry_ok S G"
  have "map PName (mPrivate (SetRange G k off bytes)) = map PName (mPrivate G)"
    by (rule nth_equalityI) (simp_all add: SetRange_nth)
  with ok show ?thesis
    by (simp add: registry_ok_def all_set_conv_all_nth SetRange_nth)
qed

section \<open>The loops over a partition table\<close>

text \<open>\<open>TableEntry t n p\<close>: one of the \<open>n\<close> entries from offset \<open>p\<close> on has this name, start and size.\<close>

definition TableEntry :: "byte list \<Rightarrow> nat \<Rightarrow> nat \<Rightarrow> wstring \<Rightarrow> nat \<Rightarrow> nat \<Rightarrow> bool" where
  "TableEntry t n p name start blocks \<longleftrightarrow> (\<exists>i < n.
     StrAt t (PartitionName_at (p + i * SIZE_OF_GPT_ENTRY)) = Some name
   \<and> StartingLBA t (p + i * SIZE_OF_GPT_ENTRY) = Some start
   \<and> GptPartitionSizeInBlocks t (p + i * SIZE_OF_GPT_ENTRY) = Some blocks)"

lemma TableEntry_first:
  "StrAt t (PartitionName_at p) = Some name \<Longrightarrow> StartingLBA t p = Some start
   \<Longrightarrow> GptPartitionSizeInBlocks t p = Some blocks \<Longrightarrow> TableEntry t (Suc n) p name start blocks"
  unfolding TableEntry_def by (intro exI [of _ 0]) simp

lemma TableEntry_next:
  "TableEntry t n (p + SIZE_OF_GPT_ENTRY) name start blocks \<Longrightarrow> TableEntry t (Suc n) p name start blocks"
  unfolding TableEntry_def by (metis Suc_mono add.assoc mult_Suc)

text \<open>What every added and every moved partition preserves, the loop preserves.\<close>

lemma UpdateEntriesLoop_induct:
  assumes "UpdateEntriesLoop S Mm t n p G = Some (st, G')" and "I G"
    and add: "\<And>G name start blocks st G'. \<lbrakk>I G; name \<noteq> []; FwPartitionFindByName G name = None;
        AddNewPartition S G Mm name start blocks = Some (st, G')\<rbrakk> \<Longrightarrow> I G'"
    and move: "\<And>G name k base start blocks st G'. \<lbrakk>I G; name \<noteq> []; TableEntry t n p name start blocks;
        FwPartitionFindByName G name = Some k;
        GetPartitionBaseNameAndBootChainAny (Strings S) (Some name) (Some []) (Some 0)
          = Some (EFI_SUCCESS, base, Some (OTHER_BOOT_CHAIN (mActiveBootChain G)));
        MovePartition G Mm k start blocks = (st, G')\<rbrakk> \<Longrightarrow> I G'"
  shows "I G'"
  using assms(1,2) move
proof (induction n arbitrary: p G)
  case (Suc n)
  have rest: "I G'" if "UpdateEntriesLoop S Mm t n (p + SIZE_OF_GPT_ENTRY) H = Some (st, G')" "I H" for H
    using that Suc.prems(3) by (rule Suc.IH) (auto dest: TableEntry_next)
  from Suc.prems(1) obtain name where name: "StrAt t (PartitionName_at p) = Some name"
    by (auto simp: bind_eq_Some_conv)
  show ?case
  proof (cases "name = []")
    case True
    with Suc.prems(1,2) name rest show ?thesis by simp
  next
    case False
    with Suc.prems(1) name obtain st1 base chain where split:
        "GetPartitionBaseNameAndBootChainAny (Strings S) (Some name) (Some []) (Some 0)
           = Some (st1, base, chain)"
      by (auto simp: bind_eq_Some_conv)
    show ?thesis
    proof (cases "EFI_ERROR st1")
      case True
      with Suc.prems(1,2) name False split rest show ?thesis by simp
    next
      case ok: False
      with Suc.prems(1) name False split obtain start blocks st2 H where h:
          "StartingLBA t p = Some start" "GptPartitionSizeInBlocks t p = Some blocks"
          "(case FwPartitionFindByName G name of
             None \<Rightarrow> AddNewPartition S G Mm name start blocks
           | Some k \<Rightarrow>
               if chain \<noteq> Some (OTHER_BOOT_CHAIN (mActiveBootChain G))
               then Some (EFI_SUCCESS, G)
               else Some (MovePartition G Mm k start blocks)) = Some (st2, H)"
          "if EFI_ERROR st2 then (st2, H) = (st, G')
           else UpdateEntriesLoop S Mm t n (p + SIZE_OF_GPT_ENTRY) H = Some (st, G')"
        by (auto simp: bind_eq_Some_conv split: if_splits)
      have "I H"
        using h(3) Suc.prems(2) add [OF Suc.prems(2) False]
          Suc.prems(3) [OF Suc.prems(2) False TableEntry_first [OF name h(1,2)]] split ok
        by (auto split: option.splits if_splits)
      with h(4) rest show ?thesis by (auto split: if_splits)
    qed
  qed
qed simp

lemma AddEntriesLoop_induct:
  assumes "AddEntriesLoop S d t n p st0 G = Some (st, G')" and "I G"
    and add: "\<And>G name off bytes st G'. \<lbrakk>I G; FwPartitionAdd S G name d off bytes = Some (st, G')\<rbrakk> \<Longrightarrow> I G'"
  shows "I G'"
  using assms(1,2)
proof (induction n arbitrary: p st0 G)
  case (Suc n)
  then show ?case
    by (auto simp: bind_eq_Some_conv split: if_splits dest: add)
qed simp

lemma AddGptPartitions_induct:
  assumes "AddGptPartitions S D d sz n c G = Some (st, G')" and "I G"
    and add: "\<And>G name off bytes st G'. \<lbrakk>I G; FwPartitionAdd S G name (Device d) off bytes = Some (st, G')\<rbrakk> \<Longrightarrow> I G'"
  shows "I G'"
  using assms(1,2)
proof (induction n arbitrary: c G)
  case (Suc n)
  then show ?case
    by (auto simp: bind_eq_Some_conv split: if_splits dest: add)
qed simp

section \<open>Operations and the registry\<close>

lemma MovePartition_cases:
  assumes "MovePartition G Mm k start blocks = (st, G')"
  obtains (refused) "st = EFI_SECURITY_VIOLATION" "G' = G"
  | (moved) off where "st = EFI_SUCCESS" "G' = SetRange G k off (blocks * NVIDIA_GPT_BLOCK_SIZE)"
      "off = (if Mm = None then start * NVIDIA_GPT_BLOCK_SIZE else POffset (mPrivate G ! k))"
      "sub64 MAX_UINT64 off \<ge> blocks * NVIDIA_GPT_BLOCK_SIZE"
      "\<not> Overlaps G k off (blocks * NVIDIA_GPT_BLOCK_SIZE)"
proof -
  have exact: "x * NVIDIA_GPT_BLOCK_SIZE mod 2 ^ 64 = x * NVIDIA_GPT_BLOCK_SIZE"
    if "\<not> x > MAX_UINT64 div NVIDIA_GPT_BLOCK_SIZE" for x
    using that by (simp add: MAX_UINT64_def gpt_sizes)
  show ?thesis
    using assms refused moved exact [of start] exact [of blocks]
    by (auto simp: MovePartition_def Let_def split: if_splits)
qed

lemma AddNewPartition_Add:
  assumes "AddNewPartition S G Mm name start blocks = Some (st, G')"
  shows "G' = G \<or> (\<exists>d off. FwPartitionAdd S G name d off (blocks * NVIDIA_GPT_BLOCK_SIZE mod 2 ^ 64) = Some (st, G'))"
  using assms by (auto simp: AddNewPartition_def split: option.splits)

text \<open>What a write does to the registry, it does in the loop over the entries of a validated table.\<close>

lemma UpdateInactive_registry:
  assumes "FwPartitionWriteToUpdateInactivePartitions S D G name Mm off n buf w = Some (st, G', w')"
  shows "G' = G \<or> (\<exists>st1 entries. UpdateEntriesLoop S Mm (take n buf) entries 0 G = Some (st1, G')
    \<and> NumberOfPartitionEntries (take n buf) NVIDIA_GPT_PARTITION_TABLE_SIZE = Some entries)"
  using assms
  by (auto simp: FwPartitionWriteToUpdateInactivePartitions_def bind_eq_Some_conv load_bytes_def Let_def
      split: if_split_asm option.split_asm)

lemma FwPartitionWrite_registry:
  assumes "FwPartitionWrite S D G This off n buf w = Some (st, G', w')"
  shows "G' = G \<or> (\<exists>i Mm b st1 entries. This = Some i \<and> buf = Some b \<and> i < length (mPrivate G)
    \<and> DeviceInfo (mPrivate G ! i) = PseudoDevice Mm
    \<and> UpdateEntriesLoop S Mm (take n b) entries 0 G = Some (st1, G')
    \<and> NumberOfPartitionEntries (take n b) NVIDIA_GPT_PARTITION_TABLE_SIZE = Some entries)"
proof (cases "G' = G")
  case False
  with assms show ?thesis
    by (auto simp: FwPartitionWrite_def Let_def bind_eq_Some_conv
        split: option.split_asm if_split_asm FW_PARTITION_DEVICE_INFO.split_asm prod.split_asm
        dest!: UpdateInactive_registry)
qed simp

text \<open>
  A statement about the registry that adding and moving a partition keep, is kept by everything the
  drivers do with it. The lemmas of the locale lift it from the two basic steps to the loops,
  the entry points and to whole runs; they are instantiated below.
\<close>

locale registry_keeps =
  fixes S :: EDK2_SERVICES and I :: "FW_PARTITION_GLOBALS \<Rightarrow> bool"
  assumes add_keeps: "I G \<Longrightarrow> FwPartitionAdd S G name d off bytes = Some (st, G') \<Longrightarrow> I G'"
    and move_keeps: "I G \<Longrightarrow> MovePartition G Mm k start blocks = (st, G') \<Longrightarrow> I G'"
begin

lemma loop_keeps: "I G \<Longrightarrow> UpdateEntriesLoop S Mm t n p G = Some (st, G') \<Longrightarrow> I G'"
  by (erule UpdateEntriesLoop_induct) (blast dest: AddNewPartition_Add intro: add_keeps move_keeps)+

lemma write_keeps: "I G \<Longrightarrow> FwPartitionWrite S D G This off n buf w = Some (st, G', w') \<Longrightarrow> I G'"
  by (blast dest: FwPartitionWrite_registry intro: loop_keeps)

lemma table_keeps: "I G \<Longrightarrow> FwPartitionAddFromPartitionTable S G h t d = Some (st, G') \<Longrightarrow> I G'"
  by (auto simp: FwPartitionAddFromPartitionTable_def bind_eq_Some_conv split: if_splits
      dest!: AddEntriesLoop_induct [where I = I] intro: add_keeps)

lemma pseudo_keeps: "I G \<Longrightarrow> FwPartitionAddPseudoPartition S G Mm = Some (st, G') \<Longrightarrow> I G'"
  by (auto simp: FwPartitionAddPseudoPartition_def split: if_splits intro: add_keeps)

lemma gpt_partitions_keep: "AddGptPartitions S D d sz n c G = Some (st, G') \<Longrightarrow> I G \<Longrightarrow> I G'"
  by (erule AddGptPartitions_induct) (simp, erule (1) add_keeps)

lemma pseudo_partitions_keep:
  "I G \<Longrightarrow> AddPseudoPartitions S P D d sz old st0 G = Some (st, G') \<Longrightarrow> I G'"
  by (auto simp: AddPseudoPartitions_def bind_eq_Some_conv split: if_splits
      dest: gpt_partitions_keep pseudo_keeps)

lemma device_gpt_keeps:
  assumes "I G" and "FwPartitionAddFromDeviceGpt S P D G d sz w = Some (st, G', w')"
  shows "I G'"
proof (cases "G' = G")
  case False
  with assms(2) obtain h t st1 H where h: "FwPartitionAddFromPartitionTable S G h t (Device d) = Some (st1, H)"
      "G' = H \<or> (\<exists>st2. AddPseudoPartitions S P D d sz (length (mPrivate G)) st1 H = Some (st2, G'))"
    by (auto simp: FwPartitionAddFromDeviceGpt_def bind_eq_Some_conv split_beta
        split: if_split_asm option.split_asm)
  from table_keeps [OF assms(1) h(1)] h(2) show ?thesis
    using pseudo_partitions_keep by blast
qed (simp add: assms(1))

lemma sub_partition_keeps: "AddSubPartition S Data d which name G = Some G' \<Longrightarrow> I G \<Longrightarrow> I G'"
  by (auto simp: AddSubPartition_def bind_eq_Some_conv split: prod.splits if_splits intro: add_keeps)

lemma device_keeps:
  assumes "I G" and "FwDeviceAddAsPartition S Data G name d off n = Some (st, G')"
    and "FwPartitionFindByName G name = None"
  shows "I G'"
proof (cases "name = W ''MM-NorFlash''")
  case True
  with assms(1,2) show ?thesis
    by (auto simp: FwDeviceAddAsPartition_def bind_eq_Some_conv split: if_splits
        elim!: sub_partition_keeps)
next
  case False
  with assms(2,3) have "FwPartitionAdd S G name d off n = Some (st, G')"
    by (simp add: FwDeviceAddAsPartition_def FwPartitionAdd_def split: if_splits)
  with assms(1) show ?thesis by (rule add_keeps)
qed

end

text \<open>
  Everything a driver does with the registry, in any order: it is initialized once and then filled,
  and partitions are written. \<open>FwDeviceAddAsPartition\<close> does not look for its name, its callers name
  every device once.
\<close>

inductive registry_run ::
  "EDK2_SERVICES \<Rightarrow> PLATFORM \<Rightarrow> 'w DEVICE_OPS \<Rightarrow> FW_PARTITION_GLOBALS \<Rightarrow> 'w \<Rightarrow> bool"
  for S P D where
  init: "FwPartitionDeviceLibInit S InitialGlobals chain max' overwrite chip gpt = Some (EFI_SUCCESS, G)
    \<Longrightarrow> registry_run S P D G w"
| add: "registry_run S P D G w \<Longrightarrow> FwPartitionAdd S G name d off n = Some (st, G')
    \<Longrightarrow> registry_run S P D G' w"
| add_device: "registry_run S P D G w \<Longrightarrow> FwPartitionFindByName G name = None
    \<Longrightarrow> FwDeviceAddAsPartition S Data G name d off n = Some (st, G') \<Longrightarrow> registry_run S P D G' w"
| add_table: "registry_run S P D G w \<Longrightarrow> FwPartitionAddFromPartitionTable S G h t d = Some (st, G')
    \<Longrightarrow> registry_run S P D G' w"
| add_gpt: "registry_run S P D G w \<Longrightarrow> FwPartitionAddFromDeviceGpt S P D G dev size' w = Some (st, G', w')
    \<Longrightarrow> registry_run S P D G' w'"
| add_pseudo: "registry_run S P D G w \<Longrightarrow> FwPartitionAddPseudoPartition S G Mm = Some (st, G')
    \<Longrightarrow> registry_run S P D G' w"
| write_to: "registry_run S P D G w \<Longrightarrow> FwPartitionWrite S D G This off n buf w = Some (st, G', w')
    \<Longrightarrow> registry_run S P D G' w'"

context registry_keeps
begin

lemma run_keeps:
  assumes "\<And>chain max' overwrite chip gpt G.
    FwPartitionDeviceLibInit S InitialGlobals chain max' overwrite chip gpt = Some (EFI_SUCCESS, G) \<Longrightarrow> I G"
  shows "registry_run S P D G w \<Longrightarrow> I G"
  by (induction rule: registry_run.induct)
     (blast intro: assms add_keeps device_keeps table_keeps device_gpt_keeps pseudo_keeps write_keeps)+

end

text \<open>The invariant of the registry, and the settings that only the initialization makes.\<close>

interpretation ok: registry_keeps S "\<lambda>G. documented_strings (Strings S) \<longrightarrow> registry_ok S G" for S
proof
  fix G Mm k start blocks st G'
  assume "documented_strings (Strings S) \<longrightarrow> registry_ok S G" "MovePartition G Mm k start blocks = (st, G')"
  then show "documented_strings (Strings S) \<longrightarrow> registry_ok S G'"
    by (auto elim!: MovePartition_cases intro: SetRange_ok)
qed (blast intro: FwPartitionAdd_ok)

definition settings :: "FW_PARTITION_GLOBALS \<Rightarrow> nat \<times> nat \<times> bool" where
  "settings G = (mMaxFwPartitions G, mActiveBootChain G, mOverwriteActiveFwPartition G)"

interpretation settings: registry_keeps S "\<lambda>G. documented_strings (Strings S) \<longrightarrow> settings G = x" for S x
proof
  fix G name d off bytes st G'
  assume "documented_strings (Strings S) \<longrightarrow> settings G = x" "FwPartitionAdd S G name d off bytes = Some (st, G')"
  then show "documented_strings (Strings S) \<longrightarrow> settings G' = x"
    by (auto simp: settings_def FwPartitionAdd_Some split: if_splits)
next
  fix G Mm k start blocks st G'
  assume "documented_strings (Strings S) \<longrightarrow> settings G = x" "MovePartition G Mm k start blocks = (st, G')"
  then show "documented_strings (Strings S) \<longrightarrow> settings G' = x"
    by (auto simp: settings_def SetRange_def Let_def elim!: MovePartition_cases)
qed

lemma registry_run_ok:
  assumes "documented_strings (Strings S)" and "registry_run S P D G w"
  shows "registry_ok S G"
proof -
  have "registry_ok S H"
    if "FwPartitionDeviceLibInit S InitialGlobals chain max' overwrite chip gpt = Some (EFI_SUCCESS, H)"
    for chain max' overwrite chip gpt H
  proof -
    from that have "mPrivate H = []"
      by (auto simp: FwPartitionDeviceLibInit_def Let_def split: if_splits)
    then show ?thesis by (simp add: registry_ok_def)
  qed
  with ok.run_keeps [OF _ assms(2)] assms(1) show ?thesis by blast
qed

section \<open>Layout\<close>

text \<open>
  The bytes of a partition, and the layout in which a write to one that is neither active nor kept
  outside the boot chains does not reach an active partition of the same device.
\<close>

definition PRange :: "FW_PARTITION_PRIVATE_DATA \<Rightarrow> nat set" where
  "PRange P = {POffset P..<POffset P + PBytes P}"

definition layout_safe :: "FW_PARTITION_GLOBALS \<Rightarrow> bool" where
  "layout_safe G \<longleftrightarrow>
     (\<forall>i < length (mPrivate G). POffset (mPrivate G ! i) + PBytes (mPrivate G ! i) < 2 ^ 64)
   \<and> (\<forall>i < length (mPrivate G). \<forall>j < length (mPrivate G).
        PActive (mPrivate G ! i) \<longrightarrow> \<not> Protected (mPrivate G ! j)
        \<longrightarrow> DeviceInfo (mPrivate G ! i) = DeviceInfo (mPrivate G ! j)
        \<longrightarrow> PRange (mPrivate G ! i) \<inter> PRange (mPrivate G ! j) = {})"

lemma Overlaps_iff:
  "Overlaps G k off n \<longleftrightarrow> (\<exists>i < length (mPrivate G). i \<noteq> k \<and> Protected (mPrivate G ! i)
     \<and> off < add64 (POffset (mPrivate G ! i)) (PBytes (mPrivate G ! i))
     \<and> POffset (mPrivate G ! i) < add64 off n)"
  by (simp only: Overlaps_def Let_def find_None_iff) auto

text \<open>A partition of the inactive chain is not active.\<close>

lemma moved_not_active:
  assumes "registry_ok S G" and "name \<noteq> []" and "FwPartitionFindByName G name = Some k"
    and "GetPartitionBaseNameAndBootChainAny (Strings S) (Some name) (Some []) (Some 0)
          = Some (EFI_SUCCESS, base, Some (OTHER_BOOT_CHAIN (mActiveBootChain G)))"
  shows "k < length (mPrivate G)" and "PName (mPrivate G ! k) = name" and "\<not> PActive (mPrivate G ! k)"
proof -
  show k: "k < length (mPrivate G)" "PName (mPrivate G ! k) = name"
    using FindByName_Some [OF assms(3)] by simp_all
  have "OTHER_BOOT_CHAIN c \<noteq> c" for c
    unfolding OTHER_BOOT_CHAIN_def by (metis bit_eq_iff bit_xor_iff bit_0 bit_1_0 odd_one)
  then have "FwPartitionIsActive S G name = Some False"
    using assms(4) by (auto simp: FwPartitionIsActive_def)
  then show "\<not> PActive (mPrivate G ! k)"
    using assms(1,2) k unfolding registry_ok_def by (metis nth_mem option.inject)
qed

lemma SetRange_layout:
  assumes "layout_safe G" and "k < length (mPrivate G)" and "\<not> PActive (mPrivate G ! k)"
    and "off + n < 2 ^ 64" and "\<not> Overlaps G k off n"
  shows "layout_safe (SetRange G k off n)"
proof -
  have apart: "PRange (mPrivate G ! i) \<inter> {off..<off + n} = {}"
    if "i < length (mPrivate G)" "PActive (mPrivate G ! i)" for i
  proof -
    have "POffset (mPrivate G ! i) + PBytes (mPrivate G ! i) < 2 ^ 64"
      using assms(1) that(1) by (simp add: layout_safe_def)
    moreover have "Protected (mPrivate G ! i)" "i \<noteq> k"
      using that(2) assms(3) by (auto simp: Protected_def)
    ultimately have "\<not> (off < POffset (mPrivate G ! i) + PBytes (mPrivate G ! i)
        \<and> POffset (mPrivate G ! i) < off + n)"
      using assms(4,5) that(1) add64_less [of off n]
        add64_less [of "POffset (mPrivate G ! i)" "PBytes (mPrivate G ! i)"]
      unfolding Overlaps_iff by metis
    then show ?thesis by (auto simp: PRange_def)
  qed
  let ?H = "SetRange G k off n"
  have nth: "PRange (mPrivate ?H ! j) = (if j = k then {off..<off + n} else PRange (mPrivate G ! j))"
    "PActive (mPrivate ?H ! j) = PActive (mPrivate G ! j)"
    "Protected (mPrivate ?H ! j) = Protected (mPrivate G ! j)"
    "DeviceInfo (mPrivate ?H ! j) = DeviceInfo (mPrivate G ! j)"
    "POffset (mPrivate ?H ! j) + PBytes (mPrivate ?H ! j) =
       (if j = k then off + n else POffset (mPrivate G ! j) + PBytes (mPrivate G ! j))"
    if "j < length (mPrivate G)" for j
    using that by (simp_all add: SetRange_nth PRange_def Protected_def)
  show ?thesis
    unfolding layout_safe_def
  proof (intro conjI allI impI)
    fix i assume "i < length (mPrivate ?H)"
    with assms(1,4) show "POffset (mPrivate ?H ! i) + PBytes (mPrivate ?H ! i) < 2 ^ 64"
      by (simp add: nth layout_safe_def)
  next
    fix i j
    assume ij: "i < length (mPrivate ?H)" "j < length (mPrivate ?H)" "PActive (mPrivate ?H ! i)"
      "\<not> Protected (mPrivate ?H ! j)" "DeviceInfo (mPrivate ?H ! i) = DeviceInfo (mPrivate ?H ! j)"
    then have "i \<noteq> k" using assms(3) by (auto simp: nth)
    then show "PRange (mPrivate ?H ! i) \<inter> PRange (mPrivate ?H ! j) = {}"
      using ij apart [of i] assms(1) by (simp add: nth layout_safe_def)
  qed
qed

text \<open>A range that passed the test of \<open>MovePartition\<close> ends below the end of the address space.\<close>

lemma moved_range:
  assumes "n \<le> sub64 MAX_UINT64 off" and "off \<le> MAX_UINT64"
  shows "off + n < 2 ^ 64"
proof -
  have "sub64 MAX_UINT64 off = MAX_UINT64 - off"
    using assms(2) by (intro sub64_le) (simp_all add: MAX_UINT64_def)
  with assms show ?thesis by (simp add: MAX_UINT64_def)
qed

text \<open>The update of the inactive chain keeps the layout as long as it adds no partition.\<close>

lemma length_AddNew:
  assumes "documented_strings (Strings S)" and "AddNewPartition S G Mm name start blocks = Some (st, G')"
  shows "G' = G \<or> length (mPrivate G) < length (mPrivate G')"
  using AddNewPartition_Add [OF assms(2)] by (auto simp: FwPartitionAdd_Some [OF assms(1)] split: if_splits)

lemma start_bound: "x \<le> MAX_UINT64 div NVIDIA_GPT_BLOCK_SIZE \<Longrightarrow> x * NVIDIA_GPT_BLOCK_SIZE \<le> MAX_UINT64"
  by (simp add: MAX_UINT64_def gpt_sizes)

lemma MovePartition_layout:
  assumes "layout_safe G" and "k < length (mPrivate G)" and "\<not> PActive (mPrivate G ! k)"
    and "MovePartition G Mm k start blocks = (st, G')"
  shows "layout_safe G'"
  using assms(4)
proof (cases rule: MovePartition_cases)
  case (moved off)
  have "off \<le> MAX_UINT64"
  proof (cases Mm)
    case None
    with moved assms(4) show ?thesis
      by (auto simp: MovePartition_def intro!: start_bound split: if_splits)
  next
    case (Some d)
    with moved assms(1,2) show ?thesis by (auto simp: layout_safe_def MAX_UINT64_def)
  qed
  with moved show ?thesis
    using SetRange_layout [OF assms(1-3)] moved_range by simp
qed (use assms(1) in simp)

lemma UpdateEntriesLoop_layout:
  assumes "documented_strings (Strings S)" and "registry_ok S G" and "layout_safe G"
    and "UpdateEntriesLoop S Mm t n p G = Some (st, G')"
  shows "length (mPrivate G) \<le> length (mPrivate G')
    \<and> (length (mPrivate G') = length (mPrivate G) \<longrightarrow> layout_safe G')"
proof -
  define I where "I H \<longleftrightarrow> registry_ok S H \<and> length (mPrivate G) \<le> length (mPrivate H)
      \<and> (length (mPrivate H) = length (mPrivate G) \<longrightarrow> layout_safe H)" for H
  from assms(4) have "I G'"
  proof (rule UpdateEntriesLoop_induct)
    show "I G" using assms(2,3) by (simp add: I_def)
  next
    fix H name start blocks st1 H'
    assume "I H" and a: "AddNewPartition S H Mm name start blocks = Some (st1, H')"
    have "registry_ok S H'"
      using \<open>I H\<close> AddNewPartition_Add [OF a] FwPartitionAdd_ok [OF assms(1)]
      by (auto simp: I_def)
    with length_AddNew [OF assms(1) a] \<open>I H\<close> show "I H'" by (auto simp: I_def)
  next
    fix H name k base start blocks st1 H'
    assume H: "I H" "name \<noteq> []" "FwPartitionFindByName H name = Some k"
        "GetPartitionBaseNameAndBootChainAny (Strings S) (Some name) (Some []) (Some 0)
          = Some (EFI_SUCCESS, base, Some (OTHER_BOOT_CHAIN (mActiveBootChain H)))"
      and m: "MovePartition H Mm k start blocks = (st1, H')"
    from H have ok: "registry_ok S H" by (simp add: I_def)
    note k = moved_not_active [OF ok H(2-4)]
    have "registry_ok S H' \<and> length (mPrivate H') = length (mPrivate H)"
      using m ok by (cases rule: MovePartition_cases) (auto intro: SetRange_ok)
    moreover have "layout_safe H \<Longrightarrow> layout_safe H'"
      using k m by (auto intro: MovePartition_layout)
    ultimately show "I H'" using H(1) by (simp add: I_def)
  qed
  then show ?thesis by (simp add: I_def)
qed

end
