(* ===== verification/FwPartitionTheorems.thy ===== *)
theory FwPartitionTheorems
  imports FwPartitionProps
begin

text \<open>
  The properties of the firmware partition registry, and the example that their witnesses use: a
  boot device with the partition \<open>BCT\<close>, one partition of the active chain A, one of chain B and the
  pseudo partition.
\<close>

section \<open>An example\<close>

definition exampleServices :: EDK2_SERVICES where
  "exampleServices = \<lparr> Strings = edk2_strings, CalculateCrc32 = (\<lambda>_. 0),
     AllocatePool = (\<lambda>n. Some (replicate n 0)) \<rparr>"

lemma exampleServices_documented [simp]: "documented_strings (Strings exampleServices)"
  by (simp add: exampleServices_def edk2_strings_documented)

text \<open>The world is the log of the writes: device, offset and length.\<close>

definition exampleDevices :: "(nat \<times> nat \<times> nat) list DEVICE_OPS" where
  "exampleDevices = \<lparr> DeviceRead = (\<lambda>d name off n buf w. Some (EFI_SUCCESS, buf, w)),
     DevicePrmRead = (\<lambda>d name off n buf w. Some (EFI_SUCCESS, buf, w)),
     DeviceWrite = (\<lambda>d name off n buf w. Some (EFI_SUCCESS, w @ [(d, off, n)])),
     DeviceBlockSize = (\<lambda>d. 512), DeviceEraseBlockSize = (\<lambda>d. 4096) \<rparr>"

definition exampleRegistry :: FW_PARTITION_GLOBALS where
  "exampleRegistry = \<lparr> mPrivate =
       [NewPrivate (W ''BCT'') (Device 0) 0 4096 False,
        NewPrivate (W ''A_x'') (Device 0) 20480 512 True,
        NewPrivate (W ''B_x'') (Device 0) 40960 512 False,
        NewPrivate FW_PARTITION_UPDATE_INACTIVE_PARTITIONS (PseudoDevice None) 0 GptGetGptDataSize False],
     mMaxFwPartitions = 80, mActiveBootChain = 0, mOverwriteActiveFwPartition = False,
     mChipId = 0x23, mGptBootChain = 0 \<rparr>"

text \<open>The new table: one entry with the given first and last block and name.\<close>

definition exampleUpdate :: "byte \<Rightarrow> byte \<Rightarrow> byte list \<Rightarrow> byte list" where
  "exampleUpdate lo hi name = (replicate 32 0 @ [lo, 0, 0, 0, 0, 0, 0, 0, hi, 0, 0, 0, 0, 0, 0, 0]
     @ replicate 8 0 @ name) @ replicate (16384 - 56 - length name) 0 @ exampleHeader"

lemma name_chars:
  "W ''BCT'' = [0x42, 0x43, 0x54]" "W ''A_x'' = [0x41, 0x5f, 0x78]" "W ''B_x'' = [0x42, 0x5f, 0x78]"
  "W ''B_y'' = [0x42, 0x5f, 0x79]"
  by (simp_all add: W_def)

lemma load8_append: "length xs \<le> j \<Longrightarrow> load8 (xs @ ys) j = load8 ys (j - length xs)"
  by (auto simp: load8_def nth_append)

lemma load32_append:
  assumes "length xs = k"
  shows "load32 (xs @ ys) (k + i) = load32 ys i"
  using assms by (auto simp: load32_def load16_def load8_append numeral_3_eq_3 add.commute)

lemma load64_append:
  assumes "length xs = k"
  shows "load64 (xs @ ys) (k + i) = load64 ys i"
  using load32_append [OF assms, of ys i] load32_append [OF assms, of ys "i + 4"]
  by (simp add: load64_def add.assoc)

text \<open>The fields of the example table and of its header, for a name of three characters.\<close>

lemma exampleUpdate_fields:
  fixes c1 c2 c3 lo hi :: byte
  defines "t \<equiv> exampleUpdate lo hi [c1, 0, c2, 0, c3, 0]"
  assumes "c1 \<noteq> 0" and "c2 \<noteq> 0" and "c3 \<noteq> 0" and "{unat lo, unat hi} \<subseteq> {34..100}"
  shows "length t = 16476"
    and "GptValidateHeader (CalculateCrc32 exampleServices) t 16384 = Some EFI_SUCCESS"
    and "NumberOfPartitionEntries t 16384 = Some 1"
    and "StartingLBA t 0 = Some (unat lo)" and "EndingLBA t 0 = Some (unat hi)"
    and "StrAt t 56 = Some [of_nat (unat c1), of_nat (unat c2), of_nat (unat c3)]"
    and "GptValidatePartitionTable (CalculateCrc32 exampleServices) t 16384 t 0 = Some EFI_SUCCESS"
proof -
  define front where "front = (replicate 32 0 @ [lo, 0, 0, 0, 0, 0, 0, 0, hi, 0, 0, 0, 0, 0, 0, 0]
     @ replicate 8 0 @ [c1, 0, c2, 0, c3, 0]) @ replicate 16322 (0 :: byte)"
  have t: "t = front @ exampleHeader" by (simp add: t_def exampleUpdate_def front_def)
  have len: "length front = 16384" by (simp add: front_def)
  show lt: "length t = 16476" using len exampleHeader_fields(1) by (simp add: t)
  note f32 = load32_append [OF len, of exampleHeader, folded t]
  note f64 = load64_append [OF len, of exampleHeader, folded t]
  note f = f32 [of 12] f32 [of 16] f32 [of 80] f32 [of 84] f32 [of 88] f64 [of 0] f64 [of 40] f64 [of 48]
  show n: "NumberOfPartitionEntries t 16384 = Some 1"
    using f exampleHeader_fields by simp
  show "GptValidateHeader (CalculateCrc32 exampleServices) t 16384 = Some EFI_SUCCESS"
    using header_accepted [of 16384 t "CalculateCrc32 exampleServices"] lt f exampleHeader_fields
    by (simp add: gpt_sizes exampleServices_def)
  have low: "load8 t j = Some (front ! j)" if "j < 16384" for j
    using that len by (simp add: t load8_def nth_append)
  show s: "StartingLBA t 0 = Some (unat lo)" and e: "EndingLBA t 0 = Some (unat hi)"
    by (simp_all add: load32_def load16_def load64_def low) (simp_all add: front_def nth_append)
  show str: "StrAt t 56 = Some [of_nat (unat c1), of_nat (unat c2), of_nat (unat c3)]"
  proof -
    have "load16 t 56 = Some (unat c1)" "load16 t 58 = Some (unat c2)"
      "load16 t 60 = Some (unat c3)" "load16 t 62 = Some 0"
      by (simp_all add: load16_def low) (simp_all add: front_def nth_append)
    moreover have "unat c1 \<noteq> 0" "unat c2 \<noteq> 0" "unat c3 \<noteq> 0"
      using assms by (simp_all add: unat_eq_0)
    moreover from calculation have "StrAt t 62 = Some []" by (subst StrAt_Some) simp
    moreover from calculation have "StrAt t 60 = Some [of_nat (unat c3)]" by (subst StrAt_Some) simp
    moreover from calculation have "StrAt t 58 = Some [of_nat (unat c2), of_nat (unat c3)]"
      by (subst StrAt_Some) simp
    ultimately show ?thesis by (subst StrAt_Some) simp
  qed
  show "GptValidatePartitionTable (CalculateCrc32 exampleServices) t 16384 t 0 = Some EFI_SUCCESS"
    using f exampleHeader_fields lt s e str assms(5)
    by (simp add: GptValidatePartitionTable_def GptPartitionTableSizeInBytes_def load_bytes_def
        exampleServices_def)
qed

lemma exampleRegistry_nth [simp]:
  "length (mPrivate exampleRegistry) = 4" "mMaxFwPartitions exampleRegistry = 80"
  "mActiveBootChain exampleRegistry = 0" "mOverwriteActiveFwPartition exampleRegistry = False"
  "mPrivate exampleRegistry ! 0 = NewPrivate (W ''BCT'') (Device 0) 0 4096 False"
  "mPrivate exampleRegistry ! Suc 0 = NewPrivate (W ''A_x'') (Device 0) 20480 512 True"
  "mPrivate exampleRegistry ! 2 = NewPrivate (W ''B_x'') (Device 0) 40960 512 False"
  "mPrivate exampleRegistry ! 3 = NewPrivate FW_PARTITION_UPDATE_INACTIVE_PARTITIONS
     (PseudoDevice None) 0 GptGetGptDataSize False"
  by (simp_all add: exampleRegistry_def)

lemma NewPrivate_simps [simp]:
  "length n < 36 \<Longrightarrow> PName (NewPrivate n d off bytes a) = n"
  "POffset (NewPrivate n d off bytes a) = off" "PBytes (NewPrivate n d off bytes a) = bytes"
  "PActive (NewPrivate n d off bytes a) = a" "DeviceInfo (NewPrivate n d off bytes a) = d"
  by (simp_all add: NewPrivate_def FW_PARTITION_NAME_LENGTH_def)

text \<open>How the example's names are split.\<close>

lemma three_characters:
  "GetPartitionBaseNameAndBootChainAny (Strings exampleServices) (Some [0x42, 0x5f, c]) (Some []) (Some 0)
     = Some (EFI_SUCCESS, Some [c], Some 1)"
  "GetPartitionBaseNameAndBootChainAny (Strings exampleServices) (Some [0x41, 0x5f, c]) (Some []) (Some 0)
     = Some (EFI_SUCCESS, Some [c], Some 0)"
  by (simp_all add: GetPartitionBaseNameAndBootChainAny_def exampleServices_def edk2_strings_def name_simps)

text \<open>The example registry is what its partitions' additions leave behind.\<close>

lemma exampleRegistry_run: "registry_run exampleServices P D exampleRegistry w"
proof -
  define G where "G Ps = exampleRegistry\<lparr>mPrivate := Ps\<rparr>" for Ps
  have G: "mPrivate (G Ps) = Ps" "mMaxFwPartitions (G Ps) = 80" "mActiveBootChain (G Ps) = 0"
    "(G Ps)\<lparr>mPrivate := Qs\<rparr> = G Qs" for Ps Qs
    by (simp_all add: G_def exampleRegistry_def)
  have names: "W ''BCT'' \<in> set NonABPartitionNames" "W ''A_x'' \<notin> set NonABPartitionNames"
      "W ''B_x'' \<notin> set NonABPartitionNames"
      "FW_PARTITION_UPDATE_INACTIVE_PARTITIONS \<in> set NonABPartitionNames"
      "FW_PARTITION_UPDATE_INACTIVE_PARTITIONS \<notin> {W ''BCT'', W ''A_x'', W ''B_x''}"
    by (simp_all add: NonABPartitionNames_def FW_PARTITION_UPDATE_INACTIVE_PARTITIONS_def W_def)
  then have active: "FwPartitionIsActive exampleServices (G Ps) (W ''BCT'') = Some False"
      "FwPartitionIsActive exampleServices (G Ps) (W ''A_x'') = Some True"
      "FwPartitionIsActive exampleServices (G Ps) (W ''B_x'') = Some False"
      "FwPartitionIsActive exampleServices (G Ps) FW_PARTITION_UPDATE_INACTIVE_PARTITIONS = Some False" for Ps
    by (simp_all add: FwPartitionIsActive_def G three_characters name_chars)
  have next': "registry_run exampleServices P D (G (Ps @ [NewPrivate n d off k a])) w"
    if "registry_run exampleServices P D (G Ps) w" "length Ps < 80" "n \<notin> PName ` set Ps"
      "FwPartitionIsActive exampleServices (G Ps) n = Some a" for Ps n d off k a
    using registry_run.add [OF that(1) FwPartitionAdd_new [of exampleServices "G Ps" n a d off k]] that(2-4)
    by (simp add: G)
  have "registry_run exampleServices P D (G []) w"
    by (rule registry_run.init [where chain = 0 and max' = 80 and overwrite = False and chip = "0x23" and gpt = 0])
       (simp add: FwPartitionDeviceLibInit_def InitialGlobals_def exampleServices_def G_def exampleRegistry_def)
  from next' [OF this _ _ active(1), of "Device 0" 0 4096]
  have "registry_run exampleServices P D (G [NewPrivate (W ''BCT'') (Device 0) 0 4096 False]) w" by simp
  from next' [OF this _ _ active(2), of "Device 0" 20480 512] names
  have "registry_run exampleServices P D (G [NewPrivate (W ''BCT'') (Device 0) 0 4096 False,
      NewPrivate (W ''A_x'') (Device 0) 20480 512 True]) w" by (simp add: name_chars)
  from next' [OF this _ _ active(3), of "Device 0" 40960 512]
  have "registry_run exampleServices P D (G [NewPrivate (W ''BCT'') (Device 0) 0 4096 False,
      NewPrivate (W ''A_x'') (Device 0) 20480 512 True,
      NewPrivate (W ''B_x'') (Device 0) 40960 512 False]) w" by (simp add: name_chars)
  from next' [OF this _ _ active(4), of "PseudoDevice None" 0 GptGetGptDataSize] names(5)
  show ?thesis by (simp add: name_chars G_def) (simp add: exampleRegistry_def name_chars)
qed

lemma exampleRegistry_ok: "registry_ok exampleServices exampleRegistry"
  using registry_run_ok [OF _ exampleRegistry_run] by simp

lemma all_less_4: "(\<forall>i < (4::nat). Q i) \<longleftrightarrow> Q 0 \<and> Q 1 \<and> Q 2 \<and> Q 3"
  by (auto simp: numeral_eq_Suc less_Suc_eq)

lemma ex_less_4: "(\<exists>i < (4::nat). Q i) \<longleftrightarrow> Q 0 \<or> Q 1 \<or> Q 2 \<or> Q 3"
  by (auto simp: numeral_eq_Suc less_Suc_eq)

lemma exampleRegistry_layout: "layout_safe exampleRegistry"
proof -
  have name: "W ''B_x'' \<notin> set NonABPartitionNames" "length (W ''BCT'') < 36" "length (W ''A_x'') < 36" "length (W ''B_x'') < 36"
    "length FW_PARTITION_UPDATE_INACTIVE_PARTITIONS < 36"
    by (simp_all add: NonABPartitionNames_def W_def FW_PARTITION_UPDATE_INACTIVE_PARTITIONS_def)
  show ?thesis
    unfolding layout_safe_def exampleRegistry_nth(1) all_less_4
    by (simp add: name PRange_def Protected_def GptGetGptDataSize_def gpt_sizes)
qed


text \<open>The example update through the pseudo partition, for one entry with a given name.\<close>

lemma FindByName_example:
  "FwPartitionFindByName exampleRegistry n =
     (if n = W ''BCT'' then Some 0 else if n = W ''A_x'' then Some 1 else if n = W ''B_x'' then Some 2
      else if n = FW_PARTITION_UPDATE_INACTIVE_PARTITIONS then Some 3 else None)"
proof -
  have "length FW_PARTITION_UPDATE_INACTIVE_PARTITIONS < 36"
    by (simp add: FW_PARTITION_UPDATE_INACTIVE_PARTITIONS_def W_def)
  then show ?thesis
    by (auto simp: FwPartitionFindByName_def exampleRegistry_def name_chars)
qed

lemma example_write:
  assumes "c1 \<noteq> 0" and "c2 \<noteq> 0" and "c3 \<noteq> 0" and "{unat lo, unat hi} \<subseteq> {34..100}"
  shows "FwPartitionWrite exampleServices D exampleRegistry (Some 3) 0 16476
      (Some (exampleUpdate lo hi [c1, 0, c2, 0, c3, 0])) w =
    (case UpdateEntriesLoop exampleServices None (exampleUpdate lo hi [c1, 0, c2, 0, c3, 0]) 1 0 exampleRegistry of
       None \<Rightarrow> None | Some (st, G') \<Rightarrow> Some (st, G', w))"
proof -
  note f = exampleUpdate_fields [OF assms]
  have "AllocatePool exampleServices 16476 \<noteq> None" by (simp add: exampleServices_def)
  with f show ?thesis
    by (auto simp: FwPartitionWrite_def FwPartitionCheckOffsetAndBytes_def add64_def GptGetGptDataSize_def
        FwPartitionWriteToUpdateInactivePartitions_def load_bytes_def gpt_sizes Let_def
        simp del: UpdateEntriesLoop.simps split: option.splits)
qed

lemma example_loop:
  assumes "c1 \<noteq> 0" and "c2 \<noteq> 0" and "c3 \<noteq> 0" and "{unat lo, unat hi} \<subseteq> {34..100}" and "lo \<le> hi"
  shows "UpdateEntriesLoop S Mm (exampleUpdate lo hi [c1, 0, c2, 0, c3, 0]) 1 0 G =
    (case GetPartitionBaseNameAndBootChainAny (Strings S)
        (Some [of_nat (unat c1), of_nat (unat c2), of_nat (unat c3)]) (Some []) (Some 0) of
       None \<Rightarrow> None
     | Some (st, base, chain) \<Rightarrow>
         if EFI_ERROR st then Some (EFI_SUCCESS, G)
         else (case FwPartitionFindByName G [of_nat (unat c1), of_nat (unat c2), of_nat (unat c3)] of
             None \<Rightarrow> AddNewPartition S G Mm [of_nat (unat c1), of_nat (unat c2), of_nat (unat c3)]
                       (unat lo) (unat hi - unat lo + 1)
           | Some k \<Rightarrow>
               if chain \<noteq> Some (OTHER_BOOT_CHAIN (mActiveBootChain G)) then Some (EFI_SUCCESS, G)
               else Some (MovePartition G Mm k (unat lo) (unat hi - unat lo + 1))))"
proof -
  have le: "unat lo \<le> unat hi" using assms(5) by (simp add: word_le_nat_alt)
  have "unat hi < 256" by (rule unat_byte_bound)
  then have "add64 (sub64 (unat hi) (unat lo)) 1 = unat hi - unat lo + 1"
    using le add64_less [of "unat hi - unat lo" 1] by (simp add: sub64_le)
  then have "GptPartitionSizeInBlocks (exampleUpdate lo hi [c1, 0, c2, 0, c3, 0]) 0
      = Some (unat hi - unat lo + 1)"
    using exampleUpdate_fields(4,5) [OF assms(1-4)] by (simp add: GptPartitionSizeInBlocks_def)
  then show ?thesis
    using exampleUpdate_fields(4,6) [OF assms(1-4)]
    by (auto split: option.splits prod.splits bind_splits)
qed

text \<open>The example update moves \<open>B_x\<close> to the blocks 60 to 70.\<close>

lemma example_moves:
  "FwPartitionWrite exampleServices D exampleRegistry (Some 3) 0 16476
     (Some (exampleUpdate 60 70 [0x42, 0, 0x5f, 0, 0x78, 0])) w
   = Some (EFI_SUCCESS, SetRange exampleRegistry 2 30720 5632, w)"
proof -
  have "\<not> Overlaps exampleRegistry 2 30720 5632"
    unfolding Overlaps_iff exampleRegistry_nth(1) ex_less_4
    by (simp add: add64_def GptGetGptDataSize_def gpt_sizes)
  then have "MovePartition exampleRegistry None 2 60 11 = (EFI_SUCCESS, SetRange exampleRegistry 2 30720 5632)"
    by (simp add: MovePartition_def gpt_sizes MAX_UINT64_def sub64_def)
  then show ?thesis
    by (simp add: example_write example_loop three_characters FindByName_example name_chars
        OTHER_BOOT_CHAIN_def del: UpdateEntriesLoop.simps One_nat_def)
qed

section \<open>Properties\<close>

text \<open>
  Whatever sequence of calls fills the registry and writes partitions, the registry never exceeds
  its array, no two partitions have the same name (but for names of 36 characters or more,
  which are stored as empty), and a partition is marked active exactly as its name says.
\<close>

theorem registry_invariant:
  assumes "documented_strings (Strings S)" and "registry_run S P D G w"
  shows "length (mPrivate G) \<le> mMaxFwPartitions G
    \<and> (\<forall>i < length (mPrivate G). \<forall>j < length (mPrivate G).
         PName (mPrivate G ! i) = PName (mPrivate G ! j) \<longrightarrow> PName (mPrivate G ! i) \<noteq> [] \<longrightarrow> i = j)
    \<and> (\<forall>i < length (mPrivate G). PName (mPrivate G ! i) \<noteq> [] \<longrightarrow>
         FwPartitionIsActive S G (PName (mPrivate G ! i)) = Some (PActive (mPrivate G ! i)))"
proof -
  from registry_run_ok [OF assms] have ok: "registry_ok S G" .
  then have "distinct (filter (\<lambda>n. n \<noteq> []) (map PName (mPrivate G)))"
    by (simp add: registry_ok_def)
  from distinct_filter_index [OF this] ok show ?thesis by (auto simp: registry_ok_def)
qed

theorem registry_invariant_witness:
  "length (mPrivate exampleRegistry) \<le> mMaxFwPartitions exampleRegistry
    \<and> PName (mPrivate exampleRegistry ! 0) \<noteq> PName (mPrivate exampleRegistry ! 1)
    \<and> FwPartitionIsActive exampleServices exampleRegistry (PName (mPrivate exampleRegistry ! 1))
        = Some (PActive (mPrivate exampleRegistry ! 1))"
proof -
  have n: "PName (mPrivate exampleRegistry ! 1) \<noteq> []" by (simp add: name_chars)
  note inv = registry_invariant [OF exampleServices_documented exampleRegistry_run]
  from inv [THEN conjunct2, THEN conjunct1, rule_format, of 1 0]
    inv [THEN conjunct2, THEN conjunct2, rule_format, of 1] inv [THEN conjunct1] n
  show ?thesis by (metis exampleRegistry_nth(1) one_less_numeral_iff semiring_norm(76) zero_less_numeral zero_neq_one)
qed

text \<open>
  C23: The partitions of the active boot chain are safe from a write: no write through any
  partition, not even one that replaces the partition table, moves or resizes an active
  partition, and a write to an active partition itself is refused without touching a device,
  unless the platform allows to overwrite them.
\<close>

theorem active_partitions_fixed:
  assumes "documented_strings (Strings S)" and "registry_run S P D G w"
    and "FwPartitionWrite S D G This off n buf w = Some (st, G', w')"
    and "i < length (mPrivate G)" and "PActive (mPrivate G ! i)"
  shows "i < length (mPrivate G') \<and> mPrivate G' ! i = mPrivate G ! i
    \<and> (This = Some i \<longrightarrow> \<not> mOverwriteActiveFwPartition G \<longrightarrow> EFI_ERROR st \<and> w' = w)"
proof -
  note ok = registry_run_ok [OF assms(1,2)]
  define I where "I H \<longleftrightarrow> registry_ok S H \<and> i < length (mPrivate H) \<and> mPrivate H ! i = mPrivate G ! i" for H
  have loop: "I G'" if "UpdateEntriesLoop S Mm t entries 0 G = Some (st1, G')" for Mm t entries st1
    using that
  proof (rule UpdateEntriesLoop_induct)
    show "I G" using ok assms(4) by (simp add: I_def)
  next
    fix H name start blocks st2 H'
    assume "I H" "AddNewPartition S H Mm name start blocks = Some (st2, H')"
    then show "I H'"
      using FwPartitionAdd_ok [OF assms(1)]
      by (auto simp: I_def FwPartitionAdd_Some [OF assms(1)] nth_append split: if_splits
          dest!: AddNewPartition_Add)
  next
    fix H name k base start blocks st2 H'
    assume H: "I H" "name \<noteq> []" "FwPartitionFindByName H name = Some k"
        "GetPartitionBaseNameAndBootChainAny (Strings S) (Some name) (Some []) (Some 0)
          = Some (EFI_SUCCESS, base, Some (OTHER_BOOT_CHAIN (mActiveBootChain H)))"
      and m: "MovePartition H Mm k start blocks = (st2, H')"
    from H(1) have "registry_ok S H" by (simp add: I_def)
    from moved_not_active [OF this H(2-4)] H(1) assms(5) have "i \<noteq> k" by (auto simp: I_def)
    with m H(1) show "I H'"
      by (cases rule: MovePartition_cases) (auto simp: I_def SetRange_nth intro: SetRange_ok)
  qed
  then have "I G'"
    using FwPartitionWrite_registry [OF assms(3)] ok assms(4) by (auto simp: I_def)
  moreover have "EFI_ERROR st \<and> w' = w" if "This = Some i" "\<not> mOverwriteActiveFwPartition G"
    using assms(3-5) that
    by (auto simp: FwPartitionWrite_def Let_def split: option.splits if_splits)
  ultimately show ?thesis by (simp add: I_def)
qed

theorem active_partitions_fixed_witness:
  "mPrivate (SetRange exampleRegistry 2 30720 5632) ! 1 = mPrivate exampleRegistry ! 1"
  using active_partitions_fixed [OF exampleServices_documented exampleRegistry_run
      example_moves [of exampleDevices "[]"], of 1] by simp

text \<open>
  C25: In a safe layout a write to a partition of the inactive chain cannot damage the active
  one: it either fails without touching a device, or is one write to the device that stays
  inside the partition and outside every active partition of the same device.
\<close>

theorem inactive_write_apart:
  assumes "layout_safe G" and "i < length (mPrivate G)" and "\<not> Protected (mPrivate G ! i)"
    and "DeviceInfo (mPrivate G ! i) = Device d" and "PBytes (mPrivate G ! i) < 2 ^ 63"
    and "FwPartitionWrite S D G (Some i) off n (Some buf) w = Some (st, G', w')"
  shows "EFI_ERROR st \<and> w' = w
    \<or> Some (st, w') = DeviceWrite D d (PName (mPrivate G ! i)) (off + POffset (mPrivate G ! i)) n buf w
      \<and> {off + POffset (mPrivate G ! i)..<off + POffset (mPrivate G ! i) + n} \<subseteq> PRange (mPrivate G ! i)
      \<and> (\<forall>j < length (mPrivate G). PActive (mPrivate G ! j) \<and> DeviceInfo (mPrivate G ! j) = Device d \<longrightarrow>
           PRange (mPrivate G ! j)
             \<inter> {off + POffset (mPrivate G ! i)..<off + POffset (mPrivate G ! i) + n} = {})"
proof (cases "EFI_ERROR (FwPartitionCheckOffsetAndBytes (PBytes (mPrivate G ! i)) off n)")
  case True
  with assms show ?thesis by (auto simp: FwPartitionWrite_def Let_def split: if_splits)
next
  case False
  then have b: "off \<le> PBytes (mPrivate G ! i)" "n \<le> PBytes (mPrivate G ! i)"
      "add64 off n \<le> PBytes (mPrivate G ! i)"
    by (auto simp: FwPartitionCheckOffsetAndBytes_def split: if_splits)
  with assms(5) have sum: "off + n \<le> PBytes (mPrivate G ! i)" using add64_less [of off n] by simp
  have fits: "POffset (mPrivate G ! i) + PBytes (mPrivate G ! i) < 2 ^ 64"
    using assms(1,2) by (simp add: layout_safe_def)
  with b(1) have "add64 off (POffset (mPrivate G ! i)) = off + POffset (mPrivate G ! i)"
    by (intro add64_less) simp
  moreover have "\<not> PActive (mPrivate G ! i)" using assms(3) by (simp add: Protected_def)
  ultimately have "Some (st, w') = DeviceWrite D d (PName (mPrivate G ! i)) (off + POffset (mPrivate G ! i)) n buf w"
    using assms(2,4,6) False by (auto simp: FwPartitionWrite_def Let_def bind_eq_Some_conv)
  moreover have inside: "{off + POffset (mPrivate G ! i)..<off + POffset (mPrivate G ! i) + n} \<subseteq> PRange (mPrivate G ! i)"
    using sum by (auto simp: PRange_def)
  moreover have "PRange (mPrivate G ! j) \<inter> PRange (mPrivate G ! i) = {}"
    if "j < length (mPrivate G)" "PActive (mPrivate G ! j)" "DeviceInfo (mPrivate G ! j) = Device d" for j
    using assms(1-4) that by (simp add: layout_safe_def)
  ultimately show ?thesis by blast
qed

theorem inactive_write_apart_witness:
  "DeviceWrite exampleDevices 0 (PName (mPrivate exampleRegistry ! 2))
      (40 + POffset (mPrivate exampleRegistry ! 2)) 4 [1, 2, 3, 4] [] = Some (EFI_SUCCESS, [(0, 41000, 4)])
    \<and> {40 + POffset (mPrivate exampleRegistry ! 2)..<40 + POffset (mPrivate exampleRegistry ! 2) + 4}
        \<subseteq> PRange (mPrivate exampleRegistry ! 2)"
proof -
  have "FwPartitionWrite exampleServices exampleDevices exampleRegistry (Some 2) 40 4 (Some [1, 2, 3, 4]) []
      = Some (EFI_SUCCESS, exampleRegistry, [(0, 41000, 4)])"
    by (simp add: FwPartitionWrite_def exampleDevices_def FwPartitionCheckOffsetAndBytes_def add64_def)
  moreover have "\<not> Protected (mPrivate exampleRegistry ! 2)"
    by (simp add: Protected_def NonABPartitionNames_def name_chars W_def
        FW_PARTITION_UPDATE_INACTIVE_PARTITIONS_def)
  ultimately show ?thesis
    using inactive_write_apart [OF exampleRegistry_layout, of 2 0] by fastforce
qed

text \<open>
  C24: A write of a new partition table through the pseudo partition keeps the layout safe, whatever
  the table contains and whether it succeeds or is refused half way, provided it adds no partition:
  no partition of the inactive chain can be moved or enlarged over an active one.
\<close>

theorem update_keeps_layout:
  assumes "documented_strings (Strings S)" and "registry_run S P D G w" and "layout_safe G"
    and "FwPartitionWrite S D G This off n buf w = Some (st, G', w')"
    and "length (mPrivate G') = length (mPrivate G)"
  shows "layout_safe G'"
  using FwPartitionWrite_registry [OF assms(4)] assms(3,5)
    UpdateEntriesLoop_layout [OF assms(1) registry_run_ok [OF assms(1,2)] assms(3)]
  by blast

theorem update_keeps_layout_witness: "layout_safe (SetRange exampleRegistry 2 30720 5632)"
  by (rule update_keeps_layout [OF exampleServices_documented exampleRegistry_run exampleRegistry_layout
        example_moves [of exampleDevices "[]"]]) simp

text \<open>
  A write of a new partition table through the pseudo partition of the boot flash changes a
  registered partition only as the new table says: a partition whose entry in the registry
  differs afterwards is named by an entry of the table, belongs to the inactive boot chain, and
  has exactly the offset and the size of that entry, without wrap-around, and else what it had.
\<close>

theorem update_moves_to_table:
  assumes "FwPartitionWrite S D G (Some p) off n (Some buf) w = Some (st, G', w')"
    and "documented_strings (Strings S)"
    and "DeviceInfo (mPrivate G ! p) = PseudoDevice None" and "k < length (mPrivate G)"
  shows "mPrivate G' ! k = mPrivate G ! k
    \<or> (\<exists>entries start blocks base.
         NumberOfPartitionEntries (take n buf) NVIDIA_GPT_PARTITION_TABLE_SIZE = Some entries
       \<and> TableEntry (take n buf) entries 0 (PName (mPrivate G ! k)) start blocks
       \<and> GetPartitionBaseNameAndBootChainAny (Strings S) (Some (PName (mPrivate G ! k))) (Some []) (Some 0)
           = Some (EFI_SUCCESS, base, Some (OTHER_BOOT_CHAIN (mActiveBootChain G)))
       \<and> mPrivate G' ! k = (mPrivate G ! k)\<lparr>PartitionInfo := (PartitionInfo (mPrivate G ! k))
             \<lparr>Offset := start * NVIDIA_GPT_BLOCK_SIZE, Bytes := blocks * NVIDIA_GPT_BLOCK_SIZE\<rparr>\<rparr>)"
proof (cases "G' = G")
  case False
  then obtain st1 entries where loop:
      "UpdateEntriesLoop S None (take n buf) entries 0 G = Some (st1, G')"
      "NumberOfPartitionEntries (take n buf) NVIDIA_GPT_PARTITION_TABLE_SIZE = Some entries"
    using FwPartitionWrite_registry [OF assms(1)] assms(3) by auto
  define Moved where "Moved P \<longleftrightarrow> (\<exists>start blocks base.
         TableEntry (take n buf) entries 0 (PName (mPrivate G ! k)) start blocks
       \<and> GetPartitionBaseNameAndBootChainAny (Strings S) (Some (PName (mPrivate G ! k))) (Some []) (Some 0)
           = Some (EFI_SUCCESS, base, Some (OTHER_BOOT_CHAIN (mActiveBootChain G)))
       \<and> P = (mPrivate G ! k)\<lparr>PartitionInfo := (PartitionInfo (mPrivate G ! k))
             \<lparr>Offset := start * NVIDIA_GPT_BLOCK_SIZE, Bytes := blocks * NVIDIA_GPT_BLOCK_SIZE\<rparr>\<rparr>)"
    for P :: FW_PARTITION_PRIVATE_DATA
  define I where "I H \<longleftrightarrow> k < length (mPrivate H) \<and> mActiveBootChain H = mActiveBootChain G
      \<and> (mPrivate H ! k = mPrivate G ! k \<or> Moved (mPrivate H ! k))" for H :: FW_PARTITION_GLOBALS
  from loop(1) have "I G'"
  proof (rule UpdateEntriesLoop_induct)
    show "I G" using assms(4) by (simp add: I_def)
  next
    fix H name start blocks st2 H'
    assume "I H" "AddNewPartition S H None name start blocks = Some (st2, H')"
    then show "I H'"
      by (auto simp: I_def FwPartitionAdd_Some [OF assms(2)] nth_append split: if_splits
          dest!: AddNewPartition_Add)
  next
    fix H name j base start blocks st2 H'
    assume H: "I H" "TableEntry (take n buf) entries 0 name start blocks"
        "FwPartitionFindByName H name = Some j"
        "GetPartitionBaseNameAndBootChainAny (Strings S) (Some name) (Some []) (Some 0)
          = Some (EFI_SUCCESS, base, Some (OTHER_BOOT_CHAIN (mActiveBootChain H)))"
      and m: "MovePartition H None j start blocks = (st2, H')"
    show "I H'"
    proof (cases "st2 = EFI_SUCCESS \<and> j = k")
      case True
      with m have H': "H' = SetRange H k (start * NVIDIA_GPT_BLOCK_SIZE) (blocks * NVIDIA_GPT_BLOCK_SIZE)"
        by (cases rule: MovePartition_cases) auto
      from H(1) have same: "PName (mPrivate H ! k) = PName (mPrivate G ! k)"
          "(mPrivate H ! k)\<lparr>PartitionInfo := (PartitionInfo (mPrivate H ! k))\<lparr>Offset := x, Bytes := y\<rparr>\<rparr>
            = (mPrivate G ! k)\<lparr>PartitionInfo := (PartitionInfo (mPrivate G ! k))\<lparr>Offset := x, Bytes := y\<rparr>\<rparr>" for x y
        by (auto simp: I_def Moved_def)
      from FindByName_Some [OF H(3)] True have "name = PName (mPrivate G ! k)" using same(1) by simp
      with H have "Moved (mPrivate H' ! k)"
        unfolding Moved_def by (auto simp: H' SetRange_nth same(2) I_def)
      with H(1) H' show ?thesis by (simp add: I_def)
    next
      case False
      with m H(1) show ?thesis
        by (cases rule: MovePartition_cases) (auto simp: I_def SetRange_nth)
    qed
  qed
  then show ?thesis using loop(2) unfolding I_def Moved_def by auto
qed simp

theorem update_moves_to_table_witness:
  "mPrivate (SetRange exampleRegistry 2 30720 5632) ! 2 = mPrivate exampleRegistry ! 2
    \<or> (\<exists>entries start blocks base.
         NumberOfPartitionEntries (take 16476 (exampleUpdate 60 70 [0x42, 0, 0x5f, 0, 0x78, 0]))
           NVIDIA_GPT_PARTITION_TABLE_SIZE = Some entries
       \<and> TableEntry (take 16476 (exampleUpdate 60 70 [0x42, 0, 0x5f, 0, 0x78, 0])) entries 0
           (PName (mPrivate exampleRegistry ! 2)) start blocks
       \<and> GetPartitionBaseNameAndBootChainAny (Strings exampleServices)
             (Some (PName (mPrivate exampleRegistry ! 2))) (Some []) (Some 0)
           = Some (EFI_SUCCESS, base, Some (OTHER_BOOT_CHAIN (mActiveBootChain exampleRegistry)))
       \<and> mPrivate (SetRange exampleRegistry 2 30720 5632) ! 2 = (mPrivate exampleRegistry ! 2)\<lparr>PartitionInfo :=
             (PartitionInfo (mPrivate exampleRegistry ! 2))
             \<lparr>Offset := start * NVIDIA_GPT_BLOCK_SIZE, Bytes := blocks * NVIDIA_GPT_BLOCK_SIZE\<rparr>\<rparr>)"
  by (rule update_moves_to_table [OF example_moves [of exampleDevices "[]"]]) simp_all

text \<open>The example's registry with a partition of the inactive chain over the one of the active chain.\<close>

definition exampleAdded :: FW_PARTITION_GLOBALS where
  "exampleAdded = exampleRegistry\<lparr>mPrivate := mPrivate exampleRegistry
     @ [NewPrivate (W ''B_y'') (Device 0) 20480 5632 False]\<rparr>"

lemma unprotected_name:
  "W ''B_y'' \<notin> set NonABPartitionNames" "W ''B_y'' \<noteq> FW_PARTITION_UPDATE_INACTIVE_PARTITIONS"
  "length FW_PARTITION_UPDATE_INACTIVE_PARTITIONS < 36"
  by (simp_all add: NonABPartitionNames_def FW_PARTITION_UPDATE_INACTIVE_PARTITIONS_def W_def)

lemma exampleAdded_Add:
  "FwPartitionAdd exampleServices exampleRegistry (W ''B_y'') (Device 0) 20480 5632 = Some (EFI_SUCCESS, exampleAdded)"
  unfolding exampleAdded_def
proof (rule FwPartitionAdd_new)
  show "W ''B_y'' \<notin> PName ` set (mPrivate exampleRegistry)"
    using unprotected_name by (auto simp: exampleRegistry_def name_chars)
  show "FwPartitionIsActive exampleServices exampleRegistry (W ''B_y'') = Some False"
    using unprotected_name(1) by (simp add: FwPartitionIsActive_def three_characters name_chars)
qed simp_all

lemma exampleAdded_unsafe:
  "\<not> layout_safe exampleAdded \<and> \<not> PActive (mPrivate exampleAdded ! 4)
   \<and> PRange (mPrivate exampleAdded ! 1) \<subseteq> PRange (mPrivate exampleAdded ! 4)"
proof (intro conjI notI)
  assume "layout_safe exampleAdded"
  moreover have "1 < length (mPrivate exampleAdded)" "4 < length (mPrivate exampleAdded)" "PActive (mPrivate exampleAdded ! 1)"
      "\<not> Protected (mPrivate exampleAdded ! 4)"
      "DeviceInfo (mPrivate exampleAdded ! 1) = DeviceInfo (mPrivate exampleAdded ! 4)"
    using unprotected_name by (simp_all add: exampleAdded_def nth_append Protected_def name_chars)
  ultimately have "PRange (mPrivate exampleAdded ! 1) \<inter> PRange (mPrivate exampleAdded ! 4) = {}"
    unfolding layout_safe_def by blast
  then show False by (simp add: exampleAdded_def nth_append PRange_def)
qed (simp_all add: exampleAdded_def nth_append PRange_def)

text \<open>
  A partition that the new table adds is not checked against the active ones: in a safe layout
  in which an update that moves the known partition \<open>B_x\<close> over the active \<open>A_x\<close> is refused, the
  same update with the unknown name \<open>B_y\<close> succeeds and leaves a writable partition over \<open>A_x\<close>.
\<close>

theorem new_partition_unchecked:
  "layout_safe exampleRegistry
    \<and> FwPartitionWrite exampleServices exampleDevices exampleRegistry (Some 3) 0 16476
        (Some (exampleUpdate 40 50 [0x42, 0, 0x5f, 0, 0x78, 0])) [] = Some (EFI_SECURITY_VIOLATION, exampleRegistry, [])
    \<and> (\<exists>G'. FwPartitionWrite exampleServices exampleDevices exampleRegistry (Some 3) 0 16476
          (Some (exampleUpdate 40 50 [0x42, 0, 0x5f, 0, 0x79, 0])) [] = Some (EFI_SUCCESS, G', [])
        \<and> \<not> layout_safe G' \<and> \<not> PActive (mPrivate G' ! 4)
        \<and> PRange (mPrivate G' ! 1) \<subseteq> PRange (mPrivate G' ! 4))"
proof (intro conjI)
  show "layout_safe exampleRegistry" by (rule exampleRegistry_layout)
  have "Overlaps exampleRegistry 2 20480 5632"
    unfolding Overlaps_iff exampleRegistry_nth(1) ex_less_4
    by (simp add: add64_def Protected_def)
  then have "MovePartition exampleRegistry None 2 40 11 = (EFI_SECURITY_VIOLATION, exampleRegistry)"
    by (simp add: MovePartition_def gpt_sizes)
  then show "FwPartitionWrite exampleServices exampleDevices exampleRegistry (Some 3) 0 16476
      (Some (exampleUpdate 40 50 [0x42, 0, 0x5f, 0, 0x78, 0])) [] = Some (EFI_SECURITY_VIOLATION, exampleRegistry, [])"
    by (simp add: example_write example_loop three_characters FindByName_example name_chars
        OTHER_BOOT_CHAIN_def del: UpdateEntriesLoop.simps One_nat_def)
  have unknown: "FwPartitionFindByName exampleRegistry (W ''B_y'') = None"
    using unprotected_name(2) by (simp add: FindByName_example name_chars)
  have "AddNewPartition exampleServices exampleRegistry None (W ''B_y'') 40 11 = Some (EFI_SUCCESS, exampleAdded)"
    by (simp add: AddNewPartition_def FindByName_example gpt_sizes exampleAdded_Add)
  with unknown have "FwPartitionWrite exampleServices exampleDevices exampleRegistry (Some 3) 0 16476
      (Some (exampleUpdate 40 50 [0x42, 0, 0x5f, 0, 0x79, 0])) [] = Some (EFI_SUCCESS, exampleAdded, [])"
    by (simp add: example_write example_loop three_characters name_chars
        OTHER_BOOT_CHAIN_def del: UpdateEntriesLoop.simps One_nat_def)
  with exampleAdded_unsafe
  show "\<exists>G'. FwPartitionWrite exampleServices exampleDevices exampleRegistry (Some 3) 0 16476
          (Some (exampleUpdate 40 50 [0x42, 0, 0x5f, 0, 0x79, 0])) [] = Some (EFI_SUCCESS, G', [])
        \<and> \<not> layout_safe G' \<and> \<not> PActive (mPrivate G' ! 4)
        \<and> PRange (mPrivate G' ! 1) \<subseteq> PRange (mPrivate G' ! 4)"
    by blast
qed

section \<open>The registry as a map\<close>

text \<open>
  What the registry stands for: the number of partitions and a map from names to partitions, in which
  adding is a guarded map update.
\<close>

definition registry_map :: "FW_PARTITION_GLOBALS \<Rightarrow> wstring \<rightharpoonup> FW_PARTITION_PRIVATE_DATA" where
  "registry_map G n = map_option (\<lambda>k. mPrivate G ! k) (FwPartitionFindByName G n)"

definition SpecAdd ::
  "nat \<Rightarrow> wstring \<Rightarrow> FW_PARTITION_PRIVATE_DATA \<Rightarrow> nat \<times> (wstring \<rightharpoonup> FW_PARTITION_PRIVATE_DATA)
   \<Rightarrow> EFI_STATUS \<times> nat \<times> (wstring \<rightharpoonup> FW_PARTITION_PRIVATE_DATA)" where
  "SpecAdd capacity n P = (\<lambda>(count, m).
     if count \<ge> capacity then (EFI_OUT_OF_RESOURCES, count, m)
     else if n \<in> dom m then (EFI_ALREADY_STARTED, count, m)
     else (EFI_SUCCESS, count + 1, m(n \<mapsto> P)))"

lemma registry_map_append:
  assumes "PName P \<notin> PName ` set (mPrivate G)"
  shows "registry_map (G\<lparr>mPrivate := mPrivate G @ [P]\<rparr>) = (registry_map G)(PName P \<mapsto> P)"
proof
  fix n
  show "registry_map (G\<lparr>mPrivate := mPrivate G @ [P]\<rparr>) n = ((registry_map G)(PName P \<mapsto> P)) n"
    using assms FindFrom_None [of "PName P" "mPrivate G" 0] FindFrom_Some [of n "mPrivate G" 0]
    by (cases "n = PName P"; cases "FindFrom n (mPrivate G) 0")
       (auto simp: registry_map_def FwPartitionFindByName_def FindFrom_append nth_append)
qed

lemma dom_registry_map: "dom (registry_map G) = PName ` set (mPrivate G)"
  using FindByName_None [of G] by (auto simp: registry_map_def dom_def)

text \<open>
  Adding a partition implements the map update: for a name of 2 to 35 characters
  \<open>FwPartitionAdd\<close> has a result, its status and the new registry are those of the guarded
  map update, and looking names up is looking them up in the map.
\<close>

theorem FwPartitionAdd_refines:
  assumes "documented_strings (Strings S)" and "2 \<le> length n" and "length n < FW_PARTITION_NAME_LENGTH"
  shows "\<exists>active. FwPartitionIsActive S G n = Some active
    \<and> map_option (\<lambda>(st, G'). (st, FwPartitionGetCount G', registry_map G')) (FwPartitionAdd S G n d off bytes)
      = Some (SpecAdd (mMaxFwPartitions G) n (NewPrivate n d off bytes active)
                (FwPartitionGetCount G, registry_map G))"
proof -
  have "GetPartitionBaseNameAndBootChainAny (Strings S) (Some n) (Some []) (Some 0) \<noteq> None"
    using assms(2) by (simp add: BaseName_None_iff)
  then have "FwPartitionIsActive S G n \<noteq> None"
    by (auto simp: FwPartitionIsActive_def split: if_splits)
  then obtain active where a: "FwPartitionIsActive S G n = Some active" by blast
  have P: "PName (NewPrivate n d off bytes active) = n"
    using assms(3) by (simp add: FW_PARTITION_NAME_LENGTH_def)
  consider "mMaxFwPartitions G \<le> length (mPrivate G)"
    | "length (mPrivate G) < mMaxFwPartitions G" "n \<in> PName ` set (mPrivate G)"
    | "length (mPrivate G) < mMaxFwPartitions G" "n \<notin> PName ` set (mPrivate G)"
    by linarith
  then show ?thesis
  proof cases
    case 3
    with a P registry_map_append [of "NewPrivate n d off bytes active" G] show ?thesis
      by (simp add: FwPartitionAdd_new [OF assms(1)] SpecAdd_def dom_registry_map FwPartitionGetCount_def)
  qed (use a FindByName_None [of G n] in
       \<open>auto simp: FwPartitionAdd_def SpecAdd_def dom_registry_map FwPartitionGetCount_def\<close>)
qed

theorem FwPartitionAdd_refines_witness:
  "\<exists>active. FwPartitionIsActive exampleServices exampleRegistry (W ''B_y'') = Some active
    \<and> map_option (\<lambda>(st, G'). (st, FwPartitionGetCount G', registry_map G'))
        (FwPartitionAdd exampleServices exampleRegistry (W ''B_y'') (Device 0) 65536 512)
      = Some (SpecAdd (mMaxFwPartitions exampleRegistry) (W ''B_y'')
                (NewPrivate (W ''B_y'') (Device 0) 65536 512 active)
                (FwPartitionGetCount exampleRegistry, registry_map exampleRegistry))"
  by (rule FwPartitionAdd_refines [OF exampleServices_documented])
     (simp_all add: name_chars FW_PARTITION_NAME_LENGTH_def)

text \<open>
  The partitions that the code keeps apart from the boot chains, such as \<open>BCT\<close>, count as partitions
  of chain A when the table is updated: while chain B is active an entry with such a name
  moves the partition like one of the inactive chain, while chain A is active it does not.
\<close>

theorem nonAB_partition_moved:
  assumes "documented_strings (Strings S)" and "name \<in> set NonABPartitionNames"
    and "StrAt t (PartitionName_at p) = Some name"
    and "StartingLBA t p = Some start" and "GptPartitionSizeInBlocks t p = Some blocks"
    and "FwPartitionFindByName G name = Some k"
    and "MovePartition G Mm k start blocks = (EFI_SUCCESS, G')"
  shows "(mActiveBootChain G = 1 \<longrightarrow> UpdateEntriesLoop S Mm t 1 p G = Some (EFI_SUCCESS, G'))
    \<and> (mActiveBootChain G = 0 \<longrightarrow> UpdateEntriesLoop S Mm t 1 p G = Some (EFI_SUCCESS, G))"
proof -
  have name: "name \<noteq> []" "GetPartitionBaseNameAndBootChainAny (Strings S) (Some name) (Some []) (Some 0)
      = Some (EFI_SUCCESS, Some name, Some 0)"
    using assms(1,2)
    by (auto simp: NonABPartitionNames_def FW_PARTITION_UPDATE_INACTIVE_PARTITIONS_def W_def
        GetPartitionBaseNameAndBootChainAny_def name_simps string_functions)
  then show ?thesis
    using assms(3-7) by (simp add: OTHER_BOOT_CHAIN_def)
qed

theorem nonAB_partition_moved_witness:
  "UpdateEntriesLoop exampleServices None (exampleUpdate 60 70 [0x42, 0, 0x43, 0, 0x54, 0]) 1 0
     (exampleRegistry\<lparr>mActiveBootChain := 1\<rparr>)
   = Some (EFI_SUCCESS, SetRange (exampleRegistry\<lparr>mActiveBootChain := 1\<rparr>) 0 30720 5632)"
proof -
  let ?G = "exampleRegistry\<lparr>mActiveBootChain := 1\<rparr>" and ?t = "exampleUpdate 60 70 [0x42, 0, 0x43, 0, 0x54, 0]"
  have t: "StrAt ?t 56 = Some (W ''BCT'')" "StartingLBA ?t 0 = Some 60" "GptPartitionSizeInBlocks ?t 0 = Some 11"
    using exampleUpdate_fields(4-6) [of "0x42" "0x43" "0x54" 60 70] add64_less [of 10 1]
    by (simp_all add: GptPartitionSizeInBlocks_def sub64_le name_chars)
  have "\<not> Overlaps ?G 0 30720 5632"
    unfolding Overlaps_iff by (simp add: ex_less_4 add64_def GptGetGptDataSize_def gpt_sizes)
  then have m: "MovePartition ?G None 0 60 11 = (EFI_SUCCESS, SetRange ?G 0 30720 5632)"
    by (simp add: MovePartition_def gpt_sizes MAX_UINT64_def sub64_def)
  have "FwPartitionFindByName ?G (W ''BCT'') = Some 0"
    using FindByName_example by (simp add: FwPartitionFindByName_def)
  then show ?thesis
    using nonAB_partition_moved [OF exampleServices_documented, of "W ''BCT''" ?t 0 60 11 ?G 0 None, OF _ _ _ _ _ m] t
    by (simp add: NonABPartitionNames_def del: UpdateEntriesLoop.simps One_nat_def)
qed

end
