(* ===== verification/NorFlash.thy ===== *)
theory NorFlash
  imports MachineArith
begin

text \<open>
  The NOR flash protocol of \<open>Include/Protocol/NorFlash.h\<close> through which the management mode and the
  firmware partition driver reach a flash, and the behaviour of the flash behind it: a memory of
  bytes in which programming clears bits and erasing sets those of whole blocks.
\<close>

section \<open>The protocol\<close>

text \<open>\<open>Read\<close> at an offset a number of bytes, \<open>Write\<close> at an offset, \<open>Erase\<close> from a block a number of blocks.\<close>

record 'w NOR_FLASH_PROTOCOL =
  NorRead :: "nat \<Rightarrow> nat \<Rightarrow> 'w \<Rightarrow> EFI_STATUS \<times> byte list"
  NorWrite :: "nat \<Rightarrow> nat \<Rightarrow> byte list \<Rightarrow> 'w \<Rightarrow> EFI_STATUS \<times> 'w"
  NorErase :: "nat \<Rightarrow> nat \<Rightarrow> 'w \<Rightarrow> EFI_STATUS \<times> 'w"

section \<open>The memory\<close>

text \<open>
  The content of the flash is a function from addresses to bytes. Programming can only clear bits,
  an erased byte has all bits set.
\<close>

type_synonym memory = "nat \<Rightarrow> byte"

definition program :: "memory \<Rightarrow> nat \<Rightarrow> byte list \<Rightarrow> memory" where
  "program f off xs = (\<lambda>a. if off \<le> a \<and> a < off + length xs then f a AND xs ! (a - off) else f a)"

definition erased :: "memory \<Rightarrow> nat \<Rightarrow> nat \<Rightarrow> memory" where
  "erased f off n = (\<lambda>a. if off \<le> a \<and> a < off + n then 0xFF else f a)"

definition content :: "memory \<Rightarrow> nat \<Rightarrow> nat \<Rightarrow> byte list" where
  "content f off n = map f [off..<off + n]"

definition documented_flash ::
  "'w NOR_FLASH_PROTOCOL \<Rightarrow> nat \<Rightarrow> nat \<Rightarrow> ('w \<Rightarrow> memory) \<Rightarrow> bool" where
  "documented_flash N BlockSize Density view \<longleftrightarrow>
     (\<forall>off n w. off + n \<le> Density \<longrightarrow> NorRead N off n w = (EFI_SUCCESS, content (view w) off n))
   \<and> (\<forall>off xs w. off + length xs \<le> Density \<longrightarrow>
        fst (NorWrite N off (length xs) xs w) = EFI_SUCCESS
      \<and> view (snd (NorWrite N off (length xs) xs w)) = program (view w) off xs)
   \<and> (\<forall>b n w. (b + n) * BlockSize \<le> Density \<longrightarrow>
        fst (NorErase N b n w) = EFI_SUCCESS
      \<and> view (snd (NorErase N b n w)) = erased (view w) (b * BlockSize) (n * BlockSize))"

text \<open>A flash that keeps its content in a function is a model of that documentation.\<close>

definition memory_flash :: "nat \<Rightarrow> memory NOR_FLASH_PROTOCOL" where
  "memory_flash BlockSize = \<lparr> NorRead = (\<lambda>off n f. (EFI_SUCCESS, content f off n)),
     NorWrite = (\<lambda>off n xs f. (EFI_SUCCESS, program f off xs)),
     NorErase = (\<lambda>b n f. (EFI_SUCCESS, erased f (b * BlockSize) (n * BlockSize))) \<rparr>"

lemma memory_flash_documented: "documented_flash (memory_flash BlockSize) BlockSize Density (\<lambda>f. f)"
  by (simp add: documented_flash_def memory_flash_def)

lemma flash_read:
  "documented_flash N BlockSize Density view \<Longrightarrow> off + n \<le> Density
   \<Longrightarrow> NorRead N off n w = (EFI_SUCCESS, content (view w) off n)"
  by (simp add: documented_flash_def)

lemma flash_write:
  assumes "documented_flash N BlockSize Density view" and "off + length xs \<le> Density"
  obtains w' where "NorWrite N off (length xs) xs w = (EFI_SUCCESS, w')" "view w' = program (view w) off xs"
proof -
  have "fst (NorWrite N off (length xs) xs w) = EFI_SUCCESS"
    and "view (snd (NorWrite N off (length xs) xs w)) = program (view w) off xs"
    using assms by (simp_all add: documented_flash_def)
  then show thesis
    by (intro that [of "snd (NorWrite N off (length xs) xs w)"]) (simp_all add: prod_eq_iff)
qed

lemma flash_erase:
  assumes "documented_flash N BlockSize Density view" and "(b + n) * BlockSize \<le> Density"
  shows "view (snd (NorErase N b n w)) = erased (view w) (b * BlockSize) (n * BlockSize)"
  using assms by (simp add: documented_flash_def)

lemma content_simps [simp]:
  "length (content f off n) = n" "i < n \<Longrightarrow> content f off n ! i = f (off + i)"
  "content f off n = [] \<longleftrightarrow> n = 0"
  by (auto simp: content_def)

lemma content_add: "content f off (m + n) = content f off m @ content f (off + m) n"
proof -
  have "[off..<off + (m + n)] = [off..<off + m] @ [off + m..<off + m + n]"
    using upt_add_eq_append [of off "off + m" n] by (simp add: add.assoc)
  then show ?thesis by (simp add: content_def)
qed

lemma content_eq_iff: "content f off (length xs) = xs \<longleftrightarrow> (\<forall>i < length xs. f (off + i) = xs ! i)"
  by (auto simp: list_eq_iff_nth_eq)

lemma content_append:
  "content f off (length (xs @ ys)) = xs @ ys
   \<longleftrightarrow> content f off (length xs) = xs \<and> content f (off + length xs) (length ys) = ys"
  by (simp add: content_add)

end
