(* ===== verification/SeqRecord.thy ===== *)
theory SeqRecord
  imports NorFlash Crc8
begin

text \<open>
  \<open>SequentialRecordStorage.c\<close>: records that the management mode appends to a partition of NOR flash.
  The partition is used one block of 64 KB after the other. A record is a header of 8 bytes, flags,
  two reserved bytes, a checksum and the size, and the payload; the flags of the first record
  of a block mark the block as active or retired.

  The NOR flash of a socket is a record of its operations on an arbitrary world, since the
  flash driver is another component. Reading past a buffer has no result, and
  neither has a loop that does not end. \<open>AllocateZeroPool\<close> is a parameter that says whether it
  succeeds. A variable the code has not initialized is \<open>None\<close>.
\<close>

section \<open>Data\<close>

definition ERASE_BYTE :: byte where "ERASE_BYTE = 0xFF"
definition ACTIVE_PAGE_MAGIC :: byte where "ACTIVE_PAGE_MAGIC = 0xFE"
definition RETIRED_PAGE_MAGIC :: byte where "RETIRED_PAGE_MAGIC = 0xFC"
definition MIN_PARTITION_BLOCKS :: nat where "MIN_PARTITION_BLOCKS = 2"
definition SEQ_BLOCK_SIZE :: nat where "SEQ_BLOCK_SIZE = 65536"
definition MAX_SOCKETS :: nat where "MAX_SOCKETS = 4"
definition SIZE_OF_DATA_HDR :: nat where "SIZE_OF_DATA_HDR = 8"

lemmas seq_constants = ERASE_BYTE_def ACTIVE_PAGE_MAGIC_def RETIRED_PAGE_MAGIC_def
  MIN_PARTITION_BLOCKS_def SEQ_BLOCK_SIZE_def MAX_SOCKETS_def SIZE_OF_DATA_HDR_def

record PARTITION_INFO =
  PartitionByteOffset :: nat
  PartitionSize :: nat
  PartitionIndex :: nat

record 'w SEQ_RECORD_PROTOCOL =
  PartitionInfo :: PARTITION_INFO
  NorFlashProtocol :: "nat \<Rightarrow> 'w NOR_FLASH_PROTOCOL option"

text \<open>The fields of a header that was read: flags, checksum and size.\<close>

abbreviation Hdr_Flags where "Hdr_Flags h \<equiv> load8 h 0"
abbreviation Hdr_Crc8 where "Hdr_Crc8 h \<equiv> load8 h 3"
abbreviation Hdr_SizeBytes where "Hdr_SizeBytes h \<equiv> load32 h 4"

section \<open>Blocks\<close>

definition GetPartitionStartBlock :: "PARTITION_INFO \<Rightarrow> nat" where
  "GetPartitionStartBlock P = u32 (PartitionByteOffset P div SEQ_BLOCK_SIZE)"

definition GetPartitionNumBlocks :: "PARTITION_INFO \<Rightarrow> nat" where
  "GetPartitionNumBlocks P = u32 (PartitionSize P div SEQ_BLOCK_SIZE)"

definition GetPartitionLastBlock :: "PARTITION_INFO \<Rightarrow> nat" where
  "GetPartitionLastBlock P =
     u32 (GetPartitionStartBlock P + u32 (PartitionSize P div SEQ_BLOCK_SIZE) + (2 ^ 32 - 1))"

definition GetNextWriteBlock :: "PARTITION_INFO \<Rightarrow> nat \<Rightarrow> nat" where
  "GetNextWriteBlock P ActiveBlock =
     (if ActiveBlock = GetPartitionLastBlock P then GetPartitionStartBlock P
      else u32 (ActiveBlock + 1))"

definition IsSpiNorRegionErased ::
  "'w NOR_FLASH_PROTOCOL \<Rightarrow> (nat \<Rightarrow> bool) \<Rightarrow> 'w \<Rightarrow> nat \<Rightarrow> nat \<Rightarrow> bool" where
  "IsSpiNorRegionErased N Alloc w CurOffset RecSize =
     (if \<not> Alloc RecSize then False
      else case NorRead N CurOffset RecSize w of (Status, Buf) \<Rightarrow>
        if EFI_ERROR Status then False else list_all (\<lambda>b. b = ERASE_BYTE) Buf)"

text \<open>
  The result is the verdict and what the call leaves in \<open>*RecSize\<close>. The checksum starts at the size
  field; for a size below 4 its length wraps to nearly \<open>2 ^ 64\<close> bytes.
\<close>

definition IsValidRecord ::
  "'w NOR_FLASH_PROTOCOL \<Rightarrow> (nat \<Rightarrow> bool) \<Rightarrow> 'w \<Rightarrow> nat \<Rightarrow> nat option \<Rightarrow> (bool \<times> nat option) option" where
  "IsValidRecord N Alloc w CurOffset RecSize =
     (case NorRead N CurOffset SIZE_OF_DATA_HDR w of (Status, DataHdr) \<Rightarrow>
      if EFI_ERROR Status then Some (True, RecSize)
      else do {
        Flags \<leftarrow> Hdr_Flags DataHdr;
        if Flags \<noteq> ACTIVE_PAGE_MAGIC then Some (False, RecSize)
        else do {
          BufSize \<leftarrow> Hdr_SizeBytes DataHdr;
          if \<not> Alloc BufSize then Some (False, RecSize)
          else (case NorRead N CurOffset BufSize w of (Status, Buf) \<Rightarrow>
            if EFI_ERROR Status then Some (False, RecSize)
            else do {
              ComputedCrc8 \<leftarrow> CalculateCrc8 (drop 4 Buf) (sub64 BufSize 4) 0 TYPE_CRC8_MAXIM;
              Crc \<leftarrow> Hdr_Crc8 DataHdr;
              if Crc = ComputedCrc8 then Some (True, Some BufSize)
              else Some (False, RecSize) }) } })"

definition EraseNewBlock ::
  "'w NOR_FLASH_PROTOCOL \<Rightarrow> nat \<Rightarrow> nat \<Rightarrow> 'w \<Rightarrow> EFI_STATUS \<times> 'w" where
  "EraseNewBlock N BlockSize ActiveBlockNum w =
     (let EraseBlocks = SEQ_BLOCK_SIZE div BlockSize;
          EraseBlockNum = u32 (ActiveBlockNum * SEQ_BLOCK_SIZE) div BlockSize in
      NorErase N EraseBlockNum EraseBlocks w)"

definition RetireBlock :: "'w NOR_FLASH_PROTOCOL \<Rightarrow> nat \<Rightarrow> 'w \<Rightarrow> EFI_STATUS \<times> 'w" where
  "RetireBlock N RetireBlockNum w =
     (let ReadOffset = u32 (RetireBlockNum * SEQ_BLOCK_SIZE) in
      case NorRead N ReadOffset SIZE_OF_DATA_HDR w of (Status, DataHdr) \<Rightarrow>
        if EFI_ERROR Status then (Status, w)
        else NorWrite N ReadOffset SIZE_OF_DATA_HDR (DataHdr[0 := RETIRED_PAGE_MAGIC]) w)"

text \<open>The search tries \<open>n\<close> blocks from \<open>BlockIndex\<close> on; \<open>Active\<close> is the content of the output variable.\<close>

primrec GetActiveBlockLoop ::
  "'w NOR_FLASH_PROTOCOL \<Rightarrow> 'w \<Rightarrow> nat \<Rightarrow> nat \<Rightarrow> (EFI_STATUS \<times> nat option) option" where
  "GetActiveBlockLoop N w 0 BlockIndex = Some (EFI_NOT_FOUND, None)"
| "GetActiveBlockLoop N w (Suc n) BlockIndex =
     (case NorRead N (u32 (BlockIndex * SEQ_BLOCK_SIZE)) SIZE_OF_DATA_HDR w of (Status, DataHdr) \<Rightarrow>
      if EFI_ERROR Status then Some (Status, None)
      else do {
        Flags \<leftarrow> Hdr_Flags DataHdr;
        if Flags = ACTIVE_PAGE_MAGIC then Some (EFI_SUCCESS, Some (u32 BlockIndex))
        else GetActiveBlockLoop N w n (BlockIndex + 1) })"

definition GetActiveBlock ::
  "PARTITION_INFO \<Rightarrow> 'w NOR_FLASH_PROTOCOL \<Rightarrow> 'w \<Rightarrow> (EFI_STATUS \<times> nat option) option" where
  "GetActiveBlock P N w = GetActiveBlockLoop N w (GetPartitionNumBlocks P) (GetPartitionStartBlock P)"

section \<open>Finding records in a block\<close>

partial_function (option) ReadLastLoop ::
  "'w NOR_FLASH_PROTOCOL \<Rightarrow> (nat \<Rightarrow> bool) \<Rightarrow> 'w \<Rightarrow> nat \<Rightarrow> nat \<Rightarrow> nat option \<Rightarrow> nat \<Rightarrow> nat
   \<Rightarrow> (nat \<times> nat) option" where
  "ReadLastLoop N Alloc w EndOffset CurOffset CurSize PrevOffset PrevSize =
     (if CurOffset < EndOffset then do {
        (Valid, CurSize) \<leftarrow> IsValidRecord N Alloc w CurOffset CurSize;
        if Valid then do {
          Size \<leftarrow> CurSize;
          ReadLastLoop N Alloc w EndOffset (u32 (CurOffset + Size)) CurSize CurOffset Size }
        else Some (PrevOffset, PrevSize) }
      else Some (PrevOffset, PrevSize))"

definition GetReadLastOffset ::
  "'w NOR_FLASH_PROTOCOL \<Rightarrow> (nat \<Rightarrow> bool) \<Rightarrow> 'w \<Rightarrow> nat \<Rightarrow> (EFI_STATUS \<times> nat \<times> nat) option" where
  "GetReadLastOffset N Alloc w BlockNum = do {
     let StartOffset = u32 (BlockNum * SEQ_BLOCK_SIZE);
     let EndOffset = u32 (StartOffset + SEQ_BLOCK_SIZE);
     (ReadLastOffset, RecSize) \<leftarrow>
       ReadLastLoop N Alloc w EndOffset StartOffset (Some 0) StartOffset 0;
     Some (EFI_SUCCESS, ReadLastOffset, RecSize) }"

partial_function (option) CountRecordsLoop ::
  "'w NOR_FLASH_PROTOCOL \<Rightarrow> (nat \<Rightarrow> bool) \<Rightarrow> 'w \<Rightarrow> nat \<Rightarrow> nat \<Rightarrow> nat option \<Rightarrow> nat
   \<Rightarrow> (nat \<times> nat option) option" where
  "CountRecordsLoop N Alloc w EndOffset CurOffset CurSize RecordCount =
     (if CurOffset < EndOffset then do {
        (Valid, CurSize) \<leftarrow> IsValidRecord N Alloc w CurOffset CurSize;
        if Valid then do {
          Size \<leftarrow> CurSize;
          CountRecordsLoop N Alloc w EndOffset (u32 (CurOffset + Size)) CurSize (u32 (RecordCount + 1)) }
        else Some (RecordCount, CurSize) }
      else Some (RecordCount, CurSize))"

partial_function (option) FindRecordLoop ::
  "'w NOR_FLASH_PROTOCOL \<Rightarrow> (nat \<Rightarrow> bool) \<Rightarrow> 'w \<Rightarrow> nat \<Rightarrow> nat \<Rightarrow> nat option \<Rightarrow> nat \<Rightarrow> nat
   \<Rightarrow> (EFI_STATUS \<times> nat \<times> nat) option" where
  "FindRecordLoop N Alloc w EndOffset TargetIndex CurSize CurOffset RecordCount =
     (if CurOffset < EndOffset then do {
        (Valid, CurSize) \<leftarrow> IsValidRecord N Alloc w CurOffset CurSize;
        if Valid then do {
          Size \<leftarrow> CurSize;
          if RecordCount = TargetIndex then Some (EFI_SUCCESS, CurOffset, Size)
          else FindRecordLoop N Alloc w EndOffset TargetIndex CurSize (u32 (CurOffset + Size))
                 (u32 (RecordCount + 1)) }
        else Some (EFI_NOT_FOUND, 0, 0) }
      else Some (EFI_NOT_FOUND, 0, 0))"

text \<open>Called with pointers that are not null. On an error the two output values mean nothing.\<close>

definition GetNthRecordFromEnd ::
  "'w NOR_FLASH_PROTOCOL \<Rightarrow> (nat \<Rightarrow> bool) \<Rightarrow> 'w \<Rightarrow> nat \<Rightarrow> nat \<Rightarrow> (EFI_STATUS \<times> nat \<times> nat) option" where
  "GetNthRecordFromEnd N Alloc w BlockNum NthFromEnd =
     (if NthFromEnd = 0 then Some (EFI_INVALID_PARAMETER, 0, 0)
      else do {
        let StartOffset = u32 (BlockNum * SEQ_BLOCK_SIZE);
        let EndOffset = u32 (StartOffset + SEQ_BLOCK_SIZE);
        (RecordCount, CurSize) \<leftarrow> CountRecordsLoop N Alloc w EndOffset StartOffset None 0;
        if RecordCount < NthFromEnd then Some (EFI_NOT_FOUND, 0, 0)
        else FindRecordLoop N Alloc w EndOffset (RecordCount - NthFromEnd) CurSize StartOffset 0 })"

definition GetWriteNextOffset ::
  "PARTITION_INFO \<Rightarrow> 'w NOR_FLASH_PROTOCOL \<Rightarrow> (nat \<Rightarrow> bool) \<Rightarrow> 'w \<Rightarrow> (EFI_STATUS \<times> nat) option" where
  "GetWriteNextOffset P N Alloc w = do {
     (Status, ActiveBlockNum) \<leftarrow> GetActiveBlock P N w;
     if Status = EFI_NOT_FOUND then
       Some (EFI_SUCCESS, u32 (GetPartitionStartBlock P * SEQ_BLOCK_SIZE))
     else if EFI_ERROR Status then Some (Status, 0)
     else do {
       Block \<leftarrow> ActiveBlockNum;
       (Status, ReadLast, ReadLastSize) \<leftarrow> GetReadLastOffset N Alloc w Block;
       if EFI_ERROR Status then Some (Status, 0)
       else Some (Status, u32 (ReadLast + ReadLastSize)) } }"

section \<open>The protocol\<close>

text \<open>The flash of a socket, or the status with which every operation refuses the socket.\<close>

definition SocketFlash ::
  "'w SEQ_RECORD_PROTOCOL \<Rightarrow> nat \<Rightarrow> EFI_STATUS + 'w NOR_FLASH_PROTOCOL" where
  "SocketFlash This SocketNum =
     (if SocketNum \<ge> MAX_SOCKETS then Inl EFI_INVALID_PARAMETER
      else case NorFlashProtocol This SocketNum of
             None \<Rightarrow> Inl EFI_DEVICE_ERROR | Some N \<Rightarrow> Inr N)"

text \<open>A read delivers a status and the content of the client's buffer, unchanged before the last step.\<close>

definition ReadLastRecord ::
  "'w SEQ_RECORD_PROTOCOL \<Rightarrow> (nat \<Rightarrow> bool) \<Rightarrow> nat \<Rightarrow> byte list \<Rightarrow> nat \<Rightarrow> 'w
   \<Rightarrow> (EFI_STATUS \<times> byte list) option" where
  "ReadLastRecord This Alloc SocketNum Buf BufSize w =
     (if BufSize < SIZE_OF_DATA_HDR then Some (EFI_INVALID_PARAMETER, Buf)
      else case SocketFlash This SocketNum of
        Inl Status \<Rightarrow> Some (Status, Buf)
      | Inr N \<Rightarrow> do {
          (Status, ActiveBlock) \<leftarrow> GetActiveBlock (PartitionInfo This) N w;
          if EFI_ERROR Status then Some (Status, Buf)
          else do {
            Block \<leftarrow> ActiveBlock;
            (Status, HdrOffset, RecSize) \<leftarrow> GetReadLastOffset N Alloc w Block;
            if EFI_ERROR Status then Some (Status, Buf)
            else if BufSize < sub64 RecSize SIZE_OF_DATA_HDR then Some (EFI_BUFFER_TOO_SMALL, Buf)
            else Some (NorRead N (u32 (HdrOffset + SIZE_OF_DATA_HDR)) (u32 BufSize) w) } })"

definition ReadNthRecordFromEnd ::
  "'w SEQ_RECORD_PROTOCOL \<Rightarrow> (nat \<Rightarrow> bool) \<Rightarrow> nat \<Rightarrow> nat \<Rightarrow> byte list \<Rightarrow> nat \<Rightarrow> 'w
   \<Rightarrow> (EFI_STATUS \<times> byte list) option" where
  "ReadNthRecordFromEnd This Alloc SocketNum NthFromEnd Buf BufSize w =
     (if BufSize < SIZE_OF_DATA_HDR \<or> SocketNum \<ge> MAX_SOCKETS \<or> NthFromEnd = 0
      then Some (EFI_INVALID_PARAMETER, Buf)
      else case SocketFlash This SocketNum of
        Inl Status \<Rightarrow> Some (Status, Buf)
      | Inr N \<Rightarrow> do {
          (Status, ActiveBlock) \<leftarrow> GetActiveBlock (PartitionInfo This) N w;
          if EFI_ERROR Status then Some (Status, Buf)
          else do {
            Block \<leftarrow> ActiveBlock;
            (Status, ReadOffset, RecSize) \<leftarrow> GetNthRecordFromEnd N Alloc w Block NthFromEnd;
            if EFI_ERROR Status then Some (Status, Buf)
            else if BufSize < sub64 RecSize SIZE_OF_DATA_HDR then Some (EFI_BUFFER_TOO_SMALL, Buf)
            else Some (NorRead N (u32 (ReadOffset + SIZE_OF_DATA_HDR)) (u32 BufSize) w) } })"

text \<open>The record for \<open>BufSize\<close> bytes of data: the header, with the checksum over size and data, and the data.\<close>

definition BuildRecord :: "byte list \<Rightarrow> nat \<Rightarrow> nat \<Rightarrow> byte list option" where
  "BuildRecord InBuf BufSize RecSize = do {
     Data \<leftarrow> load_bytes InBuf 0 BufSize;
     let CrcBuf = bytes32 RecSize @ Data;
     Crc \<leftarrow> CalculateCrc8 CrcBuf (sub64 RecSize 4) 0 TYPE_CRC8_MAXIM;
     Some ([ACTIVE_PAGE_MAGIC, ERASE_BYTE, ERASE_BYTE, Crc] @ CrcBuf) }"

text \<open>The block to write to and the offset of the new record, from the active block and the free offset.\<close>

definition ChooseWriteBlock ::
  "PARTITION_INFO \<Rightarrow> 'w NOR_FLASH_PROTOCOL \<Rightarrow> (nat \<Rightarrow> bool) \<Rightarrow> 'w \<Rightarrow> nat \<Rightarrow> nat \<Rightarrow> nat \<Rightarrow> nat \<times> nat" where
  "ChooseWriteBlock P N Alloc w ActiveBlock WriteHeaderOffset RecSize =
     (let ActiveBlockEnd = u32 ((ActiveBlock + 1) * SEQ_BLOCK_SIZE) in
      if u32 (WriteHeaderOffset + RecSize) > ActiveBlockEnd
         \<or> (WriteHeaderOffset \<noteq> u32 (ActiveBlock * SEQ_BLOCK_SIZE)
             \<and> \<not> IsSpiNorRegionErased N Alloc w WriteHeaderOffset RecSize)
      then let WriteBlock = GetNextWriteBlock P ActiveBlock in
           (WriteBlock, u32 (WriteBlock * SEQ_BLOCK_SIZE))
      else (ActiveBlock, WriteHeaderOffset))"

text \<open>The results of the erasure and of the retirement are not looked at.\<close>

definition WriteNextRecord ::
  "'w SEQ_RECORD_PROTOCOL \<Rightarrow> nat \<Rightarrow> (nat \<Rightarrow> bool) \<Rightarrow> nat \<Rightarrow> byte list \<Rightarrow> nat \<Rightarrow> 'w
   \<Rightarrow> (EFI_STATUS \<times> 'w) option" where
  "WriteNextRecord This BlockSize Alloc SocketNum InBuf BufSize w =
     (case SocketFlash This SocketNum of
        Inl Status \<Rightarrow> Some (Status, w)
      | Inr N \<Rightarrow> do {
          let P = PartitionInfo This;
          let RecSize = u32 (BufSize + SIZE_OF_DATA_HDR);
          (Status, WriteHeaderOffset) \<leftarrow> GetWriteNextOffset P N Alloc w;
          if EFI_ERROR Status then Some (Status, w)
          else do {
            (Status, Found) \<leftarrow> GetActiveBlock P N w;
            if EFI_ERROR Status \<and> Status \<noteq> EFI_NOT_FOUND then Some (Status, w)
            else do {
              ActiveBlock \<leftarrow> (if Status = EFI_NOT_FOUND then Some (GetPartitionStartBlock P) else Found);
              let (WriteBlock, WriteHeaderOffset) =
                ChooseWriteBlock P N Alloc w ActiveBlock WriteHeaderOffset RecSize;
              let w = (if WriteBlock \<noteq> ActiveBlock \<or> WriteHeaderOffset = u32 (WriteBlock * SEQ_BLOCK_SIZE)
                       then snd (EraseNewBlock N BlockSize WriteBlock w) else w);
              if \<not> Alloc (add64 BufSize SIZE_OF_DATA_HDR) then Some (EFI_OUT_OF_RESOURCES, w)
              else do {
                Buf \<leftarrow> BuildRecord InBuf BufSize RecSize;
                (case NorWrite N WriteHeaderOffset RecSize Buf w of (Status, w) \<Rightarrow>
                  if EFI_ERROR Status then Some (Status, w)
                  else if WriteBlock \<noteq> ActiveBlock then Some (Status, snd (RetireBlock N ActiveBlock w))
                  else Some (Status, w)) } } } })"

definition ErasePartition ::
  "'w SEQ_RECORD_PROTOCOL \<Rightarrow> nat \<Rightarrow> nat \<Rightarrow> 'w \<Rightarrow> EFI_STATUS \<times> 'w" where
  "ErasePartition This BlockSize SocketNum w =
     (case SocketFlash This SocketNum of
        Inl Status \<Rightarrow> (Status, w)
      | Inr N \<Rightarrow>
          let EraseBlocks = u32 (PartitionSize (PartitionInfo This) div BlockSize);
              EraseBlockNum = u32 (PartitionByteOffset (PartitionInfo This) div BlockSize) in
          NorErase N EraseBlockNum EraseBlocks w)"

definition ValidatePartitionInfo :: "PARTITION_INFO \<Rightarrow> EFI_STATUS" where
  "ValidatePartitionInfo P =
     (if PartitionSize P mod SEQ_BLOCK_SIZE \<noteq> 0 \<or> PartitionByteOffset P mod SEQ_BLOCK_SIZE \<noteq> 0
      then EFI_INVALID_PARAMETER
      else if PartitionSize P div SEQ_BLOCK_SIZE < MIN_PARTITION_BLOCKS then EFI_INVALID_PARAMETER
      else EFI_SUCCESS)"

section \<open>Start of the driver\<close>

definition TEGRABL_RAS_ERROR_LOGS :: nat where "TEGRABL_RAS_ERROR_LOGS = 24"
definition TEGRABL_EARLY_BOOT_VARS :: nat where "TEGRABL_EARLY_BOOT_VARS = 16"
definition SupportedPartitions :: "nat list" where
  "SupportedPartitions = [TEGRABL_RAS_ERROR_LOGS, TEGRABL_EARLY_BOOT_VARS]"

text \<open>
  \<open>GetPartitionData\<close> delivers a status and the partition, \<open>Install\<close> is the status of the installation of
  a protocol after those before it. The result is the list of the installed protocols.
\<close>

primrec StorageInitLoop ::
  "(nat \<Rightarrow> EFI_STATUS \<times> PARTITION_INFO) \<Rightarrow> ('w SEQ_RECORD_PROTOCOL list \<Rightarrow> EFI_STATUS)
   \<Rightarrow> (nat \<Rightarrow> 'w NOR_FLASH_PROTOCOL option) \<Rightarrow> nat list \<Rightarrow> 'w SEQ_RECORD_PROTOCOL list
   \<Rightarrow> 'w SEQ_RECORD_PROTOCOL list" where
  "StorageInitLoop GetPartitionData Install NorFlashProtocolArr [] installed = installed"
| "StorageInitLoop GetPartitionData Install NorFlashProtocolArr (p # ps) installed =
     (case GetPartitionData p of (Status, Info) \<Rightarrow>
      if EFI_ERROR Status \<or> EFI_ERROR (ValidatePartitionInfo Info) then
        StorageInitLoop GetPartitionData Install NorFlashProtocolArr ps installed
      else let protocol = \<lparr> PartitionInfo = Info, NorFlashProtocol = NorFlashProtocolArr \<rparr> in
        if EFI_ERROR (Install (installed @ [protocol])) then installed
        else StorageInitLoop GetPartitionData Install NorFlashProtocolArr ps (installed @ [protocol]))"

text \<open>
  The pools are assumed to be allocated. \<open>GetAttributes\<close> delivers the block size; the last component is
  the block size that \<open>NorFlashAttributes\<close> holds then.
\<close>

definition SequentialStorageInit ::
  "(nat \<Rightarrow> 'w NOR_FLASH_PROTOCOL option) \<Rightarrow> ('w NOR_FLASH_PROTOCOL \<Rightarrow> EFI_STATUS \<times> nat)
   \<Rightarrow> (nat \<Rightarrow> EFI_STATUS \<times> PARTITION_INFO) \<Rightarrow> ('w SEQ_RECORD_PROTOCOL list \<Rightarrow> EFI_STATUS)
   \<Rightarrow> EFI_STATUS \<times> 'w SEQ_RECORD_PROTOCOL list \<times> nat" where
  "SequentialStorageInit GetSocketNorFlashProtocol GetAttributes GetPartitionData Install =
     (let NorFlashProtocolArr = (\<lambda>S. if S < MAX_SOCKETS then GetSocketNorFlashProtocol S else None) in
      case NorFlashProtocolArr 0 of None \<Rightarrow> (EFI_SUCCESS, [], 0)
      | Some N \<Rightarrow> (case GetAttributes N of (Status, BlockSize) \<Rightarrow>
          if EFI_ERROR Status then (EFI_SUCCESS, [], BlockSize)
          else (EFI_SUCCESS,
                StorageInitLoop GetPartitionData Install NorFlashProtocolArr SupportedPartitions [],
                BlockSize)))"

end
