(* ===== verification/SeqRecordProps.thy ===== *)
theory SeqRecordProps
  imports SeqRecord
begin

text \<open>
  The record storage on a NOR flash that behaves as documented: what a block holds, and that
  the operations find, read, append and retire accordingly.
\<close>

section \<open>Records\<close>

definition record_crc :: "byte list \<Rightarrow> byte" where
  "record_crc d = the (CalculateCrc8 (bytes32 (length d + 8) @ d) (length d + 4) 0 TYPE_CRC8_MAXIM)"

definition record_bytes :: "byte list \<Rightarrow> byte list" where
  "record_bytes d = [ACTIVE_PAGE_MAGIC, ERASE_BYTE, ERASE_BYTE, record_crc d] @ bytes32 (length d + 8) @ d"

lemma length_record_bytes [simp]: "length (record_bytes d) = length d + 8"
  by (simp add: record_bytes_def)

lemma Crc8Loop_total:
  "\<forall>i \<in> set is. i < length Buf \<Longrightarrow> \<exists>c. Crc8Loop Table Buf is c0 = Some c"
  by (induction "is" arbitrary: c0) (auto simp: buffer_simps)

lemma record_crc_Some:
  "CalculateCrc8 (bytes32 (length d + 8) @ d) (length d + 4) 0 TYPE_CRC8_MAXIM = Some (record_crc d)"
proof -
  obtain c where "CalculateCrc8 (bytes32 (length d + 8) @ d) (length d + 4) 0 TYPE_CRC8_MAXIM = Some c"
    using Crc8Loop_total [of "[0..<length d + 4]" "bytes32 (length d + 8) @ d" CRC8MaximTable 0]
    by (auto simp: CalculateCrc8_def TYPE_CRC8_def TYPE_CRC8_MAXIM_def)
  then show ?thesis by (simp add: record_crc_def)
qed

lemma BuildRecord_record_bytes:
  assumes "length d + 8 < 2 ^ 32"
  shows "BuildRecord d (length d) (length d + 8) = Some (record_bytes d)"
proof -
  have "sub64 (length d + 8) 4 = length d + 4" using assms by (simp add: sub64_le)
  then show ?thesis
    by (simp add: BuildRecord_def load_bytes_def record_crc_Some record_bytes_def)
qed

lemma take_content: "n \<le> m \<Longrightarrow> take n (content f off m) = content f off n"
  by (simp add: content_def take_map)

text \<open>What the loops find at an offset: a record, or a byte that does not start one.\<close>

lemma IsValidRecord_record:
  assumes flash: "documented_flash N BlockSize Density view" and alloc: "\<And>n. Alloc n"
    and rec: "content (view w) off (length d + 8) = record_bytes d"
    and bound: "off + length d + 8 \<le> Density" "length d + 8 < 2 ^ 32"
  shows "IsValidRecord N Alloc w off s = Some (True, Some (length d + 8))"
proof -
  have hdr: "NorRead N off SIZE_OF_DATA_HDR w = (EFI_SUCCESS, take 8 (record_bytes d))"
    using flash_read [OF flash, of off 8 w] bound(1)
    by (simp add: SIZE_OF_DATA_HDR_def flip: rec) (simp add: take_content)
  have all: "NorRead N off (length d + 8) w = (EFI_SUCCESS, record_bytes d)"
    using flash_read [OF flash, of off "length d + 8" w] bound(1) rec by (simp add: add.assoc)
  have h: "take 8 (record_bytes d)
      = [ACTIVE_PAGE_MAGIC, ERASE_BYTE, ERASE_BYTE, record_crc d] @ bytes32 (length d + 8)"
    and rest: "drop 4 (record_bytes d) = bytes32 (length d + 8) @ d"
    by (simp_all add: record_bytes_def)
  have fields: "load8 (take 8 (record_bytes d)) 0 = Some ACTIVE_PAGE_MAGIC"
      "load8 (take 8 (record_bytes d)) 3 = Some (record_crc d)"
      "load32 (take 8 (record_bytes d)) 4 = Some (length d + 8)"
    unfolding h using bound(2) load32_field [of "length d + 8" "[]"]
    by (simp_all add: load8_def load32_drop [of _ 4])
  have "sub64 (length d + 8) 4 = length d + 4" using bound(2) by (simp add: sub64_le)
  then show ?thesis
    by (simp add: IsValidRecord_def hdr fields all rest alloc record_crc_Some del: load8_Some_iff)
qed

lemma IsValidRecord_none:
  assumes "documented_flash N BlockSize Density view" and "off + 8 \<le> Density"
    and "view w off \<noteq> ACTIVE_PAGE_MAGIC"
  shows "IsValidRecord N Alloc w off s = Some (False, s)"
proof -
  have "load8 (content (view w) off 8) 0 = Some (view w off)" by simp
  then show ?thesis
    using flash_read [OF assms(1), of off 8 w] assms(2,3)
    by (simp add: IsValidRecord_def SIZE_OF_DATA_HDR_def del: load8_Some_iff)
qed

section \<open>Blocks\<close>

definition records :: "byte list list \<Rightarrow> byte list" where
  "records rs = concat (map record_bytes rs)"

lemma records_simps [simp]:
  "records [] = []" "records (d # rs) = record_bytes d @ records rs"
  "records (rs @ ss) = records rs @ records ss"
  by (simp_all add: records_def)

lemma records_empty [simp]: "records rs = [] \<longleftrightarrow> rs = []"
  by (cases rs) (simp_all add: record_bytes_def)

text \<open>The records \<open>rs\<close> lie at \<open>off\<close>, one behind the other, and none follows before \<open>End\<close>.\<close>

definition chain :: "memory \<Rightarrow> nat \<Rightarrow> nat \<Rightarrow> byte list list \<Rightarrow> bool" where
  "chain f off End rs \<longleftrightarrow>
     content f off (length (records rs)) = records rs
   \<and> off + length (records rs) \<le> End
   \<and> (off + length (records rs) < End \<longrightarrow> f (off + length (records rs)) \<noteq> ACTIVE_PAGE_MAGIC)"

lemma chain_Nil: "chain f off End [] \<longleftrightarrow> off \<le> End \<and> (off < End \<longrightarrow> f off \<noteq> ACTIVE_PAGE_MAGIC)"
  by (simp add: chain_def content_def)

lemma chain_Cons:
  "chain f off End (d # rs) \<longleftrightarrow>
     content f off (length d + 8) = record_bytes d \<and> chain f (off + (length d + 8)) End rs"
  using content_append [of f off "record_bytes d" "records rs"]
  by (auto simp: chain_def add.assoc)

lemma chain_Cons_bound: "chain f off End (d # rs) \<Longrightarrow> off + length d + 8 \<le> End"
  by (simp add: chain_def)

text \<open>
  What the storage rests on: a documented flash whose blocks divide those of 64 KB, memory to
  allocate, and a valid partition that ends at least a header before the end of the flash.
\<close>

definition platform ::
  "PARTITION_INFO \<Rightarrow> 'w NOR_FLASH_PROTOCOL \<Rightarrow> nat \<Rightarrow> nat \<Rightarrow> ('w \<Rightarrow> memory) \<Rightarrow> (nat \<Rightarrow> bool) \<Rightarrow> bool" where
  "platform P N BlockSize Density view Alloc \<longleftrightarrow>
     documented_flash N BlockSize Density view \<and> (\<forall>n. Alloc n) \<and> BlockSize dvd SEQ_BLOCK_SIZE
   \<and> ValidatePartitionInfo P = EFI_SUCCESS
   \<and> PartitionByteOffset P + PartitionSize P + 8 \<le> Density \<and> Density + SEQ_BLOCK_SIZE \<le> 2 ^ 32"

definition partition_end :: "PARTITION_INFO \<Rightarrow> nat" where
  "partition_end P = PartitionByteOffset P + PartitionSize P"

lemma valid_in_chain:
  assumes pl: "platform P N BlockSize Density view Alloc" and End: "End \<le> partition_end P"
    and "chain (view w) off End (d # rs)"
  shows "off < End" "IsValidRecord N Alloc w off s = Some (True, Some (length d + 8))"
    "u32 (off + (length d + 8)) = off + (length d + 8)"
proof -
  have b: "off + length d + 8 \<le> End" using assms(3) by (rule chain_Cons_bound)
  from pl have flash: "documented_flash N BlockSize Density view" and alloc: "\<And>n. Alloc n"
    by (simp_all add: platform_def)
  show "off < End" using b by simp
  show "IsValidRecord N Alloc w off s = Some (True, Some (length d + 8))"
    by (rule IsValidRecord_record [OF flash alloc])
      (use assms b in \<open>auto simp: chain_Cons platform_def partition_end_def SEQ_BLOCK_SIZE_def\<close>)
  show "u32 (off + (length d + 8)) = off + (length d + 8)"
    by (rule u32_less) (use pl End b in \<open>simp add: platform_def partition_end_def SEQ_BLOCK_SIZE_def\<close>)
qed

lemma invalid_after_chain:
  assumes "platform P N BlockSize Density view Alloc" and "End \<le> partition_end P"
    and "chain (view w) off End []" and "off < End"
  shows "IsValidRecord N Alloc w off s = Some (False, s)"
  by (rule IsValidRecord_none [where BlockSize = BlockSize and Density = Density and view = view])
    (use assms in \<open>auto simp: chain_Nil platform_def partition_end_def\<close>)

section \<open>The loops over a block\<close>

text \<open>The last record and its size, or the values so far when no record is left.\<close>

fun last_of :: "nat \<Rightarrow> byte list list \<Rightarrow> nat \<times> nat \<Rightarrow> nat \<times> nat" where
  "last_of off [] p = p"
| "last_of off (d # rs) p = last_of (off + (length d + 8)) rs (off, length d + 8)"

lemma last_of_snoc: "last_of off (rs @ [d]) p = (off + length (records rs), length d + 8)"
  by (induction rs arbitrary: off p) (simp_all add: add.assoc)

lemma ReadLastLoop_chain:
  assumes "platform P N BlockSize Density view Alloc" and "End \<le> partition_end P"
    and "chain (view w) off End rs"
  shows "ReadLastLoop N Alloc w End off s po ps = Some (last_of off rs (po, ps))"
  using assms(3)
proof (induction rs arbitrary: off s po ps)
  case Nil
  then show ?case
    by (subst ReadLastLoop.simps) (simp add: invalid_after_chain [OF assms(1,2)])
next
  case (Cons d rs)
  note v = valid_in_chain [OF assms(1,2) Cons.prems]
  have "chain (view w) (off + (length d + 8)) End rs" using Cons.prems by (simp add: chain_Cons)
  then show ?case
    by (subst ReadLastLoop.simps) (simp add: v Cons.IH)
qed

lemma CountRecordsLoop_chain:
  assumes "platform P N BlockSize Density view Alloc" and "End \<le> partition_end P"
    and "chain (view w) off End rs" and "c + length rs < 2 ^ 32"
  shows "\<exists>s'. CountRecordsLoop N Alloc w End off s c = Some (c + length rs, s')"
  using assms(3,4)
proof (induction rs arbitrary: off s c)
  case Nil
  then show ?case
    by (subst CountRecordsLoop.simps) (simp add: invalid_after_chain [OF assms(1,2)])
next
  case (Cons d rs)
  note v = valid_in_chain [OF assms(1,2) Cons.prems(1)]
  have "chain (view w) (off + (length d + 8)) End rs" using Cons.prems by (simp add: chain_Cons)
  moreover have "u32 (c + 1) = c + 1" "c + 1 + length rs < 2 ^ 32" using Cons.prems(2) by simp_all
  ultimately show ?case
    using Cons.IH [of "off + (length d + 8)" "c + 1" "Some (length d + 8)"]
    by (subst CountRecordsLoop.simps) (simp add: v)
qed

lemma FindRecordLoop_chain:
  assumes "platform P N BlockSize Density view Alloc" and "End \<le> partition_end P"
    and "chain (view w) off End rs" and "i < length rs" and "c + length rs < 2 ^ 32"
  shows "FindRecordLoop N Alloc w End (c + i) s off c
    = Some (EFI_SUCCESS, off + length (records (take i rs)), length (rs ! i) + 8)"
  using assms(3-)
proof (induction rs arbitrary: off s c i)
  case Nil
  then show ?case by simp
next
  case (Cons d rs)
  note v = valid_in_chain [OF assms(1,2) Cons.prems(1)]
  have ch: "chain (view w) (off + (length d + 8)) End rs" using Cons.prems by (simp add: chain_Cons)
  have c: "u32 (Suc c) = Suc c" "c + 1 + length rs < 2 ^ 32" using Cons.prems(3) by simp_all
  show ?case
  proof (cases i)
    case 0
    then show ?thesis by (subst FindRecordLoop.simps) (simp add: v)
  next
    case (Suc j)
    with Cons.prems(2) have "j < length rs" by simp
    from Cons.IH [OF ch this c(2)] show ?thesis
      by (subst FindRecordLoop.simps) (simp add: v c(1) Suc add.assoc)
  qed
qed

section \<open>The blocks of a partition\<close>

definition partition_blocks :: "PARTITION_INFO \<Rightarrow> nat set" where
  "partition_blocks P = {k. PartitionByteOffset P \<le> k * SEQ_BLOCK_SIZE
                          \<and> (k + 1) * SEQ_BLOCK_SIZE \<le> partition_end P}"

lemma valid_partition:
  assumes "ValidatePartitionInfo P = EFI_SUCCESS"
  obtains start count where "PartitionByteOffset P = start * SEQ_BLOCK_SIZE"
    "PartitionSize P = count * SEQ_BLOCK_SIZE" "2 \<le> count"
proof -
  have "PartitionByteOffset P mod SEQ_BLOCK_SIZE = 0" "PartitionSize P mod SEQ_BLOCK_SIZE = 0"
    "2 \<le> PartitionSize P div SEQ_BLOCK_SIZE"
    using assms by (auto simp: ValidatePartitionInfo_def MIN_PARTITION_BLOCKS_def split: if_splits)
  then show thesis
    using that [of "PartitionByteOffset P div SEQ_BLOCK_SIZE" "PartitionSize P div SEQ_BLOCK_SIZE"]
    by (simp add: dvd_div_mult_self mod_0_imp_dvd)
qed

lemma block_size_pos [simp]: "0 < SEQ_BLOCK_SIZE" by (simp add: SEQ_BLOCK_SIZE_def)

text \<open>The numbers that the functions compute, where nothing wraps.\<close>

lemma block_numbers:
  assumes "ValidatePartitionInfo P = EFI_SUCCESS" and "partition_end P < 2 ^ 32"
  obtains start count where "2 \<le> count" "partition_blocks P = {start ..< start + count}"
    "GetPartitionStartBlock P = start" "GetPartitionNumBlocks P = count"
    "GetPartitionLastBlock P = start + count - 1"
proof -
  obtain start count where *: "PartitionByteOffset P = start * SEQ_BLOCK_SIZE"
    "PartitionSize P = count * SEQ_BLOCK_SIZE" "2 \<le> count"
    using assms(1) by (rule valid_partition)
  from assms(2) * have lim: "(start + count) * 65536 < 2 ^ 32"
    by (simp add: partition_end_def add_mult_distrib SEQ_BLOCK_SIZE_def)
  then have small: "start < 2 ^ 32" "count < 2 ^ 32" "start + count < 2 ^ 32" by simp_all
  have "partition_blocks P = {start ..< start + count}"
    using * by (auto simp: partition_blocks_def partition_end_def SEQ_BLOCK_SIZE_def)
  moreover have "u32 (start + count + (2 ^ 32 - 1)) = start + count - 1"
  proof -
    obtain m where m: "start + count = Suc m" using *(3) by (cases "start + count") auto
    have "Suc m + (2 ^ 32 - 1) = m + 2 ^ 32" by simp
    then show ?thesis using small(3) unfolding m u32_def by simp
  qed
  ultimately show thesis
    using * small by (intro that [of count start])
      (simp_all add: GetPartitionStartBlock_def GetPartitionNumBlocks_def GetPartitionLastBlock_def)
qed

lemma block_offsets:
  assumes "k \<in> partition_blocks P" and "partition_end P < 2 ^ 32"
  shows "u32 (k * SEQ_BLOCK_SIZE) = k * SEQ_BLOCK_SIZE"
    "u32 (k * SEQ_BLOCK_SIZE + SEQ_BLOCK_SIZE) = k * SEQ_BLOCK_SIZE + SEQ_BLOCK_SIZE"
    "k * SEQ_BLOCK_SIZE + SEQ_BLOCK_SIZE \<le> partition_end P" "u32 k = k"
  using assms by (auto simp: partition_blocks_def SEQ_BLOCK_SIZE_def)

lemma next_block:
  assumes "ValidatePartitionInfo P = EFI_SUCCESS" and "partition_end P < 2 ^ 32"
    and "k \<in> partition_blocks P"
  shows "GetNextWriteBlock P k \<in> partition_blocks P" "GetNextWriteBlock P k \<noteq> k"
proof -
  obtain start count where *: "2 \<le> count" "partition_blocks P = {start ..< start + count}"
    "GetPartitionStartBlock P = start" "GetPartitionLastBlock P = start + count - 1"
    using assms(1,2) by (rule block_numbers) blast
  have "u32 (k + 1) = k + 1"
    using assms(2,3) by (auto simp: partition_blocks_def SEQ_BLOCK_SIZE_def)
  with * assms(3) show "GetNextWriteBlock P k \<in> partition_blocks P" "GetNextWriteBlock P k \<noteq> k"
    by (auto simp: GetNextWriteBlock_def)
qed

section \<open>The store and its abstraction\<close>

text \<open>A block that holds records \<open>rs\<close> and is erased behind them.\<close>

definition block_holds :: "memory \<Rightarrow> nat \<Rightarrow> byte list list \<Rightarrow> bool" where
  "block_holds f k rs \<longleftrightarrow>
     length (records rs) \<le> SEQ_BLOCK_SIZE
   \<and> content f (k * SEQ_BLOCK_SIZE) (length (records rs)) = records rs
   \<and> (\<forall>i. length (records rs) \<le> i \<and> i < SEQ_BLOCK_SIZE \<longrightarrow> f (k * SEQ_BLOCK_SIZE + i) = ERASE_BYTE)"

definition active :: "memory \<Rightarrow> nat \<Rightarrow> bool" where
  "active f k \<longleftrightarrow> f (k * SEQ_BLOCK_SIZE) = ACTIVE_PAGE_MAGIC"

text \<open>
  The state of the store is the active block with the records in it, if there is an active block.
  \<open>record_store P f s\<close>: the flash represents it.
\<close>

type_synonym store = "(nat \<times> byte list list) option"

fun record_store :: "PARTITION_INFO \<Rightarrow> memory \<Rightarrow> store \<Rightarrow> bool" where
  "record_store P f None \<longleftrightarrow> (\<forall>k \<in> partition_blocks P. \<not> active f k)"
| "record_store P f (Some (k, rs)) \<longleftrightarrow>
     k \<in> partition_blocks P \<and> rs \<noteq> [] \<and> block_holds f k rs
   \<and> (\<forall>j \<in> partition_blocks P. j \<noteq> k \<longrightarrow> \<not> active f j)"

text \<open>Appending a record: to the active block as long as it fits, and to the next block after that.\<close>

fun spec_write :: "PARTITION_INFO \<Rightarrow> store \<Rightarrow> byte list \<Rightarrow> store" where
  "spec_write P None d = Some (GetPartitionStartBlock P, [d])"
| "spec_write P (Some (k, rs)) d =
     (if length (records (rs @ [d])) \<le> SEQ_BLOCK_SIZE then Some (k, rs @ [d])
      else Some (GetNextWriteBlock P k, [d]))"

lemma block_holds_chain:
  "block_holds f k rs \<Longrightarrow> chain f (k * SEQ_BLOCK_SIZE) (k * SEQ_BLOCK_SIZE + SEQ_BLOCK_SIZE) rs"
  by (auto simp: block_holds_def chain_def ERASE_BYTE_def ACTIVE_PAGE_MAGIC_def)

lemma block_holds_active: "block_holds f k rs \<Longrightarrow> active f k \<longleftrightarrow> rs \<noteq> []"
proof -
  assume h: "block_holds f k rs"
  show ?thesis
  proof (cases rs)
    case Nil
    with h have "\<forall>i < SEQ_BLOCK_SIZE. f (k * SEQ_BLOCK_SIZE + i) = ERASE_BYTE"
      by (simp add: block_holds_def)
    from this [rule_format, of 0] have "f (k * SEQ_BLOCK_SIZE) = ERASE_BYTE" by simp
    then show ?thesis by (simp add: Nil active_def ERASE_BYTE_def ACTIVE_PAGE_MAGIC_def)
  next
    case (Cons d ds)
    have "content f (k * SEQ_BLOCK_SIZE) (length (records rs)) ! 0 = records rs ! 0"
      using h by (simp add: block_holds_def)
    then show ?thesis by (simp add: Cons active_def record_bytes_def del: length_record_bytes)
  qed
qed

lemma chain_records_below:
  "8 * length rs \<le> length (records rs)"
  by (induction rs) simp_all

section \<open>The active block is found\<close>

lemma GetActiveBlockLoop_found:
  assumes "platform P N BlockSize Density view Alloc"
    and "\<And>j. b \<le> j \<Longrightarrow> j < b + n \<Longrightarrow> j \<in> partition_blocks P"
  shows "GetActiveBlockLoop N w n b =
    (case find (active (view w)) [b ..< b + n] of
       None \<Rightarrow> Some (EFI_NOT_FOUND, None) | Some k \<Rightarrow> Some (EFI_SUCCESS, Some k))"
  using assms(2)
proof (induction n arbitrary: b)
  case 0
  then show ?case by simp
next
  case (Suc n)
  have b: "b \<in> partition_blocks P" by (rule Suc.prems) simp_all
  from assms(1) have lim: "partition_end P + 8 \<le> Density" "Density < 2 ^ 32"
    and flash: "documented_flash N BlockSize Density view"
    by (simp_all add: platform_def partition_end_def SEQ_BLOCK_SIZE_def)
  note off = block_offsets [OF b]
  have "NorRead N (u32 (b * SEQ_BLOCK_SIZE)) 8 w = (EFI_SUCCESS, content (view w) (b * SEQ_BLOCK_SIZE) 8)"
    using off lim by (simp add: flash_read [OF flash] )
  moreover have "load8 (content (view w) (b * SEQ_BLOCK_SIZE) 8) 0 = Some (view w (b * SEQ_BLOCK_SIZE))"
    by simp
  moreover have "[b ..< b + Suc n] = b # [Suc b ..< Suc b + n]" by (simp add: upt_conv_Cons)
  moreover have "GetActiveBlockLoop N w n (Suc b) =
    (case find (active (view w)) [Suc b ..< Suc b + n] of
       None \<Rightarrow> Some (EFI_NOT_FOUND, None) | Some k \<Rightarrow> Some (EFI_SUCCESS, Some k))"
    by (rule Suc.IH) (use Suc.prems in auto)
  moreover have "active (view w) b \<longleftrightarrow> view w (b * SEQ_BLOCK_SIZE) = ACTIVE_PAGE_MAGIC"
    by (simp add: active_def)
  ultimately show ?case
    using off lim by (simp add: SIZE_OF_DATA_HDR_def del: load8_Some_iff upt_Suc)
qed

lemma find_eq_None: "(\<And>x. x \<in> set xs \<Longrightarrow> \<not> Q x) \<Longrightarrow> find Q xs = None"
  by (auto simp: find_None_iff)

lemma find_eq_Some:
  "k \<in> set xs \<Longrightarrow> Q k \<Longrightarrow> (\<And>j. j \<in> set xs \<Longrightarrow> j \<noteq> k \<Longrightarrow> \<not> Q j) \<Longrightarrow> find Q xs = Some k"
  by (induction xs) auto

lemma platform_partition:
  assumes "platform P N BlockSize Density view Alloc"
  shows "ValidatePartitionInfo P = EFI_SUCCESS" "partition_end P + 8 \<le> Density" "Density < 2 ^ 32"
    "partition_end P < 2 ^ 32" "documented_flash N BlockSize Density view" "Alloc n"
    "BlockSize dvd SEQ_BLOCK_SIZE" "partition_end P + SEQ_BLOCK_SIZE < 2 ^ 32"
  using assms by (simp_all add: platform_def partition_end_def SEQ_BLOCK_SIZE_def)

lemma GetActiveBlock_store:
  assumes pl: "platform P N BlockSize Density view Alloc" and st: "record_store P (view w) s"
  shows "GetActiveBlock P N w =
    (case s of None \<Rightarrow> Some (EFI_NOT_FOUND, None) | Some (k, rs) \<Rightarrow> Some (EFI_SUCCESS, Some k))"
proof -
  obtain start count where *: "partition_blocks P = {start ..< start + count}"
    "GetPartitionStartBlock P = start" "GetPartitionNumBlocks P = count"
    using platform_partition(1,4) [OF pl] by (rule block_numbers) blast
  have "GetActiveBlock P N w = (case find (active (view w)) [start ..< start + count] of
      None \<Rightarrow> Some (EFI_NOT_FOUND, None) | Some k \<Rightarrow> Some (EFI_SUCCESS, Some k))"
    unfolding GetActiveBlock_def *(2,3) by (rule GetActiveBlockLoop_found [OF pl]) (simp add: *(1))
  also have "find (active (view w)) [start ..< start + count] = map_option fst s"
  proof (cases s)
    case None
    with st *(1) show ?thesis by (auto intro: find_eq_None)
  next
    case (Some p)
    obtain k rs where p: "p = (k, rs)" by (cases p)
    from st have h: "k \<in> partition_blocks P" "rs \<noteq> []" "block_holds (view w) k rs"
      "\<And>j. j \<in> partition_blocks P \<Longrightarrow> j \<noteq> k \<Longrightarrow> \<not> active (view w) j"
      by (auto simp: Some p)
    have "find (active (view w)) [start ..< start + count] = Some k"
      by (rule find_eq_Some) (use h *(1) block_holds_active [OF h(3)] in auto)
    then show ?thesis by (simp add: Some p)
  qed
  finally show ?thesis by (auto split: option.split)
qed

lemma GetReadLastOffset_store:
  assumes pl: "platform P N BlockSize Density view Alloc"
    and st: "record_store P (view w) (Some (k, rs @ [d]))"
  shows "GetReadLastOffset N Alloc w k
    = Some (EFI_SUCCESS, k * SEQ_BLOCK_SIZE + length (records rs), length d + 8)"
proof -
  from st have k: "k \<in> partition_blocks P" and h: "block_holds (view w) k (rs @ [d])" by simp_all
  note off = block_offsets [OF k platform_partition(4) [OF pl]]
  from ReadLastLoop_chain [OF pl off(3) block_holds_chain [OF h]]
  show ?thesis by (simp add: GetReadLastOffset_def off last_of_snoc)
qed

section \<open>What erasing and programming do to the blocks\<close>

text \<open>Only addresses of block \<open>k\<close> change.\<close>

definition changed_in :: "nat \<Rightarrow> memory \<Rightarrow> memory \<Rightarrow> bool" where
  "changed_in k f g \<longleftrightarrow>
     (\<forall>a. a < k * SEQ_BLOCK_SIZE \<or> k * SEQ_BLOCK_SIZE + SEQ_BLOCK_SIZE \<le> a \<longrightarrow> g a = f a)"

lemma block_addresses_apart:
  "j \<noteq> k \<Longrightarrow> i < SEQ_BLOCK_SIZE
   \<Longrightarrow> j * SEQ_BLOCK_SIZE + i < k * SEQ_BLOCK_SIZE \<or> k * SEQ_BLOCK_SIZE + SEQ_BLOCK_SIZE \<le> j * SEQ_BLOCK_SIZE + i"
proof -
  assume "j \<noteq> k" and i: "i < SEQ_BLOCK_SIZE"
  then consider "Suc j \<le> k" | "Suc k \<le> j" by linarith
  then show ?thesis
  proof cases
    case 1
    then have "Suc j * SEQ_BLOCK_SIZE \<le> k * SEQ_BLOCK_SIZE" by (rule mult_le_mono1)
    with i show ?thesis by simp
  next
    case 2
    then have "Suc k * SEQ_BLOCK_SIZE \<le> j * SEQ_BLOCK_SIZE" by (rule mult_le_mono1)
    then show ?thesis by simp
  qed
qed

lemma changed_in_other:
  assumes "changed_in k f g" and "j \<noteq> k" and "i < SEQ_BLOCK_SIZE"
  shows "g (j * SEQ_BLOCK_SIZE + i) = f (j * SEQ_BLOCK_SIZE + i)"
  using assms(1) block_addresses_apart [OF assms(2,3)] unfolding changed_in_def by blast

lemma changed_in_active: "changed_in k f g \<Longrightarrow> j \<noteq> k \<Longrightarrow> active g j \<longleftrightarrow> active f j"
  using changed_in_other [of k f g j 0] by (simp add: active_def)

lemma all_less_split:
  assumes "n \<le> m"
  shows "(\<forall>i < n. g i = h i) \<and> (\<forall>i. n \<le> i \<and> i < m \<longrightarrow> g i = e)
   \<longleftrightarrow> (\<forall>i < (m :: nat). g i = (if i < n then h i else e))"
proof (intro iffI allI impI conjI)
  fix i assume "(\<forall>i < n. g i = h i) \<and> (\<forall>i. n \<le> i \<and> i < m \<longrightarrow> g i = e)" "i < m"
  then show "g i = (if i < n then h i else e)" by (cases "i < n") simp_all
next
  fix i assume "\<forall>i < m. g i = (if i < n then h i else e)" "i < n"
  with assms show "g i = h i" by simp
next
  fix i assume "\<forall>i < m. g i = (if i < n then h i else e)" "n \<le> i \<and> i < m"
  then show "g i = e" by simp
qed

lemma block_holds_iff:
  "block_holds f k rs \<longleftrightarrow> length (records rs) \<le> SEQ_BLOCK_SIZE
     \<and> (\<forall>i < SEQ_BLOCK_SIZE. f (k * SEQ_BLOCK_SIZE + i)
          = (if i < length (records rs) then records rs ! i else ERASE_BYTE))"
  unfolding block_holds_def content_eq_iff
  using all_less_split [of "length (records rs)" SEQ_BLOCK_SIZE "\<lambda>i. f (k * SEQ_BLOCK_SIZE + i)"
      "(!) (records rs)" ERASE_BYTE] by blast

lemma changed_in_holds:
  "changed_in k f g \<Longrightarrow> j \<noteq> k \<Longrightarrow> block_holds g j rs \<longleftrightarrow> block_holds f j rs"
  by (simp add: block_holds_iff changed_in_other)

lemma changed_in_erased: "changed_in k f (erased f (k * SEQ_BLOCK_SIZE) SEQ_BLOCK_SIZE)"
  by (simp add: changed_in_def erased_def)

lemma changed_in_program:
  "n + length xs \<le> SEQ_BLOCK_SIZE \<Longrightarrow> changed_in k f (program f (k * SEQ_BLOCK_SIZE + n) xs)"
  by (auto simp: changed_in_def program_def)

lemma changed_in_trans: "changed_in k f g \<Longrightarrow> changed_in k g h \<Longrightarrow> changed_in k f h"
  by (simp add: changed_in_def)

lemma block_holds_erased: "block_holds (erased f (k * SEQ_BLOCK_SIZE) SEQ_BLOCK_SIZE) k []"
  by (simp add: block_holds_iff erased_def ERASE_BYTE_def)

lemma erase_byte_and [simp]: "ERASE_BYTE AND x = x" 
proof -
  have e: "ERASE_BYTE = (-1 :: byte)" by (simp add: ERASE_BYTE_def)
  show ?thesis unfolding e by (rule and.left_neutral)
qed

lemma block_holds_append:
  assumes "block_holds f k rs" and "length (records (rs @ [d])) \<le> SEQ_BLOCK_SIZE"
  shows "block_holds (program f (k * SEQ_BLOCK_SIZE + length (records rs)) (record_bytes d)) k (rs @ [d])"
  unfolding block_holds_iff
proof (intro conjI allI impI)
  show "length (records (rs @ [d])) \<le> SEQ_BLOCK_SIZE" by (rule assms(2))
next
  fix i assume i: "i < SEQ_BLOCK_SIZE"
  with assms(1) have f: "f (k * SEQ_BLOCK_SIZE + i)
      = (if i < length (records rs) then records rs ! i else ERASE_BYTE)"
    by (simp add: block_holds_iff)
  consider "i < length (records rs)"
    | "length (records rs) \<le> i" "i < length (records rs) + length (record_bytes d)"
    | "length (records rs) + length (record_bytes d) \<le> i"
    by linarith
  then show "program f (k * SEQ_BLOCK_SIZE + length (records rs)) (record_bytes d) (k * SEQ_BLOCK_SIZE + i)
    = (if i < length (records (rs @ [d])) then records (rs @ [d]) ! i else ERASE_BYTE)"
    by cases (simp_all add: program_def f nth_append)
qed

lemma program_retires:
  assumes "active f k"
  shows "\<not> active (program f (k * SEQ_BLOCK_SIZE)
            ((content f (k * SEQ_BLOCK_SIZE) 8)[0 := RETIRED_PAGE_MAGIC])) k"
  using assms by (simp add: active_def program_def ACTIVE_PAGE_MAGIC_def RETIRED_PAGE_MAGIC_def)

section \<open>The steps of a write\<close>

lemma EraseNewBlock_erases:
  assumes pl: "platform P N BlockSize Density view Alloc" and k: "k \<in> partition_blocks P"
  shows "view (snd (EraseNewBlock N BlockSize k w))
    = erased (view w) (k * SEQ_BLOCK_SIZE) SEQ_BLOCK_SIZE"
proof -
  note off = block_offsets [OF k platform_partition(4) [OF pl]]
  note d = platform_partition(7) [OF pl]
  have e: "k * SEQ_BLOCK_SIZE div BlockSize * BlockSize = k * SEQ_BLOCK_SIZE"
    "SEQ_BLOCK_SIZE div BlockSize * BlockSize = SEQ_BLOCK_SIZE"
    using d by simp_all
  have "(k * SEQ_BLOCK_SIZE div BlockSize + SEQ_BLOCK_SIZE div BlockSize) * BlockSize \<le> Density"
    unfolding add_mult_distrib e using off(3) platform_partition(2) [OF pl] by simp
  from flash_erase [OF platform_partition(5) [OF pl] this, of w] show ?thesis
    by (simp add: EraseNewBlock_def Let_def off e)
qed

lemma RetireBlock_program:
  assumes pl: "platform P N BlockSize Density view Alloc" and k: "k \<in> partition_blocks P"
  shows "view (snd (RetireBlock N k w)) = program (view w) (k * SEQ_BLOCK_SIZE)
    ((content (view w) (k * SEQ_BLOCK_SIZE) 8)[0 := RETIRED_PAGE_MAGIC])"
proof -
  note off = block_offsets [OF k platform_partition(4) [OF pl]]
  let ?hdr = "(content (view w) (k * SEQ_BLOCK_SIZE) 8)[0 := RETIRED_PAGE_MAGIC]"
  have lim: "k * SEQ_BLOCK_SIZE + 8 \<le> Density"
    using off(3) platform_partition(2) [OF pl] by simp
  obtain w' where w': "NorWrite N (k * SEQ_BLOCK_SIZE) (length ?hdr) ?hdr w = (EFI_SUCCESS, w')"
    "view w' = program (view w) (k * SEQ_BLOCK_SIZE) ?hdr"
    using flash_write [OF platform_partition(5) [OF pl], of "k * SEQ_BLOCK_SIZE" ?hdr w] lim by auto
  have "snd (RetireBlock N k w) = w'"
    using w'(1) by (simp add: RetireBlock_def off SIZE_OF_DATA_HDR_def
        flash_read [OF platform_partition(5) [OF pl] lim])
  then show ?thesis by (simp add: w'(2))
qed

lemma RetireBlock_changes:
  assumes "platform P N BlockSize Density view Alloc" and "k \<in> partition_blocks P"
  shows "changed_in k (view w) (view (snd (RetireBlock N k w)))"
  using changed_in_program [of 0 "(content (view w) (k * SEQ_BLOCK_SIZE) 8)[0 := RETIRED_PAGE_MAGIC]" k "view w"]
  by (simp add: RetireBlock_program [OF assms] SEQ_BLOCK_SIZE_def)

lemma RetireBlock_retires:
  assumes "platform P N BlockSize Density view Alloc" and "k \<in> partition_blocks P"
    and "active (view w) k"
  shows "\<not> active (view (snd (RetireBlock N k w))) k"
  by (simp add: RetireBlock_program [OF assms(1,2)] program_retires [OF assms(3)])

lemma NorWrite_appends:
  assumes pl: "platform P N BlockSize Density view Alloc" and k: "k \<in> partition_blocks P"
    and h: "block_holds (view w) k rs" and fits: "length (records (rs @ [d])) \<le> SEQ_BLOCK_SIZE"
  obtains w' where
    "NorWrite N (k * SEQ_BLOCK_SIZE + length (records rs)) (length d + 8) (record_bytes d) w = (EFI_SUCCESS, w')"
    "block_holds (view w') k (rs @ [d])" "changed_in k (view w) (view w')"
proof -
  let ?off = "k * SEQ_BLOCK_SIZE + length (records rs)"
  have "?off + length (record_bytes d) \<le> Density"
    using fits block_offsets(3) [OF k platform_partition(4) [OF pl]] platform_partition(2) [OF pl] by simp
  from flash_write [OF platform_partition(5) [OF pl] this, of w]
  obtain w' where w': "NorWrite N ?off (length d + 8) (record_bytes d) w = (EFI_SUCCESS, w')"
    "view w' = program (view w) ?off (record_bytes d)" by auto
  show thesis
    by (rule that [OF w'(1)])
      (use block_holds_append [OF h fits] changed_in_program [of "length (records rs)" "record_bytes d"] fits
        in \<open>simp_all add: w'(2)\<close>)
qed

text \<open>A block is erased and starts over with one record.\<close>

lemma EraseNewBlock_then_write:
  assumes pl: "platform P N BlockSize Density view Alloc" and k: "k \<in> partition_blocks P"
    and d: "length d + 8 \<le> SEQ_BLOCK_SIZE"
  obtains w' where
    "NorWrite N (k * SEQ_BLOCK_SIZE) (length d + 8) (record_bytes d) (snd (EraseNewBlock N BlockSize k w))
     = (EFI_SUCCESS, w')"
    "block_holds (view w') k [d]" "changed_in k (view w) (view w')"
proof -
  let ?w = "snd (EraseNewBlock N BlockSize k w)"
  have h: "block_holds (view ?w) k []"
    using block_holds_erased [of "view w" k] by (simp add: EraseNewBlock_erases [OF pl k])
  obtain w' where w': "NorWrite N (k * SEQ_BLOCK_SIZE + length (records [])) (length d + 8)
      (record_bytes d) ?w = (EFI_SUCCESS, w')"
    "block_holds (view w') k ([] @ [d])" "changed_in k (view ?w) (view w')"
    by (rule NorWrite_appends [OF pl k h, of d]) (simp_all add: d)
  show thesis
    by (rule that [of w'])
      (use w' changed_in_trans [OF changed_in_erased [of k "view w"]]
        in \<open>simp_all add: EraseNewBlock_erases [OF pl k]\<close>)
qed

lemma GetWriteNextOffset_store:
  assumes pl: "platform P N BlockSize Density view Alloc" and st: "record_store P (view w) s"
  shows "GetWriteNextOffset P N Alloc w =
    (case s of None \<Rightarrow> Some (EFI_SUCCESS, GetPartitionStartBlock P * SEQ_BLOCK_SIZE)
     | Some (k, rs) \<Rightarrow> Some (EFI_SUCCESS, k * SEQ_BLOCK_SIZE + length (records rs)))"
proof (cases s)
  case None
  obtain start count where *: "2 \<le> count" "partition_blocks P = {start ..< start + count}"
    "GetPartitionStartBlock P = start"
    using platform_partition(1,4) [OF pl] by (rule block_numbers) blast
  then have "start \<in> partition_blocks P" by simp
  from block_offsets(1) [OF this platform_partition(4) [OF pl]] show ?thesis
    using GetActiveBlock_store [OF assms] by (simp add: GetWriteNextOffset_def None *(3))
next
  case (Some p)
  obtain k rs d where p: "p = (k, rs @ [d])"
    using st by (cases p; cases "snd p" rule: rev_cases) (auto simp: Some)
  from st have st': "record_store P (view w) (Some (k, rs @ [d]))" by (simp only: Some p)
  then have k: "k \<in> partition_blocks P" and fits: "length (records (rs @ [d])) \<le> SEQ_BLOCK_SIZE"
    by (simp_all add: block_holds_def)
  have "u32 (k * SEQ_BLOCK_SIZE + length (records rs) + (length d + 8))
      = k * SEQ_BLOCK_SIZE + length (records (rs @ [d]))"
    using block_offsets(3) [OF k platform_partition(4) [OF pl]] platform_partition(4) [OF pl] fits
    by simp
  then show ?thesis
    using GetActiveBlock_store [OF assms] GetReadLastOffset_store [OF pl st']
    by (simp add: GetWriteNextOffset_def Some p)
qed

end
