(* ===== verification/CmetRecord.thy ===== *)
theory CmetRecord
  imports SeqRecordProps
begin

text \<open>
  \<open>CmetRecordStorage.c\<close>: the CMET record, which is kept twice, in the first two blocks of 64 KB of its
  partition. The flash is that of theory \<open>SeqRecord\<close>. The input buffer of a write is the list of the
  \<open>BufSize\<close> bytes.
\<close>

definition NUM_CMET_RECORDS :: nat where "NUM_CMET_RECORDS = 2"
definition CmetBlockSize :: nat where "CmetBlockSize = 65536"
definition TEGRABL_CMET :: nat where "TEGRABL_CMET = 17"

record 'w CMET_RECORD_PROTOCOL =
  CmetPartitionInfo :: PARTITION_INFO
  CmetNorFlashProtocol :: "nat \<Rightarrow> 'w NOR_FLASH_PROTOCOL option"

definition EraseRecord :: "nat \<Rightarrow> nat \<Rightarrow> 'w NOR_FLASH_PROTOCOL \<Rightarrow> 'w \<Rightarrow> EFI_STATUS \<times> 'w" where
  "EraseRecord BlockSize RecordOffset N w =
     (let EraseBlocks = CmetBlockSize div BlockSize; EraseBlockNum = RecordOffset div BlockSize in
      NorErase N EraseBlockNum EraseBlocks w)"

definition CmetReadRecord ::
  "'w CMET_RECORD_PROTOCOL \<Rightarrow> nat \<Rightarrow> byte list \<Rightarrow> nat \<Rightarrow> nat \<Rightarrow> 'w \<Rightarrow> EFI_STATUS \<times> byte list" where
  "CmetReadRecord This SocketNum Buf BufSize PrimaryRecord w =
     (if BufSize > CmetBlockSize then (EFI_INVALID_PARAMETER, Buf)
      else if SocketNum \<ge> MAX_SOCKETS then (EFI_INVALID_PARAMETER, Buf)
      else case CmetNorFlashProtocol This SocketNum of
        None \<Rightarrow> (EFI_DEVICE_ERROR, Buf)
      | Some N \<Rightarrow>
          let Offset = u32 (PartitionByteOffset (CmetPartitionInfo This));
              CmetRecordReadOffset = (if PrimaryRecord = 0 then u32 (Offset + CmetBlockSize) else Offset) in
          NorRead N CmetRecordReadOffset BufSize w)"

text \<open>\<open>n\<close> records are left to be written. The status of the last write is the result.\<close>

primrec CmetWriteLoop ::
  "'w NOR_FLASH_PROTOCOL \<Rightarrow> nat \<Rightarrow> byte list \<Rightarrow> nat \<Rightarrow> nat \<Rightarrow> nat \<Rightarrow> nat \<Rightarrow> EFI_STATUS \<Rightarrow> 'w \<Rightarrow> EFI_STATUS \<times> 'w" where
  "CmetWriteLoop N BlockSize InBuf BufSize Erase CmetOffset 0 Status w = (Status, w)"
| "CmetWriteLoop N BlockSize InBuf BufSize Erase CmetOffset (Suc n) Status w =
     (case (if Erase = 1 then EraseRecord BlockSize CmetOffset N w else (EFI_SUCCESS, w)) of (Status, w) \<Rightarrow>
      if EFI_ERROR Status then (Status, w)
      else (case NorWrite N CmetOffset (u32 BufSize) InBuf w of (Status, w) \<Rightarrow>
        if EFI_ERROR Status then (Status, w)
        else CmetWriteLoop N BlockSize InBuf BufSize Erase (u32 (CmetOffset + CmetBlockSize)) n Status w))"

definition CmetWriteRecord ::
  "'w CMET_RECORD_PROTOCOL \<Rightarrow> nat \<Rightarrow> nat \<Rightarrow> byte list \<Rightarrow> nat \<Rightarrow> nat \<Rightarrow> 'w \<Rightarrow> EFI_STATUS \<times> 'w" where
  "CmetWriteRecord This BlockSize SocketNum InBuf BufSize Erase w =
     (if SocketNum \<ge> MAX_SOCKETS then (EFI_INVALID_PARAMETER, w)
      else case CmetNorFlashProtocol This SocketNum of
        None \<Rightarrow> (EFI_DEVICE_ERROR, w)
      | Some N \<Rightarrow> CmetWriteLoop N BlockSize InBuf BufSize Erase
          (u32 (PartitionByteOffset (CmetPartitionInfo This))) NUM_CMET_RECORDS EFI_SUCCESS w)"

definition CmetValidatePartitionInfo :: "nat \<Rightarrow> PARTITION_INFO \<Rightarrow> EFI_STATUS" where
  "CmetValidatePartitionInfo BlockSize P =
     (if BlockSize > CmetBlockSize \<or> CmetBlockSize mod BlockSize \<noteq> 0 then EFI_INVALID_PARAMETER
      else if PartitionSize P div CmetBlockSize < MIN_PARTITION_BLOCKS then EFI_INVALID_PARAMETER
      else EFI_SUCCESS)"

text \<open>The installed protocol, if any, and the block size; the pool is assumed to be allocated.\<close>

definition CmetStorageInit ::
  "(nat \<Rightarrow> 'w NOR_FLASH_PROTOCOL option) \<Rightarrow> ('w NOR_FLASH_PROTOCOL \<Rightarrow> EFI_STATUS \<times> nat)
   \<Rightarrow> (nat \<Rightarrow> EFI_STATUS \<times> PARTITION_INFO) \<Rightarrow> ('w CMET_RECORD_PROTOCOL \<Rightarrow> EFI_STATUS)
   \<Rightarrow> EFI_STATUS \<times> 'w CMET_RECORD_PROTOCOL option \<times> nat" where
  "CmetStorageInit GetSocketNorFlashProtocol GetAttributes GetPartitionData Install =
     (let NorFlashProtocolArr = (\<lambda>S. if S < MAX_SOCKETS then GetSocketNorFlashProtocol S else None) in
      case NorFlashProtocolArr 0 of None \<Rightarrow> (EFI_SUCCESS, None, 0)
      | Some N \<Rightarrow> (case GetAttributes N of (Status, BlockSize) \<Rightarrow>
          if EFI_ERROR Status then (EFI_SUCCESS, None, BlockSize)
          else (case GetPartitionData TEGRABL_CMET of (Status, Info) \<Rightarrow>
            if EFI_ERROR Status \<or> EFI_ERROR (CmetValidatePartitionInfo BlockSize Info)
            then (EFI_SUCCESS, None, BlockSize)
            else let protocol = \<lparr> CmetPartitionInfo = Info, CmetNorFlashProtocol = NorFlashProtocolArr \<rparr> in
              (EFI_SUCCESS, if EFI_ERROR (Install protocol) then None else Some protocol, BlockSize))))"

section \<open>Both copies are written\<close>

definition cmet_platform ::
  "'w CMET_RECORD_PROTOCOL \<Rightarrow> 'w NOR_FLASH_PROTOCOL \<Rightarrow> nat \<Rightarrow> nat \<Rightarrow> ('w \<Rightarrow> memory) \<Rightarrow> nat \<Rightarrow> bool" where
  "cmet_platform This N BlockSize Density view S \<longleftrightarrow>
     S < MAX_SOCKETS \<and> CmetNorFlashProtocol This S = Some N
   \<and> documented_flash N BlockSize Density view
   \<and> CmetValidatePartitionInfo BlockSize (CmetPartitionInfo This) = EFI_SUCCESS
   \<and> BlockSize dvd PartitionByteOffset (CmetPartitionInfo This)
   \<and> PartitionByteOffset (CmetPartitionInfo This) + PartitionSize (CmetPartitionInfo This) \<le> Density
   \<and> Density < 2 ^ 32"

text \<open>What one copy holds after the write: the data, over the old content if it was not erased.\<close>

definition stored :: "memory \<Rightarrow> nat \<Rightarrow> byte list \<Rightarrow> nat \<Rightarrow> byte list" where
  "stored f off d Erase = (if Erase = 1 then d else map2 (AND) (content f off (length d)) d)"

lemma cmet_step:
  assumes flash: "documented_flash N BlockSize Density view"
    and dvd: "BlockSize dvd CmetBlockSize" "BlockSize dvd off"
    and lim: "off + CmetBlockSize \<le> Density" "Density < 2 ^ 32" and d: "length d \<le> CmetBlockSize"
  obtains w' where
    "CmetWriteLoop N BlockSize d (length d) Erase off (Suc n) s w
       = CmetWriteLoop N BlockSize d (length d) Erase (u32 (off + CmetBlockSize)) n EFI_SUCCESS w'"
    "content (view w') off (length d) = stored (view w) off d Erase"
    "\<And>a. a < off \<or> off + CmetBlockSize \<le> a \<Longrightarrow> view w' a = view w a"
proof -
  let ?w = "if Erase = 1 then snd (EraseRecord BlockSize off N w) else w"
  have e: "off div BlockSize * BlockSize = off" "CmetBlockSize div BlockSize * BlockSize = CmetBlockSize"
    using dvd by simp_all
  have le: "(off div BlockSize + CmetBlockSize div BlockSize) * BlockSize \<le> Density"
    unfolding add_mult_distrib e by (rule lim(1))
  have er: "fst (EraseRecord BlockSize off N w) = EFI_SUCCESS"
    "view (snd (EraseRecord BlockSize off N w)) = erased (view w) off CmetBlockSize"
    using flash le e by (simp_all add: EraseRecord_def documented_flash_def)
  have "off + length d \<le> Density" using lim d by simp
  from flash_write [OF flash this, of ?w]
  obtain w' where w': "NorWrite N off (length d) d ?w = (EFI_SUCCESS, w')"
    "view w' = program (view ?w) off d" .
  have u: "u32 (length d) = length d" using lim d by simp
  show thesis
  proof (rule that [of w'])
    show "CmetWriteLoop N BlockSize d (length d) Erase off (Suc n) s w
       = CmetWriteLoop N BlockSize d (length d) Erase (u32 (off + CmetBlockSize)) n EFI_SUCCESS w'"
      using w'(1) er(1) u by (auto simp: split: prod.split if_splits)
    show "content (view w') off (length d) = stored (view w) off d Erase"
      using d er(2) erase_byte_and [unfolded ERASE_BYTE_def]
      by (auto simp: stored_def w'(2) program_def erased_def list_eq_iff_nth_eq)
    show "\<And>a. a < off \<or> off + CmetBlockSize \<le> a \<Longrightarrow> view w' a = view w a"
      using d er(2) by (auto simp: w'(2) program_def erased_def)
  qed
qed

text \<open>
  The CMET record is kept twice. A record of at most 64 KB is written with success to both
  copies: afterwards the primary and the secondary copy are read back as the data, or, when the caller asked
  not to erase, as the data masked by what that copy held before; nothing outside the two blocks changes.
\<close>

theorem cmet_both_copies:
  assumes "cmet_platform This N BlockSize Density view S" and "length d \<le> CmetBlockSize"
    and "off = PartitionByteOffset (CmetPartitionInfo This)"
  shows "\<exists>w'. CmetWriteRecord This BlockSize S d (length d) Erase w = (EFI_SUCCESS, w')
    \<and> CmetReadRecord This S Buf (length d) 1 w' = (EFI_SUCCESS, stored (view w) off d Erase)
    \<and> CmetReadRecord This S Buf (length d) 0 w'
        = (EFI_SUCCESS, stored (view w) (off + CmetBlockSize) d Erase)
    \<and> (\<forall>a. a < off \<or> off + 2 * CmetBlockSize \<le> a \<longrightarrow> view w' a = view w a)"
proof -
  let ?P = "CmetPartitionInfo This"
  from assms(1) have flash: "documented_flash N BlockSize Density view" and S: "S < MAX_SOCKETS"
    "CmetNorFlashProtocol This S = Some N" and dvd: "BlockSize dvd off"
    and size: "2 \<le> PartitionSize ?P div CmetBlockSize" "BlockSize dvd CmetBlockSize"
    and lim: "off + PartitionSize ?P \<le> Density" "Density < 2 ^ 32"
    using assms(3) by (auto simp: cmet_platform_def CmetValidatePartitionInfo_def MIN_PARTITION_BLOCKS_def
        mod_0_imp_dvd split: if_splits)
  have "2 * CmetBlockSize \<le> PartitionSize ?P"
    using size(1) by (simp add: CmetBlockSize_def)
  with lim have l: "off + CmetBlockSize \<le> Density" "off + CmetBlockSize + CmetBlockSize \<le> Density" by simp_all
  have dvd': "BlockSize dvd off + CmetBlockSize" using dvd size(2) by simp
  obtain w1 where w1: "CmetWriteLoop N BlockSize d (length d) Erase off (Suc (Suc 0)) EFI_SUCCESS w
      = CmetWriteLoop N BlockSize d (length d) Erase (u32 (off + CmetBlockSize)) (Suc 0) EFI_SUCCESS w1"
    "content (view w1) off (length d) = stored (view w) off d Erase"
    "\<And>a. a < off \<or> off + CmetBlockSize \<le> a \<Longrightarrow> view w1 a = view w a"
    by (rule cmet_step [OF flash size(2) dvd l(1) lim(2) assms(2)]) blast
  obtain w2 where w2: "CmetWriteLoop N BlockSize d (length d) Erase (off + CmetBlockSize) (Suc 0) EFI_SUCCESS w1
      = CmetWriteLoop N BlockSize d (length d) Erase (u32 (off + CmetBlockSize + CmetBlockSize)) 0 EFI_SUCCESS w2"
    "content (view w2) (off + CmetBlockSize) (length d) = stored (view w1) (off + CmetBlockSize) d Erase"
    "\<And>a. a < off + CmetBlockSize \<or> off + CmetBlockSize + CmetBlockSize \<le> a \<Longrightarrow> view w2 a = view w1 a"
    by (rule cmet_step [OF flash size(2) dvd' l(2) lim(2) assms(2)]) blast
  have u: "u32 off = off" "u32 (off + CmetBlockSize) = off + CmetBlockSize" using l lim(2) by simp_all
  have run: "CmetWriteRecord This BlockSize S d (length d) Erase w = (EFI_SUCCESS, w2)"
    using S w1(1) w2(1)
    by (simp add: CmetWriteRecord_def NUM_CMET_RECORDS_def numeral_2_eq_2 u assms(3)[symmetric]
        del: CmetWriteLoop.simps(2))
  have first: "content (view w2) off (length d) = content (view w1) off (length d)"
    using assms(2) by (simp add: content_def w2(3))
  have second: "stored (view w1) (off + CmetBlockSize) d Erase = stored (view w) (off + CmetBlockSize) d Erase"
  proof -
    have "content (view w1) (off + CmetBlockSize) (length d) = content (view w) (off + CmetBlockSize) (length d)"
      by (simp add: content_def w1(3))
    then show ?thesis by (simp add: stored_def)
  qed
  have "off + length d \<le> Density" "off + CmetBlockSize + length d \<le> Density"
    using l assms(2) by simp_all
  note reads = this [THEN flash_read [OF flash], of w2]
  have "CmetReadRecord This S Buf (length d) 1 w2 = (EFI_SUCCESS, stored (view w) off d Erase)"
    "CmetReadRecord This S Buf (length d) 0 w2 = (EFI_SUCCESS, stored (view w) (off + CmetBlockSize) d Erase)"
    using S assms(2) reads first second w1(2) w2(2)
    by (simp_all add: CmetReadRecord_def u assms(3)[symmetric])
  moreover have "view w2 a = view w a" if "a < off \<or> off + 2 * CmetBlockSize \<le> a" for a
    using that w1(3) [of a] w2(3) [of a] by auto
  ultimately show ?thesis using run by blast
qed

definition exampleCmet :: "memory CMET_RECORD_PROTOCOL" where
  "exampleCmet = \<lparr> CmetPartitionInfo = \<lparr> PartitionByteOffset = 4096, PartitionSize = 131072, PartitionIndex = 17 \<rparr>,
     CmetNorFlashProtocol = (\<lambda>S. Some (memory_flash 4096)) \<rparr>"

theorem cmet_both_copies_witness:
  "\<exists>w'. CmetWriteRecord exampleCmet 4096 0 [1, 2, 3] 3 1 (\<lambda>_. 0) = (EFI_SUCCESS, w')
    \<and> CmetReadRecord exampleCmet 0 [] 3 1 w' = (EFI_SUCCESS, [1, 2, 3])
    \<and> CmetReadRecord exampleCmet 0 [] 3 0 w' = (EFI_SUCCESS, [1, 2, 3])"
proof -
  have "cmet_platform exampleCmet (memory_flash 4096) 4096 1048576 (\<lambda>f. f) 0"
    by (simp add: cmet_platform_def exampleCmet_def MAX_SOCKETS_def memory_flash_documented
        CmetValidatePartitionInfo_def CmetBlockSize_def MIN_PARTITION_BLOCKS_def)
  from cmet_both_copies [OF this _ refl, of "[1, 2, 3]" 1 "\<lambda>_. 0" "[]"] show ?thesis
    by (auto simp: CmetBlockSize_def stored_def numeral_3_eq_3)
qed

text \<open>The alignment of the partition is not checked: an unaligned one is accepted.\<close>

lemma cmet_unaligned_accepted:
  "CmetValidatePartitionInfo 4096 \<lparr> PartitionByteOffset = 100, PartitionSize = 131077, PartitionIndex = 17 \<rparr>
   = EFI_SUCCESS"
  by (simp add: CmetValidatePartitionInfo_def CmetBlockSize_def MIN_PARTITION_BLOCKS_def)

end
