(* ===== verification/SeqRecordTheorems.thy ===== *)
theory SeqRecordTheorems
  imports SeqRecordProps
begin

text \<open>
  What the record storage guarantees: writing appends to the abstract store, the last and the
  \<open>n\<close>th last record are read back, the blocks take turns, an erased partition is empty; and what
  happens to records that are larger than a block and when a header cannot be read.
\<close>

section \<open>Where a record is written\<close>

lemma IsSpiNorRegionErased_free:
  assumes pl: "platform P N BlockSize Density view Alloc" and k: "k \<in> partition_blocks P"
    and h: "block_holds (view w) k rs" and fits: "length (records rs) + n \<le> SEQ_BLOCK_SIZE"
  shows "IsSpiNorRegionErased N Alloc w (k * SEQ_BLOCK_SIZE + length (records rs)) n"
proof -
  let ?off = "k * SEQ_BLOCK_SIZE + length (records rs)"
  have "?off + n \<le> Density"
    using fits block_offsets(3) [OF k platform_partition(4) [OF pl]] platform_partition(2) [OF pl] by simp
  note read = flash_read [OF platform_partition(5) [OF pl] this, of w]
  have "view w (?off + i) = ERASE_BYTE" if "i < n" for i
    using h that fits unfolding block_holds_iff by (simp add: add.assoc)
  then have "list_all (\<lambda>b. b = ERASE_BYTE) (content (view w) ?off n)"
    by (simp add: list_all_length)
  then show ?thesis
    by (simp add: IsSpiNorRegionErased_def read platform_partition(6) [OF pl])
qed

lemma ChooseWriteBlock_store:
  assumes pl: "platform P N BlockSize Density view Alloc"
    and st: "record_store P (view w) (Some (k, rs))" and d: "n \<le> SEQ_BLOCK_SIZE"
  shows "ChooseWriteBlock P N Alloc w k (k * SEQ_BLOCK_SIZE + length (records rs)) n
    = (if length (records rs) + n \<le> SEQ_BLOCK_SIZE then (k, k * SEQ_BLOCK_SIZE + length (records rs))
       else (GetNextWriteBlock P k, GetNextWriteBlock P k * SEQ_BLOCK_SIZE))"
proof -
  from st have k: "k \<in> partition_blocks P" and h: "block_holds (view w) k rs" by simp_all
  note off = block_offsets [OF k platform_partition(4) [OF pl]]
    block_offsets(1) [OF next_block(1) [OF platform_partition(1,4) [OF pl] k] platform_partition(4) [OF pl]]
  have "length (records rs) \<le> SEQ_BLOCK_SIZE" using h by (simp add: block_holds_def)
  then have "u32 (k * SEQ_BLOCK_SIZE + length (records rs) + n) = k * SEQ_BLOCK_SIZE + length (records rs) + n"
    using off(3) platform_partition(8) [OF pl] d by (intro u32_less) linarith
  moreover have "u32 ((k + 1) * SEQ_BLOCK_SIZE) = k * SEQ_BLOCK_SIZE + SEQ_BLOCK_SIZE"
    using off(2) by (simp add: add.commute)
  ultimately show ?thesis
    using IsSpiNorRegionErased_free [OF pl k h]
    by (auto simp: ChooseWriteBlock_def Let_def off)
qed

lemma ChooseWriteBlock_first:
  assumes pl: "platform P N BlockSize Density view Alloc"
    and k: "k \<in> partition_blocks P" and d: "n \<le> SEQ_BLOCK_SIZE"
  shows "ChooseWriteBlock P N Alloc w k (k * SEQ_BLOCK_SIZE) n = (k, k * SEQ_BLOCK_SIZE)"
proof -
  note off = block_offsets [OF k platform_partition(4) [OF pl]]
  have "u32 (k * SEQ_BLOCK_SIZE + n) = k * SEQ_BLOCK_SIZE + n"
    using off(3) platform_partition(4) [OF pl] d by (intro u32_less) linarith
  moreover have "u32 ((k + 1) * SEQ_BLOCK_SIZE) = k * SEQ_BLOCK_SIZE + SEQ_BLOCK_SIZE"
    using off(2) by (simp add: add.commute)
  ultimately show ?thesis using d by (simp add: ChooseWriteBlock_def Let_def off)
qed

section \<open>Writing\<close>

text \<open>The flash of socket \<open>S\<close> represents the state \<open>s\<close>.\<close>

definition seq_store ::
  "'w SEQ_RECORD_PROTOCOL \<Rightarrow> nat \<Rightarrow> nat \<Rightarrow> ('w \<Rightarrow> memory) \<Rightarrow> (nat \<Rightarrow> bool) \<Rightarrow> nat \<Rightarrow> store \<Rightarrow> 'w \<Rightarrow> bool" where
  "seq_store This BlockSize Density view Alloc S s w \<longleftrightarrow>
     S < MAX_SOCKETS \<and> (case NorFlashProtocol This S of None \<Rightarrow> False
       | Some N \<Rightarrow> platform (PartitionInfo This) N BlockSize Density view Alloc)
   \<and> record_store (PartitionInfo This) (view w) s"

lemma seq_storeE:
  assumes "seq_store This BlockSize Density view Alloc S s w"
  obtains N where "SocketFlash This S = Inr N"
    "platform (PartitionInfo This) N BlockSize Density view Alloc"
    "record_store (PartitionInfo This) (view w) s"
  using assms by (auto simp: seq_store_def SocketFlash_def split: option.splits)

lemma seq_storeI:
  assumes "seq_store This BlockSize Density view Alloc S s w"
    and "record_store (PartitionInfo This) (view w') s'"
  shows "seq_store This BlockSize Density view Alloc S s' w'"
  using assms by (simp add: seq_store_def)

text \<open>The write for each of the three places.\<close>

lemma WriteNextRecord_first:
  assumes st: "seq_store This BlockSize Density view Alloc S None w"
    and d: "length d + 8 \<le> SEQ_BLOCK_SIZE"
  shows "\<exists>w'. WriteNextRecord This BlockSize Alloc S d (length d) w = Some (EFI_SUCCESS, w')
    \<and> seq_store This BlockSize Density view Alloc S (spec_write (PartitionInfo This) None d) w'"
proof -
  let ?P = "PartitionInfo This"
  obtain N where N: "SocketFlash This S = Inr N" and pl: "platform ?P N BlockSize Density view Alloc"
    and rs: "record_store ?P (view w) None" using st by (rule seq_storeE)
  obtain start count where *: "2 \<le> count" "partition_blocks ?P = {start ..< start + count}"
    "GetPartitionStartBlock ?P = start"
    using platform_partition(1,4) [OF pl] by (rule block_numbers) blast
  then have k: "start \<in> partition_blocks ?P" by simp
  obtain w' where w': "NorWrite N (start * SEQ_BLOCK_SIZE) (length d + 8) (record_bytes d)
      (snd (EraseNewBlock N BlockSize start w)) = (EFI_SUCCESS, w')"
    "block_holds (view w') start [d]" "changed_in start (view w) (view w')"
    using pl k d by (rule EraseNewBlock_then_write)
  have size: "u32 (length d + 8) = length d + 8" "length d + 8 < 2 ^ 32"
    using d by (simp_all add: SEQ_BLOCK_SIZE_def)
  have "WriteNextRecord This BlockSize Alloc S d (length d) w = Some (EFI_SUCCESS, w')"
    using GetWriteNextOffset_store [OF pl rs] GetActiveBlock_store [OF pl rs]
    by (simp add: WriteNextRecord_def N SIZE_OF_DATA_HDR_def size *(3) Let_def
        ChooseWriteBlock_first [OF pl k d] block_offsets(1) [OF k platform_partition(4) [OF pl]]
        platform_partition(6) [OF pl] BuildRecord_record_bytes [OF size(2)] w'(1))
  moreover have "record_store ?P (view w') (spec_write ?P None d)"
    using k rs w'(2,3) by (simp add: *(3) changed_in_active)
  ultimately show ?thesis using seq_storeI [OF st] by blast
qed

lemma WriteNextRecord_same_block:
  assumes st: "seq_store This BlockSize Density view Alloc S (Some (k, rs)) w"
    and d: "length (records (rs @ [d])) \<le> SEQ_BLOCK_SIZE"
  shows "\<exists>w'. WriteNextRecord This BlockSize Alloc S d (length d) w = Some (EFI_SUCCESS, w')
    \<and> seq_store This BlockSize Density view Alloc S (Some (k, rs @ [d])) w'"
proof -
  let ?P = "PartitionInfo This"
  obtain N where N: "SocketFlash This S = Inr N" and pl: "platform ?P N BlockSize Density view Alloc"
    and rs: "record_store ?P (view w) (Some (k, rs))" using st by (rule seq_storeE)
  from rs have k: "k \<in> partition_blocks ?P" and h: "block_holds (view w) k rs" and ne: "rs \<noteq> []"
    by simp_all
  obtain w' where w': "NorWrite N (k * SEQ_BLOCK_SIZE + length (records rs)) (length d + 8)
      (record_bytes d) w = (EFI_SUCCESS, w')"
    "block_holds (view w') k (rs @ [d])" "changed_in k (view w) (view w')"
    using pl k h d by (rule NorWrite_appends)
  have size: "u32 (length d + 8) = length d + 8" "length d + 8 < 2 ^ 32" "length d + 8 \<le> SEQ_BLOCK_SIZE"
    using d by (simp_all add: SEQ_BLOCK_SIZE_def)
  have "WriteNextRecord This BlockSize Alloc S d (length d) w = Some (EFI_SUCCESS, w')"
    using GetWriteNextOffset_store [OF pl rs] GetActiveBlock_store [OF pl rs] d ne
    by (simp add: WriteNextRecord_def N SIZE_OF_DATA_HDR_def size(1,2) Let_def add.assoc
        ChooseWriteBlock_store [OF pl rs size(3)] block_offsets(1) [OF k platform_partition(4) [OF pl]]
        platform_partition(6) [OF pl] BuildRecord_record_bytes [OF size(2)] w'(1))
  moreover have "record_store ?P (view w') (Some (k, rs @ [d]))"
    using rs w'(2,3) by (simp add: changed_in_active)
  ultimately show ?thesis using seq_storeI [OF st] by blast
qed

lemma WriteNextRecord_next_block:
  assumes st: "seq_store This BlockSize Density view Alloc S (Some (k, rs)) w"
    and d: "length d + 8 \<le> SEQ_BLOCK_SIZE" and full: "SEQ_BLOCK_SIZE < length (records (rs @ [d]))"
  shows "\<exists>w'. WriteNextRecord This BlockSize Alloc S d (length d) w = Some (EFI_SUCCESS, w')
    \<and> seq_store This BlockSize Density view Alloc S
        (Some (GetNextWriteBlock (PartitionInfo This) k, [d])) w'"
proof -
  let ?P = "PartitionInfo This"
  let ?k' = "GetNextWriteBlock ?P k"
  obtain N where N: "SocketFlash This S = Inr N" and pl: "platform ?P N BlockSize Density view Alloc"
    and rs: "record_store ?P (view w) (Some (k, rs))" using st by (rule seq_storeE)
  from rs have k: "k \<in> partition_blocks ?P" and h: "block_holds (view w) k rs" and ne: "rs \<noteq> []"
    by simp_all
  note k' = next_block [OF platform_partition(1,4) [OF pl] k]
  obtain w' where w': "NorWrite N (?k' * SEQ_BLOCK_SIZE) (length d + 8) (record_bytes d)
      (snd (EraseNewBlock N BlockSize ?k' w)) = (EFI_SUCCESS, w')"
    "block_holds (view w') ?k' [d]" "changed_in ?k' (view w) (view w')"
    using pl k'(1) d by (rule EraseNewBlock_then_write)
  have "active (view w') k"
    using w'(3) k'(2) block_holds_active [OF h] ne by (simp add: changed_in_active)
  note retired = RetireBlock_retires [OF pl k this] RetireBlock_changes [OF pl k, of w']
  have size: "u32 (length d + 8) = length d + 8" "length d + 8 < 2 ^ 32"
    using d by (simp_all add: SEQ_BLOCK_SIZE_def)
  have "WriteNextRecord This BlockSize Alloc S d (length d) w
      = Some (EFI_SUCCESS, snd (RetireBlock N k w'))"
    using GetWriteNextOffset_store [OF pl rs] GetActiveBlock_store [OF pl rs] full k'(2)
    by (simp add: WriteNextRecord_def N SIZE_OF_DATA_HDR_def size Let_def add.assoc
        ChooseWriteBlock_store [OF pl rs d] block_offsets(1) [OF k'(1) platform_partition(4) [OF pl]]
        platform_partition(6) [OF pl] BuildRecord_record_bytes [OF size(2)] w'(1))
  moreover have "\<not> active (view (snd (RetireBlock N k w'))) j"
    if "j \<in> partition_blocks ?P" "j \<noteq> ?k'" for j
    using rs w'(3) retired that by (cases "j = k") (simp_all add: changed_in_active)
  then have "record_store ?P (view (snd (RetireBlock N k w'))) (Some (?k', [d]))"
    using w'(2) retired(2) k' by (simp add: changed_in_holds)
  ultimately show ?thesis using seq_storeI [OF st] by blast
qed

lemma WriteNextRecord_appends:
  assumes st: "seq_store This BlockSize Density view Alloc S s w" and d: "length d + 8 \<le> SEQ_BLOCK_SIZE"
  shows "\<exists>w'. WriteNextRecord This BlockSize Alloc S d (length d) w = Some (EFI_SUCCESS, w')
    \<and> seq_store This BlockSize Density view Alloc S (spec_write (PartitionInfo This) s d) w'"
proof (cases s)
  case None
  with WriteNextRecord_first [OF st [unfolded None] d] show ?thesis by simp
next
  case (Some p)
  obtain k rs where p: "s = Some (k, rs)" using Some by (cases p) simp
  note st' = st [unfolded p]
  show ?thesis
  proof (cases "length (records (rs @ [d])) \<le> SEQ_BLOCK_SIZE")
    case True
    from WriteNextRecord_same_block [OF st' this] True show ?thesis by (simp add: p)
  next
    case False
    then have "SEQ_BLOCK_SIZE < length (records (rs @ [d]))" by simp
    from WriteNextRecord_next_block [OF st' d this] False show ?thesis by (simp add: p)
  qed
qed

section \<open>Reading\<close>

text \<open>The payload of a record, from the offset of the record.\<close>

lemma content_payload:
  assumes "content f off (length (records (rs @ d # ss))) = records (rs @ d # ss)"
    and "n \<le> length d"
  shows "content f (off + length (records rs) + 8) n = take n d"
proof -
  from assms(1) have "content f (off + length (records rs)) (length (record_bytes d)) = record_bytes d"
    by (simp add: content_append [of f off "records rs"]
        content_append [of f "off + length (records rs)" "record_bytes d"] del: length_append length_record_bytes)
  then have "content f (off + length (records rs)) (8 + length d) = record_bytes d"
    by (simp add: add.commute)
  then have "drop 8 (content f (off + length (records rs)) 8 @ content f (off + length (records rs) + 8) (length d))
      = drop 8 (record_bytes d)"
    by (simp add: content_add)
  then have "content f (off + length (records rs) + 8) (length d) = d" by (simp add: record_bytes_def)
  then show ?thesis using take_content [OF assms(2)] by metis
qed

text \<open>A read of the payload of a record in the active block, at the width of the offsets.\<close>

lemma NorRead_payload:
  assumes pl: "platform P N BlockSize Density view Alloc"
    and st: "record_store P (view w) (Some (k, rs @ d # ss))"
  shows "NorRead N (u32 (k * SEQ_BLOCK_SIZE + length (records rs) + 8)) (u32 (length d)) w = (EFI_SUCCESS, d)"
    "sub64 (length d + 8) 8 = length d"
proof -
  from st have k: "k \<in> partition_blocks P" and h: "block_holds (view w) k (rs @ d # ss)" by simp_all
  let ?off = "k * SEQ_BLOCK_SIZE + length (records rs)"
  have end1: "?off + 8 + length d \<le> partition_end P"
    using h block_offsets(3) [OF k platform_partition(4) [OF pl]] by (simp add: block_holds_def)
  then have u: "u32 (?off + 8) = ?off + 8" "u32 (length d) = length d"
    using platform_partition(4) [OF pl] by simp_all
  have "?off + 8 + length d \<le> Density" using end1 platform_partition(2) [OF pl] by simp
  then have "NorRead N (?off + 8) (length d) w = (EFI_SUCCESS, content (view w) (?off + 8) (length d))"
    by (rule flash_read [OF platform_partition(5) [OF pl]])
  moreover have "content (view w) (?off + 8) (length d) = d"
    using content_payload [of "view w" "k * SEQ_BLOCK_SIZE" rs d ss "length d"] h
    by (simp add: block_holds_def)
  ultimately show "NorRead N (u32 (?off + 8)) (u32 (length d)) w = (EFI_SUCCESS, d)"
    unfolding u by simp
  show "sub64 (length d + 8) 8 = length d"
    using end1 platform_partition(4) [OF pl] by (simp add: sub64_le)
qed

lemma ReadLastRecord_last:
  assumes st: "seq_store This BlockSize Density view Alloc S (Some (k, rs @ [d])) w"
    and n: "8 \<le> length d"
  shows "ReadLastRecord This Alloc S Buf (length d) w = Some (EFI_SUCCESS, d)"
proof -
  obtain N where N: "SocketFlash This S = Inr N"
    and pl: "platform (PartitionInfo This) N BlockSize Density view Alloc"
    and rs: "record_store (PartitionInfo This) (view w) (Some (k, rs @ [d]))" using st by (rule seq_storeE)
  show ?thesis
    using GetActiveBlock_store [OF pl rs] GetReadLastOffset_store [OF pl rs] n NorRead_payload [OF pl rs]
    by (simp add: ReadLastRecord_def SIZE_OF_DATA_HDR_def N)
qed

lemma GetNthRecordFromEnd_store:
  assumes pl: "platform P N BlockSize Density view Alloc"
    and st: "record_store P (view w) (Some (k, rs))" and n: "n \<noteq> 0"
  shows "n \<le> length rs \<Longrightarrow> GetNthRecordFromEnd N Alloc w k n
      = Some (EFI_SUCCESS, k * SEQ_BLOCK_SIZE + length (records (take (length rs - n) rs)),
              length (rs ! (length rs - n)) + 8)"
    and "length rs < n \<Longrightarrow> \<exists>x. GetNthRecordFromEnd N Alloc w k n = Some (EFI_NOT_FOUND, x)"
proof -
  from st have k: "k \<in> partition_blocks P" and h: "block_holds (view w) k rs" by simp_all
  note off = block_offsets [OF k platform_partition(4) [OF pl]]
  note ch = block_holds_chain [OF h]
  have "0 + length rs < 2 ^ 32"
    using h chain_records_below [of rs] by (simp add: block_holds_def SEQ_BLOCK_SIZE_def)
  from CountRecordsLoop_chain [OF pl off(3) ch this, of None]
  obtain s' where count: "CountRecordsLoop N Alloc w (k * SEQ_BLOCK_SIZE + SEQ_BLOCK_SIZE)
      (k * SEQ_BLOCK_SIZE) None 0 = Some (length rs, s')" by auto
  show "length rs < n \<Longrightarrow> \<exists>x. GetNthRecordFromEnd N Alloc w k n = Some (EFI_NOT_FOUND, x)"
    using n by (simp add: GetNthRecordFromEnd_def off count)
  assume "n \<le> length rs"
  then show "GetNthRecordFromEnd N Alloc w k n
      = Some (EFI_SUCCESS, k * SEQ_BLOCK_SIZE + length (records (take (length rs - n) rs)),
              length (rs ! (length rs - n)) + 8)"
    using n FindRecordLoop_chain [OF pl off(3) ch, of "length rs - n" 0 s'] \<open>0 + length rs < 2 ^ 32\<close>
    by (simp add: GetNthRecordFromEnd_def off count)
qed

lemma ReadNthRecordFromEnd_nth:
  assumes st: "seq_store This BlockSize Density view Alloc S (Some (k, rs)) w"
    and n: "n \<noteq> 0" "n \<le> length rs" and d: "d = rs ! (length rs - n)" "8 \<le> length d"
  shows "ReadNthRecordFromEnd This Alloc S n Buf (length d) w = Some (EFI_SUCCESS, d)"
proof -
  obtain N where N: "SocketFlash This S = Inr N"
    and pl: "platform (PartitionInfo This) N BlockSize Density view Alloc"
    and rs: "record_store (PartitionInfo This) (view w) (Some (k, rs))" using st by (rule seq_storeE)
  have S: "S < MAX_SOCKETS" using st by (simp add: seq_store_def)
  have "rs = take (length rs - n) rs @ d # drop (Suc (length rs - n)) rs"
    using n d(1) by (simp add: id_take_nth_drop)
  with rs have "record_store (PartitionInfo This) (view w)
      (Some (k, take (length rs - n) rs @ d # drop (Suc (length rs - n)) rs))" by simp
  note payload = NorRead_payload [OF pl this]
  show ?thesis
    using GetActiveBlock_store [OF pl rs] GetNthRecordFromEnd_store(1) [OF pl rs n] payload d n(1) S
    by (simp add: ReadNthRecordFromEnd_def SIZE_OF_DATA_HDR_def N)
qed

lemma ReadNthRecordFromEnd_too_far:
  assumes st: "seq_store This BlockSize Density view Alloc S (Some (k, rs)) w"
    and n: "length rs < n" and b: "8 \<le> BufSize"
  shows "ReadNthRecordFromEnd This Alloc S n Buf BufSize w = Some (EFI_NOT_FOUND, Buf)"
proof -
  obtain N where N: "SocketFlash This S = Inr N"
    and pl: "platform (PartitionInfo This) N BlockSize Density view Alloc"
    and rs: "record_store (PartitionInfo This) (view w) (Some (k, rs))" using st by (rule seq_storeE)
  have S: "S < MAX_SOCKETS" using st by (simp add: seq_store_def)
  from GetNthRecordFromEnd_store(2) [OF pl rs _ n] n
  obtain x where "GetNthRecordFromEnd N Alloc w k n = Some (EFI_NOT_FOUND, x)" by auto
  then show ?thesis
    using GetActiveBlock_store [OF pl rs] S b n
    by (cases x) (simp add: ReadNthRecordFromEnd_def SIZE_OF_DATA_HDR_def N)
qed

section \<open>Erasing\<close>

lemma ErasePartition_empties:
  assumes st: "S < MAX_SOCKETS" "NorFlashProtocol This S = Some N"
    and pl: "platform (PartitionInfo This) N BlockSize Density view Alloc"
  shows "\<exists>w'. ErasePartition This BlockSize S w = (EFI_SUCCESS, w')
    \<and> seq_store This BlockSize Density view Alloc S None w'"
proof -
  let ?P = "PartitionInfo This"
  obtain start count where *: "PartitionByteOffset ?P = start * SEQ_BLOCK_SIZE"
    "PartitionSize ?P = count * SEQ_BLOCK_SIZE" "2 \<le> count"
    using platform_partition(1) [OF pl] by (rule valid_partition)
  have dvd: "BlockSize dvd PartitionByteOffset ?P" "BlockSize dvd PartitionSize ?P"
    using platform_partition(7) [OF pl] by (simp_all add: *)
  have u: "u32 (PartitionByteOffset ?P div BlockSize) = PartitionByteOffset ?P div BlockSize"
    "u32 (PartitionSize ?P div BlockSize) = PartitionSize ?P div BlockSize"
    using platform_partition(4) [OF pl]
    by (auto simp: partition_end_def intro!: u32_less le_less_trans [OF div_le_dividend])
  have "(PartitionByteOffset ?P div BlockSize + PartitionSize ?P div BlockSize) * BlockSize \<le> Density"
    using platform_partition(2) [OF pl] dvd by (simp add: add_mult_distrib partition_end_def)
  note e = flash_erase [OF platform_partition(5) [OF pl] this, of w]
  let ?r = "NorErase N (PartitionByteOffset ?P div BlockSize) (PartitionSize ?P div BlockSize) w"
  have "ErasePartition This BlockSize S w = ?r"
    using st by (simp add: ErasePartition_def SocketFlash_def u Let_def)
  moreover have "record_store ?P (view (snd ?r)) None"
    using dvd by (auto simp: e active_def erased_def partition_blocks_def partition_end_def SEQ_BLOCK_SIZE_def
        ACTIVE_PAGE_MAGIC_def)
  moreover have "fst ?r = EFI_SUCCESS"
    using platform_partition(5) [OF pl] \<open>_ \<le> Density\<close> by (simp add: documented_flash_def)
  ultimately show ?thesis
    using st pl by (cases ?r) (simp add: seq_store_def)
qed

section \<open>A first record that is not valid\<close>

text \<open>A block whose first header says active, but whose first record does not check.\<close>

definition corrupt_block ::
  "'w SEQ_RECORD_PROTOCOL \<Rightarrow> nat \<Rightarrow> nat \<Rightarrow> ('w \<Rightarrow> memory) \<Rightarrow> (nat \<Rightarrow> bool) \<Rightarrow> nat \<Rightarrow> nat \<Rightarrow> 'w \<Rightarrow> bool" where
  "corrupt_block This BlockSize Density view Alloc S k w \<longleftrightarrow>
     S < MAX_SOCKETS \<and> k \<in> partition_blocks (PartitionInfo This)
   \<and> (case NorFlashProtocol This S of None \<Rightarrow> False
       | Some N \<Rightarrow> platform (PartitionInfo This) N BlockSize Density view Alloc
           \<and> IsValidRecord N Alloc w (k * SEQ_BLOCK_SIZE) (Some 0) = Some (False, Some 0))
   \<and> active (view w) k \<and> (\<forall>j \<in> partition_blocks (PartitionInfo This). j \<noteq> k \<longrightarrow> \<not> active (view w) j)"

lemma corrupt_blockE:
  assumes "corrupt_block This BlockSize Density view Alloc S k w"
  obtains N where "SocketFlash This S = Inr N"
    "platform (PartitionInfo This) N BlockSize Density view Alloc"
    "k \<in> partition_blocks (PartitionInfo This)"
    "GetActiveBlock (PartitionInfo This) N w = Some (EFI_SUCCESS, Some k)"
    "GetReadLastOffset N Alloc w k = Some (EFI_SUCCESS, k * SEQ_BLOCK_SIZE, 0)"
proof -
  let ?P = "PartitionInfo This"
  from assms obtain N where N: "SocketFlash This S = Inr N"
    and pl: "platform ?P N BlockSize Density view Alloc" and k: "k \<in> partition_blocks ?P"
    and inv: "IsValidRecord N Alloc w (k * SEQ_BLOCK_SIZE) (Some 0) = Some (False, Some 0)"
    and act: "active (view w) k"
    and others: "\<And>j. j \<in> partition_blocks ?P \<Longrightarrow> j \<noteq> k \<Longrightarrow> \<not> active (view w) j"
    by (auto simp: corrupt_block_def SocketFlash_def split: option.splits)
  obtain start count where *: "partition_blocks ?P = {start ..< start + count}"
    "GetPartitionStartBlock ?P = start" "GetPartitionNumBlocks ?P = count"
    using platform_partition(1,4) [OF pl] by (rule block_numbers) blast
  have "find (active (view w)) [start ..< start + count] = Some k"
    by (rule find_eq_Some) (use k act others *(1) in auto)
  moreover have "GetActiveBlock ?P N w = (case find (active (view w)) [start ..< start + count] of
      None \<Rightarrow> Some (EFI_NOT_FOUND, None) | Some k \<Rightarrow> Some (EFI_SUCCESS, Some k))"
    unfolding GetActiveBlock_def *(2,3) by (rule GetActiveBlockLoop_found [OF pl]) (simp add: *(1))
  ultimately have "GetActiveBlock ?P N w = Some (EFI_SUCCESS, Some k)" by simp
  moreover have "GetReadLastOffset N Alloc w k = Some (EFI_SUCCESS, k * SEQ_BLOCK_SIZE, 0)"
    using block_offsets [OF k platform_partition(4) [OF pl]]
    by (simp add: GetReadLastOffset_def) (subst ReadLastLoop.simps, simp add: inv)
  ultimately show thesis using that [OF N pl k] by blast
qed

lemma ReadLastRecord_corrupt:
  assumes "corrupt_block This BlockSize Density view Alloc S k w" and n: "8 \<le> n" "n < 2 ^ 64 - 8"
  shows "ReadLastRecord This Alloc S Buf n w = Some (EFI_BUFFER_TOO_SMALL, Buf)"
  using assms(1)
proof (rule corrupt_blockE)
  fix N
  assume "SocketFlash This S = Inr N" "GetActiveBlock (PartitionInfo This) N w = Some (EFI_SUCCESS, Some k)"
    "GetReadLastOffset N Alloc w k = Some (EFI_SUCCESS, k * SEQ_BLOCK_SIZE, 0)"
  then show ?thesis using n by (simp add: ReadLastRecord_def SIZE_OF_DATA_HDR_def sub64_def)
qed

lemma WriteNextRecord_corrupt:
  assumes cb: "corrupt_block This BlockSize Density view Alloc S k w" and d: "length d + 8 \<le> SEQ_BLOCK_SIZE"
  shows "\<exists>w'. WriteNextRecord This BlockSize Alloc S d (length d) w = Some (EFI_SUCCESS, w')
    \<and> seq_store This BlockSize Density view Alloc S (Some (k, [d])) w'"
proof -
  let ?P = "PartitionInfo This"
  obtain N where N: "SocketFlash This S = Inr N" and pl: "platform ?P N BlockSize Density view Alloc"
    and k: "k \<in> partition_blocks ?P"
    and found: "GetActiveBlock ?P N w = Some (EFI_SUCCESS, Some k)"
      "GetReadLastOffset N Alloc w k = Some (EFI_SUCCESS, k * SEQ_BLOCK_SIZE, 0)"
    using cb by (rule corrupt_blockE)
  obtain w' where w': "NorWrite N (k * SEQ_BLOCK_SIZE) (length d + 8) (record_bytes d)
      (snd (EraseNewBlock N BlockSize k w)) = (EFI_SUCCESS, w')"
    "block_holds (view w') k [d]" "changed_in k (view w) (view w')"
    using pl k d by (rule EraseNewBlock_then_write)
  have size: "u32 (length d + 8) = length d + 8" "length d + 8 < 2 ^ 32"
    using d by (simp_all add: SEQ_BLOCK_SIZE_def)
  note off = block_offsets(1) [OF k platform_partition(4) [OF pl]]
  have "GetWriteNextOffset ?P N Alloc w = Some (EFI_SUCCESS, k * SEQ_BLOCK_SIZE)"
    using found off by (simp add: GetWriteNextOffset_def)
  then have "WriteNextRecord This BlockSize Alloc S d (length d) w = Some (EFI_SUCCESS, w')"
    using found
    by (simp add: WriteNextRecord_def N SIZE_OF_DATA_HDR_def size Let_def off
        ChooseWriteBlock_first [OF pl k d] platform_partition(6) [OF pl]
        BuildRecord_record_bytes [OF size(2)] w'(1))
  moreover have "seq_store This BlockSize Density view Alloc S (Some (k, [d])) w'"
    using cb w'(2,3) k
    by (auto simp: corrupt_block_def seq_store_def changed_in_active split: option.splits)
  ultimately show ?thesis by blast
qed

section \<open>A log as an interface\<close>

text \<open>
  What a client relies on: a write takes the represented state one step further, and a read delivers
  the last entry of the state.
\<close>

primrec write_seq ::
  "('d \<Rightarrow> 'w \<Rightarrow> (EFI_STATUS \<times> 'w) option) \<Rightarrow> 'd list \<Rightarrow> 'w \<Rightarrow> (EFI_STATUS \<times> 'w) option" where
  "write_seq wr [] w = Some (EFI_SUCCESS, w)"
| "write_seq wr (d # ds) w = do {
     (Status, w) \<leftarrow> wr d w;
     if EFI_ERROR Status then Some (Status, w) else write_seq wr ds w }"

locale record_log =
  fixes represents :: "'s \<Rightarrow> 'w \<Rightarrow> bool"
    and append_entry :: "'s \<Rightarrow> 'd \<Rightarrow> 's"
    and last_entry :: "'s \<Rightarrow> 'd option"
    and fits :: "'d \<Rightarrow> bool"
    and write_entry :: "'d \<Rightarrow> 'w \<Rightarrow> (EFI_STATUS \<times> 'w) option"
    and read_entry :: "'d \<Rightarrow> 'w \<Rightarrow> (EFI_STATUS \<times> 'd) option"
  assumes write_represents:
      "represents s w \<Longrightarrow> fits d
       \<Longrightarrow> \<exists>w'. write_entry d w = Some (EFI_SUCCESS, w') \<and> represents (append_entry s d) w'"
    and last_append: "last_entry (append_entry s d) = Some d"
    and read_last:
      "represents s w \<Longrightarrow> last_entry s = Some d \<Longrightarrow> fits d \<Longrightarrow> read_entry d w = Some (EFI_SUCCESS, d)"
begin

lemma write_seq_represents:
  "represents s w \<Longrightarrow> list_all fits ds
   \<Longrightarrow> \<exists>w'. write_seq write_entry ds w = Some (EFI_SUCCESS, w') \<and> represents (foldl append_entry s ds) w'"
proof (induction ds arbitrary: s w)
  case Nil
  then show ?case by simp
next
  case (Cons d ds)
  from Cons.prems obtain w1 where w1: "write_entry d w = Some (EFI_SUCCESS, w1)"
    "represents (append_entry s d) w1"
    using write_represents [of s w d] by auto
  from Cons.IH [OF w1(2)] Cons.prems show ?case by (simp add: w1(1))
qed

lemma read_after_writes:
  assumes "represents s w" and "list_all fits (ds @ [d])"
  shows "\<exists>w'. write_seq write_entry (ds @ [d]) w = Some (EFI_SUCCESS, w')
    \<and> represents (foldl append_entry s (ds @ [d])) w' \<and> read_entry d w' = Some (EFI_SUCCESS, d)"
proof -
  obtain w' where w': "write_seq write_entry (ds @ [d]) w = Some (EFI_SUCCESS, w')"
    "represents (foldl append_entry s (ds @ [d])) w'"
    using write_seq_represents [OF assms] by blast
  moreover have "last_entry (foldl append_entry s (ds @ [d])) = Some d" by (simp add: last_append)
  ultimately show ?thesis using read_last [OF w'(2)] assms(2) by auto
qed

end

fun newest :: "store \<Rightarrow> byte list option" where
  "newest None = None"
| "newest (Some (k, rs)) = (if rs = [] then None else Some (last rs))"

definition readable :: "byte list \<Rightarrow> bool" where
  "readable d \<longleftrightarrow> 8 \<le> length d \<and> length d + 8 \<le> SEQ_BLOCK_SIZE"

lemma newest_spec_write: "newest (spec_write P s d) = Some d"
  by (cases s) auto

lemma ReadLastRecord_newest:
  assumes "seq_store This BlockSize Density view Alloc S s w" and "newest s = Some d" and "8 \<le> length d"
  shows "ReadLastRecord This Alloc S Buf (length d) w = Some (EFI_SUCCESS, d)"
proof -
  from assms(2) obtain k rs where s: "s = Some (k, rs @ [d])"
    by (cases s rule: newest.cases) (auto split: if_splits, metis append_butlast_last_id)
  show ?thesis by (rule ReadLastRecord_last [OF assms(1) [unfolded s] assms(3)])
qed

interpretation seq_log: record_log
  "seq_store This BlockSize Density view Alloc S" "spec_write (PartitionInfo This)" newest readable
  "\<lambda>d. WriteNextRecord This BlockSize Alloc S d (length d)"
  "\<lambda>d. ReadLastRecord This Alloc S Buf (length d)"
  for This :: "'w SEQ_RECORD_PROTOCOL" and BlockSize Density and view :: "'w \<Rightarrow> memory" and Alloc S Buf
  by unfold_locales
    (auto simp: readable_def newest_spec_write intro!: WriteNextRecord_appends ReadLastRecord_newest)

section \<open>A header that cannot be read\<close>

text \<open>
  \<open>IsValidRecord\<close> takes a header it cannot read for a valid record and leaves the size as it was,
  so the loop does not move on from the first one.
\<close>

lemma ReadLastLoop_stuck:
  fixes N :: "'w NOR_FLASH_PROTOCOL"
  assumes "NorRead N off SIZE_OF_DATA_HDR w = (Status, h)" "EFI_ERROR Status"
    and "off < End" "End < 2 ^ 32"
  shows "ReadLastLoop N Alloc w End off (Some 0) po ps = None"
proof -
  have v: "IsValidRecord N Alloc w off s = Some (True, s)" for s
    using assms(1,2) by (simp add: IsValidRecord_def)
  have "\<not> (N' = N \<and> Alloc' = Alloc \<and> w' = w \<and> End' = End \<and> o' = off \<and> s = Some 0)"
    if "ReadLastLoop N' Alloc' w' End' o' s po ps = Some r" for N' Alloc' w' End' o' s po ps r
    using that
  proof (induction N' Alloc' w' End' o' s po ps r rule: ReadLastLoop.raw_induct [rotated, consumes 1, case_names step])
    case (step F N' Alloc' w' End' o' s po ps r)
    show ?case
      using step(1) [of N Alloc w End off "Some 0" off 0 r] step(2) assms(3,4)
      by (auto simp: v split: if_splits)
  qed
  then show ?thesis by (metis not_None_eq)
qed

section \<open>A record larger than a block\<close>

lemma program_nth: "i < length xs \<Longrightarrow> program f off xs (off + i) = f (off + i) AND xs ! i"
  by (simp add: program_def)

lemma WriteNextRecord_oversized:
  assumes st: "seq_store This BlockSize Density view Alloc S None w"
    and k': "k' = GetNextWriteBlock (PartitionInfo This) (GetPartitionStartBlock (PartitionInfo This))"
    and d: "SEQ_BLOCK_SIZE < length d + 8" "k' * SEQ_BLOCK_SIZE + (length d + 8) \<le> Density"
  shows "\<exists>w'. WriteNextRecord This BlockSize Alloc S d (length d) w = Some (EFI_SUCCESS, w')
    \<and> (\<forall>i. SEQ_BLOCK_SIZE \<le> i \<and> i < length d + 8 \<longrightarrow>
         view w' (k' * SEQ_BLOCK_SIZE + i) = view w (k' * SEQ_BLOCK_SIZE + i) AND record_bytes d ! i)"
proof -
  let ?P = "PartitionInfo This"
  obtain N where N: "SocketFlash This S = Inr N" and pl: "platform ?P N BlockSize Density view Alloc"
    and rs: "record_store ?P (view w) None" using st by (rule seq_storeE)
  obtain start count where *: "2 \<le> count" "partition_blocks ?P = {start ..< start + count}"
    "GetPartitionStartBlock ?P = start" "GetPartitionLastBlock ?P = start + count - 1"
    using platform_partition(1,4) [OF pl] by (rule block_numbers) blast
  then have k: "start \<in> partition_blocks ?P" by simp
  note next_k = next_block [OF platform_partition(1,4) [OF pl] k]
  have next_eq: "k' = u32 (start + 1)" using * k' by (simp add: GetNextWriteBlock_def)
  have k'_in: "k' \<in> partition_blocks ?P" "k' \<noteq> start" using next_k by (simp_all add: k' *(3))
  note off = block_offsets [OF k platform_partition(4) [OF pl]]
    and off' = block_offsets [OF k'_in(1) platform_partition(4) [OF pl]]
  have suc: "k' = start + 1" using k'_in *(1,2) next_eq off(2) by (auto simp: u32_def SEQ_BLOCK_SIZE_def)
  have dens: "Density < 2 ^ 32" by (rule platform_partition(3) [OF pl])
  have size: "u32 (length d + 8) = length d + 8" "length d + 8 < 2 ^ 32"
    using d(2) dens by simp_all
  have "u32 (start * SEQ_BLOCK_SIZE + (length d + 8)) = start * SEQ_BLOCK_SIZE + (length d + 8)"
    using d(2) dens by (intro u32_less) (simp add: suc SEQ_BLOCK_SIZE_def)
  moreover have "u32 ((start + 1) * SEQ_BLOCK_SIZE) = start * SEQ_BLOCK_SIZE + SEQ_BLOCK_SIZE"
    using off(2) by (simp add: add.commute)
  ultimately have choose: "ChooseWriteBlock ?P N Alloc w start (start * SEQ_BLOCK_SIZE) (length d + 8)
      = (k', k' * SEQ_BLOCK_SIZE)"
    using d(1) off'(1) k' by (simp add: ChooseWriteBlock_def Let_def *(3))
  let ?w = "snd (EraseNewBlock N BlockSize k' w)"
  have "k' * SEQ_BLOCK_SIZE + length (record_bytes d) \<le> Density" using d(2) by simp
  from flash_write [OF platform_partition(5) [OF pl] this, of ?w]
  obtain w' where w': "NorWrite N (k' * SEQ_BLOCK_SIZE) (length d + 8) (record_bytes d) ?w = (EFI_SUCCESS, w')"
    "view w' = program (view ?w) (k' * SEQ_BLOCK_SIZE) (record_bytes d)" by auto
  have run: "WriteNextRecord This BlockSize Alloc S d (length d) w
      = Some (EFI_SUCCESS, snd (RetireBlock N start w'))"
    using GetWriteNextOffset_store [OF pl rs] GetActiveBlock_store [OF pl rs] k'_in(2)
    by (simp add: WriteNextRecord_def N SIZE_OF_DATA_HDR_def size *(3) Let_def choose off(1) off'(1)
        platform_partition(6) [OF pl] BuildRecord_record_bytes [OF size(2)] w'(1))
  have "view (snd (RetireBlock N start w')) (k' * SEQ_BLOCK_SIZE + i)
      = view w (k' * SEQ_BLOCK_SIZE + i) AND record_bytes d ! i"
    if "SEQ_BLOCK_SIZE \<le> i" "i < length d + 8" for i
  proof -
    have "view (snd (RetireBlock N start w')) (k' * SEQ_BLOCK_SIZE + i) = view w' (k' * SEQ_BLOCK_SIZE + i)"
      using RetireBlock_changes [OF pl k, of w'] by (simp add: changed_in_def suc)
    also have "\<dots> = view ?w (k' * SEQ_BLOCK_SIZE + i) AND record_bytes d ! i"
      using that by (simp add: w'(2) program_nth)
    also have "view ?w (k' * SEQ_BLOCK_SIZE + i) = view w (k' * SEQ_BLOCK_SIZE + i)"
      using that by (simp add: EraseNewBlock_erases [OF pl k'_in(1)] erased_def)
    finally show ?thesis .
  qed
  with run show ?thesis by blast
qed

section \<open>The order of the blocks\<close>

lemma next_block_mod:
  assumes "ValidatePartitionInfo P = EFI_SUCCESS" and "partition_end P < 2 ^ 32"
    and "r < GetPartitionNumBlocks P"
  shows "GetNextWriteBlock P (GetPartitionStartBlock P + r)
    = GetPartitionStartBlock P + (r + 1) mod GetPartitionNumBlocks P"
proof -
  obtain start count where *: "2 \<le> count" "partition_blocks P = {start ..< start + count}"
    "GetPartitionStartBlock P = start" "GetPartitionNumBlocks P = count"
    "GetPartitionLastBlock P = start + count - 1"
    using assms(1,2) by (rule block_numbers)
  show ?thesis
  proof (cases "r + 1 = count")
    case True
    then show ?thesis by (auto simp: GetNextWriteBlock_def *)
  next
    case False
    then have "start + r \<in> partition_blocks P" and "r + 1 < count" using assms(3) * by auto
    then have "u32 (start + r + 1) = start + r + 1"
      using assms(2) by (auto simp: partition_blocks_def SEQ_BLOCK_SIZE_def)
    moreover have "start + r \<noteq> start + count - 1" using \<open>r + 1 < count\<close> by linarith
    ultimately show ?thesis using \<open>r + 1 < count\<close> by (simp add: GetNextWriteBlock_def *)
  qed
qed

lemma next_block_power:
  assumes "ValidatePartitionInfo P = EFI_SUCCESS" and "partition_end P < 2 ^ 32"
    and "r < GetPartitionNumBlocks P"
  shows "(GetNextWriteBlock P ^^ i) (GetPartitionStartBlock P + r)
    = GetPartitionStartBlock P + (r + i) mod GetPartitionNumBlocks P"
proof (induction i)
  case 0
  with assms(3) show ?case by simp
next
  case (Suc i)
  have "(r + i) mod GetPartitionNumBlocks P < GetPartitionNumBlocks P" using assms(3) by simp
  from next_block_mod [OF assms(1,2) this] show ?case by (simp add: Suc mod_simps)
qed

lemma add_mod_inj:
  assumes "(r + i) mod n = (r + j) mod n" "i < n" "j < (n :: nat)"
  shows "i = j"
proof -
  have "n dvd (r + i) - (r + j)" "n dvd (r + j) - (r + i)"
    using assms(1) by (metis mod_eq_dvd_iff_nat nat_le_linear diff_is_0_eq dvd_0_right)+
  then have "n dvd i - j" "n dvd j - i" by simp_all
  with assms(2,3) show ?thesis by (metis diff_is_0_eq dvd_imp_le le_antisym less_imp_diff_less not_gr0 not_less zero_less_diff)
qed

section \<open>The installed protocols\<close>

text \<open>Every protocol the driver installs has a partition that can be used, whatever was found.\<close>

lemma StorageInitLoop_valid:
  "list_all (\<lambda>This. ValidatePartitionInfo (PartitionInfo This) = EFI_SUCCESS) installed
   \<Longrightarrow> list_all (\<lambda>This. ValidatePartitionInfo (PartitionInfo This) = EFI_SUCCESS)
        (StorageInitLoop GetPartitionData Install Flash ps installed)"
  by (induction ps arbitrary: installed)
    (auto simp: Let_def split: prod.splits)

lemma installed_protocols_valid:
  "list_all (\<lambda>This. ValidatePartitionInfo (PartitionInfo This) = EFI_SUCCESS)
    (fst (snd (SequentialStorageInit Sockets Attributes Data Install)))"
  by (simp add: SequentialStorageInit_def Let_def StorageInitLoop_valid split: option.split prod.split)

section \<open>An example\<close>

definition exampleStore :: "memory SEQ_RECORD_PROTOCOL" where
  "exampleStore = \<lparr> PartitionInfo = \<lparr> PartitionByteOffset = 65536, PartitionSize = 131072, PartitionIndex = 0 \<rparr>,
     NorFlashProtocol = (\<lambda>S. if S = 0 then Some (memory_flash 4096) else None) \<rparr>"

abbreviation erased_flash :: memory where "erased_flash \<equiv> \<lambda>_. ERASE_BYTE"

lemma example_platform:
  "platform (PartitionInfo exampleStore) (memory_flash 4096) 4096 1048576 (\<lambda>f. f) (\<lambda>_. True)"
  by (simp add: exampleStore_def platform_def memory_flash_documented SEQ_BLOCK_SIZE_def
      ValidatePartitionInfo_def MIN_PARTITION_BLOCKS_def)

lemma example_empty: "seq_store exampleStore 4096 1048576 (\<lambda>f. f) (\<lambda>_. True) 0 None erased_flash"
  using example_platform
  by (simp add: seq_store_def MAX_SOCKETS_def active_def ERASE_BYTE_def ACTIVE_PAGE_MAGIC_def)
    (simp add: exampleStore_def)

lemma example_start: "GetPartitionStartBlock (PartitionInfo exampleStore) = 1"
  by (simp add: exampleStore_def GetPartitionStartBlock_def SEQ_BLOCK_SIZE_def)

definition exampleRecord :: "byte list" where "exampleRecord = [1, 2, 3, 4, 5, 6, 7, 8]"

lemma example_written:
  obtains w where "seq_store exampleStore 4096 1048576 (\<lambda>f. f) (\<lambda>_. True) 0
    (Some (1, [exampleRecord])) w"
  using WriteNextRecord_appends [OF example_empty, of exampleRecord]
  by (auto simp: exampleRecord_def SEQ_BLOCK_SIZE_def example_start)

section \<open>The properties\<close>

text \<open>
  C26: Writing implements the abstract append. In every state of the store, a record that fits into a
  block is written with success, and the flash afterwards represents the state in which the record
  follows the ones of the active block or, where it no longer fits, is the only one of the next
  block; no other block of the partition is active then, the old one is retired.
\<close>

theorem WriteNextRecord_refines:
  assumes "seq_store This BlockSize Density view Alloc S s w" and "length d + 8 \<le> SEQ_BLOCK_SIZE"
  shows "\<exists>w'. WriteNextRecord This BlockSize Alloc S d (length d) w = Some (EFI_SUCCESS, w')
    \<and> seq_store This BlockSize Density view Alloc S (spec_write (PartitionInfo This) s d) w'"
  by (rule WriteNextRecord_appends [OF assms])

theorem WriteNextRecord_refines_witness:
  "\<exists>w'. WriteNextRecord exampleStore 4096 (\<lambda>_. True) 0 exampleRecord (length exampleRecord) erased_flash
      = Some (EFI_SUCCESS, w')
    \<and> seq_store exampleStore 4096 1048576 (\<lambda>f. f) (\<lambda>_. True) 0 (Some (1, [exampleRecord])) w'"
  using WriteNextRecord_refines [OF example_empty, of exampleRecord]
  by (simp add: exampleRecord_def SEQ_BLOCK_SIZE_def example_start)

text \<open>
  C27: What was written last is read back. From any state of the store, a sequence of records of 8
  bytes or more that fit into a block is written with success, the state is then the one after all
  the appends, and a read of the last record delivers the payload that was written last.
\<close>

theorem last_record_read_back:
  assumes "seq_store This BlockSize Density view Alloc S s w" and "list_all readable (ds @ [d])"
  shows "\<exists>w'. write_seq (\<lambda>d. WriteNextRecord This BlockSize Alloc S d (length d)) (ds @ [d]) w
      = Some (EFI_SUCCESS, w')
    \<and> seq_store This BlockSize Density view Alloc S
        (foldl (spec_write (PartitionInfo This)) s (ds @ [d])) w'
    \<and> ReadLastRecord This Alloc S Buf (length d) w' = Some (EFI_SUCCESS, d)"
  by (rule seq_log.read_after_writes [OF assms])

theorem last_record_read_back_witness:
  "\<exists>w'. write_seq (\<lambda>d. WriteNextRecord exampleStore 4096 (\<lambda>_. True) 0 d (length d))
      ([replicate 9 0] @ [exampleRecord]) erased_flash = Some (EFI_SUCCESS, w')
    \<and> ReadLastRecord exampleStore (\<lambda>_. True) 0 [] (length exampleRecord) w'
      = Some (EFI_SUCCESS, exampleRecord)"
  using last_record_read_back [OF example_empty, of "[replicate 9 0]" exampleRecord "[]"]
  by (auto simp: readable_def exampleRecord_def SEQ_BLOCK_SIZE_def simp del: write_seq.simps)

text \<open>
  The records of the active block can be read from the end: the \<open>n\<close>th last one is delivered to a
  buffer of its length, and for an \<open>n\<close> beyond the records of that block the status is
  EFI_NOT_FOUND and the buffer is left as it was.
\<close>

theorem nth_record_from_end:
  assumes "seq_store This BlockSize Density view Alloc S (Some (k, rs)) w"
    and "n \<noteq> 0" and "8 \<le> BufSize" and "n \<le> length rs \<longrightarrow> BufSize = length (rs ! (length rs - n))"
  shows "ReadNthRecordFromEnd This Alloc S n Buf BufSize w
    = Some (if n \<le> length rs then (EFI_SUCCESS, rs ! (length rs - n)) else (EFI_NOT_FOUND, Buf))"
  using ReadNthRecordFromEnd_nth [OF assms(1,2) _ refl, of Buf]
    ReadNthRecordFromEnd_too_far [OF assms(1) _ assms(3), of n Buf] assms(3,4)
  by (cases "n \<le> length rs") simp_all

theorem nth_record_from_end_witness:
  "\<exists>w. ReadNthRecordFromEnd exampleStore (\<lambda>_. True) 0 1 [] 8 w = Some (EFI_SUCCESS, exampleRecord)
     \<and> ReadNthRecordFromEnd exampleStore (\<lambda>_. True) 0 2 [] 8 w = Some (EFI_NOT_FOUND, [])"
proof -
  obtain w where w: "seq_store exampleStore 4096 1048576 (\<lambda>f. f) (\<lambda>_. True) 0
    (Some (1, [exampleRecord])) w" by (rule example_written)
  show ?thesis
    using nth_record_from_end [OF w, of 1 8 "[]"] nth_record_from_end [OF w, of 2 8 "[]"]
    by (auto simp: exampleRecord_def)
qed

text \<open>
  The blocks of a partition take turns, which levels their wear: from any block of a valid
  partition, as many switches as the partition has blocks reach every block exactly once and then
  come back to the first one.
\<close>

theorem blocks_take_turns:
  assumes "ValidatePartitionInfo P = EFI_SUCCESS" and "PartitionByteOffset P + PartitionSize P < 2 ^ 32"
    and "k \<in> partition_blocks P"
  shows "bij_betw (\<lambda>i. (GetNextWriteBlock P ^^ i) k) {..< GetPartitionNumBlocks P} (partition_blocks P)
    \<and> (GetNextWriteBlock P ^^ GetPartitionNumBlocks P) k = k"
proof -
  have lim: "partition_end P < 2 ^ 32" using assms(2) by (simp add: partition_end_def)
  let ?s = "GetPartitionStartBlock P" and ?n = "GetPartitionNumBlocks P"
  have blocks: "partition_blocks P = {?s ..< ?s + ?n}" and "2 \<le> ?n"
    using assms(1) lim by (rule block_numbers, simp)+
  with assms(3) have k: "k = ?s + (k - ?s)" and r: "k - ?s < ?n" by auto
  have step: "(GetNextWriteBlock P ^^ i) k = ?s + (k - ?s + i) mod ?n" for i
    by (subst k) (rule next_block_power [OF assms(1) lim r])
  have "inj_on (\<lambda>i. (GetNextWriteBlock P ^^ i) k) {..< ?n}"
    by (auto intro!: inj_onI simp: step dest: add_mod_inj)
  moreover have "(\<lambda>i. (GetNextWriteBlock P ^^ i) k) ` {..< ?n} \<subseteq> partition_blocks P"
    using \<open>2 \<le> ?n\<close> by (auto simp: step blocks)
  ultimately have "bij_betw (\<lambda>i. (GetNextWriteBlock P ^^ i) k) {..< ?n} (partition_blocks P)"
    by (simp add: bij_betw_def card_image card_subset_eq blocks)
  moreover have "(k - ?s + ?n) mod ?n = k - ?s" using r by (simp only: mod_add_self2) simp
  then have "(GetNextWriteBlock P ^^ ?n) k = k" unfolding step using k by simp
  ultimately show ?thesis ..
qed

theorem blocks_take_turns_witness:
  "(GetNextWriteBlock (PartitionInfo exampleStore)
     ^^ GetPartitionNumBlocks (PartitionInfo exampleStore)) 2 = 2"
  using blocks_take_turns [of "PartitionInfo exampleStore" 2] platform_partition(1) [OF example_platform]
  by (simp add: exampleStore_def partition_blocks_def partition_end_def SEQ_BLOCK_SIZE_def)

text \<open>
  C28: A damaged first record does not stop the store. When the active block starts with a header that
  says active but the record does not check, a read of the last record reports
  EFI_BUFFER_TOO_SMALL and leaves the buffer as it was; the next record that fits is written with
  success, to the beginning of the same block after it was erased.
\<close>

theorem damaged_block_recovers:
  assumes "corrupt_block This BlockSize Density view Alloc S k w"
    and "8 \<le> n" "n < 2 ^ 64 - 8" and "length d + 8 \<le> SEQ_BLOCK_SIZE"
  shows "ReadLastRecord This Alloc S Buf n w = Some (EFI_BUFFER_TOO_SMALL, Buf)
    \<and> (\<exists>w'. WriteNextRecord This BlockSize Alloc S d (length d) w = Some (EFI_SUCCESS, w')
         \<and> seq_store This BlockSize Density view Alloc S (Some (k, [d])) w')"
  using ReadLastRecord_corrupt [OF assms(1-3)] WriteNextRecord_corrupt [OF assms(1,4)] by blast

definition damagedFlash :: memory where
  "damagedFlash = erased_flash(65536 := ACTIVE_PAGE_MAGIC, 65540 := 8, 65541 := 0, 65542 := 0, 65543 := 0)"

lemma example_damaged:
  "corrupt_block exampleStore 4096 1048576 (\<lambda>f. f) (\<lambda>_. True) 0 1 damagedFlash"
proof -
  have hdr: "content damagedFlash 65536 8 = [ACTIVE_PAGE_MAGIC, ERASE_BYTE, ERASE_BYTE, ERASE_BYTE, 8, 0, 0, 0]"
    by (simp add: content_def upt_rec damagedFlash_def)
  have "NorRead (memory_flash 4096) 65536 8 damagedFlash
      = (EFI_SUCCESS, [ACTIVE_PAGE_MAGIC, ERASE_BYTE, ERASE_BYTE, ERASE_BYTE, 8, 0, 0, 0])"
    by (simp add: memory_flash_def hdr)
  moreover have "CalculateCrc8 [8, 0, 0, 0] (sub64 8 4) 0 TYPE_CRC8_MAXIM \<noteq> Some ERASE_BYTE"
    by code_simp
  then obtain c where "CalculateCrc8 [8, 0, 0, 0] (sub64 8 4) 0 TYPE_CRC8_MAXIM = Some c" "c \<noteq> ERASE_BYTE"
    using Crc8Loop_total [of "[0..<4]" "[8, 0, 0, 0]" CRC8MaximTable 0]
    by (auto simp: CalculateCrc8_def TYPE_CRC8_def TYPE_CRC8_MAXIM_def sub64_def)
  ultimately have "IsValidRecord (memory_flash 4096) (\<lambda>_. True) damagedFlash (1 * SEQ_BLOCK_SIZE) (Some 0)
      = Some (False, Some 0)"
    by (simp add: IsValidRecord_def SEQ_BLOCK_SIZE_def SIZE_OF_DATA_HDR_def load8_def load32_def load16_def)
  moreover have "NorFlashProtocol exampleStore 0 = Some (memory_flash 4096)"
    and "1 \<in> partition_blocks (PartitionInfo exampleStore)"
    by (simp_all add: exampleStore_def partition_blocks_def partition_end_def SEQ_BLOCK_SIZE_def)
  moreover have "active damagedFlash 1" "\<And>j. j \<noteq> 1 \<Longrightarrow> \<not> active damagedFlash j"
    by (auto simp: active_def damagedFlash_def SEQ_BLOCK_SIZE_def ERASE_BYTE_def ACTIVE_PAGE_MAGIC_def)
  ultimately show ?thesis
    using example_platform by (simp add: corrupt_block_def MAX_SOCKETS_def)
qed

theorem damaged_block_recovers_witness:
  "ReadLastRecord exampleStore (\<lambda>_. True) 0 [7] 16 damagedFlash = Some (EFI_BUFFER_TOO_SMALL, [7])
   \<and> (\<exists>w'. WriteNextRecord exampleStore 4096 (\<lambda>_. True) 0 exampleRecord (length exampleRecord) damagedFlash
         = Some (EFI_SUCCESS, w'))"
  using damaged_block_recovers [OF example_damaged, of 16 exampleRecord "[7]"]
  by (auto simp: exampleRecord_def SEQ_BLOCK_SIZE_def)

text \<open>
  C30: A read error is fatal for the search of the last record: when the flash driver cannot read the
  first header of a block below 4 GB, GetReadLastOffset does not return, since a header that cannot
  be read counts as a valid record of size zero.
\<close>

theorem unreadable_header_never_returns:
  assumes "NorRead N (k * SEQ_BLOCK_SIZE) SIZE_OF_DATA_HDR w = (Status, h)" and "EFI_ERROR Status"
    and "(k + 1) * SEQ_BLOCK_SIZE < 2 ^ 32"
  shows "GetReadLastOffset N Alloc w k = None"
proof -
  have "u32 (k * SEQ_BLOCK_SIZE) = k * SEQ_BLOCK_SIZE"
    "u32 (k * SEQ_BLOCK_SIZE + SEQ_BLOCK_SIZE) = k * SEQ_BLOCK_SIZE + SEQ_BLOCK_SIZE"
    using assms(3) by (simp_all add: algebra_simps)
  then show ?thesis
    using ReadLastLoop_stuck [OF assms(1,2), of "k * SEQ_BLOCK_SIZE + SEQ_BLOCK_SIZE"] assms(3)
    by (simp add: GetReadLastOffset_def algebra_simps)
qed

definition brokenFlash :: "memory NOR_FLASH_PROTOCOL" where
  "brokenFlash = (memory_flash 4096)\<lparr> NorRead := (\<lambda>off n f. (EFI_DEVICE_ERROR, [])) \<rparr>"

theorem unreadable_header_never_returns_witness:
  "GetReadLastOffset brokenFlash (\<lambda>_. True) erased_flash 1 = None"
  by (rule unreadable_header_never_returns [where Status = EFI_DEVICE_ERROR and h = "[]"])
    (simp_all add: brokenFlash_def SEQ_BLOCK_SIZE_def)

text \<open>
  C29: The size of a record is not checked against the block. Into an empty store a record that is
  larger than a block is written with success to the second block and beyond its end: every byte
  behind that block, up to the length of the record, is programmed with the record's, also where
  the partition has ended.
\<close>

theorem oversized_record_overruns:
  assumes "seq_store This BlockSize Density view Alloc S None w"
    and "k = GetNextWriteBlock (PartitionInfo This) (GetPartitionStartBlock (PartitionInfo This))"
    and "SEQ_BLOCK_SIZE < length d + 8" and "k * SEQ_BLOCK_SIZE + (length d + 8) \<le> Density"
  shows "\<exists>w'. WriteNextRecord This BlockSize Alloc S d (length d) w = Some (EFI_SUCCESS, w')
    \<and> (\<forall>i. SEQ_BLOCK_SIZE \<le> i \<and> i < length d + 8 \<longrightarrow>
         view w' (k * SEQ_BLOCK_SIZE + i) = view w (k * SEQ_BLOCK_SIZE + i) AND record_bytes d ! i)"
  by (rule WriteNextRecord_oversized [OF assms])

theorem oversized_record_overruns_witness:
  "\<exists>w'. WriteNextRecord exampleStore 4096 (\<lambda>_. True) 0 (replicate 65536 0) 65536 erased_flash
      = Some (EFI_SUCCESS, w') \<and> w' 196608 = 0"
proof -
  have two: "GetNextWriteBlock (PartitionInfo exampleStore) (GetPartitionStartBlock (PartitionInfo exampleStore)) = 2"
    by (simp add: exampleStore_def GetNextWriteBlock_def GetPartitionStartBlock_def GetPartitionLastBlock_def
        SEQ_BLOCK_SIZE_def u32_def)
  let ?d = "replicate 65536 (0 :: byte)"
  have "record_bytes ?d ! 65536 = 0"
    by (simp add: record_bytes_def nth_append nth_Cons')
  moreover have "\<exists>w'. WriteNextRecord exampleStore 4096 (\<lambda>_. True) 0 ?d (length ?d) erased_flash
      = Some (EFI_SUCCESS, w')
    \<and> (\<forall>i. SEQ_BLOCK_SIZE \<le> i \<and> i < length ?d + 8 \<longrightarrow>
         w' (2 * SEQ_BLOCK_SIZE + i) = erased_flash (2 * SEQ_BLOCK_SIZE + i) AND record_bytes ?d ! i)"
    by (rule oversized_record_overruns [OF example_empty])
      (simp_all only: two length_replicate, simp_all add: SEQ_BLOCK_SIZE_def)
  ultimately show ?thesis by (auto simp: SEQ_BLOCK_SIZE_def)
qed

end
