(* ===== verification/SeqRecordComm.thy ===== *)
theory SeqRecordComm
  imports CmetRecord SeqRecordTheorems
begin

text \<open>
  \<open>SequentialRecordComm.c\<close>: the message handlers of the management mode for RAS logs, CMET records,
  early boot variables and the satellite controller. A handler gets the payload that lies in the
  communication buffer and its size; the protocols found at the registration, the block size
  of the flash and the platform functions are parameters. A handler without a result does not return or reads
  past its buffer.
\<close>

section \<open>Messages\<close>

definition READ_LAST_RECORD :: nat where "READ_LAST_RECORD = 0"
definition WRITE_NEXT_RECORD :: nat where "WRITE_NEXT_RECORD = 1"
definition ERASE_PARTITION :: nat where "ERASE_PARTITION = 2"
definition CLEAR_EFI_NSVARS :: nat where "CLEAR_EFI_NSVARS = 3"
definition CLEAR_EFI_VARIABLES :: nat where "CLEAR_EFI_VARIABLES = 4"
definition READ_NTH_RECORD_FROM_END :: nat where "READ_NTH_RECORD_FROM_END = 5"
definition EARLY_VARS_RD_SOCKET :: nat where "EARLY_VARS_RD_SOCKET = 0"
definition PUBLISH_HEST :: "64 word" where "PUBLISH_HEST = 0x2"
definition PUBLISH_BMC :: "64 word" where "PUBLISH_BMC = 0x8"

lemmas record_functions = READ_LAST_RECORD_def WRITE_NEXT_RECORD_def ERASE_PARTITION_def
  CLEAR_EFI_NSVARS_def CLEAR_EFI_VARIABLES_def READ_NTH_RECORD_FROM_END_def EARLY_VARS_RD_SOCKET_def

record RAS_MM_COMMUNICATE_PAYLOAD =
  RasFunction :: nat
  RasReturnStatus :: EFI_STATUS
  RasSocket :: nat
  RasFlag :: "64 word"
  RasNthFromEnd :: nat
  RasData :: "byte list"

record SATMC_MM_COMMUNICATE_PAYLOAD =
  SatMcCommand :: nat
  SatMcReturnStatus :: EFI_STATUS

record MM_MB1_RECORD_PAYLOAD =
  Mb1Command :: nat
  Mb1Status :: EFI_STATUS
  Mb1Data :: "byte list"

definition SIZE_OF_RAS_PAYLOAD :: nat where "SIZE_OF_RAS_PAYLOAD = 40"
definition SIZE_OF_SATMC_PAYLOAD :: nat where "SIZE_OF_SATMC_PAYLOAD = 16"
definition SIZE_OF_MB1_PAYLOAD :: nat where "SIZE_OF_MB1_PAYLOAD = 2056"
definition EARLY_VARS_REC_SIZE :: nat where "EARLY_VARS_REC_SIZE = 2048 - 8"

text \<open>The log follows a header of 8 and the thermal zones of 52 bytes; the severity is at offset 16 of it.\<close>

definition OFFSET_ErrorSeverity :: nat where "OFFSET_ErrorSeverity = 8 + 52 + 16"
definition ERROR_SEVERITY_CORRECTED :: nat where "ERROR_SEVERITY_CORRECTED = 2"
definition ERROR_SEVERITY_NONE :: nat where "ERROR_SEVERITY_NONE = 3"

section \<open>The protocol of a partition\<close>

text \<open>The handles in the order in which they are found; a handle without the protocol is skipped.\<close>

primrec SeqProtoLoop :: "'w SEQ_RECORD_PROTOCOL option list \<Rightarrow> nat \<Rightarrow> 'w SEQ_RECORD_PROTOCOL option" where
  "SeqProtoLoop [] p = None"
| "SeqProtoLoop (h # hs) p =
     (case h of None \<Rightarrow> SeqProtoLoop hs p
      | Some SeqProto \<Rightarrow> if PartitionIndex (PartitionInfo SeqProto) = p then Some SeqProto
                        else SeqProtoLoop hs p)"

definition GetSeqProto ::
  "EFI_STATUS \<times> 'w SEQ_RECORD_PROTOCOL option list \<Rightarrow> nat \<Rightarrow> 'w SEQ_RECORD_PROTOCOL option" where
  "GetSeqProto Handles p =
     (case Handles of (Status, HandleBuffer) \<Rightarrow>
        if EFI_ERROR Status then None else SeqProtoLoop HandleBuffer p)"

section \<open>RAS logs\<close>

definition RasLogOverrideTargets :: "bool \<Rightarrow> byte list \<Rightarrow> 64 word \<Rightarrow> 64 word option" where
  "RasLogOverrideTargets PcdNoCorrectedErrorsInHest RasPayload Target =
     (if PcdNoCorrectedErrorsInHest then do {
        ErrorSeverity \<leftarrow> load32 RasPayload OFFSET_ErrorSeverity;
        if ErrorSeverity = ERROR_SEVERITY_CORRECTED \<or> ErrorSeverity = ERROR_SEVERITY_NONE
        then Some ((Target AND NOT PUBLISH_HEST) OR PUBLISH_BMC)
        else Some Target }
      else Some Target)"

text \<open>The buffer is unchanged where it is too small, otherwise the status is written to it.\<close>

definition RasLogMsgHandler ::
  "'w SEQ_RECORD_PROTOCOL option \<Rightarrow> nat \<Rightarrow> (nat \<Rightarrow> bool) \<Rightarrow> bool \<Rightarrow> bool
   \<Rightarrow> RAS_MM_COMMUNICATE_PAYLOAD option \<Rightarrow> nat option \<Rightarrow> 'w
   \<Rightarrow> (EFI_STATUS \<times> RAS_MM_COMMUNICATE_PAYLOAD option \<times> 'w) option" where
  "RasLogMsgHandler RasSeqProto BlockSize Alloc InMbox Pcd CommBuffer CommBufferSize w =
     (case (CommBuffer, CommBufferSize) of
        (Some RasHeader, Some n) \<Rightarrow>
          if n < SIZE_OF_RAS_PAYLOAD then Some (EFI_SUCCESS, CommBuffer, w)
          else (let RasPayloadSize = n - SIZE_OF_RAS_PAYLOAD in
            case RasSeqProto of
              None \<Rightarrow> Some (EFI_SUCCESS, Some (RasHeader\<lparr>RasReturnStatus := EFI_UNSUPPORTED\<rparr>), w)
            | Some Proto \<Rightarrow>
                if \<not> InMbox then
                  Some (EFI_SUCCESS, Some (RasHeader\<lparr>RasReturnStatus := EFI_INVALID_PARAMETER\<rparr>), w)
                else if RasFunction RasHeader = READ_LAST_RECORD then do {
                  (Status, Data) \<leftarrow> ReadLastRecord Proto Alloc (RasSocket RasHeader) (RasData RasHeader)
                    RasPayloadSize w;
                  Some (EFI_SUCCESS, Some (RasHeader\<lparr>RasData := Data, RasReturnStatus := Status\<rparr>), w) }
                else if RasFunction RasHeader = WRITE_NEXT_RECORD then do {
                  (Status, w) \<leftarrow> WriteNextRecord Proto BlockSize Alloc (RasSocket RasHeader)
                    (RasData RasHeader) RasPayloadSize w;
                  Flag \<leftarrow> RasLogOverrideTargets Pcd (RasData RasHeader) (RasFlag RasHeader);
                  Some (EFI_SUCCESS, Some (RasHeader\<lparr>RasFlag := Flag, RasReturnStatus := Status\<rparr>), w) }
                else if RasFunction RasHeader = READ_NTH_RECORD_FROM_END then do {
                  (Status, Data) \<leftarrow> ReadNthRecordFromEnd Proto Alloc (RasSocket RasHeader)
                    (u32 (RasNthFromEnd RasHeader)) (RasData RasHeader) RasPayloadSize w;
                  Some (EFI_SUCCESS, Some (RasHeader\<lparr>RasData := Data, RasReturnStatus := Status\<rparr>), w) }
                else Some (EFI_SUCCESS, Some (RasHeader\<lparr>RasReturnStatus := EFI_INVALID_PARAMETER\<rparr>), w))
      | _ \<Rightarrow> Some (EFI_SUCCESS, CommBuffer, w))"

section \<open>CMET records\<close>

definition CmetMsgHandler ::
  "'w CMET_RECORD_PROTOCOL option \<Rightarrow> nat \<Rightarrow> bool
   \<Rightarrow> RAS_MM_COMMUNICATE_PAYLOAD option \<Rightarrow> nat option \<Rightarrow> 'w
   \<Rightarrow> EFI_STATUS \<times> RAS_MM_COMMUNICATE_PAYLOAD option \<times> 'w" where
  "CmetMsgHandler CmetSeqProto BlockSize InMbox CommBuffer CommBufferSize w =
     (case (CommBuffer, CommBufferSize) of
        (Some CmetHeader, Some n) \<Rightarrow>
          if n < SIZE_OF_RAS_PAYLOAD then (EFI_SUCCESS, CommBuffer, w)
          else (let CmetPayloadSize = n - SIZE_OF_RAS_PAYLOAD in
            case CmetSeqProto of
              None \<Rightarrow> (EFI_SUCCESS, Some (CmetHeader\<lparr>RasReturnStatus := EFI_UNSUPPORTED\<rparr>), w)
            | Some Proto \<Rightarrow>
                if \<not> InMbox then
                  (EFI_SUCCESS, Some (CmetHeader\<lparr>RasReturnStatus := EFI_INVALID_PARAMETER\<rparr>), w)
                else if RasFunction CmetHeader = READ_LAST_RECORD then
                  (case CmetReadRecord Proto (RasSocket CmetHeader) (RasData CmetHeader) CmetPayloadSize
                     (unat (RasFlag CmetHeader)) w of (Status, Data) \<Rightarrow>
                   (EFI_SUCCESS, Some (CmetHeader\<lparr>RasData := Data, RasReturnStatus := Status\<rparr>), w))
                else if RasFunction CmetHeader = WRITE_NEXT_RECORD then
                  (case CmetWriteRecord Proto BlockSize (RasSocket CmetHeader) (RasData CmetHeader)
                     CmetPayloadSize (unat (RasFlag CmetHeader)) w of (Status, w) \<Rightarrow>
                   (EFI_SUCCESS, Some (CmetHeader\<lparr>RasReturnStatus := Status\<rparr>), w))
                else (EFI_SUCCESS, Some (CmetHeader\<lparr>RasReturnStatus := EFI_INVALID_PARAMETER\<rparr>), w))
      | _ \<Rightarrow> (EFI_SUCCESS, CommBuffer, w))"

section \<open>Early boot variables\<close>

text \<open>The status of a socket replaces that of the sockets before it.\<close>

primrec EraseSocketsLoop ::
  "'w SEQ_RECORD_PROTOCOL \<Rightarrow> nat \<Rightarrow> (nat \<Rightarrow> bool) \<Rightarrow> nat list \<Rightarrow> EFI_STATUS \<Rightarrow> 'w \<Rightarrow> EFI_STATUS \<times> 'w" where
  "EraseSocketsLoop Proto BlockSize Enabled [] Status w = (Status, w)"
| "EraseSocketsLoop Proto BlockSize Enabled (SocketIdx # rest) Status w =
     (if Enabled SocketIdx then
        (case ErasePartition Proto BlockSize SocketIdx w of (Status, w) \<Rightarrow>
           EraseSocketsLoop Proto BlockSize Enabled rest Status w)
      else EraseSocketsLoop Proto BlockSize Enabled rest Status w)"

definition EraseEarlyVarsPartition ::
  "'w SEQ_RECORD_PROTOCOL option \<Rightarrow> nat \<Rightarrow> EFI_STATUS \<Rightarrow> (nat \<Rightarrow> bool) \<Rightarrow> 'w \<Rightarrow> EFI_STATUS \<times> 'w" where
  "EraseEarlyVarsPartition EarlyVarsProto BlockSize CpuBlStatus Enabled w =
     (case EarlyVarsProto of None \<Rightarrow> (EFI_UNSUPPORTED, w)
      | Some Proto \<Rightarrow>
          if EFI_ERROR CpuBlStatus then (CpuBlStatus, w)
          else EraseSocketsLoop Proto BlockSize Enabled [0..<MAX_SOCKETS] CpuBlStatus w)"

text \<open>The first socket that fails ends the write.\<close>

primrec WriteSocketsLoop ::
  "'w SEQ_RECORD_PROTOCOL \<Rightarrow> nat \<Rightarrow> (nat \<Rightarrow> bool) \<Rightarrow> (nat \<Rightarrow> bool) \<Rightarrow> byte list \<Rightarrow> nat list
   \<Rightarrow> EFI_STATUS \<Rightarrow> 'w \<Rightarrow> (EFI_STATUS \<times> 'w) option" where
  "WriteSocketsLoop Proto BlockSize Alloc Enabled Record [] Status w = Some (Status, w)"
| "WriteSocketsLoop Proto BlockSize Alloc Enabled Record (SocketIdx # rest) Status w =
     (if Enabled SocketIdx then do {
        (Status, w) \<leftarrow> WriteNextRecord Proto BlockSize Alloc SocketIdx Record EARLY_VARS_REC_SIZE w;
        if EFI_ERROR Status then Some (Status, w)
        else WriteSocketsLoop Proto BlockSize Alloc Enabled Record rest Status w }
      else WriteSocketsLoop Proto BlockSize Alloc Enabled Record rest Status w)"

definition EarlyVarsMsgHandler ::
  "'w SEQ_RECORD_PROTOCOL option \<Rightarrow> nat \<Rightarrow> (nat \<Rightarrow> bool) \<Rightarrow> EFI_STATUS \<Rightarrow> (nat \<Rightarrow> bool)
   \<Rightarrow> MM_MB1_RECORD_PAYLOAD option \<Rightarrow> nat option \<Rightarrow> 'w
   \<Rightarrow> (EFI_STATUS \<times> MM_MB1_RECORD_PAYLOAD option \<times> 'w) option" where
  "EarlyVarsMsgHandler EarlyVarsProto BlockSize Alloc CpuBlStatus Enabled CommBuffer CommBufferSize w =
     (case (CommBuffer, CommBufferSize) of
        (Some EarlyVars, Some n) \<Rightarrow>
          if n < SIZE_OF_MB1_PAYLOAD then Some (EFI_SUCCESS, CommBuffer, w)
          else (case EarlyVarsProto of
              None \<Rightarrow> Some (EFI_SUCCESS, Some (EarlyVars\<lparr>Mb1Status := EFI_UNSUPPORTED\<rparr>), w)
            | Some Proto \<Rightarrow>
                if EFI_ERROR CpuBlStatus then
                  Some (EFI_SUCCESS, Some (EarlyVars\<lparr>Mb1Status := CpuBlStatus\<rparr>), w)
                else if Mb1Command EarlyVars = READ_LAST_RECORD then do {
                  (Status, Record) \<leftarrow> ReadLastRecord Proto Alloc EARLY_VARS_RD_SOCKET (Mb1Data EarlyVars)
                    EARLY_VARS_REC_SIZE w;
                  Some (EFI_SUCCESS, Some (EarlyVars\<lparr>Mb1Data := Record, Mb1Status := Status\<rparr>), w) }
                else if Mb1Command EarlyVars = WRITE_NEXT_RECORD then do {
                  (Status, w) \<leftarrow> WriteSocketsLoop Proto BlockSize Alloc Enabled (Mb1Data EarlyVars)
                    [0..<MAX_SOCKETS] CpuBlStatus w;
                  Some (EFI_SUCCESS, Some (EarlyVars\<lparr>Mb1Status := Status\<rparr>), w) }
                else if Mb1Command EarlyVars = ERASE_PARTITION then
                  (case EraseEarlyVarsPartition EarlyVarsProto BlockSize CpuBlStatus Enabled w of
                     (Status, w) \<Rightarrow> Some (EFI_SUCCESS, Some (EarlyVars\<lparr>Mb1Status := Status\<rparr>), w))
                else Some (EFI_SUCCESS, Some (EarlyVars\<lparr>Mb1Status := EFI_INVALID_PARAMETER\<rparr>), w))
      | _ \<Rightarrow> Some (EFI_SUCCESS, CommBuffer, w))"

end
