(* ===== verification/SeqRecordCommProps.thy ===== *)
theory SeqRecordCommProps
  imports SeqRecordComm
begin

text \<open>
  The message handlers over the record storage: a log that was written through a message is read back
  through the next one, a message from outside the mailbox changes nothing, and the early variables
  reach the flash of every enabled socket.
\<close>

section \<open>RAS logs\<close>

lemma RasLogOverrideTargets_Some:
  "80 \<le> length d \<Longrightarrow> \<exists>t. RasLogOverrideTargets Pcd d Target = Some t"
  using load32_total [of 76 d] by (auto simp: RasLogOverrideTargets_def OFFSET_ErrorSeverity_def)

lemma RasLogOverrideTargets_bits:
  assumes "RasLogOverrideTargets Pcd d Target = Some t"
  shows "t AND NOT (PUBLISH_HEST OR PUBLISH_BMC) = Target AND NOT (PUBLISH_HEST OR PUBLISH_BMC)"
proof -
  have "((Target AND NOT PUBLISH_HEST) OR PUBLISH_BMC) AND NOT (PUBLISH_HEST OR PUBLISH_BMC)
    = Target AND NOT (PUBLISH_HEST OR PUBLISH_BMC)"
    by (rule bit_word_eqI) (auto simp: bit_simps)
  with assms show ?thesis
    by (auto simp: RasLogOverrideTargets_def bind_eq_Some_conv split: if_splits)
qed

lemma outside_mailbox:
  assumes "RasLogMsgHandler P BlockSize Alloc False Pcd Msg n w = Some (Status, Msg', w')"
  shows "Status = EFI_SUCCESS \<and> w' = w \<and> map_option RasData Msg' = map_option RasData Msg"
  using assms by (auto simp: RasLogMsgHandler_def Let_def split: option.splits if_splits)

lemma outside_mailbox_cmet:
  assumes "CmetMsgHandler P BlockSize False Msg n w = (Status, Msg', w')"
  shows "Status = EFI_SUCCESS \<and> w' = w \<and> map_option RasData Msg' = map_option RasData Msg"
  using assms by (auto simp: CmetMsgHandler_def Let_def split: option.splits if_splits)

text \<open>
  C35: A RAS log survives in the flash. For a log of 80 bytes or more that fits into a block, messages that
  lie in the mailbox and a storage whose protocol is there, a write
  message is answered with EFI_SUCCESS and leaves the log as the newest record of the socket; a read
  message of the same size that follows is answered with EFI_SUCCESS and the log, whatever its data
  area held before.
\<close>

theorem ras_log_survives:
  assumes "seq_store Proto BlockSize Density view Alloc (RasSocket Msg) s w"
    and "RasFunction Msg = WRITE_NEXT_RECORD" and "RasData Msg = d"
    and "80 \<le> length d" "length d + 8 \<le> SEQ_BLOCK_SIZE" and "n = SIZE_OF_RAS_PAYLOAD + length d"
    and "RasFunction Rd = READ_LAST_RECORD" "RasSocket Rd = RasSocket Msg"
  shows "\<exists>Flag w'. RasLogMsgHandler (Some Proto) BlockSize Alloc True Pcd (Some Msg) (Some n) w
      = Some (EFI_SUCCESS, Some (Msg\<lparr>RasFlag := Flag, RasReturnStatus := EFI_SUCCESS\<rparr>), w')
    \<and> seq_store Proto BlockSize Density view Alloc (RasSocket Msg) (spec_write (PartitionInfo Proto) s d) w'
    \<and> RasLogMsgHandler (Some Proto) BlockSize Alloc True Pcd (Some Rd) (Some n) w'
      = Some (EFI_SUCCESS, Some (Rd\<lparr>RasData := d, RasReturnStatus := EFI_SUCCESS\<rparr>), w')"
proof -
  obtain w' where w': "WriteNextRecord Proto BlockSize Alloc (RasSocket Msg) d (length d) w = Some (EFI_SUCCESS, w')"
    "seq_store Proto BlockSize Density view Alloc (RasSocket Msg) (spec_write (PartitionInfo Proto) s d) w'"
    using WriteNextRecord_appends [OF assms(1,5)] by blast
  obtain Flag where "RasLogOverrideTargets Pcd d (RasFlag Msg) = Some Flag"
    using RasLogOverrideTargets_Some [OF assms(4)] by blast
  with w'(1) have "RasLogMsgHandler (Some Proto) BlockSize Alloc True Pcd (Some Msg) (Some n) w
      = Some (EFI_SUCCESS, Some (Msg\<lparr>RasFlag := Flag, RasReturnStatus := EFI_SUCCESS\<rparr>), w')"
    by (simp add: RasLogMsgHandler_def assms(2,3,6) record_functions)
  moreover have "8 \<le> length d" using assms(4) by simp
  from ReadLastRecord_newest [OF w'(2) newest_spec_write this]
  have "RasLogMsgHandler (Some Proto) BlockSize Alloc True Pcd (Some Rd) (Some n) w'
      = Some (EFI_SUCCESS, Some (Rd\<lparr>RasData := d, RasReturnStatus := EFI_SUCCESS\<rparr>), w')"
    by (simp add: RasLogMsgHandler_def assms(6-8) record_functions)
  ultimately show ?thesis using w'(2) by blast
qed

definition exampleMsg :: RAS_MM_COMMUNICATE_PAYLOAD where
  "exampleMsg = \<lparr> RasFunction = WRITE_NEXT_RECORD, RasReturnStatus = EFI_SUCCESS, RasSocket = 0,
     RasFlag = 6, RasNthFromEnd = 0, RasData = replicate 100 2 \<rparr>"

theorem ras_log_survives_witness:
  "\<exists>Flag w'. RasLogMsgHandler (Some exampleStore) 4096 (\<lambda>_. True) True True (Some exampleMsg) (Some 140) erased_flash
      = Some (EFI_SUCCESS, Some (exampleMsg\<lparr>RasFlag := Flag\<rparr>), w')
    \<and> RasLogMsgHandler (Some exampleStore) 4096 (\<lambda>_. True) True True
        (Some (exampleMsg\<lparr>RasFunction := READ_LAST_RECORD, RasData := []\<rparr>)) (Some 140) w'
      = Some (EFI_SUCCESS, Some (exampleMsg\<lparr>RasFunction := READ_LAST_RECORD\<rparr>), w')"
  using ras_log_survives [where Msg = exampleMsg and d = "replicate 100 2" and n = 140 and Pcd = True
      and Rd = "exampleMsg\<lparr>RasFunction := READ_LAST_RECORD, RasData := []\<rparr>" and s = None
      and Proto = exampleStore and BlockSize = 4096 and Density = 1048576 and view = "\<lambda>f. f"
      and Alloc = "\<lambda>_. True" and w = erased_flash] example_empty
  by (auto simp: exampleMsg_def SIZE_OF_RAS_PAYLOAD_def SEQ_BLOCK_SIZE_def)

section \<open>Early boot variables\<close>

text \<open>The flash operations of one socket leave what another view sees.\<close>

definition preserves :: "'w NOR_FLASH_PROTOCOL \<Rightarrow> ('w \<Rightarrow> memory) \<Rightarrow> bool" where
  "preserves N view \<longleftrightarrow> (\<forall>off n xs w. view (snd (NorWrite N off n xs w)) = view w)
     \<and> (\<forall>b n w. view (snd (NorErase N b n w)) = view w)"

lemma preserves_steps:
  assumes "preserves N view"
  shows "view (snd (EraseNewBlock N BlockSize k w)) = view w" "view (snd (RetireBlock N k w)) = view w"
    "NorWrite N off n xs w = (Status, w') \<Longrightarrow> view w' = view w"
  using assms by (auto simp: preserves_def EraseNewBlock_def RetireBlock_def Let_def split: prod.split)
    (metis snd_conv)

text \<open>What holds of the world in every result of a computation.\<close>

definition outcome :: "('w \<Rightarrow> bool) \<Rightarrow> ('a \<times> 'w) option \<Rightarrow> bool" where
  "outcome Q r \<longleftrightarrow> (\<forall>x w'. r = Some (x, w') \<longrightarrow> Q w')"

lemma outcome_simps [simp]: "outcome Q None" "outcome Q (Some (x, w)) \<longleftrightarrow> Q w"
  by (simp_all add: outcome_def)

lemma outcome_bind: "(\<And>x. m = Some x \<Longrightarrow> outcome Q (f x)) \<Longrightarrow> outcome Q (m \<bind> f)"
  by (cases m) simp_all

lemma outcome_if: "(b \<Longrightarrow> outcome Q x) \<Longrightarrow> (\<not> b \<Longrightarrow> outcome Q y) \<Longrightarrow> outcome Q (if b then x else y)"
  by simp

lemma outcome_pair: "(\<And>x y. p = (x, y) \<Longrightarrow> outcome Q (f x y)) \<Longrightarrow> outcome Q (case p of (x, y) \<Rightarrow> f x y)"
  by (cases p) simp

lemma WriteNextRecord_preserves:
  assumes "\<And>N. NorFlashProtocol This S = Some N \<Longrightarrow> preserves N view"
  shows "outcome (\<lambda>w'. view w' = view w) (WriteNextRecord This BlockSize Alloc S d n w)"
proof (cases "SocketFlash This S")
  case (Inl E)
  then show ?thesis by (simp add: WriteNextRecord_def)
next
  case (Inr N)
  then have "preserves N view" using assms by (simp add: SocketFlash_def split: if_splits option.splits)
  note p = preserves_steps [OF this]
  show ?thesis
    unfolding WriteNextRecord_def Inr Let_def sum.case
    by (intro outcome_bind outcome_pair outcome_if) (auto simp: p(1,2) dest!: p(3) split: if_splits)
qed

text \<open>The sockets of a platform: each has a view of its flash, which the others leave alone.\<close>

definition independent_sockets :: "'w SEQ_RECORD_PROTOCOL \<Rightarrow> (nat \<Rightarrow> 'w \<Rightarrow> memory) \<Rightarrow> bool" where
  "independent_sockets This views \<longleftrightarrow>
     (\<forall>i j. i \<noteq> j \<longrightarrow> (case NorFlashProtocol This i of None \<Rightarrow> True | Some N \<Rightarrow> preserves N (views j)))"

lemma seq_store_cong:
  "view w' = view w \<Longrightarrow> seq_store This BlockSize Density view Alloc S s w'
   \<longleftrightarrow> seq_store This BlockSize Density view Alloc S s w"
  by (simp add: seq_store_def)

lemma WriteSocketsLoop_all:
  assumes ind: "independent_sockets Proto views" and d: "length d = EARLY_VARS_REC_SIZE"
  shows "distinct sockets \<Longrightarrow>
     (\<And>i. i \<in> set sockets \<Longrightarrow> Enabled i
        \<Longrightarrow> seq_store Proto BlockSize Density (views i) Alloc i (ss i) w) \<Longrightarrow>
     \<exists>w'. WriteSocketsLoop Proto BlockSize Alloc Enabled d sockets EFI_SUCCESS w = Some (EFI_SUCCESS, w')
       \<and> (\<forall>i \<in> set sockets. Enabled i \<longrightarrow>
            seq_store Proto BlockSize Density (views i) Alloc i (spec_write (PartitionInfo Proto) (ss i) d) w')
       \<and> (\<forall>j. j \<notin> set sockets \<longrightarrow> views j w' = views j w)"
proof (induction sockets arbitrary: w)
  case Nil
  then show ?case by simp
next
  case (Cons i sockets)
  show ?case
  proof (cases "Enabled i")
    case False
    with Cons.IH [of w] Cons.prems show ?thesis by auto
  next
    case True
    have fits: "length d + 8 \<le> SEQ_BLOCK_SIZE" by (simp add: d EARLY_VARS_REC_SIZE_def SEQ_BLOCK_SIZE_def)
    obtain w1 where w1: "WriteNextRecord Proto BlockSize Alloc i d (length d) w = Some (EFI_SUCCESS, w1)"
      "seq_store Proto BlockSize Density (views i) Alloc i (spec_write (PartitionInfo Proto) (ss i) d) w1"
      using WriteNextRecord_appends [OF Cons.prems(2) fits, of i] True by auto
    have pres: "views j w1 = views j w" if "j \<noteq> i" for j
    proof -
      have "preserves N (views j)" if "NorFlashProtocol Proto i = Some N" for N
        using ind [unfolded independent_sockets_def, rule_format, of i j] that \<open>j \<noteq> i\<close> by simp
      from WriteNextRecord_preserves [OF this] w1(1) show ?thesis by (simp add: outcome_def)
    qed
    have "\<And>j. j \<in> set sockets \<Longrightarrow> Enabled j \<Longrightarrow> seq_store Proto BlockSize Density (views j) Alloc j (ss j) w1"
      using Cons.prems pres by (metis distinct.simps(2) list.set_intros(2) seq_store_cong)
    then obtain w' where w': "WriteSocketsLoop Proto BlockSize Alloc Enabled d sockets EFI_SUCCESS w1
        = Some (EFI_SUCCESS, w')"
      "\<forall>j \<in> set sockets. Enabled j \<longrightarrow>
         seq_store Proto BlockSize Density (views j) Alloc j (spec_write (PartitionInfo Proto) (ss j) d) w'"
      "\<forall>j. j \<notin> set sockets \<longrightarrow> views j w' = views j w1"
      using Cons.IH [of w1] Cons.prems(1) by auto
    moreover have "views i w' = views i w1" using w'(3) Cons.prems(1) by simp
    ultimately show ?thesis
      using w1 True pres seq_store_cong [of "views i" w' w1] by (auto simp: d)
  qed
qed

text \<open>
  Early boot variables reach every socket. A write message of full size, on a platform whose sockets have
  flashes of their own, is answered with EFI_SUCCESS, and afterwards the record is the newest one on
  every enabled socket; when socket 0 is enabled, a read message that follows delivers the record.
\<close>

theorem early_vars_on_all_sockets:
  assumes "independent_sockets Proto views"
    and "\<And>i. i < MAX_SOCKETS \<Longrightarrow> Enabled i
           \<Longrightarrow> seq_store Proto BlockSize Density (views i) Alloc i (ss i) w"
    and "Mb1Command Msg = WRITE_NEXT_RECORD" "length (Mb1Data Msg) = EARLY_VARS_REC_SIZE"
    and "SIZE_OF_MB1_PAYLOAD \<le> n" and "Mb1Command Rd = READ_LAST_RECORD" "Enabled 0"
  shows "\<exists>w'. EarlyVarsMsgHandler (Some Proto) BlockSize Alloc EFI_SUCCESS Enabled (Some Msg) (Some n) w
      = Some (EFI_SUCCESS, Some (Msg\<lparr>Mb1Status := EFI_SUCCESS\<rparr>), w')
    \<and> (\<forall>i < MAX_SOCKETS. Enabled i \<longrightarrow> seq_store Proto BlockSize Density (views i) Alloc i
         (spec_write (PartitionInfo Proto) (ss i) (Mb1Data Msg)) w')
    \<and> EarlyVarsMsgHandler (Some Proto) BlockSize Alloc EFI_SUCCESS Enabled (Some Rd) (Some n) w'
      = Some (EFI_SUCCESS, Some (Rd\<lparr>Mb1Data := Mb1Data Msg, Mb1Status := EFI_SUCCESS\<rparr>), w')"
proof -
  obtain w' where w': "WriteSocketsLoop Proto BlockSize Alloc Enabled (Mb1Data Msg) [0..<MAX_SOCKETS] EFI_SUCCESS w
      = Some (EFI_SUCCESS, w')"
    "\<And>i. i < MAX_SOCKETS \<Longrightarrow> Enabled i \<Longrightarrow> seq_store Proto BlockSize Density (views i) Alloc i
         (spec_write (PartitionInfo Proto) (ss i) (Mb1Data Msg)) w'"
    using WriteSocketsLoop_all [OF assms(1,4), of "[0..<MAX_SOCKETS]" Enabled BlockSize Density Alloc ss w]
      assms(2) by auto
  have written: "EarlyVarsMsgHandler (Some Proto) BlockSize Alloc EFI_SUCCESS Enabled (Some Msg) (Some n) w
      = Some (EFI_SUCCESS, Some (Msg\<lparr>Mb1Status := EFI_SUCCESS\<rparr>), w')"
    using w'(1) assms(3,5) by (simp add: EarlyVarsMsgHandler_def record_functions)
  have "8 \<le> length (Mb1Data Msg)" by (simp add: assms(4) EARLY_VARS_REC_SIZE_def)
  from ReadLastRecord_newest [OF w'(2) newest_spec_write this, of 0] assms(7)
  have "EarlyVarsMsgHandler (Some Proto) BlockSize Alloc EFI_SUCCESS Enabled (Some Rd) (Some n) w'
      = Some (EFI_SUCCESS, Some (Rd\<lparr>Mb1Data := Mb1Data Msg, Mb1Status := EFI_SUCCESS\<rparr>), w')"
    using assms(5,6) by (simp add: EarlyVarsMsgHandler_def record_functions MAX_SOCKETS_def assms(4))
  with written w'(2) show ?thesis by blast
qed

definition exampleVarsMsg :: MM_MB1_RECORD_PAYLOAD where
  "exampleVarsMsg = \<lparr> Mb1Command = WRITE_NEXT_RECORD, Mb1Status = EFI_SUCCESS,
     Mb1Data = replicate 2040 5 \<rparr>"

theorem early_vars_on_all_sockets_witness:
  "\<exists>w'. EarlyVarsMsgHandler (Some exampleStore) 4096 (\<lambda>_. True) EFI_SUCCESS (\<lambda>i. i = 0)
      (Some exampleVarsMsg) (Some 2056) erased_flash = Some (EFI_SUCCESS, Some exampleVarsMsg, w')
    \<and> EarlyVarsMsgHandler (Some exampleStore) 4096 (\<lambda>_. True) EFI_SUCCESS (\<lambda>i. i = 0)
      (Some (exampleVarsMsg\<lparr>Mb1Command := READ_LAST_RECORD, Mb1Data := []\<rparr>)) (Some 2056) w'
      = Some (EFI_SUCCESS, Some (exampleVarsMsg\<lparr>Mb1Command := READ_LAST_RECORD\<rparr>), w')"
proof -
  let ?views = "\<lambda>i (f :: memory). if i = 0 then f else (\<lambda>_. 0)"
  have "independent_sockets exampleStore ?views"
    by (auto simp: independent_sockets_def exampleStore_def preserves_def memory_flash_def)
  moreover have "seq_store exampleStore 4096 1048576 (?views i) (\<lambda>_. True) i None erased_flash"
    if "i = 0" for i using example_empty that by simp
  ultimately show ?thesis
    using early_vars_on_all_sockets [of exampleStore ?views "\<lambda>i. i = 0" 4096 1048576 "\<lambda>_. True" "\<lambda>_. None"
        erased_flash exampleVarsMsg 2056 "exampleVarsMsg\<lparr>Mb1Command := READ_LAST_RECORD, Mb1Data := []\<rparr>"]
    by (auto simp: exampleVarsMsg_def EARLY_VARS_REC_SIZE_def SIZE_OF_MB1_PAYLOAD_def)
qed

text \<open>When the partition is erased, only the status of the last enabled socket counts.\<close>

lemma erase_failure_masked:
  assumes "ErasePartition Proto BlockSize 0 w = (EFI_DEVICE_ERROR, w1)"
    and "ErasePartition Proto BlockSize 1 w1 = (EFI_SUCCESS, w2)"
  shows "EraseEarlyVarsPartition (Some Proto) BlockSize EFI_SUCCESS (\<lambda>i. i < 2) w = (EFI_SUCCESS, w2)"
  using assms by (simp add: EraseEarlyVarsPartition_def MAX_SOCKETS_def upt_rec)

end
