(* ===== verification/SatMc.thy ===== *)
theory SatMc
  imports SeqRecordComm
begin

text \<open>
  \<open>SequentialRecordComm.c\<close>, the service of the satellite controller: deleting the variables that are not
  protected, and clearing the variable storage. The variable service is a record of its operations
  on an arbitrary world.
\<close>

section \<open>Variables\<close>

type_synonym 'g variable = "nat list \<times> 'g"

text \<open>
  \<open>SmmGetNextVariableName\<close> gets the size of the name buffer and the variable in it and delivers a status
  and the next variable, \<open>SmmSetVariable\<close> deletes one. \<open>GetProductInfo\<close> is the asset tag protection field of the
  product information, where this variable can be read.
\<close>

record ('g, 'v) SMM_VARIABLE_PROTOCOL =
  SmmGetNextVariableName :: "nat \<Rightarrow> 'g variable \<Rightarrow> 'v \<Rightarrow> EFI_STATUS \<times> 'g variable"
  SmmSetVariable :: "'g variable \<Rightarrow> 'v \<Rightarrow> EFI_STATUS \<times> 'v"
  GetProductInfo :: "'v \<Rightarrow> nat option"

definition MAX_VAR_NAME :: nat where "MAX_VAR_NAME = 256 * 2"

text \<open>The name \<open>ProductInfo\<close>.\<close>

definition ProductInfoVariableName :: "nat list" where
  "ProductInfoVariableName = [80, 114, 111, 100, 117, 99, 116, 73, 110, 102, 111]"

definition IsVariableProtectedStmm ::
  "('g, 'v) SMM_VARIABLE_PROTOCOL \<Rightarrow> 'g \<Rightarrow> 'g \<Rightarrow> 'g variable \<Rightarrow> 'v \<Rightarrow> bool" where
  "IsVariableProtectedStmm SmmVar UserAuthenticationGuid PublicVariableGuid Var v =
     (if snd Var = UserAuthenticationGuid then True
      else case GetProductInfo SmmVar v of None \<Rightarrow> False
      | Some AssetTagProtection \<Rightarrow>
          AssetTagProtection \<noteq> 0
          \<and> take (length ProductInfoVariableName) (fst Var) = ProductInfoVariableName
          \<and> snd Var = PublicVariableGuid)"

partial_function (option) DeleteNsVarsLoop ::
  "('g, 'v) SMM_VARIABLE_PROTOCOL \<Rightarrow> 'g \<Rightarrow> 'g \<Rightarrow> EFI_STATUS \<Rightarrow> 'g variable \<Rightarrow> 'v \<Rightarrow> 'v option" where
  "DeleteNsVarsLoop SmmVar UG PG GetVarStatus Next v =
     (if EFI_ERROR GetVarStatus then Some v
      else let Cur = Next in
        (case SmmGetNextVariableName SmmVar MAX_VAR_NAME Cur v of (GetVarStatus, Next) \<Rightarrow>
         if IsVariableProtectedStmm SmmVar UG PG Cur v
         then DeleteNsVarsLoop SmmVar UG PG GetVarStatus Next v
         else (case SmmSetVariable SmmVar Cur v of (ClearVarStatus, v) \<Rightarrow>
                DeleteNsVarsLoop SmmVar UG PG GetVarStatus Next v)))"

text \<open>\<open>FirstGuid\<close> is what the name buffer holds at first, with the empty name.\<close>

definition DeleteNsVars ::
  "('g, 'v) SMM_VARIABLE_PROTOCOL option \<Rightarrow> (nat \<Rightarrow> bool) \<Rightarrow> 'g \<Rightarrow> 'g \<Rightarrow> 'g \<Rightarrow> 'v \<Rightarrow> (EFI_STATUS \<times> 'v) option" where
  "DeleteNsVars SmmVar Alloc UG PG FirstGuid v =
     (case SmmVar of None \<Rightarrow> Some (EFI_UNSUPPORTED, v)
      | Some SmmVar \<Rightarrow>
          if \<not> Alloc MAX_VAR_NAME then Some (EFI_OUT_OF_RESOURCES, v)
          else (case SmmGetNextVariableName SmmVar MAX_VAR_NAME ([], FirstGuid) v of
                  (GetVarStatus, Next) \<Rightarrow> do {
                    v \<leftarrow> DeleteNsVarsLoop SmmVar UG PG GetVarStatus Next v;
                    Some (EFI_SUCCESS, v) }))"

text \<open>\<open>CorruptFvHeader\<close> and the lookup of the variable partition are parameters.\<close>

definition SatMcMsgHandler ::
  "'w SEQ_RECORD_PROTOCOL option \<Rightarrow> nat \<Rightarrow> EFI_STATUS \<Rightarrow> (nat \<Rightarrow> bool) \<Rightarrow> bool
   \<Rightarrow> EFI_STATUS \<times> nat \<times> nat \<Rightarrow> (nat \<Rightarrow> nat \<Rightarrow> 'w \<Rightarrow> EFI_STATUS \<times> 'w) \<Rightarrow> ('v \<Rightarrow> (EFI_STATUS \<times> 'v) option)
   \<Rightarrow> SATMC_MM_COMMUNICATE_PAYLOAD option \<Rightarrow> nat option \<Rightarrow> 'w \<Rightarrow> 'v
   \<Rightarrow> (EFI_STATUS \<times> SATMC_MM_COMMUNICATE_PAYLOAD option \<times> 'w \<times> 'v) option" where
  "SatMcMsgHandler EarlyVarsProto BlockSize CpuBlStatus Enabled InMbox VariablePartition CorruptFvHeader
     DeleteVars CommBuffer CommBufferSize w v =
     (case (CommBuffer, CommBufferSize) of
        (Some Msg, Some n) \<Rightarrow>
          let reply = (\<lambda>Status w v. Some (EFI_SUCCESS, Some (Msg\<lparr>SatMcReturnStatus := Status\<rparr>), w, v)) in
          if n < SIZE_OF_SATMC_PAYLOAD then Some (EFI_SUCCESS, CommBuffer, w, v)
          else if \<not> InMbox then reply EFI_INVALID_PARAMETER w v
          else if SatMcCommand Msg = CLEAR_EFI_VARIABLES then
            (if EFI_ERROR CpuBlStatus then reply CpuBlStatus w v
             else (case VariablePartition of (Status, FvHeaderOffset, Size) \<Rightarrow>
               if EFI_ERROR Status then reply Status w v
               else (case CorruptFvHeader FvHeaderOffset Size w of (Status, w) \<Rightarrow>
                 if EFI_ERROR Status then reply Status w v
                 else (case EraseEarlyVarsPartition EarlyVarsProto BlockSize CpuBlStatus Enabled w of
                   (Status, w) \<Rightarrow> reply Status w v))))
          else if SatMcCommand Msg = CLEAR_EFI_NSVARS then do {
            (Status, v) \<leftarrow> DeleteVars v;
            if EFI_ERROR Status then reply Status w v
            else (case EraseEarlyVarsPartition EarlyVarsProto BlockSize CpuBlStatus Enabled w of
                   (Status, w) \<Rightarrow> reply Status w v) }
          else reply EFI_INVALID_PARAMETER w v
      | _ \<Rightarrow> Some (EFI_SUCCESS, CommBuffer, w, v))"

section \<open>What a deletion spares\<close>

text \<open>
  Nothing is assumed of the variable service: neither the order in which it lists the variables, which UEFI leaves open
  while variables are deleted, nor that a deletion succeeds. The status of a deletion is not looked at. The comment of
  \<open>DeleteNsVars\<close> says that locked variables are deleted as well; whether they are is up to the service.
\<close>

inductive deletions :: "('g, 'v) SMM_VARIABLE_PROTOCOL \<Rightarrow> 'g \<Rightarrow> 'g \<Rightarrow> 'v \<Rightarrow> 'v \<Rightarrow> bool"
  for SmmVar :: "('g, 'v) SMM_VARIABLE_PROTOCOL" and UG PG :: 'g where
  none: "deletions SmmVar UG PG v v"
| delete: "\<not> IsVariableProtectedStmm SmmVar UG PG x v \<Longrightarrow> deletions SmmVar UG PG (snd (SmmSetVariable SmmVar x v)) v'
    \<Longrightarrow> deletions SmmVar UG PG v v'"

lemma DeleteNsVarsLoop_deletions:
  assumes "DeleteNsVarsLoop SmmVar UG PG Status Next v = Some v'"
  shows "deletions SmmVar UG PG v v'"
  using assms
proof (induction SmmVar UG PG Status Next v v' rule: DeleteNsVarsLoop.raw_induct [rotated, consumes 1, case_names step])
  case (step loop S U P Status x v v')
  show ?case
  proof (cases "EFI_ERROR Status")
    case True
    with step show ?thesis by (auto intro: deletions.none)
  next
    case False
    show ?thesis
    proof (cases "IsVariableProtectedStmm S U P x v")
      case True
      with False step show ?thesis by (auto split: prod.splits)
    next
      case unprotected: False
      obtain st a b where "SmmGetNextVariableName S MAX_VAR_NAME x v = (st, a, b)" by (metis prod_cases3)
      moreover obtain cs w where "SmmSetVariable S x v = (cs, w)" by force
      ultimately have "deletions S U P (snd (SmmSetVariable S x v)) v'"
        using step False unprotected by simp
      with unprotected show ?thesis by (rule deletions.delete)
    qed
  qed
qed

text \<open>
  Whatever the service does, a call that returns has deleted variables only that were not protected when they were
  deleted. In particular everything that the deletion of variables outside the namespace of the user passwords leaves
  alone is as before. The status is a success even when the service has refused every deletion.
\<close>

theorem DeleteNsVars_spares_protected:
  assumes "DeleteNsVars (Some SmmVar) Alloc UG PG g v = Some (st, v')"
  shows "st = (if Alloc MAX_VAR_NAME then EFI_SUCCESS else EFI_OUT_OF_RESOURCES) \<and> deletions SmmVar UG PG v v'
    \<and> (\<forall>f. (\<forall>x w. snd x \<noteq> UG \<longrightarrow> f (snd (SmmSetVariable SmmVar x w)) = f w) \<longrightarrow> f v' = f v)"
proof -
  have st: "st = (if Alloc MAX_VAR_NAME then EFI_SUCCESS else EFI_OUT_OF_RESOURCES)"
    and del: "deletions SmmVar UG PG v v'"
    using assms DeleteNsVarsLoop_deletions
    by (auto simp: DeleteNsVars_def bind_eq_Some_conv split: if_splits prod.splits intro: deletions.none)
  have "f v' = f v" if "\<forall>x w. snd x \<noteq> UG \<longrightarrow> f (snd (SmmSetVariable SmmVar x w)) = f w" for f
    using del
  proof (induction rule: deletions.induct)
    case (delete x v v')
    then have "snd x \<noteq> UG" by (auto simp: IsVariableProtectedStmm_def)
    with delete.IH that show ?case by simp
  qed simp
  with st del show ?thesis by blast
qed

text \<open>A service with a password of the user, in namespace 7, and another variable; each can be there or not.\<close>

definition exampleVars :: "bool \<times> bool \<Rightarrow> nat variable list" where
  "exampleVars v = (if fst v then [([80], 7)] else []) @ (if snd v then [([66, 79], 1)] else [])"

definition exampleVariables :: "(nat, bool \<times> bool) SMM_VARIABLE_PROTOCOL" where
  "exampleVariables = \<lparr>
     SmmGetNextVariableName = (\<lambda>n x v.
       if fst x = [] \<and> fst v then (EFI_SUCCESS, ([80], 7))
       else if (fst x = [] \<or> x = ([80], 7)) \<and> snd v then (EFI_SUCCESS, ([66, 79], 1)) else (EFI_NOT_FOUND, x)),
     SmmSetVariable = (\<lambda>x v. (EFI_SUCCESS, (fst v \<and> x \<noteq> ([80], 7), snd v \<and> x \<noteq> ([66, 79], 1)))),
     GetProductInfo = (\<lambda>v. None) \<rparr>"

theorem DeleteNsVars_spares_protected_witness:
  "DeleteNsVars (Some exampleVariables) (\<lambda>_. True) 7 1 0 (True, True) = Some (EFI_SUCCESS, (True, False))
    \<and> deletions exampleVariables 7 1 (True, True) (True, False)"
proof -
  have run: "DeleteNsVars (Some exampleVariables) (\<lambda>_. True) 7 1 0 (True, True) = Some (EFI_SUCCESS, (True, False))"
    by (simp add: DeleteNsVars_def DeleteNsVarsLoop.simps exampleVariables_def IsVariableProtectedStmm_def)
  with DeleteNsVars_spares_protected [OF run] show ?thesis by blast
qed

end
