(* ===== verification/FwImage.thy ===== *)
theory FwImage
  imports FwPartition
begin

text \<open>
  \<open>FwImageDxe.c\<close>: a firmware image is the pair of partitions that hold it in the two boot chains.
  The driver joins the partitions it is told of to images, chooses the partition of an access
  from the active boot chain and the flags, and offers the image protocol.
  \<open>FwImageLib.c\<close>: the array in which a client of that protocol collects the images.

  A partition protocol is known by its pointer, of type \<open>'p\<close>; what its functions do is the record
  \<open>FW_PARTITION_PROTOCOL\<close>, of which \<open>PartitionProtocol\<close> is the one of \<open>FwPartitionDeviceLib\<close>.
  \<open>mPrivate\<close> is the list of its first \<open>mNumFwImages\<close> elements, and the pointer to an image is an
  index into it. The handles a notification finds are a list. Dereferencing a null pointer and an
  access beyond an array have no result. Pointer conversion for the runtime phase is left out.
\<close>

section \<open>The partition protocol\<close>

record ('p, 's) FW_PARTITION_PROTOCOL =
  PartitionName :: "'p \<Rightarrow> 's \<Rightarrow> wstring"
  PartitionRead :: "'p \<Rightarrow> nat \<Rightarrow> nat \<Rightarrow> byte list \<Rightarrow> 's \<Rightarrow> (EFI_STATUS \<times> byte list \<times> 's) option"
  PartitionWrite :: "'p \<Rightarrow> nat \<Rightarrow> nat \<Rightarrow> byte list \<Rightarrow> 's \<Rightarrow> (EFI_STATUS \<times> 's) option"
  PartitionGetAttributes :: "'p \<Rightarrow> 's \<Rightarrow> (EFI_STATUS \<times> FW_PARTITION_ATTRIBUTES) option"

definition NoAttributes :: FW_PARTITION_ATTRIBUTES where
  "NoAttributes = \<lparr> AttrBytes = 0, AttrBlockSize = 0, AttrEraseBlockSize = 0 \<rparr>"

definition PartitionProtocol ::
  "EDK2_SERVICES \<Rightarrow> 'w DEVICE_OPS \<Rightarrow> (nat, FW_PARTITION_GLOBALS \<times> 'w) FW_PARTITION_PROTOCOL" where
  "PartitionProtocol S D =
     \<lparr> PartitionName = (\<lambda>i (G, w). Name (PartitionInfo (mPrivate G ! i))),
       PartitionRead = (\<lambda>i Offset' Bytes' Buffer (G, w). do {
         (Status, Buffer', w') \<leftarrow> FwPartitionRead D G (Some i) Offset' Bytes' (Some Buffer) w;
         Data \<leftarrow> Buffer';
         Some (Status, Data, (G, w')) }),
       PartitionWrite = (\<lambda>i Offset' Bytes' Buffer (G, w). do {
         (Status, G', w') \<leftarrow> FwPartitionWrite S D G (Some i) Offset' Bytes' (Some Buffer) w;
         Some (Status, (G', w')) }),
       PartitionGetAttributes = (\<lambda>i (G, w). do {
         (Status, Attributes) \<leftarrow> FwPartitionGetAttributes D G (Some i) (Some NoAttributes);
         Found \<leftarrow> Attributes;
         Some (Status, Found) }) \<rparr>"

section \<open>Images\<close>

definition FW_IMAGE_MAX_IMAGES :: nat where "FW_IMAGE_MAX_IMAGES = 100"
definition FW_IMAGE_NAME_LENGTH :: nat where "FW_IMAGE_NAME_LENGTH = 36"
definition FW_IMAGE_RW_FLAG_NONE :: nat where "FW_IMAGE_RW_FLAG_NONE = 0"
definition FW_IMAGE_RW_FLAG_READ_INACTIVE_IMAGE :: nat where
  "FW_IMAGE_RW_FLAG_READ_INACTIVE_IMAGE = 1"
definition FW_IMAGE_RW_FLAG_FORCE_PARTITION_A :: nat where "FW_IMAGE_RW_FLAG_FORCE_PARTITION_A = 2"
definition FW_IMAGE_RW_FLAG_FORCE_PARTITION_B :: nat where "FW_IMAGE_RW_FLAG_FORCE_PARTITION_B = 4"

lemmas image_flags [codes] = FW_IMAGE_RW_FLAG_NONE_def FW_IMAGE_RW_FLAG_READ_INACTIVE_IMAGE_def
  FW_IMAGE_RW_FLAG_FORCE_PARTITION_A_def FW_IMAGE_RW_FLAG_FORCE_PARTITION_B_def

definition BR_BCT_BACKUP_PARTITION_NAME :: wstring where
  "BR_BCT_BACKUP_PARTITION_NAME = W ''BCT-boot-chain_backup''"

record FW_IMAGE_ATTRIBUTES =
  ReadBytes :: nat
  WriteBytes :: nat
  BlockSize :: nat
  EraseBlockSize :: nat

definition NoImageAttributes :: FW_IMAGE_ATTRIBUTES where
  "NoImageAttributes = \<lparr> ReadBytes = 0, WriteBytes = 0, BlockSize = 0, EraseBlockSize = 0 \<rparr>"

text \<open>The function in the field \<open>Protocol.Write\<close>.\<close>

datatype FW_IMAGE_WRITE_IMAGE = WriteFunction | WriteToUpdateInactiveFunction

text \<open>\<open>Installed\<close> stands for the handle on which the protocol of the image is installed.\<close>

record 'p FW_IMAGE_PRIVATE_DATA =
  ImageName :: wstring
  ImageAttributes :: FW_IMAGE_ATTRIBUTES
  FwPartitionA :: "'p option"
  FwPartitionB :: "'p option"
  ProtocolWrite :: "FW_IMAGE_WRITE_IMAGE option"
  Installed :: bool

record 'p FW_IMAGE_GLOBALS =
  mImages :: "'p FW_IMAGE_PRIVATE_DATA list"
  mBootChain :: nat

definition HasAImage :: "'p FW_IMAGE_PRIVATE_DATA \<Rightarrow> bool" where
  "HasAImage Private \<longleftrightarrow> FwPartitionA Private \<noteq> None"

definition HasBImage :: "'p FW_IMAGE_PRIVATE_DATA \<Rightarrow> bool" where
  "HasBImage Private \<longleftrightarrow> FwPartitionB Private \<noteq> None"

definition BImageIsActive :: "'p FW_IMAGE_GLOBALS \<Rightarrow> bool" where
  "BImageIsActive M \<longleftrightarrow> mBootChain M = 1"

definition ActiveImagePartition ::
  "'p FW_IMAGE_GLOBALS \<Rightarrow> 'p FW_IMAGE_PRIVATE_DATA \<Rightarrow> 'p option" where
  "ActiveImagePartition M Private =
     (if BImageIsActive M then FwPartitionB Private else FwPartitionA Private)"

definition InactiveImagePartition ::
  "'p FW_IMAGE_GLOBALS \<Rightarrow> 'p FW_IMAGE_PRIVATE_DATA \<Rightarrow> 'p option" where
  "InactiveImagePartition M Private =
     (if BImageIsActive M then FwPartitionA Private else FwPartitionB Private)"

definition FwImageCheckOffsetAndBytes :: "nat \<Rightarrow> nat \<Rightarrow> nat \<Rightarrow> EFI_STATUS" where
  "FwImageCheckOffsetAndBytes MaxOffset Offset' Bytes' =
     (if Offset' > MaxOffset \<or> Bytes' > MaxOffset \<or> add64 Offset' Bytes' > MaxOffset
      then EFI_INVALID_PARAMETER else EFI_SUCCESS)"

section \<open>Access to an image\<close>

definition ForcedPartition :: "nat \<Rightarrow> bool" where
  "ForcedPartition Flags \<longleftrightarrow>
     Flags AND (FW_IMAGE_RW_FLAG_FORCE_PARTITION_A OR FW_IMAGE_RW_FLAG_FORCE_PARTITION_B) \<noteq> 0"

definition WritePartition ::
  "'p FW_IMAGE_GLOBALS \<Rightarrow> 'p FW_IMAGE_PRIVATE_DATA \<Rightarrow> nat \<Rightarrow> 'p option" where
  "WritePartition M Private Flags =
     (if ForcedPartition Flags then
        (if Flags AND FW_IMAGE_RW_FLAG_FORCE_PARTITION_A \<noteq> 0
         then FwPartitionA Private else FwPartitionB Private)
      else if HasAImage Private \<and> HasBImage Private then InactiveImagePartition M Private
      else FwPartitionA Private)"

definition ReadPartition ::
  "'p FW_IMAGE_GLOBALS \<Rightarrow> 'p FW_IMAGE_PRIVATE_DATA \<Rightarrow> nat \<Rightarrow> 'p option" where
  "ReadPartition M Private Flags =
     (if ForcedPartition Flags then
        (if Flags AND FW_IMAGE_RW_FLAG_FORCE_PARTITION_A \<noteq> 0
         then FwPartitionA Private else FwPartitionB Private)
      else if HasAImage Private \<and> HasBImage Private then
        (if Flags AND FW_IMAGE_RW_FLAG_READ_INACTIVE_IMAGE \<noteq> 0
         then InactiveImagePartition M Private else ActiveImagePartition M Private)
      else FwPartitionA Private)"

definition FwImageWrite ::
  "('p, 's) FW_PARTITION_PROTOCOL \<Rightarrow> 'p FW_IMAGE_GLOBALS \<Rightarrow> nat option \<Rightarrow> nat \<Rightarrow> nat
   \<Rightarrow> byte list option \<Rightarrow> nat \<Rightarrow> 's \<Rightarrow> (EFI_STATUS \<times> 's) option" where
  "FwImageWrite T M This Offset' Bytes' Buffer Flags s =
     (case (Buffer, This) of
        (Some buf, Some i) \<Rightarrow>
          if i \<ge> length (mImages M) then None
          else (case WritePartition M (mImages M ! i) Flags of
              None \<Rightarrow> Some (EFI_NOT_FOUND, s)
            | Some Partition \<Rightarrow> do {
                (Status, Attributes) \<leftarrow> PartitionGetAttributes T Partition s;
                if EFI_ERROR Status then Some (Status, s)
                else
                  let Status = FwImageCheckOffsetAndBytes (AttrBytes Attributes) Offset' Bytes' in
                  if EFI_ERROR Status then Some (Status, s)
                  else PartitionWrite T Partition Offset' Bytes' buf s })
      | _ \<Rightarrow> Some (EFI_INVALID_PARAMETER, s))"

definition FwImageRead ::
  "('p, 's) FW_PARTITION_PROTOCOL \<Rightarrow> 'p FW_IMAGE_GLOBALS \<Rightarrow> nat option \<Rightarrow> nat \<Rightarrow> nat
   \<Rightarrow> byte list option \<Rightarrow> nat \<Rightarrow> 's \<Rightarrow> (EFI_STATUS \<times> byte list option \<times> 's) option" where
  "FwImageRead T M This Offset' Bytes' Buffer Flags s =
     (case (Buffer, This) of
        (Some buf, Some i) \<Rightarrow>
          if i \<ge> length (mImages M) then None
          else (case ReadPartition M (mImages M ! i) Flags of
              None \<Rightarrow> Some (EFI_NOT_FOUND, Buffer, s)
            | Some Partition \<Rightarrow> do {
                (Status, Attributes) \<leftarrow> PartitionGetAttributes T Partition s;
                if EFI_ERROR Status then Some (Status, Buffer, s)
                else
                  let Status = FwImageCheckOffsetAndBytes (AttrBytes Attributes) Offset' Bytes' in
                  if EFI_ERROR Status then Some (Status, Buffer, s)
                  else do {
                    (Status, Data, s') \<leftarrow> PartitionRead T Partition Offset' Bytes' buf s;
                    Some (Status, Some Data, s') } })
      | _ \<Rightarrow> Some (EFI_INVALID_PARAMETER, Buffer, s))"

definition FwImageGetAttributes ::
  "'p FW_IMAGE_GLOBALS \<Rightarrow> nat option \<Rightarrow> FW_IMAGE_ATTRIBUTES option
   \<Rightarrow> (EFI_STATUS \<times> FW_IMAGE_ATTRIBUTES option) option" where
  "FwImageGetAttributes M This Attributes =
     (case (Attributes, This) of
        (Some _, Some i) \<Rightarrow>
          if i \<ge> length (mImages M) then None
          else Some (EFI_SUCCESS, Some (ImageAttributes (mImages M ! i)))
      | _ \<Rightarrow> Some (EFI_INVALID_PARAMETER, Attributes))"

text \<open>
  What the image remembers of its partitions. The fields of the first partition stay written when
  the second one fails.
\<close>

definition FwImageGetPartitionAttributes ::
  "('p, 's) FW_PARTITION_PROTOCOL \<Rightarrow> 'p FW_IMAGE_GLOBALS \<Rightarrow> 's \<Rightarrow> 'p FW_IMAGE_PRIVATE_DATA
   \<Rightarrow> (EFI_STATUS \<times> 'p FW_IMAGE_PRIVATE_DATA) option" where
  "FwImageGetPartitionAttributes T M s Private =
     (if HasAImage Private \<and> HasBImage Private then do {
        Partition \<leftarrow> ActiveImagePartition M Private;
        (Status, A) \<leftarrow> PartitionGetAttributes T Partition s;
        if EFI_ERROR Status then Some (Status, Private)
        else do {
          let Private = Private\<lparr>ImageAttributes := (ImageAttributes Private)\<lparr>
                ReadBytes := AttrBytes A, BlockSize := AttrBlockSize A,
                EraseBlockSize := AttrEraseBlockSize A\<rparr>\<rparr>;
          Partition \<leftarrow> InactiveImagePartition M Private;
          (Status, B) \<leftarrow> PartitionGetAttributes T Partition s;
          if EFI_ERROR Status then Some (Status, Private)
          else Some (EFI_SUCCESS, Private\<lparr>ImageAttributes := (ImageAttributes Private)\<lparr>
                 WriteBytes := AttrBytes B,
                 BlockSize := max (AttrBlockSize B) (BlockSize (ImageAttributes Private)),
                 EraseBlockSize := max (AttrEraseBlockSize B) (EraseBlockSize (ImageAttributes Private))\<rparr>\<rparr>) } }
      else do {
        Partition \<leftarrow> (if HasAImage Private then FwPartitionA Private else FwPartitionB Private);
        (Status, A) \<leftarrow> PartitionGetAttributes T Partition s;
        if EFI_ERROR Status then Some (Status, Private)
        else Some (EFI_SUCCESS, Private\<lparr>ImageAttributes :=
               \<lparr> ReadBytes = AttrBytes A, WriteBytes = AttrBytes A, BlockSize = AttrBlockSize A,
                 EraseBlockSize = AttrEraseBlockSize A \<rparr>\<rparr>) })"

text \<open>The loop over the images from \<open>Index\<close> on, after a write that may have moved partitions.\<close>

primrec RefreshLoop ::
  "('p, 's) FW_PARTITION_PROTOCOL \<Rightarrow> nat \<Rightarrow> nat \<Rightarrow> EFI_STATUS \<Rightarrow> 'p FW_IMAGE_GLOBALS \<Rightarrow> 's
   \<Rightarrow> (EFI_STATUS \<times> 'p FW_IMAGE_GLOBALS) option" where
  "RefreshLoop T 0 Index Status M s = Some (Status, M)"
| "RefreshLoop T (Suc n) Index Status M s = do {
     (Status, Private) \<leftarrow> FwImageGetPartitionAttributes T M s (mImages M ! Index);
     let M = M\<lparr>mImages := (mImages M)[Index := Private]\<rparr>;
     if EFI_ERROR Status then Some (Status, M)
     else RefreshLoop T n (Index + 1) Status M s }"

definition FwImageWriteToUpdateInactivePartitions ::
  "('p, 's) FW_PARTITION_PROTOCOL \<Rightarrow> 'p FW_IMAGE_GLOBALS \<Rightarrow> nat option \<Rightarrow> nat \<Rightarrow> nat
   \<Rightarrow> byte list option \<Rightarrow> nat \<Rightarrow> 's \<Rightarrow> (EFI_STATUS \<times> 'p FW_IMAGE_GLOBALS \<times> 's) option" where
  "FwImageWriteToUpdateInactivePartitions T M This Offset' Bytes' Buffer Flags s = do {
     (Status, s) \<leftarrow> FwImageWrite T M This Offset' Bytes' Buffer Flags s;
     if EFI_ERROR Status then Some (Status, M, s)
     else do {
       (Status, M) \<leftarrow> RefreshLoop T (length (mImages M)) 0 Status M s;
       Some (Status, M, s) } }"

section \<open>Building the images\<close>

primrec FindImageFrom :: "wstring \<Rightarrow> 'p FW_IMAGE_PRIVATE_DATA list \<Rightarrow> nat \<Rightarrow> nat option" where
  "FindImageFrom Name' [] Index = None"
| "FindImageFrom Name' (P # Ps) Index =
     (if Name' = ImageName P then Some Index else FindImageFrom Name' Ps (Index + 1))"

definition FwImageFind :: "'p FW_IMAGE_GLOBALS \<Rightarrow> wstring \<Rightarrow> nat option" where
  "FwImageFind M Name' = FindImageFrom Name' (mImages M) 0"

definition FwImageHasNoBackup :: "'p FW_IMAGE_PRIVATE_DATA \<Rightarrow> bool" where
  "FwImageHasNoBackup Private \<longleftrightarrow>
     ImageName Private = BR_BCT_BACKUP_PARTITION_NAME
   \<or> ImageName Private = FW_PARTITION_UPDATE_INACTIVE_PARTITIONS"

text \<open>\<open>Pcd\<close> is \<open>PcdFwImageEnableBPartitions\<close>.\<close>

definition FwImageIsReadyToInstall :: "bool \<Rightarrow> 'p FW_IMAGE_PRIVATE_DATA \<Rightarrow> bool" where
  "FwImageIsReadyToInstall Pcd Private \<longleftrightarrow>
     FwPartitionA Private \<noteq> None
   \<and> (Pcd \<and> FwPartitionB Private \<noteq> None \<or> \<not> Pcd \<or> FwImageHasNoBackup Private)"

text \<open>A zeroed element of the array. The name is copied with \<open>sizeof (Private->Name)\<close>, 72, as its size.\<close>

definition SIZE_OF_NAME :: nat where "SIZE_OF_NAME = 72"

definition NewImage :: "'p FW_IMAGE_PRIVATE_DATA" where
  "NewImage = \<lparr> ImageName = [], ImageAttributes = NoImageAttributes,
                FwPartitionA = None, FwPartitionB = None, ProtocolWrite = None, Installed = False \<rparr>"

text \<open>
  The image of a base name, found or added; \<open>None\<close> in the result lets the caller go on with
  the next handle. A refused copy leaves the added image without a name.
\<close>

definition FindOrAddImage ::
  "EDK2_STRINGS \<Rightarrow> wstring \<Rightarrow> 'p FW_IMAGE_GLOBALS \<Rightarrow> 'p FW_IMAGE_GLOBALS \<times> nat option" where
  "FindOrAddImage L Name' M =
     (case FwImageFind M Name' of
        Some i \<Rightarrow> (M, Some i)
      | None \<Rightarrow>
          if length (mImages M) \<ge> FW_IMAGE_MAX_IMAGES then (M, None)
          else (case StrnCpyS L SIZE_OF_NAME Name' (length Name') [] of (Status, Copied) \<Rightarrow>
            (M\<lparr>mImages := mImages M @ [NewImage\<lparr>ImageName := Copied\<rparr>]\<rparr>,
             if EFI_ERROR Status then None else Some (length (mImages M)))))"

definition SetPartition ::
  "bool \<Rightarrow> nat \<Rightarrow> 'p \<Rightarrow> 'p FW_IMAGE_PRIVATE_DATA \<Rightarrow> 'p FW_IMAGE_PRIVATE_DATA option" where
  "SetPartition Pcd BootChain Partition Private =
     (if BootChain = BOOT_CHAIN_A then Some (Private\<lparr>FwPartitionA := Some Partition\<rparr>)
      else if BootChain = BOOT_CHAIN_B then
        Some (if Pcd then Private\<lparr>FwPartitionB := Some Partition\<rparr> else Private)
      else None)"

text \<open>
  The installation of the protocol succeeds unless it is already installed on the handle.
\<close>

definition InstallImage ::
  "('p, 's) FW_PARTITION_PROTOCOL \<Rightarrow> bool \<Rightarrow> 'p FW_IMAGE_GLOBALS \<Rightarrow> 's \<Rightarrow> 'p FW_IMAGE_PRIVATE_DATA
   \<Rightarrow> 'p FW_IMAGE_PRIVATE_DATA option" where
  "InstallImage T Pcd M s Private =
     (if FwImageIsReadyToInstall Pcd Private then do {
        (Status, Private) \<leftarrow> FwImageGetPartitionAttributes T M s Private;
        Some (if EFI_ERROR Status then Private else Private\<lparr>Installed := True\<rparr>) }
      else Some Private)"

text \<open>One handle: what \<open>HandleProtocol\<close> returns for it.\<close>

definition AddPartitionHandle ::
  "EDK2_STRINGS \<Rightarrow> ('p, 's) FW_PARTITION_PROTOCOL \<Rightarrow> bool \<Rightarrow> EFI_STATUS \<times> 'p option \<Rightarrow> 's
   \<Rightarrow> 'p FW_IMAGE_GLOBALS \<Rightarrow> 'p FW_IMAGE_GLOBALS option" where
  "AddPartitionHandle L T Pcd Handle s M =
     (case Handle of
        (Status, None) \<Rightarrow> Some M
      | (Status, Some Partition) \<Rightarrow>
          if EFI_ERROR Status then Some M
          else if PartitionName T Partition s = W ''BCT'' then Some M
          else do {
            (Status, BaseName, BootChain) \<leftarrow>
              GetPartitionBaseNameAndBootChainAny L (Some (PartitionName T Partition s)) (Some []) (Some 0);
            if EFI_ERROR Status then Some M
            else do {
              Base \<leftarrow> BaseName;
              Chain \<leftarrow> BootChain;
              (case FindOrAddImage L Base M of
                 (M, None) \<Rightarrow> Some M
               | (M, Some i) \<Rightarrow>
                   (case SetPartition Pcd Chain Partition (mImages M ! i) of
                      None \<Rightarrow> Some M
                    | Some Private \<Rightarrow> do {
                        let Private = Private\<lparr>ProtocolWrite := Some
                              (if ImageName Private = FW_PARTITION_UPDATE_INACTIVE_PARTITIONS
                               then WriteToUpdateInactiveFunction else WriteFunction)\<rparr>;
                        let M' = M\<lparr>mImages := (mImages M)[i := Private]\<rparr>;
                        Private \<leftarrow> InstallImage T Pcd M' s Private;
                        Some (M\<lparr>mImages := (mImages M)[i := Private]\<rparr>) })) } })"

primrec FwImageProtocolCallback ::
  "EDK2_STRINGS \<Rightarrow> ('p, 's) FW_PARTITION_PROTOCOL \<Rightarrow> bool \<Rightarrow> (EFI_STATUS \<times> 'p option) list \<Rightarrow> 's
   \<Rightarrow> 'p FW_IMAGE_GLOBALS \<Rightarrow> 'p FW_IMAGE_GLOBALS option" where
  "FwImageProtocolCallback L T Pcd [] s M = Some M"
| "FwImageProtocolCallback L T Pcd (Handle # Handles) s M = do {
     M' \<leftarrow> AddPartitionHandle L T Pcd Handle s M;
     FwImageProtocolCallback L T Pcd Handles s M' }"

section \<open>The image protocol\<close>

text \<open>The protocol of an image as its clients call it, with the image as the argument \<open>This\<close>.\<close>

record ('i, 's) NVIDIA_FW_IMAGE_PROTOCOL =
  ImageRead :: "'i \<Rightarrow> nat \<Rightarrow> nat \<Rightarrow> byte list \<Rightarrow> nat \<Rightarrow> 's \<Rightarrow> (EFI_STATUS \<times> byte list \<times> 's) option"
  ImageWrite :: "'i \<Rightarrow> nat \<Rightarrow> nat \<Rightarrow> byte list \<Rightarrow> nat \<Rightarrow> 's \<Rightarrow> (EFI_STATUS \<times> 's) option"
  ImageGetAttributes :: "'i \<Rightarrow> 's \<Rightarrow> (EFI_STATUS \<times> FW_IMAGE_ATTRIBUTES) option"

definition ImageProtocol ::
  "('p, 's) FW_PARTITION_PROTOCOL \<Rightarrow> (nat, 'p FW_IMAGE_GLOBALS \<times> 's) NVIDIA_FW_IMAGE_PROTOCOL" where
  "ImageProtocol T =
     \<lparr> ImageRead = (\<lambda>i Offset' Bytes' Buffer Flags (M, s). do {
         (Status, Data, s') \<leftarrow> FwImageRead T M (Some i) Offset' Bytes' (Some Buffer) Flags s;
         Data \<leftarrow> Data;
         Some (Status, Data, (M, s')) }),
       ImageWrite = (\<lambda>i Offset' Bytes' Buffer Flags (M, s).
         if i \<ge> length (mImages M) then None
         else (case ProtocolWrite (mImages M ! i) of
             None \<Rightarrow> None
           | Some WriteFunction \<Rightarrow> do {
               (Status, s') \<leftarrow> FwImageWrite T M (Some i) Offset' Bytes' (Some Buffer) Flags s;
               Some (Status, (M, s')) }
           | Some WriteToUpdateInactiveFunction \<Rightarrow> do {
               (Status, M', s') \<leftarrow>
                 FwImageWriteToUpdateInactivePartitions T M (Some i) Offset' Bytes' (Some Buffer) Flags s;
               Some (Status, (M', s')) })),
       ImageGetAttributes = (\<lambda>i (M, s). do {
         (Status, Attributes) \<leftarrow> FwImageGetAttributes M (Some i) (Some NoImageAttributes);
         Found \<leftarrow> Attributes;
         Some (Status, Found) }) \<rparr>"

section \<open>The array of a client\<close>

text \<open>
  An element of the array: the name in the protocol structure and the protocol. The array is
  \<open>None\<close> while it is a null pointer. The callback of the client is counted.
\<close>

record 'i FW_IMAGE_LIB =
  mFwImages :: "(wstring \<times> 'i) list option"
  mNumImages :: nat
  mImageAddedCallback :: bool
  ImageAddedCalls :: nat

definition FwImageFindProtocol :: "'i FW_IMAGE_LIB \<Rightarrow> wstring \<Rightarrow> 'i option" where
  "FwImageFindProtocol Lib Name' =
     (case mFwImages Lib of
        None \<Rightarrow> None
      | Some Images \<Rightarrow>
          map_option snd (find (\<lambda>(n, i). StrnCmpIsZero n Name' FW_IMAGE_NAME_LENGTH)
            (take (mNumImages Lib) Images)))"

definition FwImageGetCount :: "'i FW_IMAGE_LIB \<Rightarrow> nat" where
  "FwImageGetCount Lib = mNumImages Lib"

definition FwImageGetProtocolArray :: "'i FW_IMAGE_LIB \<Rightarrow> (wstring \<times> 'i) list option" where
  "FwImageGetProtocolArray Lib = mFwImages Lib"

definition FwImageRegisterImageAddedCallback :: "bool \<Rightarrow> 'i FW_IMAGE_LIB \<Rightarrow> 'i FW_IMAGE_LIB" where
  "FwImageRegisterImageAddedCallback Callback Lib =
     Lib\<lparr>mImageAddedCallback := Callback,
         ImageAddedCalls := ImageAddedCalls Lib + (if Callback \<and> mNumImages Lib > 0 then 1 else 0)\<rparr>"

text \<open>
  The notification: for every handle the result of \<open>HandleProtocol\<close>. The new protocol is stored
  behind the last one before it is looked up.
\<close>

primrec FwImageLibProtocolCallback ::
  "(EFI_STATUS \<times> wstring \<times> 'i) list \<Rightarrow> 'i FW_IMAGE_LIB \<Rightarrow> 'i FW_IMAGE_LIB option" where
  "FwImageLibProtocolCallback [] Lib =
     Some (Lib\<lparr>ImageAddedCalls := ImageAddedCalls Lib + (if mImageAddedCallback Lib then 1 else 0)\<rparr>)"
| "FwImageLibProtocolCallback (Handle # Handles) Lib =
     (case mFwImages Lib of
        None \<Rightarrow> None
      | Some Images \<Rightarrow>
          if mNumImages Lib \<ge> FW_IMAGE_MAX_IMAGES then None
          else (case Handle of (Status, New) \<Rightarrow>
            if EFI_ERROR Status \<or> FwImageFindProtocol Lib (fst New) \<noteq> None
            then Some (Lib\<lparr>mFwImages := None, mNumImages := 0\<rparr>)
            else FwImageLibProtocolCallback Handles
                   (Lib\<lparr>mFwImages := Some (take (mNumImages Lib) Images @ [New]),
                        mNumImages := mNumImages Lib + 1\<rparr>)))"

text \<open>The pool is a parameter. Without memory the notification is not created either.\<close>

definition FwImageLibConstructor :: "bool \<Rightarrow> 'i FW_IMAGE_LIB" where
  "FwImageLibConstructor Allocated =
     \<lparr> mFwImages = (if Allocated then Some [] else None), mNumImages = 0,
       mImageAddedCallback = False, ImageAddedCalls = 0 \<rparr>"

end
