(* ===== verification/FwPartitionDrivers.thy ===== *)
theory FwPartitionDrivers
  imports FwPartition NorFlash
begin

text \<open>
  The two drivers that put firmware partitions on a storage device: \<open>FwPartitionNorFlashDxe.c\<close> on the
  NOR flash protocol and \<open>FwPartitionBlockIoDxe.c\<close> on block devices, the eMMC user partition
  and its two boot partitions. Each fills the device table from the handles it finds and gives
  \<open>FwPartitionDeviceLib\<close> a read and a write function.

  The flash and block protocols are records of operations on an arbitrary world. A handle is what
  the boot services return for it. Division by a block size of zero, reading past the end of a
  buffer or of a device path and a failed \<open>ASSERT\<close> have no result. Pool memory, the alignment of
  the caller's buffer and whether the boot services have ended are parameters.
\<close>

section \<open>Alignment\<close>

text \<open>
  \<open>ALIGN_VALUE (Value, Alignment)\<close> of a \<open>UINTN\<close> and a \<open>UINT32\<close>: the mask is a \<open>UINT32\<close>.
\<close>

definition ALIGN_VALUE :: "nat \<Rightarrow> nat \<Rightarrow> nat" where
  "ALIGN_VALUE Value Alignment = add64 Value (sub64 Alignment Value AND u32 (Alignment + (2 ^ 32 - 1)))"

section \<open>NOR flash\<close>

definition MAX_NOR_FLASH_DEVICES :: nat where "MAX_NOR_FLASH_DEVICES = 1"

text \<open>The attributes the driver uses; the others are programming times.\<close>

record NOR_FLASH_ATTRIBUTES =
  MemoryDensity :: nat
  NorBlockSize :: nat

record 'w FW_PARTITION_NOR_FLASH_INFO =
  NorBytes :: nat
  NorAttributes :: NOR_FLASH_ATTRIBUTES
  NorFlash :: "'w NOR_FLASH_PROTOCOL"
  UnalignedGptStart :: nat

definition FPNorFlashErase ::
  "'w FW_PARTITION_NOR_FLASH_INFO \<Rightarrow> nat \<Rightarrow> nat \<Rightarrow> 'w \<Rightarrow> (EFI_STATUS \<times> 'w) option" where
  "FPNorFlashErase I Offset' Bytes' w =
     (let EraseBlockSize = NorBlockSize (NorAttributes I);
          Status = FwPartitionCheckOffsetAndBytes (NorBytes I) Offset' Bytes' in
      if EFI_ERROR Status then Some (Status, w)
      else if EraseBlockSize = 0 then None
      else if Offset' mod EraseBlockSize \<noteq> 0 then Some (EFI_INVALID_PARAMETER, w)
      else
        let OffsetLba = u32 (Offset' div EraseBlockSize);
            LbaCount = u32 (ALIGN_VALUE Bytes' EraseBlockSize div EraseBlockSize) in
        Some (NorErase (NorFlash I) OffsetLba LbaCount w))"

definition FPNorFlashRead ::
  "'w FW_PARTITION_NOR_FLASH_INFO \<Rightarrow> nat \<Rightarrow> nat \<Rightarrow> byte list \<Rightarrow> 'w
   \<Rightarrow> (EFI_STATUS \<times> byte list \<times> 'w) option" where
  "FPNorFlashRead I Offset' Bytes' Buffer w =
     (let Status = FwPartitionCheckOffsetAndBytes (NorBytes I) Offset' Bytes' in
      if EFI_ERROR Status then Some (Status, Buffer, w)
      else (case NorRead (NorFlash I) (u32 Offset') (u32 Bytes') w of (Status, Data) \<Rightarrow> do {
        Buffer' \<leftarrow> store_bytes Buffer 0 Data;
        Some (Status, Buffer', w) }))"

text \<open>
  What is erased before a write: the blocks from an aligned offset on, or, for the copy of the
  partition table that starts inside a block, from the start of that block on.
\<close>

definition EraseBeforeWrite ::
  "'w FW_PARTITION_NOR_FLASH_INFO \<Rightarrow> nat \<Rightarrow> nat \<Rightarrow> 'w \<Rightarrow> (EFI_STATUS \<times> 'w) option" where
  "EraseBeforeWrite I Offset' Bytes' w =
     (let BlockSize = NorBlockSize (NorAttributes I) in
      if BlockSize = 0 then None
      else if Offset' mod BlockSize = 0 then FPNorFlashErase I Offset' Bytes' w
      else if Offset' = UnalignedGptStart I then
        FPNorFlashErase I (Offset' - Offset' mod BlockSize) (add64 Bytes' (Offset' mod BlockSize)) w
      else Some (EFI_SUCCESS, w))"

definition FPNorFlashWrite ::
  "'w FW_PARTITION_NOR_FLASH_INFO \<Rightarrow> nat \<Rightarrow> nat \<Rightarrow> byte list \<Rightarrow> 'w \<Rightarrow> (EFI_STATUS \<times> 'w) option" where
  "FPNorFlashWrite I Offset' Bytes' Buffer w =
     (let Status = FwPartitionCheckOffsetAndBytes (NorBytes I) Offset' Bytes' in
      if EFI_ERROR Status then Some (Status, w)
      else do {
        (Status, w) \<leftarrow> EraseBeforeWrite I Offset' Bytes' w;
        if EFI_ERROR Status then Some (Status, w)
        else do {
          Data \<leftarrow> load_bytes Buffer 0 (u32 Bytes');
          Some (NorWrite (NorFlash I) (u32 Offset') (u32 Bytes') Data w) } })"

text \<open>What the boot services and the flash return for one handle.\<close>

record 'w NOR_HANDLE =
  NorDevicePath :: "EFI_STATUS \<times> bool"
  NorProtocol :: "EFI_STATUS \<times> 'w NOR_FLASH_PROTOCOL option"
  NorGetAttributes :: "EFI_STATUS \<times> NOR_FLASH_ATTRIBUTES"

text \<open>The new element of the device table; the bytes of the start of the table are those of the inactive chain.\<close>

definition NorFlashInfo ::
  "nat \<Rightarrow> 'w NOR_FLASH_PROTOCOL \<Rightarrow> NOR_FLASH_ATTRIBUTES \<Rightarrow> 'w FW_PARTITION_NOR_FLASH_INFO option" where
  "NorFlashInfo ActiveBootChain N Attributes = do {
     GptStart \<leftarrow> GptGetGptDataOffset (OTHER_BOOT_CHAIN ActiveBootChain) (MemoryDensity Attributes)
       (NorBlockSize Attributes);
     Some \<lparr> NorBytes = MemoryDensity Attributes, NorAttributes = Attributes, NorFlash = N,
            UnalignedGptStart = GptStart \<rparr> }"

primrec NorHandlesLoop ::
  "nat \<Rightarrow> 'w NOR_HANDLE list \<Rightarrow> 'w FW_PARTITION_NOR_FLASH_INFO list
   \<Rightarrow> 'w FW_PARTITION_NOR_FLASH_INFO list option" where
  "NorHandlesLoop ActiveBootChain [] Devices = Some Devices"
| "NorHandlesLoop ActiveBootChain (H # Hs) Devices =
     (if EFI_ERROR (fst (NorDevicePath H)) \<or> \<not> snd (NorDevicePath H)
      then NorHandlesLoop ActiveBootChain Hs Devices
      else (case NorProtocol H of
          (Status, Some N) \<Rightarrow>
            if EFI_ERROR Status then NorHandlesLoop ActiveBootChain Hs Devices
            else if EFI_ERROR (fst (NorGetAttributes H)) then NorHandlesLoop ActiveBootChain Hs Devices
            else if length Devices \<ge> MAX_NOR_FLASH_DEVICES then Some Devices
            else do {
              Info \<leftarrow> NorFlashInfo ActiveBootChain N (snd (NorGetAttributes H));
              NorHandlesLoop ActiveBootChain Hs (Devices @ [Info]) }
        | (Status, None) \<Rightarrow> NorHandlesLoop ActiveBootChain Hs Devices))"

definition FPNorFlashInitDevices ::
  "nat \<Rightarrow> EFI_STATUS \<times> 'w NOR_HANDLE list
   \<Rightarrow> (EFI_STATUS \<times> 'w FW_PARTITION_NOR_FLASH_INFO list) option" where
  "FPNorFlashInitDevices ActiveBootChain Located =
     (case Located of (Status, Handles) \<Rightarrow>
        if EFI_ERROR Status then Some (Status, [])
        else do {
          Devices \<leftarrow> NorHandlesLoop ActiveBootChain Handles [];
          Some (EFI_SUCCESS, Devices) })"

text \<open>The driver leaves the read function for the PRM phase null.\<close>

definition NorDeviceOps :: "'w FW_PARTITION_NOR_FLASH_INFO list \<Rightarrow> 'w DEVICE_OPS" where
  "NorDeviceOps Devices =
     \<lparr> DeviceRead = (\<lambda>d PartitionName Offset' Bytes' Buffer w.
         if d < length Devices then FPNorFlashRead (Devices ! d) Offset' Bytes' Buffer w else None),
       DevicePrmRead = (\<lambda>d PartitionName Offset' Bytes' Buffer w. None),
       DeviceWrite = (\<lambda>d PartitionName Offset' Bytes' Buffer w.
         if d < length Devices then FPNorFlashWrite (Devices ! d) Offset' Bytes' Buffer w else None),
       DeviceBlockSize = (\<lambda>d. NorBlockSize (NorAttributes (Devices ! d))),
       DeviceEraseBlockSize = (\<lambda>d. NorBlockSize (NorAttributes (Devices ! d))) \<rparr>"

section \<open>Block devices\<close>

definition FW_PARTITION_BLOCK_IO_MAX_DEVICES :: nat where "FW_PARTITION_BLOCK_IO_MAX_DEVICES = 3"
definition FW_PARTITION_USER_PARTITION :: nat where "FW_PARTITION_USER_PARTITION = 0"
definition FW_PARTITION_BOOT_PARTITION_ZERO :: nat where "FW_PARTITION_BOOT_PARTITION_ZERO = 1"
definition FW_PARTITION_BOOT_PARTITION_ONE :: nat where "FW_PARTITION_BOOT_PARTITION_ONE = 2"
definition FW_PARTITION_LOCAL_BUFFER_BLOCKS :: nat where "FW_PARTITION_LOCAL_BUFFER_BLOCKS = 8"

text \<open>
  \<open>EFI_BLOCK_IO_PROTOCOL\<close> of EDK2 as far as the driver uses it: the media, the transfer of whole
  blocks, and whether the buffer of the current call meets the alignment of the media.
\<close>

record 'w EFI_BLOCK_IO_PROTOCOL =
  MediaBlockSize :: nat
  MediaLastBlock :: nat
  MediaLogicalPartition :: bool
  ReadBlocks :: "nat \<Rightarrow> nat \<Rightarrow> 'w \<Rightarrow> EFI_STATUS \<times> byte list"
  WriteBlocks :: "nat \<Rightarrow> nat \<Rightarrow> byte list \<Rightarrow> 'w \<Rightarrow> EFI_STATUS \<times> 'w"
  BufferIsAligned :: "'w \<Rightarrow> bool"

record 'w FW_PARTITION_BLOCK_IO_INFO =
  BlockIoBytes :: nat
  BlockIo :: "'w EFI_BLOCK_IO_PROTOCOL"

text \<open>
  \<open>AtRuntime\<close> is \<open>EfiAtRuntime ()\<close>; \<open>AllocateLocal\<close> is the pool, which fails or gives a buffer
  that meets the alignment of the media or not.
\<close>

record BLOCK_IO_SERVICES =
  AtRuntime :: bool
  AllocateLocal :: "nat \<Rightarrow> bool option"

definition FPBlockIoRead ::
  "BLOCK_IO_SERVICES \<Rightarrow> 'w FW_PARTITION_BLOCK_IO_INFO \<Rightarrow> nat \<Rightarrow> nat \<Rightarrow> byte list \<Rightarrow> 'w
   \<Rightarrow> (EFI_STATUS \<times> byte list \<times> 'w) option" where
  "FPBlockIoRead V I Offset' Bytes' Buffer w =
     (let BlockSize = MediaBlockSize (BlockIo I) in
      if AtRuntime V then Some (EFI_UNSUPPORTED, Buffer, w)
      else if BlockSize = 0 then None
      else if Offset' mod BlockSize \<noteq> 0 \<or> \<not> BufferIsAligned (BlockIo I) w \<or> Bytes' mod BlockSize \<noteq> 0
      then Some (EFI_INVALID_PARAMETER, Buffer, w)
      else
        let Status = FwPartitionCheckOffsetAndBytes (BlockIoBytes I) Offset' Bytes' in
        if EFI_ERROR Status then Some (Status, Buffer, w)
        else (case ReadBlocks (BlockIo I) (Offset' div BlockSize) Bytes' w of (Status, Data) \<Rightarrow> do {
          Buffer' \<leftarrow> store_bytes Buffer 0 Data;
          Some (Status, Buffer', w) }))"

text \<open>
  The number of bytes of one transfer through the local buffer, rounded up to whole blocks, and the
  bytes it holds then: those that are left, padded with zeros.
\<close>

definition LocalTransfer :: "nat \<Rightarrow> nat \<Rightarrow> nat \<Rightarrow> nat" where
  "LocalTransfer BlockSize LocalBufferSize Bytes' =
     (if Bytes' \<ge> LocalBufferSize then LocalBufferSize else ALIGN_VALUE Bytes' BlockSize)"

partial_function (option) BlockWriteLoop ::
  "'w EFI_BLOCK_IO_PROTOCOL \<Rightarrow> nat option \<Rightarrow> nat \<Rightarrow> nat \<Rightarrow> byte list \<Rightarrow> 'w
   \<Rightarrow> (EFI_STATUS \<times> 'w) option" where
  "BlockWriteLoop B Local Lba Bytes' Buffer w =
     (if Bytes' = 0 then Some (EFI_SUCCESS, w)
      else do {
        let BytesToWrite = (case Local of None \<Rightarrow> Bytes'
                            | Some LocalBufferSize \<Rightarrow> LocalTransfer (MediaBlockSize B) LocalBufferSize Bytes');
        Data \<leftarrow> load_bytes Buffer 0 (min Bytes' BytesToWrite);
        (case WriteBlocks B Lba BytesToWrite (Data @ replicate (BytesToWrite - Bytes') 0) w of
           (Status, w) \<Rightarrow>
             if EFI_ERROR Status then Some (Status, w)
             else BlockWriteLoop B Local (Lba + BytesToWrite div MediaBlockSize B)
                    (Bytes' - min Bytes' BytesToWrite) (drop BytesToWrite Buffer) w) })"

definition FPBlockIoWrite ::
  "BLOCK_IO_SERVICES \<Rightarrow> 'w FW_PARTITION_BLOCK_IO_INFO \<Rightarrow> nat \<Rightarrow> nat \<Rightarrow> byte list \<Rightarrow> 'w
   \<Rightarrow> (EFI_STATUS \<times> 'w) option" where
  "FPBlockIoWrite V I Offset' Bytes' Buffer w =
     (let B = BlockIo I; BlockSize = MediaBlockSize B in
      if AtRuntime V then Some (EFI_UNSUPPORTED, w)
      else if BlockSize = 0 then None
      else if Offset' mod BlockSize \<noteq> 0 then Some (EFI_INVALID_PARAMETER, w)
      else
        let Status = FwPartitionCheckOffsetAndBytes (BlockIoBytes I) Offset' Bytes' in
        if EFI_ERROR Status then Some (Status, w)
        else if BufferIsAligned B w \<and> Bytes' mod BlockSize = 0
        then BlockWriteLoop B None (Offset' div BlockSize) Bytes' Buffer w
        else
          let LocalBufferSize = FW_PARTITION_LOCAL_BUFFER_BLOCKS * BlockSize in
          (case AllocateLocal V LocalBufferSize of
             None \<Rightarrow> Some (EFI_OUT_OF_RESOURCES, w)
           | Some False \<Rightarrow> None
           | Some True \<Rightarrow>
               BlockWriteLoop B (Some LocalBufferSize) (Offset' div BlockSize) Bytes' Buffer w))"

text \<open>
  The two boot partitions of an eMMC are one device, the second one after the first. An element
  of the table that was not filled has a null protocol.
\<close>

definition BootPartitionAt ::
  "'w FW_PARTITION_BLOCK_IO_INFO list \<Rightarrow> nat \<Rightarrow> ('w FW_PARTITION_BLOCK_IO_INFO \<times> nat) option" where
  "BootPartitionAt Devices Offset' =
     (if length Devices \<le> FW_PARTITION_BOOT_PARTITION_ZERO then None
      else
        let Zero = Devices ! FW_PARTITION_BOOT_PARTITION_ZERO in
        if Offset' < BlockIoBytes Zero then Some (Zero, Offset')
        else if length Devices \<le> FW_PARTITION_BOOT_PARTITION_ONE then None
        else Some (Devices ! FW_PARTITION_BOOT_PARTITION_ONE, Offset' - BlockIoBytes Zero))"

definition FPBlockIoReadBootPartition ::
  "BLOCK_IO_SERVICES \<Rightarrow> 'w FW_PARTITION_BLOCK_IO_INFO list \<Rightarrow> nat \<Rightarrow> nat \<Rightarrow> byte list \<Rightarrow> 'w
   \<Rightarrow> (EFI_STATUS \<times> byte list \<times> 'w) option" where
  "FPBlockIoReadBootPartition V Devices Offset' Bytes' Buffer w = do {
     (I, Offset') \<leftarrow> BootPartitionAt Devices Offset';
     FPBlockIoRead V I Offset' Bytes' Buffer w }"

definition FPBlockIoWriteBootPartition ::
  "BLOCK_IO_SERVICES \<Rightarrow> 'w FW_PARTITION_BLOCK_IO_INFO list \<Rightarrow> nat \<Rightarrow> nat \<Rightarrow> byte list \<Rightarrow> 'w
   \<Rightarrow> (EFI_STATUS \<times> 'w) option" where
  "FPBlockIoWriteBootPartition V Devices Offset' Bytes' Buffer w = do {
     (I, Offset') \<leftarrow> BootPartitionAt Devices Offset';
     FPBlockIoWrite V I Offset' Bytes' Buffer w }"

text \<open>
  Device paths are the lists of type and subtype of their nodes before the end node. After an eMMC
  node the scan stands on the node behind it, and goes on with the next one: when the eMMC node is
  the last one, that is the end node, and the scan leaves the path.
\<close>

definition HARDWARE_DEVICE_PATH :: nat where "HARDWARE_DEVICE_PATH = 1"
definition MESSAGING_DEVICE_PATH :: nat where "MESSAGING_DEVICE_PATH = 3"
definition HW_CONTROLLER_DP :: nat where "HW_CONTROLLER_DP = 5"
definition MSG_SD_DP :: nat where "MSG_SD_DP = 26"
definition MSG_EMMC_DP :: nat where "MSG_EMMC_DP = 29"

fun FPBlockIoIsSupportedDevicePath :: "(nat \<times> nat) list \<Rightarrow> bool option" where
  "FPBlockIoIsSupportedDevicePath [] = Some False"
| "FPBlockIoIsSupportedDevicePath ((Type, SubType) # Path) =
     (if Type \<noteq> MESSAGING_DEVICE_PATH then FPBlockIoIsSupportedDevicePath Path
      else if SubType = MSG_EMMC_DP then
        (case Path of
           [] \<Rightarrow> None
         | (Type', SubType') # Path' \<Rightarrow>
             if Type' = HARDWARE_DEVICE_PATH \<and> SubType' = HW_CONTROLLER_DP then Some (Path' = [])
             else if SubType' = MSG_SD_DP then Some (Path' = [])
             else FPBlockIoIsSupportedDevicePath Path')
      else if SubType = MSG_SD_DP then Some (Path = [])
      else FPBlockIoIsSupportedDevicePath Path)"

record 'w BLOCK_IO_HANDLE =
  BlockIoProtocol :: "EFI_STATUS \<times> 'w EFI_BLOCK_IO_PROTOCOL option"
  BlockIoDevicePath :: "EFI_STATUS \<times> (nat \<times> nat) list option"

definition BlockIoInfo :: "'w EFI_BLOCK_IO_PROTOCOL \<Rightarrow> 'w FW_PARTITION_BLOCK_IO_INFO" where
  "BlockIoInfo B = \<lparr> BlockIoBytes = (MediaLastBlock B + 1) * MediaBlockSize B mod 2 ^ 64, BlockIo = B \<rparr>"

primrec BlockIoHandlesLoop ::
  "'w BLOCK_IO_HANDLE list \<Rightarrow> 'w FW_PARTITION_BLOCK_IO_INFO list
   \<Rightarrow> 'w FW_PARTITION_BLOCK_IO_INFO list option" where
  "BlockIoHandlesLoop [] Devices = Some Devices"
| "BlockIoHandlesLoop (H # Hs) Devices =
     (case (BlockIoProtocol H, BlockIoDevicePath H) of
        ((Status, Some B), (Status', Some Path)) \<Rightarrow>
          if EFI_ERROR Status \<or> EFI_ERROR Status' \<or> MediaLogicalPartition B
          then BlockIoHandlesLoop Hs Devices
          else do {
            Supported \<leftarrow> FPBlockIoIsSupportedDevicePath Path;
            if \<not> Supported then BlockIoHandlesLoop Hs Devices
            else if length Devices \<ge> FW_PARTITION_BLOCK_IO_MAX_DEVICES then Some Devices
            else BlockIoHandlesLoop Hs (Devices @ [BlockIoInfo B]) }
      | _ \<Rightarrow> BlockIoHandlesLoop Hs Devices)"

definition FPBlockIoInitDevices ::
  "EFI_STATUS \<times> 'w BLOCK_IO_HANDLE list
   \<Rightarrow> (EFI_STATUS \<times> 'w FW_PARTITION_BLOCK_IO_INFO list) option" where
  "FPBlockIoInitDevices Located =
     (case Located of (Status, Handles) \<Rightarrow>
        if EFI_ERROR Status then Some (Status, [])
        else do {
          Devices \<leftarrow> BlockIoHandlesLoop Handles [];
          Some (EFI_SUCCESS, Devices) })"

text \<open>
  The erase block size of the device information is not set and stays zero.
\<close>

definition BlockIoDeviceOps ::
  "BLOCK_IO_SERVICES \<Rightarrow> 'w FW_PARTITION_BLOCK_IO_INFO list \<Rightarrow> 'w DEVICE_OPS" where
  "BlockIoDeviceOps V Devices =
     \<lparr> DeviceRead = (\<lambda>d PartitionName Offset' Bytes' Buffer w.
         if d \<ge> length Devices then None
         else if d = FW_PARTITION_USER_PARTITION
         then FPBlockIoRead V (Devices ! d) Offset' Bytes' Buffer w
         else FPBlockIoReadBootPartition V Devices Offset' Bytes' Buffer w),
       DevicePrmRead = (\<lambda>d PartitionName Offset' Bytes' Buffer w. None),
       DeviceWrite = (\<lambda>d PartitionName Offset' Bytes' Buffer w.
         if d \<ge> length Devices then None
         else if d = FW_PARTITION_USER_PARTITION
         then FPBlockIoWrite V (Devices ! d) Offset' Bytes' Buffer w
         else FPBlockIoWriteBootPartition V Devices Offset' Bytes' Buffer w),
       DeviceBlockSize = (\<lambda>d. MediaBlockSize (BlockIo (Devices ! d))),
       DeviceEraseBlockSize = (\<lambda>d. 0) \<rparr>"

end
