(* ===== verification/TegraFmp.thy ===== *)
theory TegraFmp
  imports FwImage FwPackage FwPartitionDrivers
begin

text \<open>
  The first half of \<open>TegraFmp.c\<close>, with \<open>UpdateProgress.c\<close> and \<open>FwImageNames.c\<close>: the state of the
  library, the progress it reports, and what it does with single images of a firmware package: find
  them, compare them with what the flash holds, write them in pieces of 32 KB and read them back.

  The package is the list of bytes from its header on; an image in the flash is reached through the
  image protocol and known by its pointer, of type \<open>'i\<close>. A read past the end of the package, a division
  by zero, a failed \<open>ASSERT\<close>, a null pointer and a loop that does not end have no result.
\<close>

section \<open>State\<close>

definition FMP_DATA_BUFFER_SIZE :: nat where "FMP_DATA_BUFFER_SIZE = 4 * 1024"
definition FMP_WRITE_LOOP_SIZE :: nat where "FMP_WRITE_LOOP_SIZE = 32 * 1024"
definition FMP_PROGRESS_CHECK_IMAGE :: nat where "FMP_PROGRESS_CHECK_IMAGE = 5"
definition FMP_PROGRESS_UPDATE_BCT :: nat where "FMP_PROGRESS_UPDATE_BCT = 5"

text \<open>
  The module variables. \<open>mDisplayed\<close> lists the completions that reached the display and \<open>mWatchdog\<close> is
  what the watchdog timer was last set to; \<open>mProgress\<close> and \<open>mInstaller\<close> say whether the function
  pointers are set, and \<open>InstallerCalls\<close> counts the calls of the installer.
\<close>

record FMP_GLOBALS =
  mTotalBytesToFlash :: nat
  mTotalBytesFlashed :: nat
  mTotalBytesToVerify :: nat
  mTotalBytesVerified :: nat
  mCurrentCompletion :: nat
  mPcdFmpWriteVerifyImage :: bool
  mPcdFmpSingleImageUpdate :: bool
  mFmpDataBuffer :: "byte list option"
  mFmpDataBufferSize :: nat
  mFmpLibInitialized :: bool
  mFmpLibInitializeFailed :: bool
  mPlatformCompatSpec :: "cstring option"
  mPlatformSpec :: "cstring option"
  mIsProductionFused :: bool
  mFmpBootChain :: nat
  mFwImagesRequired :: "wstring list option"
  mFwImagesRequiredCount :: nat
  mProgress :: bool
  mInstaller :: bool
  InstallerCalls :: nat
  mWatchdog :: nat
  mDisplayed :: "nat list"

definition FMP_PROGRESS_VERIFY_IMAGES :: "FMP_GLOBALS \<Rightarrow> nat" where
  "FMP_PROGRESS_VERIFY_IMAGES g = (if mPcdFmpWriteVerifyImage g then 30 else 0)"

definition FMP_PROGRESS_WRITE_IMAGES :: "FMP_GLOBALS \<Rightarrow> nat" where
  "FMP_PROGRESS_WRITE_IMAGES g = 90 - FMP_PROGRESS_VERIFY_IMAGES g"

text \<open>
  What the library uses for its images: the array of \<open>FwImageLib\<close>, the protocol of its elements, the
  conversion of a name by \<open>AsciiSPrintUnicodeFormat\<close>, the seconds of the watchdog and the display.
\<close>

record ('i, 's) FMP_IMAGES =
  FmpImageLib :: "'i FW_IMAGE_LIB"
  FmpProtocol :: "('i, 's) NVIDIA_FW_IMAGE_PROTOCOL"
  AsciiImageName :: "wstring \<Rightarrow> cstring"
  WatchdogSeconds :: nat
  DisplayUpdateProgress :: "nat \<Rightarrow> EFI_STATUS"

section \<open>Progress\<close>

definition UpdateImageProgress ::
  "('i, 's) FMP_IMAGES \<Rightarrow> nat \<Rightarrow> FMP_GLOBALS \<Rightarrow> EFI_STATUS \<times> FMP_GLOBALS" where
  "UpdateImageProgress I Completion g =
     (if Completion > 100 then (EFI_INVALID_PARAMETER, g)
      else (DisplayUpdateProgress I Completion,
        g\<lparr>mWatchdog := (if Completion \<noteq> 100 \<and> WatchdogSeconds I \<noteq> 0 then WatchdogSeconds I else 0),
          mDisplayed := mDisplayed g @ [Completion]\<rparr>))"

text \<open>\<open>mProgress\<close> is this function once it is set; its status is not used.\<close>

definition UpdateProgress :: "('i, 's) FMP_IMAGES \<Rightarrow> nat \<Rightarrow> FMP_GLOBALS \<Rightarrow> FMP_GLOBALS option" where
  "UpdateProgress I Completion g =
     (if mProgress g then Some (snd (UpdateImageProgress I Completion g)) else None)"

definition ImageVerifyProgress :: "('i, 's) FMP_IMAGES \<Rightarrow> nat \<Rightarrow> FMP_GLOBALS \<Rightarrow> FMP_GLOBALS option" where
  "ImageVerifyProgress I Bytes' g =
     (let g = g\<lparr>mTotalBytesVerified := add64 (mTotalBytesVerified g) Bytes'\<rparr> in
      if mTotalBytesToVerify g = 0 then None
      else
        let VerifyCompletion = mTotalBytesVerified g * FMP_PROGRESS_VERIFY_IMAGES g mod 2 ^ 64
              div mTotalBytesToVerify g in
        UpdateProgress I (add64 (mCurrentCompletion g) VerifyCompletion) g)"

definition ImageWriteProgress :: "('i, 's) FMP_IMAGES \<Rightarrow> nat \<Rightarrow> FMP_GLOBALS \<Rightarrow> FMP_GLOBALS option" where
  "ImageWriteProgress I Bytes' g =
     (if \<not> mProgress g then Some g
      else
        let g = g\<lparr>mTotalBytesFlashed := add64 (mTotalBytesFlashed g) Bytes'\<rparr> in
        if mTotalBytesToFlash g = 0 then None
        else
          let WriteCompletion = mTotalBytesFlashed g * FMP_PROGRESS_WRITE_IMAGES g mod 2 ^ 64
                div mTotalBytesToFlash g in
          UpdateProgress I (add64 (mCurrentCompletion g) WriteCompletion) g)"

definition SetImageProgress :: "('i, 's) FMP_IMAGES \<Rightarrow> nat \<Rightarrow> FMP_GLOBALS \<Rightarrow> FMP_GLOBALS option" where
  "SetImageProgress I CompletionIncrement g =
     (let g = g\<lparr>mCurrentCompletion := add64 (mCurrentCompletion g) CompletionIncrement\<rparr> in
      if \<not> mCurrentCompletion g \<le> 100 then None else UpdateProgress I (mCurrentCompletion g) g)"

section \<open>Names\<close>

definition SpecialImageNames :: "wstring list" where
  "SpecialImageNames = [W ''GPT'', W ''mb1'', FW_PARTITION_UPDATE_INACTIVE_PARTITIONS,
     BR_BCT_BACKUP_PARTITION_NAME]"

definition NoVerifyPartitionNames :: "wstring list" where
  "NoVerifyPartitionNames = [W ''BCT'', FW_PARTITION_UPDATE_INACTIVE_PARTITIONS,
     BR_BCT_BACKUP_PARTITION_NAME]"

definition MinimalUnsupportedImageNames :: "wstring list" where
  "MinimalUnsupportedImageNames = [W ''GPT'', FW_PARTITION_UPDATE_INACTIVE_PARTITIONS,
     BR_BCT_BACKUP_PARTITION_NAME]"

primrec FmpNameIsInList :: "wstring \<Rightarrow> wstring list \<Rightarrow> bool" where
  "FmpNameIsInList Name' [] = False"
| "FmpNameIsInList Name' (N # List) = (if Name' = N then True else FmpNameIsInList Name' List)"

definition IsSpecialImageName :: "wstring \<Rightarrow> bool" where
  "IsSpecialImageName ImageName' = FmpNameIsInList ImageName' SpecialImageNames"

text \<open>The list of required names is a null pointer when the pool had no memory for it.\<close>

definition MissingRequired :: "bool \<Rightarrow> wstring \<Rightarrow> FMP_GLOBALS \<Rightarrow> bool option" where
  "MissingRequired MinimalUpdate ImageName' g =
     (if MinimalUpdate then Some False
      else map_option (FmpNameIsInList ImageName') (mFwImagesRequired g))"

subsection \<open>The required images\<close>

definition SystemFwImageNamesCommon :: "wstring list" where
  "SystemFwImageNamesCommon = map W [''bpmp-fw'', ''bpmp-fw-dtb'', ''cpu-bootloader'', ''mb1'',
     ''MB1_BCT'', ''mb2'', ''MEM_BCT'', ''sc7'']"

definition SystemFwImageNamesAndroidT234 :: "wstring list" where
  "SystemFwImageNamesAndroidT234 = map W [''adsp-fw'', ''mb2rf'', ''mts-mce'', ''nvdec'', ''psc_bl1'',
     ''psc-fw'', ''pscrf'', ''secure-os'', ''spe-fw'']"

definition SystemFwImageNamesT234 :: "wstring list" where
  "SystemFwImageNamesT234 = map W [''adsp-fw'', ''dce-fw'', ''mb2rf'', ''mts-mce'', ''nvdec'',
     ''psc_bl1'', ''psc-fw'', ''pscrf'', ''pva-fw'', ''secure-os'', ''spe-fw'', ''rce-fw'', ''VER'']"

definition SystemFwImageNamesT264 :: "wstring list" where
  "SystemFwImageNamesT264 = map W [''adsp0-fw'', ''adsp1-fw'', ''psc_bl1'', ''psc-fw'', ''rce-fw'',
     ''VER'']"

definition GetListCount :: "wstring list \<Rightarrow> nat" where "GetListCount List = length List"

text \<open>\<open>Allocated\<close> says whether the pool has memory for the list; the count is stored before.\<close>

definition CombineLists :: "bool \<Rightarrow> wstring list \<Rightarrow> wstring list \<Rightarrow> wstring list option \<times> nat" where
  "CombineLists Allocated L1 L2 =
     (let Count = GetListCount L1 + GetListCount L2 in
      if \<not> Allocated then (None, Count) else (Some (L1 @ L2), Count))"

definition FwImageGetRequiredList ::
  "bool \<Rightarrow> bool \<Rightarrow> nat \<Rightarrow> (wstring list option \<times> nat) option" where
  "FwImageGetRequiredList Allocated PcdBootAndroidImage ChipId =
     (let (ImageList, ImageCount') =
        (if ChipId = T234_CHIP_ID then
           if PcdBootAndroidImage
           then CombineLists Allocated SystemFwImageNamesAndroidT234 SystemFwImageNamesCommon
           else CombineLists Allocated SystemFwImageNamesT234 SystemFwImageNamesCommon
         else if ChipId = T264_CHIP_ID
         then CombineLists Allocated SystemFwImageNamesT264 SystemFwImageNamesCommon
         else (Some [], 0)) in
      if ImageCount' \<le> FW_IMAGE_MAX_IMAGES then Some (ImageList, ImageCount') else None)"

section \<open>Images of the package\<close>

definition GetPackageImageName :: "FMP_GLOBALS \<Rightarrow> wstring \<Rightarrow> wstring" where
  "GetPackageImageName g Name' =
     (if Name' = W ''GPT'' \<or> Name' = FW_PARTITION_UPDATE_INACTIVE_PARTITIONS then
        if OTHER_BOOT_CHAIN (mFmpBootChain g) = BOOT_CHAIN_A then W ''secondary_gpt''
        else if OTHER_BOOT_CHAIN (mFmpBootChain g) = BOOT_CHAIN_B then W ''secondary_gpt_backup''
        else Name'
      else Name')"

definition GetPackageImageIndex ::
  "('i, 's) FMP_IMAGES \<Rightarrow> FMP_GLOBALS \<Rightarrow> byte list \<Rightarrow> wstring \<Rightarrow> (EFI_STATUS \<times> nat option) option" where
  "GetPackageImageIndex I g Header Name' =
     FwPackageGetImageIndex Header (AsciiImageName I (GetPackageImageName g Name'))
       (mIsProductionFused g) (mPlatformCompatSpec g) (mPlatformSpec g)"

text \<open>The fields of the image with an index: its size and the offset of its data.\<close>

definition PkgImage :: "byte list \<Rightarrow> nat option \<Rightarrow> (nat \<times> nat) option" where
  "PkgImage Header ImageIndex = do {
     Index \<leftarrow> ImageIndex;
     r \<leftarrow> FwPackageImageInfoPtr Header Index;
     n \<leftarrow> ImageBytes Header r;
     Data \<leftarrow> FwPackageImageDataPtr Header Index;
     Some (n, Data) }"

primrec AllFfLoop :: "byte list \<Rightarrow> nat list \<Rightarrow> bool option" where
  "AllFfLoop Buffer [] = Some True"
| "AllFfLoop Buffer (Index # Rest) = do {
     c \<leftarrow> load8 Buffer Index;
     if c \<noteq> 0xFF then Some False else AllFfLoop Buffer Rest }"

definition BufferIsAllFf :: "byte list \<Rightarrow> nat \<Rightarrow> bool option" where
  "BufferIsAllFf Buffer Bytes' = AllFfLoop Buffer [0..<Bytes']"

section \<open>Comparing an image with the package\<close>

text \<open>
  The loop over the bytes behind the image in its last erase block, whose end is \<open>EndOfLastBlock\<close>. The
  result has the value of \<open>*TailIsAllFf\<close>.
\<close>

partial_function (option) CheckTailLoop ::
  "('i, 's) FMP_IMAGES \<Rightarrow> 'i \<Rightarrow> nat \<Rightarrow> nat \<Rightarrow> nat \<Rightarrow> nat \<Rightarrow> nat \<Rightarrow> FMP_GLOBALS \<Rightarrow> 's
   \<Rightarrow> (EFI_STATUS \<times> bool \<times> FMP_GLOBALS \<times> 's) option" where
  "CheckTailLoop I i BlockSize' EndOfLastBlock Flags Remaining ReadOffset g s =
     (if Remaining = 0 then Some (EFI_SUCCESS, True, g, s)
      else
        let CompareSize = (if Remaining > mFmpDataBufferSize g then mFmpDataBufferSize g else Remaining);
            ReadSize = ALIGN_VALUE CompareSize BlockSize' in
        if ReadSize > mFmpDataBufferSize g then Some (EFI_UNSUPPORTED, False, g, s)
        else if ReadSize > EndOfLastBlock \<or> ReadOffset > EndOfLastBlock - ReadSize
        then Some (EFI_UNSUPPORTED, False, g, s)
        else do {
          Buffer \<leftarrow> mFmpDataBuffer g;
          (Status, Buffer, s) \<leftarrow> ImageRead (FmpProtocol I) i ReadOffset ReadSize Buffer Flags s;
          let g = g\<lparr>mFmpDataBuffer := Some Buffer\<rparr>;
          if EFI_ERROR Status then Some (Status, False, g, s)
          else do {
            AllFf \<leftarrow> BufferIsAllFf Buffer CompareSize;
            if \<not> AllFf then Some (EFI_SUCCESS, False, g, s)
            else CheckTailLoop I i BlockSize' EndOfLastBlock Flags (Remaining - CompareSize)
                   (add64 ReadOffset CompareSize) g s } })"

definition CheckLastBlockTailAllFf ::
  "('i, 's) FMP_IMAGES \<Rightarrow> 'i \<Rightarrow> nat \<Rightarrow> nat \<Rightarrow> FMP_GLOBALS \<Rightarrow> 's
   \<Rightarrow> (EFI_STATUS \<times> bool \<times> FMP_GLOBALS \<times> 's) option" where
  "CheckLastBlockTailAllFf I i ImageBytes' Flags g s = do {
     (Status, Attributes) \<leftarrow> ImageGetAttributes (FmpProtocol I) i s;
     if EFI_ERROR Status then Some (Status, False, g, s)
     else if EraseBlockSize Attributes = 0 then Some (EFI_UNSUPPORTED, False, g, s)
     else if ImageBytes' > 2 ^ 64 - 1 - EraseBlockSize Attributes + 1
     then Some (EFI_INVALID_PARAMETER, False, g, s)
     else
       let EndOfLastBlock = ALIGN_VALUE ImageBytes' (EraseBlockSize Attributes) in
       CheckTailLoop I i (BlockSize Attributes) EndOfLastBlock Flags
         (sub64 EndOfLastBlock ImageBytes') ImageBytes' g s }"

text \<open>\<open>DataBuffer\<close> are the bytes from the pointer on.\<close>

partial_function (option) CompareLoop ::
  "('i, 's) FMP_IMAGES \<Rightarrow> 'i \<Rightarrow> nat \<Rightarrow> byte list \<Rightarrow> nat \<Rightarrow> nat \<Rightarrow> nat \<Rightarrow> FMP_GLOBALS \<Rightarrow> 's
   \<Rightarrow> (EFI_STATUS \<times> bool \<times> FMP_GLOBALS \<times> 's) option" where
  "CompareLoop I i BlockSize' DataBuffer Flags Remaining CompareOffset g s =
     (if Remaining = 0 then Some (EFI_SUCCESS, True, g, s)
      else
        let CompareSize = (if Remaining > mFmpDataBufferSize g then mFmpDataBufferSize g else Remaining);
            ReadSize = ALIGN_VALUE CompareSize BlockSize' in
        if ReadSize > mFmpDataBufferSize g then Some (EFI_UNSUPPORTED, False, g, s)
        else do {
          Buffer \<leftarrow> mFmpDataBuffer g;
          (Status, Buffer, s) \<leftarrow> ImageRead (FmpProtocol I) i CompareOffset ReadSize Buffer Flags s;
          let g = g\<lparr>mFmpDataBuffer := Some Buffer\<rparr>;
          if EFI_ERROR Status then Some (Status, False, g, s)
          else do {
            Data \<leftarrow> load_bytes DataBuffer CompareOffset CompareSize;
            Read \<leftarrow> load_bytes Buffer 0 CompareSize;
            if Read \<noteq> Data then Some (EFI_SUCCESS, False, g, s)
            else CompareLoop I i BlockSize' DataBuffer Flags (Remaining - CompareSize)
                   (add64 CompareOffset CompareSize) g s } })"

definition CompareImageToBuffer ::
  "('i, 's) FMP_IMAGES \<Rightarrow> 'i \<Rightarrow> nat \<Rightarrow> byte list \<Rightarrow> nat \<Rightarrow> FMP_GLOBALS \<Rightarrow> 's
   \<Rightarrow> (EFI_STATUS \<times> bool \<times> FMP_GLOBALS \<times> 's) option" where
  "CompareImageToBuffer I i Bytes' DataBuffer Flags g s = do {
     (Status, Attributes) \<leftarrow> ImageGetAttributes (FmpProtocol I) i s;
     if EFI_ERROR Status then Some (Status, False, g, s)
     else CompareLoop I i (BlockSize Attributes) DataBuffer Flags Bytes' 0 g s }"

section \<open>Writing an image\<close>

function WriteLoop ::
  "('i, 's) FMP_IMAGES \<Rightarrow> 'i \<Rightarrow> byte list \<Rightarrow> nat \<Rightarrow> EFI_STATUS \<Rightarrow> nat \<Rightarrow> nat \<Rightarrow> FMP_GLOBALS \<Rightarrow> 's
   \<Rightarrow> (EFI_STATUS \<times> FMP_GLOBALS \<times> 's) option" where
  "WriteLoop I i DataBuffer Flags Status Bytes' WriteOffset g s =
     (if Bytes' = 0 then Some (Status, g, s)
      else
        let WriteSize = (if Bytes' > FMP_WRITE_LOOP_SIZE then FMP_WRITE_LOOP_SIZE else Bytes') in
        do {
          (Status, s) \<leftarrow> ImageWrite (FmpProtocol I) i WriteOffset WriteSize (drop WriteOffset DataBuffer) Flags s;
          if EFI_ERROR Status then Some (Status, g, s)
          else do {
            g \<leftarrow> ImageWriteProgress I WriteSize g;
            WriteLoop I i DataBuffer Flags Status (Bytes' - WriteSize) (add64 WriteOffset WriteSize) g s } })"
  by auto
termination
  by (relation "measure (\<lambda>(I, i, DataBuffer, Flags, Status, Bytes', WriteOffset, g, s). Bytes')")
    (auto simp: FMP_WRITE_LOOP_SIZE_def)

declare WriteLoop.simps [simp del]

definition WriteImageFromBuffer ::
  "('i, 's) FMP_IMAGES \<Rightarrow> 'i \<Rightarrow> nat \<Rightarrow> byte list \<Rightarrow> nat \<Rightarrow> FMP_GLOBALS \<Rightarrow> 's
   \<Rightarrow> (EFI_STATUS \<times> FMP_GLOBALS \<times> 's) option" where
  "WriteImageFromBuffer I i Bytes' DataBuffer Flags g s =
     WriteLoop I i DataBuffer Flags EFI_SUCCESS Bytes' 0 g s"

text \<open>The name in the structure of a protocol.\<close>

definition ImageNameOf :: "'i FW_IMAGE_LIB \<Rightarrow> 'i \<Rightarrow> wstring option" where
  "ImageNameOf Lib i = do {
     Images \<leftarrow> FwImageGetProtocolArray Lib;
     map_option fst (find (\<lambda>Entry. snd Entry = i) Images) }"

text \<open>
  Whether the write can be skipped: the image holds the data already and what is left of its last
  erase block is blank. An error of either check makes the write necessary.
\<close>

definition WriteCanBeSkipped ::
  "('i, 's) FMP_IMAGES \<Rightarrow> 'i \<Rightarrow> nat \<Rightarrow> byte list \<Rightarrow> nat \<Rightarrow> FMP_GLOBALS \<Rightarrow> 's
   \<Rightarrow> (bool \<times> FMP_GLOBALS \<times> 's) option" where
  "WriteCanBeSkipped I i Bytes' DataBuffer Flags g s = do {
     ImageName' \<leftarrow> ImageNameOf (FmpImageLib I) i;
     if ImageName' \<noteq> FW_PARTITION_UPDATE_INACTIVE_PARTITIONS \<and> ImageName' \<noteq> W ''GPT''
        \<and> ImageName' \<noteq> W ''mb1''
     then do {
       let Forced = FW_IMAGE_RW_FLAG_FORCE_PARTITION_A OR FW_IMAGE_RW_FLAG_FORCE_PARTITION_B;
       let ReadFlags' = (if Flags AND Forced \<noteq> 0 then Flags AND Forced
                         else FW_IMAGE_RW_FLAG_READ_INACTIVE_IMAGE);
       (Status, Match, g, s) \<leftarrow> CompareImageToBuffer I i Bytes' DataBuffer ReadFlags' g s;
       if Status = EFI_SUCCESS \<and> Match then do {
         (Status, TailAllFf, g, s) \<leftarrow> CheckLastBlockTailAllFf I i Bytes' ReadFlags' g s;
         Some (Status = EFI_SUCCESS \<and> TailAllFf, g, s) }
       else Some (False, g, s) }
     else Some (False, g, s) }"

definition WriteImage ::
  "('i, 's) FMP_IMAGES \<Rightarrow> byte list \<Rightarrow> wstring \<Rightarrow> nat \<Rightarrow> FMP_GLOBALS \<Rightarrow> 's
   \<Rightarrow> (EFI_STATUS \<times> FMP_GLOBALS \<times> 's) option" where
  "WriteImage I Header Name' Flags g s =
     (case FwImageFindProtocol (FmpImageLib I) Name' of
        None \<Rightarrow> Some (EFI_NOT_FOUND, g, s)
      | Some i \<Rightarrow> do {
          (Status, ImageIndex) \<leftarrow> GetPackageImageIndex I g Header Name';
          if EFI_ERROR Status then Some (Status, g, s)
          else do {
            (Bytes', Data) \<leftarrow> PkgImage Header ImageIndex;
            (Skip, g, s) \<leftarrow> WriteCanBeSkipped I i Bytes' (drop Data Header) Flags g s;
            if Skip then do {
              g \<leftarrow> ImageWriteProgress I Bytes' g;
              Some (EFI_SUCCESS, g, s) }
            else WriteImageFromBuffer I i Bytes' (drop Data Header) Flags g s } })"

text \<open>The loop over the array of images.\<close>

primrec WriteRegularLoop ::
  "('i, 's) FMP_IMAGES \<Rightarrow> byte list \<Rightarrow> bool \<Rightarrow> nat \<Rightarrow> (wstring \<times> 'i) list \<Rightarrow> FMP_GLOBALS \<Rightarrow> 's
   \<Rightarrow> (EFI_STATUS \<times> FMP_GLOBALS \<times> 's) option" where
  "WriteRegularLoop I Header MinimalUpdate Flags [] g s = Some (EFI_SUCCESS, g, s)"
| "WriteRegularLoop I Header MinimalUpdate Flags (Entry # Rest) g s =
     (let ImageName' = fst Entry in
      if \<not> MinimalUpdate \<and> IsSpecialImageName ImageName'
         \<or> MinimalUpdate \<and> FmpNameIsInList ImageName' MinimalUnsupportedImageNames
      then WriteRegularLoop I Header MinimalUpdate Flags Rest g s
      else do {
        (Status, PkgImageIndex) \<leftarrow> GetPackageImageIndex I g Header ImageName';
        if EFI_ERROR Status then do {
          Missing \<leftarrow> MissingRequired MinimalUpdate ImageName' g;
          if Missing then Some (Status, g, s)
          else WriteRegularLoop I Header MinimalUpdate Flags Rest g s }
        else do {
          (Status, g, s) \<leftarrow> WriteImage I Header ImageName' Flags g s;
          if EFI_ERROR Status then Some (Status, g, s)
          else WriteRegularLoop I Header MinimalUpdate Flags Rest g s } })"

text \<open>The images of the library, as far as they are counted.\<close>

definition FmpImageArray :: "('i, 's) FMP_IMAGES \<Rightarrow> (wstring \<times> 'i) list option" where
  "FmpImageArray I =
     (if FwImageGetCount (FmpImageLib I) = 0 then Some []
      else do {
        Images \<leftarrow> FwImageGetProtocolArray (FmpImageLib I);
        if FwImageGetCount (FmpImageLib I) \<le> length Images
        then Some (take (FwImageGetCount (FmpImageLib I)) Images) else None })"

definition WriteRegularImages ::
  "('i, 's) FMP_IMAGES \<Rightarrow> byte list \<Rightarrow> bool \<Rightarrow> nat \<Rightarrow> FMP_GLOBALS \<Rightarrow> 's
   \<Rightarrow> (EFI_STATUS \<times> FMP_GLOBALS \<times> 's) option" where
  "WriteRegularImages I Header MinimalUpdate Flags g s = do {
     Images \<leftarrow> FmpImageArray I;
     WriteRegularLoop I Header MinimalUpdate Flags Images g s }"

section \<open>Verifying\<close>

partial_function (option) VerifyLoop ::
  "('i, 's) FMP_IMAGES \<Rightarrow> 'i \<Rightarrow> nat \<Rightarrow> byte list \<Rightarrow> nat \<Rightarrow> EFI_STATUS \<Rightarrow> nat \<Rightarrow> nat \<Rightarrow> FMP_GLOBALS \<Rightarrow> 's
   \<Rightarrow> (EFI_STATUS \<times> FMP_GLOBALS \<times> 's) option" where
  "VerifyLoop I i BlockSize' DataBuffer Flags Status Bytes' VerifyOffset g s =
     (if Bytes' = 0 then Some (Status, g, s)
      else
        let VerifySize = (if Bytes' > mFmpDataBufferSize g then mFmpDataBufferSize g else Bytes');
            VerifyBufferSize = ALIGN_VALUE VerifySize BlockSize' in
        if \<not> VerifyBufferSize \<le> mFmpDataBufferSize g then None
        else do {
          Buffer \<leftarrow> mFmpDataBuffer g;
          (Status, Buffer, s) \<leftarrow> ImageRead (FmpProtocol I) i VerifyOffset VerifyBufferSize Buffer Flags s;
          let g = g\<lparr>mFmpDataBuffer := Some Buffer\<rparr>;
          if EFI_ERROR Status then Some (Status, g, s)
          else do {
            Data \<leftarrow> load_bytes DataBuffer VerifyOffset VerifySize;
            Read \<leftarrow> load_bytes Buffer 0 VerifySize;
            if Read \<noteq> Data then Some (EFI_VOLUME_CORRUPTED, g, s)
            else do {
              g \<leftarrow> ImageVerifyProgress I VerifySize g;
              VerifyLoop I i BlockSize' DataBuffer Flags Status (Bytes' - VerifySize)
                (add64 VerifyOffset VerifySize) g s } } })"

definition VerifyImage ::
  "('i, 's) FMP_IMAGES \<Rightarrow> byte list \<Rightarrow> wstring \<Rightarrow> nat \<Rightarrow> FMP_GLOBALS \<Rightarrow> 's
   \<Rightarrow> (EFI_STATUS \<times> FMP_GLOBALS \<times> 's) option" where
  "VerifyImage I Header Name' Flags g s =
     (if \<not> mPcdFmpWriteVerifyImage g then Some (EFI_SUCCESS, g, s)
      else (case FwImageFindProtocol (FmpImageLib I) Name' of
          None \<Rightarrow> Some (EFI_NOT_FOUND, g, s)
        | Some i \<Rightarrow> do {
            (Status, Attributes) \<leftarrow> ImageGetAttributes (FmpProtocol I) i s;
            if EFI_ERROR Status then Some (Status, g, s)
            else do {
              (Status, ImageIndex) \<leftarrow> GetPackageImageIndex I g Header Name';
              if EFI_ERROR Status then Some (Status, g, s)
              else do {
                (Bytes', Data) \<leftarrow> PkgImage Header ImageIndex;
                VerifyLoop I i (BlockSize Attributes) (drop Data Header) Flags Status Bytes' 0 g s } } }))"

primrec VerifyAllLoop ::
  "('i, 's) FMP_IMAGES \<Rightarrow> byte list \<Rightarrow> bool \<Rightarrow> nat \<Rightarrow> (wstring \<times> 'i) list \<Rightarrow> FMP_GLOBALS \<Rightarrow> 's
   \<Rightarrow> (EFI_STATUS \<times> FMP_GLOBALS \<times> 's) option" where
  "VerifyAllLoop I Header MinimalUpdate Flags [] g s = Some (EFI_SUCCESS, g, s)"
| "VerifyAllLoop I Header MinimalUpdate Flags (Entry # Rest) g s =
     (let ImageName' = fst Entry in
      if FmpNameIsInList ImageName' NoVerifyPartitionNames
         \<or> MinimalUpdate \<and> FmpNameIsInList ImageName' MinimalUnsupportedImageNames
      then VerifyAllLoop I Header MinimalUpdate Flags Rest g s
      else do {
        (Status, PkgImageIndex) \<leftarrow> GetPackageImageIndex I g Header ImageName';
        if EFI_ERROR Status then do {
          Missing \<leftarrow> MissingRequired MinimalUpdate ImageName' g;
          if Missing then Some (Status, g, s)
          else VerifyAllLoop I Header MinimalUpdate Flags Rest g s }
        else do {
          (Status, g, s) \<leftarrow> VerifyImage I Header ImageName' Flags g s;
          if EFI_ERROR Status then Some (Status, g, s)
          else VerifyAllLoop I Header MinimalUpdate Flags Rest g s } })"

definition VerifyAllImages ::
  "('i, 's) FMP_IMAGES \<Rightarrow> byte list \<Rightarrow> bool \<Rightarrow> nat \<Rightarrow> FMP_GLOBALS \<Rightarrow> 's
   \<Rightarrow> (EFI_STATUS \<times> FMP_GLOBALS \<times> 's) option" where
  "VerifyAllImages I Header MinimalUpdate Flags g s =
     (if \<not> mPcdFmpWriteVerifyImage g then Some (EFI_SUCCESS, g, s)
      else do {
        Images \<leftarrow> FmpImageArray I;
        VerifyAllLoop I Header MinimalUpdate Flags Images g s })"

section \<open>Invalidating\<close>

definition InvalidateImage ::
  "('i, 's) FMP_IMAGES \<Rightarrow> wstring \<Rightarrow> nat \<Rightarrow> FMP_GLOBALS \<Rightarrow> 's
   \<Rightarrow> (EFI_STATUS \<times> FMP_GLOBALS \<times> 's) option" where
  "InvalidateImage I Name' Flags g s =
     (case FwImageFindProtocol (FmpImageLib I) Name' of
        None \<Rightarrow> Some (EFI_NOT_FOUND, g, s)
      | Some i \<Rightarrow> do {
          (Status, Attributes) \<leftarrow> ImageGetAttributes (FmpProtocol I) i s;
          if EFI_ERROR Status then Some (Status, g, s)
          else do {
            let Bytes' = min (WriteBytes Attributes) (mFmpDataBufferSize g);
            Buffer \<leftarrow> mFmpDataBuffer g;
            Buffer \<leftarrow> store_bytes Buffer 0 (replicate Bytes' 0xFF);
            let g = g\<lparr>mFmpDataBuffer := Some Buffer,
                      mTotalBytesToFlash := add64 (mTotalBytesToFlash g) Bytes'\<rparr>;
            WriteImageFromBuffer I i Bytes' Buffer Flags g s } })"

end
