(* ===== verification/TegraFmpUpdate.thy ===== *)
theory TegraFmpUpdate
  imports TegraFmp
begin

text \<open>
  The second half of \<open>TegraFmp.c\<close>: the check of a capsule, the update of the inactive boot chain, and
  the initialization.

  The boot chain protocol, the boot configuration table, the status of the inactive chain and the
  variable with the chain of a minimal update are operations on the same world as the images.
\<close>

section \<open>Interface\<close>

datatype IMAGE_UPDATABLE = IMAGE_UPDATABLE_VALID | IMAGE_UPDATABLE_INVALID

datatype LAST_ATTEMPT_STATUS =
    LAST_ATTEMPT_STATUS_SUCCESS
  | LAS_ERROR_BAD_IMAGE_POINTER | LAS_ERROR_INVALID_PACKAGE_HEADER
  | LAS_ERROR_UNSUPPORTED_PACKAGE_TYPE | LAS_ERROR_INVALID_PACKAGE_IMAGE_INFO_ARRAY
  | LAS_ERROR_IMAGE_TOO_BIG | LAS_ERROR_PACKAGE_SIZE_ERROR | LAS_ERROR_NOT_UPDATABLE
  | LAS_ERROR_IMAGE_NOT_IN_PACKAGE | LAS_ERROR_MB1_INVALIDATE_ERROR
  | LAS_ERROR_SINGLE_IMAGE_NOT_SUPPORTED | LAS_ERROR_IMAGE_INDEX_MISSING
  | LAS_ERROR_NO_PROTOCOL_FOR_IMAGE | LAS_ERROR_IMAGE_ATTRIBUTES_ERROR
  | LAS_ERROR_BCT_UPDATE_FAILED | LAS_ERROR_WRITE_IMAGES_FAILED | LAS_ERROR_MB1_WRITE_ERROR
  | LAS_ERROR_VERIFY_IMAGES_FAILED | LAS_ERROR_SET_SINGLE_IMAGE_FAILED
  | LAS_ERROR_FMP_LIB_UNINITIALIZED | LAS_ERROR_BOOT_CHAIN_UPDATE_CANCELED
  | LAS_ERROR_GPT_METADATA_UPDATE_FAILED | LAS_ERROR_GPT_VERIFY_FAILED
  | LAS_ERROR_GPT_INVALIDATE_FAILED | LAS_ERROR_GPT_WRITE_FAILED
  | LAS_ERROR_SET_INACTIVE_BOOT_CHAIN_BAD_FAILED | LAS_ERROR_SET_INACTIVE_BOOT_CHAIN_GOOD_FAILED
  | LAS_ERROR_UPDATE_BCT_BACKUP_PARTITION_FAILED

text \<open>
  \<open>UpdateBackup\<close> and \<open>UpdateChain\<close> are the functions of \<open>NVIDIA_BR_BCT_UPDATE_PROTOCOL\<close>, the first one
  takes the bytes from the data pointer on. \<open>GetChainVariable\<close> reads the one byte of
  \<open>FmpCapsuleSinglePartitionChain\<close>.
\<close>

record 's FMP_SERVICES =
  CheckAndCancelUpdate :: "'s \<Rightarrow> EFI_STATUS \<times> bool \<times> 's"
  UpdateBackup :: "byte list \<Rightarrow> 's \<Rightarrow> (EFI_STATUS \<times> 's) option"
  UpdateChain :: "nat \<Rightarrow> 's \<Rightarrow> (EFI_STATUS \<times> 's) option"
  SetInactiveBootChainStatus :: "bool \<Rightarrow> 's \<Rightarrow> EFI_STATUS \<times> 's"
  GetChainVariable :: "'s \<Rightarrow> EFI_STATUS \<times> nat"
  DeleteChainVariable :: "'s \<Rightarrow> EFI_STATUS \<times> 's"
  PcdFmpMultiImageMinimalUpdate :: bool

section \<open>The package as a whole\<close>

primrec TotalBytesLoop :: "byte list \<Rightarrow> bool \<Rightarrow> nat list \<Rightarrow> nat \<Rightarrow> nat option" where
  "TotalBytesLoop Header IsProductionFused [] TotalBytes = Some TotalBytes"
| "TotalBytesLoop Header IsProductionFused (Index # Rest) TotalBytes = do {
     r \<leftarrow> FwPackageImageInfoPtr Header Index;
     ok \<leftarrow> FwPackageUpdateModeIsOk Header r IsProductionFused;
     if \<not> ok then TotalBytesLoop Header IsProductionFused Rest TotalBytes
     else do {
       n \<leftarrow> ImageBytes Header r;
       TotalBytesLoop Header IsProductionFused Rest (add64 TotalBytes n) } }"

definition FmpTegraGetTotalBytesToFlash :: "FMP_GLOBALS \<Rightarrow> byte list \<Rightarrow> nat option" where
  "FmpTegraGetTotalBytesToFlash g Header = do {
     Count \<leftarrow> ImageCount Header;
     TotalBytesLoop Header (mIsProductionFused g) [0..<Count] 0 }"

text \<open>Whether the package carries a partition table and there is the pseudo image to write it to.\<close>

definition GptInPackage :: "('i, 's) FMP_IMAGES \<Rightarrow> FMP_GLOBALS \<Rightarrow> byte list \<Rightarrow> bool option" where
  "GptInPackage I g Header =
     (if FwImageFindProtocol (FmpImageLib I) FW_PARTITION_UPDATE_INACTIVE_PARTITIONS = None
      then Some False
      else do {
        (Status, GptImageIndex) \<leftarrow> GetPackageImageIndex I g Header (W ''GPT'');
        Some (Status = EFI_SUCCESS) })"

section \<open>CheckImage\<close>

text \<open>The loop over the images: \<open>None\<close> as \<open>LastAttemptStatus\<close> when all are in order.\<close>

primrec CheckImagesLoop ::
  "('i, 's) FMP_IMAGES \<Rightarrow> byte list \<Rightarrow> nat \<Rightarrow> bool \<Rightarrow> FMP_GLOBALS \<Rightarrow> 's \<Rightarrow> (wstring \<times> 'i) list
   \<Rightarrow> LAST_ATTEMPT_STATUS option option" where
  "CheckImagesLoop I Header ImageSize MinimalUpdate g s [] = Some None"
| "CheckImagesLoop I Header ImageSize MinimalUpdate g s (Entry # Rest) = do {
     (Status, PkgImageIndex) \<leftarrow> GetPackageImageIndex I g Header (fst Entry);
     if EFI_ERROR Status then do {
       Missing \<leftarrow> MissingRequired MinimalUpdate (fst Entry) g;
       if Missing then Some (Some LAS_ERROR_IMAGE_NOT_IN_PACKAGE)
       else CheckImagesLoop I Header ImageSize MinimalUpdate g s Rest }
     else if MinimalUpdate \<and> FmpNameIsInList (fst Entry) MinimalUnsupportedImageNames
     then CheckImagesLoop I Header ImageSize MinimalUpdate g s Rest
     else do {
       (Bytes', Data) \<leftarrow> PkgImage Header PkgImageIndex;
       (Status, Attributes) \<leftarrow> ImageGetAttributes (FmpProtocol I) (snd Entry) s;
       if EFI_ERROR Status then Some (Some LAS_ERROR_IMAGE_ATTRIBUTES_ERROR)
       else if Bytes' > WriteBytes Attributes then Some (Some LAS_ERROR_IMAGE_TOO_BIG)
       else if Data + Bytes' > ImageSize then Some (Some LAS_ERROR_PACKAGE_SIZE_ERROR)
       else CheckImagesLoop I Header ImageSize MinimalUpdate g s Rest } }"

text \<open>The loop over the required names; the list is a null pointer when there was no memory for it.\<close>

definition RequiredProtocolsMissing :: "('i, 's) FMP_IMAGES \<Rightarrow> FMP_GLOBALS \<Rightarrow> bool option" where
  "RequiredProtocolsMissing I g =
     (if mFwImagesRequiredCount g = 0 then Some False
      else do {
        Required \<leftarrow> mFwImagesRequired g;
        if mFwImagesRequiredCount g \<le> length Required
        then Some (\<exists>Name' \<in> set (take (mFwImagesRequiredCount g) Required).
                     FwImageFindProtocol (FmpImageLib I) Name' = None)
        else None })"

text \<open>The update of the partition data by writing the table to the pseudo image, and what follows it.\<close>

definition UpdateMetaData ::
  "('i, 's) FMP_IMAGES \<Rightarrow> byte list \<Rightarrow> bool \<Rightarrow> FMP_GLOBALS \<Rightarrow> 's
   \<Rightarrow> (EFI_STATUS \<times> FMP_GLOBALS \<times> 's) option" where
  "UpdateMetaData I Header MinimalUpdate g s =
     (if MinimalUpdate then Some (EFI_SUCCESS, g, s)
      else do {
        Gpt \<leftarrow> GptInPackage I g Header;
        if Gpt then WriteImage I Header FW_PARTITION_UPDATE_INACTIVE_PARTITIONS FW_IMAGE_RW_FLAG_NONE g s
        else Some (EFI_SUCCESS, g, s) })"

definition CheckImages ::
  "('i, 's) FMP_IMAGES \<Rightarrow> byte list \<Rightarrow> nat \<Rightarrow> bool \<Rightarrow> FMP_GLOBALS \<Rightarrow> 's
   \<Rightarrow> (EFI_STATUS \<times> IMAGE_UPDATABLE \<times> LAST_ATTEMPT_STATUS \<times> FMP_GLOBALS \<times> 's) option" where
  "CheckImages I Header ImageSize MinimalUpdate g s = do {
     (Status, g, s) \<leftarrow> UpdateMetaData I Header MinimalUpdate g s;
     if EFI_ERROR Status
     then Some (EFI_ABORTED, IMAGE_UPDATABLE_INVALID, LAS_ERROR_GPT_METADATA_UPDATE_FAILED, g, s)
     else do {
       Images \<leftarrow> FmpImageArray I;
       Error \<leftarrow> CheckImagesLoop I Header ImageSize MinimalUpdate g s Images;
       (case Error of
          Some Last \<Rightarrow> Some (EFI_ABORTED, IMAGE_UPDATABLE_INVALID, Last, g, s)
        | None \<Rightarrow> do {
            Missing \<leftarrow> (if MinimalUpdate then Some False else RequiredProtocolsMissing I g);
            if Missing
            then Some (EFI_ABORTED, IMAGE_UPDATABLE_INVALID, LAS_ERROR_NO_PROTOCOL_FOR_IMAGE, g, s)
            else Some (EFI_SUCCESS, IMAGE_UPDATABLE_VALID, LAST_ATTEMPT_STATUS_SUCCESS, g, s) }) } }"

text \<open>
  \<open>Capsule\<close> is the memory from the pointer to the image on, \<open>None\<close> a null pointer. Without a pointer for either result
  nothing is stored.
\<close>

definition FmpTegraCheckImage ::
  "('i, 's) FMP_IMAGES \<Rightarrow> 's FMP_SERVICES \<Rightarrow> byte list option \<Rightarrow> nat \<Rightarrow> bool \<Rightarrow> FMP_GLOBALS \<Rightarrow> 's
   \<Rightarrow> (EFI_STATUS \<times> (IMAGE_UPDATABLE \<times> LAST_ATTEMPT_STATUS) option \<times> FMP_GLOBALS \<times> 's) option" where
  "FmpTegraCheckImage I S Capsule ImageSize Results g s =
     (let Stop = (\<lambda>Status Last s. Some (Status, Some (IMAGE_UPDATABLE_INVALID, Last), g, s)) in
      if \<not> Results then Some (EFI_INVALID_PARAMETER, None, g, s)
      else (case Capsule of
          None \<Rightarrow> Stop EFI_INVALID_PARAMETER LAS_ERROR_BAD_IMAGE_POINTER s
        | Some Header \<Rightarrow>
            if \<not> mFmpLibInitialized g then Stop EFI_NOT_READY LAS_ERROR_FMP_LIB_UNINITIALIZED s
            else (case CheckAndCancelUpdate S s of (Status, Canceled, s) \<Rightarrow>
              if EFI_ERROR Status \<or> Canceled then Stop EFI_ABORTED LAS_ERROR_BOOT_CHAIN_UPDATE_CANCELED s
              else do {
                Status \<leftarrow> FwPackageValidateHeader Header;
                if EFI_ERROR Status then Stop EFI_ABORTED LAS_ERROR_INVALID_PACKAGE_HEADER s
                else do {
                  Type' \<leftarrow> PackageType Header;
                  if Type' \<noteq> FW_PACKAGE_TYPE_FW then Stop EFI_ABORTED LAS_ERROR_UNSUPPORTED_PACKAGE_TYPE s
                  else do {
                    Status \<leftarrow> FwPackageValidateImageInfoArray Header;
                    if EFI_ERROR Status then Stop Status LAS_ERROR_INVALID_PACKAGE_IMAGE_INFO_ARRAY s
                    else do {
                      Count \<leftarrow> ImageCount Header;
                      if Count = 1 \<and> \<not> mPcdFmpSingleImageUpdate g \<and> \<not> PcdFmpMultiImageMinimalUpdate S
                      then Stop EFI_UNSUPPORTED LAS_ERROR_SINGLE_IMAGE_NOT_SUPPORTED s
                      else do {
                        let MinimalUpdate = (Count = 1 \<or> PcdFmpMultiImageMinimalUpdate S);
                        (Status, Updatable, Last, g, s) \<leftarrow>
                          CheckImages I Header ImageSize MinimalUpdate g s;
                        Some (Status, Some (Updatable, Last), g, s) } } } } })))"

section \<open>SetImage\<close>

definition UpdateBctBackupPartition ::
  "('i, 's) FMP_IMAGES \<Rightarrow> 's FMP_SERVICES \<Rightarrow> byte list \<Rightarrow> FMP_GLOBALS \<Rightarrow> 's \<Rightarrow> (EFI_STATUS \<times> 's) option" where
  "UpdateBctBackupPartition I S Header g s = do {
     (Status, ImageIndex) \<leftarrow> GetPackageImageIndex I g Header BR_BCT_BACKUP_PARTITION_NAME;
     if EFI_ERROR Status then Some (EFI_SUCCESS, s)
     else do {
       (Bytes', Data) \<leftarrow> PkgImage Header ImageIndex;
       UpdateBackup S (drop Data Header) s } }"

definition FmpTegraSetMinimalImages ::
  "('i, 's) FMP_IMAGES \<Rightarrow> 's FMP_SERVICES \<Rightarrow> byte list \<Rightarrow> FMP_GLOBALS \<Rightarrow> 's
   \<Rightarrow> (EFI_STATUS \<times> FMP_GLOBALS \<times> 's) option" where
  "FmpTegraSetMinimalImages I S Header g s =
     (case GetChainVariable S s of (Status, BootChain) \<Rightarrow>
        if EFI_ERROR Status then Some (Status, g, s)
        else if BootChain \<noteq> BOOT_CHAIN_A \<and> BootChain \<noteq> BOOT_CHAIN_B then Some (EFI_UNSUPPORTED, g, s)
        else do {
          let WriteFlag = (if BootChain = BOOT_CHAIN_A then FW_IMAGE_RW_FLAG_FORCE_PARTITION_A
                           else FW_IMAGE_RW_FLAG_FORCE_PARTITION_B);
          (Status, g, s) \<leftarrow> WriteRegularImages I Header True WriteFlag g s;
          if EFI_ERROR Status then Some (Status, g, s)
          else do {
            g \<leftarrow> SetImageProgress I (FMP_PROGRESS_WRITE_IMAGES g) g;
            (Status, g, s) \<leftarrow> VerifyAllImages I Header True WriteFlag g s;
            if EFI_ERROR Status then Some (Status, g, s)
            else do {
              g \<leftarrow> SetImageProgress I (FMP_PROGRESS_VERIFY_IMAGES g) g;
              Some (EFI_SUCCESS, g, snd (DeleteChainVariable S s)) } } })"

text \<open>A step of the update: an error ends it with \<open>EFI_ABORTED\<close> and the given last attempt status.\<close>

definition OrAbort ::
  "LAST_ATTEMPT_STATUS \<Rightarrow> (EFI_STATUS \<times> FMP_GLOBALS \<times> 's) option
   \<Rightarrow> (FMP_GLOBALS \<Rightarrow> 's \<Rightarrow> (EFI_STATUS \<times> LAST_ATTEMPT_STATUS \<times> FMP_GLOBALS \<times> 's) option)
   \<Rightarrow> (EFI_STATUS \<times> LAST_ATTEMPT_STATUS \<times> FMP_GLOBALS \<times> 's) option" where
  "OrAbort Last Step Next = do {
     (Status, g, s) \<leftarrow> Step;
     if EFI_ERROR Status then Some (EFI_ABORTED, Last, g, s) else Next g s }"

text \<open>Whether the partition table of the inactive chain has to be written.\<close>

definition DetectGptUpdate ::
  "('i, 's) FMP_IMAGES \<Rightarrow> byte list \<Rightarrow> FMP_GLOBALS \<Rightarrow> 's
   \<Rightarrow> (EFI_STATUS \<times> bool \<times> FMP_GLOBALS \<times> 's) option" where
  "DetectGptUpdate I Header g s = do {
     Gpt \<leftarrow> GptInPackage I g Header;
     if Gpt then do {
       (Status, g, s) \<leftarrow> VerifyImage I Header (W ''GPT'') FW_IMAGE_RW_FLAG_READ_INACTIVE_IMAGE g s;
       if Status \<noteq> EFI_VOLUME_CORRUPTED \<and> Status \<noteq> EFI_SUCCESS then Some (Status, False, g, s)
       else Some (EFI_SUCCESS, Status \<noteq> EFI_SUCCESS, g, s) }
     else Some (EFI_SUCCESS, False, g, s) }"

definition SetDone ::
  "('i, 's) FMP_IMAGES \<Rightarrow> FMP_GLOBALS \<Rightarrow> 's
   \<Rightarrow> (EFI_STATUS \<times> LAST_ATTEMPT_STATUS \<times> FMP_GLOBALS \<times> 's) option" where
  "SetDone I g s = do {
     g \<leftarrow> SetImageProgress I FMP_PROGRESS_UPDATE_BCT g;
     Some (EFI_SUCCESS, LAST_ATTEMPT_STATUS_SUCCESS, g, s) }"

text \<open>After all images are written and verified: the boot configuration table and the chain.\<close>

definition SwitchBootChain ::
  "('i, 's) FMP_IMAGES \<Rightarrow> 's FMP_SERVICES \<Rightarrow> byte list \<Rightarrow> FMP_GLOBALS \<Rightarrow> 's
   \<Rightarrow> (EFI_STATUS \<times> LAST_ATTEMPT_STATUS \<times> FMP_GLOBALS \<times> 's) option" where
  "SwitchBootChain I S Header g s =
     OrAbort LAS_ERROR_UPDATE_BCT_BACKUP_PARTITION_FAILED
       (map_option (\<lambda>(Status, s). (Status, g, s)) (UpdateBctBackupPartition I S Header g s)) (\<lambda>g s.
     OrAbort LAS_ERROR_BCT_UPDATE_FAILED
       (map_option (\<lambda>(Status, s). (Status, g, s)) (UpdateChain S (OTHER_BOOT_CHAIN (mFmpBootChain g)) s)) (\<lambda>g s.
     OrAbort LAS_ERROR_SET_INACTIVE_BOOT_CHAIN_GOOD_FAILED
       (case SetInactiveBootChainStatus S True s of (Status, s) \<Rightarrow> Some (Status, g, s)) (SetDone I)))"

definition WriteAndVerifyImages ::
  "('i, 's) FMP_IMAGES \<Rightarrow> 's FMP_SERVICES \<Rightarrow> byte list \<Rightarrow> bool \<Rightarrow> FMP_GLOBALS \<Rightarrow> 's
   \<Rightarrow> (EFI_STATUS \<times> LAST_ATTEMPT_STATUS \<times> FMP_GLOBALS \<times> 's) option" where
  "WriteAndVerifyImages I S Header GptUpdate g s =
     OrAbort LAS_ERROR_GPT_INVALIDATE_FAILED
       (if GptUpdate then InvalidateImage I (W ''GPT'') FW_IMAGE_RW_FLAG_NONE g s
        else Some (EFI_SUCCESS, g, s)) (\<lambda>g s.
     OrAbort LAS_ERROR_MB1_INVALIDATE_ERROR (InvalidateImage I (W ''mb1'') FW_IMAGE_RW_FLAG_NONE g s) (\<lambda>g s.
     OrAbort LAS_ERROR_WRITE_IMAGES_FAILED
       (WriteRegularImages I Header False FW_IMAGE_RW_FLAG_NONE g s) (\<lambda>g s.
     OrAbort LAS_ERROR_MB1_WRITE_ERROR (WriteImage I Header (W ''mb1'') FW_IMAGE_RW_FLAG_NONE g s) (\<lambda>g s.
     OrAbort LAS_ERROR_GPT_WRITE_FAILED
       (if GptUpdate then WriteImage I Header (W ''GPT'') FW_IMAGE_RW_FLAG_NONE g s
        else Some (EFI_SUCCESS, g, s)) (\<lambda>g s. do {
     g \<leftarrow> SetImageProgress I (FMP_PROGRESS_WRITE_IMAGES g) g;
     OrAbort LAS_ERROR_VERIFY_IMAGES_FAILED
       (VerifyAllImages I Header False FW_IMAGE_RW_FLAG_READ_INACTIVE_IMAGE g s) (\<lambda>g s. do {
     g \<leftarrow> SetImageProgress I (FMP_PROGRESS_VERIFY_IMAGES g) g;
     SwitchBootChain I S Header g s }) })))))"

definition FullUpdate ::
  "('i, 's) FMP_IMAGES \<Rightarrow> 's FMP_SERVICES \<Rightarrow> byte list \<Rightarrow> FMP_GLOBALS \<Rightarrow> 's
   \<Rightarrow> (EFI_STATUS \<times> LAST_ATTEMPT_STATUS \<times> FMP_GLOBALS \<times> 's) option" where
  "FullUpdate I S Header g s =
     OrAbort LAS_ERROR_SET_INACTIVE_BOOT_CHAIN_BAD_FAILED
       (case SetInactiveBootChainStatus S False s of (Status, s) \<Rightarrow> Some (Status, g, s)) (\<lambda>g s. do {
     (Status, GptUpdate, g, s) \<leftarrow> DetectGptUpdate I Header g s;
     OrAbort LAS_ERROR_GPT_VERIFY_FAILED (Some (Status, g, s)) (WriteAndVerifyImages I S Header GptUpdate) })"

text \<open>The parameters for the version, the vendor code, the progress function and the reason are not used.\<close>

definition FmpTegraSetImage ::
  "('i, 's) FMP_IMAGES \<Rightarrow> 's FMP_SERVICES \<Rightarrow> byte list option \<Rightarrow> bool \<Rightarrow> FMP_GLOBALS \<Rightarrow> 's
   \<Rightarrow> (EFI_STATUS \<times> LAST_ATTEMPT_STATUS option \<times> FMP_GLOBALS \<times> 's) option" where
  "FmpTegraSetImage I S Capsule Result g s =
     (if \<not> Result then Some (EFI_INVALID_PARAMETER, None, g, s)
      else (case Capsule of
          None \<Rightarrow> Some (EFI_INVALID_PARAMETER, Some LAS_ERROR_BAD_IMAGE_POINTER, g, s)
        | Some Header \<Rightarrow>
            if \<not> mFmpLibInitialized g
            then Some (EFI_NOT_READY, Some LAS_ERROR_FMP_LIB_UNINITIALIZED, g, s)
            else do {
              let g = g\<lparr>mTotalBytesFlashed := 0, mTotalBytesVerified := 0, mCurrentCompletion := 0,
                        mProgress := True\<rparr>;
              g \<leftarrow> SetImageProgress I FMP_PROGRESS_CHECK_IMAGE g;
              TotalBytes \<leftarrow> FmpTegraGetTotalBytesToFlash g Header;
              let g = g\<lparr>mTotalBytesToFlash := TotalBytes,
                        mTotalBytesToVerify := (if mPcdFmpWriteVerifyImage g then TotalBytes else 0)\<rparr>;
              Count \<leftarrow> ImageCount Header;
              (Status, Last, g, s) \<leftarrow>
                (if Count = 1 \<and> mPcdFmpSingleImageUpdate g \<or> PcdFmpMultiImageMinimalUpdate S
                 then OrAbort LAS_ERROR_SET_SINGLE_IMAGE_FAILED
                        (FmpTegraSetMinimalImages I S Header g s) (SetDone I)
                 else FullUpdate I S Header g s);
              Some (Status, Some Last, g, s) }))"

section \<open>The installer\<close>

definition FmpDeviceInstallFmp :: "FMP_GLOBALS \<Rightarrow> FMP_GLOBALS" where
  "FmpDeviceInstallFmp g =
     (if \<not> mInstaller g then g else g\<lparr>InstallerCalls := InstallerCalls g + 1, mInstaller := False\<rparr>)"

definition FmpDeviceVersionCallback :: "EFI_STATUS \<Rightarrow> FMP_GLOBALS \<Rightarrow> FMP_GLOBALS" where
  "FmpDeviceVersionCallback Status g =
     FmpDeviceInstallFmp (if EFI_ERROR Status then g\<lparr>mFmpLibInitializeFailed := True\<rparr>
                          else g\<lparr>mFmpLibInitialized := True\<rparr>)"

definition FmpTegraRegisterInstaller :: "bool \<Rightarrow> FMP_GLOBALS \<Rightarrow> EFI_STATUS \<times> FMP_GLOBALS" where
  "FmpTegraRegisterInstaller Function g =
     (if mFmpLibInitializeFailed g \<or> mFmpLibInitialized g then (EFI_UNSUPPORTED, g)
      else (EFI_SUCCESS, g\<lparr>mInstaller := Function\<rparr>))"

definition FmpTegraRegisterUninstaller :: "FMP_GLOBALS \<Rightarrow> EFI_STATUS" where
  "FmpTegraRegisterUninstaller g =
     (if mFmpLibInitializeFailed g \<or> mFmpLibInitialized g then EFI_UNSUPPORTED else EFI_SUCCESS)"

section \<open>Initialization\<close>

definition FMP_PLATFORM_SPEC_DEFAULT :: cstring where
  "FMP_PLATFORM_SPEC_DEFAULT = replicate 7 DASH"

text \<open>
  A variable: the status of the query for its size, whether the pool has memory for it, the status of
  reading it, and its data. The terminating zero is added by the library.
\<close>

record SPEC_VARIABLE =
  SpecSizeStatus :: EFI_STATUS
  SpecAllocated :: bool
  SpecStatus :: EFI_STATUS
  SpecData :: "byte list"

definition SpecString :: "SPEC_VARIABLE \<Rightarrow> cstring" where
  "SpecString V = takeWhile (\<lambda>c. c \<noteq> 0) (SpecData V)"

text \<open>To the character behind the next dash, or to the end of the string.\<close>

fun SkipField :: "cstring \<Rightarrow> cstring" where
  "SkipField [] = []"
| "SkipField (c # s) = (if c = DASH then s else SkipField s)"

definition GetFuseSettings :: "SPEC_VARIABLE \<Rightarrow> FMP_GLOBALS \<Rightarrow> EFI_STATUS \<times> FMP_GLOBALS" where
  "GetFuseSettings V g =
     (let g = g\<lparr>mIsProductionFused := True\<rparr> in
      if SpecSizeStatus V \<noteq> EFI_BUFFER_TOO_SMALL then (EFI_SUCCESS, g)
      else if \<not> SpecAllocated V then (EFI_OUT_OF_RESOURCES, g\<lparr>mPlatformSpec := None\<rparr>)
      else if EFI_ERROR (SpecStatus V) then (SpecStatus V, g\<lparr>mPlatformSpec := None\<rparr>)
      else
        let Ptr = SkipField (SkipField (SkipField (SkipField (SpecString V)))) in
        (EFI_SUCCESS, g\<lparr>mPlatformSpec := Some (SpecString V),
           mIsProductionFused := \<not> (\<exists>Rest. Ptr = 0x30 # DASH # Rest)\<rparr>))"

definition GetTnSpec :: "bool \<Rightarrow> SPEC_VARIABLE \<Rightarrow> FMP_GLOBALS \<Rightarrow> EFI_STATUS \<times> FMP_GLOBALS" where
  "GetTnSpec DefaultAllocated V g =
     (if SpecSizeStatus V \<noteq> EFI_BUFFER_TOO_SMALL then
        if \<not> DefaultAllocated then (EFI_OUT_OF_RESOURCES, g\<lparr>mPlatformCompatSpec := None\<rparr>)
        else (EFI_SUCCESS, g\<lparr>mPlatformCompatSpec := Some FMP_PLATFORM_SPEC_DEFAULT\<rparr>)
      else if \<not> SpecAllocated V then (EFI_OUT_OF_RESOURCES, g\<lparr>mPlatformCompatSpec := None\<rparr>)
      else if EFI_ERROR (SpecStatus V) then (SpecStatus V, g\<lparr>mPlatformCompatSpec := None\<rparr>)
      else (EFI_SUCCESS, g\<lparr>mPlatformCompatSpec := Some (SpecString V)\<rparr>))"

text \<open>
  What the constructor finds: the settings, whether the pool has memory, the active chain of the hob,
  the status of the two protocols, the variables, the chip, and \<open>FmpVersionLibInit\<close>, which may call the
  callback before it returns.
\<close>

record FMP_INIT =
  InitPcdFmpWriteVerifyImage :: bool
  InitPcdFmpSingleImageUpdate :: bool
  InitPcdBootAndroidImage :: bool
  InitBufferAllocated :: bool
  InitHobBootChain :: "nat option"
  InitBrBctStatus :: EFI_STATUS
  InitBootChainStatus :: EFI_STATUS
  InitSpec :: SPEC_VARIABLE
  InitCompatSpec :: SPEC_VARIABLE
  InitDefaultAllocated :: bool
  InitChipId :: nat
  InitListAllocated :: bool
  InitVersion :: "EFI_STATUS \<times> EFI_STATUS list"

definition ConstructorFailed :: "FMP_GLOBALS \<Rightarrow> FMP_GLOBALS" where
  "ConstructorFailed g =
     g\<lparr>mFmpDataBuffer := None, mPlatformCompatSpec := None, mPlatformSpec := None, mFmpDataBufferSize := 0,
       mFmpBootChain := 2 ^ 32 - 1, mFmpLibInitializeFailed := True\<rparr>"

definition FmpDeviceLibConstructor :: "FMP_INIT \<Rightarrow> FMP_GLOBALS \<Rightarrow> (EFI_STATUS \<times> FMP_GLOBALS) option" where
  "FmpDeviceLibConstructor V g =
     (let Fail = (\<lambda>g. Some (EFI_SUCCESS, ConstructorFailed g));
          g = g\<lparr>mPcdFmpWriteVerifyImage := InitPcdFmpWriteVerifyImage V,
                mPcdFmpSingleImageUpdate := InitPcdFmpSingleImageUpdate V,
                mFmpDataBufferSize := FMP_DATA_BUFFER_SIZE\<rparr> in
      if \<not> InitBufferAllocated V then Fail g
      else
        let g = g\<lparr>mFmpDataBuffer := Some (replicate FMP_DATA_BUFFER_SIZE 0)\<rparr> in
        (case InitHobBootChain V of
           None \<Rightarrow> Fail g
         | Some ActiveBootChain \<Rightarrow>
             let g = g\<lparr>mFmpBootChain := ActiveBootChain\<rparr> in
             if EFI_ERROR (InitBrBctStatus V) \<or> EFI_ERROR (InitBootChainStatus V) then Fail g
             else (case GetFuseSettings (InitSpec V) g of (Status, g) \<Rightarrow>
               if EFI_ERROR Status then Fail g
               else (case GetTnSpec (InitDefaultAllocated V) (InitCompatSpec V) g of (Status, g) \<Rightarrow>
                 if EFI_ERROR Status then Fail g
                 else do {
                   (Required, Count) \<leftarrow> FwImageGetRequiredList (InitListAllocated V)
                     (InitPcdBootAndroidImage V) (InitChipId V);
                   let g = g\<lparr>mFwImagesRequired := Required, mFwImagesRequiredCount := Count\<rparr>;
                   let g = foldl (\<lambda>g Status. FmpDeviceVersionCallback Status g) g (snd (InitVersion V));
                   if EFI_ERROR (fst (InitVersion V)) then Fail g else Some (EFI_SUCCESS, g) }))))"

end
