(* ===== verification/FwStore.thy ===== *)
theory FwStore
  imports FwImage NorFlash FwPartitionProps
begin

text \<open>
  What the layers of firmware storage promise each other, as locales: a device of erase blocks, the
  partitions on it, and the images over the partitions. Each is shown from the one below:
  \<open>FwPartitionDeviceLib\<close> turns a device into partitions, \<open>FwImageDxe\<close> partitions into images.

  A device may fail, and a write that fails may leave anything in the blocks it meets. Nothing
  is promised of a write that does not start at a block. Whatever is written elsewhere stays.
\<close>

section \<open>Byte ranges and blocks\<close>

definition slice :: "nat \<Rightarrow> nat \<Rightarrow> 'a list \<Rightarrow> 'a list" where
  "slice off n xs = take n (drop off xs)"

text \<open>Position \<open>a\<close> lies in no block of size \<open>B\<close> that meets the \<open>n\<close> positions from \<open>off\<close> on.\<close>

definition outside :: "nat \<Rightarrow> nat \<Rightarrow> nat \<Rightarrow> nat \<Rightarrow> bool" where
  "outside B off n a \<longleftrightarrow> a div B < off div B \<or> off + n \<le> a div B * B"

lemma outside_shift:
  assumes "0 < B" and "o' mod B = 0"
  shows "outside B (off + o') n (a + o') \<longleftrightarrow> outside B off n a"
proof -
  from assms(2) obtain k where k: "o' = k * B" by (metis mod_0_imp_dvd dvdE mult.commute)
  have "(a + o') div B = a div B + k" "(off + o') div B = off div B + k"
    using assms(1) by (simp_all add: k)
  then show ?thesis by (auto simp: outside_def k algebra_simps)
qed

lemma outside_before: "0 < B \<Longrightarrow> off mod B = 0 \<Longrightarrow> a < off \<Longrightarrow> outside B off n a"
  by (metis div_less_iff_less_mult mod_0_imp_dvd dvd_div_mult_self outside_def)

lemma outside_range:
  assumes "0 < B" and "off mod B = 0" and "len mod B = 0" and "lo mod B = 0"
    and "lo \<le> off" and "off + n \<le> lo + len" and "a < lo \<or> lo + len \<le> a"
  shows "outside B off n a"
  using assms(7)
proof
  assume "a < lo"
  with assms show ?thesis by (intro outside_before) auto
next
  assume *: "lo + len \<le> a"
  have "(lo + len) mod B = 0" using assms by (simp add: mod_add_eq [symmetric])
  then obtain k where "lo + len = k * B" by (metis mod_0_imp_dvd dvdE mult.commute)
  with * assms(1) have "k \<le> a div B" by (simp add: less_eq_div_iff_mult_less_eq)
  with \<open>lo + len = k * B\<close> have "lo + len \<le> a div B * B" by simp
  with assms(6) show ?thesis by (simp add: outside_def)
qed

lemma length_slice [simp]: "length (slice off n xs) = min n (length xs - off)"
  by (simp add: slice_def)

lemma slice_nth: "k < n \<Longrightarrow> off + k < length xs \<Longrightarrow> slice off n xs ! k = xs ! (off + k)"
  by (simp add: slice_def)

lemma slice_eqI:
  assumes "length xs = length ys" and "\<And>a. off \<le> a \<Longrightarrow> a < off + n \<Longrightarrow> a < length xs \<Longrightarrow> xs ! a = ys ! a"
  shows "slice off n xs = slice off n ys"
  using assms by (auto intro!: nth_equalityI simp: slice_nth)

lemma slice_content: "off + n \<le> len \<Longrightarrow> slice off n (content f o' len) = content f (o' + off) n"
  by (rule nth_equalityI) (auto simp: slice_nth add.assoc)

section \<open>The contracts\<close>

text \<open>
  A device: a memory for every device number. \<open>good\<close> holds of the states in which the hardware
  behaves as documented.
\<close>

locale block_device =
  fixes D :: "'w DEVICE_OPS" and mem :: "'w \<Rightarrow> nat \<Rightarrow> memory" and good :: "'w \<Rightarrow> bool"
  assumes device_read: "good w \<Longrightarrow> DeviceRead D d name off n buf w = Some (st, buf', w') \<Longrightarrow>
      good w' \<and> mem w' = mem w \<and> length buf' = length buf
      \<and> (st = EFI_SUCCESS \<longrightarrow> n \<le> length buf \<longrightarrow> take n buf' = content (mem w d) off n)"
    and device_write: "good w \<Longrightarrow> off mod DeviceBlockSize D d = 0
      \<Longrightarrow> DeviceWrite D d name off n buf w = Some (st, w') \<Longrightarrow>
      good w' \<and> (\<forall>e. e \<noteq> d \<longrightarrow> mem w' e = mem w e)
      \<and> (\<forall>a. outside (DeviceBlockSize D d) off n a \<longrightarrow> mem w' d a = mem w d a)
      \<and> (st = EFI_SUCCESS \<longrightarrow> n \<le> length buf \<and> content (mem w' d) off n = take n buf)"

text \<open>
  Partitions: \<open>data\<close> is what a valid partition holds, \<open>unit\<close> the size of its blocks.
\<close>

locale partition_store =
  fixes T :: "('p, 's) FW_PARTITION_PROTOCOL" and data :: "'s \<Rightarrow> 'p \<Rightarrow> byte list"
    and unit :: "'s \<Rightarrow> 'p \<Rightarrow> nat" and valid :: "'s \<Rightarrow> 'p \<Rightarrow> bool"
  assumes partition_unit: "valid s p \<Longrightarrow> 0 < unit s p"
    and partition_read: "valid s p \<Longrightarrow> PartitionRead T p off n buf s = Some (st, buf', s') \<Longrightarrow>
      valid s' = valid s \<and> unit s' = unit s \<and> data s' = data s \<and> length buf' = length buf
      \<and> (st = EFI_SUCCESS \<longrightarrow> n \<le> length buf \<longrightarrow>
           off + n \<le> length (data s p) \<and> take n buf' = slice off n (data s p))"
    and partition_write: "valid s p \<Longrightarrow> off mod unit s p = 0
      \<Longrightarrow> PartitionWrite T p off n buf s = Some (st, s') \<Longrightarrow>
      valid s' = valid s \<and> unit s' = unit s
      \<and> (\<forall>q. valid s q \<longrightarrow> q \<noteq> p \<longrightarrow> data s' q = data s q)
      \<and> length (data s' p) = length (data s p)
      \<and> (\<forall>a < length (data s p). outside (unit s p) off n a \<longrightarrow> data s' p ! a = data s p ! a)
      \<and> (st = EFI_SUCCESS \<longrightarrow> off + n \<le> length (data s p) \<and> n \<le> length buf
           \<and> slice off n (data s' p) = take n buf)"
    and partition_attributes: "valid s p \<Longrightarrow> PartitionGetAttributes T p s = Some (st, A) \<Longrightarrow>
      st = EFI_SUCCESS \<and> AttrBytes A = length (data s p) \<and> AttrBlockSize A = unit s p"

text \<open>
  Images: \<open>slot\<close> is the partition that an access with the given flags for reading meets, and
  \<open>ReadFlags\<close> those flags for the flags of a write.
\<close>

definition ReadFlags :: "nat \<Rightarrow> nat" where
  "ReadFlags Flags =
     (if Flags AND (FW_IMAGE_RW_FLAG_FORCE_PARTITION_A OR FW_IMAGE_RW_FLAG_FORCE_PARTITION_B) \<noteq> 0
      then Flags AND (FW_IMAGE_RW_FLAG_FORCE_PARTITION_A OR FW_IMAGE_RW_FLAG_FORCE_PARTITION_B)
      else FW_IMAGE_RW_FLAG_READ_INACTIVE_IMAGE)"

locale image_store =
  fixes P :: "('i, 's) NVIDIA_FW_IMAGE_PROTOCOL" and store :: "'s \<Rightarrow> 'p \<Rightarrow> byte list"
    and slot :: "'s \<Rightarrow> 'i \<Rightarrow> nat \<Rightarrow> 'p option" and ok :: "'s \<Rightarrow> 'i \<Rightarrow> bool"
    and unit :: "'s \<Rightarrow> 'i \<Rightarrow> nat"
  assumes image_slot: "ok s i \<Longrightarrow> ok s j \<Longrightarrow> slot s i f = Some p \<Longrightarrow> slot s j g = Some p \<Longrightarrow> i = j"
    and image_unit: "ok s i \<Longrightarrow> 0 < unit s i"
    and image_read: "ok s i \<Longrightarrow> ImageRead P i off n buf f s = Some (st, buf', s') \<Longrightarrow>
      ok s' = ok s \<and> slot s' = slot s \<and> unit s' = unit s \<and> store s' = store s
      \<and> length buf' = length buf
      \<and> (st = EFI_SUCCESS \<longrightarrow> n \<le> length buf \<longrightarrow> (\<exists>p. slot s i f = Some p
           \<and> off + n \<le> length (store s p) \<and> take n buf' = slice off n (store s p)))"
    and image_write: "ok s i \<Longrightarrow> off mod unit s i = 0
      \<Longrightarrow> ImageWrite P i off n buf f s = Some (st, s') \<Longrightarrow>
      ok s' = ok s \<and> slot s' = slot s \<and> unit s' = unit s
      \<and> (\<forall>j g q. ok s j \<longrightarrow> slot s j g = Some q \<longrightarrow> slot s i (ReadFlags f) \<noteq> Some q
           \<longrightarrow> store s' q = store s q)
      \<and> (\<forall>p. slot s i (ReadFlags f) = Some p \<longrightarrow> length (store s' p) = length (store s p)
           \<and> (\<forall>a < length (store s p). outside (unit s i) off n a \<longrightarrow> store s' p ! a = store s p ! a))
      \<and> (st = EFI_SUCCESS \<longrightarrow> (\<exists>p. slot s i (ReadFlags f) = Some p
           \<and> off + n \<le> length (store s p) \<and> n \<le> length buf \<and> slice off n (store s' p) = take n buf))"
    and image_attributes: "ok s i \<Longrightarrow> ImageGetAttributes P i s = Some (st, A) \<Longrightarrow>
      st = EFI_SUCCESS \<and> BlockSize A = unit s i
      \<and> (\<exists>p. slot s i FW_IMAGE_RW_FLAG_READ_INACTIVE_IMAGE = Some p \<and> WriteBytes A = length (store s p))"

section \<open>Partitions on a device\<close>

definition part_data :: "('w \<Rightarrow> nat \<Rightarrow> memory) \<Rightarrow> FW_PARTITION_GLOBALS \<times> 'w \<Rightarrow> nat \<Rightarrow> byte list" where
  "part_data mem s i = (case DeviceInfo (mPrivate (fst s) ! i) of
     Device d \<Rightarrow> content (mem (snd s) d) (POffset (mPrivate (fst s) ! i)) (PBytes (mPrivate (fst s) ! i))
   | PseudoDevice _ \<Rightarrow> [])"

definition part_unit :: "'w DEVICE_OPS \<Rightarrow> FW_PARTITION_GLOBALS \<times> 'w \<Rightarrow> nat \<Rightarrow> nat" where
  "part_unit D s i = (case DeviceInfo (mPrivate (fst s) ! i) of
     Device d \<Rightarrow> DeviceBlockSize D d | PseudoDevice _ \<Rightarrow> 0)"

text \<open>
  A partition is valid when it consists of whole blocks of a device that no other partition of that
  device shares.
\<close>

definition apart :: "FW_PARTITION_PRIVATE_DATA \<Rightarrow> FW_PARTITION_PRIVATE_DATA \<Rightarrow> bool" where
  "apart P Q \<longleftrightarrow> POffset P + PBytes P \<le> POffset Q \<or> POffset Q + PBytes Q \<le> POffset P"

definition part_valid :: "'w DEVICE_OPS \<Rightarrow> ('w \<Rightarrow> bool) \<Rightarrow> FW_PARTITION_GLOBALS \<times> 'w \<Rightarrow> nat \<Rightarrow> bool" where
  "part_valid D good s i \<longleftrightarrow> good (snd s) \<and> i < length (mPrivate (fst s)) \<and>
     (let P = mPrivate (fst s) ! i in
      \<exists>d. DeviceInfo P = Device d \<and> 0 < DeviceBlockSize D d
        \<and> POffset P mod DeviceBlockSize D d = 0 \<and> PBytes P mod DeviceBlockSize D d = 0
        \<and> POffset P + PBytes P < 2 ^ 63
        \<and> (\<forall>j < length (mPrivate (fst s)). j \<noteq> i \<longrightarrow> DeviceInfo (mPrivate (fst s) ! j) = Device d
             \<longrightarrow> apart P (mPrivate (fst s) ! j)))"

lemma CheckOffsetAndBytes_success:
  assumes "b < 2 ^ 63"
  shows "FwPartitionCheckOffsetAndBytes b off n = EFI_SUCCESS \<longleftrightarrow> off + n \<le> b"
  using assms add64_less [of off n] by (auto simp: FwPartitionCheckOffsetAndBytes_def)

lemma add64_inside:
  "off + n \<le> PBytes P \<Longrightarrow> POffset P + PBytes P < 2 ^ 63 \<Longrightarrow> add64 off (POffset P) = off + POffset P"
  by (intro add64_less) simp

lemma PartitionRead_device:
  assumes "DeviceInfo (mPrivate G ! i) = Device d" and "i < length (mPrivate G)"
    and "POffset (mPrivate G ! i) + PBytes (mPrivate G ! i) < 2 ^ 63"
    and "PartitionRead (PartitionProtocol S D) i off n buf (G, w) = Some (st, buf', s')"
  shows "st \<noteq> EFI_SUCCESS \<and> buf' = buf \<and> s' = (G, w) \<or>
    (off + n \<le> PBytes (mPrivate G ! i) \<and> fst s' = G
     \<and> DeviceRead D d (PName (mPrivate G ! i)) (off + POffset (mPrivate G ! i)) n buf w = Some (st, buf', snd s'))"
proof -
  let ?P = "mPrivate G ! i"
  have *: "FwPartitionCheckOffsetAndBytes (PBytes ?P) off n = EFI_SUCCESS \<longleftrightarrow> off + n \<le> PBytes ?P"
    using assms(3) by (intro CheckOffsetAndBytes_success) simp
  show ?thesis
    using assms(1,2,4) * add64_inside [of off n ?P] assms(3)
    by (cases "off + n \<le> PBytes ?P")
       (auto simp: PartitionProtocol_def FwPartitionRead_def Let_def bind_eq_Some_conv)
qed

lemma PartitionWrite_device:
  assumes "DeviceInfo (mPrivate G ! i) = Device d" and "i < length (mPrivate G)"
    and "POffset (mPrivate G ! i) + PBytes (mPrivate G ! i) < 2 ^ 63"
    and "PartitionWrite (PartitionProtocol S D) i off n buf (G, w) = Some (st, s')"
  shows "st \<noteq> EFI_SUCCESS \<and> s' = (G, w) \<or>
    (off + n \<le> PBytes (mPrivate G ! i) \<and> fst s' = G
     \<and> DeviceWrite D d (PName (mPrivate G ! i)) (off + POffset (mPrivate G ! i)) n buf w = Some (st, snd s'))"
proof -
  let ?P = "mPrivate G ! i"
  have *: "FwPartitionCheckOffsetAndBytes (PBytes ?P) off n = EFI_SUCCESS \<longleftrightarrow> off + n \<le> PBytes ?P"
    using assms(3) by (intro CheckOffsetAndBytes_success) simp
  show ?thesis
    using assms(1,2,4) * add64_inside [of off n ?P] assms(3)
    by (cases "off + n \<le> PBytes ?P")
       (auto simp: PartitionProtocol_def FwPartitionWrite_def Let_def bind_eq_Some_conv split: if_splits)
qed

lemma part_validD:
  assumes "part_valid D good (G, w) i"
  obtains d where "DeviceInfo (mPrivate G ! i) = Device d" "0 < DeviceBlockSize D d"
    "POffset (mPrivate G ! i) mod DeviceBlockSize D d = 0" "PBytes (mPrivate G ! i) mod DeviceBlockSize D d = 0"
    "POffset (mPrivate G ! i) + PBytes (mPrivate G ! i) < 2 ^ 63" "good w" "i < length (mPrivate G)"
    "\<And>j. j < length (mPrivate G) \<Longrightarrow> j \<noteq> i \<Longrightarrow> DeviceInfo (mPrivate G ! j) = Device d
       \<Longrightarrow> apart (mPrivate G ! i) (mPrivate G ! j)"
  using assms by (auto simp: part_valid_def Let_def)

lemma part_data_device:
  "DeviceInfo (mPrivate G ! i) = Device d \<Longrightarrow> part_data mem (G, w) i
     = content (mem w d) (POffset (mPrivate G ! i)) (PBytes (mPrivate G ! i))"
  by (simp add: part_data_def)

lemma part_data_same: "mem w' = mem w \<Longrightarrow> part_data mem (G, w') = part_data mem (G, w)"
  by (rule ext) (simp add: part_data_def split: FW_PARTITION_DEVICE_INFO.split)

lemma part_valid_good: "good w \<Longrightarrow> good w' \<Longrightarrow> part_valid D good (G, w') = part_valid D good (G, w)"
  by (auto simp: part_valid_def)

lemma part_unit_state [simp]: "part_unit D (G, w') = part_unit D (G, w)"
  by (auto simp: part_unit_def)

context block_device
begin

lemma device_partition_read:
  assumes "part_valid D good s i"
    and "PartitionRead (PartitionProtocol S D) i off n buf s = Some (st, buf', s')"
  shows "part_valid D good s' = part_valid D good s \<and> part_unit D s' = part_unit D s
    \<and> part_data mem s' = part_data mem s \<and> length buf' = length buf
    \<and> (st = EFI_SUCCESS \<longrightarrow> n \<le> length buf \<longrightarrow>
         off + n \<le> length (part_data mem s i) \<and> take n buf' = slice off n (part_data mem s i))"
proof -
  obtain G w where s: "s = (G, w)" by (cases s)
  from assms(1) obtain d where d: "DeviceInfo (mPrivate G ! i) = Device d"
      "POffset (mPrivate G ! i) + PBytes (mPrivate G ! i) < 2 ^ 63" "good w" "i < length (mPrivate G)"
    unfolding s by (auto elim: part_validD)
  from PartitionRead_device [OF d(1,4,2) assms(2) [unfolded s]] show ?thesis
  proof
    assume "st \<noteq> EFI_SUCCESS \<and> buf' = buf \<and> s' = (G, w)"
    then show ?thesis by (simp add: s)
  next
    assume a: "off + n \<le> PBytes (mPrivate G ! i) \<and> fst s' = G \<and>
      DeviceRead D d (PName (mPrivate G ! i)) (off + POffset (mPrivate G ! i)) n buf w = Some (st, buf', snd s')"
    then obtain w' where w': "s' = (G, w')" by (cases s') auto
    from a d(3) have "good w'" "mem w' = mem w" "length buf' = length buf"
      and "st = EFI_SUCCESS \<longrightarrow> n \<le> length buf
        \<longrightarrow> take n buf' = content (mem w d) (off + POffset (mPrivate G ! i)) n"
      by (auto dest: device_read simp: w')
    with a show ?thesis
      by (auto simp: s w' part_valid_good [of good w w', OF d(3)] part_data_same [of mem w' w]
          part_data_device [OF d(1)] slice_content add.commute)
  qed
qed

lemma device_partition_write:
  assumes "part_valid D good s i" and "off mod part_unit D s i = 0"
    and "PartitionWrite (PartitionProtocol S D) i off n buf s = Some (st, s')"
  shows "part_valid D good s' = part_valid D good s \<and> part_unit D s' = part_unit D s
    \<and> (\<forall>q. part_valid D good s q \<longrightarrow> q \<noteq> i \<longrightarrow> part_data mem s' q = part_data mem s q)
    \<and> length (part_data mem s' i) = length (part_data mem s i)
    \<and> (\<forall>a < length (part_data mem s i). outside (part_unit D s i) off n a
         \<longrightarrow> part_data mem s' i ! a = part_data mem s i ! a)
    \<and> (st = EFI_SUCCESS \<longrightarrow> off + n \<le> length (part_data mem s i) \<and> n \<le> length buf
         \<and> slice off n (part_data mem s' i) = take n buf)"
proof -
  obtain G w where s: "s = (G, w)" by (cases s)
  let ?P = "mPrivate G ! i"
  from assms(1) [unfolded s] obtain d where d: "DeviceInfo ?P = Device d" "0 < DeviceBlockSize D d"
      "POffset ?P mod DeviceBlockSize D d = 0" "PBytes ?P mod DeviceBlockSize D d = 0"
      "POffset ?P + PBytes ?P < 2 ^ 63" "good w" "i < length (mPrivate G)"
      "\<And>j. j < length (mPrivate G) \<Longrightarrow> j \<noteq> i \<Longrightarrow> DeviceInfo (mPrivate G ! j) = Device d
         \<Longrightarrow> apart ?P (mPrivate G ! j)"
    by (rule part_validD) (rule that)
  let ?B = "DeviceBlockSize D d"
  have unit: "part_unit D (G, w) i = ?B" by (simp add: part_unit_def d(1))
  with assms(2) s have off: "off mod ?B = 0" by simp
  from PartitionWrite_device [OF d(1,7,5) assms(3) [unfolded s]] show ?thesis
  proof
    assume "st \<noteq> EFI_SUCCESS \<and> s' = (G, w)"
    then show ?thesis by (simp add: s)
  next
    assume a: "off + n \<le> PBytes ?P \<and> fst s' = G \<and>
      DeviceWrite D d (PName ?P) (off + POffset ?P) n buf w = Some (st, snd s')"
    then obtain w' where w': "s' = (G, w')" by (cases s') auto
    have aligned: "(off + POffset ?P) mod ?B = 0" using off d(3) by (simp add: mod_add_eq [symmetric])
    have "DeviceWrite D d (PName ?P) (off + POffset ?P) n buf w = Some (st, w')"
      using a by (simp add: w')
    note law = device_write [OF d(6) aligned this]
    have g: "good w'" using law by blast
    have others: "mem w' e = mem w e" if "e \<noteq> d" for e using law that by blast
    have frame: "mem w' d a = mem w d a" if "outside ?B (off + POffset ?P) n a" for a
      using law that by simp
    have written: "n \<le> length buf \<and> content (mem w' d) (off + POffset ?P) n = take n buf"
      if "st = EFI_SUCCESS" using law that by simp
    have other: "part_data mem (G, w') q = part_data mem (G, w) q"
      if "part_valid D good (G, w) q" "q \<noteq> i" for q
    proof -
      let ?Q = "mPrivate G ! q"
      from that(1) obtain e where e: "DeviceInfo ?Q = Device e" "q < length (mPrivate G)"
        by (auto elim: part_validD)
      show ?thesis
      proof (cases "e = d")
        case True
        with d(8) [of q] e that(2) have ap: "apart ?P ?Q" by simp
        have "mem w' d x = mem w d x" if "POffset ?Q \<le> x" "x < POffset ?Q + PBytes ?Q" for x
        proof (rule frame, rule outside_range [OF d(2) aligned d(4) d(3)])
          show "x < POffset ?P \<or> POffset ?P + PBytes ?P \<le> x" using ap that by (auto simp: apart_def)
        qed (use a in auto)
        then show ?thesis
          by (auto simp: part_data_device [OF e(1)] True intro!: nth_equalityI)
      qed (simp add: part_data_device [OF e(1)] others)
    qed
    have same: "part_data mem (G, w') i ! k = part_data mem (G, w) i ! k"
      if "k < PBytes ?P" "outside ?B off n k" for k
      using frame [of "k + POffset ?P"] that outside_shift [OF d(2,3), of off n k]
      by (simp add: part_data_device [OF d(1)] add.commute)
    have "slice off n (part_data mem (G, w') i) = take n buf \<and> n \<le> length buf" if "st = EFI_SUCCESS"
      using written [OF that] a by (simp add: part_data_device [OF d(1)] slice_content add.commute)
    with a same other g show ?thesis
      by (auto simp: s w' unit part_valid_good [of good w w', OF d(6)] part_data_device [OF d(1)])
  qed
qed

end

sublocale block_device \<subseteq> parts: partition_store "PartitionProtocol S D" "part_data mem" "part_unit D"
    "part_valid D good" for S
proof
  fix s i assume "part_valid D good s i"
  then show "0 < part_unit D s i"
    by (cases s) (auto elim!: part_validD simp: part_unit_def)
next
  fix s i st A
  assume "part_valid D good s i" "PartitionGetAttributes (PartitionProtocol S D) i s = Some (st, A)"
  then show "st = EFI_SUCCESS \<and> AttrBytes A = length (part_data mem s i) \<and> AttrBlockSize A = part_unit D s i"
    by (cases s) (auto elim!: part_validD simp: PartitionProtocol_def FwPartitionGetAttributes_def
        bind_eq_Some_conv part_data_def part_unit_def Let_def)
qed (rule device_partition_read device_partition_write; assumption)+

end
