(* ===== verification/FwImageStore.thy ===== *)
theory FwImageStore
  imports FwStore
begin

text \<open>
  The images of \<open>FwImageDxe\<close> over partitions that keep their contract keep the contract of images.
\<close>

definition img_slot :: "'p FW_IMAGE_GLOBALS \<times> 's \<Rightarrow> nat \<Rightarrow> nat \<Rightarrow> 'p option" where
  "img_slot s i Flags = ReadPartition (fst s) (mImages (fst s) ! i) Flags"

text \<open>The partitions of an image.\<close>

definition slots :: "'p FW_IMAGE_PRIVATE_DATA \<Rightarrow> 'p set" where
  "slots Private = set_option (FwPartitionA Private) \<union> set_option (FwPartitionB Private)"

text \<open>
  An ordinary image of the driver: it has partitions of its own, which are valid, and remembers their
  sizes. Its block size is a multiple of those of its partitions.
\<close>

definition img_ok ::
  "('s \<Rightarrow> 'p \<Rightarrow> byte list) \<Rightarrow> ('s \<Rightarrow> 'p \<Rightarrow> nat) \<Rightarrow> ('s \<Rightarrow> 'p \<Rightarrow> bool) \<Rightarrow> 'p FW_IMAGE_GLOBALS \<times> 's
   \<Rightarrow> nat \<Rightarrow> bool" where
  "img_ok data unit valid s i \<longleftrightarrow> i < length (mImages (fst s)) \<and>
     (let Private = mImages (fst s) ! i in
      ProtocolWrite Private = Some WriteFunction
      \<and> FwPartitionA Private \<noteq> None \<and> FwPartitionA Private \<noteq> FwPartitionB Private
      \<and> (\<forall>p \<in> slots Private. valid (snd s) p \<and> unit (snd s) p dvd BlockSize (ImageAttributes Private))
      \<and> 0 < BlockSize (ImageAttributes Private)
      \<and> (\<forall>p. img_slot s i FW_IMAGE_RW_FLAG_READ_INACTIVE_IMAGE = Some p
           \<longrightarrow> WriteBytes (ImageAttributes Private) = length (data (snd s) p))
      \<and> (\<forall>j < length (mImages (fst s)). j \<noteq> i \<longrightarrow> slots Private \<inter> slots (mImages (fst s) ! j) = {}))"

definition img_unit :: "'p FW_IMAGE_GLOBALS \<times> 's \<Rightarrow> nat \<Rightarrow> nat" where
  "img_unit s i = BlockSize (ImageAttributes (mImages (fst s) ! i))"

lemma img_slot_state: "img_slot (M, s') = img_slot (M, s)" "img_unit (M, s') = img_unit (M, s)"
  by (simp_all add: fun_eq_iff img_slot_def img_unit_def)

lemma ReadPartition_slots: "ReadPartition M Private f = Some p \<Longrightarrow> p \<in> slots Private"
  by (auto simp: ReadPartition_def slots_def ActiveImagePartition_def InactiveImagePartition_def
      split: if_splits)

lemma ReadFlags_forced [simp]: "ReadFlags f = (if ForcedPartition f
    then f AND (FW_IMAGE_RW_FLAG_FORCE_PARTITION_A OR FW_IMAGE_RW_FLAG_FORCE_PARTITION_B)
    else FW_IMAGE_RW_FLAG_READ_INACTIVE_IMAGE)"
  by (simp add: ReadFlags_def ForcedPartition_def)

text \<open>A write meets the partition that a read with the corresponding flags meets.\<close>

lemma forced_bits:
  "ForcedPartition (f AND 6) = ForcedPartition f" "(f AND 6 :: nat) AND 2 = f AND 2"
  "ForcedPartition 1 = False" "ForcedPartition 0 = False"
  by (simp_all add: ForcedPartition_def image_flags and.assoc)

lemma WritePartition_ReadFlags: "WritePartition M Private f = ReadPartition M Private (ReadFlags f)"
proof (cases "ForcedPartition f")
  case True
  then show ?thesis using forced_bits(1,2) [of f]
    by (simp add: WritePartition_def ReadPartition_def image_flags)
next
  case False
  then show ?thesis using forced_bits(3)
    by (simp add: WritePartition_def ReadPartition_def image_flags)
qed

lemma outside_multiple:
  assumes "b dvd B" and "0 < b" and "off mod B = 0" and "outside B off n a"
  shows "outside b off n a"
  using assms(4) [unfolded outside_def]
proof
  assume "a div B < off div B"
  moreover from assms(3) have "off = off div B * B" by (metis add.right_neutral div_mult_mod_eq)
  ultimately have "a < off" by (metis div_le_mono linorder_not_less)
  moreover have "off mod b = 0" using assms(1,3) by (metis mod_0_imp_dvd dvd_trans dvd_imp_mod_0)
  ultimately show ?thesis by (intro outside_before assms(2))
next
  assume le: "off + n \<le> a div B * B"
  from assms(1) obtain k where "B = b * k" ..
  then have eq: "a div B * B = a div B * k * b" by simp
  moreover have "a div B * B \<le> a" by (rule div_times_less_eq_dividend)
  ultimately have "a div B * k * b \<le> a" by (simp only: eq)
  then have "a div B * k \<le> a div b" using assms(2) by (simp only: less_eq_div_iff_mult_less_eq)
  then have "a div B * B \<le> a div b * b" by (simp only: eq mult_le_mono1)
  with le show ?thesis by (simp add: outside_def)
qed

lemma CheckImageOffset_success:
  assumes "FwImageCheckOffsetAndBytes b off n = EFI_SUCCESS" and "b < 2 ^ 63"
  shows "off + n \<le> b"
  using assms add64_less [of off n] by (auto simp: FwImageCheckOffsetAndBytes_def split: if_splits)

text \<open>The accesses of an image in terms of those of its partition.\<close>

lemma ImageRead_cases:
  assumes "ImageRead (ImageProtocol T) i off n buf f (M, s) = Some (st, buf', s')"
  obtains (failed) "st \<noteq> EFI_SUCCESS" "buf' = buf" "s' = (M, s)"
  | (read) p s2 where "img_slot (M, s) i f = Some p" "s' = (M, s2)"
      "PartitionRead T p off n buf s = Some (st, buf', s2)"
  using assms
  by (auto simp: ImageProtocol_def FwImageRead_def img_slot_def bind_eq_Some_conv Let_def
      split: if_splits option.splits)

lemma ImageWrite_cases:
  assumes "ImageWrite (ImageProtocol T) i off n buf f (M, s) = Some (st, s')"
    and "ProtocolWrite (mImages M ! i) = Some WriteFunction"
  obtains (failed) "st \<noteq> EFI_SUCCESS" "s' = (M, s)"
  | (written) p s2 where "img_slot (M, s) i (ReadFlags f) = Some p" "s' = (M, s2)"
      "PartitionWrite T p off n buf s = Some (st, s2)"
  using assms
  by (auto simp: ImageProtocol_def FwImageWrite_def img_slot_def WritePartition_ReadFlags
      bind_eq_Some_conv Let_def simp del: ReadFlags_forced split: if_splits option.splits)

lemma img_okD:
  assumes "img_ok data unit valid (M, s) i" and "img_slot (M, s) i f = Some p"
  shows "valid s p" and "unit s p dvd BlockSize (ImageAttributes (mImages M ! i))"
  using assms ReadPartition_slots [of M "mImages M ! i" f p]
  by (auto simp: img_ok_def img_slot_def Let_def)

context partition_store
begin

lemma img_ok_same:
  assumes "valid s' = valid s" and "unit s' = unit s"
    and "\<And>p. valid s p \<Longrightarrow> length (data s' p) = length (data s p)"
  shows "img_ok data unit valid (M, s') = img_ok data unit valid (M, s)"
proof (rule ext)
  fix i
  have "(\<forall>q\<in>slots (mImages M ! i). valid s q \<and> unit s q dvd BlockSize (ImageAttributes (mImages M ! i)))
      \<Longrightarrow> img_slot (M, s) i f = Some p \<Longrightarrow> length (data s' p) = length (data s p)" for f p
    using assms(3) ReadPartition_slots [of M "mImages M ! i" f p] by (auto simp: img_slot_def)
  then show "img_ok data unit valid (M, s') i = img_ok data unit valid (M, s) i"
    using assms(1,2) by (auto simp: img_ok_def Let_def img_slot_state(1) [of M s' s])
qed

lemma image_partition_read:
  assumes "img_ok data unit valid s i"
    and "ImageRead (ImageProtocol T) i off n buf f s = Some (st, buf', s')"
  shows "img_ok data unit valid s' = img_ok data unit valid s \<and> img_slot s' = img_slot s
    \<and> img_unit s' = img_unit s \<and> data (snd s') = data (snd s) \<and> length buf' = length buf
    \<and> (st = EFI_SUCCESS \<longrightarrow> n \<le> length buf \<longrightarrow> (\<exists>p. img_slot s i f = Some p
         \<and> off + n \<le> length (data (snd s) p) \<and> take n buf' = slice off n (data (snd s) p)))"
proof -
  obtain M s0 where s: "s = (M, s0)" by (cases s)
  from assms(2) [unfolded s] show ?thesis
  proof (cases rule: ImageRead_cases)
    case (read p s2)
    from img_okD(1) [OF assms(1) [unfolded s] read(1)] have "valid s0 p" .
    from partition_read [OF this read(3)] read(1,2) show ?thesis
      by (simp add: s img_ok_same [of s2 s0] img_slot_state(1) [of M s2 s0] img_slot_state(2) [of M s2 s0])
  qed (simp add: s)
qed

lemma image_partition_write:
  assumes "img_ok data unit valid s i" and "off mod img_unit s i = 0"
    and "ImageWrite (ImageProtocol T) i off n buf f s = Some (st, s')"
  shows "img_ok data unit valid s' = img_ok data unit valid s \<and> img_slot s' = img_slot s
    \<and> img_unit s' = img_unit s
    \<and> (\<forall>j g q. img_ok data unit valid s j \<longrightarrow> img_slot s j g = Some q
         \<longrightarrow> img_slot s i (ReadFlags f) \<noteq> Some q \<longrightarrow> data (snd s') q = data (snd s) q)
    \<and> (\<forall>p. img_slot s i (ReadFlags f) = Some p \<longrightarrow> length (data (snd s') p) = length (data (snd s) p)
         \<and> (\<forall>a < length (data (snd s) p). outside (img_unit s i) off n a
              \<longrightarrow> data (snd s') p ! a = data (snd s) p ! a))
    \<and> (st = EFI_SUCCESS \<longrightarrow> (\<exists>p. img_slot s i (ReadFlags f) = Some p
         \<and> off + n \<le> length (data (snd s) p) \<and> n \<le> length buf \<and> slice off n (data (snd s') p) = take n buf))"
proof -
  obtain M s0 where s: "s = (M, s0)" by (cases s)
  have w: "ProtocolWrite (mImages M ! i) = Some WriteFunction"
    using assms(1) by (simp add: s img_ok_def Let_def)
  from assms(3) [unfolded s] w show ?thesis
  proof (cases rule: ImageWrite_cases)
    case (written p s2)
    from img_okD [OF assms(1) [unfolded s] written(1)]
    have p: "valid s0 p" "unit s0 p dvd img_unit (M, s0) i" by (simp_all add: img_unit_def)
    with assms(2) have off: "off mod unit s0 p = 0"
      by (metis s dvd_trans mod_0_imp_dvd dvd_imp_mod_0)
    note law = partition_write [OF p(1) off written(3)]
    have other: "data s2 q = data s0 q" if "valid s0 q" "q \<noteq> p" for q using law that by blast
    have len: "length (data s2 q) = length (data s0 q)" if "valid s0 q" for q
      using law other [OF that] by metis
    have same: "data s2 p ! a = data s0 p ! a"
      if "a < length (data s0 p)" "outside (img_unit (M, s0) i) off n a" for a
      using law that outside_multiple [OF p(2) partition_unit [OF p(1)] assms(2) [unfolded s]] by blast
    have "data s2 q = data s0 q" if "img_ok data unit valid (M, s0) j" "img_slot (M, s0) j g = Some q" "q \<noteq> p"
      for j g q using other [OF img_okD(1) [OF that(1,2)] that(3)] .
    with law same len written(1,2) show ?thesis
      by (auto simp: s img_ok_same [of s2 s0] img_slot_state(1) [of M s2 s0] img_slot_state(2) [of M s2 s0]
          simp del: ReadFlags_forced)
  qed (simp add: s)
qed

lemma img_ok_slot:
  assumes "img_ok data unit valid s i" and "img_ok data unit valid s j"
    and "img_slot s i f = Some p" and "img_slot s j g = Some p"
  shows "i = j"
proof (rule ccontr)
  assume "i \<noteq> j"
  moreover have "j < length (mImages (fst s))" using assms(2) by (simp add: img_ok_def)
  ultimately have "slots (mImages (fst s) ! i) \<inter> slots (mImages (fst s) ! j) = {}"
    using assms(1) unfolding img_ok_def Let_def by blast
  moreover have "p \<in> slots (mImages (fst s) ! i)" "p \<in> slots (mImages (fst s) ! j)"
    using assms(3,4) by (auto simp: img_slot_def dest: ReadPartition_slots)
  ultimately show False by blast
qed

end

lemma slot_inactive:
  assumes "FwPartitionA (mImages M ! i) \<noteq> None"
  shows "img_slot (M, s) i FW_IMAGE_RW_FLAG_READ_INACTIVE_IMAGE \<noteq> None"
  using assms forced_bits(3)
  by (auto simp: img_slot_def ReadPartition_def image_flags HasAImage_def HasBImage_def
      InactiveImagePartition_def)

sublocale partition_store \<subseteq> images: image_store "ImageProtocol T" "\<lambda>s. data (snd s)" img_slot
    "img_ok data unit valid" img_unit
proof
  fix s i st A
  assume ok: "img_ok data unit valid s i" and get: "ImageGetAttributes (ImageProtocol T) i s = Some (st, A)"
  obtain M s0 where s: "s = (M, s0)" by (cases s)
  have A: "st = EFI_SUCCESS" "A = ImageAttributes (mImages M ! i)"
    using ok get by (auto simp: s ImageProtocol_def FwImageGetAttributes_def img_ok_def bind_eq_Some_conv)
  obtain p where p: "img_slot s i FW_IMAGE_RW_FLAG_READ_INACTIVE_IMAGE = Some p"
    using slot_inactive [of M i s0] ok by (auto simp: s img_ok_def Let_def)
  with ok A show "st = EFI_SUCCESS \<and> BlockSize A = img_unit s i
      \<and> (\<exists>p. img_slot s i FW_IMAGE_RW_FLAG_READ_INACTIVE_IMAGE = Some p
           \<and> WriteBytes A = length (data (snd s) p))"
    by (simp add: s img_ok_def Let_def img_unit_def)
next
  fix s i assume "img_ok data unit valid s i"
  then show "0 < img_unit s i" by (cases s) (simp add: img_ok_def Let_def img_unit_def)
qed (rule img_ok_slot image_partition_read image_partition_write; assumption)+

end
