(* ===== verification/FwDriversStore.thy ===== *)
theory FwDriversStore
  imports FwPartitionDrivers FwImageStore
begin

text \<open>
  The two storage drivers keep the contract of a block device, on hardware that does what its
  protocol documents, with failures: a NOR flash whose blocks are erased before they are programmed,
  and a block device that is written in whole blocks.
\<close>

section \<open>Alignment\<close>

definition ceil_to :: "nat \<Rightarrow> nat \<Rightarrow> nat" where "ceil_to a v = (v + a - 1) div a * a"

lemma ceil_to_multiple:
  assumes "0 < a"
  shows "ceil_to a v mod a = 0" "v \<le> ceil_to a v" "ceil_to a v < v + a"
    "v \<le> m * a \<Longrightarrow> ceil_to a v \<le> m * a" "v mod a = 0 \<Longrightarrow> ceil_to a v = v"
proof -
  show "ceil_to a v mod a = 0" by (simp add: ceil_to_def)
  have eq: "ceil_to a v + (v + a - 1) mod a = v + a - 1" by (simp add: ceil_to_def)
  moreover have "(v + a - 1) mod a < a" using assms by simp
  ultimately show up: "v \<le> ceil_to a v" by linarith
  show less: "ceil_to a v < v + a" using eq assms by linarith
  show least: "ceil_to a v \<le> m * a" if "v \<le> m * a"  for m
  proof -
    have "v + a - 1 < (m + 1) * a" using that assms by simp
    then have "(v + a - 1) div a < m + 1" by (simp only: less_mult_imp_div_less)
    then show ?thesis by (simp add: ceil_to_def)
  qed
  assume "v mod a = 0"
  then obtain k where "v = k * a" by (metis mod_0_imp_dvd dvdE mult.commute)
  with up least [of k] show "ceil_to a v = v" by simp
qed

lemma ceil_to_rest:
  assumes "0 < b" and "t mod b = 0" and "t \<le> n"
  shows "ceil_to b (n - t) + t = ceil_to b n"
proof -
  from assms(2) obtain q where q: "t = q * b" by (metis mod_0_imp_dvd dvdE mult.commute)
  obtain m where m: "n = m + q * b" using assms(3) q by (metis le_Suc_ex add.commute)
  have "m + q * b + b - 1 = (m + b - 1) + q * b" using assms(1) by (cases b) simp_all
  then have "(m + q * b + b - 1) div b = (m + b - 1) div b + q"
    using assms(1) by (simp only: div_mult_self1)
  then show ?thesis by (simp add: ceil_to_def m q add_mult_distrib)
qed

lemma ALIGN_VALUE_ceil:
  assumes "a = 2 ^ k" and "k < 32" and "v + a \<le> 2 ^ 64"
  shows "ALIGN_VALUE v a = ceil_to a v"
proof -
  have a: "0 < a" "a < 2 ^ 32"
    using assms(1,2) power_strict_increasing [of k 32 "2 :: nat"] by simp_all
  have dvd64: "a dvd 2 ^ 64"
    unfolding assms(1) using assms(2) by (intro le_imp_power_dvd) simp
  have "a + (2 ^ 32 - 1) = (a - 1) + 2 ^ 32" using a by simp
  then have mask: "u32 (a + (2 ^ 32 - 1)) = 2 ^ k - 1"
    using a by (simp only: u32_def mod_add_self2) (simp add: assms(1))
  have "x AND (2 ^ k - 1) = x mod 2 ^ k" for x :: nat
    by (metis take_bit_eq_mask mask_eq_exp_minus_1 take_bit_eq_mod)
  then have "ALIGN_VALUE v a = add64 v (sub64 a v mod a)"
    by (simp only: ALIGN_VALUE_def mask) (simp add: assms(1))
  also have "sub64 a v mod a = (a + 2 ^ 64 - v) mod a"
  proof -
    from dvd64 show ?thesis by (simp add: sub64_def mod_mod_cancel)
  qed
  also have "\<dots> = ceil_to a v - v"
  proof -
    note dvd64
    moreover have dvd: "a dvd ceil_to a v" using ceil_to_multiple(1) [OF a(1)] by auto
    moreover have le: "ceil_to a v \<le> a + 2 ^ 64" using ceil_to_multiple(3) [OF a(1), of v] assms(3) by linarith
    ultimately have "a dvd a + 2 ^ 64 - ceil_to a v" by (intro dvd_diff_nat) auto
    then obtain m where m: "a + 2 ^ 64 - ceil_to a v = a * m" ..
    have "a + 2 ^ 64 - v = (ceil_to a v - v) + a * m"
      using m le ceil_to_multiple(2) [OF a(1), of v] by linarith
    moreover have "ceil_to a v - v < a" using ceil_to_multiple(2,3) [OF a(1), of v] by linarith
    ultimately show ?thesis by simp
  qed
  also have "add64 v (ceil_to a v - v) = ceil_to a v"
    using ceil_to_multiple(2,3) [OF a(1), of v] assms(3) by (subst add64_less) linarith+
  finally show ?thesis .
qed

section \<open>NOR flash\<close>

text \<open>
  A flash that may fail: a successful read returns the content, and an operation that fails may have
  changed anything in its range. \<open>view\<close> gives the memories of all devices, this one is \<open>d\<close>.
\<close>

definition changes :: "('w \<Rightarrow> nat \<Rightarrow> memory) \<Rightarrow> nat \<Rightarrow> nat \<Rightarrow> nat \<Rightarrow> 'w \<Rightarrow> 'w \<Rightarrow> bool" where
  "changes view d lo hi w w' \<longleftrightarrow>
     (\<forall>e. e \<noteq> d \<longrightarrow> view w' e = view w e) \<and> (\<forall>a. a < lo \<or> hi \<le> a \<longrightarrow> view w' d a = view w d a)"

definition flash_contract ::
  "'w NOR_FLASH_PROTOCOL \<Rightarrow> nat \<Rightarrow> nat \<Rightarrow> ('w \<Rightarrow> nat \<Rightarrow> memory) \<Rightarrow> nat \<Rightarrow> bool" where
  "flash_contract N B Density view d \<longleftrightarrow>
     (\<forall>off n w b. off + n \<le> Density \<longrightarrow> NorRead N off n w = (EFI_SUCCESS, b) \<longrightarrow> b = content (view w d) off n)
   \<and> (\<forall>off xs w st w'. off + length xs \<le> Density \<longrightarrow> NorWrite N off (length xs) xs w = (st, w') \<longrightarrow>
        changes view d off (off + length xs) w w'
        \<and> (st = EFI_SUCCESS \<longrightarrow> view w' d = program (view w d) off xs))
   \<and> (\<forall>b n w st w'. (b + n) * B \<le> Density \<longrightarrow> NorErase N b n w = (st, w') \<longrightarrow>
        changes view d (b * B) ((b + n) * B) w w'
        \<and> (st = EFI_SUCCESS \<longrightarrow> view w' d = erased (view w d) (b * B) (n * B)))"

lemma flash_contractD:
  assumes "flash_contract N B Density view d"
  shows "off + n \<le> Density \<Longrightarrow> NorRead N off n w = (EFI_SUCCESS, b) \<Longrightarrow> b = content (view w d) off n"
    and "off + length xs \<le> Density \<Longrightarrow> NorWrite N off (length xs) xs w = (st, w') \<Longrightarrow>
        changes view d off (off + length xs) w w'
        \<and> (st = EFI_SUCCESS \<longrightarrow> view w' d = program (view w d) off xs)"
    and "(lba + n) * B \<le> Density \<Longrightarrow> NorErase N lba n w = (st, w') \<Longrightarrow>
        changes view d (lba * B) ((lba + n) * B) w w'
        \<and> (st = EFI_SUCCESS \<longrightarrow> view w' d = erased (view w d) (lba * B) (n * B))"
  using assms unfolding flash_contract_def by blast+

text \<open>Every flash of the table keeps its contract; its blocks are a power of two and fill it.\<close>

definition nor_world :: "'w FW_PARTITION_NOR_FLASH_INFO list \<Rightarrow> ('w \<Rightarrow> nat \<Rightarrow> memory) \<Rightarrow> bool" where
  "nor_world Devices view \<longleftrightarrow> (\<forall>d < length Devices.
     let I = Devices ! d; B = NorBlockSize (NorAttributes I) in
     flash_contract (NorFlash I) B (NorBytes I) view d
     \<and> (\<exists>k < 32. B = 2 ^ k) \<and> NorBytes I mod B = 0 \<and> NorBytes I < 2 ^ 32)"

lemma changes_trans:
  "changes view d lo hi w w1 \<Longrightarrow> changes view d lo' hi' w1 w2 \<Longrightarrow> lo \<le> lo' \<Longrightarrow> hi' \<le> hi
   \<Longrightarrow> changes view d lo hi w w2"
  by (auto simp: changes_def)

lemma changes_mono: "changes view d lo hi w w1 \<Longrightarrow> lo' \<le> lo \<Longrightarrow> hi \<le> hi' \<Longrightarrow> changes view d lo' hi' w w1"
  by (auto simp: changes_def)

lemma changes_refl [simp]: "changes view d lo hi w w"
  by (simp add: changes_def)

lemma program_erased: "content (program (erased f lo n) off xs) off (length xs) = xs"
  if "lo \<le> off" "off + length xs \<le> lo + n"
proof -
  have "(0xFF :: byte) AND x = x" for x
  proof -
    have "(0xFF :: byte) = - 1" by simp
    then show ?thesis by (simp only: and.left_neutral)
  qed
  with that show ?thesis
    by (auto simp: content_eq_iff program_def erased_def)
qed

lemma outside_changes:
  assumes "0 < B" and "off mod B = 0" and "outside B off n a"
  shows "a < off \<or> off + ceil_to B n \<le> a"
  using assms(3) [unfolded outside_def]
proof
  from assms(2) obtain q where q: "off = q * B" by (metis mod_0_imp_dvd dvdE mult.commute)
  {
    assume "a div B < off div B"
    then have "a < off" by (metis div_le_mono linorder_not_less)
    then show ?thesis ..
  next
    assume le: "off + n \<le> a div B * B"
    with q have "n \<le> (a div B - q) * B" by (simp add: diff_mult_distrib)
    from ceil_to_multiple(4) [OF assms(1) this] q le have "off + ceil_to B n \<le> a div B * B"
      by (simp add: diff_mult_distrib)
    also have "\<dots> \<le> a" by (rule div_times_less_eq_dividend)
    finally show ?thesis ..
  }
qed

text \<open>A write to a block boundary: the erase and the programming of one device.\<close>

lemma ceil_to_block:
  assumes "0 < B" and "off mod B = 0" and "off + n \<le> len" and "len mod B = 0"
  shows "(off div B + ceil_to B n div B) * B = off + ceil_to B n" "off + ceil_to B n \<le> len"
proof -
  show "(off div B + ceil_to B n div B) * B = off + ceil_to B n"
    using assms(2) ceil_to_multiple(1) [OF assms(1), of n] by (simp add: add_mult_distrib mod_0_imp_dvd)
  from assms(2) obtain q where q: "off = q * B" by (metis mod_0_imp_dvd dvdE mult.commute)
  from assms(4) obtain m where m: "len = m * B" by (metis mod_0_imp_dvd dvdE mult.commute)
  with assms(3) q have "n \<le> (m - q) * B" by (simp add: diff_mult_distrib)
  from ceil_to_multiple(4) [OF assms(1) this] assms(3) q m show "off + ceil_to B n \<le> len"
    by (simp add: diff_mult_distrib)
qed

lemma FPNorFlashWrite_aligned:
  assumes "nor_world Devices view" and "d < length Devices" and "I = Devices ! d"
    and "B = NorBlockSize (NorAttributes I)" and "off mod B = 0"
    and "FPNorFlashWrite I off n buf w = Some (st, w')"
  shows "changes view d off (off + ceil_to B n) w w'
    \<and> (st = EFI_SUCCESS \<longrightarrow> n \<le> length buf \<and> content (view w' d) off n = take n buf)"
proof -
  from assms(1-4) obtain k where law: "flash_contract (NorFlash I) B (NorBytes I) view d"
    and k: "B = 2 ^ k" "k < 32" and full: "NorBytes I mod B = 0" "NorBytes I < 2 ^ 32"
    by (auto simp: nor_world_def Let_def)
  have B: "0 < B" "B < 2 ^ 32" using k power_strict_increasing [of k 32 "2 :: nat"] by simp_all
  show ?thesis
  proof (cases "FwPartitionCheckOffsetAndBytes (NorBytes I) off n = EFI_SUCCESS")
    case False
    with assms(6) show ?thesis by (simp add: FPNorFlashWrite_def Let_def split: if_splits)
  next
    case True
    with full have fits: "off + n \<le> NorBytes I" by (simp add: CheckOffsetAndBytes_success)
    with full have small: "u32 off = off" "u32 n = n" by (simp_all add: u32_def)
    note blocks = ceil_to_block [OF B(1) assms(5) fits full(1)]
    have align: "ALIGN_VALUE n B = ceil_to B n"
      using ALIGN_VALUE_ceil [OF k] fits full(2) B(2) by simp
    have lba: "u32 (off div B) = off div B" "u32 (ceil_to B n div B) = ceil_to B n div B"
      using blocks full(2) fits by (auto simp: u32_def intro!: mod_less order.strict_trans1 [OF div_le_dividend])
    have "EraseBeforeWrite I off n w = Some (NorErase (NorFlash I) (off div B) (ceil_to B n div B) w)"
      using B assms(5) True
      by (simp add: EraseBeforeWrite_def FPNorFlashErase_def Let_def align lba flip: assms(4))
    then obtain st1 w1 where er: "NorErase (NorFlash I) (off div B) (ceil_to B n div B) w = (st1, w1)"
      and rest: "(if st1 \<noteq> EFI_SUCCESS then Some (st1, w1) else do {
          Data \<leftarrow> load_bytes buf 0 n; Some (NorWrite (NorFlash I) off n Data w1) }) = Some (st, w')"
      using assms(6) True unfolding FPNorFlashWrite_def Let_def small
      by (cases "NorErase (NorFlash I) (off div B) (ceil_to B n div B) w") auto
    have base: "off div B * B = off" "ceil_to B n div B * B = ceil_to B n"
      using assms(5) ceil_to_multiple(1) [OF B(1), of n] by (simp_all add: mod_0_imp_dvd)
    have e: "changes view d off (off + ceil_to B n) w w1"
        "st1 = EFI_SUCCESS \<longrightarrow> view w1 d = erased (view w d) off (ceil_to B n)"
      using flash_contractD(3) [OF law _ er] blocks by (simp_all add: base)
    show ?thesis
    proof (cases "st1 = EFI_SUCCESS")
      case False
      with rest e(1) show ?thesis by auto
    next
      case True
      with rest obtain xs where xs: "load_bytes buf 0 n = Some xs"
        and wr: "NorWrite (NorFlash I) off (length xs) xs w1 = (st, w')"
        by (auto simp: bind_eq_Some_conv load_bytes_def split: if_splits)
      have len: "length xs = n" "xs = take n buf" "n \<le> length buf"
        using xs by (auto simp: load_bytes_def split: if_splits)
      have p: "changes view d off (off + n) w1 w'"
          "st = EFI_SUCCESS \<longrightarrow> view w' d = program (view w1 d) off xs"
        using flash_contractD(2) [OF law _ wr] fits len(1) by simp_all
      have "changes view d off (off + ceil_to B n) w w'"
        using changes_trans [OF e(1) p(1)] ceil_to_multiple(2) [OF B(1), of n] by simp
      moreover have "content (view w' d) off n = take n buf" if "st = EFI_SUCCESS"
        using p(2) e(2) True that program_erased [of off off xs "ceil_to B n" "view w d"]
          ceil_to_multiple(2) [OF B(1), of n] len by simp
      ultimately show ?thesis using len by simp
    qed
  qed
qed

lemma FPNorFlashRead_content:
  assumes "nor_world Devices view" and "d < length Devices" and "I = Devices ! d"
    and "FPNorFlashRead I off n buf w = Some (st, buf', w')"
  shows "w' = w \<and> length buf' = length buf
    \<and> (st = EFI_SUCCESS \<longrightarrow> n \<le> length buf \<longrightarrow> take n buf' = content (view w d) off n)"
proof (cases "FwPartitionCheckOffsetAndBytes (NorBytes I) off n = EFI_SUCCESS")
  case False
  with assms(4) show ?thesis by (simp add: FPNorFlashRead_def Let_def)
next
  case True
  from assms(1-3) have law: "flash_contract (NorFlash I) (NorBlockSize (NorAttributes I)) (NorBytes I) view d"
    and full: "NorBytes I < 2 ^ 32" by (auto simp: nor_world_def Let_def)
  from True full have fits: "off + n \<le> NorBytes I" by (simp add: CheckOffsetAndBytes_success)
  with full have small: "u32 off = off" "u32 n = n" by (simp_all add: u32_def)
  obtain b where b: "NorRead (NorFlash I) off n w = (st, b)" "store_bytes buf 0 b = Some buf'" "w' = w"
    using assms(4) True small by (auto simp: FPNorFlashRead_def Let_def bind_eq_Some_conv split: prod.splits)
  have "length buf' = length buf" using b(2) by (rule store_bytes_length)
  moreover have "take n buf' = content (view w d) off n" if "st = EFI_SUCCESS"
  proof -
    have "b = content (view w d) off n" using flash_contractD(1) [OF law fits] b(1) that by simp
    then show ?thesis using b(2) by (auto simp: store_bytes_def split: if_splits)
  qed
  ultimately show ?thesis using b(3) by simp
qed

interpretation nor: block_device "NorDeviceOps Devices" view "\<lambda>w. nor_world Devices view"
  for Devices view
proof
  fix d name off n buf and w w' :: 'a and st buf'
  assume *: "nor_world Devices view" "DeviceRead (NorDeviceOps Devices) d name off n buf w = Some (st, buf', w')"
  then show "nor_world Devices view \<and> view w' = view w \<and> length buf' = length buf
      \<and> (st = EFI_SUCCESS \<longrightarrow> n \<le> length buf \<longrightarrow> take n buf' = content (view w d) off n)"
    using FPNorFlashRead_content [of Devices view d _ off n buf w st buf' w']
    by (auto simp: NorDeviceOps_def split: if_splits)
next
  fix d name off n buf and w w' :: 'a and st
  let ?B = "DeviceBlockSize (NorDeviceOps Devices) d"
  assume *: "nor_world Devices view" "off mod ?B = 0"
    "DeviceWrite (NorDeviceOps Devices) d name off n buf w = Some (st, w')"
  have d: "d < length Devices" "FPNorFlashWrite (Devices ! d) off n buf w = Some (st, w')"
    and B: "?B = NorBlockSize (NorAttributes (Devices ! d))"
    using *(3) by (auto simp: NorDeviceOps_def split: if_splits)
  have pos: "0 < ?B" using *(1) d(1) B by (auto simp: nor_world_def Let_def)
  from FPNorFlashWrite_aligned [OF *(1) d(1) refl B *(2) d(2)]
  show "nor_world Devices view \<and> (\<forall>e. e \<noteq> d \<longrightarrow> view w' e = view w e)
      \<and> (\<forall>a. outside ?B off n a \<longrightarrow> view w' d a = view w d a)
      \<and> (st = EFI_SUCCESS \<longrightarrow> n \<le> length buf \<and> content (view w' d) off n = take n buf)"
    using outside_changes [OF pos *(2)] *(1) by (auto simp: changes_def)
qed

section \<open>Block devices\<close>

text \<open>A block device that may fail; whole blocks are transferred.\<close>

definition block_contract :: "'w EFI_BLOCK_IO_PROTOCOL \<Rightarrow> nat \<Rightarrow> ('w \<Rightarrow> nat \<Rightarrow> memory) \<Rightarrow> bool" where
  "block_contract B Density view \<longleftrightarrow>
     (\<forall>lba n w b. lba * MediaBlockSize B + n \<le> Density \<longrightarrow> n mod MediaBlockSize B = 0 \<longrightarrow>
        ReadBlocks B lba n w = (EFI_SUCCESS, b) \<longrightarrow> b = content (view w 0) (lba * MediaBlockSize B) n)
   \<and> (\<forall>lba xs w st w'. lba * MediaBlockSize B + length xs \<le> Density \<longrightarrow> length xs mod MediaBlockSize B = 0 \<longrightarrow>
        WriteBlocks B lba (length xs) xs w = (st, w') \<longrightarrow>
        changes view 0 (lba * MediaBlockSize B) (lba * MediaBlockSize B + length xs) w w'
        \<and> (st = EFI_SUCCESS \<longrightarrow> content (view w' 0) (lba * MediaBlockSize B) (length xs) = xs))"

text \<open>One device, the user partition of an eMMC or an SD card.\<close>

definition block_world :: "'w FW_PARTITION_BLOCK_IO_INFO list \<Rightarrow> ('w \<Rightarrow> nat \<Rightarrow> memory) \<Rightarrow> bool" where
  "block_world Devices view \<longleftrightarrow> length Devices = 1 \<and>
     (let I = Devices ! 0; B = MediaBlockSize (BlockIo I) in
      block_contract (BlockIo I) (BlockIoBytes I) view
      \<and> (\<exists>k < 32. B = 2 ^ k) \<and> BlockIoBytes I mod B = 0 \<and> BlockIoBytes I < 2 ^ 63)"

lemma block_contractD:
  assumes "block_contract B Density view"
  shows "lba * MediaBlockSize B + n \<le> Density \<Longrightarrow> n mod MediaBlockSize B = 0
      \<Longrightarrow> ReadBlocks B lba n w = (EFI_SUCCESS, b) \<Longrightarrow> b = content (view w 0) (lba * MediaBlockSize B) n"
    and "lba * MediaBlockSize B + length xs \<le> Density \<Longrightarrow> length xs mod MediaBlockSize B = 0
      \<Longrightarrow> WriteBlocks B lba (length xs) xs w = (st, w') \<Longrightarrow>
        changes view 0 (lba * MediaBlockSize B) (lba * MediaBlockSize B + length xs) w w'
        \<and> (st = EFI_SUCCESS \<longrightarrow> content (view w' 0) (lba * MediaBlockSize B) (length xs) = xs)"
  using assms unfolding block_contract_def by simp_all

text \<open>The size of one transfer.\<close>

definition transfer :: "nat \<Rightarrow> nat option \<Rightarrow> nat \<Rightarrow> nat" where
  "transfer b Local n = (case Local of None \<Rightarrow> n | Some L \<Rightarrow> LocalTransfer b L n)"

lemma BlockWriteLoop_step:
  "0 < n \<Longrightarrow> BlockWriteLoop B Local lba n buf w = do {
     Data \<leftarrow> load_bytes buf 0 (min n (transfer (MediaBlockSize B) Local n));
     (case WriteBlocks B lba (transfer (MediaBlockSize B) Local n)
             (Data @ replicate (transfer (MediaBlockSize B) Local n - n) 0) w of
        (st, w) \<Rightarrow>
          if EFI_ERROR st then Some (st, w)
          else BlockWriteLoop B Local (lba + transfer (MediaBlockSize B) Local n div MediaBlockSize B)
                 (n - min n (transfer (MediaBlockSize B) Local n))
                 (drop (transfer (MediaBlockSize B) Local n) buf) w) }"
  unfolding transfer_def by (subst BlockWriteLoop.simps) (simp add: Let_def)

lemma transfer_size:
  assumes "b = 2 ^ k" and "k < 32" and "n < 2 ^ 63" and "0 < n"
    and "case Local of None \<Rightarrow> n mod b = 0 | Some L \<Rightarrow> L = 8 * b"
  shows "transfer b Local n mod b = 0" "0 < transfer b Local n" "transfer b Local n \<le> ceil_to b n"
proof -
  have b: "0 < b" "b < 2 ^ 32" using assms(1,2) power_strict_increasing [of k 32 "2 :: nat"] by simp_all
  have align: "ALIGN_VALUE n b = ceil_to b n" using ALIGN_VALUE_ceil [OF assms(1,2), of n] assms(3) b(2) by simp
  note ceil = ceil_to_multiple [OF b(1), of n]
  show "transfer b Local n mod b = 0" "0 < transfer b Local n" "transfer b Local n \<le> ceil_to b n"
    using assms(4,5) b(1) ceil by (auto simp: transfer_def LocalTransfer_def align split: option.splits)
qed

lemma content_changes:
  "changes view d lo hi w w' \<Longrightarrow> off + n \<le> lo \<or> hi \<le> off \<Longrightarrow> content (view w' d) off n = content (view w d) off n"
  by (auto simp: changes_def intro!: nth_equalityI)

lemma BlockWriteLoop_writes:
  assumes "block_contract B Density view" and "MediaBlockSize B = 2 ^ k" and "k < 32"
    and "Density mod MediaBlockSize B = 0" and "Density < 2 ^ 63"
  shows "BlockWriteLoop B Local lba n buf w = Some (st, w') \<Longrightarrow> lba * MediaBlockSize B + n \<le> Density
    \<Longrightarrow> (case Local of None \<Rightarrow> n mod MediaBlockSize B = 0 | Some L \<Rightarrow> L = 8 * MediaBlockSize B)
    \<Longrightarrow> changes view 0 (lba * MediaBlockSize B) (lba * MediaBlockSize B + ceil_to (MediaBlockSize B) n) w w'
      \<and> (st = EFI_SUCCESS \<longrightarrow> n \<le> length buf \<and> content (view w' 0) (lba * MediaBlockSize B) n = take n buf)"
proof (induction n arbitrary: lba buf w rule: less_induct)
  case (less n)
  let ?b = "MediaBlockSize B" and ?t = "transfer (MediaBlockSize B) Local n"
  have b: "0 < ?b" by (simp add: assms(2))
  show ?case
  proof (cases "n = 0")
    case True
    with less.prems(1) show ?thesis by (simp add: BlockWriteLoop.simps)
  next
    case False
    then have n: "0 < n" "n < 2 ^ 63" using less.prems(2) assms(5) by simp_all
    note t = transfer_size [OF assms(2,3) n(2,1) less.prems(3)]
    obtain data where data: "load_bytes buf 0 (min n ?t) = Some data"
      and step: "(case WriteBlocks B lba ?t (data @ replicate (?t - n) 0) w of (st, w) \<Rightarrow>
        if st \<noteq> EFI_SUCCESS then Some (st, w) else
        BlockWriteLoop B Local (lba + ?t div ?b) (n - min n ?t) (drop ?t buf) w) = Some (st, w')"
      using less.prems(1) [unfolded BlockWriteLoop_step [OF n(1)]] by (auto simp: bind_eq_Some_conv)
    obtain st1 w1 where wr: "WriteBlocks B lba ?t (data @ replicate (?t - n) 0) w = (st1, w1)"
      by (cases "WriteBlocks B lba ?t (data @ replicate (?t - n) 0) w")
    with step have rest: "(if st1 \<noteq> EFI_SUCCESS then Some (st1, w1) else
        BlockWriteLoop B Local (lba + ?t div ?b) (n - min n ?t) (drop ?t buf) w1) = Some (st, w')" by simp
    from data have len: "length data = min n ?t" "data = take (min n ?t) buf" "min n ?t \<le> length buf"
      by (auto simp: load_bytes_def split: if_splits)
    let ?xs = "data @ replicate (?t - n) 0"
    have size: "length ?xs = ?t" using len(1) by simp
    have "lba * ?b + ceil_to ?b n \<le> Density"
      using ceil_to_block(2) [OF b, of "lba * ?b" n Density] less.prems(2) assms(4) by simp
    then have fits: "lba * ?b + length ?xs \<le> Density" using t(3) size by simp
    from block_contractD(2) [OF assms(1) fits] wr t(1) size
    have w1: "changes view 0 (lba * ?b) (lba * ?b + ?t) w w1"
        "st1 = EFI_SUCCESS \<longrightarrow> content (view w1 0) (lba * ?b) ?t = ?xs" by simp_all
    have up: "changes view 0 (lba * ?b) (lba * ?b + ceil_to ?b n) w w1"
      using w1(1) t(3) by (auto elim: changes_mono)
    show ?thesis
    proof (cases "st1 = EFI_SUCCESS \<and> ?t < n")
      case False
      show ?thesis
      proof (cases "st1 = EFI_SUCCESS")
        case True
        with False rest have res: "st = EFI_SUCCESS" "w' = w1" by (auto simp: BlockWriteLoop.simps)
        have "content (view w1 0) (lba * ?b) n = take n (content (view w1 0) (lba * ?b) ?t)"
          using False True by (simp add: content_def take_map)
        with w1(2) True False len res up show ?thesis by simp
      qed (use rest up in auto)
    next
      case True
      then have xs: "?xs = take ?t buf" "?t \<le> length buf" using len by simp_all
      have next': "BlockWriteLoop B Local (lba + ?t div ?b) (n - ?t) (drop ?t buf) w1 = Some (st, w')"
        using rest True by simp
      have pos: "(lba + ?t div ?b) * ?b = lba * ?b + ?t" using t(1) by (simp add: add_mult_distrib mod_0_imp_dvd)
      have "n - ?t < n" using t(2) n(1) by simp
      moreover have "case Local of None \<Rightarrow> (n - ?t) mod ?b = 0 | Some L \<Rightarrow> L = 8 * ?b"
        using less.prems(3) True by (auto simp: transfer_def split: option.splits)
      ultimately have ih: "changes view 0 (lba * ?b + ?t) (lba * ?b + ?t + ceil_to ?b (n - ?t)) w1 w'"
          "st = EFI_SUCCESS \<longrightarrow> n - ?t \<le> length (drop ?t buf)
             \<and> content (view w' 0) (lba * ?b + ?t) (n - ?t) = take (n - ?t) (drop ?t buf)"
        using less.IH [OF _ next'] less.prems(2) True by (simp_all add: pos)
      have "ceil_to ?b (n - ?t) + ?t = ceil_to ?b n" using ceil_to_rest [OF b t(1)] True by simp
      then have "changes view 0 (lba * ?b) (lba * ?b + ceil_to ?b n) w w'"
        using changes_trans [OF up ih(1)] by simp
      moreover have "content (view w' 0) (lba * ?b) n = take n buf" if "st = EFI_SUCCESS"
      proof -
        have "content (view w' 0) (lba * ?b) ?t = take ?t buf"
          using content_changes [OF ih(1), of "lba * ?b" ?t] w1(2) True xs by simp
        then show ?thesis using ih(2) that True content_add [of "view w' 0" "lba * ?b" ?t "n - ?t"]
          by (simp add: take_add [symmetric])
      qed
      ultimately show ?thesis using ih(2) True xs(2) by auto
    qed
  qed
qed

lemma block_worldD:
  assumes "block_world Devices view" and "I = Devices ! 0"
  obtains k where "block_contract (BlockIo I) (BlockIoBytes I) view" "MediaBlockSize (BlockIo I) = 2 ^ k"
    "k < 32" "BlockIoBytes I mod MediaBlockSize (BlockIo I) = 0" "BlockIoBytes I < 2 ^ 63"
  using assms by (auto simp: block_world_def Let_def)

lemma FPBlockIoWrite_blocks:
  assumes "block_world Devices view" and "I = Devices ! 0" and "FPBlockIoWrite V I off n buf w = Some (st, w')"
  shows "changes view 0 off (off + ceil_to (MediaBlockSize (BlockIo I)) n) w w'
    \<and> (st = EFI_SUCCESS \<longrightarrow> n \<le> length buf \<and> content (view w' 0) off n = take n buf)"
proof -
  let ?b = "MediaBlockSize (BlockIo I)"
  from assms(1,2) obtain k where law: "block_contract (BlockIo I) (BlockIoBytes I) view" "?b = 2 ^ k" "k < 32"
      "BlockIoBytes I mod ?b = 0" "BlockIoBytes I < 2 ^ 63" by (rule block_worldD)
  show ?thesis
  proof (cases "st \<noteq> EFI_SUCCESS \<and> w' = w")
    case False
    let ?loop = "\<lambda>L. BlockWriteLoop (BlockIo I) L (off div ?b) n buf w"
    have c: "off mod ?b = 0" "FwPartitionCheckOffsetAndBytes (BlockIoBytes I) off n = EFI_SUCCESS"
      and r: "n mod ?b = 0 \<and> ?loop None = Some (st, w') \<or> ?loop (Some (8 * ?b)) = Some (st, w')"
      using assms(3) False
      by (auto simp: FPBlockIoWrite_def Let_def FW_PARTITION_LOCAL_BUFFER_BLOCKS_def
          split: if_split_asm option.split_asm bool.split_asm)
    then have off: "off div ?b * ?b = off" and fits: "off + n \<le> BlockIoBytes I"
      using law(5) by (simp_all add: CheckOffsetAndBytes_success mod_0_imp_dvd)
    from r have "\<exists>L. ?loop L = Some (st, w') \<and> (case L of None \<Rightarrow> n mod ?b = 0 | Some L \<Rightarrow> L = 8 * ?b)"
    proof (elim disjE conjE)
      assume "n mod ?b = 0" "?loop None = Some (st, w')"
      then show ?thesis by (intro exI [of _ None]) simp
    next
      assume "?loop (Some (8 * ?b)) = Some (st, w')"
      then show ?thesis by (intro exI [of _ "Some (8 * ?b)"]) simp
    qed
    then obtain L where L: "?loop L = Some (st, w')" "case L of None \<Rightarrow> n mod ?b = 0 | Some L \<Rightarrow> L = 8 * ?b"
      by blast
    from BlockWriteLoop_writes [OF law L(1) _ L(2)] off fits show ?thesis by simp
  qed auto
qed

lemma FPBlockIoRead_content:
  assumes "block_world Devices view" and "I = Devices ! 0"
    and "FPBlockIoRead V I off n buf w = Some (st, buf', w')"
  shows "w' = w \<and> length buf' = length buf
    \<and> (st = EFI_SUCCESS \<longrightarrow> n \<le> length buf \<longrightarrow> take n buf' = content (view w 0) off n)"
proof (cases "st \<noteq> EFI_SUCCESS \<and> buf' = buf \<and> w' = w")
  case False
  let ?b = "MediaBlockSize (BlockIo I)"
  from assms(1,2) have law: "block_contract (BlockIo I) (BlockIoBytes I) view" "BlockIoBytes I < 2 ^ 63"
    by (simp_all add: block_world_def Let_def)
  obtain st2 b where rd: "ReadBlocks (BlockIo I) (off div ?b) n w = (st2, b)"
    by (cases "ReadBlocks (BlockIo I) (off div ?b) n w")
  have r: "off mod ?b = 0" "n mod ?b = 0"
      "FwPartitionCheckOffsetAndBytes (BlockIoBytes I) off n = EFI_SUCCESS"
      "ReadBlocks (BlockIo I) (off div ?b) n w = (st, b)" "store_bytes buf 0 b = Some buf'" "w' = w"
    using assms(3) False rd
    by (simp_all add: FPBlockIoRead_def Let_def bind_eq_Some_conv split: if_split_asm)
  then have pos: "off div ?b * ?b = off" "off + n \<le> BlockIoBytes I"
    using law(2) by (simp_all add: CheckOffsetAndBytes_success mod_0_imp_dvd)
  have "take n buf' = content (view w 0) off n" if "st = EFI_SUCCESS"
  proof -
    have "b = content (view w 0) off n"
      using block_contractD(1) [OF law(1), of "off div ?b" n w b] r that pos by simp
    then show ?thesis using r(5) by (auto simp: store_bytes_def split: if_splits)
  qed
  then show ?thesis using store_bytes_length [OF r(5)] r(6) by simp
qed auto

interpretation blk: block_device "BlockIoDeviceOps V Devices" view "\<lambda>w. block_world Devices view"
  for V Devices view
proof
  fix d name off n buf and w w' :: 'a and st buf'
  assume *: "block_world Devices view" "DeviceRead (BlockIoDeviceOps V Devices) d name off n buf w = Some (st, buf', w')"
  then have "d = 0" by (auto simp: BlockIoDeviceOps_def block_world_def split: if_splits)
  then show "block_world Devices view \<and> view w' = view w \<and> length buf' = length buf
      \<and> (st = EFI_SUCCESS \<longrightarrow> n \<le> length buf \<longrightarrow> take n buf' = content (view w d) off n)"
    using FPBlockIoRead_content [OF *(1) refl, of V off n buf w st buf' w'] *
    by (auto simp: BlockIoDeviceOps_def FW_PARTITION_USER_PARTITION_def split: if_splits)
next
  fix d name off n buf and w w' :: 'a and st
  let ?B = "DeviceBlockSize (BlockIoDeviceOps V Devices) d"
  assume *: "block_world Devices view" "off mod ?B = 0"
    "DeviceWrite (BlockIoDeviceOps V Devices) d name off n buf w = Some (st, w')"
  have d0: "d = 0" using *(1,3) by (auto simp: BlockIoDeviceOps_def block_world_def split: if_splits)
  then have d: "d = 0" "FPBlockIoWrite V (Devices ! 0) off n buf w = Some (st, w')"
    using *(3) by (auto simp: BlockIoDeviceOps_def FW_PARTITION_USER_PARTITION_def split: if_splits)
  have pos: "0 < ?B" using *(1) by (auto simp: BlockIoDeviceOps_def d(1) elim: block_worldD)
  from FPBlockIoWrite_blocks [OF *(1) refl d(2)]
  show "block_world Devices view \<and> (\<forall>e. e \<noteq> d \<longrightarrow> view w' e = view w e)
      \<and> (\<forall>a. outside ?B off n a \<longrightarrow> view w' d a = view w d a)
      \<and> (st = EFI_SUCCESS \<longrightarrow> n \<le> length buf \<and> content (view w' d) off n = take n buf)"
    using outside_changes [OF pos *(2)] *(1) by (auto simp: changes_def d(1) BlockIoDeviceOps_def)
qed

end
