(* ===== verification/TegraFmpProps.thy ===== *)
theory TegraFmpProps
  imports TegraFmpUpdate FwStore FwDriversStore
begin

text \<open>
  What the library does with one image of the package, on images that keep their contract: a compare that
  succeeds means that the flash holds the package's bytes, a write that succeeds puts them there, and
  neither changes anything else.
\<close>

section \<open>The state of the library\<close>

text \<open>The library is initialized; its buffer has the size the constructor gives it.\<close>

definition fmp_buffer :: "FMP_GLOBALS \<Rightarrow> bool" where
  "fmp_buffer g \<longleftrightarrow> mFmpDataBufferSize g = FMP_DATA_BUFFER_SIZE
     \<and> (\<exists>b. mFmpDataBuffer g = Some b \<and> length b = FMP_DATA_BUFFER_SIZE)"

text \<open>Two states that differ in the buffer and the progress only.\<close>

definition fmp_same :: "FMP_GLOBALS \<Rightarrow> FMP_GLOBALS \<Rightarrow> bool" where
  "fmp_same g g' \<longleftrightarrow> mPcdFmpWriteVerifyImage g' = mPcdFmpWriteVerifyImage g
     \<and> mPlatformCompatSpec g' = mPlatformCompatSpec g \<and> mPlatformSpec g' = mPlatformSpec g
     \<and> mIsProductionFused g' = mIsProductionFused g \<and> mFmpBootChain g' = mFmpBootChain g
     \<and> mFwImagesRequired g' = mFwImagesRequired g \<and> (fmp_buffer g \<longrightarrow> fmp_buffer g')"

lemma fmp_same_refl [simp]: "fmp_same g g"
  by (simp add: fmp_same_def)

lemma fmp_same_trans: "fmp_same g g1 \<Longrightarrow> fmp_same g1 g2 \<Longrightarrow> fmp_same g g2"
  by (simp add: fmp_same_def)

lemma fmp_same_buffer: "fmp_same g g' \<Longrightarrow> fmp_buffer g \<Longrightarrow> fmp_buffer g'"
  by (simp add: fmp_same_def)

lemma UpdateProgress_same: "UpdateProgress I n g = Some g' \<Longrightarrow> fmp_same g g'"
  by (auto simp: UpdateProgress_def UpdateImageProgress_def fmp_same_def fmp_buffer_def split: if_splits)

lemma progress_same:
  "ImageVerifyProgress I n g = Some g' \<Longrightarrow> fmp_same g g'"
  "ImageWriteProgress I n g = Some g' \<Longrightarrow> fmp_same g g'"
  "SetImageProgress I n g = Some g' \<Longrightarrow> fmp_same g g'"
  by (auto simp: ImageVerifyProgress_def ImageWriteProgress_def SetImageProgress_def Let_def fmp_same_def fmp_buffer_def
      dest!: UpdateProgress_same split: if_splits)

lemma fmp_same_data: "length b = FMP_DATA_BUFFER_SIZE \<Longrightarrow> fmp_same g (g\<lparr>mFmpDataBuffer := Some b\<rparr>)"
  by (simp add: fmp_same_def fmp_buffer_def)

section \<open>The package\<close>

text \<open>The size and the offset of the data of the package image that belongs to a name.\<close>

definition pkg_image ::
  "('i, 's) FMP_IMAGES \<Rightarrow> FMP_GLOBALS \<Rightarrow> byte list \<Rightarrow> wstring \<Rightarrow> (nat \<times> nat) option" where
  "pkg_image I g Header Name' = (case GetPackageImageIndex I g Header Name' of
     Some (EFI_SUCCESS, Index) \<Rightarrow> PkgImage Header Index
   | _ \<Rightarrow> None)"

lemma index_same: "fmp_same g g' \<Longrightarrow> GetPackageImageIndex I g' = GetPackageImageIndex I g"
  by (simp add: fun_eq_iff fmp_same_def GetPackageImageIndex_def GetPackageImageName_def)

lemma pkg_same: "fmp_same g g' \<Longrightarrow> pkg_image I g' = pkg_image I g"
  by (simp add: fun_eq_iff pkg_image_def index_same)

lemma missing_same: "fmp_same g g' \<Longrightarrow> MissingRequired m n g' = MissingRequired m n g"
  by (simp add: fmp_same_def MissingRequired_def)

lemma pkg_imageD:
  "GetPackageImageIndex I g Header Name' = Some (EFI_SUCCESS, Index) \<Longrightarrow> PkgImage Header Index = nd
   \<Longrightarrow> pkg_image I g Header Name' = nd"
  by (simp add: pkg_image_def)

lemma PkgImage_size: "PkgImage Header Index = Some (n, d) \<Longrightarrow> n < 2 ^ 32"
  by (auto simp: PkgImage_def ImageBytes_def bind_eq_Some_conv dest: load32_bound)

section \<open>Slices\<close>

lemma slice_add: "slice off (m + n) xs = slice off m xs @ slice (off + m) n xs"
  by (simp add: slice_def take_add add.commute)

lemma slice_split: "c \<le> n \<Longrightarrow> slice off n xs = slice off c xs @ slice (off + c) (n - c) xs"
  using slice_add [of off c "n - c" xs] by simp

lemma slice_drop: "slice off n (drop d xs) = slice (d + off) n xs"
  by (simp add: slice_def add.commute)

lemma load_bytes_slice: "load_bytes xs off n = Some ys \<longleftrightarrow> off + n \<le> length xs \<and> ys = slice off n xs"
  by (auto simp: load_bytes_def slice_def)

section \<open>Alignment\<close>

definition small_unit :: "nat \<Rightarrow> bool" where "small_unit u \<longleftrightarrow> (\<exists>k \<le> 12. u = 2 ^ k)"

lemma small_unit_dvd: "small_unit u \<Longrightarrow> u dvd FMP_DATA_BUFFER_SIZE \<and> u dvd FMP_WRITE_LOOP_SIZE \<and> 0 < u"
proof -
  assume "small_unit u"
  then obtain k where k: "k \<le> 12" "u = 2 ^ k" by (auto simp: small_unit_def)
  have "FMP_DATA_BUFFER_SIZE = 2 ^ 12" "FMP_WRITE_LOOP_SIZE = 2 ^ 15"
    by (simp_all add: FMP_DATA_BUFFER_SIZE_def FMP_WRITE_LOOP_SIZE_def)
  moreover have "(2 :: nat) ^ k dvd 2 ^ 12" "(2 :: nat) ^ k dvd 2 ^ 15"
    using k(1) by (intro le_imp_power_dvd; simp)+
  ultimately show ?thesis using k(2) by simp
qed

lemma ALIGN_VALUE_buffer:
  assumes "small_unit u" and "c \<le> FMP_DATA_BUFFER_SIZE"
  shows "c \<le> ALIGN_VALUE c u" and "ALIGN_VALUE c u \<le> FMP_DATA_BUFFER_SIZE"
proof -
  from assms(1) obtain k where k: "k \<le> 12" "u = 2 ^ k" by (auto simp: small_unit_def)
  have u: "0 < u" "u \<le> 4096" using k power_increasing [of k 12 "2 :: nat"] by simp_all
  have al: "ALIGN_VALUE c u = ceil_to u c"
    using k(1) assms(2) u(2) by (intro ALIGN_VALUE_ceil [OF k(2)]) (simp_all add: FMP_DATA_BUFFER_SIZE_def)
  show "c \<le> ALIGN_VALUE c u" using ceil_to_multiple(2) [OF u(1)] by (simp add: al)
  have "(c + u - 1) div u * u \<le> (FMP_DATA_BUFFER_SIZE + u - 1) div u * u"
    using assms(2) by (intro mult_le_mono1 div_le_mono) simp
  also have "\<dots> = FMP_DATA_BUFFER_SIZE"
  proof -
    from small_unit_dvd [OF assms(1)] obtain m where m: "FMP_DATA_BUFFER_SIZE = u * m" by (auto elim: dvdE)
    have "(u * m + u - 1) div u = m" using u(1) by (simp add: div_nat_eqI)
    then show ?thesis by (simp add: m)
  qed
  finally show "ALIGN_VALUE c u \<le> FMP_DATA_BUFFER_SIZE" by (simp add: al ceil_to_def)
qed

lemma if_eqE: "(if c then x else y) = z \<Longrightarrow> (x = z \<Longrightarrow> P) \<Longrightarrow> (y = z \<Longrightarrow> P) \<Longrightarrow> P"
  by (cases c) simp_all

lemma chunk_min: "(if n > m then m else n) = min n (m :: nat)"
  by simp

section \<open>What an operation may change\<close>

text \<open>
  The images keep their geometry, and of the partitions of images only those in \<open>X\<close> may have changed.
\<close>

definition touched ::
  "('s \<Rightarrow> 'p \<Rightarrow> byte list) \<Rightarrow> ('s \<Rightarrow> 'i \<Rightarrow> nat \<Rightarrow> 'p option) \<Rightarrow> ('s \<Rightarrow> 'i \<Rightarrow> bool) \<Rightarrow> ('s \<Rightarrow> 'i \<Rightarrow> nat)
   \<Rightarrow> 'p set \<Rightarrow> 's \<Rightarrow> 's \<Rightarrow> bool" where
  "touched store slot ok unit X s s' \<longleftrightarrow> ok s' = ok s \<and> slot s' = slot s \<and> unit s' = unit s
     \<and> (\<forall>j f q. ok s j \<longrightarrow> slot s j f = Some q \<longrightarrow>
          length (store s' q) = length (store s q) \<and> (q \<notin> X \<longrightarrow> store s' q = store s q))"

text \<open>The partition that an image's accesses with the given flags meet holds the data of the package.\<close>

definition image_holds ::
  "('s \<Rightarrow> 'p \<Rightarrow> byte list) \<Rightarrow> ('s \<Rightarrow> 'i \<Rightarrow> nat \<Rightarrow> 'p option) \<Rightarrow> 's \<Rightarrow> nat \<Rightarrow> 'i \<Rightarrow> byte list \<Rightarrow> nat \<times> nat \<Rightarrow> bool" where
  "image_holds store slot s f i Header nd \<longleftrightarrow> (case nd of (n, d) \<Rightarrow> n = 0 \<or> (\<exists>p. slot s i f = Some p
     \<and> n \<le> length (store s p) \<and> d + n \<le> length Header \<and> slice 0 n (store s p) = slice d n Header))"

context image_store
begin

abbreviation "only \<equiv> touched store slot ok unit"
abbreviation "holds \<equiv> image_holds store slot"

lemma only_refl [simp]: "only X s s"
  by (simp add: touched_def)

lemma only_trans: "only X s s1 \<Longrightarrow> only X s1 s2 \<Longrightarrow> only X s s2"
  by (auto simp: touched_def)

lemma only_mono: "only X s s1 \<Longrightarrow> X \<subseteq> Y \<Longrightarrow> only Y s s1"
  by (auto simp: touched_def)

lemma onlyD: "only X s s' \<Longrightarrow> ok s' = ok s \<and> slot s' = slot s \<and> unit s' = unit s"
  by (simp add: touched_def)

lemma holds_only:
  "only X s s' \<Longrightarrow> ok s i \<Longrightarrow> (\<And>p. slot s i f = Some p \<Longrightarrow> p \<notin> X) \<Longrightarrow> holds s f i Header nd
   \<Longrightarrow> holds s' f i Header nd"
  by (auto simp: touched_def image_holds_def split: prod.splits)

section \<open>Reading\<close>

lemma read_chunk:
  assumes "ok s i" and "small_unit (unit s i)" and "c \<le> FMP_DATA_BUFFER_SIZE" and "length b = FMP_DATA_BUFFER_SIZE"
    and "ImageRead P i off (ALIGN_VALUE c (unit s i)) b f s = Some (st, b', s')"
  shows "only {} s s' \<and> length b' = FMP_DATA_BUFFER_SIZE
    \<and> (st = EFI_SUCCESS \<longrightarrow> (\<exists>p. slot s i f = Some p \<and> off + c \<le> length (store s p)
         \<and> slice 0 c b' = slice off c (store s p)))"
proof -
  note al = ALIGN_VALUE_buffer [OF assms(2,3)]
  note law = image_read [OF assms(1,5)]
  have "\<exists>p. slot s i f = Some p \<and> off + c \<le> length (store s p) \<and> slice 0 c b' = slice off c (store s p)"
    if "st = EFI_SUCCESS"
  proof -
    from law that al assms(4) obtain p where p: "slot s i f = Some p"
        "off + ALIGN_VALUE c (unit s i) \<le> length (store s p)"
        "take (ALIGN_VALUE c (unit s i)) b' = slice off (ALIGN_VALUE c (unit s i)) (store s p)" by auto
    from p(3) have "take c (take (ALIGN_VALUE c (unit s i)) b') = take c (slice off (ALIGN_VALUE c (unit s i)) (store s p))"
      by simp
    then have "slice 0 c b' = slice off c (store s p)" using al(1) by (simp add: slice_def min_absorb1)
    with p al show ?thesis by (intro exI [of _ p]) simp
  qed
  with law assms(4) show ?thesis by (simp add: touched_def)
qed

text \<open>From \<open>off\<close> on the partition has the same \<open>n\<close> bytes as the data.\<close>

definition matches :: "'s \<Rightarrow> nat \<Rightarrow> 'i \<Rightarrow> byte list \<Rightarrow> nat \<Rightarrow> nat \<Rightarrow> bool" where
  "matches s f i Data off n \<longleftrightarrow> n = 0 \<or> (\<exists>p. slot s i f = Some p \<and> off + n \<le> length (store s p)
     \<and> off + n \<le> length Data \<and> slice off n (store s p) = slice off n Data)"

lemma matches_holds: "matches s f i (drop d Header) 0 n \<Longrightarrow> holds s f i Header (n, d)"
  by (auto simp: matches_def image_holds_def slice_drop)

lemma read_matches:
  assumes "\<exists>p. slot s i f = Some p \<and> off + c \<le> length (store s p) \<and> slice 0 c b = slice off c (store s p)"
    and "load_bytes Data off c = Some xs" and "load_bytes b 0 c = Some xs"
  shows "matches s f i Data off c"
  using assms by (auto simp: matches_def load_bytes_slice)

lemma matches_chunk:
  assumes "matches s f i Data off c" and "0 < c" and "c \<le> n" and "only {} s s1" and "ok s i"
    and "matches s1 f i Data (off + c) (n - c)"
  shows "matches s f i Data off n"
proof -
  from assms(1,2) obtain p where p: "slot s i f = Some p" "off + c \<le> length (store s p)" "off + c \<le> length Data"
      "slice off c (store s p) = slice off c Data" by (auto simp: matches_def)
  with assms(4,5) have "store s1 p = store s p" "slot s1 = slot s" by (auto simp: touched_def)
  with assms(3,6) p show ?thesis by (cases "n = c") (auto simp: matches_def slice_split [OF assms(3), of off])
qed

lemma CompareLoop_sound:
  assumes "CompareLoop I i (unit s i) Data f n off g s = Some (st, Match, g', s')" and "FmpProtocol I = P"
    and "ok s i" and "small_unit (unit s i)" and "fmp_buffer g" and "off + n < 2 ^ 64"
  shows "only {} s s' \<and> fmp_same g g' \<and> (st = EFI_SUCCESS \<longrightarrow> Match \<longrightarrow> matches s f i Data off n)"
  using assms
proof (induction n arbitrary: off g s rule: less_induct)
  case (less n)
  show ?case
  proof (cases "n = 0")
    case True
    with less.prems(1) show ?thesis by (simp add: CompareLoop.simps [of I i "unit s i"] matches_def)
  next
    case False
    define c where "c = min n FMP_DATA_BUFFER_SIZE"
    have c: "c \<le> FMP_DATA_BUFFER_SIZE" "0 < c" "c \<le> n"
      using False by (auto simp: c_def FMP_DATA_BUFFER_SIZE_def)
    from less.prems(5) obtain b where b: "mFmpDataBuffer g = Some b" "length b = FMP_DATA_BUFFER_SIZE"
        "mFmpDataBufferSize g = FMP_DATA_BUFFER_SIZE" by (auto simp: fmp_buffer_def)
    have fits: "\<not> ALIGN_VALUE c (unit s i) > FMP_DATA_BUFFER_SIZE"
      using ALIGN_VALUE_buffer(2) [OF less.prems(4) c(1)] by simp
    from less.prems(1) [unfolded CompareLoop.simps [of I i "unit s i" Data f n] b(3) chunk_min c_def [symmetric]
        less.prems(2) Let_def b(1)] False fits
    obtain st1 b1 s1 where rd: "ImageRead P i off (ALIGN_VALUE c (unit s i)) b f s = Some (st1, b1, s1)"
      and rest: "(if st1 \<noteq> EFI_SUCCESS then Some (st1, False, g\<lparr>mFmpDataBuffer := Some b1\<rparr>, s1)
         else do { data \<leftarrow> load_bytes Data off c; rd \<leftarrow> load_bytes b1 0 c;
           if rd \<noteq> data then Some (EFI_SUCCESS, False, g\<lparr>mFmpDataBuffer := Some b1\<rparr>, s1)
           else CompareLoop I i (unit s i) Data f (n - c) (add64 off c) (g\<lparr>mFmpDataBuffer := Some b1\<rparr>) s1 })
         = Some (st, Match, g', s')"
      by (auto simp: bind_eq_Some_conv [of "ImageRead P i off (ALIGN_VALUE c (unit s i)) b f s"])
    note chunk = read_chunk [OF less.prems(3,4) c(1) b(2) rd]
    have same: "fmp_same g (g\<lparr>mFmpDataBuffer := Some b1\<rparr>)" using chunk by (simp add: fmp_same_data)
    show ?thesis
    proof (cases "st1 = EFI_SUCCESS \<and> load_bytes Data off c = load_bytes b1 0 c")
      case False
      with rest chunk same show ?thesis by (auto simp: bind_eq_Some_conv split: if_splits)
    next
      case True
      from True rest obtain data where data: "load_bytes Data off c = Some data" "load_bytes b1 0 c = Some data"
        and run: "CompareLoop I i (unit s i) Data f (n - c) (off + c) (g\<lparr>mFmpDataBuffer := Some b1\<rparr>) s1
          = Some (st, Match, g', s')"
        using c(3) less.prems(6) by (auto simp: bind_eq_Some_conv add64_less)
      from chunk have s1: "only {} s s1" by simp
      note eqs = onlyD [OF s1]
      have "only {} s1 s' \<and> fmp_same (g\<lparr>mFmpDataBuffer := Some b1\<rparr>) g'
        \<and> (st = EFI_SUCCESS \<longrightarrow> Match \<longrightarrow> matches s1 f i Data (off + c) (n - c))"
        using c less.prems eqs fmp_same_buffer [OF same less.prems(5)] run by (intro less.IH) simp_all
      moreover have "matches s f i Data off c" using chunk True data by (intro read_matches) simp_all
      ultimately show ?thesis
        using matches_chunk [OF _ c(2,3) s1 less.prems(3)] only_trans [OF s1] fmp_same_trans [OF same] by blast
    qed
  qed
qed

lemma CheckTailLoop_sound:
  assumes "CheckTailLoop I i (unit s i) E f n off g s = Some (st, Tail, g', s')" and "FmpProtocol I = P"
    and "ok s i" and "small_unit (unit s i)" and "fmp_buffer g"
  shows "only {} s s' \<and> fmp_same g g'"
  using assms
proof (induction n arbitrary: off g s rule: less_induct)
  case (less n)
  show ?case
  proof (cases "n = 0")
    case True
    with less.prems(1) show ?thesis by (simp add: CheckTailLoop.simps [of I i "unit s i"])
  next
    case False
    define c where "c = min n FMP_DATA_BUFFER_SIZE"
    have c: "c \<le> FMP_DATA_BUFFER_SIZE" "0 < c" "c \<le> n"
      using False by (auto simp: c_def FMP_DATA_BUFFER_SIZE_def)
    from less.prems(5) obtain b where b: "mFmpDataBuffer g = Some b" "length b = FMP_DATA_BUFFER_SIZE"
        "mFmpDataBufferSize g = FMP_DATA_BUFFER_SIZE" by (auto simp: fmp_buffer_def)
    note run = less.prems(1) [unfolded CheckTailLoop.simps [of I i "unit s i" E f n] b(3) chunk_min c_def [symmetric]
        less.prems(2) Let_def b(1)]
    show ?thesis
    proof (cases "ALIGN_VALUE c (unit s i) > FMP_DATA_BUFFER_SIZE
        \<or> ALIGN_VALUE c (unit s i) > E \<or> off > E - ALIGN_VALUE c (unit s i)")
      case True
      with run False show ?thesis by (auto split: if_splits)
    next
      case go: False
      with run False obtain st1 b1 s1 where
          rd: "ImageRead P i off (ALIGN_VALUE c (unit s i)) b f s = Some (st1, b1, s1)"
        and rest: "(if st1 \<noteq> EFI_SUCCESS then Some (st1, False, g\<lparr>mFmpDataBuffer := Some b1\<rparr>, s1)
           else do { AllFf \<leftarrow> BufferIsAllFf b1 c;
             if \<not> AllFf then Some (EFI_SUCCESS, False, g\<lparr>mFmpDataBuffer := Some b1\<rparr>, s1)
             else CheckTailLoop I i (unit s i) E f (n - c) (add64 off c) (g\<lparr>mFmpDataBuffer := Some b1\<rparr>) s1 })
           = Some (st, Tail, g', s')"
        by (auto simp: bind_eq_Some_conv [of "ImageRead P i off (ALIGN_VALUE c (unit s i)) b f s"])
      note chunk = read_chunk [OF less.prems(3,4) c(1) b(2) rd]
      have same: "fmp_same g (g\<lparr>mFmpDataBuffer := Some b1\<rparr>)" using chunk by (simp add: fmp_same_data)
      from chunk have s1: "only {} s s1" by simp
      from rest consider "g' = g\<lparr>mFmpDataBuffer := Some b1\<rparr>" "s' = s1"
        | "CheckTailLoop I i (unit s i) E f (n - c) (add64 off c) (g\<lparr>mFmpDataBuffer := Some b1\<rparr>) s1 = Some (st, Tail, g', s')"
        by (auto simp: bind_eq_Some_conv split: if_splits)
      then show ?thesis
      proof cases
        case 1
        with s1 same show ?thesis by simp
      next
        case 2
        have "only {} s1 s' \<and> fmp_same (g\<lparr>mFmpDataBuffer := Some b1\<rparr>) g'"
          using c 2 less.prems onlyD [OF s1] fmp_same_buffer [OF same less.prems(5)] by (intro less.IH) simp_all
        then show ?thesis using only_trans [OF s1] fmp_same_trans [OF same] by blast
      qed
    qed
  qed
qed

lemma WriteCanBeSkipped_sound:
  assumes "WriteCanBeSkipped I i n Data f g s = Some (Skip, g', s')" and "FmpProtocol I = P"
    and "ok s i" and "small_unit (unit s i)" and "fmp_buffer g" and "n < 2 ^ 64"
  shows "only {} s s' \<and> fmp_same g g' \<and> (Skip \<longrightarrow> matches s (ReadFlags f) i Data 0 n)"
proof -
  have cmp: "only {} s s1 \<and> fmp_same g g1 \<and> (st = EFI_SUCCESS \<longrightarrow> Match \<longrightarrow> matches s F i Data 0 n)"
    if "CompareImageToBuffer I i n Data F g s = Some (st, Match, g1, s1)" for F st Match g1 s1
  proof -
    from that assms(2) obtain A where A: "ImageGetAttributes P i s = Some (EFI_SUCCESS, A)"
        and run: "CompareLoop I i (BlockSize A) Data F n 0 g s = Some (st, Match, g1, s1)"
      using image_attributes [OF assms(3)]
      by (auto simp: CompareImageToBuffer_def bind_eq_Some_conv split: if_splits)
    have "BlockSize A = unit s i" using image_attributes [OF assms(3) A] by simp
    with run assms show ?thesis by (intro CompareLoop_sound) simp_all
  qed
  have tail: "only {} t s1 \<and> fmp_same h g1"
    if t: "only {} s t" "fmp_same g h" and "CheckLastBlockTailAllFf I i n F h t = Some (st, Tail, g1, s1)"
    for F st Tail g1 s1 t h
  proof -
    have okt: "ok t i" "unit t = unit s" using onlyD [OF t(1)] assms(3) by simp_all
    from that(3) assms(2) obtain A st0 where A: "ImageGetAttributes P i t = Some (st0, A)"
        and run: "g1 = h \<and> s1 = t \<or> (\<exists>E m. CheckTailLoop I i (BlockSize A) E F m n h t = Some (st, Tail, g1, s1))"
      by (auto simp: CheckLastBlockTailAllFf_def bind_eq_Some_conv Let_def split: if_splits)
    have "BlockSize A = unit t i" using image_attributes [OF okt(1) A] by simp
    with run show ?thesis
      using CheckTailLoop_sound [OF _ assms(2) okt(1)] assms(4) okt(2) fmp_same_buffer [OF t(2) assms(5)] by auto
  qed
  define K where "K = (\<lambda>(st, Match, g1, s1). if st = EFI_SUCCESS \<and> Match
    then do { (st2, Tail, g2, s2) \<leftarrow> CheckLastBlockTailAllFf I i n (ReadFlags f) g1 s1;
              Some (st2 = EFI_SUCCESS \<and> Tail, g2, s2) }
    else Some (False, g1, s1))"
  obtain name where "ImageNameOf (FmpImageLib I) i = Some name"
    using assms(1) by (cases "ImageNameOf (FmpImageLib I) i") (simp_all add: WriteCanBeSkipped_def)
  with assms(1) have "(if name \<noteq> FW_PARTITION_UPDATE_INACTIVE_PARTITIONS \<and> name \<noteq> W ''GPT'' \<and> name \<noteq> W ''mb1''
      then CompareImageToBuffer I i n Data (ReadFlags f) g s \<bind> K else Some (False, g, s)) = Some (Skip, g', s')"
    unfolding WriteCanBeSkipped_def Let_def ReadFlags_def [symmetric] K_def by (simp only: bind.simps)
  then show ?thesis
  proof (rule if_eqE)
    assume "CompareImageToBuffer I i n Data (ReadFlags f) g s \<bind> K = Some (Skip, g', s')"
    then obtain st Match g1 s1 where "CompareImageToBuffer I i n Data (ReadFlags f) g s = Some (st, Match, g1, s1)"
        and k: "K (st, Match, g1, s1) = Some (Skip, g', s')" by (auto simp: bind_eq_Some_conv)
    note one = cmp [OF this(1)]
    show ?thesis
    proof (cases "st = EFI_SUCCESS \<and> Match")
      case True
      with k obtain st2 Tail where "CheckLastBlockTailAllFf I i n (ReadFlags f) g1 s1 = Some (st2, Tail, g', s')"
        by (auto simp: K_def bind_eq_Some_conv)
      from tail [OF _ _ this] one True show ?thesis using only_trans fmp_same_trans by blast
    qed (use k one in \<open>auto simp: K_def\<close>)
  next
    assume "Some (False, g, s) = Some (Skip, g', s')"
    then show ?thesis by simp
  qed
qed

end

end
