(* ===== verification/TegraFmpWrite.thy ===== *)
theory TegraFmpWrite
  imports TegraFmpProps
begin

text \<open>
  Writing, verifying and invalidating one image, and the loops over all images of the package.
\<close>

section \<open>The names\<close>

text \<open>The images that the loop over the package writes.\<close>

definition regular :: "bool \<Rightarrow> wstring \<Rightarrow> bool" where
  "regular m n \<longleftrightarrow> \<not> (\<not> m \<and> IsSpecialImageName n \<or> m \<and> FmpNameIsInList n MinimalUnsupportedImageNames)"

lemma NameIsInList_set [simp]: "FmpNameIsInList n L \<longleftrightarrow> n \<in> set L"
  by (induction L) auto

lemma regular_not_pseudo: "regular m n \<Longrightarrow> n \<noteq> FW_PARTITION_UPDATE_INACTIVE_PARTITIONS"
  by (auto simp: regular_def IsSpecialImageName_def SpecialImageNames_def MinimalUnsupportedImageNames_def)

text \<open>
  The images of the library: each one is found by its name, no two share a protocol, and all but the
  pseudo image for the partition table keep their contract, with blocks that divide the buffer.
\<close>

definition fmp_images ::
  "('i, 's) NVIDIA_FW_IMAGE_PROTOCOL \<Rightarrow> ('s \<Rightarrow> 'i \<Rightarrow> bool) \<Rightarrow> ('s \<Rightarrow> 'i \<Rightarrow> nat) \<Rightarrow> ('i, 's) FMP_IMAGES
   \<Rightarrow> (wstring \<times> 'i) list \<Rightarrow> 's \<Rightarrow> bool" where
  "fmp_images P ok unit I Images s \<longleftrightarrow> FmpProtocol I = P \<and> distinct (map snd Images)
     \<and> (\<forall>(n, i) \<in> set Images. FwImageFindProtocol (FmpImageLib I) n = Some i
          \<and> (n \<noteq> FW_PARTITION_UPDATE_INACTIVE_PARTITIONS \<longrightarrow> ok s i \<and> small_unit (unit s i)))"

section \<open>One image\<close>

context image_store
begin

text \<open>The partition that writes with the given flags meet.\<close>

definition target :: "'s \<Rightarrow> nat \<Rightarrow> 'i \<Rightarrow> 'p set" where
  "target s f i = {p. slot s i (ReadFlags f) = Some p}"

lemma target_same: "only X s s' \<Longrightarrow> target s' = target s"
  by (simp add: fun_eq_iff target_def touched_def)

lemma write_chunk:
  assumes "ok s i" and "off mod unit s i = 0" and "0 < w"
    and "ImageWrite P i off w (drop off Data) f s = Some (st, s')"
  shows "only (target s f i) s s'
    \<and> (\<forall>p a. slot s i (ReadFlags f) = Some p \<longrightarrow> a < off \<longrightarrow> a < length (store s p) \<longrightarrow> store s' p ! a = store s p ! a)
    \<and> (st = EFI_SUCCESS \<longrightarrow> matches s' (ReadFlags f) i Data off w)"
proof -
  note law = image_write [OF assms(1,2,4)]
  have "only (target s f i) s s'"
  proof -
    have "length (store s' q) = length (store s q) \<and> (q \<notin> target s f i \<longrightarrow> store s' q = store s q)"
      if "ok s j" "slot s j h = Some q" for j h q
      using law that by (cases "slot s i (ReadFlags f) = Some q") (auto simp: target_def simp del: ReadFlags_forced)
    with law show ?thesis by (simp add: touched_def del: ReadFlags_forced)
  qed
  moreover have "store s' p ! a = store s p ! a"
    if "slot s i (ReadFlags f) = Some p" "a < off" "a < length (store s p)" for p a
    using law that outside_before [OF image_unit [OF assms(1)] assms(2) that(2)] by blast
  moreover have "matches s' (ReadFlags f) i Data off w" if st: "st = EFI_SUCCESS"
  proof -
    from law st obtain p where p: "slot s i (ReadFlags f) = Some p" "off + w \<le> length (store s p)"
        "w \<le> length (drop off Data)" "slice off w (store s' p) = take w (drop off Data)" by blast
    moreover have "slot s' = slot s" "length (store s' p) = length (store s p)" using law p(1) by auto
    moreover have "off + w \<le> length Data" using p(3) assms(3) by simp
    ultimately show ?thesis unfolding matches_def slice_def [of off w Data] by simp
  qed
  ultimately show ?thesis by blast
qed

lemma matches_append:
  assumes "matches s1 f i Data off w" and "w \<le> n" and "0 < w"
    and "only X s1 s'" and "ok s1 i" and "matches s' f i Data (off + w) (n - w)"
    and "\<And>p a. slot s1 i f = Some p \<Longrightarrow> a < off + w \<Longrightarrow> a < length (store s1 p) \<Longrightarrow> store s' p ! a = store s1 p ! a"
  shows "matches s' f i Data off n"
proof -
  from assms(1,3) obtain p where p: "slot s1 i f = Some p" "off + w \<le> length (store s1 p)" "off + w \<le> length Data"
      "slice off w (store s1 p) = slice off w Data" by (auto simp: matches_def)
  with assms(4,5) have s': "slot s' i f = Some p" "length (store s' p) = length (store s1 p)"
    by (auto simp: touched_def)
  have "slice off w (store s' p) = slice off w (store s1 p)"
    using s'(2) assms(7) [OF p(1)] by (intro slice_eqI) simp_all
  with assms(2,6) p s' show ?thesis
    by (cases "n = w") (auto simp: matches_def slice_split [OF assms(2), of off])
qed

lemma WriteLoop_sound:
  assumes "WriteLoop I i Data f EFI_SUCCESS n off g s = Some (st, g', s')" and "FmpProtocol I = P"
    and "ok s i" and "small_unit (unit s i)" and "off mod unit s i = 0" and "off + n < 2 ^ 64"
  shows "only (target s f i) s s' \<and> fmp_same g g'
    \<and> (\<forall>p a. slot s i (ReadFlags f) = Some p \<longrightarrow> a < off \<longrightarrow> a < length (store s p) \<longrightarrow> store s' p ! a = store s p ! a)
    \<and> (st = EFI_SUCCESS \<longrightarrow> matches s' (ReadFlags f) i Data off n)"
  using assms
proof (induction n arbitrary: off g s rule: less_induct)
  case (less n)
  show ?case
  proof (cases "n = 0")
    case True
    with less.prems(1) show ?thesis by (simp add: WriteLoop.simps [of I i] matches_def)
  next
    case False
    define w where "w = min n FMP_WRITE_LOOP_SIZE"
    have w: "0 < w" "w \<le> n" using False by (auto simp: w_def FMP_WRITE_LOOP_SIZE_def)
    from less.prems(1) [unfolded WriteLoop.simps [of I i Data f _ n] chunk_min w_def [symmetric] Let_def less.prems(2)] False
    obtain st1 s1 where wr: "ImageWrite P i off w (drop off Data) f s = Some (st1, s1)"
      and rest: "(if st1 \<noteq> EFI_SUCCESS then Some (st1, g, s1) else do { g \<leftarrow> ImageWriteProgress I w g;
          WriteLoop I i Data f st1 (n - w) (add64 off w) g s1 }) = Some (st, g', s')"
      by (auto simp: bind_eq_Some_conv [of "ImageWrite P i off w (drop off Data) f s"])
    note chunk = write_chunk [OF less.prems(3,5) w(1) wr]
    show ?thesis
    proof (cases "st1 = EFI_SUCCESS")
      case False
      with rest chunk show ?thesis by (simp del: ReadFlags_forced)
    next
      case True
      with rest obtain g1 where pr: "ImageWriteProgress I w g = Some g1"
        and run: "WriteLoop I i Data f EFI_SUCCESS (n - w) (off + w) g1 s1 = Some (st, g', s')"
        using w(2) less.prems(6) by (auto simp: bind_eq_Some_conv add64_less)
      from chunk have s1: "only (target s f i) s s1" by simp
      note eqs = onlyD [OF s1] and same = progress_same(2) [OF pr]
      show ?thesis
      proof (cases "n = w")
        case all: True
        with run have "st = EFI_SUCCESS \<and> g' = g1 \<and> s' = s1" by (simp add: WriteLoop.simps [of I i])
        with chunk True same all show ?thesis by (simp del: ReadFlags_forced)
      next
        case more: False
        then have "w = FMP_WRITE_LOOP_SIZE" by (auto simp: w_def min_def split: if_splits)
        then have al: "(off + w) mod unit s i = 0"
          using less.prems(5) small_unit_dvd [OF less.prems(4)] by (simp add: mod_eq_0_iff_dvd)
        have ih: "only (target s1 f i) s1 s' \<and> fmp_same g1 g'
          \<and> (\<forall>p a. slot s1 i (ReadFlags f) = Some p \<longrightarrow> a < off + w \<longrightarrow> a < length (store s1 p) \<longrightarrow> store s' p ! a = store s1 p ! a)
          \<and> (st = EFI_SUCCESS \<longrightarrow> matches s' (ReadFlags f) i Data (off + w) (n - w))"
          using w less.prems eqs run al by (intro less.IH) (simp_all del: ReadFlags_forced)
        have okp: "slot s i (ReadFlags f) = Some p \<Longrightarrow> length (store s1 p) = length (store s p)" for p
          using s1 less.prems(3) by (simp add: touched_def del: ReadFlags_forced)
        have "matches s' (ReadFlags f) i Data off n" if "st = EFI_SUCCESS"
          using chunk True ih that eqs less.prems(3)
          by (intro matches_append [OF _ w(2,1), of s1 _ _ _ _ "target s1 f i"]) (simp_all del: ReadFlags_forced)
        moreover have "store s' p ! a = store s p ! a"
          if "slot s i (ReadFlags f) = Some p" "a < off" "a < length (store s p)" for p a
          using ih chunk that okp [OF that(1)] eqs by (simp del: ReadFlags_forced)
        ultimately show ?thesis
          using ih s1 only_trans [OF s1] fmp_same_trans [OF same] target_same [OF s1] by simp
      qed
    qed
  qed
qed

lemma WriteImage_sound:
  assumes "WriteImage I Header Name' f g s = Some (st, g', s')" and "FmpProtocol I = P"
    and "FwImageFindProtocol (FmpImageLib I) Name' = Some i"
    and "ok s i" and "small_unit (unit s i)" and "fmp_buffer g"
  shows "only (target s f i) s s' \<and> fmp_same g g'
    \<and> (st = EFI_SUCCESS \<longrightarrow> (\<exists>nd. pkg_image I g Header Name' = Some nd \<and> holds s' (ReadFlags f) i Header nd))"
proof -
  from assms(1,3) obtain st0 Index where idx: "GetPackageImageIndex I g Header Name' = Some (st0, Index)"
    by (auto simp: WriteImage_def bind_eq_Some_conv)
  show ?thesis
  proof (cases "st0 = EFI_SUCCESS")
    case False
    with assms(1,3) idx show ?thesis by (simp add: WriteImage_def)
  next
    case True
    from assms(1,3) idx True obtain n d where nd: "PkgImage Header Index = Some (n, d)"
      by (auto simp: WriteImage_def bind_eq_Some_conv)
    from assms(1,3) idx True nd obtain Skip g1 s1 where
        skip: "WriteCanBeSkipped I i n (drop d Header) f g s = Some (Skip, g1, s1)"
      by (auto simp: WriteImage_def bind_eq_Some_conv)
    note pkg = pkg_imageD [OF idx [unfolded True] nd]
    have n: "n < 2 ^ 64" using PkgImage_size [OF nd] by simp
    note sk = WriteCanBeSkipped_sound [OF skip assms(2,4-6) n]
    from sk have s1: "only {} s s1" "fmp_same g g1" by simp_all
    note eqs = onlyD [OF s1(1)]
    have T: "only (target s f i) s s1" by (rule only_mono [OF s1(1)]) simp
    show ?thesis
    proof (cases Skip)
      case True
      then obtain g2 where "ImageWriteProgress I n g1 = Some g2" "g' = g2" "s' = s1" "st = EFI_SUCCESS"
        using assms(1,3) idx \<open>st0 = EFI_SUCCESS\<close> nd skip by (auto simp: WriteImage_def bind_eq_Some_conv)
      then have res: "fmp_same g g'" "s' = s1" "st = EFI_SUCCESS"
        using progress_same(2) [of I n g1 g2] fmp_same_trans [OF s1(2), of g2] by simp_all
      have "holds s (ReadFlags f) i Header (n, d)" using sk True by (intro matches_holds) (simp del: ReadFlags_forced)
      then have "holds s1 (ReadFlags f) i Header (n, d)" by (rule holds_only [OF s1(1) assms(4), rotated]) simp
      with res pkg T show ?thesis by auto
    next
      case False
      then have wr: "WriteLoop I i (drop d Header) f EFI_SUCCESS n 0 g1 s1 = Some (st, g', s')"
        using assms(1,3) idx \<open>st0 = EFI_SUCCESS\<close> nd skip by (simp add: WriteImage_def WriteImageFromBuffer_def)
      have "ok s1 i" "small_unit (unit s1 i)" "0 mod unit s1 i = 0" "0 + n < 2 ^ 64" using eqs assms n by simp_all
      note law = WriteLoop_sound [OF wr assms(2) this]
      have "holds s' (ReadFlags f) i Header (n, d)" if "st = EFI_SUCCESS"
        using law that by (intro matches_holds) (simp del: ReadFlags_forced)
      with law pkg T show ?thesis
        using only_trans [OF T] fmp_same_trans [OF s1(2)] target_same [OF s1(1)] by auto
    qed
  qed
qed

lemma VerifyLoop_sound:
  assumes "VerifyLoop I i (unit s i) Data f EFI_SUCCESS n off g s = Some (st, g', s')" and "FmpProtocol I = P"
    and "ok s i" and "small_unit (unit s i)" and "fmp_buffer g" and "off + n < 2 ^ 64"
  shows "only {} s s' \<and> fmp_same g g' \<and> (st = EFI_SUCCESS \<longrightarrow> matches s f i Data off n)"
  using assms
proof (induction n arbitrary: off g s rule: less_induct)
  case (less n)
  show ?case
  proof (cases "n = 0")
    case True
    with less.prems(1) show ?thesis by (simp add: VerifyLoop.simps [of I i "unit s i"] matches_def)
  next
    case False
    define c where "c = min n FMP_DATA_BUFFER_SIZE"
    have c: "c \<le> FMP_DATA_BUFFER_SIZE" "0 < c" "c \<le> n"
      using False by (auto simp: c_def FMP_DATA_BUFFER_SIZE_def)
    from less.prems(5) obtain b where b: "mFmpDataBuffer g = Some b" "length b = FMP_DATA_BUFFER_SIZE"
        "mFmpDataBufferSize g = FMP_DATA_BUFFER_SIZE" by (auto simp: fmp_buffer_def)
    from less.prems(1) [unfolded VerifyLoop.simps [of I i "unit s i" Data f _ n] b(3) chunk_min c_def [symmetric]
        less.prems(2) Let_def b(1)] False ALIGN_VALUE_buffer(2) [OF less.prems(4) c(1)]
    obtain st1 b1 s1 where rd: "ImageRead P i off (ALIGN_VALUE c (unit s i)) b f s = Some (st1, b1, s1)"
      and rest: "(if st1 \<noteq> EFI_SUCCESS then Some (st1, g\<lparr>mFmpDataBuffer := Some b1\<rparr>, s1)
         else do { data \<leftarrow> load_bytes Data off c; rd \<leftarrow> load_bytes b1 0 c;
           if rd \<noteq> data then Some (EFI_VOLUME_CORRUPTED, g\<lparr>mFmpDataBuffer := Some b1\<rparr>, s1)
           else do { g \<leftarrow> ImageVerifyProgress I c (g\<lparr>mFmpDataBuffer := Some b1\<rparr>);
             VerifyLoop I i (unit s i) Data f st1 (n - c) (add64 off c) g s1 } })
         = Some (st, g', s')"
      by (auto simp: bind_eq_Some_conv [of "ImageRead P i off (ALIGN_VALUE c (unit s i)) b f s"])
    note chunk = read_chunk [OF less.prems(3,4) c(1) b(2) rd]
    have same: "fmp_same g (g\<lparr>mFmpDataBuffer := Some b1\<rparr>)" using chunk by (simp add: fmp_same_data)
    show ?thesis
    proof (cases "st1 = EFI_SUCCESS \<and> load_bytes Data off c = load_bytes b1 0 c")
      case False
      with rest chunk same show ?thesis by (auto simp: bind_eq_Some_conv split: if_splits)
    next
      case True
      from True rest obtain data g1 where data: "load_bytes Data off c = Some data" "load_bytes b1 0 c = Some data"
        and pr: "ImageVerifyProgress I c (g\<lparr>mFmpDataBuffer := Some b1\<rparr>) = Some g1"
        and run: "VerifyLoop I i (unit s i) Data f EFI_SUCCESS (n - c) (off + c) g1 s1 = Some (st, g', s')"
        using c(3) less.prems(6) by (auto simp: bind_eq_Some_conv add64_less)
      from chunk have s1: "only {} s s1" by simp
      note eqs = onlyD [OF s1]
      have same1: "fmp_same g g1" using fmp_same_trans [OF same progress_same(1) [OF pr]] .
      have "only {} s1 s' \<and> fmp_same g1 g' \<and> (st = EFI_SUCCESS \<longrightarrow> matches s1 f i Data (off + c) (n - c))"
        using c less.prems eqs fmp_same_buffer [OF same1 less.prems(5)] run by (intro less.IH) simp_all
      moreover have "matches s f i Data off c" using chunk True data by (intro read_matches) simp_all
      ultimately show ?thesis
        using matches_chunk [OF _ c(2,3) s1 less.prems(3)] only_trans [OF s1] fmp_same_trans [OF same1] by blast
    qed
  qed
qed

lemma VerifyImage_sound:
  assumes "VerifyImage I Header Name' f g s = Some (st, g', s')" and "FmpProtocol I = P"
    and "FwImageFindProtocol (FmpImageLib I) Name' = Some i"
    and "ok s i" and "small_unit (unit s i)" and "fmp_buffer g"
  shows "only {} s s' \<and> fmp_same g g' \<and> (st = EFI_SUCCESS \<longrightarrow> mPcdFmpWriteVerifyImage g \<longrightarrow>
     (\<exists>nd. pkg_image I g Header Name' = Some nd \<and> holds s' f i Header nd))"
proof (cases "mPcdFmpWriteVerifyImage g")
  case False
  with assms(1) show ?thesis by (simp add: VerifyImage_def)
next
  case True
  with assms(1-3) obtain A st0 Index where A: "ImageGetAttributes P i s = Some (EFI_SUCCESS, A)"
      and idx: "GetPackageImageIndex I g Header Name' = Some (st0, Index)"
    using image_attributes [OF assms(4)] by (auto simp: VerifyImage_def bind_eq_Some_conv split: if_splits)
  have B: "BlockSize A = unit s i" using image_attributes [OF assms(4) A] by simp
  show ?thesis
  proof (cases "st0 = EFI_SUCCESS")
    case False
    with True assms(1-3) A idx show ?thesis by (simp add: VerifyImage_def)
  next
    case st0: True
    from True assms(1-3) A idx st0 obtain n d where nd: "PkgImage Header Index = Some (n, d)"
      by (auto simp: VerifyImage_def bind_eq_Some_conv)
    then have run: "VerifyLoop I i (unit s i) (drop d Header) f EFI_SUCCESS n 0 g s = Some (st, g', s')"
      using True assms(1-3) A B idx st0 by (simp add: VerifyImage_def)
    have "0 + n < 2 ^ 64" using PkgImage_size [OF nd] by simp
    note law = VerifyLoop_sound [OF run assms(2,4-6) this]
    have "holds s' f i Header (n, d)" if "st = EFI_SUCCESS"
      using law that holds_only [OF _ assms(4)] by (blast intro: matches_holds)
    with law pkg_imageD [OF idx [unfolded st0] nd] show ?thesis by blast
  qed
qed

lemma InvalidateImage_sound:
  assumes "InvalidateImage I Name' FW_IMAGE_RW_FLAG_NONE g s = Some (st, g', s')" and "FmpProtocol I = P"
    and "FwImageFindProtocol (FmpImageLib I) Name' = Some i"
    and "ok s i" and "small_unit (unit s i)" and "fmp_buffer g"
  shows "only (target s FW_IMAGE_RW_FLAG_NONE i) s s' \<and> fmp_same g g'
    \<and> (st = EFI_SUCCESS \<longrightarrow> (\<exists>p. slot s i FW_IMAGE_RW_FLAG_READ_INACTIVE_IMAGE = Some p
         \<and> (\<forall>a < min (length (store s' p)) FMP_DATA_BUFFER_SIZE. store s' p ! a = 0xFF)))"
proof -
  from assms(6) obtain b where b: "mFmpDataBuffer g = Some b" "length b = FMP_DATA_BUFFER_SIZE"
      "mFmpDataBufferSize g = FMP_DATA_BUFFER_SIZE" by (auto simp: fmp_buffer_def)
  from assms(1-3) obtain A where A: "ImageGetAttributes P i s = Some (EFI_SUCCESS, A)"
    using image_attributes [OF assms(4)] by (auto simp: InvalidateImage_def bind_eq_Some_conv)
  from image_attributes [OF assms(4) A] obtain p where
      p: "slot s i FW_IMAGE_RW_FLAG_READ_INACTIVE_IMAGE = Some p" "WriteBytes A = length (store s p)" by blast
  define n where "n = min (length (store s p)) FMP_DATA_BUFFER_SIZE"
  define b' where "b' = replicate n (0xFF :: byte) @ drop n b"
  have st: "store_bytes b 0 (replicate n 0xFF) = Some b'" using b(2) by (simp add: store_bytes_def b'_def n_def)
  have b': "length b' = FMP_DATA_BUFFER_SIZE" using b(2) by (simp add: b'_def n_def)
  let ?g = "g\<lparr>mFmpDataBuffer := Some b', mTotalBytesToFlash := add64 (mTotalBytesToFlash g) n\<rparr>"
  have run: "WriteLoop I i b' FW_IMAGE_RW_FLAG_NONE EFI_SUCCESS n 0 ?g s = Some (st, g', s')"
    using assms(1-3) A p(2) b st by (simp add: InvalidateImage_def WriteImageFromBuffer_def n_def Let_def)
  have "fmp_same g ?g" using b' by (simp add: fmp_same_def fmp_buffer_def)
  moreover have n: "0 + n < 2 ^ 64" by (simp add: n_def FMP_DATA_BUFFER_SIZE_def)
  note law = WriteLoop_sound [OF run assms(2,4,5) _ n]
  have rf: "ReadFlags FW_IMAGE_RW_FLAG_NONE = FW_IMAGE_RW_FLAG_READ_INACTIVE_IMAGE"
    using forced_bits(4) by (simp add: image_flags)
  have len: "length (store s' p) = length (store s p)"
    using law p(1) assms(4) by (auto simp: touched_def)
  have "store s' p ! a = 0xFF" if "st = EFI_SUCCESS" "a < n" for a
  proof -
    from law that have "matches s' FW_IMAGE_RW_FLAG_READ_INACTIVE_IMAGE i b' 0 n" unfolding rf by simp
    moreover have "slot s' = slot s" using law by (simp add: touched_def)
    ultimately have "slice 0 n (store s' p) = slice 0 n b'" using p(1) that by (auto simp: matches_def)
    moreover have "slice 0 n b' = replicate n 0xFF" by (simp add: slice_def b'_def)
    ultimately have "slice 0 n (store s' p) ! a = 0xFF" using that by simp
    then show ?thesis using that len by (simp add: slice_nth n_def)
  qed
  ultimately show ?thesis
    using law p(1) len fmp_same_trans [of g ?g g'] by (auto simp: n_def simp del: ReadFlags_forced)
qed

abbreviation "images_ok \<equiv> fmp_images P ok unit"

lemma images_okD:
  assumes "images_ok I Images s" and "(n, i) \<in> set Images" and "n \<noteq> FW_PARTITION_UPDATE_INACTIVE_PARTITIONS"
  shows "FwImageFindProtocol (FmpImageLib I) n = Some i" "ok s i" "small_unit (unit s i)" "FmpProtocol I = P"
  using assms by (auto simp: fmp_images_def)

lemma images_ok_only: "images_ok I Images s \<Longrightarrow> only X s s' \<Longrightarrow> images_ok I Images s'"
  by (auto simp: fmp_images_def touched_def)

lemma images_ok_tl: "images_ok I (e # L) s \<Longrightarrow> images_ok I L s"
  by (auto simp: fmp_images_def)

text \<open>The partitions that belong to the images whose name satisfies \<open>Q\<close>.\<close>

definition targets :: "'s \<Rightarrow> nat \<Rightarrow> (wstring \<Rightarrow> bool) \<Rightarrow> (wstring \<times> 'i) list \<Rightarrow> 'p set" where
  "targets s f Q L = (\<Union>(n, i) \<in> {e \<in> set L. Q (fst e)}. target s f i)"

lemma target_targets: "(n, i) \<in> set L \<Longrightarrow> Q n \<Longrightarrow> target s f i \<subseteq> targets s f Q L"
  by (auto simp: targets_def)

lemma targets_tl: "targets s f Q L \<subseteq> targets s f Q (e # L)"
  by (auto simp: targets_def)

text \<open>What an image holds stays when other images are written.\<close>

lemma holds_other:
  assumes "only (targets s f Q L) s s'" and "ok s i" and "\<And>n j. (n, j) \<in> set L \<Longrightarrow> Q n \<Longrightarrow> ok s j \<and> j \<noteq> i"
    and "holds s h i Header nd"
  shows "holds s' h i Header nd"
proof (rule holds_only [OF assms(1,2) _ assms(4)])
  fix p assume p: "slot s i h = Some p"
  show "p \<notin> targets s f Q L"
  proof
    assume "p \<in> targets s f Q L"
    then obtain n j where "(n, j) \<in> set L" "Q n" "slot s j (ReadFlags f) = Some p"
      by (auto simp: targets_def target_def simp del: ReadFlags_forced)
    with assms(3) image_slot [OF assms(2) _ p] show False by blast
  qed
qed

lemma WriteRegularLoop_sound:
  assumes "WriteRegularLoop I Header m f L g s = Some (st, g', s')" and "images_ok I L s" and "fmp_buffer g"
  shows "only (targets s f (regular m) L) s s' \<and> fmp_same g g'
    \<and> (st = EFI_SUCCESS \<longrightarrow> (\<forall>(n, i) \<in> set L. regular m n \<longrightarrow>
         (\<forall>nd. pkg_image I g Header n = Some nd \<longrightarrow> holds s' (ReadFlags f) i Header nd)))"
  using assms
proof (induction L arbitrary: g s)
  case Nil
  then show ?case by (simp add: targets_def)
next
  case (Cons e L)
  obtain n i where e: "e = (n, i)" by (cases e)
  have skip: "only (targets s f (regular m) (e # L)) s s' \<and> fmp_same g g'
    \<and> (st = EFI_SUCCESS \<longrightarrow> (\<forall>(n, i) \<in> set (e # L). regular m n \<longrightarrow>
         (\<forall>nd. pkg_image I g Header n = Some nd \<longrightarrow> holds s' (ReadFlags f) i Header nd)))"
    if run: "WriteRegularLoop I Header m f L g s = Some (st, g', s')"
      and n: "\<not> regular m n \<or> pkg_image I g Header n = None"
    using Cons.IH [OF run images_ok_tl [OF Cons.prems(2)] Cons.prems(3)] n only_mono [OF _ targets_tl]
    by (auto simp: e simp del: ReadFlags_forced)
  show ?case
  proof (cases "regular m n")
    case False
    with Cons.prems(1) have "WriteRegularLoop I Header m f L g s = Some (st, g', s')"
      by (simp add: e regular_def)
    from skip [OF this] False show ?thesis by blast
  next
    case True
    note pre = images_okD [OF Cons.prems(2), of n i] regular_not_pseudo [OF True]
    from Cons.prems(1) True obtain st0 Index where
        idx: "GetPackageImageIndex I g Header n = Some (st0, Index)"
      by (cases "GetPackageImageIndex I g Header n") (auto simp: e regular_def)
    have rest: "if st0 \<noteq> EFI_SUCCESS
        then (if MissingRequired m n g = Some True then st = st0 \<and> g' = g \<and> s' = s
          else WriteRegularLoop I Header m f L g s = Some (st, g', s'))
        else \<exists>st1 g1 s1. WriteImage I Header n f g s = Some (st1, g1, s1) \<and> (if st1 \<noteq> EFI_SUCCESS
          then st = st1 \<and> g' = g1 \<and> s' = s1 else WriteRegularLoop I Header m f L g1 s1 = Some (st, g', s'))"
    proof (cases "st0 = EFI_SUCCESS")
      case ok: True
      with Cons.prems(1) True idx show ?thesis
        by (auto simp: e regular_def bind_eq_Some_conv Let_def split: if_splits)
    next
      case False
      with Cons.prems(1) True idx show ?thesis
        by (cases "MissingRequired m n g") (auto simp: e regular_def split: if_splits)
    qed
    show ?thesis
    proof (cases "st0 = EFI_SUCCESS")
      case False
      then have "pkg_image I g Header n = None" using idx by (simp add: pkg_image_def split: EFI_STATUS.split)
      with rest False skip show ?thesis by (cases "MissingRequired m n g = Some True") auto
    next
      case st0: True
      with rest obtain st1 g1 s1 where wr: "WriteImage I Header n f g s = Some (st1, g1, s1)"
        and rest1: "if st1 \<noteq> EFI_SUCCESS then st = st1 \<and> g' = g1 \<and> s' = s1
          else WriteRegularLoop I Header m f L g1 s1 = Some (st, g', s')" by auto
      have i: "(n, i) \<in> set (e # L)" by (simp add: e)
      note pre = images_okD [OF Cons.prems(2) i regular_not_pseudo [OF True]]
      note law = WriteImage_sound [OF wr pre(4,1-3) Cons.prems(3)]
      have T: "only (targets s f (regular m) (e # L)) s s1"
        using only_mono [OF _ target_targets [where Q = "regular m", OF i True]] law by blast
      show ?thesis
      proof (cases "st1 = EFI_SUCCESS")
        case False
        with rest1 law T show ?thesis by auto
      next
        case st1: True
        with rest1 have run: "WriteRegularLoop I Header m f L g1 s1 = Some (st, g', s')" by simp
        have s1: "images_ok I L s1" "fmp_buffer g1"
          using images_ok_tl [OF images_ok_only [OF Cons.prems(2)]] T law fmp_same_buffer Cons.prems(3) by blast+
        note ih = Cons.IH [OF run s1]
        have eqs: "targets s1 = targets s" "pkg_image I g1 = pkg_image I g" "ok s1 = ok s"
          using target_same [OF T] pkg_same [of g g1 I] law onlyD [OF T] by (simp_all add: targets_def fun_eq_iff)
        have "holds s' (ReadFlags f) i Header nd" if nd: "pkg_image I g Header n = Some nd" for nd
        proof (rule holds_other)
          show "only (targets s1 f (regular m) L) s1 s'" using ih by simp
          show "ok s1 i" using pre(2) eqs by simp
          show "holds s1 (ReadFlags f) i Header nd" using law st1 nd by auto
          show "ok s1 j \<and> j \<noteq> i" if "(n', j) \<in> set L" "regular m n'" for n' j
          proof -
            have "ok s1 j" using images_okD(2) [OF s1(1) that(1) regular_not_pseudo [OF that(2)]] .
            moreover have "i \<notin> snd ` set L" using Cons.prems(2) by (simp add: fmp_images_def e)
            ultimately show ?thesis using that(1) by (auto simp: image_iff)
          qed
        qed
        moreover have "only (targets s f (regular m) (e # L)) s s'"
          using ih only_trans [OF T only_mono [OF _ targets_tl]] by (simp add: eqs)
        moreover have "fmp_same g g'" using ih law fmp_same_trans by blast
        ultimately show ?thesis using ih eqs(2) unfolding e by (simp del: ReadFlags_forced)
      qed
    qed
  qed
qed

lemma VerifyAllLoop_sound:
  assumes "VerifyAllLoop I Header m f L g s = Some (st, g', s')" and "images_ok I L s" and "fmp_buffer g"
    and "mPcdFmpWriteVerifyImage g"
  shows "only {} s s' \<and> fmp_same g g'
    \<and> (st = EFI_SUCCESS \<longrightarrow> (\<forall>(n, i) \<in> set L. n \<notin> set NoVerifyPartitionNames
         \<longrightarrow> \<not> (m \<and> n \<in> set MinimalUnsupportedImageNames) \<longrightarrow>
         (\<forall>nd. pkg_image I g Header n = Some nd \<longrightarrow> holds s' f i Header nd)))"
  using assms
proof (induction L arbitrary: g s)
  case (Cons e L)
  obtain n i where e: "e = (n, i)" by (cases e)
  let ?skipped = "n \<in> set NoVerifyPartitionNames \<or> m \<and> n \<in> set MinimalUnsupportedImageNames"
  note tl = images_ok_tl [OF Cons.prems(2)]
  show ?case
  proof (cases ?skipped)
    case True
    with Cons.prems(1) have run: "VerifyAllLoop I Header m f L g s = Some (st, g', s')" by (auto simp: e)
    from Cons.IH [OF run tl Cons.prems(3,4)] True show ?thesis by (auto simp: e)
  next
    case False
    then have n: "n \<noteq> FW_PARTITION_UPDATE_INACTIVE_PARTITIONS" by (auto simp: NoVerifyPartitionNames_def)
    have i: "(n, i) \<in> set (e # L)" by (simp add: e)
    note pre = images_okD [OF Cons.prems(2) i n]
    from Cons.prems(1) False obtain st0 Index where
        idx: "GetPackageImageIndex I g Header n = Some (st0, Index)"
      by (cases "GetPackageImageIndex I g Header n") (auto simp: e)
    have rest: "if st0 \<noteq> EFI_SUCCESS
        then (if MissingRequired m n g = Some True then st = st0 \<and> g' = g \<and> s' = s
          else VerifyAllLoop I Header m f L g s = Some (st, g', s'))
        else \<exists>st1 g1 s1. VerifyImage I Header n f g s = Some (st1, g1, s1) \<and> (if st1 \<noteq> EFI_SUCCESS
          then st = st1 \<and> g' = g1 \<and> s' = s1 else VerifyAllLoop I Header m f L g1 s1 = Some (st, g', s'))"
    proof (cases "st0 = EFI_SUCCESS")
      case True
      with Cons.prems(1) False idx show ?thesis
        by (auto simp: e bind_eq_Some_conv Let_def split: if_splits)
    next
      case err: False
      with Cons.prems(1) False idx show ?thesis
        by (cases "MissingRequired m n g") (simp_all add: e split: if_splits)
    qed
    show ?thesis
    proof (cases "st0 = EFI_SUCCESS")
      case st0: False
      then have "pkg_image I g Header n = None" using idx by (simp add: pkg_image_def split: EFI_STATUS.split)
      with rest st0 Cons.IH [OF _ tl Cons.prems(3,4)] show ?thesis
        by (cases "MissingRequired m n g = Some True") (auto simp: e)
    next
      case True
      with rest obtain st1 g1 s1 where ver: "VerifyImage I Header n f g s = Some (st1, g1, s1)"
        and rest1: "if st1 \<noteq> EFI_SUCCESS then st = st1 \<and> g' = g1 \<and> s' = s1
          else VerifyAllLoop I Header m f L g1 s1 = Some (st, g', s')" by auto
      note law = VerifyImage_sound [OF ver pre(4,1-3) Cons.prems(3)]
      from law have T: "only {} s s1" "fmp_same g g1" by simp_all
      show ?thesis
      proof (cases "st1 = EFI_SUCCESS")
        case False
        with rest1 T show ?thesis by auto
      next
        case st1: True
        with rest1 have run: "VerifyAllLoop I Header m f L g1 s1 = Some (st, g', s')" by simp
        have s1: "images_ok I L s1" "fmp_buffer g1" "mPcdFmpWriteVerifyImage g1"
          using images_ok_tl [OF images_ok_only [OF Cons.prems(2) T(1)]] fmp_same_buffer [OF T(2)] T(2)
            Cons.prems(3,4) by (simp_all add: fmp_same_def)
        note ih = Cons.IH [OF run s1]
        have "holds s' f i Header nd" if "pkg_image I g Header n = Some nd" for nd
        proof (rule holds_only)
          show "only {} s1 s'" using ih by simp
          show "ok s1 i" using pre(2) onlyD [OF T(1)] by simp
          show "holds s1 f i Header nd" using law st1 that Cons.prems(4) by simp
        qed simp
        moreover have "only {} s s' \<and> fmp_same g g'"
          using ih T only_trans [OF T(1)] fmp_same_trans [OF T(2)] by simp
        moreover have "pkg_image I g1 = pkg_image I g" by (rule pkg_same [OF T(2)])
        ultimately show ?thesis using ih unfolding e by simp
      qed
    qed
  qed
qed simp

end

end
