(* ===== verification/TegraFmpSet.thy ===== *)
theory TegraFmpSet
  imports TegraFmpWrite
begin

text \<open>
  The update of a boot chain as a whole: the steps of \<open>FmpTegraSetImage\<close> in their order, what each leaves
  in the flash, and what is there when the boot configuration table is switched.
\<close>

section \<open>Steps\<close>

lemma OrAbortE:
  assumes "OrAbort Last Step Next = Some (st, l, g', s')"
  obtains (aborted) st0 where "Step = Some (st0, g', s')" "EFI_ERROR st0" "st = EFI_ABORTED" "l = Last"
    | (goes_on) g1 s1 where "Step = Some (EFI_SUCCESS, g1, s1)" "Next g1 s1 = Some (st, l, g', s')"
  using assms by (cases Step) (auto simp: OrAbort_def split: if_splits)

lemma OrAbort_cong:
  "(\<And>g1 s1. Step = Some (EFI_SUCCESS, g1, s1) \<Longrightarrow> Next g1 s1 = Next' g1 s1)
   \<Longrightarrow> OrAbort Last Step Next = OrAbort Last Step Next'"
  by (cases Step) (auto simp: OrAbort_def)

section \<open>The images of a full update\<close>

text \<open>
  What a full update installs: all but the pseudo image and the table's backup; the partition table
  only where the result is verified.
\<close>

definition wanted :: "FMP_GLOBALS \<Rightarrow> wstring \<Rightarrow> bool" where
  "wanted g n \<longleftrightarrow> regular False n \<or> n = W ''mb1'' \<or> n = W ''GPT'' \<and> mPcdFmpWriteVerifyImage g"

lemma special_names [simp]:
  "W ''mb1'' \<noteq> FW_PARTITION_UPDATE_INACTIVE_PARTITIONS" "W ''GPT'' \<noteq> FW_PARTITION_UPDATE_INACTIVE_PARTITIONS"
  "W ''GPT'' \<noteq> W ''mb1''" "W ''mb1'' \<noteq> W ''GPT''"
  "\<not> regular False (W ''mb1'')" "\<not> regular False (W ''GPT'')"
  by (simp_all add: W_def FW_PARTITION_UPDATE_INACTIVE_PARTITIONS_def regular_def IsSpecialImageName_def
      SpecialImageNames_def)

lemma wanted_not_pseudo: "wanted g n \<Longrightarrow> n \<noteq> FW_PARTITION_UPDATE_INACTIVE_PARTITIONS"
  using special_names(1,2) regular_not_pseudo unfolding wanted_def by metis

lemma wanted_same: "fmp_same g g' \<Longrightarrow> wanted g' = wanted g"
  by (simp add: fun_eq_iff wanted_def fmp_same_def)

text \<open>The array of the library, in which the two images the update names are found.\<close>

definition library_ok :: "('i, 's) FMP_IMAGES \<Rightarrow> (wstring \<times> 'i) list \<Rightarrow> bool" where
  "library_ok I Images \<longleftrightarrow> FmpImageArray I = Some Images
     \<and> (\<forall>n \<in> {W ''mb1'', W ''GPT''}. \<forall>i. FwImageFindProtocol (FmpImageLib I) n = Some i \<longrightarrow> (n, i) \<in> set Images)"

text \<open>The services for the boot chain touch the partitions in \<open>X\<close> only.\<close>

definition services_only ::
  "('s \<Rightarrow> 's \<Rightarrow> bool) \<Rightarrow> 's FMP_SERVICES \<Rightarrow> bool" where
  "services_only R S \<longleftrightarrow> (\<forall>b s. R s (snd (SetInactiveBootChainStatus S b s)))
     \<and> (\<forall>xs s st s'. UpdateBackup S xs s = Some (st, s') \<longrightarrow> R s s')
     \<and> (\<forall>c s st s'. UpdateChain S c s = Some (st, s') \<longrightarrow> R s s')"

text \<open>The images of the package that are in place.\<close>

definition package_placed ::
  "('s \<Rightarrow> 'p \<Rightarrow> byte list) \<Rightarrow> ('s \<Rightarrow> 'i \<Rightarrow> nat \<Rightarrow> 'p option) \<Rightarrow> ('i, 's) FMP_IMAGES \<Rightarrow> FMP_GLOBALS
   \<Rightarrow> byte list \<Rightarrow> (wstring \<times> 'i) list \<Rightarrow> (wstring \<Rightarrow> bool) \<Rightarrow> 's \<Rightarrow> bool" where
  "package_placed store slot I g Header Images Q s \<longleftrightarrow> (\<forall>(n, i) \<in> set Images. Q n \<longrightarrow>
     (\<forall>nd. pkg_image I g Header n = Some nd \<longrightarrow>
       image_holds store slot s FW_IMAGE_RW_FLAG_READ_INACTIVE_IMAGE i Header nd))"

context image_store
begin

lemma images_distinct:
  assumes "images_ok I Images s" and "(n, i) \<in> set Images" and "(n', i) \<in> set Images"
  shows "n = n'"
proof -
  have "inj_on snd (set Images)" using assms(1) by (simp add: fmp_images_def distinct_map)
  from inj_onD [OF this _ assms(2,3)] show ?thesis by simp
qed

lemma holds_keep:
  assumes "images_ok I Images s" and "(n, i) \<in> set Images" and "(n', j) \<in> set Images"
    and "n \<noteq> n'" and "n \<noteq> FW_PARTITION_UPDATE_INACTIVE_PARTITIONS" and "n' \<noteq> FW_PARTITION_UPDATE_INACTIVE_PARTITIONS"
    and "only (target s f j) s s'" and "holds s h i Header nd"
  shows "holds s' h i Header nd"
proof (rule holds_only [OF assms(7) _ _ assms(8)])
  show ok: "ok s i" using images_okD(2) [OF assms(1,2,5)] .
  fix p assume p: "slot s i h = Some p"
  show "p \<notin> target s f j"
  proof
    assume "p \<in> target s f j"
    then have "slot s j (ReadFlags f) = Some p" by (simp add: target_def)
    with p images_okD(2) [OF assms(1,3,6)] ok have "i = j" by (metis image_slot)
    with images_distinct [OF assms(1,2)] assms(3,4) show False by blast
  qed
qed

lemma ReadFlags_none: "ReadFlags FW_IMAGE_RW_FLAG_NONE = FW_IMAGE_RW_FLAG_READ_INACTIVE_IMAGE"
  using forced_bits(4) by (simp add: image_flags)

abbreviation "placed \<equiv> package_placed store slot"

lemma placed_same: "fmp_same g g' \<Longrightarrow> placed I g' Header Images Q s = placed I g Header Images Q s"
  by (simp add: package_placed_def pkg_same)

lemma placed_keep:
  assumes "images_ok I Images s" and "(n', j) \<in> set Images" and "n' \<noteq> FW_PARTITION_UPDATE_INACTIVE_PARTITIONS"
    and "only (target s f j) s s'" and "placed I g Header Images Q s"
    and "\<And>n. Q n \<Longrightarrow> n \<noteq> n' \<and> n \<noteq> FW_PARTITION_UPDATE_INACTIVE_PARTITIONS"
  shows "placed I g Header Images Q s'"
  unfolding package_placed_def
proof (intro ballI, clarify)
  fix n i a b assume *: "(n, i) \<in> set Images" "Q n" "pkg_image I g Header n = Some (a, b)"
  with assms(5) have "holds s FW_IMAGE_RW_FLAG_READ_INACTIVE_IMAGE i Header (a, b)" by (auto simp: package_placed_def)
  then show "holds s' FW_IMAGE_RW_FLAG_READ_INACTIVE_IMAGE i Header (a, b)"
    using holds_keep [OF assms(1) *(1) assms(2) _ _ assms(3,4)] assms(6) [OF *(2)] by blast
qed

lemma placed_only_none:
  assumes "images_ok I Images s" and "only {} s s'" and "placed I g Header Images Q s"
    and "\<And>n. Q n \<Longrightarrow> n \<noteq> FW_PARTITION_UPDATE_INACTIVE_PARTITIONS"
  shows "placed I g Header Images Q s'"
  unfolding package_placed_def
proof (intro ballI, clarify)
  fix n i a b assume *: "(n, i) \<in> set Images" "Q n" "pkg_image I g Header n = Some (a, b)"
  with assms(3) have "holds s FW_IMAGE_RW_FLAG_READ_INACTIVE_IMAGE i Header (a, b)" by (auto simp: package_placed_def)
  moreover have "ok s i" using images_okD(2) [OF assms(1) *(1) assms(4) [OF *(2)]] .
  ultimately show "holds s' FW_IMAGE_RW_FLAG_READ_INACTIVE_IMAGE i Header (a, b)"
    by (rule holds_only [OF assms(2), rotated 2]) simp
qed


section \<open>The phases\<close>

text \<open>All partitions that the full update may write: the inactive ones of the images with data.\<close>

definition written :: "(wstring \<times> 'i) list \<Rightarrow> 's \<Rightarrow> 'p set" where
  "written Images s = targets s FW_IMAGE_RW_FLAG_NONE (\<lambda>n. regular False n \<or> n = W ''mb1'' \<or> n = W ''GPT'') Images"

lemma written_same: "only X s s' \<Longrightarrow> written Images s' = written Images s"
  by (simp add: written_def targets_def target_same)

lemma written_regular: "targets s FW_IMAGE_RW_FLAG_NONE (regular False) Images \<subseteq> written Images s"
  by (auto simp: written_def targets_def)

lemma written_target:
  "(n, i) \<in> set Images \<Longrightarrow> n = W ''mb1'' \<or> n = W ''GPT'' \<Longrightarrow> target s FW_IMAGE_RW_FLAG_NONE i \<subseteq> written Images s"
  by (auto simp: written_def targets_def)

text \<open>A write to one of the two images the update names.\<close>

lemma named_step:
  assumes "library_ok I Images" and "images_ok I Images s" and "fmp_buffer g" and "n = W ''mb1'' \<or> n = W ''GPT''"
    and "WriteImage I Header n FW_IMAGE_RW_FLAG_NONE g s = Some (st, g', s')"
  shows "only (written Images s) s s' \<and> fmp_same g g' \<and> (st = EFI_SUCCESS \<longrightarrow>
      placed I g Header Images (\<lambda>k. k = n) s'
      \<and> (\<forall>Q. placed I g Header Images Q s \<longrightarrow> (\<forall>k. Q k \<longrightarrow> k \<noteq> n \<and> k \<noteq> FW_PARTITION_UPDATE_INACTIVE_PARTITIONS)
           \<longrightarrow> placed I g Header Images Q s'))"
proof (cases "FwImageFindProtocol (FmpImageLib I) n")
  case None
  with assms(5) show ?thesis by (simp add: WriteImage_def)
next
  case (Some i)
  have mem: "(n, i) \<in> set Images" using assms(1,4) Some unfolding library_ok_def by blast
  have np: "n \<noteq> FW_PARTITION_UPDATE_INACTIVE_PARTITIONS" using assms(4) special_names(1,2) by metis
  note pre = images_okD [OF assms(2) mem np]
  note law = WriteImage_sound [OF assms(5) pre(4) Some pre(2,3) assms(3)]
  have "i' = i" if "(n, i') \<in> set Images" for i'
    using images_okD(1) [OF assms(2) that np] Some by simp
  then have "placed I g Header Images (\<lambda>k. k = n) s'" if "st = EFI_SUCCESS"
    using law that by (auto simp: package_placed_def ReadFlags_none simp del: ReadFlags_forced)
  with law only_mono [OF _ written_target [OF mem assms(4)]] placed_keep [OF assms(2) mem np]
  show ?thesis by blast
qed

lemma regular_step:
  assumes "library_ok I Images" and "images_ok I Images s" and "fmp_buffer g"
    and "WriteRegularImages I Header False FW_IMAGE_RW_FLAG_NONE g s = Some (st, g', s')"
  shows "only (targets s FW_IMAGE_RW_FLAG_NONE (regular False) Images) s s' \<and> fmp_same g g' \<and> (st = EFI_SUCCESS \<longrightarrow>
      placed I g Header Images (regular False) s')"
proof -
  from assms(1,4) have "WriteRegularLoop I Header False FW_IMAGE_RW_FLAG_NONE Images g s = Some (st, g', s')"
    by (simp add: WriteRegularImages_def library_ok_def)
  from WriteRegularLoop_sound [OF this assms(2,3)] show ?thesis
    unfolding package_placed_def ReadFlags_none by auto
qed

lemma verify_step:
  assumes "library_ok I Images" and "images_ok I Images s" and "fmp_buffer g"
    and "VerifyAllImages I Header False FW_IMAGE_RW_FLAG_READ_INACTIVE_IMAGE g s = Some (st, g', s')"
  shows "only {} s s' \<and> fmp_same g g' \<and> (st = EFI_SUCCESS \<longrightarrow> mPcdFmpWriteVerifyImage g \<longrightarrow>
      placed I g Header Images (\<lambda>n. n \<notin> set NoVerifyPartitionNames) s')"
proof (cases "mPcdFmpWriteVerifyImage g")
  case False
  with assms(4) show ?thesis by (simp add: VerifyAllImages_def)
next
  case True
  with assms(1,4) have "VerifyAllLoop I Header False FW_IMAGE_RW_FLAG_READ_INACTIVE_IMAGE Images g s = Some (st, g', s')"
    by (simp add: VerifyAllImages_def library_ok_def)
  from VerifyAllLoop_sound [OF this assms(2,3) True] show ?thesis
    unfolding package_placed_def by auto
qed

lemma invalidate_step:
  assumes "library_ok I Images" and "images_ok I Images s" and "fmp_buffer g" and "n = W ''mb1'' \<or> n = W ''GPT''"
    and "InvalidateImage I n FW_IMAGE_RW_FLAG_NONE g s = Some (st, g', s')"
  shows "only (written Images s) s s' \<and> fmp_same g g' \<and> (st = EFI_SUCCESS \<longrightarrow>
     (\<exists>i p. (n, i) \<in> set Images \<and> slot s i FW_IMAGE_RW_FLAG_READ_INACTIVE_IMAGE = Some p
         \<and> (\<forall>a < min (length (store s' p)) FMP_DATA_BUFFER_SIZE. store s' p ! a = 0xFF)))"
proof (cases "FwImageFindProtocol (FmpImageLib I) n")
  case None
  with assms(5) show ?thesis by (simp add: InvalidateImage_def)
next
  case (Some i)
  have mem: "(n, i) \<in> set Images" using assms(1,4) Some unfolding library_ok_def by blast
  have np: "n \<noteq> FW_PARTITION_UPDATE_INACTIVE_PARTITIONS" using assms(4) special_names(1,2) by metis
  note pre = images_okD [OF assms(2) mem np]
  from InvalidateImage_sound [OF assms(5) pre(4) Some pre(2,3) assms(3)] mem
      only_mono [OF _ written_target [OF mem assms(4)]]
  show ?thesis by blast
qed

end

end
