(* ===== verification/TegraFmpOutcome.thy ===== *)
theory TegraFmpOutcome
  imports TegraFmpSet
begin

text \<open>
  What can come of a full update: it has no result, it ends with an error before the boot
  configuration table is touched, or it goes on to switch the boot chain, and that in a state in which
  every image of the package is in place. None of this depends on what the switch does.
\<close>

section \<open>Outcomes\<close>

text \<open>
  A continuation \<open>f\<close> of the update, for every function \<open>U\<close> that updates the boot configuration table:
  \<open>A\<close> holds of a result from before the switch, \<open>B\<close> of the states in which the switch starts.
\<close>

definition outcome ::
  "('i, 's) FMP_IMAGES \<Rightarrow> 's FMP_SERVICES \<Rightarrow> byte list
   \<Rightarrow> (EFI_STATUS \<Rightarrow> LAST_ATTEMPT_STATUS \<Rightarrow> FMP_GLOBALS \<Rightarrow> 's \<Rightarrow> bool) \<Rightarrow> (FMP_GLOBALS \<Rightarrow> 's \<Rightarrow> bool)
   \<Rightarrow> ((nat \<Rightarrow> 's \<Rightarrow> (EFI_STATUS \<times> 's) option)
        \<Rightarrow> (EFI_STATUS \<times> LAST_ATTEMPT_STATUS \<times> FMP_GLOBALS \<times> 's) option) \<Rightarrow> bool" where
  "outcome I S Header A B f \<longleftrightarrow>
     (\<forall>U. f U = None)
     \<or> (\<exists>st l g s. A st l g s \<and> (\<forall>U. f U = Some (st, l, g, s)))
     \<or> (\<exists>g s. B g s \<and> (\<forall>U. f U = SwitchBootChain I (S\<lparr>UpdateChain := U\<rparr>) Header g s))"

lemma outcome_OrAbort:
  assumes "\<And>st g s. Step = Some (st, g, s) \<Longrightarrow> EFI_ERROR st \<Longrightarrow> A EFI_ABORTED Last g s"
    and "\<And>g s. Step = Some (EFI_SUCCESS, g, s) \<Longrightarrow> outcome I S Header A B (\<lambda>U. Next U g s)"
  shows "outcome I S Header A B (\<lambda>U. OrAbort Last Step (Next U))"
proof (cases Step)
  case None
  then show ?thesis by (simp add: OrAbort_def outcome_def)
next
  case (Some r)
  then obtain st g s where r: "Step = Some (st, g, s)" by (cases r) auto
  show ?thesis
  proof (cases "st = EFI_SUCCESS")
    case True
    with assms(2) r have "outcome I S Header A B (\<lambda>U. Next U g s)" by simp
    moreover have "(\<lambda>U. OrAbort Last Step (Next U)) = (\<lambda>U. Next U g s)"
      using r True by (simp add: OrAbort_def)
    ultimately show ?thesis by simp
  next
    case False
    from assms(1) [OF r False] have "\<exists>st l g s. A st l g s
        \<and> (\<forall>U. OrAbort Last Step (Next U) = Some (st, l, g, s))"
      using r False by (auto simp: OrAbort_def)
    then show ?thesis by (simp add: outcome_def)
  qed
qed

lemma flash_outcome_bind:
  assumes "\<And>x. m = Some x \<Longrightarrow> outcome I S Header A B (\<lambda>U. Next U x)"
  shows "outcome I S Header A B (\<lambda>U. Option.bind m (Next U))"
  using assms by (cases m) (simp_all add: outcome_def)

lemma outcome_switch: "B g s \<Longrightarrow> outcome I S Header A B (\<lambda>U. SwitchBootChain I (S\<lparr>UpdateChain := U\<rparr>) Header g s)"
  unfolding outcome_def by blast

text \<open>The images whose inactive partition is not in \<open>X\<close>.\<close>

definition images_outside ::
  "('s \<Rightarrow> 'i \<Rightarrow> nat \<Rightarrow> 'p option) \<Rightarrow> 's \<Rightarrow> 'p set \<Rightarrow> (wstring \<times> 'i) list \<Rightarrow> (wstring \<times> 'i) list" where
  "images_outside slot s X Images =
     filter (\<lambda>(n, i). \<forall>p. slot s i FW_IMAGE_RW_FLAG_READ_INACTIVE_IMAGE = Some p \<longrightarrow> p \<notin> X) Images"

section \<open>A full update\<close>

text \<open>The states before and after some steps of the update of the images.\<close>

context image_store
begin

definition updated ::
  "(wstring \<times> 'i) list \<Rightarrow> 'p set \<Rightarrow> FMP_GLOBALS \<Rightarrow> 's \<Rightarrow> FMP_GLOBALS \<Rightarrow> 's \<Rightarrow> bool" where
  "updated Images X g s g' s' \<longleftrightarrow> only (X \<union> written Images s) s s' \<and> fmp_same g g'"

lemma updated_refl [simp]: "updated Images X g s g s"
  by (simp add: updated_def)

lemma updated_trans:
  "updated Images X g s g1 s1 \<Longrightarrow> updated Images X g1 s1 g2 s2 \<Longrightarrow> updated Images X g s g2 s2"
proof -
  assume a: "updated Images X g s g1 s1" "updated Images X g1 s1 g2 s2"
  then have o: "only (X \<union> written Images s) s s1" "fmp_same g g1" "fmp_same g1 g2"
    by (simp_all add: updated_def)
  from a(2) have "only (X \<union> written Images s) s1 s2"
    by (simp add: updated_def written_same [OF o(1)])
  from only_trans [OF o(1) this] fmp_same_trans [OF o(2,3)] show ?thesis by (simp add: updated_def)
qed

lemma updated_step: "only Y s s' \<and> fmp_same g g' \<Longrightarrow> Y \<subseteq> written Images s \<Longrightarrow> updated Images X g s g' s'"
  unfolding updated_def using only_mono by blast

lemma updated_progress: "SetImageProgress I n g = Some g' \<Longrightarrow> updated Images X g s g' s"
  by (simp add: updated_def progress_same)

lemma updated_ok:
  "updated Images X g s g' s' \<Longrightarrow> images_ok I Images s \<Longrightarrow> images_ok I Images s'"
  "updated Images X g s g' s' \<Longrightarrow> fmp_buffer g \<Longrightarrow> fmp_buffer g'"
  by (auto simp: updated_def intro: images_ok_only fmp_same_buffer)

text \<open>The first image of the boot loader is not valid.\<close>

definition mb1_invalid :: "(wstring \<times> 'i) list \<Rightarrow> 's \<Rightarrow> bool" where
  "mb1_invalid Images s \<longleftrightarrow> (\<exists>i p. (W ''mb1'', i) \<in> set Images
     \<and> slot s i FW_IMAGE_RW_FLAG_READ_INACTIVE_IMAGE = Some p
     \<and> (\<forall>a < min (length (store s p)) FMP_DATA_BUFFER_SIZE. store s p ! a = 0xFF))"

definition stopped ::
  "(wstring \<times> 'i) list \<Rightarrow> 'p set \<Rightarrow> FMP_GLOBALS \<Rightarrow> 's \<Rightarrow> EFI_STATUS \<Rightarrow> LAST_ATTEMPT_STATUS \<Rightarrow> FMP_GLOBALS \<Rightarrow> 's \<Rightarrow> bool" where
  "stopped Images X g s st l g' s' \<longleftrightarrow> st = EFI_ABORTED \<and> updated Images X g s g' s'
     \<and> (l = LAS_ERROR_WRITE_IMAGES_FAILED \<longrightarrow> mb1_invalid Images s')"

definition ready ::
  "('i, 's) FMP_IMAGES \<Rightarrow> byte list \<Rightarrow> (wstring \<times> 'i) list \<Rightarrow> 'p set \<Rightarrow> FMP_GLOBALS \<Rightarrow> 's \<Rightarrow> FMP_GLOBALS \<Rightarrow> 's \<Rightarrow> bool" where
  "ready I Header Images X g s g' s' \<longleftrightarrow> updated Images X g s g' s'
     \<and> placed I g Header Images (wanted g) s'"

lemma stopped_from: "updated Images X g s g1 s1 \<Longrightarrow> stopped Images X g1 s1 st l g' s' \<Longrightarrow> stopped Images X g s st l g' s'"
  unfolding stopped_def using updated_trans by blast

lemma ready_from: "updated Images X g s g1 s1 \<Longrightarrow> ready I Header Images X g1 s1 g' s' \<Longrightarrow> ready I Header Images X g s g' s'"
proof -
  assume a: "updated Images X g s g1 s1" "ready I Header Images X g1 s1 g' s'"
  then have "fmp_same g g1" by (simp add: updated_def)
  with a show ?thesis
    using updated_trans [OF a(1)] by (simp add: ready_def wanted_same placed_same)
qed

lemma outcome_from:
  assumes "updated Images X g s g1 s1"
    and "outcome I S Header (stopped Images X g1 s1) (ready I Header Images X g1 s1) f"
  shows "outcome I S Header (stopped Images X g s) (ready I Header Images X g s) f"
  using assms(2) stopped_from [OF assms(1)] ready_from [OF assms(1)] unfolding outcome_def by blast

text \<open>The verification, and what is in place after it.\<close>

lemma verify_outcome:
  assumes "library_ok I Images" and "images_ok I Images s" and "fmp_buffer g"
    and "placed I g Header Images (\<lambda>n. regular False n \<or> n = W ''mb1'') s"
  shows "outcome I S Header (stopped Images X g s) (ready I Header Images X g s) (\<lambda>U.
     OrAbort LAS_ERROR_VERIFY_IMAGES_FAILED
       (VerifyAllImages I Header False FW_IMAGE_RW_FLAG_READ_INACTIVE_IMAGE g s) (\<lambda>g s. do {
     g \<leftarrow> SetImageProgress I (FMP_PROGRESS_VERIFY_IMAGES g) g;
     SwitchBootChain I (S\<lparr>UpdateChain := U\<rparr>) Header g s }))"
proof (rule outcome_OrAbort, goal_cases)
  case (1 st g1 s1)
  have "updated Images X g s g1 s1"
    by (rule updated_step [of "{}"]) (use verify_step [OF assms(1-3) 1(1)] in simp_all)
  then show ?case by (simp add: stopped_def)
next
  case (2 g1 s1)
  note law = verify_step [OF assms(1-3) 2]
  then have s1: "only {} s s1" "fmp_same g g1" by simp_all
  have u: "updated Images X g s g1 s1" by (rule updated_step [of "{}"]) (use s1 in simp_all)
  have np: "regular False n \<or> n = W ''mb1'' \<Longrightarrow> n \<noteq> FW_PARTITION_UPDATE_INACTIVE_PARTITIONS" for n
    using wanted_not_pseudo [of undefined n] unfolding wanted_def by blast
  have "placed I g Header Images (wanted g) s1"
    using placed_only_none [OF assms(2) s1(1) assms(4) np] law
    unfolding package_placed_def wanted_def by (fastforce simp: NoVerifyPartitionNames_def W_def FW_PARTITION_UPDATE_INACTIVE_PARTITIONS_def BR_BCT_BACKUP_PARTITION_NAME_def)
  then have "ready I Header Images X g s g2 s1" if "SetImageProgress I n g1 = Some g2" for g2 n
    using updated_trans [OF u updated_progress [OF that]] by (simp add: ready_def)
  then show ?case by (intro flash_outcome_bind outcome_switch)
qed


text \<open>The writes of the two images that the update names, and what follows.\<close>

lemma placed_or: "placed I g Header Images Q s \<Longrightarrow> placed I g Header Images R s
    \<Longrightarrow> placed I g Header Images (\<lambda>n. Q n \<or> R n) s"
  by (auto simp: package_placed_def)

lemma gpt_outcome:
  assumes "library_ok I Images" and "images_ok I Images s" and "fmp_buffer g"
    and "placed I g Header Images (\<lambda>n. regular False n \<or> n = W ''mb1'') s"
  shows "outcome I S Header (stopped Images X g s) (ready I Header Images X g s) (\<lambda>U.
     OrAbort LAS_ERROR_GPT_WRITE_FAILED
       (if GptUpdate then WriteImage I Header (W ''GPT'') FW_IMAGE_RW_FLAG_NONE g s
        else Some (EFI_SUCCESS, g, s)) (\<lambda>g s. do {
     g \<leftarrow> SetImageProgress I (FMP_PROGRESS_WRITE_IMAGES g) g;
     OrAbort LAS_ERROR_VERIFY_IMAGES_FAILED
       (VerifyAllImages I Header False FW_IMAGE_RW_FLAG_READ_INACTIVE_IMAGE g s) (\<lambda>g s. do {
     g \<leftarrow> SetImageProgress I (FMP_PROGRESS_VERIFY_IMAGES g) g;
     SwitchBootChain I (S\<lparr>UpdateChain := U\<rparr>) Header g s }) }))"
proof -
  have np: "regular False n \<or> n = W ''mb1'' \<Longrightarrow> n \<noteq> W ''GPT'' \<and> n \<noteq> FW_PARTITION_UPDATE_INACTIVE_PARTITIONS" for n
    using special_names regular_not_pseudo by metis
  have step: "updated Images X g s g1 s1 \<and> (st = EFI_SUCCESS \<longrightarrow>
      placed I g1 Header Images (\<lambda>n. regular False n \<or> n = W ''mb1'') s1)"
    if "(if GptUpdate then WriteImage I Header (W ''GPT'') FW_IMAGE_RW_FLAG_NONE g s
        else Some (EFI_SUCCESS, g, s)) = Some (st, g1, s1)" for st g1 s1
  proof (cases GptUpdate)
    case True
    with that have "WriteImage I Header (W ''GPT'') FW_IMAGE_RW_FLAG_NONE g s = Some (st, g1, s1)" by simp
    note law = named_step [OF assms(1-3) disjI2 [OF refl] this]
    then have same: "fmp_same g g1" by simp
    from law assms(4) np have "st = EFI_SUCCESS \<Longrightarrow> placed I g Header Images (\<lambda>n. regular False n \<or> n = W ''mb1'') s1"
      by blast
    with law same updated_step [of "written Images s" s s1 g g1] show ?thesis by (simp add: placed_same)
  next
    case False
    with that assms(4) show ?thesis by simp
  qed
  show ?thesis
  proof (rule outcome_OrAbort, goal_cases)
    case (1 st g1 s1)
    with step show ?case by (simp add: stopped_def)
  next
    case (2 g1 s1)
    show ?case
    proof (rule flash_outcome_bind)
      fix g2 assume pr: "SetImageProgress I (FMP_PROGRESS_WRITE_IMAGES g1) g1 = Some g2"
      from step [OF 2] have u: "updated Images X g s g1 s1"
        and p: "placed I g1 Header Images (\<lambda>n. regular False n \<or> n = W ''mb1'') s1" by simp_all
      note u2 = updated_trans [OF u updated_progress [OF pr]]
      have "placed I g2 Header Images (\<lambda>n. regular False n \<or> n = W ''mb1'') s1"
        using p placed_same [OF progress_same(3) [OF pr]] by simp
      from outcome_from [OF u2 verify_outcome [OF assms(1) updated_ok(1) [OF u2 assms(2)] updated_ok(2) [OF u2 assms(3)] this]]
      show "outcome I S Header (stopped Images X g s) (ready I Header Images X g s) (\<lambda>U.
        OrAbort LAS_ERROR_VERIFY_IMAGES_FAILED
          (VerifyAllImages I Header False FW_IMAGE_RW_FLAG_READ_INACTIVE_IMAGE g2 s1) (\<lambda>g s. do {
        g \<leftarrow> SetImageProgress I (FMP_PROGRESS_VERIFY_IMAGES g) g;
        SwitchBootChain I (S\<lparr>UpdateChain := U\<rparr>) Header g s }))" .
    qed
  qed
qed


lemma mb1_invalid_keep:
  assumes "images_ok I Images s" and "mb1_invalid Images s"
    and "only (targets s FW_IMAGE_RW_FLAG_NONE (regular False) Images) s s'"
  shows "mb1_invalid Images s'"
proof -
  from assms(2) obtain i p where i: "(W ''mb1'', i) \<in> set Images"
      "slot s i FW_IMAGE_RW_FLAG_READ_INACTIVE_IMAGE = Some p"
      "\<forall>a < min (length (store s p)) FMP_DATA_BUFFER_SIZE. store s p ! a = 0xFF"
    by (auto simp: mb1_invalid_def)
  have ok: "ok s i" using images_okD(2) [OF assms(1) i(1) special_names(1)] .
  have "p \<notin> targets s FW_IMAGE_RW_FLAG_NONE (regular False) Images"
  proof
    assume "p \<in> targets s FW_IMAGE_RW_FLAG_NONE (regular False) Images"
    then obtain n j where j: "(n, j) \<in> set Images" "regular False n"
        "slot s j FW_IMAGE_RW_FLAG_READ_INACTIVE_IMAGE = Some p"
      by (auto simp: targets_def target_def ReadFlags_none simp del: ReadFlags_forced)
    from image_slot [OF images_okD(2) [OF assms(1) j(1) regular_not_pseudo [OF j(2)]] ok j(3) i(2)]
    have "n = W ''mb1''" using images_distinct [OF assms(1)] i(1) j(1) by blast
    with j(2) special_names(5) show False by simp
  qed
  with assms(3) ok i(2) have "store s' p = store s p" "slot s' = slot s" by (auto simp: touched_def)
  with i show ?thesis unfolding mb1_invalid_def by auto
qed

lemma write_outcome:
  assumes "library_ok I Images" and "images_ok I Images s" and "fmp_buffer g" and "mb1_invalid Images s"
  shows "outcome I S Header (stopped Images X g s) (ready I Header Images X g s) (\<lambda>U.
     OrAbort LAS_ERROR_WRITE_IMAGES_FAILED
       (WriteRegularImages I Header False FW_IMAGE_RW_FLAG_NONE g s) (\<lambda>g s.
     OrAbort LAS_ERROR_MB1_WRITE_ERROR (WriteImage I Header (W ''mb1'') FW_IMAGE_RW_FLAG_NONE g s) (\<lambda>g s.
     OrAbort LAS_ERROR_GPT_WRITE_FAILED
       (if GptUpdate then WriteImage I Header (W ''GPT'') FW_IMAGE_RW_FLAG_NONE g s
        else Some (EFI_SUCCESS, g, s)) (\<lambda>g s. do {
     g \<leftarrow> SetImageProgress I (FMP_PROGRESS_WRITE_IMAGES g) g;
     OrAbort LAS_ERROR_VERIFY_IMAGES_FAILED
       (VerifyAllImages I Header False FW_IMAGE_RW_FLAG_READ_INACTIVE_IMAGE g s) (\<lambda>g s. do {
     g \<leftarrow> SetImageProgress I (FMP_PROGRESS_VERIFY_IMAGES g) g;
     SwitchBootChain I (S\<lparr>UpdateChain := U\<rparr>) Header g s }) }))))"
proof (rule outcome_OrAbort, goal_cases)
  case (1 st g1 s1)
  note law = regular_step [OF assms(1-3) 1(1)]
  then have "updated Images X g s g1 s1" using updated_step written_regular by blast
  moreover have "mb1_invalid Images s1" using mb1_invalid_keep [OF assms(2,4)] law by blast
  ultimately show ?case by (simp add: stopped_def)
next
  case (2 g1 s1)
  note law = regular_step [OF assms(1-3) 2]
  then have u: "updated Images X g s g1 s1" using updated_step written_regular by blast
  note s1 = updated_ok(1) [OF u assms(2)] updated_ok(2) [OF u assms(3)]
  have p: "placed I g1 Header Images (regular False) s1" using law placed_same by blast
  show ?case
  proof (rule outcome_from [OF u], rule outcome_OrAbort, goal_cases)
    case (1 st g2 s2)
    from named_step [OF assms(1) s1 disjI1 [OF refl] 1(1)] updated_step
    show ?case by (auto simp: stopped_def)
  next
    case (2 g2 s2)
    note law = named_step [OF assms(1) s1 disjI1 [OF refl] 2]
    then have u2: "updated Images X g1 s1 g2 s2" using updated_step by blast
    have "placed I g1 Header Images (regular False) s2" "placed I g1 Header Images (\<lambda>k. k = W ''mb1'') s2"
      using law p special_names(5) regular_not_pseudo by metis+
    with placed_or have "placed I g1 Header Images (\<lambda>n. regular False n \<or> n = W ''mb1'') s2" by blast
    then have "placed I g2 Header Images (\<lambda>n. regular False n \<or> n = W ''mb1'') s2"
      using placed_same [of g1 g2] law by simp
    from outcome_from [OF u2 gpt_outcome [OF assms(1) updated_ok(1) [OF u2 s1(1)] updated_ok(2) [OF u2 s1(2)] this]]
    show ?case .
  qed
qed

lemma WriteAndVerify_outcome:
  assumes "library_ok I Images" and "images_ok I Images s" and "fmp_buffer g"
  shows "outcome I S Header (stopped Images X g s) (ready I Header Images X g s)
     (\<lambda>U. WriteAndVerifyImages I (S\<lparr>UpdateChain := U\<rparr>) Header GptUpdate g s)"
  unfolding WriteAndVerifyImages_def
proof (rule outcome_OrAbort, goal_cases)
  case (1 st g1 s1)
  then show ?case
    using invalidate_step [OF assms disjI2 [OF refl]] updated_step
    by (auto simp: stopped_def split: if_splits)
next
  case (2 g1 s1)
  have u: "updated Images X g s g1 s1"
  proof (cases GptUpdate)
    case True
    with 2 have "InvalidateImage I (W ''GPT'') FW_IMAGE_RW_FLAG_NONE g s = Some (EFI_SUCCESS, g1, s1)" by simp
    from invalidate_step [OF assms disjI2 [OF refl] this] show ?thesis using updated_step by blast
  next
    case False
    with 2 show ?thesis by simp
  qed
  note s1 = updated_ok(1) [OF u assms(2)] updated_ok(2) [OF u assms(3)]
  show ?case
  proof (rule outcome_from [OF u], rule outcome_OrAbort, goal_cases)
    case (1 st g2 s2)
    from invalidate_step [OF assms(1) s1 disjI1 [OF refl] 1(1)] updated_step
    show ?case by (auto simp: stopped_def)
  next
    case (2 g2 s2)
    note law = invalidate_step [OF assms(1) s1 disjI1 [OF refl] 2]
    then have u2: "updated Images X g1 s1 g2 s2" using updated_step by blast
    have "slot s2 = slot s1" using law by (simp add: touched_def)
    with law have "mb1_invalid Images s2" unfolding mb1_invalid_def by auto
    from outcome_from [OF u2 write_outcome [OF assms(1) updated_ok(1) [OF u2 s1(1)] updated_ok(2) [OF u2 s1(2)] this]]
    show ?case .
  qed
qed


lemma DetectGptUpdate_updated:
  assumes "library_ok I Images" and "images_ok I Images s" and "fmp_buffer g"
    and "DetectGptUpdate I Header g s = Some (st, GptUpdate, g', s')"
  shows "updated Images X g s g' s'"
proof (cases "GptInPackage I g Header = Some True")
  case False
  with assms(4) show ?thesis by (cases "GptInPackage I g Header") (auto simp: DetectGptUpdate_def)
next
  case True
  with assms(4) obtain st1 where
      v: "VerifyImage I Header (W ''GPT'') FW_IMAGE_RW_FLAG_READ_INACTIVE_IMAGE g s = Some (st1, g', s')"
    by (auto simp: DetectGptUpdate_def bind_eq_Some_conv split: if_splits)
  have "only {} s s' \<and> fmp_same g g'"
  proof (cases "FwImageFindProtocol (FmpImageLib I) (W ''GPT'')")
    case None
    with v show ?thesis by (auto simp: VerifyImage_def split: if_splits)
  next
    case (Some i)
    have mem: "(W ''GPT'', i) \<in> set Images" using assms(1) Some unfolding library_ok_def by blast
    note pre = images_okD [OF assms(2) mem special_names(2)]
    from VerifyImage_sound [OF v pre(4) Some pre(2,3) assms(3)] show ?thesis by blast
  qed
  then show ?thesis by (rule updated_step) simp
qed

lemma FullUpdate_outcome:
  assumes "library_ok I Images" and "images_ok I Images s" and "fmp_buffer g"
    and "services_only (only X) S"
  shows "outcome I S Header (stopped Images X g s) (ready I Header Images X g s)
     (\<lambda>U. FullUpdate I (S\<lparr>UpdateChain := U\<rparr>) Header g s)"
proof -
  obtain st0 s0 where s0: "SetInactiveBootChainStatus S False s = (st0, s0)" by fastforce
  have "only X s s0" using assms(4) s0 unfolding services_only_def by (metis snd_conv)
  then have "only (X \<union> written Images s) s s0" by (rule only_mono) simp
  then have u: "updated Images X g s g s0" by (simp add: updated_def)
  note ok0 = updated_ok(1) [OF u assms(2)]
  have "outcome I S Header (stopped Images X g s) (ready I Header Images X g s) (\<lambda>U.
      OrAbort LAS_ERROR_SET_INACTIVE_BOOT_CHAIN_BAD_FAILED (Some (st0, g, s0)) (\<lambda>g s.
        Option.bind (DetectGptUpdate I Header g s) (\<lambda>(Status, GptUpdate, g, s).
          OrAbort LAS_ERROR_GPT_VERIFY_FAILED (Some (Status, g, s))
            (WriteAndVerifyImages I (S\<lparr>UpdateChain := U\<rparr>) Header GptUpdate))))"
  proof (rule outcome_OrAbort, goal_cases)
    case (1 st g1 s1)
    with u show ?case by (simp add: stopped_def)
  next
    case (2 g1 s1)
    then have eq: "g1 = g" "s1 = s0" by simp_all
    show ?case unfolding eq
    proof (rule outcome_from [OF u], rule flash_outcome_bind)
      fix x assume x: "DetectGptUpdate I Header g s0 = Some x"
      obtain st GptUpdate g2 s2 where xx: "x = (st, GptUpdate, g2, s2)" by (cases x)
      note u2 = DetectGptUpdate_updated [OF assms(1) ok0 assms(3) x [unfolded xx]]
      show "outcome I S Header (stopped Images X g s0) (ready I Header Images X g s0) (\<lambda>U.
          (case x of (Status, GptUpdate, g, s) \<Rightarrow> OrAbort LAS_ERROR_GPT_VERIFY_FAILED (Some (Status, g, s))
            (WriteAndVerifyImages I (S\<lparr>UpdateChain := U\<rparr>) Header GptUpdate)))"
        unfolding xx prod.case
      proof (rule outcome_OrAbort, goal_cases)
        case (1 st' g3 s3)
        with u2 show ?case by (simp add: stopped_def)
      next
        case (2 g3 s3)
        then have eq: "g3 = g2" "s3 = s2" by simp_all
        show ?case unfolding eq
          by (rule outcome_from [OF u2 WriteAndVerify_outcome
              [OF assms(1) updated_ok(1) [OF u2 ok0] updated_ok(2) [OF u2 assms(3)]]])
      qed
    qed
  qed
  then show ?thesis by (simp add: FullUpdate_def s0)
qed

section \<open>The switch\<close>

lemma SwitchBootChain_only:
  assumes "SwitchBootChain I S Header g s = Some (st, l, g', s')" and "services_only (only X) S"
  shows "only X s s' \<and> fmp_same g g'
    \<and> l \<in> {LAST_ATTEMPT_STATUS_SUCCESS, LAS_ERROR_UPDATE_BCT_BACKUP_PARTITION_FAILED, LAS_ERROR_BCT_UPDATE_FAILED,
          LAS_ERROR_SET_INACTIVE_BOOT_CHAIN_GOOD_FAILED}"
proof -
  note law = assms(2) [unfolded services_only_def]
  have b: "only X s s1 \<and> g1 = g" if "map_option (\<lambda>(Status, s). (Status, g, s)) (UpdateBctBackupPartition I S Header g s)
      = Some (st1, g1, s1)" for st1 g1 s1
    using that law by (auto simp: UpdateBctBackupPartition_def bind_eq_Some_conv split: if_splits)
  have c: "only X s s1 \<and> g1 = g" if "map_option (\<lambda>(Status, s). (Status, g, s))
      (UpdateChain S c s) = Some (st1, g1, s1)" for c g s st1 g1 s1
    using that law by auto
  have d: "only X s s1 \<and> g1 = g" if "(case SetInactiveBootChainStatus S True s of (Status, s) \<Rightarrow> Some (Status, g, s))
      = Some (st1, g1, s1)" for g s st1 g1 s1
    using that law by (auto split: prod.splits) (metis snd_conv)
  show ?thesis
    using assms(1) unfolding SwitchBootChain_def
  proof (cases rule: OrAbortE)
    case (aborted st0)
    with b show ?thesis by simp
  next
    case (goes_on g1 s1)
    from b [OF goes_on(1)] have 1: "only X s s1" "g1 = g" by simp_all
    from goes_on(2) show ?thesis
    proof (cases rule: OrAbortE)
      case (aborted st0)
      with c 1 only_trans show ?thesis by fastforce
    next
      case (goes_on g2 s2)
      from c [OF goes_on(1)] 1 only_trans have 2: "only X s s2" "g2 = g" by blast+
      from goes_on(2) show ?thesis
      proof (cases rule: OrAbortE)
        case (aborted st0)
        with d 2 only_trans show ?thesis by fastforce
      next
        case (goes_on g3 s3)
        from d [OF goes_on(1)] 2 only_trans have 3: "only X s s3" "g3 = g" by blast+
        with goes_on(2) progress_same(3) show ?thesis by (auto simp: SetDone_def bind_eq_Some_conv)
      qed
    qed
  qed
qed

lemma placed_only:
  assumes "images_ok I Images s" and "only X s s'" and "placed I g Header Images Q s"
    and "\<And>n. Q n \<Longrightarrow> n \<noteq> FW_PARTITION_UPDATE_INACTIVE_PARTITIONS"
  shows "placed I g Header (images_outside slot s X Images) Q s'"
  unfolding package_placed_def
proof (intro ballI, clarify)
  fix n i a b assume *: "(n, i) \<in> set (images_outside slot s X Images)" "Q n" "pkg_image I g Header n = Some (a, b)"
  then have i: "(n, i) \<in> set Images" "\<And>p. slot s i FW_IMAGE_RW_FLAG_READ_INACTIVE_IMAGE = Some p \<Longrightarrow> p \<notin> X"
    by (auto simp: images_outside_def)
  with * assms(3) have "holds s FW_IMAGE_RW_FLAG_READ_INACTIVE_IMAGE i Header (a, b)" by (auto simp: package_placed_def)
  moreover have "ok s i" using images_okD(2) [OF assms(1) i(1) assms(4) [OF *(2)]] .
  ultimately show "holds s' FW_IMAGE_RW_FLAG_READ_INACTIVE_IMAGE i Header (a, b)"
    using holds_only [OF assms(2) _ i(2)] by blast
qed

end

end
