(* ===== verification/TegraFmpTheorems.thy ===== *)
theory TegraFmpTheorems
  imports TegraFmpOutcome
begin

text \<open>
  The update of a boot chain by \<open>FmpTegraSetImage\<close>, on the images of \<open>FwImageDxe\<close> over partitions of a NOR
  flash that may fail at any access.
\<close>

section \<open>SetImage on images that keep their contract\<close>

text \<open>The library is initialized and the package is not one for the minimal update.\<close>

definition full_update :: "'s FMP_SERVICES \<Rightarrow> FMP_GLOBALS \<Rightarrow> byte list \<Rightarrow> bool" where
  "full_update S g Header \<longleftrightarrow> mFmpLibInitialized g \<and> \<not> PcdFmpMultiImageMinimalUpdate S
     \<and> (ImageCount Header = Some 1 \<longrightarrow> \<not> mPcdFmpSingleImageUpdate g)"

text \<open>The state in which the update proper starts, and its result.\<close>

lemma SetImage_start:
  assumes "mFmpLibInitialized g"
  obtains "\<And>S. FmpTegraSetImage I S (Some Header) True g s = None"
  | g0 Count where "fmp_same g g0" "ImageCount Header = Some Count"
      "mPcdFmpSingleImageUpdate g0 = mPcdFmpSingleImageUpdate g"
      "\<And>S. FmpTegraSetImage I S (Some Header) True g s = do {
         (Status, Last, g, s) \<leftarrow>
           (if Count = 1 \<and> mPcdFmpSingleImageUpdate g0 \<or> PcdFmpMultiImageMinimalUpdate S
            then OrAbort LAS_ERROR_SET_SINGLE_IMAGE_FAILED (FmpTegraSetMinimalImages I S Header g0 s) (SetDone I)
            else FullUpdate I S Header g0 s);
         Some (Status, Some Last, g, s) }"
proof -
  let ?g = "g\<lparr>mTotalBytesFlashed := 0, mTotalBytesVerified := 0, mCurrentCompletion := 0, mProgress := True\<rparr>"
  show ?thesis
  proof (cases "SetImageProgress I FMP_PROGRESS_CHECK_IMAGE ?g")
    case None
    with assms show ?thesis by (intro that(1)) (simp add: FmpTegraSetImage_def)
  next
    case g1: (Some g1)
    show ?thesis
    proof (cases "FmpTegraGetTotalBytesToFlash g1 Header")
      case None
      with assms g1 show ?thesis by (intro that(1)) (simp add: FmpTegraSetImage_def)
    next
      case n: (Some n)
      show ?thesis
      proof (cases "ImageCount Header")
        case None
        with assms g1 n show ?thesis by (intro that(1)) (simp add: FmpTegraSetImage_def)
      next
        case (Some Count)
        let ?go = "g1\<lparr>mTotalBytesToFlash := n, mTotalBytesToVerify := (if mPcdFmpWriteVerifyImage g1 then n else 0)\<rparr>"
        have "fmp_same ?g g1" using progress_same(3) [OF g1] .
        then have same: "fmp_same g ?go" by (simp add: fmp_same_def fmp_buffer_def)
        have single: "mPcdFmpSingleImageUpdate g1 = mPcdFmpSingleImageUpdate ?g"
          using g1 by (auto simp: SetImageProgress_def UpdateProgress_def UpdateImageProgress_def Let_def split: if_splits)
        show ?thesis
        proof (rule that(2) [OF same Some])
          show "mPcdFmpSingleImageUpdate ?go = mPcdFmpSingleImageUpdate g" using single by simp
        qed (use assms g1 n Some in \<open>simp add: FmpTegraSetImage_def Let_def\<close>)
      qed
    qed
  qed
qed

lemma FullUpdate_result:
  assumes "full_update S g Header" and "FmpTegraSetImage I S (Some Header) True g s = Some (st, l, g', s')"
  obtains g0 l' where "fmp_same g g0" "l = Some l'" "FullUpdate I S Header g0 s = Some (st, l', g', s')"
proof -
  from assms(1) have "mFmpLibInitialized g" by (simp add: full_update_def)
  then show ?thesis
  proof (cases rule: SetImage_start [of g I Header s])
    case 1
    with assms(2) show ?thesis by simp
  next
    case (2 g0 Count)
    with assms that [of g0] show ?thesis
      by (auto simp: full_update_def bind_eq_Some_conv split: if_splits)
  qed
qed

text \<open>
  The images of \<open>FwImageDxe\<close> over the partitions of the NOR flash, and the array of the library in which
  they are found.
\<close>

abbreviation nor_image_ok ::
  "'w FW_PARTITION_NOR_FLASH_INFO list \<Rightarrow> ('w \<Rightarrow> nat \<Rightarrow> memory)
   \<Rightarrow> nat FW_IMAGE_GLOBALS \<times> FW_PARTITION_GLOBALS \<times> 'w \<Rightarrow> nat \<Rightarrow> bool" where
  "nor_image_ok Devices view \<equiv> img_ok (part_data view) (part_unit (NorDeviceOps Devices))
     (part_valid (NorDeviceOps Devices) (\<lambda>w. nor_world Devices view))"

definition nor_images ::
  "EDK2_SERVICES \<Rightarrow> 'w FW_PARTITION_NOR_FLASH_INFO list \<Rightarrow> ('w \<Rightarrow> nat \<Rightarrow> memory)
   \<Rightarrow> (nat, nat FW_IMAGE_GLOBALS \<times> FW_PARTITION_GLOBALS \<times> 'w) FMP_IMAGES \<Rightarrow> (wstring \<times> nat) list
   \<Rightarrow> nat FW_IMAGE_GLOBALS \<times> FW_PARTITION_GLOBALS \<times> 'w \<Rightarrow> bool" where
  "nor_images S Devices view I Images s \<longleftrightarrow> library_ok I Images
     \<and> fmp_images (ImageProtocol (PartitionProtocol S (NorDeviceOps Devices))) (nor_image_ok Devices view) img_unit I Images s"

text \<open>What the images of the flash hold: the partitions in \<open>X\<close> apart nothing is different.\<close>

abbreviation nor_only ::
  "'w FW_PARTITION_NOR_FLASH_INFO list \<Rightarrow> ('w \<Rightarrow> nat \<Rightarrow> memory) \<Rightarrow> nat set
   \<Rightarrow> nat FW_IMAGE_GLOBALS \<times> FW_PARTITION_GLOBALS \<times> 'w \<Rightarrow> nat FW_IMAGE_GLOBALS \<times> FW_PARTITION_GLOBALS \<times> 'w \<Rightarrow> bool" where
  "nor_only Devices view \<equiv> touched (\<lambda>s. part_data view (snd s)) img_slot (nor_image_ok Devices view) img_unit"

lemma UpdateChain_same [simp]: "S\<lparr>UpdateChain := UpdateChain S\<rparr> = S"
  by simp

lemma Minimal_chain [simp]:
  "FmpTegraSetMinimalImages I (S\<lparr>UpdateChain := U\<rparr>) = FmpTegraSetMinimalImages I S"
proof -
  have eqs: "GetChainVariable (S\<lparr>UpdateChain := U\<rparr>) = GetChainVariable S"
    "DeleteChainVariable (S\<lparr>UpdateChain := U\<rparr>) = DeleteChainVariable S" by simp_all
  show ?thesis unfolding fun_eq_iff FmpTegraSetMinimalImages_def eqs by (intro allI refl)
qed

context image_store
begin

lemma SetImage_outcome:
  assumes "library_ok I Images" and "images_ok I Images s" and "fmp_buffer g" and "services_only (only X) S"
    and "full_update S g Header" and "FmpTegraSetImage I S (Some Header) True g s = Some (st, l, g', s')"
  obtains (early) l' where "stopped Images X g s st l' g' s'" "l = Some l'"
    | (late) g1 s1 l' where "ready I Header Images X g s g1 s1" "l = Some l'"
        "SwitchBootChain I S Header g1 s1 = Some (st, l', g', s')"
proof -
  from FullUpdate_result [OF assms(5,6)] obtain g0 l' where g0: "fmp_same g g0" "l = Some l'"
      "FullUpdate I S Header g0 s = Some (st, l', g', s')" .
  have u: "updated Images X g s g0 s" using g0(1) by (simp add: updated_def)
  from outcome_from [OF u FullUpdate_outcome [OF assms(1,2) updated_ok(2) [OF u assms(3)] assms(4)]]
  have o: "outcome I S Header (stopped Images X g s) (ready I Header Images X g s)
     (\<lambda>U. FullUpdate I (S\<lparr>UpdateChain := U\<rparr>) Header g0 s)" .
  from o [unfolded outcome_def] show ?thesis
  proof (elim disjE exE conjE)
    assume "\<forall>U. FullUpdate I (S\<lparr>UpdateChain := U\<rparr>) Header g0 s = None"
    from spec [OF this, of "UpdateChain S"] g0(3) show ?thesis by simp
  next
    fix st1 l1 g1 s1
    assume a: "stopped Images X g s st1 l1 g1 s1"
      and eq: "\<forall>U. FullUpdate I (S\<lparr>UpdateChain := U\<rparr>) Header g0 s = Some (st1, l1, g1, s1)"
    from spec [OF eq, of "UpdateChain S"] g0(3) a g0(2) show ?thesis by (intro early) simp_all
  next
    fix g1 s1
    assume a: "ready I Header Images X g s g1 s1"
      and eq: "\<forall>U. FullUpdate I (S\<lparr>UpdateChain := U\<rparr>) Header g0 s
        = SwitchBootChain I (S\<lparr>UpdateChain := U\<rparr>) Header g1 s1"
    from spec [OF eq, of "UpdateChain S"] g0(3)
    have "SwitchBootChain I S Header g1 s1 = Some (st, l', g', s')" by simp
    with a g0(2) show ?thesis by (rule late)
  qed
qed

lemma SetImage_installed:
  assumes "library_ok I Images" and "images_ok I Images s" and "fmp_buffer g" and "services_only (only X) S"
    and "full_update S g Header" and "FmpTegraSetImage I S (Some Header) True g s = Some (EFI_SUCCESS, l, g', s')"
  shows "placed I g Header (images_outside slot s X Images) (wanted g) s'"
  using assms
proof (cases rule: SetImage_outcome)
  case (early l')
  then show ?thesis by (simp add: stopped_def)
next
  case (late g1 s1 l')
  then have r: "updated Images X g s g1 s1" "placed I g Header Images (wanted g) s1" by (simp_all add: ready_def)
  have "only X s1 s'" using SwitchBootChain_only [OF late(3) assms(4)] by simp
  moreover have "slot s1 = slot s" using r(1) by (simp add: updated_def touched_def)
  ultimately show ?thesis
    using placed_only [OF updated_ok(1) [OF r(1) assms(2)] _ r(2) wanted_not_pseudo] by (simp add: images_outside_def)
qed

lemma SetImage_frame:
  assumes "library_ok I Images" and "images_ok I Images s" and "fmp_buffer g" and "services_only (only X) S"
    and "full_update S g Header" and "FmpTegraSetImage I S (Some Header) True g s = Some (st, l, g', s')"
  shows "only (X \<union> written Images s) s s'"
  using assms
proof (cases rule: SetImage_outcome)
  case (early l')
  then show ?thesis by (simp add: stopped_def updated_def)
next
  case (late g1 s1 l')
  then have "only (X \<union> written Images s) s s1" by (simp add: ready_def updated_def)
  moreover have "only X s1 s'" using SwitchBootChain_only [OF late(3) assms(4)] by simp
  ultimately show ?thesis using only_trans only_mono by (meson Un_upper1)
qed

lemma SetImage_mb1:
  assumes "library_ok I Images" and "images_ok I Images s" and "fmp_buffer g" and "services_only (only X) S"
    and "full_update S g Header"
    and "FmpTegraSetImage I S (Some Header) True g s = Some (st, Some LAS_ERROR_WRITE_IMAGES_FAILED, g', s')"
  shows "mb1_invalid Images s'"
  using assms
proof (cases rule: SetImage_outcome)
  case (early l')
  then show ?thesis by (simp add: stopped_def)
next
  case (late g1 s1 l')
  with SwitchBootChain_only [OF late(3) assms(4)] show ?thesis by simp
qed

text \<open>The table is switched in states with all images in place only.\<close>

lemma SwitchBootChain_cong:
  assumes "services_only (only X) S" and "ready I Header Images X g s g1 s1" and "images_ok I Images s"
    and "\<And>c s1. placed I g Header (images_outside slot s X Images) (wanted g) s1 \<Longrightarrow> U c s1 = V c s1"
  shows "SwitchBootChain I (S\<lparr>UpdateChain := U\<rparr>) Header g1 s1 = SwitchBootChain I (S\<lparr>UpdateChain := V\<rparr>) Header g1 s1"
proof -
  have U: "UpdateBctBackupPartition I (S\<lparr>UpdateChain := W\<rparr>) = UpdateBctBackupPartition I S" for W
  proof -
    have eq: "UpdateBackup (S\<lparr>UpdateChain := W\<rparr>) = UpdateBackup S" by simp
    show ?thesis unfolding fun_eq_iff UpdateBctBackupPartition_def eq by (intro allI refl)
  qed
  have r: "updated Images X g s g1 s1" "placed I g Header Images (wanted g) s1"
    using assms(2) by (simp_all add: ready_def)
  have same: "slot s1 = slot s" using r(1) by (simp add: updated_def touched_def)
  show ?thesis
    unfolding SwitchBootChain_def U
  proof (rule OrAbort_cong)
    fix g2 s2 assume "map_option (\<lambda>(Status, s). (Status, g1, s)) (UpdateBctBackupPartition I S Header g1 s1)
      = Some (EFI_SUCCESS, g2, s2)"
    then have "only X s1 s2"
      using assms(1) by (auto simp: UpdateBctBackupPartition_def services_only_def bind_eq_Some_conv split: if_splits)
    from placed_only [OF updated_ok(1) [OF r(1) assms(3)] this r(2) wanted_not_pseudo]
    have "placed I g Header (images_outside slot s X Images) (wanted g) s2"
      by (simp add: images_outside_def same)
    then show "OrAbort LAS_ERROR_BCT_UPDATE_FAILED
        (map_option (\<lambda>(Status, s). (Status, g2, s)) (UpdateChain (S\<lparr>UpdateChain := U\<rparr>) (OTHER_BOOT_CHAIN (mFmpBootChain g2)) s2))
        (\<lambda>g s. OrAbort LAS_ERROR_SET_INACTIVE_BOOT_CHAIN_GOOD_FAILED
          (case SetInactiveBootChainStatus (S\<lparr>UpdateChain := U\<rparr>) True s of (Status, s) \<Rightarrow> Some (Status, g, s)) (SetDone I))
      = OrAbort LAS_ERROR_BCT_UPDATE_FAILED
        (map_option (\<lambda>(Status, s). (Status, g2, s)) (UpdateChain (S\<lparr>UpdateChain := V\<rparr>) (OTHER_BOOT_CHAIN (mFmpBootChain g2)) s2))
        (\<lambda>g s. OrAbort LAS_ERROR_SET_INACTIVE_BOOT_CHAIN_GOOD_FAILED
          (case SetInactiveBootChainStatus (S\<lparr>UpdateChain := V\<rparr>) True s of (Status, s) \<Rightarrow> Some (Status, g, s)) (SetDone I))"
      using assms(4) by simp
  qed
qed

lemma SetImage_order:
  assumes "library_ok I Images" and "images_ok I Images s" and "fmp_buffer g" and "services_only (only X) S"
    and "\<And>c s1. placed I g Header (images_outside slot s X Images) (wanted g) s1 \<Longrightarrow> U c s1 = V c s1"
  shows "FmpTegraSetImage I (S\<lparr>UpdateChain := U\<rparr>) (Some Header) Result g s
    = FmpTegraSetImage I (S\<lparr>UpdateChain := V\<rparr>) (Some Header) Result g s"
proof (cases "Result \<and> mFmpLibInitialized g")
  case False
  then show ?thesis by (auto simp: FmpTegraSetImage_def)
next
  case True
  have "FmpTegraSetImage I (S\<lparr>UpdateChain := U\<rparr>) (Some Header) True g s
    = FmpTegraSetImage I (S\<lparr>UpdateChain := V\<rparr>) (Some Header) True g s"
    using conjunct2 [OF True]
  proof (cases rule: SetImage_start [of g I Header s])
    case 1
    then show ?thesis by simp
  next
    case (2 g0 Count)
    have u: "updated Images X g s g0 s" using 2(1) by (simp add: updated_def)
    from outcome_from [OF u FullUpdate_outcome [OF assms(1,2) updated_ok(2) [OF u assms(3)] assms(4)]]
    have o: "outcome I S Header (stopped Images X g s) (ready I Header Images X g s)
       (\<lambda>U. FullUpdate I (S\<lparr>UpdateChain := U\<rparr>) Header g0 s)" .
    have "FullUpdate I (S\<lparr>UpdateChain := U\<rparr>) Header g0 s = FullUpdate I (S\<lparr>UpdateChain := V\<rparr>) Header g0 s"
      using o [unfolded outcome_def]
    proof (elim disjE exE conjE)
      fix g1 s1
      assume a: "ready I Header Images X g s g1 s1"
        and eq: "\<forall>U. FullUpdate I (S\<lparr>UpdateChain := U\<rparr>) Header g0 s
          = SwitchBootChain I (S\<lparr>UpdateChain := U\<rparr>) Header g1 s1"
      show ?thesis
        unfolding spec [OF eq, of U] spec [OF eq, of V]
        by (rule SwitchBootChain_cong [OF assms(4) a assms(2,5)])
    qed simp_all
    then show ?thesis using 2(4) by simp
  qed
  with True show ?thesis by simp
qed

end

end
