(* ===== verification/BrBctUpdate.thy ===== *)
theory BrBctUpdate
  imports FwPartitionDrivers FwImage
begin

text \<open>
  \<open>BrBctUpdateDeviceLib.c\<close>: the boot configuration table (BR-BCT) that the boot ROM reads. Its
  partition has up to four slots; a backup partition holds one copy for each boot chain, 16 KB
  apart. Switching the boot chain copies the table of the new chain from the backup into the slots,
  the first slot last, and tells the boot ROM the chain.

  The partitions are those of \<open>FwPartitionDeviceLib\<close>, reached through their protocol. The library
  also reads the block size of the device and the size of the partition from their descriptors.
  Reading or comparing past a buffer, a null buffer and a division by zero have no result. Pool memory
  is a parameter, and so is the register that \<open>SetNextBootChain\<close> writes.
\<close>

definition BR_BCT_SLOT_MAX :: nat where "BR_BCT_SLOT_MAX = 4"
definition BR_BCT_SLOT_MARKER_BASED_MAX :: nat where "BR_BCT_SLOT_MARKER_BASED_MAX = 3"
definition BR_BCT_BACKUP_PARTITION_CHAIN_OFFSET :: nat where
  "BR_BCT_BACKUP_PARTITION_CHAIN_OFFSET = 16 * 1024"
definition BR_BCT_BACKUP_PARTITION_DATA_SIZE :: nat where
  "BR_BCT_BACKUP_PARTITION_DATA_SIZE = BR_BCT_BACKUP_PARTITION_CHAIN_OFFSET * BOOT_CHAIN_COUNT"

text \<open>The descriptor of a partition as far as the library reads it.\<close>

record 'p PARTITION_DESCRIPTORS =
  PartitionBytes :: "'p \<Rightarrow> nat"
  PartitionBlockSize :: "'p \<Rightarrow> nat"

text \<open>The private data and the module variables.\<close>

record 'p BR_BCT_UPDATE =
  SlotSize :: nat
  BrBctDataSize :: nat
  BctPartitionSlots :: nat
  BrBctPartition :: "'p option"
  BrBctBackupPartition :: "'p option"
  mActiveChain :: nat
  mVerifyBuffer :: "byte list option"
  mPcdBrBctVerifyUpdateBeforeWrite :: bool
  mPcdFwImageEnableBPartitions :: bool
  mPcdOverwriteActiveFwPartition :: bool
  mPcdBootChainIsMarkerBased :: bool
  mInvalidateBuffer :: "byte list option"
  mBackupPartitionBuffer :: "byte list option"

text \<open>\<open>CompareMem (x, y, n) == 0\<close>.\<close>

definition CompareMemIsZero :: "byte list \<Rightarrow> byte list \<Rightarrow> nat \<Rightarrow> bool option" where
  "CompareMemIsZero x y n = do {
     a \<leftarrow> load_bytes x 0 n;
     b \<leftarrow> load_bytes y 0 n;
     Some (a = b) }"

section \<open>Slots\<close>

definition BrBctGetSlotOffset :: "'p BR_BCT_UPDATE \<Rightarrow> nat \<Rightarrow> nat" where
  "BrBctGetSlotOffset B Slot = Slot * SlotSize B mod 2 ^ 64"

definition BrBctReadSlot ::
  "('p, 's) FW_PARTITION_PROTOCOL \<Rightarrow> 'p \<Rightarrow> nat \<Rightarrow> nat \<Rightarrow> byte list \<Rightarrow> 's
   \<Rightarrow> (EFI_STATUS \<times> byte list \<times> 's) option" where
  "BrBctReadSlot T Partition Offset' Bytes' Buffer s = PartitionRead T Partition Offset' Bytes' Buffer s"

definition BrBctVerifySlot ::
  "('p, 's) FW_PARTITION_PROTOCOL \<Rightarrow> 'p PARTITION_DESCRIPTORS \<Rightarrow> 'p \<Rightarrow> nat \<Rightarrow> nat \<Rightarrow> byte list
   \<Rightarrow> 'p BR_BCT_UPDATE \<Rightarrow> 's \<Rightarrow> (EFI_STATUS \<times> 'p BR_BCT_UPDATE \<times> 's) option" where
  "BrBctVerifySlot T Q Partition Slot Bytes' Buffer B s =
     (let BytesToRead = ALIGN_VALUE Bytes' (PartitionBlockSize Q Partition) in
      if BytesToRead > BrBctDataSize B then Some (EFI_INVALID_PARAMETER, B, s)
      else do {
        Verify \<leftarrow> mVerifyBuffer B;
        (Status, Verify, s) \<leftarrow>
          BrBctReadSlot T Partition (BrBctGetSlotOffset B Slot) BytesToRead Verify s;
        let B = B\<lparr>mVerifyBuffer := Some Verify\<rparr>;
        if EFI_ERROR Status then Some (Status, B, s)
        else do {
          Same \<leftarrow> CompareMemIsZero Verify Buffer Bytes';
          Some (if Same then EFI_SUCCESS else EFI_VOLUME_CORRUPTED, B, s) } })"

definition BrBctWriteSlot ::
  "('p, 's) FW_PARTITION_PROTOCOL \<Rightarrow> 'p \<Rightarrow> nat \<Rightarrow> nat \<Rightarrow> byte list \<Rightarrow> 'p BR_BCT_UPDATE \<Rightarrow> 's
   \<Rightarrow> (EFI_STATUS \<times> 's) option" where
  "BrBctWriteSlot T Partition Slot Bytes' Buffer B s =
     PartitionWrite T Partition (BrBctGetSlotOffset B Slot) Bytes' Buffer s"

definition WriteThenVerify ::
  "('p, 's) FW_PARTITION_PROTOCOL \<Rightarrow> 'p PARTITION_DESCRIPTORS \<Rightarrow> 'p \<Rightarrow> nat \<Rightarrow> nat \<Rightarrow> byte list
   \<Rightarrow> 'p BR_BCT_UPDATE \<Rightarrow> 's \<Rightarrow> (EFI_STATUS \<times> 'p BR_BCT_UPDATE \<times> 's) option" where
  "WriteThenVerify T Q Partition Slot Bytes' Buffer B s = do {
     (Status, s) \<leftarrow> BrBctWriteSlot T Partition Slot Bytes' Buffer B s;
     if EFI_ERROR Status then Some (Status, B, s)
     else BrBctVerifySlot T Q Partition Slot Bytes' Buffer B s }"

definition BrBctWriteAndVerifySlot ::
  "('p, 's) FW_PARTITION_PROTOCOL \<Rightarrow> 'p PARTITION_DESCRIPTORS \<Rightarrow> 'p \<Rightarrow> nat \<Rightarrow> nat \<Rightarrow> byte list
   \<Rightarrow> 'p BR_BCT_UPDATE \<Rightarrow> 's \<Rightarrow> (EFI_STATUS \<times> 'p BR_BCT_UPDATE \<times> 's) option" where
  "BrBctWriteAndVerifySlot T Q Partition Slot Bytes' Buffer B s =
     (if mPcdBrBctVerifyUpdateBeforeWrite B then do {
        (Status, B, s) \<leftarrow> BrBctVerifySlot T Q Partition Slot Bytes' Buffer B s;
        if Status = EFI_SUCCESS then Some (Status, B, s)
        else WriteThenVerify T Q Partition Slot Bytes' Buffer B s }
      else WriteThenVerify T Q Partition Slot Bytes' Buffer B s)"

definition SlotShouldBeInvalidated :: "'p BR_BCT_UPDATE \<Rightarrow> nat \<Rightarrow> nat \<Rightarrow> bool" where
  "SlotShouldBeInvalidated B Slot NewFwChain \<longleftrightarrow>
     mPcdBootChainIsMarkerBased B \<and> NewFwChain = BOOT_CHAIN_B \<and> Slot = 0"

definition SlotShouldBeUpdated :: "'p BR_BCT_UPDATE \<Rightarrow> nat \<Rightarrow> nat \<Rightarrow> bool" where
  "SlotShouldBeUpdated B Slot NewFwChain \<longleftrightarrow>
     (if mPcdBootChainIsMarkerBased B
      then Slot AND 1 = NewFwChain \<or> SlotShouldBeInvalidated B Slot NewFwChain
      else True)"

text \<open>
  The loop over the slots from \<open>n - 1\<close> down to 0. Once a slot was invalidated, \<open>BufferToWrite\<close> stays
  the buffer for that. \<open>Status\<close> is what the loop has left in the variable of that name.
\<close>

primrec UpdateSlotsLoop ::
  "('p, 's) FW_PARTITION_PROTOCOL \<Rightarrow> 'p PARTITION_DESCRIPTORS \<Rightarrow> nat \<Rightarrow> nat \<Rightarrow> nat \<Rightarrow> byte list option
   \<Rightarrow> EFI_STATUS \<Rightarrow> 'p BR_BCT_UPDATE \<Rightarrow> 's \<Rightarrow> (EFI_STATUS \<times> 'p BR_BCT_UPDATE \<times> 's) option" where
  "UpdateSlotsLoop T Q 0 Bytes' NewFwChain BufferToWrite Status B s = Some (Status, B, s)"
| "UpdateSlotsLoop T Q (Suc Slot) Bytes' NewFwChain BufferToWrite Status B s =
     (if \<not> SlotShouldBeUpdated B Slot NewFwChain
      then UpdateSlotsLoop T Q Slot Bytes' NewFwChain BufferToWrite Status B s
      else do {
        let BufferToWrite = (if SlotShouldBeInvalidated B Slot NewFwChain then mInvalidateBuffer B
                             else BufferToWrite);
        Partition \<leftarrow> BrBctPartition B;
        Buffer \<leftarrow> BufferToWrite;
        (Status, B, s) \<leftarrow> BrBctWriteAndVerifySlot T Q Partition Slot Bytes' Buffer B s;
        if EFI_ERROR Status then Some (Status, B, s)
        else UpdateSlotsLoop T Q Slot Bytes' NewFwChain BufferToWrite Status B s })"

definition BrBctUpdateBctSlots ::
  "('p, 's) FW_PARTITION_PROTOCOL \<Rightarrow> 'p PARTITION_DESCRIPTORS \<Rightarrow> nat \<Rightarrow> byte list \<Rightarrow> nat
   \<Rightarrow> 'p BR_BCT_UPDATE \<Rightarrow> 's \<Rightarrow> (EFI_STATUS \<times> 'p BR_BCT_UPDATE \<times> 's) option" where
  "BrBctUpdateBctSlots T Q Bytes' Buffer NewFwChain B s =
     UpdateSlotsLoop T Q (BctPartitionSlots B) Bytes' NewFwChain (Some Buffer) EFI_SUCCESS B s"

section \<open>The protocol\<close>

text \<open>
  \<open>This\<close> is false for a null pointer. \<open>Alloc\<close> says whether the pool has as many bytes,
  \<open>SetNext\<close> is \<open>SetNextBootChain\<close>, whose status is ignored.
\<close>

definition BrBctUpdateFwChain ::
  "('p, 's) FW_PARTITION_PROTOCOL \<Rightarrow> 'p PARTITION_DESCRIPTORS \<Rightarrow> (nat \<Rightarrow> bool) \<Rightarrow> (nat \<Rightarrow> 's \<Rightarrow> 's)
   \<Rightarrow> bool \<Rightarrow> nat \<Rightarrow> 'p BR_BCT_UPDATE \<Rightarrow> 's \<Rightarrow> (EFI_STATUS \<times> 'p BR_BCT_UPDATE \<times> 's) option" where
  "BrBctUpdateFwChain T Q Alloc SetNext This NewFwChain B s =
     (let DataSize = BrBctDataSize B in
      if \<not> This then Some (EFI_INVALID_PARAMETER, B, s)
      else if \<not> Alloc DataSize then Some (EFI_OUT_OF_RESOURCES, B, s)
      else do {
        let BackupOffset = NewFwChain * BR_BCT_BACKUP_PARTITION_CHAIN_OFFSET mod 2 ^ 64;
        Backup \<leftarrow> BrBctBackupPartition B;
        (Status, Buffer, s) \<leftarrow> BrBctReadSlot T Backup BackupOffset DataSize (replicate DataSize 0) s;
        if EFI_ERROR Status then Some (Status, B, s)
        else do {
          (Status, B, s) \<leftarrow> BrBctUpdateBctSlots T Q DataSize Buffer NewFwChain B s;
          if EFI_ERROR Status then Some (Status, B, s)
          else Some (Status, B, SetNext NewFwChain s) } })"

text \<open>\<open>Data\<close> are the bytes from the pointer on, \<open>None\<close> a null pointer.\<close>

definition BrBctUpdateBackupPartition ::
  "('p, 's) FW_PARTITION_PROTOCOL \<Rightarrow> bool \<Rightarrow> byte list option \<Rightarrow> 'p BR_BCT_UPDATE \<Rightarrow> 's
   \<Rightarrow> (EFI_STATUS \<times> 'p BR_BCT_UPDATE \<times> 's) option" where
  "BrBctUpdateBackupPartition T This Data B s =
     (case (This, Data) of
        (True, Some data) \<Rightarrow>
          if \<not> mPcdFwImageEnableBPartitions B \<and> \<not> mPcdOverwriteActiveFwPartition B
          then Some (EFI_UNSUPPORTED, B, s)
          else do {
            let UpdateFwChain = (if mPcdFwImageEnableBPartitions B
                                 then OTHER_BOOT_CHAIN (mActiveChain B) else mActiveChain B);
            Backup \<leftarrow> BrBctBackupPartition B;
            Image \<leftarrow> mBackupPartitionBuffer B;
            (Status, Image, s) \<leftarrow>
              PartitionRead T Backup 0 BR_BCT_BACKUP_PARTITION_DATA_SIZE Image s;
            let B = B\<lparr>mBackupPartitionBuffer := Some Image\<rparr>;
            if EFI_ERROR Status then Some (Status, B, s)
            else do {
              let BackupOffset = UpdateFwChain * BR_BCT_BACKUP_PARTITION_CHAIN_OFFSET mod 2 ^ 64;
              Old \<leftarrow> load_bytes Image BackupOffset (BrBctDataSize B);
              New \<leftarrow> load_bytes data BackupOffset (BrBctDataSize B);
              if Old = New then Some (EFI_SUCCESS, B, s)
              else do {
                Image \<leftarrow> store_bytes Image BackupOffset New;
                let B = B\<lparr>mBackupPartitionBuffer := Some Image\<rparr>;
                (Status, s) \<leftarrow> PartitionWrite T Backup 0 BR_BCT_BACKUP_PARTITION_DATA_SIZE Image s;
                if EFI_ERROR Status then Some (Status, B, s)
                else do {
                  Verify \<leftarrow> mVerifyBuffer B;
                  (Status, Verify, s) \<leftarrow>
                    PartitionRead T Backup 0 BR_BCT_BACKUP_PARTITION_DATA_SIZE Verify s;
                  let B = B\<lparr>mVerifyBuffer := Some Verify\<rparr>;
                  if EFI_ERROR Status then Some (Status, B, s)
                  else do {
                    Same \<leftarrow> CompareMemIsZero Verify Image BR_BCT_BACKUP_PARTITION_DATA_SIZE;
                    Some (if Same then Status else EFI_VOLUME_CORRUPTED, B, s) } } } } }
      | _ \<Rightarrow> Some (EFI_INVALID_PARAMETER, B, s))"

section \<open>Initialization\<close>

record BR_BCT_PCDS =
  PcdBrBctVerifyUpdateBeforeWrite :: bool
  PcdFwImageEnableBPartitions :: bool
  PcdOverwriteActiveFwPartition :: bool
  PcdBootChainIsMarkerBased :: bool
  PcdBrBctDataSize :: nat
  PcdBrBctLogicalSlotSize :: nat

definition InitialBrBctUpdate :: "'p BR_BCT_UPDATE" where
  "InitialBrBctUpdate =
     \<lparr> SlotSize = 0, BrBctDataSize = 0, BctPartitionSlots = 0, BrBctPartition = None,
       BrBctBackupPartition = None, mActiveChain = 2 ^ 32 - 1, mVerifyBuffer = None,
       mPcdBrBctVerifyUpdateBeforeWrite = False, mPcdFwImageEnableBPartitions = False,
       mPcdOverwriteActiveFwPartition = False, mPcdBootChainIsMarkerBased = False,
       mInvalidateBuffer = None, mBackupPartitionBuffer = None \<rparr>"

text \<open>
  The buffers, allocated in this order; \<open>Alloc\<close> says whether the allocation with the given number
  succeeds. A failure keeps those allocated before.
\<close>

definition AllocateBuffers ::
  "(nat \<Rightarrow> nat \<Rightarrow> bool) \<Rightarrow> 'p BR_BCT_UPDATE \<Rightarrow> EFI_STATUS \<times> 'p BR_BCT_UPDATE" where
  "AllocateBuffers Alloc B =
     (let Zeros = replicate BR_BCT_BACKUP_PARTITION_DATA_SIZE 0 in
      if \<not> Alloc 0 BR_BCT_BACKUP_PARTITION_DATA_SIZE
      then (EFI_OUT_OF_RESOURCES, B\<lparr>mVerifyBuffer := None\<rparr>)
      else
        let B = B\<lparr>mVerifyBuffer := Some Zeros\<rparr> in
        if \<not> Alloc 1 BR_BCT_BACKUP_PARTITION_DATA_SIZE
        then (EFI_OUT_OF_RESOURCES, B\<lparr>mBackupPartitionBuffer := None\<rparr>)
        else
          let B = B\<lparr>mBackupPartitionBuffer := Some Zeros\<rparr> in
          if \<not> mPcdBootChainIsMarkerBased B then (EFI_SUCCESS, B)
          else if \<not> Alloc 2 (BrBctDataSize B) then (EFI_OUT_OF_RESOURCES, B\<lparr>mInvalidateBuffer := None\<rparr>)
          else (EFI_SUCCESS, B\<lparr>mInvalidateBuffer := Some (replicate (BrBctDataSize B) 0xFF)\<rparr>))"

text \<open>
  \<open>Find\<close> is \<open>FwPartitionFindByName\<close>. \<open>NV_ASSERT_RETURN\<close> is taken as in the builds without debug
  assertions.
\<close>

definition BrBctUpdateDeviceLibInit ::
  "(wstring \<Rightarrow> 'p option) \<Rightarrow> 'p PARTITION_DESCRIPTORS \<Rightarrow> BR_BCT_PCDS \<Rightarrow> (nat \<Rightarrow> nat \<Rightarrow> bool) \<Rightarrow> nat \<Rightarrow> nat
   \<Rightarrow> 'p BR_BCT_UPDATE \<Rightarrow> (EFI_STATUS \<times> 'p BR_BCT_UPDATE) option" where
  "BrBctUpdateDeviceLibInit Find Q Pcd Alloc ActiveBootChain EraseBlockSize' B =
     (let MaxBctSlotsSupported = (if PcdBootChainIsMarkerBased Pcd
            then BR_BCT_SLOT_MARKER_BASED_MAX else BR_BCT_SLOT_MAX);
          B = B\<lparr>mActiveChain := ActiveBootChain,
                mPcdBrBctVerifyUpdateBeforeWrite := PcdBrBctVerifyUpdateBeforeWrite Pcd,
                mPcdFwImageEnableBPartitions := PcdFwImageEnableBPartitions Pcd,
                mPcdOverwriteActiveFwPartition := PcdOverwriteActiveFwPartition Pcd,
                mPcdBootChainIsMarkerBased := PcdBootChainIsMarkerBased Pcd,
                BrBctDataSize := PcdBrBctDataSize Pcd,
                SlotSize := max EraseBlockSize' (PcdBrBctLogicalSlotSize Pcd),
                BrBctPartition := Find (W ''BCT''),
                BrBctBackupPartition := Find BR_BCT_BACKUP_PARTITION_NAME\<rparr> in
      case (BrBctPartition B, BrBctBackupPartition B) of
        (Some Bct, Some Backup) \<Rightarrow>
          if SlotSize B = 0 then None
          else
            let Slots = PartitionBytes Q Bct div SlotSize B in
            if Slots = 0 \<and> BrBctDataSize B > PartitionBytes Q Bct
            then Some (EFI_UNSUPPORTED, B\<lparr>BctPartitionSlots := Slots\<rparr>)
            else
              let B = B\<lparr>BctPartitionSlots := (if Slots = 0 then 1
                          else if Slots > MaxBctSlotsSupported then MaxBctSlotsSupported else Slots)\<rparr> in
              if \<not> BrBctDataSize B \<le> BR_BCT_BACKUP_PARTITION_CHAIN_OFFSET then Some (EFI_UNSUPPORTED, B)
              else Some (AllocateBuffers Alloc B)
      | _ \<Rightarrow> Some (EFI_NOT_FOUND, B))"

text \<open>The settings and the buffer for invalid slots stay.\<close>

definition BrBctUpdateDeviceLibDeinit :: "'p BR_BCT_UPDATE \<Rightarrow> 'p BR_BCT_UPDATE" where
  "BrBctUpdateDeviceLibDeinit B =
     B\<lparr>mVerifyBuffer := None, mBackupPartitionBuffer := None, mActiveChain := 2 ^ 32 - 1,
       SlotSize := 0, BrBctDataSize := 0, BctPartitionSlots := 0, BrBctPartition := None,
       BrBctBackupPartition := None\<rparr>"

text \<open>
  The descriptors of the partitions that \<open>FwPartitionDeviceLib\<close> registers. The device with the
  pseudo partition has blocks of one byte.
\<close>

definition Descriptors :: "'w DEVICE_OPS \<Rightarrow> FW_PARTITION_GLOBALS \<Rightarrow> nat PARTITION_DESCRIPTORS" where
  "Descriptors D G =
     \<lparr> PartitionBytes = (\<lambda>i. Bytes (PartitionInfo (mPrivate G ! i))),
       PartitionBlockSize = (\<lambda>i. case DeviceInfo (mPrivate G ! i) of
          Device d \<Rightarrow> DeviceBlockSize D d | PseudoDevice _ \<Rightarrow> 1) \<rparr>"

end
