(* ===== verification/BrBctProps.thy ===== *)
theory BrBctProps
  imports BrBctUpdate FwDriversStore
begin

text \<open>
  What switching the boot chain does to the boot configuration table, on partitions that keep
  their contract: the slots hold the table of the new chain when it succeeds, and at no point both
  the first slot and the others are in doubt.
\<close>

section \<open>Geometry\<close>

text \<open>
  The slots consist of whole blocks and have room for the table, and the library is initialized.
\<close>

definition bct_ready :: "'p PARTITION_DESCRIPTORS \<Rightarrow> 'p \<Rightarrow> nat \<Rightarrow> 'p BR_BCT_UPDATE \<Rightarrow> bool" where
  "bct_ready Q p u B \<longleftrightarrow> PartitionBlockSize Q p = u \<and> (\<exists>k < 32. u = 2 ^ k)
     \<and> SlotSize B mod u = 0 \<and> SlotSize B < 2 ^ 32 \<and> BrBctDataSize B \<le> SlotSize B
     \<and> BctPartitionSlots B \<le> BR_BCT_SLOT_MAX
     \<and> BrBctDataSize B \<le> BR_BCT_BACKUP_PARTITION_CHAIN_OFFSET
     \<and> (\<exists>v. mVerifyBuffer B = Some v \<and> length v = BR_BCT_BACKUP_PARTITION_DATA_SIZE)
     \<and> (mPcdBootChainIsMarkerBased B \<longrightarrow>
          mInvalidateBuffer B = Some (replicate (BrBctDataSize B) 0xFF))"

lemma bct_ready_verify:
  "length v = BR_BCT_BACKUP_PARTITION_DATA_SIZE \<Longrightarrow> bct_ready Q p u B
   \<Longrightarrow> bct_ready Q p u (B\<lparr>mVerifyBuffer := Some v\<rparr>)"
  by (simp add: bct_ready_def)

text \<open>Two states of the library that differ in the verify buffer only.\<close>

definition same_library :: "'p BR_BCT_UPDATE \<Rightarrow> 'p BR_BCT_UPDATE \<Rightarrow> bool" where
  "same_library B B' \<longleftrightarrow> (\<exists>v. length v = BR_BCT_BACKUP_PARTITION_DATA_SIZE \<and> B' = B\<lparr>mVerifyBuffer := Some v\<rparr>)
     \<or> B' = B"

lemma same_library_trans: "same_library B B1 \<Longrightarrow> same_library B1 B2 \<Longrightarrow> same_library B B2"
  by (auto simp: same_library_def)

lemma same_library_refl [simp]: "same_library B B"
  by (simp add: same_library_def)

lemma same_library_simps:
  assumes "same_library B B'"
  shows "SlotSize B' = SlotSize B" "BrBctDataSize B' = BrBctDataSize B"
    "BctPartitionSlots B' = BctPartitionSlots B" "BrBctPartition B' = BrBctPartition B"
    "mInvalidateBuffer B' = mInvalidateBuffer B" "SlotShouldBeUpdated B' = SlotShouldBeUpdated B"
    "SlotShouldBeInvalidated B' = SlotShouldBeInvalidated B"
    "mPcdBrBctVerifyUpdateBeforeWrite B' = mPcdBrBctVerifyUpdateBeforeWrite B"
    "bct_ready Q p u B \<Longrightarrow> bct_ready Q p u B'"
  using assms bct_ready_verify [of _ Q p u B]
  by (auto simp: same_library_def SlotShouldBeUpdated_def SlotShouldBeInvalidated_def fun_eq_iff)

definition slot_data :: "'p BR_BCT_UPDATE \<Rightarrow> byte list \<Rightarrow> nat \<Rightarrow> byte list" where
  "slot_data B xs Slot = slice (Slot * SlotSize B) (BrBctDataSize B) xs"

lemma bct_readyD:
  assumes "bct_ready Q p u B"
  shows "0 < u" "u < 2 ^ 32" "BrBctDataSize B \<le> ALIGN_VALUE (BrBctDataSize B) u"
    "Slot < BctPartitionSlots B \<Longrightarrow> BrBctGetSlotOffset B Slot = Slot * SlotSize B"
    "Slot * SlotSize B mod u = 0"
proof -
  from assms obtain k where k: "u = 2 ^ k" "k < 32" by (auto simp: bct_ready_def)
  show u: "0 < u" "u < 2 ^ 32" using k power_strict_increasing [of k 32 "2 :: nat"] by simp_all
  have "BrBctDataSize B \<le> 16384"
    using assms by (simp add: bct_ready_def BR_BCT_BACKUP_PARTITION_CHAIN_OFFSET_def)
  then have "ALIGN_VALUE (BrBctDataSize B) u = ceil_to u (BrBctDataSize B)"
    using u(2) by (intro ALIGN_VALUE_ceil [OF k]) simp
  with ceil_to_multiple(2) [OF u(1)] show "BrBctDataSize B \<le> ALIGN_VALUE (BrBctDataSize B) u" by simp
  show "BrBctGetSlotOffset B Slot = Slot * SlotSize B" if "Slot < BctPartitionSlots B"
  proof -
    have "SlotSize B < 2 ^ 32" "Slot < 4" using assms that by (simp_all add: bct_ready_def BR_BCT_SLOT_MAX_def)
    then have "Slot * SlotSize B < 4 * 2 ^ 32" by (intro mult_strict_mono') simp_all
    then show ?thesis by (simp add: BrBctGetSlotOffset_def)
  qed
  show "Slot * SlotSize B mod u = 0"
    using assms by (simp add: bct_ready_def mod_mult_right_eq [symmetric, of Slot])
qed

section \<open>One slot\<close>

context partition_store
begin

text \<open>What an operation on partition \<open>p\<close> keeps, and what it keeps outside \<open>n\<close> bytes from \<open>off\<close> on.\<close>

definition keeps :: "'p \<Rightarrow> nat \<Rightarrow> nat \<Rightarrow> 's \<Rightarrow> 's \<Rightarrow> bool" where
  "keeps p off n s s' \<longleftrightarrow> valid s' = valid s \<and> unit s' = unit s
     \<and> (\<forall>q. valid s q \<longrightarrow> q \<noteq> p \<longrightarrow> data s' q = data s q)
     \<and> length (data s' p) = length (data s p)
     \<and> (\<forall>a < length (data s p). outside (unit s p) off n a \<longrightarrow> data s' p ! a = data s p ! a)"

lemma keeps_refl [simp]: "keeps p off n s s"
  by (simp add: keeps_def)

lemma keeps_trans: "keeps p off n s s1 \<Longrightarrow> keeps p off n s1 s2 \<Longrightarrow> keeps p off n s s2"
  by (auto simp: keeps_def)

lemma keeps_same: "valid s' = valid s \<Longrightarrow> unit s' = unit s \<Longrightarrow> data s' = data s \<Longrightarrow> keeps p off n s s'"
  by (simp add: keeps_def)

lemma VerifySlot_sound:
  assumes "valid s p" and "bct_ready Q p (unit s p) B" and "Slot < BctPartitionSlots B"
    and "BrBctVerifySlot T Q p Slot (BrBctDataSize B) buf B s = Some (st, B', s')"
  shows "same_library B B' \<and> valid s' = valid s \<and> unit s' = unit s \<and> data s' = data s
    \<and> (st = EFI_SUCCESS \<longrightarrow> BrBctDataSize B \<le> length buf
         \<and> slot_data B (data s p) Slot = take (BrBctDataSize B) buf)"
proof (cases "ALIGN_VALUE (BrBctDataSize B) (unit s p) > BrBctDataSize B")
  case True
  with assms(2,4) show ?thesis by (simp add: BrBctVerifySlot_def bct_ready_def)
next
  case False
  note r = bct_readyD [OF assms(2)]
  have n: "ALIGN_VALUE (BrBctDataSize B) (unit s p) = BrBctDataSize B" using False r(3) by simp
  have blk: "PartitionBlockSize Q p = unit s p" using assms(2) by (simp add: bct_ready_def)
  from assms(2) obtain v where v: "mVerifyBuffer B = Some v" "length v = BR_BCT_BACKUP_PARTITION_DATA_SIZE"
    by (auto simp: bct_ready_def)
  have fits: "BrBctDataSize B \<le> length v"
    using assms(2) v(2) by (simp add: bct_ready_def BR_BCT_BACKUP_PARTITION_DATA_SIZE_def
        BR_BCT_BACKUP_PARTITION_CHAIN_OFFSET_def BOOT_CHAIN_COUNT_def)
  from assms(4) obtain st1 v1 s1 where rd: "PartitionRead T p (Slot * SlotSize B) (BrBctDataSize B) v s = Some (st1, v1, s1)"
    and rest: "B' = B\<lparr>mVerifyBuffer := Some v1\<rparr>" "s' = s1"
      "st = EFI_SUCCESS \<longrightarrow> st1 = EFI_SUCCESS \<and> CompareMemIsZero v1 buf (BrBctDataSize B) = Some True"
    by (auto simp: BrBctVerifySlot_def BrBctReadSlot_def blk n v(1) r(4) [OF assms(3)] Let_def
        bind_eq_Some_conv split: if_splits)
  note law = partition_read [OF assms(1) rd]
  have len: "length v1 = BR_BCT_BACKUP_PARTITION_DATA_SIZE" using law v(2) by simp
  have "BrBctDataSize B \<le> length buf \<and> slot_data B (data s p) Slot = take (BrBctDataSize B) buf"
    if "st = EFI_SUCCESS"
  proof -
    from rest(3) that have True: "st1 = EFI_SUCCESS" and "CompareMemIsZero v1 buf (BrBctDataSize B) = Some True"
      by simp_all
    then have "BrBctDataSize B \<le> length buf" "take (BrBctDataSize B) v1 = take (BrBctDataSize B) buf"
      by (auto simp: CompareMemIsZero_def load_bytes_def bind_eq_Some_conv split: if_splits)
    with law True fits show ?thesis by (simp add: slot_data_def)
  qed
  with law len rest(1,2) show ?thesis by (auto simp: same_library_def)
qed

lemma WriteAndVerifySlot_sound:
  assumes "valid s p" and "bct_ready Q p (unit s p) B" and "Slot < BctPartitionSlots B"
    and "BrBctWriteAndVerifySlot T Q p Slot (BrBctDataSize B) buf B s = Some (st, B', s')"
  shows "same_library B B' \<and> keeps p (Slot * SlotSize B) (BrBctDataSize B) s s'
    \<and> (st = EFI_SUCCESS \<longrightarrow> BrBctDataSize B \<le> length buf
         \<and> slot_data B (data s' p) Slot = take (BrBctDataSize B) buf)"
proof -
  note r = bct_readyD [OF assms(2)]
  have wv: "same_library B B2 \<and> keeps p (Slot * SlotSize B) (BrBctDataSize B) s s2
      \<and> (st2 = EFI_SUCCESS \<longrightarrow> BrBctDataSize B \<le> length buf
           \<and> slot_data B (data s2 p) Slot = take (BrBctDataSize B) buf)"
    if s1: "same_library B B1" "valid s1 = valid s" "unit s1 = unit s" "data s1 = data s"
    and run: "WriteThenVerify T Q p Slot (BrBctDataSize B) buf B1 s1 = Some (st2, B2, s2)" for B1 s1 st2 B2 s2
  proof -
    note same = same_library_simps [OF s1(1)]
    have v1: "valid s1 p" using assms(1) s1(2) by simp
    from run same r(4) [OF assms(3)] obtain st3 s3 where
        wr: "PartitionWrite T p (Slot * SlotSize B) (BrBctDataSize B) buf s1 = Some (st3, s3)"
      and rest: "if st3 \<noteq> EFI_SUCCESS then st2 = st3 \<and> B2 = B1 \<and> s2 = s3
        else BrBctVerifySlot T Q p Slot (BrBctDataSize B1) buf B1 s3 = Some (st2, B2, s2)"
      by (auto simp: WriteThenVerify_def BrBctWriteSlot_def BrBctGetSlotOffset_def bind_eq_Some_conv
          split: if_splits)
    have off: "Slot * SlotSize B mod unit s1 p = 0" using r(5) s1(3) by simp
    note law = partition_write [OF v1 off wr]
    have k: "keeps p (Slot * SlotSize B) (BrBctDataSize B) s s3"
      using law s1(2-4) by (simp add: keeps_def)
    show ?thesis
    proof (cases "st3 = EFI_SUCCESS")
      case False
      with rest k s1(1) show ?thesis by simp
    next
      case True
      have "valid s3 p" "bct_ready Q p (unit s3 p) B1" "Slot < BctPartitionSlots B1"
        using law v1 s1(3) same(9) [OF assms(2)] assms(3) same(3) by simp_all
      from VerifySlot_sound [OF this] rest True
      have v: "same_library B1 B2" "valid s2 = valid s3" "unit s2 = unit s3" "data s2 = data s3"
          "st2 = EFI_SUCCESS \<longrightarrow> BrBctDataSize B1 \<le> length buf
             \<and> slot_data B1 (data s3 p) Slot = take (BrBctDataSize B1) buf" by auto
      have "keeps p (Slot * SlotSize B) (BrBctDataSize B) s s2"
        using keeps_trans [OF k keeps_same [OF v(2-4)]] .
      then show ?thesis using v(4,5) same_library_trans [OF s1(1) v(1)] same(1,2) by (simp add: slot_data_def)
    qed
  qed
  show ?thesis
  proof (cases "mPcdBrBctVerifyUpdateBeforeWrite B")
    case True
    with assms(4) obtain st1 B1 s1 where
        ver: "BrBctVerifySlot T Q p Slot (BrBctDataSize B) buf B s = Some (st1, B1, s1)"
      and rest: "if st1 = EFI_SUCCESS then st = st1 \<and> B' = B1 \<and> s' = s1
        else WriteThenVerify T Q p Slot (BrBctDataSize B) buf B1 s1 = Some (st, B', s')"
      by (auto simp: BrBctWriteAndVerifySlot_def bind_eq_Some_conv split: if_splits)
    note law = VerifySlot_sound [OF assms(1-3) ver]
    show ?thesis
    proof (cases "st1 = EFI_SUCCESS")
      case True
      with rest law show ?thesis by (auto intro: keeps_same)
    next
      case False
      with rest law show ?thesis by (intro wv [of B1 s1]) auto
    qed
  next
    case False
    with assms(4) show ?thesis by (intro wv [of B s]) (auto simp: BrBctWriteAndVerifySlot_def)
  qed
qed

end

section \<open>All slots\<close>

text \<open>What slot \<open>k\<close> holds after a switch.\<close>

definition new_slot :: "'p BR_BCT_UPDATE \<Rightarrow> nat \<Rightarrow> byte list \<Rightarrow> nat \<Rightarrow> byte list" where
  "new_slot B NewFwChain buf k =
     (if SlotShouldBeInvalidated B k NewFwChain then replicate (BrBctDataSize B) 0xFF
      else take (BrBctDataSize B) buf)"

text \<open>
  \<open>switched B chain buf m xs ys\<close>: from partition content \<open>xs\<close> to \<open>ys\<close> the slots below \<open>m\<close> stayed
  and those above \<open>m\<close>, and below \<open>n\<close>, were renewed as far as they should be.
\<close>

definition switched ::
  "'p BR_BCT_UPDATE \<Rightarrow> nat \<Rightarrow> byte list \<Rightarrow> nat \<Rightarrow> nat \<Rightarrow> byte list \<Rightarrow> byte list \<Rightarrow> bool" where
  "switched B NewFwChain buf m n xs ys \<longleftrightarrow>
     (\<forall>k < m. slot_data B ys k = slot_data B xs k)
   \<and> (\<forall>k. m < k \<longrightarrow> k < n \<longrightarrow> SlotShouldBeUpdated B k NewFwChain
        \<longrightarrow> slot_data B ys k = new_slot B NewFwChain buf k)"

lemma other_slot_outside:
  assumes "0 < u" and "SlotSize B mod u = 0" and "BrBctDataSize B \<le> SlotSize B" and "k \<noteq> Slot"
    and "k * SlotSize B \<le> a" and "a < k * SlotSize B + BrBctDataSize B"
  shows "outside u (Slot * SlotSize B) (BrBctDataSize B) a"
proof (cases "k < Slot")
  case True
  then have "Suc k * SlotSize B \<le> Slot * SlotSize B" by (intro mult_le_mono1) simp
  with assms show ?thesis
    by (intro outside_before) (auto simp: mod_mult_right_eq [symmetric, of Slot])
next
  case False
  with assms(4) have "Suc Slot * SlotSize B \<le> k * SlotSize B" by (intro mult_le_mono1) simp
  then have le: "Slot * SlotSize B + BrBctDataSize B \<le> k * SlotSize B" using assms(3) by simp
  from assms(2) obtain m where m: "SlotSize B = m * u" by (metis mod_0_imp_dvd dvdE mult.commute)
  have "k * m \<le> a div u" using assms(1,5) by (simp add: m less_eq_div_iff_mult_less_eq mult.assoc)
  then have "k * m * u \<le> a div u * u" by (rule mult_le_mono1)
  with le have "Slot * SlotSize B + BrBctDataSize B \<le> a div u * u" by (simp only: m mult.assoc)
  then show ?thesis unfolding outside_def ..
qed

context partition_store
begin

lemma keeps_other_slot:
  assumes "bct_ready Q p (unit s p) B" and "keeps p (Slot * SlotSize B) (BrBctDataSize B) s s'" and "k \<noteq> Slot"
  shows "slot_data B (data s' p) k = slot_data B (data s p) k"
  unfolding slot_data_def
proof (rule slice_eqI)
  show "length (data s' p) = length (data s p)" using assms(2) by (simp add: keeps_def)
  fix a assume "k * SlotSize B \<le> a" "a < k * SlotSize B + BrBctDataSize B" "a < length (data s' p)"
  with assms bct_readyD(1) [OF assms(1)] show "data s' p ! a = data s p ! a"
    by (auto simp: keeps_def bct_ready_def intro!: other_slot_outside)
qed

lemma UpdateSlotsLoop_sound:
  assumes "UpdateSlotsLoop T Q n (BrBctDataSize B) chain (Some buf) st0 B s = Some (st, B', s')"
    and "n \<le> BctPartitionSlots B" and "valid s p" and "bct_ready Q p (unit s p) B" and "BrBctPartition B = Some p"
  shows "same_library B B' \<and> valid s' = valid s \<and> unit s' = unit s
    \<and> (\<forall>q. valid s q \<longrightarrow> q \<noteq> p \<longrightarrow> data s' q = data s q) \<and> length (data s' p) = length (data s p)
    \<and> (\<forall>k \<ge> n. slot_data B (data s' p) k = slot_data B (data s p) k)
    \<and> (st = EFI_SUCCESS \<longrightarrow> (\<forall>k < n. SlotShouldBeUpdated B k chain
         \<longrightarrow> slot_data B (data s' p) k = new_slot B chain buf k))
    \<and> (\<exists>m. switched B chain buf m n (data s p) (data s' p))"
  using assms
proof (induction n arbitrary: B s st0)
  case 0
  then show ?case by (auto simp: switched_def)
next
  case (Suc n)
  show ?case
  proof (cases "SlotShouldBeUpdated B n chain")
    case False
    with Suc.prems have run: "UpdateSlotsLoop T Q n (BrBctDataSize B) chain (Some buf) st0 B s = Some (st, B', s')"
      by simp
    from Suc.IH [OF run _ Suc.prems(3-5)] Suc.prems(2) have ih: "same_library B B'"
        "valid s' = valid s" "unit s' = unit s"
        "\<forall>q. valid s q \<longrightarrow> q \<noteq> p \<longrightarrow> data s' q = data s q" "length (data s' p) = length (data s p)"
        "\<forall>k \<ge> n. slot_data B (data s' p) k = slot_data B (data s p) k"
        "st = EFI_SUCCESS \<longrightarrow> (\<forall>k < n. SlotShouldBeUpdated B k chain
           \<longrightarrow> slot_data B (data s' p) k = new_slot B chain buf k)"
        "\<exists>m. switched B chain buf m n (data s p) (data s' p)" by simp_all
    then show ?thesis using False by (auto simp: switched_def less_Suc_eq)
  next
    case True
    define w where "w = (if SlotShouldBeInvalidated B n chain then replicate (BrBctDataSize B) 0xFF else buf)"
    have inv: "SlotShouldBeInvalidated B n chain \<Longrightarrow> mInvalidateBuffer B = Some (replicate (BrBctDataSize B) 0xFF)"
      using Suc.prems(4) by (simp add: SlotShouldBeInvalidated_def bct_ready_def)
    have w: "take (BrBctDataSize B) w = new_slot B chain buf n" by (simp add: w_def new_slot_def)
    from Suc.prems(1,5) True inv obtain st1 B1 s1 where
        one: "BrBctWriteAndVerifySlot T Q p n (BrBctDataSize B) w B s = Some (st1, B1, s1)"
      and rest: "if st1 \<noteq> EFI_SUCCESS then st = st1 \<and> B' = B1 \<and> s' = s1 else
        UpdateSlotsLoop T Q n (BrBctDataSize B) chain (Some w) st1 B1 s1 = Some (st, B', s')"
      by (auto simp: w_def bind_eq_Some_conv Let_def split: if_splits)
    have n: "n < BctPartitionSlots B" using Suc.prems(2) by simp
    note law = WriteAndVerifySlot_sound [OF Suc.prems(3,4) n one]
    then have k: "keeps p (n * SlotSize B) (BrBctDataSize B) s s1" and same: "same_library B B1"
      and new: "st1 = EFI_SUCCESS \<Longrightarrow> slot_data B (data s1 p) n = new_slot B chain buf n"
      using w by simp_all
    note lib = same_library_simps [OF same]
    have frame: "valid s1 = valid s" "unit s1 = unit s" "length (data s1 p) = length (data s p)"
        "\<forall>q. valid s q \<longrightarrow> q \<noteq> p \<longrightarrow> data s1 q = data s q"
      using k by (simp_all add: keeps_def)
    have other: "slot_data B (data s1 p) j = slot_data B (data s p) j" if "j \<noteq> n" for j
      using keeps_other_slot [OF Suc.prems(4) k that] .
    show ?thesis
    proof (cases "st1 = EFI_SUCCESS")
      case False
      with rest same frame other show ?thesis
        by (auto simp: switched_def intro!: exI [of _ n])
    next
      case True2: True
      have buf: "n = 0 \<or> w = buf"
        by (simp add: w_def SlotShouldBeInvalidated_def)
      with rest True2 have "UpdateSlotsLoop T Q n (BrBctDataSize B1) chain (Some buf) st1 B1 s1 = Some (st, B', s')"
        by (auto simp: lib)
      from Suc.IH [OF this] n Suc.prems(3-5) frame lib(1-5) lib(9) [OF Suc.prems(4)]
      have ih: "same_library B1 B'"
        "valid s' = valid s1" "unit s' = unit s1"
        "\<forall>q. valid s1 q \<longrightarrow> q \<noteq> p \<longrightarrow> data s' q = data s1 q" "length (data s' p) = length (data s1 p)"
        "\<forall>k \<ge> n. slot_data B1 (data s' p) k = slot_data B1 (data s1 p) k"
        "st = EFI_SUCCESS \<longrightarrow> (\<forall>k < n. SlotShouldBeUpdated B1 k chain
           \<longrightarrow> slot_data B1 (data s' p) k = new_slot B1 chain buf k)"
        "\<exists>m. switched B1 chain buf m n (data s1 p) (data s' p)" by simp_all
      have eqs: "slot_data B1 = slot_data B" "new_slot B1 = new_slot B" "switched B1 = switched B"
        using lib by (auto simp: fun_eq_iff slot_data_def new_slot_def switched_def)
      from ih(8) obtain m where m: "switched B chain buf m n (data s1 p) (data s' p)" by (auto simp: eqs)
      have "switched B chain buf (min m n) (Suc n) (data s p) (data s' p)"
        using m ih(6) new [OF True2] other by (auto simp: switched_def eqs less_Suc_eq min_def)
      moreover have "st = EFI_SUCCESS \<longrightarrow> (\<forall>k < Suc n. SlotShouldBeUpdated B k chain
           \<longrightarrow> slot_data B (data s' p) k = new_slot B chain buf k)"
        using ih(6,7) new [OF True2] lib(6) by (auto simp: eqs less_Suc_eq)
      ultimately show ?thesis
        using ih(1-6) frame other same_library_trans [OF same ih(1)] by (auto simp: eqs)
    qed
  qed
qed

lemma UpdateFwChain_sound:
  assumes "valid s p" and "valid s b" and "b \<noteq> p" and "bct_ready Q p (unit s p) B"
    and "BrBctPartition B = Some p" and "BrBctBackupPartition B = Some b" and "chain < 2"
    and "BrBctUpdateFwChain T Q Alloc SetNext True chain B s = Some (st, B', s')"
    and "new = slice (chain * BR_BCT_BACKUP_PARTITION_CHAIN_OFFSET) (BrBctDataSize B) (data s b)"
  shows "\<exists>s1. s' = (if st = EFI_SUCCESS then SetNext chain s1 else s1)
    \<and> valid s1 = valid s \<and> unit s1 = unit s \<and> (\<forall>q. valid s q \<longrightarrow> q \<noteq> p \<longrightarrow> data s1 q = data s q)
    \<and> length (data s1 p) = length (data s p) \<and> same_library B B'
    \<and> (st = EFI_SUCCESS \<longrightarrow> (\<forall>k < BctPartitionSlots B. SlotShouldBeUpdated B k chain
         \<longrightarrow> slot_data B (data s1 p) k = new_slot B chain new k))
    \<and> (\<exists>m. switched B chain new m (BctPartitionSlots B) (data s p) (data s1 p))"
proof (cases "Alloc (BrBctDataSize B)")
  case False
  with assms(8) show ?thesis by (auto simp: BrBctUpdateFwChain_def switched_def intro!: exI [of _ "BctPartitionSlots B"])
next
  case True
  have chain: "chain * BR_BCT_BACKUP_PARTITION_CHAIN_OFFSET mod 2 ^ 64 = chain * BR_BCT_BACKUP_PARTITION_CHAIN_OFFSET"
    using assms(7) by (simp add: BR_BCT_BACKUP_PARTITION_CHAIN_OFFSET_def)
  from assms(8) True obtain st1 buf s1 where
      rd: "PartitionRead T b (chain * BR_BCT_BACKUP_PARTITION_CHAIN_OFFSET) (BrBctDataSize B)
             (replicate (BrBctDataSize B) 0) s = Some (st1, buf, s1)"
    and rest: "(if st1 \<noteq> EFI_SUCCESS then Some (st1, B, s1) else do {
        (st, B, s) \<leftarrow> BrBctUpdateBctSlots T Q (BrBctDataSize B) buf chain B s1;
        if st \<noteq> EFI_SUCCESS then Some (st, B, s) else Some (st, B, SetNext chain s) }) = Some (st, B', s')"
    unfolding BrBctUpdateFwChain_def Let_def chain
    by (auto simp: assms(6) BrBctReadSlot_def bind_eq_Some_conv)
  from partition_read [OF assms(2) rd] have r: "valid s1 = valid s" "unit s1 = unit s" "data s1 = data s"
      "st1 = EFI_SUCCESS \<longrightarrow> buf = new"
    unfolding assms(9) by auto
  show ?thesis
  proof (cases "st1 = EFI_SUCCESS")
    case False
    with rest r show ?thesis by (auto simp: switched_def intro!: exI [of _ "BctPartitionSlots B"])
  next
    case True
    then have buf: "buf = new" using r(4) by simp
    from rest True obtain s2 where
        run: "UpdateSlotsLoop T Q (BctPartitionSlots B) (BrBctDataSize B) chain (Some new) EFI_SUCCESS B s1
                = Some (st, B', s2)"
      and s': "s' = (if st = EFI_SUCCESS then SetNext chain s2 else s2)"
      by (auto simp: BrBctUpdateBctSlots_def buf bind_eq_Some_conv split: if_splits)
    have pre: "valid s1 p" "bct_ready Q p (unit s1 p) B" using assms(1,4) r(1,2) by simp_all
    from UpdateSlotsLoop_sound [OF run _ pre assms(5)] r(1-3) s' show ?thesis
      by (intro exI [of _ s2]) simp
  qed
qed

lemma UpdateBackupPartition_sound:
  assumes "valid s b" and "BrBctBackupPartition B = Some b" and "mActiveChain B < 2"
    and "mBackupPartitionBuffer B = Some v" and "length v = BR_BCT_BACKUP_PARTITION_DATA_SIZE"
    and "mVerifyBuffer B = Some v'" and "length v' = BR_BCT_BACKUP_PARTITION_DATA_SIZE"
    and "chain = (if mPcdFwImageEnableBPartitions B then OTHER_BOOT_CHAIN (mActiveChain B) else mActiveChain B)"
    and "BrBctUpdateBackupPartition T True (Some xs) B s = Some (EFI_SUCCESS, B', s')"
  shows "valid s' = valid s \<and> (\<forall>q. valid s q \<longrightarrow> q \<noteq> b \<longrightarrow> data s' q = data s q)
    \<and> chain * BR_BCT_BACKUP_PARTITION_CHAIN_OFFSET + BrBctDataSize B \<le> length xs
    \<and> BR_BCT_BACKUP_PARTITION_DATA_SIZE \<le> length (data s b) \<and> length (data s' b) = length (data s b)
    \<and> store_bytes (slice 0 BR_BCT_BACKUP_PARTITION_DATA_SIZE (data s b))
        (chain * BR_BCT_BACKUP_PARTITION_CHAIN_OFFSET)
        (slice (chain * BR_BCT_BACKUP_PARTITION_CHAIN_OFFSET) (BrBctDataSize B) xs)
      = Some (slice 0 BR_BCT_BACKUP_PARTITION_DATA_SIZE (data s' b))"
proof -
  let ?n = BR_BCT_BACKUP_PARTITION_DATA_SIZE and ?off = "chain * BR_BCT_BACKUP_PARTITION_CHAIN_OFFSET"
  have chain: "chain * BR_BCT_BACKUP_PARTITION_CHAIN_OFFSET mod 2 ^ 64 = ?off"
  proof -
    have "mActiveChain B = 0 \<or> mActiveChain B = 1" using assms(3) by linarith
    then have "chain < 2" unfolding assms(8) by (auto simp: OTHER_BOOT_CHAIN_def)
    then show ?thesis by (simp add: BR_BCT_BACKUP_PARTITION_CHAIN_OFFSET_def)
  qed
  have pcd: "(\<not> mPcdFwImageEnableBPartitions B \<and> \<not> mPcdOverwriteActiveFwPartition B) = False"
    using assms(9) by (auto simp: BrBctUpdateBackupPartition_def split: if_splits)
  obtain st1 image s1 where rd: "PartitionRead T b 0 ?n v s = Some (st1, image, s1)"
    using assms(9) pcd by (cases "PartitionRead T b 0 ?n v s") (auto simp: BrBctUpdateBackupPartition_def assms(2,4) Let_def)
  note run = assms(9) [unfolded BrBctUpdateBackupPartition_def assms(8) [symmetric] assms(2,4) Let_def
      prod.case bool.case option.case bind.simps rd chain]
  have st1: "st1 = EFI_SUCCESS" using run unfolding pcd by (auto split: if_splits)
  note run = run [unfolded st1]
  obtain old where old: "load_bytes image ?off (BrBctDataSize B) = Some old"
    using run unfolding pcd by (cases "load_bytes image ?off (BrBctDataSize B)") simp_all
  obtain new where new: "load_bytes xs ?off (BrBctDataSize B) = Some new"
    using run unfolding pcd by (cases "load_bytes xs ?off (BrBctDataSize B)") (simp_all add: old)
  have rest: "old = new \<and> s' = s1 \<or> (\<exists>image2 s2 verify. store_bytes image ?off new = Some image2
        \<and> PartitionWrite T b 0 ?n image2 s1 = Some (EFI_SUCCESS, s2)
        \<and> PartitionRead T b 0 ?n v' s2 = Some (EFI_SUCCESS, verify, s'))"
    using run unfolding pcd
    by (cases "old = new") (auto simp: old new assms(6) bind_eq_Some_conv split: if_splits)
  from partition_read [OF assms(1) rd] st1 assms(5) have r: "valid s1 = valid s" "unit s1 = unit s" "data s1 = data s"
      "length image = ?n" "image = slice 0 ?n (data s b)" "?n \<le> length (data s b)" by auto
  have new': "new = slice ?off (BrBctDataSize B) xs" and len: "?off + BrBctDataSize B \<le> length xs"
    using new by (auto simp: load_bytes_def slice_def split: if_splits)
  from rest show ?thesis
  proof (elim disjE conjE exE)
    assume "old = new" "s' = s1"
    moreover have "store_bytes image ?off old = Some image"
      using old by (auto simp: load_bytes_def store_bytes_def split: if_splits)
        (metis append_take_drop_id drop_drop add.commute)
    ultimately show ?thesis using r new' len by simp
  next
    fix image2 s2 verify
    assume st: "store_bytes image ?off new = Some image2"
      and wr: "PartitionWrite T b 0 ?n image2 s1 = Some (EFI_SUCCESS, s2)"
      and ver: "PartitionRead T b 0 ?n v' s2 = Some (EFI_SUCCESS, verify, s')"
    have v1: "valid s1 b" using assms(1) r(1) by simp
    note w = partition_write [OF v1 _ wr]
    have v2: "valid s2 b" using w v1 by simp
    have "length image2 = ?n" using store_bytes_length [OF st] r(4) by simp
    with w have "slice 0 ?n (data s2 b) = image2" by auto
    with w partition_read [OF v2 ver] r st new' len show ?thesis by simp
  qed
qed

end

end
