(* ===== verification/BrBctTheorems.thy ===== *)
theory BrBctTheorems
  imports BrBctProps FwPartitionTheorems
begin

text \<open>
  The properties of a switch of the boot chain, on the partitions of the NOR flash: the driver of the
  flash, the partition library over it and the update of the boot configuration table together.
\<close>

section \<open>An example\<close>

text \<open>
  A flash of 64 KB in blocks of four bytes with the boot configuration table, two slots of four bytes, at
  its start and the backup partition in its second half. A worn flash fails to write its first bytes.
\<close>

definition tinyFlash :: "bool \<Rightarrow> memory FW_PARTITION_NOR_FLASH_INFO list" where
  "tinyFlash Worn = [\<lparr> NorBytes = 65536, NorAttributes = \<lparr> MemoryDensity = 65536, NorBlockSize = 4 \<rparr>,
     NorFlash = (memory_flash 4)\<lparr>NorWrite := (\<lambda>off n xs f.
       if Worn \<and> off = 0 then (EFI_DEVICE_ERROR, f) else (EFI_SUCCESS, program f off xs))\<rparr>,
     UnalignedGptStart = 0 \<rparr>]"

definition tinyView :: "memory \<Rightarrow> nat \<Rightarrow> memory" where "tinyView f d = (if d = 0 then f else (\<lambda>a. 0))"

definition tinyRegistry :: FW_PARTITION_GLOBALS where
  "tinyRegistry = \<lparr> mPrivate =
       [\<lparr> PartitionInfo = \<lparr> Name = W ''BCT'', Bytes = 8, Offset = 0, IsActivePartition = False \<rparr>,
          DeviceInfo = Device 0 \<rparr>,
        \<lparr> PartitionInfo = \<lparr> Name = BR_BCT_BACKUP_PARTITION_NAME, Bytes = 32768, Offset = 32768,
            IsActivePartition = False \<rparr>, DeviceInfo = Device 0 \<rparr>],
     mMaxFwPartitions = 2, mActiveBootChain = 0, mOverwriteActiveFwPartition = False, mChipId = 0,
     mGptBootChain = 0 \<rparr>"

definition tinyMemory :: memory where
  "tinyMemory a = (if a = 49152 then 1 else if a = 49153 then 2 else if a = 49154 then 3 else 0)"

definition tinyLibrary :: "nat BR_BCT_UPDATE" where
  "tinyLibrary = InitialBrBctUpdate\<lparr>SlotSize := 4, BrBctDataSize := 4, BctPartitionSlots := 2,
     BrBctPartition := Some 0, BrBctBackupPartition := Some 1, mActiveChain := 0,
     mPcdFwImageEnableBPartitions := True,
     mVerifyBuffer := Some (replicate BR_BCT_BACKUP_PARTITION_DATA_SIZE 0),
     mBackupPartitionBuffer := Some (replicate BR_BCT_BACKUP_PARTITION_DATA_SIZE 0)\<rparr>"

definition tinyDescriptors :: "nat PARTITION_DESCRIPTORS" where
  "tinyDescriptors = \<lparr> PartitionBytes = (\<lambda>p. if p = 0 then 8 else 32768), PartitionBlockSize = (\<lambda>p. 4) \<rparr>"

lemma four_power: "\<exists>k < 32. (4 :: nat) = 2 ^ k"
  by (intro exI [of _ 2]) simp

lemma tinyFlash_world: "nor_world (tinyFlash Worn) tinyView"
  using four_power
  by (auto simp: nor_world_def tinyFlash_def tinyView_def flash_contract_def memory_flash_def changes_def
      program_def erased_def)

lemma tinyRegistry_valid:
  "p < 2 \<Longrightarrow> part_valid (NorDeviceOps (tinyFlash Worn)) (\<lambda>w. nor_world (tinyFlash Worn) tinyView)
     (tinyRegistry, w) p"
  using tinyFlash_world [of Worn]
  by (auto simp: part_valid_def tinyRegistry_def NorDeviceOps_def tinyFlash_def apart_def less_2_cases_iff Let_def
      less_Suc_eq)

lemma tinyRegistry_unit: "part_unit (NorDeviceOps (tinyFlash Worn)) (tinyRegistry, w) 0 = 4"
  by (simp add: part_unit_def tinyRegistry_def NorDeviceOps_def tinyFlash_def)

lemma tinyLibrary_ready: "bct_ready tinyDescriptors 0 4 tinyLibrary"
  using four_power
  by (simp add: bct_ready_def tinyDescriptors_def tinyLibrary_def InitialBrBctUpdate_def BR_BCT_SLOT_MAX_def
      BR_BCT_BACKUP_PARTITION_CHAIN_OFFSET_def)

lemma tiny_read:
  assumes "p < 2" and "n \<le> length buf" and "off + n \<le> (if p = 0 then 8 else 32768)"
  shows "PartitionRead (PartitionProtocol S (NorDeviceOps (tinyFlash Worn))) p off n buf (tinyRegistry, f)
    = Some (EFI_SUCCESS, content f (32768 * p + off) n @ drop n buf, (tinyRegistry, f))"
  using assms
  by (auto simp: less_2_cases_iff PartitionProtocol_def FwPartitionRead_def tinyRegistry_def NorDeviceOps_def
      tinyFlash_def FPNorFlashRead_def memory_flash_def FwPartitionCheckOffsetAndBytes_def add64_def
      store_bytes_def u32_def add.commute)

lemma tiny_align: "n mod 4 = 0 \<Longrightarrow> n < 2 ^ 32 \<Longrightarrow> ALIGN_VALUE n 4 = n"
  using ALIGN_VALUE_ceil [of 4 2 n] by (auto simp: ceil_to_def)

lemma tiny_write:
  assumes "p < 2" and "n \<le> length buf" and "off + n \<le> (if p = 0 then 8 else 32768)" and "off mod 4 = 0"
    and "n mod 4 = 0" and "\<not> (Worn \<and> p = 0 \<and> off = 0)"
  shows "PartitionWrite (PartitionProtocol S (NorDeviceOps (tinyFlash Worn))) p off n buf (tinyRegistry, f)
    = Some (EFI_SUCCESS, (tinyRegistry,
        program (erased f (32768 * p + off) n) (32768 * p + off) (take n buf)))"
proof -
  have "n < 2 ^ 32" using assms(1,3) by (auto split: if_splits)
  from tiny_align [OF assms(5) this] assms show ?thesis
    by (auto simp: less_2_cases_iff PartitionProtocol_def FwPartitionWrite_def tinyRegistry_def NorDeviceOps_def
      tinyFlash_def FPNorFlashWrite_def EraseBeforeWrite_def FPNorFlashErase_def memory_flash_def
      FwPartitionCheckOffsetAndBytes_def add64_def load_bytes_def u32_def add.commute)
qed

lemma tiny_write_worn:
  "4 \<le> length buf \<Longrightarrow> \<exists>f'. PartitionWrite (PartitionProtocol S (NorDeviceOps (tinyFlash True))) 0 0 4 buf (tinyRegistry, f)
    = Some (EFI_DEVICE_ERROR, (tinyRegistry, f'))"
  using tiny_align [of 4]
  by (auto simp: PartitionProtocol_def FwPartitionWrite_def tinyRegistry_def NorDeviceOps_def
      tinyFlash_def FPNorFlashWrite_def EraseBeforeWrite_def FPNorFlashErase_def memory_flash_def
      FwPartitionCheckOffsetAndBytes_def add64_def load_bytes_def u32_def)

lemma tinyLibrary_simps [simp]:
  "SlotSize tinyLibrary = 4" "BrBctDataSize tinyLibrary = 4" "BctPartitionSlots tinyLibrary = 2"
  "BrBctPartition tinyLibrary = Some 0" "BrBctBackupPartition tinyLibrary = Some 1" "mActiveChain tinyLibrary = 0"
  "mPcdFwImageEnableBPartitions tinyLibrary" "\<not> mPcdBootChainIsMarkerBased tinyLibrary"
  "\<not> mPcdBrBctVerifyUpdateBeforeWrite tinyLibrary"
  "mVerifyBuffer tinyLibrary = Some (replicate BR_BCT_BACKUP_PARTITION_DATA_SIZE 0)"
  "mBackupPartitionBuffer tinyLibrary = Some (replicate BR_BCT_BACKUP_PARTITION_DATA_SIZE 0)"
  "PartitionBlockSize tinyDescriptors p = 4"
  by (simp_all add: tinyLibrary_def InitialBrBctUpdate_def tinyDescriptors_def)

lemma tiny_slot:
  assumes "mVerifyBuffer B = Some v" and "4 \<le> length v" and "SlotSize B = 4" and "BrBctDataSize B = 4"
    and "\<not> mPcdBrBctVerifyUpdateBeforeWrite B" and "length buf = 4" and "Slot < 2" and "\<not> (Worn \<and> Slot = 0)"
  shows "\<exists>f' v'. BrBctWriteAndVerifySlot (PartitionProtocol S (NorDeviceOps (tinyFlash Worn))) tinyDescriptors 0 Slot 4
      buf B (tinyRegistry, f) = Some (EFI_SUCCESS, B\<lparr>mVerifyBuffer := Some v'\<rparr>, (tinyRegistry, f'))
    \<and> length v' = length v"
  using assms tiny_align [of 4] program_erased [where f = f and off = "4 * Slot" and xs = buf]
  by (auto simp: BrBctWriteAndVerifySlot_def WriteThenVerify_def BrBctWriteSlot_def BrBctVerifySlot_def
      BrBctReadSlot_def BrBctGetSlotOffset_def tiny_write tiny_read Let_def CompareMemIsZero_def load_bytes_def
      mult.commute intro!: exI [of _ "buf @ drop 4 v"])

lemma tiny_switch:
  "\<exists>B' s'. BrBctUpdateFwChain (PartitionProtocol S (NorDeviceOps (tinyFlash Worn))) tinyDescriptors (\<lambda>n. True)
    (\<lambda>c s. s) True 1 tinyLibrary (tinyRegistry, tinyMemory)
    = Some (if Worn then EFI_DEVICE_ERROR else EFI_SUCCESS, B', s')"
proof -
  let ?T = "PartitionProtocol S (NorDeviceOps (tinyFlash Worn))"
  define buf where "buf = content tinyMemory (32768 * 1 + 16384) 4"
  have rd: "PartitionRead ?T 1 16384 4 (replicate 4 0) (tinyRegistry, tinyMemory)
      = Some (EFI_SUCCESS, buf, (tinyRegistry, tinyMemory))"
    by (simp add: tiny_read buf_def)
  have buf: "length buf = 4" by (simp add: buf_def)
  have v: "mVerifyBuffer tinyLibrary = Some (replicate BR_BCT_BACKUP_PARTITION_DATA_SIZE 0)"
    "4 \<le> length (replicate BR_BCT_BACKUP_PARTITION_DATA_SIZE (0 :: byte))"
    by (simp_all add: BR_BCT_BACKUP_PARTITION_DATA_SIZE_def BR_BCT_BACKUP_PARTITION_CHAIN_OFFSET_def BOOT_CHAIN_COUNT_def)
  obtain f1 v1 where one: "BrBctWriteAndVerifySlot ?T tinyDescriptors 0 1 4 buf tinyLibrary (tinyRegistry, tinyMemory)
      = Some (EFI_SUCCESS, tinyLibrary\<lparr>mVerifyBuffer := Some v1\<rparr>, (tinyRegistry, f1))" "4 \<le> length v1"
    using tiny_slot [OF v, where buf = buf and Slot = 1 and f = tinyMemory and Worn = Worn and S = S] buf v(2) by auto
  have "\<exists>B' s'. BrBctWriteAndVerifySlot ?T tinyDescriptors 0 0 4 buf (tinyLibrary\<lparr>mVerifyBuffer := Some v1\<rparr>)
      (tinyRegistry, f1) = Some (if Worn then EFI_DEVICE_ERROR else EFI_SUCCESS, B', s')"
  proof (cases Worn)
    case True
    with tiny_write_worn [of buf S f1] buf show ?thesis
      by (auto simp: BrBctWriteAndVerifySlot_def WriteThenVerify_def BrBctWriteSlot_def BrBctGetSlotOffset_def)
  next
    case False
    with tiny_slot [of "tinyLibrary\<lparr>mVerifyBuffer := Some v1\<rparr>" v1 buf 0 Worn S f1] one(2) buf show ?thesis by auto
  qed
  moreover have "BctPartitionSlots tinyLibrary = Suc (Suc 0)" by simp
  ultimately show ?thesis using rd one(1)
    by (auto simp: BrBctUpdateFwChain_def BrBctReadSlot_def BR_BCT_BACKUP_PARTITION_CHAIN_OFFSET_def
        BrBctUpdateBctSlots_def SlotShouldBeUpdated_def SlotShouldBeInvalidated_def simp del: tinyLibrary_simps(3))
qed

section \<open>Initialization\<close>

lemma AllocateBuffers_ready:
  assumes "AllocateBuffers Alloc B = (EFI_SUCCESS, B')"
  shows "\<exists>v w i. B' = B\<lparr>mVerifyBuffer := Some v, mBackupPartitionBuffer := Some w, mInvalidateBuffer := i\<rparr>
    \<and> length v = BR_BCT_BACKUP_PARTITION_DATA_SIZE \<and> length w = BR_BCT_BACKUP_PARTITION_DATA_SIZE
    \<and> (mPcdBootChainIsMarkerBased B \<longrightarrow> i = Some (replicate (BrBctDataSize B) 0xFF))"
  using assms
  by (auto simp: AllocateBuffers_def Let_def split: if_splits
      intro!: exI [of _ "replicate BR_BCT_BACKUP_PARTITION_DATA_SIZE 0"] exI [of _ "mInvalidateBuffer B"])

lemma InitLib_sound:
  assumes "BrBctUpdateDeviceLibInit Find Q Pcd Alloc ActiveBootChain Erase B0 = Some (EFI_SUCCESS, B)"
  shows "\<exists>p b. Find (W ''BCT'') = Some p \<and> Find BR_BCT_BACKUP_PARTITION_NAME = Some b
    \<and> BrBctPartition B = Some p \<and> BrBctBackupPartition B = Some b \<and> mActiveChain B = ActiveBootChain
    \<and> SlotSize B = max Erase (PcdBrBctLogicalSlotSize Pcd) \<and> BrBctDataSize B = PcdBrBctDataSize Pcd
    \<and> 0 < SlotSize B \<and> BctPartitionSlots B \<le> BR_BCT_SLOT_MAX \<and> 0 < BctPartitionSlots B
    \<and> (1 < BctPartitionSlots B \<longrightarrow> BctPartitionSlots B * SlotSize B \<le> PartitionBytes Q p)
    \<and> BrBctDataSize B \<le> BR_BCT_BACKUP_PARTITION_CHAIN_OFFSET
    \<and> mPcdBootChainIsMarkerBased B = PcdBootChainIsMarkerBased Pcd
    \<and> (\<exists>v w. mVerifyBuffer B = Some v \<and> length v = BR_BCT_BACKUP_PARTITION_DATA_SIZE
         \<and> mBackupPartitionBuffer B = Some w \<and> length w = BR_BCT_BACKUP_PARTITION_DATA_SIZE)
    \<and> (mPcdBootChainIsMarkerBased B \<longrightarrow> mInvalidateBuffer B = Some (replicate (BrBctDataSize B) 0xFF))"
proof -
  let ?max = "if PcdBootChainIsMarkerBased Pcd then BR_BCT_SLOT_MARKER_BASED_MAX else BR_BCT_SLOT_MAX"
  let ?size = "max Erase (PcdBrBctLogicalSlotSize Pcd)"
  obtain p where p: "Find (W ''BCT'') = Some p"
    using assms by (cases "Find (W ''BCT'')") (auto simp: BrBctUpdateDeviceLibInit_def Let_def)
  obtain b where b: "Find BR_BCT_BACKUP_PARTITION_NAME = Some b"
    using assms p by (cases "Find BR_BCT_BACKUP_PARTITION_NAME") (auto simp: BrBctUpdateDeviceLibInit_def Let_def)
  let ?n = "PartitionBytes Q p div ?size"
  define slots where "slots = (if ?n = 0 then 1 else if ?n > ?max then ?max else ?n)"
  define B1 where "B1 = B0\<lparr>mActiveChain := ActiveBootChain,
    mPcdBrBctVerifyUpdateBeforeWrite := PcdBrBctVerifyUpdateBeforeWrite Pcd,
    mPcdFwImageEnableBPartitions := PcdFwImageEnableBPartitions Pcd,
    mPcdOverwriteActiveFwPartition := PcdOverwriteActiveFwPartition Pcd,
    mPcdBootChainIsMarkerBased := PcdBootChainIsMarkerBased Pcd, BrBctDataSize := PcdBrBctDataSize Pcd,
    SlotSize := ?size, BrBctPartition := Some p, BrBctBackupPartition := Some b, BctPartitionSlots := slots\<rparr>"
  have run: "?size \<noteq> 0" "PcdBrBctDataSize Pcd \<le> BR_BCT_BACKUP_PARTITION_CHAIN_OFFSET"
      "AllocateBuffers Alloc B1 = (EFI_SUCCESS, B)"
    using assms
    by (cases "PcdBootChainIsMarkerBased Pcd";
        simp add: BrBctUpdateDeviceLibInit_def Let_def p b B1_def slots_def split: if_splits)+
  have "0 < slots" "slots \<le> BR_BCT_SLOT_MAX" "1 < slots \<longrightarrow> slots \<le> ?n"
    by (auto simp: slots_def BR_BCT_SLOT_MAX_def BR_BCT_SLOT_MARKER_BASED_MAX_def)
  moreover have "slots \<le> ?n \<Longrightarrow> slots * ?size \<le> PartitionBytes Q p"
    by (metis div_times_less_eq_dividend mult_le_mono1 order_trans)
  ultimately show ?thesis
    using AllocateBuffers_ready [OF run(3)] run(1,2) p b by (auto simp: B1_def)
qed

text \<open>
  Initialization gives a library that is ready to switch the boot chain: both partitions were found,
  it uses at least one and at most four slots, two or more of them only inside the partition, and its
  buffers are as large as the backup partition needs. What is left to the platform is that the block
  size divides the logical slot size and that the table fits into a slot: neither is checked.
\<close>

theorem BrBctInit_ready:
  assumes "BrBctUpdateDeviceLibInit Find Q Pcd Alloc ActiveBootChain u B0 = Some (EFI_SUCCESS, B)"
    and "Find (W ''BCT'') = Some p" and "PartitionBlockSize Q p = u" and "u = 2 ^ k \<and> k < 32"
    and "PcdBrBctLogicalSlotSize Pcd mod u = 0" and "PcdBrBctLogicalSlotSize Pcd < 2 ^ 32"
    and "PcdBrBctDataSize Pcd \<le> max u (PcdBrBctLogicalSlotSize Pcd)"
  shows "bct_ready Q p u B \<and> BrBctPartition B = Some p
    \<and> BrBctBackupPartition B = Find BR_BCT_BACKUP_PARTITION_NAME
    \<and> (1 < BctPartitionSlots B \<longrightarrow> BctPartitionSlots B * SlotSize B \<le> PartitionBytes Q p)"
proof -
  have "u < 2 ^ 32" using assms(4) power_strict_increasing [of k 32 "2 :: nat"] by simp
  then have "max u (PcdBrBctLogicalSlotSize Pcd) < 2 ^ 32" "max u (PcdBrBctLogicalSlotSize Pcd) mod u = 0"
    using assms(5,6) by (auto simp: max_def)
  with InitLib_sound [OF assms(1)] assms(2-4,7) show ?thesis by (auto simp: bct_ready_def)
qed

text \<open>With slots of eight bytes in the example.\<close>

theorem BrBctInit_ready_witness: "\<exists>B. bct_ready tinyDescriptors 0 4 B \<and> BctPartitionSlots B = 1"
proof -
  let ?find = "\<lambda>n. if n = W ''BCT'' then Some (0 :: nat) else if n = BR_BCT_BACKUP_PARTITION_NAME then Some 1 else None"
  let ?pcd = "\<lparr> PcdBrBctVerifyUpdateBeforeWrite = True, PcdFwImageEnableBPartitions = True,
    PcdOverwriteActiveFwPartition = False, PcdBootChainIsMarkerBased = True, PcdBrBctDataSize = 6,
    PcdBrBctLogicalSlotSize = 8 \<rparr>"
  have "BR_BCT_BACKUP_PARTITION_NAME \<noteq> W ''BCT''"
    by (simp add: BR_BCT_BACKUP_PARTITION_NAME_def W_def)
  then obtain B where run: "BrBctUpdateDeviceLibInit ?find tinyDescriptors ?pcd (\<lambda>i n. True) 0 4 InitialBrBctUpdate
      = Some (EFI_SUCCESS, B)" and slots: "BctPartitionSlots B = 1"
    by (simp add: BrBctUpdateDeviceLibInit_def tinyDescriptors_def AllocateBuffers_def Let_def
        BR_BCT_SLOT_MARKER_BASED_MAX_def BR_BCT_BACKUP_PARTITION_CHAIN_OFFSET_def)
  have "(4 :: nat) = 2 ^ 2 \<and> 2 < (32 :: nat)" by simp
  from BrBctInit_ready [OF run _ _ this, of 0] slots show ?thesis by auto
qed

section \<open>The switch\<close>

lemma take_slice [simp]: "take n (slice off n xs) = slice off n xs"
  by (simp add: slice_def)



text \<open>
  C7: When \<open>UpdateFwChain\<close> succeeds, every slot of the boot configuration table that the new boot chain
  owns holds the copy of that chain from the backup partition, byte by byte, and the first slot holds
  no valid table when the chain is marked that way. The register with the next chain is written
  after that, and no other partition of the flash has changed, the backup among them.
\<close>

theorem BrBctUpdateFwChain_installs:
  assumes "part_valid (NorDeviceOps Devices) (\<lambda>w. nor_world Devices view) (G, w) p"
    and "part_valid (NorDeviceOps Devices) (\<lambda>w. nor_world Devices view) (G, w) b" and "b \<noteq> p"
    and "bct_ready Q p (part_unit (NorDeviceOps Devices) (G, w) p) B"
    and "BrBctPartition B = Some p" and "BrBctBackupPartition B = Some b" and "chain < 2"
    and "BrBctUpdateFwChain (PartitionProtocol S (NorDeviceOps Devices)) Q Alloc SetNext True chain B (G, w)
           = Some (EFI_SUCCESS, B', s')"
  shows "\<exists>s1. s' = SetNext chain s1
    \<and> (\<forall>k < BctPartitionSlots B. SlotShouldBeUpdated B k chain \<longrightarrow>
         slice (k * SlotSize B) (BrBctDataSize B) (part_data view s1 p)
           = (if SlotShouldBeInvalidated B k chain then replicate (BrBctDataSize B) 0xFF
              else slice (chain * BR_BCT_BACKUP_PARTITION_CHAIN_OFFSET) (BrBctDataSize B)
                     (part_data view (G, w) b)))
    \<and> (\<forall>q. part_valid (NorDeviceOps Devices) (\<lambda>w. nor_world Devices view) (G, w) q \<longrightarrow> q \<noteq> p \<longrightarrow>
         part_data view s1 q = part_data view (G, w) q)"
proof -
  from nor.parts.UpdateFwChain_sound [OF assms refl] obtain s1 where
      s1: "s' = SetNext chain s1"
        "\<forall>k < BctPartitionSlots B. SlotShouldBeUpdated B k chain \<longrightarrow> slot_data B (part_data view s1 p) k
           = new_slot B chain (slice (chain * BR_BCT_BACKUP_PARTITION_CHAIN_OFFSET) (BrBctDataSize B)
                                 (part_data view (G, w) b)) k"
        "\<forall>q. part_valid (NorDeviceOps Devices) (\<lambda>w. nor_world Devices view) (G, w) q \<longrightarrow> q \<noteq> p
           \<longrightarrow> part_data view s1 q = part_data view (G, w) q"
    by (simp only: if_True simp_thms) blast
  then show ?thesis unfolding slot_data_def new_slot_def take_slice by blast
qed

text \<open>In the example the table of the other chain reaches both slots.\<close>

theorem BrBctUpdateFwChain_installs_witness:
  "\<exists>s1. slice 0 4 (part_data tinyView s1 0) = [1, 2, 3, 0] \<and> slice 4 4 (part_data tinyView s1 0) = [1, 2, 3, 0]"
proof -
  obtain B' s' where run: "BrBctUpdateFwChain (PartitionProtocol S (NorDeviceOps (tinyFlash False))) tinyDescriptors
      (\<lambda>n. True) (\<lambda>c s. s) True 1 tinyLibrary (tinyRegistry, tinyMemory) = Some (EFI_SUCCESS, B', s')"
    using tiny_switch [of S False] by auto
  have "bct_ready tinyDescriptors 0 (part_unit (NorDeviceOps (tinyFlash False)) (tinyRegistry, tinyMemory) 0) tinyLibrary"
    using tinyLibrary_ready by (simp add: tinyRegistry_unit)
  from BrBctUpdateFwChain_installs [where b = 1, OF tinyRegistry_valid tinyRegistry_valid _ this _ _ _ run]
  have s1: "\<forall>k < 2. slice (k * 4) 4 (part_data tinyView s' 0)
      = slice BR_BCT_BACKUP_PARTITION_CHAIN_OFFSET 4 (part_data tinyView (tinyRegistry, tinyMemory) 1)"
    by (simp add: SlotShouldBeUpdated_def SlotShouldBeInvalidated_def)
  moreover have "slice BR_BCT_BACKUP_PARTITION_CHAIN_OFFSET 4 (part_data tinyView (tinyRegistry, tinyMemory) 1) = [1, 2, 3, 0]"
    by (simp add: part_data_def tinyRegistry_def tinyView_def BR_BCT_BACKUP_PARTITION_CHAIN_OFFSET_def slice_content)
      (simp add: content_def upt_conv_Cons tinyMemory_def)
  ultimately show ?thesis using spec [of _ 0, OF s1] spec [of _ 1, OF s1] by (intro exI [of _ s']) simp
qed

text \<open>
  C8: The slots are written from the last to the first, so that a failure, at whatever point, leaves at
  most one slot in doubt: below some slot everything is as before, and above it every slot that
  should change holds what it should. In particular the first slot is untouched until all others are
  renewed, and the backup partition is as before.
\<close>

theorem BrBctUpdateFwChain_failure:
  assumes "part_valid (NorDeviceOps Devices) (\<lambda>w. nor_world Devices view) (G, w) p"
    and "part_valid (NorDeviceOps Devices) (\<lambda>w. nor_world Devices view) (G, w) b" and "b \<noteq> p"
    and "bct_ready Q p (part_unit (NorDeviceOps Devices) (G, w) p) B"
    and "BrBctPartition B = Some p" and "BrBctBackupPartition B = Some b" and "chain < 2"
    and "BrBctUpdateFwChain (PartitionProtocol S (NorDeviceOps Devices)) Q Alloc SetNext True chain B (G, w)
           = Some (st, B', s')" and "EFI_ERROR st"
  shows "\<exists>m. (\<forall>k < m. slot_data B (part_data view s' p) k = slot_data B (part_data view (G, w) p) k)
    \<and> (\<forall>k. m < k \<longrightarrow> k < BctPartitionSlots B \<longrightarrow> SlotShouldBeUpdated B k chain \<longrightarrow>
         slot_data B (part_data view s' p) k
           = slice (chain * BR_BCT_BACKUP_PARTITION_CHAIN_OFFSET) (BrBctDataSize B) (part_data view (G, w) b))
    \<and> part_data view s' b = part_data view (G, w) b"
proof -
  from nor.parts.UpdateFwChain_sound [OF assms(1-8) refl] assms(9) obtain m where
      m: "switched B chain (slice (chain * BR_BCT_BACKUP_PARTITION_CHAIN_OFFSET) (BrBctDataSize B)
            (part_data view (G, w) b)) m (BctPartitionSlots B) (part_data view (G, w) p) (part_data view s' p)"
    and b: "\<forall>q. part_valid (NorDeviceOps Devices) (\<lambda>w. nor_world Devices view) (G, w) q \<longrightarrow> q \<noteq> p
           \<longrightarrow> part_data view s' q = part_data view (G, w) q"
    by (simp only: if_False) blast
  from b assms(2,3) have "part_data view s' b = part_data view (G, w) b" by blast
  with m show ?thesis
    unfolding switched_def new_slot_def SlotShouldBeInvalidated_def take_slice
    by (intro exI [of _ m]) simp
qed

text \<open>With the worn flash the last slot is renewed, and then the first one fails.\<close>

theorem BrBctUpdateFwChain_failure_witness:
  "\<exists>s' m. (\<forall>k < m. slot_data tinyLibrary (part_data tinyView s' 0) k
        = slot_data tinyLibrary (part_data tinyView (tinyRegistry, tinyMemory) 0) k)
    \<and> part_data tinyView s' 1 = part_data tinyView (tinyRegistry, tinyMemory) 1"
proof -
  obtain B' s' where run: "BrBctUpdateFwChain (PartitionProtocol S (NorDeviceOps (tinyFlash True))) tinyDescriptors
      (\<lambda>n. True) (\<lambda>c s. s) True 1 tinyLibrary (tinyRegistry, tinyMemory) = Some (EFI_DEVICE_ERROR, B', s')"
    using tiny_switch [of S True] by auto
  have "bct_ready tinyDescriptors 0 (part_unit (NorDeviceOps (tinyFlash True)) (tinyRegistry, tinyMemory) 0) tinyLibrary"
    using tinyLibrary_ready by (simp add: tinyRegistry_unit)
  from BrBctUpdateFwChain_failure [where b = 1, OF tinyRegistry_valid tinyRegistry_valid _ this _ _ _ run]
  show ?thesis by simp blast
qed



end
