(* ===== verification/TegraFmpExample.thy ===== *)
theory TegraFmpExample
  imports TegraFmpTheorems BrBctTheorems
begin

text \<open>
  An example for the properties of the update: the flash of the example for the boot configuration table,
  with an image on each of its partitions, and a package with the two images.
\<close>

section \<open>The images and the package\<close>

definition tinyImage :: "wstring \<Rightarrow> nat \<Rightarrow> nat \<Rightarrow> nat FW_IMAGE_PRIVATE_DATA" where
  "tinyImage Name' Partition Size = \<lparr> ImageName = Name',
     ImageAttributes = \<lparr> ReadBytes = Size, WriteBytes = Size, BlockSize = 4, EraseBlockSize = 0 \<rparr>,
     FwPartitionA = Some Partition, FwPartitionB = None, ProtocolWrite = Some WriteFunction, Installed = True \<rparr>"

definition tinyImages :: "nat FW_IMAGE_GLOBALS" where
  "tinyImages = \<lparr> mImages = [tinyImage (W ''mb1'') 1 32768, tinyImage (W ''x'') 0 8], mBootChain = 0 \<rparr>"

definition tinyWorld :: "memory \<Rightarrow> nat FW_IMAGE_GLOBALS \<times> FW_PARTITION_GLOBALS \<times> memory" where
  "tinyWorld f = (tinyImages, (tinyRegistry, f))"

definition tinyFmp ::
  "EDK2_SERVICES \<Rightarrow> bool \<Rightarrow> nat \<Rightarrow> (nat, nat FW_IMAGE_GLOBALS \<times> FW_PARTITION_GLOBALS \<times> memory) FMP_IMAGES" where
  "tinyFmp S Worn N = \<lparr>
     FmpImageLib = \<lparr> mFwImages = Some [(W ''mb1'', 0), (W ''x'', 1)], mNumImages = N,
                     mImageAddedCallback = False, ImageAddedCalls = 0 \<rparr>,
     FmpProtocol = ImageProtocol (PartitionProtocol S (NorDeviceOps (tinyFlash Worn))),
     AsciiImageName = map ucast, WatchdogSeconds = 0, DisplayUpdateProgress = (\<lambda>n. EFI_SUCCESS) \<rparr>"

definition tinyServices ::
  "(nat FW_IMAGE_GLOBALS \<times> FW_PARTITION_GLOBALS \<times> memory) FMP_SERVICES" where
  "tinyServices = \<lparr> CheckAndCancelUpdate = (\<lambda>s. (EFI_SUCCESS, False, s)),
     UpdateBackup = (\<lambda>xs s. Some (EFI_SUCCESS, s)), UpdateChain = (\<lambda>c s. Some (EFI_SUCCESS, s)),
     SetInactiveBootChainStatus = (\<lambda>b s. (EFI_SUCCESS, s)), GetChainVariable = (\<lambda>s. (EFI_NOT_FOUND, 0)),
     DeleteChainVariable = (\<lambda>s. (EFI_SUCCESS, s)), PcdFmpMultiImageMinimalUpdate = False \<rparr>"

definition tinyGlobals :: FMP_GLOBALS where
  "tinyGlobals = \<lparr> mTotalBytesToFlash = 0, mTotalBytesFlashed = 0, mTotalBytesToVerify = 0,
     mTotalBytesVerified = 0, mCurrentCompletion = 0, mPcdFmpWriteVerifyImage = False,
     mPcdFmpSingleImageUpdate = False, mFmpDataBuffer = Some (replicate FMP_DATA_BUFFER_SIZE 0),
     mFmpDataBufferSize = FMP_DATA_BUFFER_SIZE, mFmpLibInitialized = True, mFmpLibInitializeFailed = False,
     mPlatformCompatSpec = None, mPlatformSpec = None, mIsProductionFused = True, mFmpBootChain = 0,
     mFwImagesRequired = Some [], mFwImagesRequiredCount = 0, mProgress = False, mInstaller = False,
     InstallerCalls = 0, mWatchdog = 0, mDisplayed = [] \<rparr>"

text \<open>A package with a header of 36 bytes, two image records and four bytes for each image.\<close>

definition tinyRecord :: "cstring \<Rightarrow> byte \<Rightarrow> byte list" where
  "tinyRecord Name' Low = Name' @ replicate (40 - length Name') 0 @ [Low, 1, 0, 0, 4, 0, 0, 0] @ replicate 136 0"

definition tinyPackage :: "byte list" where
  "tinyPackage = FW_PACKAGE_MAGIC @ [0, 0, 0, 0] @ [0x9C, 1, 0, 0] @ [36, 0, 0, 0] @ [2, 0, 0, 0] @ [0, 0, 0, 0]
     @ tinyRecord [0x6D, 0x62, 0x31] 0x94 @ tinyRecord [0x78] 0x98 @ [1, 2, 3, 4, 5, 6, 7, 8]"

lemma load8_at: "drop k b = x # r \<Longrightarrow> load8 b k = Some x \<and> drop (Suc k) b = r"
proof -
  assume d: "drop k b = x # r"
  then have k: "k < length b" by (metis drop_all list.distinct(1) linorder_not_less)
  with d have "b ! k = x" by (metis Cons_nth_drop_Suc list.inject)
  moreover have "drop (Suc k) b = r" using d k by (metis Cons_nth_drop_Suc list.inject)
  ultimately show ?thesis using k by (simp add: load8_def)
qed

lemma load32_at:
  assumes "drop k b = w # x # y # z # r"
  shows "load32 b k = Some (unat w + 2 ^ 8 * unat x + 2 ^ 16 * (unat y + 2 ^ 8 * unat z))"
proof -
  note 1 = load8_at [OF assms]
  note 2 = load8_at [OF conjunct2 [OF 1]]
  note 3 = load8_at [OF conjunct2 [OF 2]]
  note 4 = load8_at [OF conjunct2 [OF 3]]
  have "k + 2 = Suc (Suc k)" "k + 3 = Suc (Suc (Suc k))" by simp_all
  with 1 2 3 4 show ?thesis by (simp add: load32_def load16_def load8_def)
qed

lemma tinyPackage_drops:
  "drop 24 tinyPackage = [36, 0, 0, 0] @ [2, 0, 0, 0] @ drop 32 tinyPackage"
  "drop 28 tinyPackage = [2, 0, 0, 0] @ drop 32 tinyPackage"
  "drop 36 tinyPackage = 0x6D # 0x62 # 0x31 # 0 # drop 40 tinyPackage"
  "drop 76 tinyPackage = [0x94, 1, 0, 0] @ [4, 0, 0, 0] @ [0, 0, 0, 0] @ drop 88 tinyPackage"
  "drop 80 tinyPackage = [4, 0, 0, 0] @ drop 84 tinyPackage"
  "drop 88 tinyPackage = [0, 0, 0, 0, 0] @ drop 93 tinyPackage"
  "drop 220 tinyPackage = 0x78 # 0 # drop 222 tinyPackage"
  "drop 260 tinyPackage = [0x98, 1, 0, 0] @ [4, 0, 0, 0] @ [0, 0, 0, 0] @ drop 272 tinyPackage"
  "drop 264 tinyPackage = [4, 0, 0, 0] @ drop 268 tinyPackage"
  "drop 272 tinyPackage = [0, 0, 0, 0, 0] @ drop 277 tinyPackage"
  by (simp_all add: tinyPackage_def tinyRecord_def FW_PACKAGE_MAGIC_def) (simp_all add: numeral_eq_Suc)

lemma tinyPackage_tail: "drop 404 tinyPackage = [1, 2, 3, 4, 5, 6, 7, 8]"
  by (simp add: tinyPackage_def tinyRecord_def FW_PACKAGE_MAGIC_def)

lemma tinyPackage_words:
  "load32 tinyPackage 24 = Some 36" "load32 tinyPackage 28 = Some 2"
  "load32 tinyPackage 76 = Some 404" "load32 tinyPackage 80 = Some 4" "load32 tinyPackage 88 = Some 0"
  "load32 tinyPackage 260 = Some 408" "load32 tinyPackage 264 = Some 4" "load32 tinyPackage 272 = Some 0"
  by (subst load32_at, (simp add: tinyPackage_drops)+)+

lemma tinyPackage_bytes:
  "load8 tinyPackage 36 = Some 0x6D" "load8 tinyPackage 37 = Some 0x62" "load8 tinyPackage 38 = Some 0x31"
  "load8 tinyPackage 39 = Some 0" "load8 tinyPackage 220 = Some 0x78" "load8 tinyPackage 221 = Some 0"
  by (simp_all add: load8_def tinyPackage_def tinyRecord_def FW_PACKAGE_MAGIC_def nth_append)

lemma tinyPackage_names:
  assumes "N = FW_PACKAGE_NAME_LENGTH"
  shows "AsciiStrnCmpIsZero tinyPackage 36 [0x6D, 0x62, 0x31] N = Some True"
    "AsciiStrnCmpIsZero tinyPackage 220 [0x6D, 0x62, 0x31] N = Some False"
    "AsciiStrnCmpIsZero tinyPackage 36 [0x78] N = Some False"
    "AsciiStrnCmpIsZero tinyPackage 220 [0x78] N = Some True"
    "AsciiStrnCmpIsZero tinyPackage 36 (0x42 # s) N = Some False"
    "AsciiStrnCmpIsZero tinyPackage 220 (0x42 # s) N = Some False"
proof -
  obtain n where N: "N = Suc (Suc (Suc (Suc n)))" using assms by (auto simp: FW_PACKAGE_NAME_LENGTH_def numeral_eq_Suc)
  show "AsciiStrnCmpIsZero tinyPackage 36 [0x6D, 0x62, 0x31] N = Some True"
    "AsciiStrnCmpIsZero tinyPackage 220 [0x6D, 0x62, 0x31] N = Some False"
    "AsciiStrnCmpIsZero tinyPackage 36 [0x78] N = Some False"
    "AsciiStrnCmpIsZero tinyPackage 220 [0x78] N = Some True"
    "AsciiStrnCmpIsZero tinyPackage 36 (0x42 # s) N = Some False"
    "AsciiStrnCmpIsZero tinyPackage 220 (0x42 # s) N = Some False"
    by (simp_all add: N tinyPackage_bytes)
qed

lemma tinyPackage_strings: "CString tinyPackage 92 = Some []" "CString tinyPackage 276 = Some []"
  by (subst CString.simps, simp add: tinyPackage_def tinyRecord_def FW_PACKAGE_MAGIC_def nth_append)+

lemma tinyPackage_fields:
  "ImageCount tinyPackage = Some 2"
  "FwPackageImageInfoPtr tinyPackage 0 = Some 36" "FwPackageImageInfoPtr tinyPackage (Suc 0) = Some 220"
  by (simp_all add: ImageCount_def FwPackageImageInfoPtr_def HeaderSize_def SIZE_OF_IMAGE_INFO_def tinyPackage_words)

lemma tinyPackage_data: "PkgImage tinyPackage (Some 0) = Some (4, 404)" "PkgImage tinyPackage (Some (Suc 0)) = Some (4, 408)"
  by (simp_all add: PkgImage_def FwPackageImageDataPtr_def tinyPackage_fields ImageBytes_def ImageOffset_def tinyPackage_words)

lemma tinyPackage_modes:
  "FwPackageUpdateModeIsOk tinyPackage 36 Fused = Some True" "FwPackageUpdateModeIsOk tinyPackage 220 Fused = Some True"
  by (simp_all add: FwPackageUpdateModeIsOk_def ImageUpdateMode_def tinyPackage_words FW_PACKAGE_UPDATE_MODE_ALWAYS_def)

lemma tinyPackage_index:
  "FwPackageGetImageIndex tinyPackage [0x6D, 0x62, 0x31] Fused None None = Some (EFI_SUCCESS, Some 0)"
  "FwPackageGetImageIndex tinyPackage [0x78] Fused None None = Some (EFI_SUCCESS, Some (Suc 0))"
  "FwPackageGetImageIndex tinyPackage (0x42 # s) Fused None None = Some (EFI_NOT_FOUND, None)"
  by (simp_all add: FwPackageGetImageIndex_def tinyPackage_fields upt_rec ImageMatch_def tinyPackage_names [OF refl]
      tinyPackage_modes TNSPEC_OFFSET_def tinyPackage_strings)

lemma tinyPackage_total: "FmpTegraGetTotalBytesToFlash g tinyPackage = Some 8"
  by (simp add: FmpTegraGetTotalBytesToFlash_def tinyPackage_fields upt_rec tinyPackage_modes ImageBytes_def
      tinyPackage_words add64_def)

lemma tinyFmp_index:
  assumes "fmp_same tinyGlobals g"
  shows "GetPackageImageIndex (tinyFmp S Worn N) g tinyPackage (W ''mb1'') = Some (EFI_SUCCESS, Some 0)"
    "GetPackageImageIndex (tinyFmp S Worn N) g tinyPackage (W ''x'') = Some (EFI_SUCCESS, Some (Suc 0))"
    "GetPackageImageIndex (tinyFmp S Worn N) g tinyPackage BR_BCT_BACKUP_PARTITION_NAME = Some (EFI_NOT_FOUND, None)"
  using assms
  by (simp_all add: fmp_same_def tinyGlobals_def GetPackageImageIndex_def GetPackageImageName_def tinyFmp_def W_def
      FW_PARTITION_UPDATE_INACTIVE_PARTITIONS_def BR_BCT_BACKUP_PARTITION_NAME_def tinyPackage_index)

section \<open>The hypotheses\<close>

lemma tinyImage_simps [simp]:
  "mImages tinyImages = [tinyImage (W ''mb1'') 1 32768, tinyImage (W ''x'') 0 8]"
  "FwPartitionA (tinyImage n p z) = Some p" "FwPartitionB (tinyImage n p z) = None"
  "ImageAttributes (tinyImage n p z) = \<lparr> ReadBytes = z, WriteBytes = z, BlockSize = 4, EraseBlockSize = 0 \<rparr>"
  "ProtocolWrite (tinyImage n p z) = Some WriteFunction"
  by (simp_all add: tinyImages_def tinyImage_def)

lemma tiny_slot_image:
  "\<not> ForcedPartition f \<Longrightarrow> img_slot (tinyImages, s) 0 f = Some 1 \<and> img_slot (tinyImages, s) (Suc 0) f = Some 0"
  by (simp add: img_slot_def ReadPartition_def HasAImage_def HasBImage_def)

lemma tiny_flags [simp]: "\<not> ForcedPartition FW_IMAGE_RW_FLAG_NONE" "\<not> ForcedPartition FW_IMAGE_RW_FLAG_READ_INACTIVE_IMAGE"
  using forced_bits(3,4) by (simp_all add: image_flags)

lemma tiny_slots [simp]: "slots (tinyImage n p z) = {p}"
  by (simp add: slots_def)

lemma tiny_data: "p < 2 \<Longrightarrow> part_data tinyView (tinyRegistry, f) p = content f (32768 * p) (if p = 0 then 8 else 32768)"
  by (auto simp: part_data_def tinyRegistry_def tinyView_def less_2_cases_iff)

lemma tiny_image_ok:
  assumes "i < 2"
  shows "img_ok (part_data tinyView) (part_unit (NorDeviceOps (tinyFlash Worn)))
     (part_valid (NorDeviceOps (tinyFlash Worn)) (\<lambda>w. nor_world (tinyFlash Worn) tinyView)) (tinyWorld f) i"
proof -
  have unit: "part_unit (NorDeviceOps (tinyFlash Worn)) (tinyRegistry, f) p = 4" if "p < 2" for p
    using that by (auto simp: part_unit_def tinyRegistry_def NorDeviceOps_def tinyFlash_def less_2_cases_iff)
  show ?thesis
    using less_2_cases [OF assms] tinyRegistry_valid [of 0 Worn f] tinyRegistry_valid [of 1 Worn f]
    by (auto simp: img_ok_def tinyWorld_def Let_def tiny_slot_image tiny_data unit less_Suc_eq)
qed

text \<open>The library knows one of the images or both.\<close>

lemma tinyFmp_array:
  assumes "N = 1 \<or> N = 2"
  shows "FmpImageArray (tinyFmp S Worn N) = Some (take N [(W ''mb1'', 0), (W ''x'', 1)])"
  using assms by (auto simp: FmpImageArray_def tinyFmp_def FwImageGetCount_def FwImageGetProtocolArray_def)

lemma tinyFmp_find:
  assumes "N = 1 \<or> N = 2"
  shows "FwImageFindProtocol (FmpImageLib (tinyFmp S Worn N)) (W ''mb1'') = Some 0"
    "FwImageFindProtocol (FmpImageLib (tinyFmp S Worn N)) (W ''GPT'') = None"
    "FwImageFindProtocol (FmpImageLib (tinyFmp S Worn N)) FW_PARTITION_UPDATE_INACTIVE_PARTITIONS = None"
  using assms by (elim disjE; hypsubst; code_simp)+

lemma tinyFmp_find_x: "FwImageFindProtocol (FmpImageLib (tinyFmp S Worn 2)) (W ''x'') = Some (Suc 0)"
  by code_simp

lemma tinyFmp_library: "N = 1 \<or> N = 2 \<Longrightarrow> library_ok (tinyFmp S Worn N) (take N [(W ''mb1'', 0), (W ''x'', 1)])"
  by (auto simp: library_ok_def tinyFmp_array tinyFmp_find)

section \<open>A run\<close>

abbreviation "tinyT S Worn \<equiv> PartitionProtocol S (NorDeviceOps (tinyFlash Worn))"

lemma tiny_attributes:
  "p < 2 \<Longrightarrow> \<exists>A. PartitionGetAttributes (tinyT S Worn) p (tinyRegistry, f) = Some (EFI_SUCCESS, A)
     \<and> AttrBytes A = (if p = 0 then 8 else 32768)"
  by (auto simp: PartitionProtocol_def FwPartitionGetAttributes_def tinyRegistry_def NorDeviceOps_def tinyFlash_def
      less_2_cases_iff Let_def)

lemma tiny_image_read:
  assumes "i < 2" and "n \<le> length buf" and "off + n \<le> (if i = 0 then 32768 else 8)"
  shows "ImageRead (FmpProtocol (tinyFmp S Worn N)) i off n buf FW_IMAGE_RW_FLAG_READ_INACTIVE_IMAGE (tinyWorld f)
    = Some (EFI_SUCCESS, content f (32768 * (1 - i) + off) n @ drop n buf, tinyWorld f)"
proof -
  obtain A where A: "PartitionGetAttributes (tinyT S Worn) (1 - i) (tinyRegistry, f) = Some (EFI_SUCCESS, A)"
      "AttrBytes A = (if i = 0 then 32768 else 8)"
    using tiny_attributes [of "1 - i" S Worn f] assms(1) by (auto simp: less_2_cases_iff)
  have "off + n < 2 ^ 64" using assms(3) by (auto split: if_splits)
  then show ?thesis
    using assms A tiny_read [of "1 - i" n buf off S Worn f]
    by (auto simp: less_2_cases_iff tinyFmp_def ImageProtocol_def FwImageRead_def tinyWorld_def ReadPartition_def HasAImage_def
        HasBImage_def FwImageCheckOffsetAndBytes_def add64_less)
qed

lemma tiny_image_write:
  assumes "i < 2" and "n \<le> length buf" and "off + n \<le> (if i = 0 then 32768 else 8)" and "off mod 4 = 0" and "n mod 4 = 0"
    and "\<not> (Worn \<and> i = Suc 0 \<and> off = 0)"
  shows "ImageWrite (FmpProtocol (tinyFmp S Worn N)) i off n buf FW_IMAGE_RW_FLAG_NONE (tinyWorld f)
    = Some (EFI_SUCCESS, tinyWorld (program (erased f (32768 * (1 - i) + off) n) (32768 * (1 - i) + off) (take n buf)))"
proof -
  obtain A where A: "PartitionGetAttributes (tinyT S Worn) (1 - i) (tinyRegistry, f) = Some (EFI_SUCCESS, A)"
      "AttrBytes A = (if i = 0 then 32768 else 8)"
    using tiny_attributes [of "1 - i" S Worn f] assms(1) by (auto simp: less_2_cases_iff)
  have "off + n < 2 ^ 64" using assms(3) by (auto split: if_splits)
  then show ?thesis
    using assms A tiny_write [of "1 - i" n buf off Worn S f]
    by (auto simp: less_2_cases_iff tinyFmp_def ImageProtocol_def FwImageWrite_def tinyWorld_def WritePartition_def HasAImage_def
        HasBImage_def FwImageCheckOffsetAndBytes_def add64_less)
qed

lemma tiny_image_write_worn:
  "\<exists>f'. ImageWrite (FmpProtocol (tinyFmp S True N)) (Suc 0) 0 4 [5, 6, 7, 8] FW_IMAGE_RW_FLAG_NONE (tinyWorld f)
    = Some (EFI_DEVICE_ERROR, tinyWorld f')"
proof -
  obtain A where A: "PartitionGetAttributes (tinyT S True) 0 (tinyRegistry, f) = Some (EFI_SUCCESS, A)" "AttrBytes A = 8"
    using tiny_attributes [of 0 S True f] by auto
  with tiny_write_worn [of "[5, 6, 7, 8]" S f] show ?thesis
    by (auto simp: tinyFmp_def ImageProtocol_def FwImageWrite_def tinyWorld_def WritePartition_def HasAImage_def
        HasBImage_def FwImageCheckOffsetAndBytes_def add64_less)
qed

text \<open>What is known of the module variables during the run.\<close>

definition tiny_run :: "nat \<Rightarrow> FMP_GLOBALS \<Rightarrow> bool" where
  "tiny_run c g \<longleftrightarrow> fmp_same tinyGlobals g \<and> mProgress g \<and> mCurrentCompletion g = c \<and> mTotalBytesToFlash g \<in> {8, 4104}"

lemma tiny_set_progress:
  "tiny_run c g \<Longrightarrow> c + n \<le> 100 \<Longrightarrow> \<exists>g'. SetImageProgress (tinyFmp S Worn N) n g = Some g' \<and> tiny_run (c + n) g'
     \<and> mTotalBytesToFlash g' = mTotalBytesToFlash g"
  by (auto simp: tiny_run_def SetImageProgress_def Let_def UpdateProgress_def UpdateImageProgress_def fmp_same_def fmp_buffer_def
      add64_less)

lemma tiny_write_progress:
  "tiny_run c g \<Longrightarrow> \<exists>g'. ImageWriteProgress (tinyFmp S Worn N) n g = Some g' \<and> tiny_run c g'"
  by (auto simp: tiny_run_def ImageWriteProgress_def Let_def UpdateProgress_def UpdateImageProgress_def fmp_same_def fmp_buffer_def)

lemma tiny_write_loop:
  assumes "tiny_run c g" and "i < 2" and "n \<le> length data" and "n \<le> (if i = 0 then 32768 else 8)" and "n mod 4 = 0"
    and "0 < n" and "\<not> (Worn \<and> i = Suc 0)"
  shows "\<exists>g'. WriteLoop (tinyFmp S Worn N) i data FW_IMAGE_RW_FLAG_NONE EFI_SUCCESS n 0 g (tinyWorld f)
      = Some (EFI_SUCCESS, g', tinyWorld (program (erased f (32768 * (1 - i)) n) (32768 * (1 - i)) (take n data)))
    \<and> tiny_run c g'"
proof -
  from tiny_write_progress [OF assms(1)] obtain g' where
      g': "ImageWriteProgress (tinyFmp S Worn N) n g = Some g'" "tiny_run c g'" by blast
  have n: "\<not> FMP_WRITE_LOOP_SIZE < n" using assms(4) by (auto simp: FMP_WRITE_LOOP_SIZE_def split: if_splits)
  show ?thesis
    using assms g' n tiny_image_write [of i n data 0 Worn S N f]
    by (simp add: WriteLoop.simps [of _ _ _ _ _ n] WriteLoop.simps [of _ _ _ _ _ 0] Let_def)
qed

lemma tiny_get_attributes:
  "i < 2 \<Longrightarrow> ImageGetAttributes (FmpProtocol (tinyFmp S Worn N)) i (tinyWorld f)
    = Some (EFI_SUCCESS, \<lparr> ReadBytes = (if i = 0 then 32768 else 8), WriteBytes = (if i = 0 then 32768 else 8),
        BlockSize = 4, EraseBlockSize = 0 \<rparr>)"
  by (auto simp: tinyFmp_def ImageProtocol_def FwImageGetAttributes_def tinyWorld_def less_2_cases_iff)

lemma tiny_run_buffer:
  assumes "tiny_run c g"
  obtains b where "mFmpDataBuffer g = Some b" "length b = FMP_DATA_BUFFER_SIZE" "mFmpDataBufferSize g = FMP_DATA_BUFFER_SIZE"
  using assms by (auto simp: tiny_run_def fmp_same_def fmp_buffer_def tinyGlobals_def)

lemma tiny_run_data: "tiny_run c g \<Longrightarrow> length b = FMP_DATA_BUFFER_SIZE \<Longrightarrow> tiny_run c (g\<lparr>mFmpDataBuffer := Some b\<rparr>)"
  by (auto simp: tiny_run_def fmp_same_def fmp_buffer_def tinyGlobals_def)

lemma tiny_invalidate:
  assumes "tiny_run c g" and "mTotalBytesToFlash g = 8" and "N = 1 \<or> N = 2"
  shows "\<exists>g' f'. InvalidateImage (tinyFmp S Worn N) (W ''mb1'') FW_IMAGE_RW_FLAG_NONE g (tinyWorld f)
      = Some (EFI_SUCCESS, g', tinyWorld f') \<and> tiny_run c g'"
proof -
  from assms(1) obtain b where b: "mFmpDataBuffer g = Some b" "length b = FMP_DATA_BUFFER_SIZE"
      "mFmpDataBufferSize g = FMP_DATA_BUFFER_SIZE" by (rule tiny_run_buffer)
  define b' where "b' = replicate FMP_DATA_BUFFER_SIZE (0xFF :: byte)"
  have st: "store_bytes b 0 (replicate FMP_DATA_BUFFER_SIZE 0xFF) = Some b'" "length b' = FMP_DATA_BUFFER_SIZE"
    using b(2) by (simp_all add: store_bytes_def b'_def)
  let ?go = "g\<lparr>mFmpDataBuffer := Some b', mTotalBytesToFlash := add64 (mTotalBytesToFlash g) FMP_DATA_BUFFER_SIZE\<rparr>"
  have "tiny_run c ?go"
    using assms st(2) by (auto simp: tiny_run_def fmp_same_def fmp_buffer_def tinyGlobals_def add64_def FMP_DATA_BUFFER_SIZE_def)
  then have "\<exists>g' f'. WriteLoop (tinyFmp S Worn N) 0 b' FW_IMAGE_RW_FLAG_NONE EFI_SUCCESS FMP_DATA_BUFFER_SIZE 0 ?go (tinyWorld f)
      = Some (EFI_SUCCESS, g', tinyWorld f') \<and> tiny_run c g'"
    using tiny_write_loop [of c ?go 0 FMP_DATA_BUFFER_SIZE b' Worn S N f] st(2) by (simp add: FMP_DATA_BUFFER_SIZE_def) blast
  moreover have "min 32768 FMP_DATA_BUFFER_SIZE = FMP_DATA_BUFFER_SIZE" by (simp add: FMP_DATA_BUFFER_SIZE_def)
  ultimately show ?thesis using b st(1)
    by (simp add: InvalidateImage_def tinyFmp_find [OF assms(3)] tiny_get_attributes Let_def WriteImageFromBuffer_def)
qed

lemma tiny_write_mb1:
  assumes "tiny_run c g" and "N = 1 \<or> N = 2"
  shows "\<exists>g' f'. WriteImage (tinyFmp S Worn N) tinyPackage (W ''mb1'') FW_IMAGE_RW_FLAG_NONE g (tinyWorld f)
      = Some (EFI_SUCCESS, g', tinyWorld f') \<and> tiny_run c g'"
proof -
  have same: "fmp_same tinyGlobals g" using assms by (simp add: tiny_run_def)
  have "WriteCanBeSkipped (tinyFmp S Worn N) 0 4 data FW_IMAGE_RW_FLAG_NONE g (tinyWorld f) = Some (False, g, tinyWorld f)" for data
    by (simp add: WriteCanBeSkipped_def ImageNameOf_def tinyFmp_def FwImageGetProtocolArray_def)
  then show ?thesis
    using tiny_write_loop [OF assms(1), of 0 4 "drop 404 tinyPackage" Worn S N f]
    by (auto simp: WriteImage_def tinyFmp_find [OF assms(2)] tinyFmp_index [OF same] tinyPackage_data WriteImageFromBuffer_def tinyPackage_tail)
qed

text \<open>The other image is compared first; whatever the result, the write is not skipped.\<close>

lemma tiny_compare:
  assumes "tiny_run c g"
  shows "\<exists>g'. WriteCanBeSkipped (tinyFmp S Worn N) (Suc 0) 4 [5, 6, 7, 8] FW_IMAGE_RW_FLAG_NONE g (tinyWorld f)
      = Some (False, g', tinyWorld f) \<and> tiny_run c g'"
proof -
  from assms(1) obtain b where b: "mFmpDataBuffer g = Some b" "length b = FMP_DATA_BUFFER_SIZE"
      "mFmpDataBufferSize g = FMP_DATA_BUFFER_SIZE" by (rule tiny_run_buffer)
  let ?b = "content f 0 4 @ drop 4 b"
  have len: "length ?b = FMP_DATA_BUFFER_SIZE" using b(2) by (simp add: FMP_DATA_BUFFER_SIZE_def)
  have rd: "ImageRead (FmpProtocol (tinyFmp S Worn N)) (Suc 0) 0 4 b FW_IMAGE_RW_FLAG_READ_INACTIVE_IMAGE (tinyWorld f)
      = Some (EFI_SUCCESS, ?b, tinyWorld f)"
    using tiny_image_read [of "Suc 0" 4 b 0 S Worn N f] b(2) by (simp add: FMP_DATA_BUFFER_SIZE_def)
  have al: "ALIGN_VALUE 4 4 = 4" using tiny_align [of 4] by simp
  have cmp: "CompareLoop (tinyFmp S Worn N) (Suc 0) 4 [5, 6, 7, 8] FW_IMAGE_RW_FLAG_READ_INACTIVE_IMAGE 4 0 g (tinyWorld f)
      = Some (EFI_SUCCESS, content f 0 4 = [5, 6, 7, 8], g\<lparr>mFmpDataBuffer := Some ?b\<rparr>, tinyWorld f)"
    using b rd al len
    by (simp add: CompareLoop.simps [of _ _ _ _ _ 4] CompareLoop.simps [of _ _ _ _ _ 0] Let_def load_bytes_def
        FMP_DATA_BUFFER_SIZE_def)
  have name: "ImageNameOf (FmpImageLib (tinyFmp S Worn N)) (Suc 0) = Some (W ''x'')"
    by (simp add: ImageNameOf_def tinyFmp_def FwImageGetProtocolArray_def)
  have "W ''x'' \<noteq> FW_PARTITION_UPDATE_INACTIVE_PARTITIONS \<and> W ''x'' \<noteq> W ''GPT'' \<and> W ''x'' \<noteq> W ''mb1''"
    by (simp add: W_def FW_PARTITION_UPDATE_INACTIVE_PARTITIONS_def)
  moreover have "FW_IMAGE_RW_FLAG_NONE AND x = 0" for x by (simp add: image_flags)
  ultimately show ?thesis using cmp name tiny_run_data [OF assms len]
    by (cases "content f 0 4 = [5, 6, 7, 8]")
      (simp_all add: WriteCanBeSkipped_def CompareImageToBuffer_def tiny_get_attributes CheckLastBlockTailAllFf_def Let_def)
qed

lemma tiny_write_x:
  assumes "tiny_run c g"
  shows "\<exists>g' f'. WriteImage (tinyFmp S Worn 2) tinyPackage (W ''x'') FW_IMAGE_RW_FLAG_NONE g (tinyWorld f)
      = Some (if Worn then EFI_DEVICE_ERROR else EFI_SUCCESS, g', tinyWorld f') \<and> tiny_run c g'"
proof -
  have same: "fmp_same tinyGlobals g" using assms by (simp add: tiny_run_def)
  have tail: "drop 408 tinyPackage = [5, 6, 7, 8]"
    using arg_cong [OF tinyPackage_tail, of "drop 4"] by simp
  from tiny_compare [OF assms, of S Worn 2 f] obtain g1 where
      g1: "WriteCanBeSkipped (tinyFmp S Worn 2) (Suc 0) 4 [5, 6, 7, 8] FW_IMAGE_RW_FLAG_NONE g (tinyWorld f)
      = Some (False, g1, tinyWorld f)" "tiny_run c g1" by blast
  have "\<exists>g' f'. WriteLoop (tinyFmp S Worn 2) (Suc 0) [5, 6, 7, 8] FW_IMAGE_RW_FLAG_NONE EFI_SUCCESS 4 0 g1 (tinyWorld f)
      = Some (if Worn then EFI_DEVICE_ERROR else EFI_SUCCESS, g', tinyWorld f') \<and> tiny_run c g'"
  proof (cases Worn)
    case True
    with tiny_image_write_worn [of S 2 f] g1(2) show ?thesis
      by (auto simp: WriteLoop.simps [of _ _ _ _ _ 4] Let_def FMP_WRITE_LOOP_SIZE_def)
  next
    case False
    with tiny_write_loop [OF g1(2), of "Suc 0" 4 "[5, 6, 7, 8]" Worn S 2 f] show ?thesis by auto
  qed
  with g1(1) show ?thesis
    by (simp add: WriteImage_def tinyFmp_find_x tinyFmp_index [OF same] tinyPackage_data WriteImageFromBuffer_def tail)
qed

text \<open>The update as a whole: it succeeds, or with the worn flash fails to write the images.\<close>

lemma tiny_regular:
  assumes "tiny_run c g" and "N = 1 \<or> N = 2"
  shows "\<exists>g' f'. WriteRegularImages (tinyFmp S Worn N) tinyPackage False FW_IMAGE_RW_FLAG_NONE g (tinyWorld f)
      = Some (if Worn \<and> N = 2 then EFI_DEVICE_ERROR else EFI_SUCCESS, g', tinyWorld f') \<and> tiny_run c g'"
proof -
  have same: "fmp_same tinyGlobals g" using assms(1) by (simp add: tiny_run_def)
  have "IsSpecialImageName (W ''mb1'')" "\<not> IsSpecialImageName (W ''x'')"
    by (simp_all add: IsSpecialImageName_def SpecialImageNames_def W_def FW_PARTITION_UPDATE_INACTIVE_PARTITIONS_def
        BR_BCT_BACKUP_PARTITION_NAME_def)
  with tiny_write_x [OF assms(1), of S Worn f] assms show ?thesis
    by (auto simp: WriteRegularImages_def tinyFmp_array tinyFmp_index [OF same])
qed

lemma tiny_full:
  assumes "tiny_run 5 g" and "mTotalBytesToFlash g = 8" and "N = 1 \<or> N = 2"
  shows "\<exists>g' f'. FullUpdate (tinyFmp S Worn N) tinyServices tinyPackage g (tinyWorld f)
    = Some (if Worn \<and> N = 2 then EFI_ABORTED else EFI_SUCCESS,
        if Worn \<and> N = 2 then LAS_ERROR_WRITE_IMAGES_FAILED else LAST_ATTEMPT_STATUS_SUCCESS, g', tinyWorld f')"
proof -
  from tiny_invalidate [OF assms, of S Worn f] obtain g1 f1 where
      1: "InvalidateImage (tinyFmp S Worn N) (W ''mb1'') FW_IMAGE_RW_FLAG_NONE g (tinyWorld f)
        = Some (EFI_SUCCESS, g1, tinyWorld f1)" "tiny_run 5 g1" by blast
  from tiny_regular [OF 1(2) assms(3), of S Worn f1] obtain g2 f2 where
      2: "WriteRegularImages (tinyFmp S Worn N) tinyPackage False FW_IMAGE_RW_FLAG_NONE g1 (tinyWorld f1)
        = Some (if Worn \<and> N = 2 then EFI_DEVICE_ERROR else EFI_SUCCESS, g2, tinyWorld f2)" "tiny_run 5 g2" by blast
  from tiny_write_mb1 [OF 2(2) assms(3), of S Worn f2] obtain g3 f3 where
      3: "WriteImage (tinyFmp S Worn N) tinyPackage (W ''mb1'') FW_IMAGE_RW_FLAG_NONE g2 (tinyWorld f2)
        = Some (EFI_SUCCESS, g3, tinyWorld f3)" "tiny_run 5 g3" by blast
  have off: "\<not> mPcdFmpWriteVerifyImage k" if "tiny_run c k" for c k
    using that by (simp add: tiny_run_def fmp_same_def tinyGlobals_def)
  have p: "FMP_PROGRESS_WRITE_IMAGES k = 90" "FMP_PROGRESS_VERIFY_IMAGES k = 0" if "tiny_run c k" for c k
    using off [OF that] by (simp_all add: FMP_PROGRESS_WRITE_IMAGES_def FMP_PROGRESS_VERIFY_IMAGES_def)
  from tiny_set_progress [OF 3(2), of 90 S Worn N] obtain g4 where
      4: "SetImageProgress (tinyFmp S Worn N) 90 g3 = Some g4" "tiny_run 95 g4" by auto
  from tiny_set_progress [OF 4(2), of 0 S Worn N] obtain g5 where
      5: "SetImageProgress (tinyFmp S Worn N) 0 g4 = Some g5" "tiny_run 95 g5" by auto
  from tiny_set_progress [OF 5(2), of FMP_PROGRESS_UPDATE_BCT S Worn N] obtain g6 where
      6: "SetImageProgress (tinyFmp S Worn N) FMP_PROGRESS_UPDATE_BCT g5 = Some g6"
    by (auto simp: FMP_PROGRESS_UPDATE_BCT_def)
  have d: "DetectGptUpdate (tinyFmp S Worn N) tinyPackage g (tinyWorld f) = Some (EFI_SUCCESS, False, g, tinyWorld f)"
    by (simp add: DetectGptUpdate_def GptInPackage_def tinyFmp_find [OF assms(3)])
  have v: "VerifyAllImages (tinyFmp S Worn N) tinyPackage False f' g4 s = Some (EFI_SUCCESS, g4, s)" for f' s
    using off [OF 4(2)] by (simp add: VerifyAllImages_def)
  have b: "UpdateBctBackupPartition (tinyFmp S Worn N) tinyServices tinyPackage g5 s = Some (EFI_SUCCESS, s)" for s
    using 5(2) tinyFmp_index(3) by (simp add: UpdateBctBackupPartition_def tiny_run_def)
  show ?thesis
    by (auto simp: FullUpdate_def OrAbort_def tinyServices_def [THEN arg_cong, of SetInactiveBootChainStatus] d
        WriteAndVerifyImages_def 1(1) 2(1) 3(1) p [OF 3(2)] p [OF 4(2)] 4(1) 5(1) 6 v b SwitchBootChain_def SetDone_def
        tinyServices_def [THEN arg_cong, of UpdateChain])
qed

lemma tiny_update:
  assumes "N = 1 \<or> N = 2"
  shows "\<exists>g' f'. FmpTegraSetImage (tinyFmp S Worn N) tinyServices (Some tinyPackage) True tinyGlobals (tinyWorld f)
    = Some (if Worn \<and> N = 2 then EFI_ABORTED else EFI_SUCCESS,
        Some (if Worn \<and> N = 2 then LAS_ERROR_WRITE_IMAGES_FAILED else LAST_ATTEMPT_STATUS_SUCCESS), g', tinyWorld f')"
proof -
  let ?g = "tinyGlobals\<lparr>mProgress := True, mCurrentCompletion := 5, mDisplayed := [5]\<rparr>"
  have start: "SetImageProgress (tinyFmp S Worn N) FMP_PROGRESS_CHECK_IMAGE
      (tinyGlobals\<lparr>mTotalBytesFlashed := 0, mTotalBytesVerified := 0, mCurrentCompletion := 0, mProgress := True\<rparr>) = Some ?g"
    by (simp add: SetImageProgress_def UpdateProgress_def UpdateImageProgress_def tinyGlobals_def tinyFmp_def
        FMP_PROGRESS_CHECK_IMAGE_def add64_def)
  let ?go = "?g\<lparr>mTotalBytesToFlash := 8, mTotalBytesToVerify := 0\<rparr>"
  have off: "\<not> mPcdFmpWriteVerifyImage tinyGlobals" "mFmpLibInitialized tinyGlobals"
    by (simp_all add: tinyGlobals_def)
  have "tiny_run 5 ?go" by (simp add: tiny_run_def fmp_same_def fmp_buffer_def tinyGlobals_def)
  from tiny_full [OF this _ assms, of S Worn f] obtain g' f' where
      "FullUpdate (tinyFmp S Worn N) tinyServices tinyPackage ?go (tinyWorld f)
        = Some (if Worn \<and> N = 2 then EFI_ABORTED else EFI_SUCCESS,
            if Worn \<and> N = 2 then LAS_ERROR_WRITE_IMAGES_FAILED else LAST_ATTEMPT_STATUS_SUCCESS, g', tinyWorld f')" by auto
  moreover have "\<not> PcdFmpMultiImageMinimalUpdate tinyServices" by (simp add: tinyServices_def)
  ultimately show ?thesis using start off
    by (simp add: FmpTegraSetImage_def Let_def tinyPackage_total tinyPackage_fields) blast
qed

lemma tinyFmp_images:
  assumes "N = 1 \<or> N = 2"
  shows "fmp_images (ImageProtocol (tinyT S Worn))
     (img_ok (part_data tinyView) (part_unit (NorDeviceOps (tinyFlash Worn)))
       (part_valid (NorDeviceOps (tinyFlash Worn)) (\<lambda>w. nor_world (tinyFlash Worn) tinyView)))
     img_unit (tinyFmp S Worn N) (take N [(W ''mb1'', 0), (W ''x'', 1)]) (tinyWorld f)"
proof -
  have "img_unit (tinyWorld f) i = 2 ^ 2" if "i < 2" for i
    using that by (auto simp: img_unit_def tinyWorld_def less_2_cases_iff)
  then have "small_unit (img_unit (tinyWorld f) i)" if "i < 2" for i
    using that unfolding small_unit_def by (intro exI [of _ 2]) simp
  moreover have protocol: "FmpProtocol (tinyFmp S Worn N) = ImageProtocol (tinyT S Worn)" by (simp add: tinyFmp_def)
  ultimately show ?thesis
    using tiny_image_ok [of 0 Worn f] tiny_image_ok [of 1 Worn f] assms protocol
    by (elim disjE) (simp_all add: fmp_images_def tinyFmp_find tinyFmp_find_x)
qed

lemma tiny_full_update: "full_update tinyServices tinyGlobals tinyPackage"
  by (simp add: full_update_def tinyServices_def tinyGlobals_def)

lemma tiny_buffer: "fmp_buffer tinyGlobals"
  by (simp add: fmp_buffer_def tinyGlobals_def)

lemma tiny_nor_images:
  "N = 1 \<or> N = 2 \<Longrightarrow> nor_images S (tinyFlash Worn) tinyView (tinyFmp S Worn N) (take N [(W ''mb1'', 0), (W ''x'', 1)]) (tinyWorld f)"
  unfolding nor_images_def by (intro conjI tinyFmp_library tinyFmp_images)

lemma tinyServices_only: "services_only (nor_only Devices view {}) tinyServices"
  by (simp add: services_only_def tinyServices_def touched_def)

end
