(* ===== verification/FwImageTheorems.thy ===== *)
theory FwImageTheorems
  imports TegraFmpExample
begin

text \<open>
  An image from the outside: what is written to it through the image protocol, the partition library and
  the driver of the flash comes back when it is read, and no other image is touched.
\<close>

text \<open>
  C9: When a write of an image that starts at a block succeeds, a successful read of the inactive copy
  at the same place returns the bytes that were written, and every other image still has the bytes it had
  in either boot chain.
\<close>

theorem image_write_read_back:
  assumes "nor_image_ok Devices view s i" and "off mod img_unit s i = 0" and "n \<le> length buf'"
    and "ImageWrite (ImageProtocol (PartitionProtocol S (NorDeviceOps Devices))) i off n buf FW_IMAGE_RW_FLAG_NONE s
           = Some (EFI_SUCCESS, s')"
    and "ImageRead (ImageProtocol (PartitionProtocol S (NorDeviceOps Devices))) i off n buf'
           FW_IMAGE_RW_FLAG_READ_INACTIVE_IMAGE s' = Some (EFI_SUCCESS, got, s'')"
  shows "take n got = take n buf \<and> n \<le> length buf
    \<and> (\<forall>j f q. nor_image_ok Devices view s j \<longrightarrow> j \<noteq> i \<longrightarrow> img_slot s j f = Some q \<longrightarrow>
         part_data view (snd s'') q = part_data view (snd s) q)"
proof -
  have rf: "ReadFlags FW_IMAGE_RW_FLAG_NONE = FW_IMAGE_RW_FLAG_READ_INACTIVE_IMAGE"
    by (rule nor.parts.images.ReadFlags_none)
  note w = nor.parts.images.image_write [OF assms(1,2,4), unfolded rf]
  have "nor_image_ok Devices view s' = nor_image_ok Devices view s" and slot: "img_slot s' = img_slot s"
    using w by blast+
  with assms(1) have ok: "nor_image_ok Devices view s' i" by (simp only:)
  from w obtain p where p: "img_slot s i FW_IMAGE_RW_FLAG_READ_INACTIVE_IMAGE = Some p" "n \<le> length buf"
      "slice off n (part_data view (snd s') p) = take n buf" by blast
  note frame = conjunct1 [OF conjunct2 [OF conjunct2 [OF conjunct2 [OF w]]]]
  note r = nor.parts.images.image_read [OF ok assms(5)]
  from r assms(3) obtain p' where p': "img_slot s' i FW_IMAGE_RW_FLAG_READ_INACTIVE_IMAGE = Some p'"
      "take n got = slice off n (part_data view (snd s') p')" by blast
  with p slot have "take n got = take n buf" by (simp del: ReadFlags_forced)
  moreover have "part_data view (snd s'') q = part_data view (snd s) q"
    if "nor_image_ok Devices view s j" "j \<noteq> i" "img_slot s j f = Some q" for j f q
  proof -
    have "img_slot s i FW_IMAGE_RW_FLAG_READ_INACTIVE_IMAGE \<noteq> Some q"
    proof
      assume "img_slot s i FW_IMAGE_RW_FLAG_READ_INACTIVE_IMAGE = Some q"
      from nor.parts.images.image_slot [OF assms(1) that(1) this that(3)] that(2) show False by simp
    qed
    then have "part_data view (snd s') q = part_data view (snd s) q" by (rule frame [rule_format, OF that(1,3)])
    moreover have "(\<lambda>t. part_data view (snd t)) s'' = (\<lambda>t. part_data view (snd t)) s'" using r by blast
    ultimately show ?thesis by (simp add: fun_eq_iff)
  qed
  ultimately show ?thesis using p(2) by blast
qed

text \<open>Four bytes written to the first image of the example.\<close>

theorem image_write_read_back_witness:
  "\<exists>s' got. ImageWrite (FmpProtocol (tinyFmp exampleServices False 2)) 0 8 4 [1, 2, 3, 4] FW_IMAGE_RW_FLAG_NONE (tinyWorld tinyMemory)
        = Some (EFI_SUCCESS, s')
    \<and> ImageRead (FmpProtocol (tinyFmp exampleServices False 2)) 0 8 4 [0, 0, 0, 0] FW_IMAGE_RW_FLAG_READ_INACTIVE_IMAGE s'
        = Some (EFI_SUCCESS, got, s')
    \<and> take 4 got = [1, 2, 3, 4]"
proof -
  let ?f = "program (erased tinyMemory 32776 4) 32776 [1, 2, 3, 4]"
  have w: "ImageWrite (FmpProtocol (tinyFmp exampleServices False 2)) 0 8 4 [1, 2, 3, 4] FW_IMAGE_RW_FLAG_NONE (tinyWorld tinyMemory)
      = Some (EFI_SUCCESS, tinyWorld ?f)"
    using tiny_image_write [of 0 4 "[1, 2, 3, 4]" 8 False exampleServices 2 tinyMemory] by simp
  have r: "ImageRead (FmpProtocol (tinyFmp exampleServices False 2)) 0 8 4 [0, 0, 0, 0] FW_IMAGE_RW_FLAG_READ_INACTIVE_IMAGE
      (tinyWorld ?f) = Some (EFI_SUCCESS, content ?f 32776 4, tinyWorld ?f)"
    using tiny_image_read [of 0 4 "[0, 0, 0, 0]" 8 exampleServices False 2 ?f] by simp
  have P: "FmpProtocol (tinyFmp exampleServices False 2) = ImageProtocol (PartitionProtocol exampleServices (NorDeviceOps (tinyFlash False)))"
    by (simp add: tinyFmp_def)
  have u: "8 mod img_unit (tinyWorld tinyMemory) 0 = 0" by (simp add: img_unit_def tinyWorld_def)
  from image_write_read_back [OF tiny_image_ok u _ w [unfolded P] r [unfolded P]]
  have "take 4 (content ?f 32776 4) = [1, 2, 3, 4]" by simp
  with w r show ?thesis by blast
qed

end
