(* ===== verification/TegraFmpClaims.thy ===== *)
theory TegraFmpClaims
  imports TegraFmpExample
begin

text \<open>The properties of the update of a boot chain from a capsule.\<close>

section \<open>SetImage\<close>

text \<open>
  C3: When \<open>FmpTegraSetImage\<close> reports success for a full update, then for every image of the system that the
  package has data for, the inactive partition of that image holds exactly these bytes, at the end of
  the update: each layer below, the images, the partitions and the driver of the flash, has done
  its part, and no later step has overwritten an earlier one. The exceptions are the partitions \<open>X\<close> of the boot
  configuration table and, where the result is not read back, the partition table.
\<close>

theorem FmpTegraSetImage_installs:
  assumes "nor_images T Devices view I Images s" and "fmp_buffer g" and "full_update S g Header"
    and "services_only (nor_only Devices view X) S"
    and "FmpTegraSetImage I S (Some Header) True g s = Some (EFI_SUCCESS, Last, g', s')"
  shows "package_placed (\<lambda>s. part_data view (snd s)) img_slot I g Header (images_outside img_slot s X Images) (wanted g) s'"
  by (rule nor.parts.images.SetImage_installed
      [OF conjunct1 [OF assms(1) [unfolded nor_images_def]] conjunct2 [OF assms(1) [unfolded nor_images_def]] assms(2,4,3,5)])

text \<open>In the example both images are in their partitions.\<close>

theorem FmpTegraSetImage_installs_witness:
  "\<exists>f'. slice 0 4 (part_data tinyView (tinyRegistry, f') 1) = [1, 2, 3, 4]
    \<and> slice 0 4 (part_data tinyView (tinyRegistry, f') 0) = [5, 6, 7, 8]"
proof -
  obtain g' f' where run: "FmpTegraSetImage (tinyFmp exampleServices False 2) tinyServices (Some tinyPackage) True tinyGlobals
      (tinyWorld tinyMemory) = Some (EFI_SUCCESS, Some LAST_ATTEMPT_STATUS_SUCCESS, g', tinyWorld f')"
    using tiny_update [of 2 exampleServices False tinyMemory] by auto
  from FmpTegraSetImage_installs [OF tiny_nor_images [of 2, simplified] tiny_buffer tiny_full_update tinyServices_only run]
  have p: "package_placed (\<lambda>s. part_data tinyView (snd s)) img_slot (tinyFmp exampleServices False 2) tinyGlobals tinyPackage
      [(W ''mb1'', 0), (W ''x'', 1)] (wanted tinyGlobals) (tinyWorld f')"
    by (simp add: images_outside_def)
  have "wanted tinyGlobals (W ''mb1'')" "wanted tinyGlobals (W ''x'')"
    by (simp_all add: wanted_def regular_def IsSpecialImageName_def SpecialImageNames_def W_def
        FW_PARTITION_UPDATE_INACTIVE_PARTITIONS_def BR_BCT_BACKUP_PARTITION_NAME_def)
  moreover have "pkg_image (tinyFmp exampleServices False 2) tinyGlobals tinyPackage (W ''mb1'') = Some (4, 404)"
    "pkg_image (tinyFmp exampleServices False 2) tinyGlobals tinyPackage (W ''x'') = Some (4, 408)"
    by (simp_all add: pkg_image_def tinyFmp_index tinyPackage_data)
  ultimately have "image_holds (\<lambda>s. part_data tinyView (snd s)) img_slot (tinyWorld f') FW_IMAGE_RW_FLAG_READ_INACTIVE_IMAGE
      0 tinyPackage (4, 404)" "image_holds (\<lambda>s. part_data tinyView (snd s)) img_slot (tinyWorld f')
      FW_IMAGE_RW_FLAG_READ_INACTIVE_IMAGE 1 tinyPackage (4, 408)"
    using p by (simp_all add: package_placed_def)
  moreover have "drop 408 tinyPackage = [5, 6, 7, 8]" using arg_cong [OF tinyPackage_tail, of "drop 4"] by simp
  ultimately show ?thesis
    by (intro exI [of _ f'])
      (simp add: image_holds_def tinyWorld_def tiny_slot_image slice_def [of 404] slice_def [of 408] tinyPackage_tail)
qed

text \<open>
  C4: Whatever comes of a full update, success, any error or a flash that fails half-way, no partition
  changes but the inactive ones of the images of the library and those of the boot
  configuration table: the partitions that the running boot chain needs are what they were.
\<close>

theorem FmpTegraSetImage_keeps_active:
  assumes "nor_images T Devices view I Images s" and "fmp_buffer g" and "full_update S g Header"
    and "services_only (nor_only Devices view X) S"
    and "FmpTegraSetImage I S (Some Header) True g s = Some (st, Last, g', s')"
    and "nor_image_ok Devices view s j" and "img_slot s j f = Some q" and "q \<notin> X"
    and "\<And>n i. (n, i) \<in> set Images \<Longrightarrow> img_slot s i FW_IMAGE_RW_FLAG_READ_INACTIVE_IMAGE \<noteq> Some q"
  shows "part_data view (snd s') q = part_data view (snd s) q"
proof -
  have "nor_only Devices view (X \<union> nor.parts.images.written Images s) s s'"
    by (rule nor.parts.images.SetImage_frame
      [OF conjunct1 [OF assms(1) [unfolded nor_images_def]] conjunct2 [OF assms(1) [unfolded nor_images_def]] assms(2,4,3,5)])
  moreover have "q \<notin> nor.parts.images.written Images s"
    using assms(9) by (auto simp: nor.parts.images.written_def nor.parts.images.targets_def nor.parts.images.target_def
        nor.parts.images.ReadFlags_none simp del: ReadFlags_forced)
  ultimately show ?thesis using assms(6-8) by (auto simp: touched_def)
qed

text \<open>The library knows one of the two images of the example; the other one is kept.\<close>

theorem FmpTegraSetImage_keeps_active_witness:
  "\<exists>g' s'. FmpTegraSetImage (tinyFmp exampleServices False 1) tinyServices (Some tinyPackage) True tinyGlobals (tinyWorld tinyMemory)
        = Some (EFI_SUCCESS, Some LAST_ATTEMPT_STATUS_SUCCESS, g', s')
    \<and> part_data tinyView (snd s') 0 = part_data tinyView (tinyRegistry, tinyMemory) 0"
proof -
  obtain g' f' where run: "FmpTegraSetImage (tinyFmp exampleServices False 1) tinyServices (Some tinyPackage) True tinyGlobals
      (tinyWorld tinyMemory) = Some (EFI_SUCCESS, Some LAST_ATTEMPT_STATUS_SUCCESS, g', tinyWorld f')"
    using tiny_update [of 1 exampleServices False tinyMemory] by auto
  have "nor_image_ok (tinyFlash False) tinyView (tinyWorld tinyMemory) 1"
      "img_slot (tinyWorld tinyMemory) 1 FW_IMAGE_RW_FLAG_NONE = Some 0"
      "img_slot (tinyWorld tinyMemory) 0 FW_IMAGE_RW_FLAG_READ_INACTIVE_IMAGE = Some 1"
    using tiny_image_ok [of 1] by (simp_all add: tinyWorld_def tiny_slot_image)
  then have "part_data tinyView (snd (tinyWorld f')) 0 = part_data tinyView (snd (tinyWorld tinyMemory)) 0"
    by (intro FmpTegraSetImage_keeps_active [OF tiny_nor_images [of 1, OF disjI1 [OF refl]] tiny_buffer tiny_full_update
        tinyServices_only run]) auto
  with run show ?thesis by (intro exI [of _ g'] exI [of _ "tinyWorld f'"]) (simp add: tinyWorld_def)
qed

text \<open>
  C5: The boot configuration table is switched to the other boot chain last: the function that does it
  is called in states in which every image of the package is in place, and in no other. What it would do
  in any other state makes no difference to an update, whatever the outcome of that.
\<close>

theorem FmpTegraSetImage_switches_last:
  assumes "nor_images T Devices view I Images s" and "fmp_buffer g"
    and "services_only (nor_only Devices view X) S"
    and "\<And>c s1. package_placed (\<lambda>s. part_data view (snd s)) img_slot I g Header (images_outside img_slot s X Images) (wanted g) s1
           \<Longrightarrow> U c s1 = V c s1"
  shows "FmpTegraSetImage I (S\<lparr>UpdateChain := U\<rparr>) (Some Header) Result g s
    = FmpTegraSetImage I (S\<lparr>UpdateChain := V\<rparr>) (Some Header) Result g s"
  by (rule nor.parts.images.SetImage_order
      [OF conjunct1 [OF assms(1) [unfolded nor_images_def]] conjunct2 [OF assms(1) [unfolded nor_images_def]] assms(2-4)])

theorem FmpTegraSetImage_switches_last_witness:
  "FmpTegraSetImage (tinyFmp exampleServices False 2) (tinyServices\<lparr>UpdateChain := (\<lambda>c s. Some (EFI_SUCCESS, s))\<rparr>) (Some tinyPackage)
      True tinyGlobals (tinyWorld tinyMemory)
    = FmpTegraSetImage (tinyFmp exampleServices False 2) (tinyServices\<lparr>UpdateChain := (\<lambda>c s.
        if package_placed (\<lambda>s. part_data tinyView (snd s)) img_slot (tinyFmp exampleServices False 2) tinyGlobals tinyPackage
             [(W ''mb1'', 0), (W ''x'', 1)] (wanted tinyGlobals) s
        then Some (EFI_SUCCESS, s) else None)\<rparr>) (Some tinyPackage) True tinyGlobals (tinyWorld tinyMemory)"
  by (rule FmpTegraSetImage_switches_last [OF tiny_nor_images [of 2, simplified] tiny_buffer tinyServices_only]) (simp add: images_outside_def)

text \<open>
  C6: An update that fails to write the images leaves a boot chain that cannot start by accident: the
  first image of the boot loader, \<open>mb1\<close>, is blank in its first 4 KB, so that the boot ROM does not accept the
  mixture of old and new images.
\<close>

theorem FmpTegraSetImage_failure_invalid:
  assumes "nor_images T Devices view I Images s" and "fmp_buffer g" and "full_update S g Header"
    and "services_only (nor_only Devices view X) S"
    and "FmpTegraSetImage I S (Some Header) True g s = Some (st, Some LAS_ERROR_WRITE_IMAGES_FAILED, g', s')"
  shows "\<exists>i p. (W ''mb1'', i) \<in> set Images \<and> img_slot s' i FW_IMAGE_RW_FLAG_READ_INACTIVE_IMAGE = Some p
    \<and> (\<forall>a < min (length (part_data view (snd s') p)) FMP_DATA_BUFFER_SIZE. part_data view (snd s') p ! a = 0xFF)"
  using nor.parts.images.SetImage_mb1
      [OF conjunct1 [OF assms(1) [unfolded nor_images_def]] conjunct2 [OF assms(1) [unfolded nor_images_def]] assms(2,4,3,5)]
  unfolding nor.parts.images.mb1_invalid_def .

text \<open>The worn flash fails to write the other image.\<close>

theorem FmpTegraSetImage_failure_invalid_witness:
  "\<exists>f'. part_data tinyView (tinyRegistry, f') 1 ! 0 = 0xFF \<and> part_data tinyView (tinyRegistry, f') 1 ! 4095 = 0xFF"
proof -
  obtain g' f' where run: "FmpTegraSetImage (tinyFmp exampleServices True 2) tinyServices (Some tinyPackage) True tinyGlobals
      (tinyWorld tinyMemory) = Some (EFI_ABORTED, Some LAS_ERROR_WRITE_IMAGES_FAILED, g', tinyWorld f')"
    using tiny_update [of 2 exampleServices True tinyMemory] by auto
  from FmpTegraSetImage_failure_invalid [OF tiny_nor_images [of 2, simplified] tiny_buffer tiny_full_update tinyServices_only run]
  have b: "\<forall>a < 4096. part_data tinyView (tinyRegistry, f') 1 ! a = 0xFF"
    by (auto simp: tinyWorld_def tiny_slot_image tiny_data FMP_DATA_BUFFER_SIZE_def W_def)
  show ?thesis using spec [OF b, of 0] spec [OF b, of 4095] by (intro exI [of _ f']) simp
qed

section \<open>CheckImage\<close>

text \<open>An image of the system that the package has data for, or that is not in the package.\<close>

definition image_checked ::
  "('i, 's) FMP_IMAGES \<Rightarrow> byte list \<Rightarrow> nat \<Rightarrow> bool \<Rightarrow> FMP_GLOBALS \<Rightarrow> 's \<Rightarrow> wstring \<Rightarrow> 'i \<Rightarrow> bool" where
  "image_checked I Header ImageSize MinimalUpdate g s n i \<longleftrightarrow>
     (case pkg_image I g Header n of
        None \<Rightarrow> MissingRequired MinimalUpdate n g = Some False
      | Some (Bytes', Data) \<Rightarrow> \<exists>A. ImageGetAttributes (FmpProtocol I) i s = Some (EFI_SUCCESS, A)
          \<and> Bytes' \<le> WriteBytes A \<and> Data + Bytes' \<le> ImageSize)"

lemma CheckImagesLoop_checked:
  assumes "CheckImagesLoop I Header ImageSize m g s L = Some None" and "(n, i) \<in> set L"
    and "\<not> (m \<and> n \<in> set MinimalUnsupportedImageNames)"
  shows "image_checked I Header ImageSize m g s n i"
  using assms(1,2)
proof (induction L)
  case (Cons e L)
  from Cons.prems(1) obtain st0 Index where idx: "GetPackageImageIndex I g Header (fst e) = Some (st0, Index)"
    by (cases "GetPackageImageIndex I g Header (fst e)") auto
  show ?case
  proof (cases "st0 = EFI_SUCCESS")
    case False
    with Cons.prems(1) idx obtain M where M: "MissingRequired m (fst e) g = Some False"
        "CheckImagesLoop I Header ImageSize m g s L = Some None"
      by (cases "MissingRequired m (fst e) g") (auto split: if_splits)
    have "pkg_image I g Header (fst e) = None" using idx False by (simp add: pkg_image_def split: EFI_STATUS.split)
    with M Cons show ?thesis by (cases "(n, i) = e") (auto simp: image_checked_def)
  next
    case st0: True
    show ?thesis
    proof (cases "m \<and> fst e \<in> set MinimalUnsupportedImageNames")
      case True
      with Cons.prems st0 idx have "CheckImagesLoop I Header ImageSize m g s L = Some None" by simp
      with Cons assms(3) True show ?thesis by (cases "(n, i) = e") auto
    next
      case False
      with Cons.prems(1) st0 idx obtain b d where nd: "PkgImage Header Index = Some (b, d)"
        by (cases "PkgImage Header Index") auto
      with False Cons.prems(1) st0 idx obtain A where A: "ImageGetAttributes (FmpProtocol I) (snd e) s = Some (EFI_SUCCESS, A)"
        by (cases "ImageGetAttributes (FmpProtocol I) (snd e) s") (auto split: if_splits)
      with False Cons.prems(1) st0 idx nd have rest: "b \<le> WriteBytes A" "d + b \<le> ImageSize"
          "CheckImagesLoop I Header ImageSize m g s L = Some None"
        by (auto split: if_splits)
      have "pkg_image I g Header (fst e) = Some (b, d)" using idx st0 nd by (simp add: pkg_image_def)
      with A rest Cons show ?thesis by (cases "(n, i) = e") (auto simp: image_checked_def)
    qed
  qed
qed simp

lemma CheckImages_result:
  assumes "CheckImages I Header ImageSize m g s = Some (st, u, l, g', s')"
  shows "(st = EFI_SUCCESS \<longleftrightarrow> u = IMAGE_UPDATABLE_VALID) \<and> (st = EFI_SUCCESS \<longleftrightarrow> l = LAST_ATTEMPT_STATUS_SUCCESS)
    \<and> (st = EFI_SUCCESS \<longrightarrow> (\<exists>Images. FmpImageArray I = Some Images
         \<and> CheckImagesLoop I Header ImageSize m g' s' Images = Some None
         \<and> (\<not> m \<longrightarrow> RequiredProtocolsMissing I g' = Some False)))"
proof -
  have last: "last \<noteq> LAST_ATTEMPT_STATUS_SUCCESS" if "CheckImagesLoop I Header ImageSize m g s L = Some (Some last)"
    for g s L last
    using that by (induction L) (auto simp: bind_eq_Some_conv split: if_splits)
  obtain st1 g1 s1 where u: "UpdateMetaData I Header m g s = Some (st1, g1, s1)"
    using assms by (cases "UpdateMetaData I Header m g s") (auto simp: CheckImages_def)
  show ?thesis
  proof (cases "st1 = EFI_SUCCESS")
    case False
    with assms u show ?thesis by (simp add: CheckImages_def)
  next
    case True
    with assms u obtain Images where Images: "FmpImageArray I = Some Images"
      by (cases "FmpImageArray I") (simp_all add: CheckImages_def)
    with True assms u obtain Error where Error: "CheckImagesLoop I Header ImageSize m g1 s1 Images = Some Error"
      by (cases "CheckImagesLoop I Header ImageSize m g1 s1 Images") (simp_all add: CheckImages_def)
    show ?thesis
    proof (cases Error)
      case (Some e)
      with assms u True Images Error last [of g1 s1 Images e] show ?thesis by (simp add: CheckImages_def)
    next
      case None
      with assms u True Images Error obtain M where
          M: "(if m then Some False else RequiredProtocolsMissing I g1) = Some M"
        by (cases "if m then Some False else RequiredProtocolsMissing I g1") (simp_all add: CheckImages_def)
      show ?thesis
      proof (cases M)
        case False
        with assms u True Images Error None M
        have "st = EFI_SUCCESS" "u = IMAGE_UPDATABLE_VALID" "l = LAST_ATTEMPT_STATUS_SUCCESS" "g' = g1" "s' = s1"
          by (simp_all add: CheckImages_def)
        with Images Error None M False show ?thesis by (simp split: if_splits)
      qed (use assms u True Images Error None M in \<open>simp add: CheckImages_def\<close>)
    qed
  qed
qed

text \<open>
  C10: \<open>FmpTegraCheckImage\<close> calls a capsule updatable exactly when it returns success. It does so only when
  \<open>CheckAndCancelUpdate\<close> reported that no update of the boot chain was pending, the header, the type and the image
  records of the package are valid, and every image of the system is in order, apart from those that a minimal update does
  not support, in such an update: what the package has for it fits into its partition and lies in the capsule, what the
  package lacks is not required, and (but for a minimal update) there is an image for every required name. When an update
  was pending and has been cancelled, or when this failed, an initialised library refuses the capsule with
  \<open>LAS_ERROR_BOOT_CHAIN_UPDATE_CANCELED\<close>.
\<close>

theorem FmpTegraCheckImage_sound:
  assumes "FmpTegraCheckImage I S (Some Header) ImageSize True g s = Some (st, Some (Updatable, Last), g', s')"
  shows "(Updatable = IMAGE_UPDATABLE_VALID \<longleftrightarrow> st = EFI_SUCCESS) \<and> (Last = LAST_ATTEMPT_STATUS_SUCCESS \<longleftrightarrow> st = EFI_SUCCESS)
    \<and> (mFmpLibInitialized g \<and> (EFI_ERROR (fst (CheckAndCancelUpdate S s)) \<or> fst (snd (CheckAndCancelUpdate S s)))
        \<longrightarrow> st = EFI_ABORTED \<and> Last = LAS_ERROR_BOOT_CHAIN_UPDATE_CANCELED)
    \<and> (st = EFI_SUCCESS \<longrightarrow>
         (\<exists>s0. CheckAndCancelUpdate S s = (EFI_SUCCESS, False, s0))
         \<and> FwPackageValidateHeader Header = Some EFI_SUCCESS \<and> PackageType Header = Some FW_PACKAGE_TYPE_FW
         \<and> FwPackageValidateImageInfoArray Header = Some EFI_SUCCESS \<and> mFmpLibInitialized g
         \<and> (\<exists>Images Count m. FmpImageArray I = Some Images \<and> ImageCount Header = Some Count
              \<and> m = (Count = 1 \<or> PcdFmpMultiImageMinimalUpdate S)
              \<and> (\<forall>(n, i) \<in> set Images. \<not> (m \<and> n \<in> set MinimalUnsupportedImageNames) \<longrightarrow>
                   image_checked I Header ImageSize m g' s' n i)
              \<and> (\<not> m \<longrightarrow> RequiredProtocolsMissing I g' = Some False)))"
proof -
  obtain st0 c s0 where can: "CheckAndCancelUpdate S s = (st0, c, s0)" by (cases "CheckAndCancelUpdate S s")
  show ?thesis
  proof (cases "mFmpLibInitialized g \<and> st0 = EFI_SUCCESS \<and> \<not> c \<and> FwPackageValidateHeader Header = Some EFI_SUCCESS
      \<and> PackageType Header = Some FW_PACKAGE_TYPE_FW \<and> FwPackageValidateImageInfoArray Header = Some EFI_SUCCESS")
    case False
    with assms can show ?thesis
      by (auto simp: FmpTegraCheckImage_def bind_eq_Some_conv split: if_splits)
  next
    case True
    with assms can obtain Count where Count: "ImageCount Header = Some Count"
      by (cases "ImageCount Header") (auto simp: FmpTegraCheckImage_def)
    let ?m = "Count = 1 \<or> PcdFmpMultiImageMinimalUpdate S"
    show ?thesis
    proof (cases "Count = 1 \<and> \<not> mPcdFmpSingleImageUpdate g \<and> \<not> PcdFmpMultiImageMinimalUpdate S")
      case single: True
      with True assms can Count show ?thesis by (auto simp: FmpTegraCheckImage_def)
    next
      case False
      with True assms can Count have call: "CheckImages I Header ImageSize ?m g s0 = Some (st, Updatable, Last, g', s')"
        by (auto simp: FmpTegraCheckImage_def bind_eq_Some_conv Let_def)
      note res = CheckImages_result [OF call]
      have "\<not> (mFmpLibInitialized g \<and> (EFI_ERROR (fst (CheckAndCancelUpdate S s)) \<or> fst (snd (CheckAndCancelUpdate S s))))"
        using True can by simp
      moreover have "\<exists>s0. CheckAndCancelUpdate S s = (EFI_SUCCESS, False, s0)" using True can by simp
      ultimately show ?thesis
      proof (intro conjI impI)
        assume "st = EFI_SUCCESS"
        with res obtain Images where Images: "FmpImageArray I = Some Images"
            "CheckImagesLoop I Header ImageSize ?m g' s' Images = Some None"
            "\<not> ?m \<longrightarrow> RequiredProtocolsMissing I g' = Some False" by blast
        have "\<forall>(n, i) \<in> set Images. \<not> (?m \<and> n \<in> set MinimalUnsupportedImageNames) \<longrightarrow>
            image_checked I Header ImageSize ?m g' s' n i"
          using CheckImagesLoop_checked [OF Images(2)] by blast
        with Images Count show "\<exists>Images Count m. FmpImageArray I = Some Images \<and> ImageCount Header = Some Count
              \<and> m = (Count = 1 \<or> PcdFmpMultiImageMinimalUpdate S)
              \<and> (\<forall>(n, i) \<in> set Images. \<not> (m \<and> n \<in> set MinimalUnsupportedImageNames) \<longrightarrow>
                   image_checked I Header ImageSize m g' s' n i)
              \<and> (\<not> m \<longrightarrow> RequiredProtocolsMissing I g' = Some False)" by blast
      qed (use True res in blast)+
    qed
  qed
qed

text \<open>The package of the example is accepted.\<close>

lemma AsciiStrnCmp_drop_same:
  "drop i b = t @ r \<Longrightarrow> 0 \<notin> set t \<Longrightarrow> AsciiStrnCmpIsZero b i t (length t) = Some True"
  proof (induction t arbitrary: i)
  case (Cons a t)
  from load8_at [of i b a "t @ r"] Cons.prems(1) have "load8 b i = Some a" "drop (Suc i) b = t @ r" by simp_all
  with Cons.IH [of "Suc i"] Cons.prems(2) show ?case by (simp add: load8_def)
qed simp

lemma tinyPackage_valid:
  "FwPackageValidateHeader tinyPackage = Some EFI_SUCCESS" "PackageType tinyPackage = Some FW_PACKAGE_TYPE_FW"
  "FwPackageValidateImageInfoArray tinyPackage = Some EFI_SUCCESS"
proof -
  have d: "drop 0 tinyPackage = FW_PACKAGE_MAGIC @ drop 16 tinyPackage"
    "drop 20 tinyPackage = [0x9C, 1, 0, 0] @ drop 24 tinyPackage" "drop 32 tinyPackage = [0, 0, 0, 0] @ drop 36 tinyPackage"
    by (simp_all add: tinyPackage_def tinyRecord_def FW_PACKAGE_MAGIC_def)
  have "0 \<notin> set FW_PACKAGE_MAGIC" "length FW_PACKAGE_MAGIC = FW_PACKAGE_MAGIC_SIZE"
    by (simp_all add: FW_PACKAGE_MAGIC_def FW_PACKAGE_MAGIC_SIZE_def)
  with AsciiStrnCmp_drop_same [OF d(1)] have magic: "AsciiStrnCmpIsZero tinyPackage 0 FW_PACKAGE_MAGIC FW_PACKAGE_MAGIC_SIZE = Some True"
    by simp
  have w: "load32 tinyPackage 20 = Some 412" "load32 tinyPackage 32 = Some 0"
    using d(2,3) by (simp_all add: load32_at)
  have len: "length tinyPackage = 412" by (simp add: tinyPackage_def tinyRecord_def FW_PACKAGE_MAGIC_def)
  have b: "tinyPackage ! 36 = 0x6D" "tinyPackage ! 37 = 0x62" "tinyPackage ! 38 = 0x31" "tinyPackage ! 39 = 0"
    "tinyPackage ! 220 = 0x78" "tinyPackage ! 221 = 0"
    using tinyPackage_bytes len by (simp_all add: load8_def)
  have c: "CString tinyPackage 36 = Some [0x6D, 0x62, 0x31]" "CString tinyPackage 220 = Some [0x78]"
    by (simp_all add: CString.simps [of _ 36] CString.simps [of _ 37] CString.simps [of _ 38] CString.simps [of _ 39]
        CString.simps [of _ 220] CString.simps [of _ 221] len b)
  show "PackageType tinyPackage = Some FW_PACKAGE_TYPE_FW" by (simp add: PackageType_def w FW_PACKAGE_TYPE_FW_def)
  show "FwPackageValidateHeader tinyPackage = Some EFI_SUCCESS"
    by (simp add: FwPackageValidateHeader_def magic PackageSize_def HeaderSize_def FwPackageImageInfoArraySize_def
        tinyPackage_fields tinyPackage_words w SIZE_OF_IMAGE_INFO_def PackageType_def FW_PACKAGE_TYPE_FW_def)
  show "FwPackageValidateImageInfoArray tinyPackage = Some EFI_SUCCESS"
    by (simp add: FwPackageValidateImageInfoArray_def PackageSize_def HeaderSize_def FwPackageImageInfoArraySize_def
        tinyPackage_fields tinyPackage_words w SIZE_OF_IMAGE_INFO_def upt_rec FwPackageValidateImageInfo_def c
        FW_PACKAGE_NAME_LENGTH_def ImageUpdateMode_def FW_PACKAGE_UPDATE_MODE_ALWAYS_def ImageOffset_def ImageBytes_def)
qed

theorem FmpTegraCheckImage_sound_witness:
  "\<exists>g' s'. FmpTegraCheckImage (tinyFmp exampleServices False 2) tinyServices (Some tinyPackage) 412 True tinyGlobals
        (tinyWorld tinyMemory) = Some (EFI_SUCCESS, Some (IMAGE_UPDATABLE_VALID, LAST_ATTEMPT_STATUS_SUCCESS), g', s')
    \<and> image_checked (tinyFmp exampleServices False 2) tinyPackage 412 False g' s' (W ''x'') 1"
proof -
  let ?I = "tinyFmp exampleServices False 2"
  let ?s = "tinyWorld tinyMemory"
  have loop: "CheckImagesLoop ?I tinyPackage 412 False tinyGlobals ?s [(W ''mb1'', 0), (W ''x'', 1)] = Some None"
    by (simp add: tinyFmp_index tinyPackage_data tiny_get_attributes)
  have "UpdateMetaData ?I tinyPackage False tinyGlobals ?s = Some (EFI_SUCCESS, tinyGlobals, ?s)"
    by (simp add: UpdateMetaData_def GptInPackage_def tinyFmp_find)
  moreover have required: "mFwImagesRequiredCount tinyGlobals = 0" by (simp add: tinyGlobals_def)
  ultimately have ci: "CheckImages ?I tinyPackage 412 False tinyGlobals ?s
      = Some (EFI_SUCCESS, IMAGE_UPDATABLE_VALID, LAST_ATTEMPT_STATUS_SUCCESS, tinyGlobals, ?s)"
    using loop by (simp add: CheckImages_def tinyFmp_array RequiredProtocolsMissing_def required del: CheckImagesLoop.simps)
  have svc: "CheckAndCancelUpdate tinyServices ?s = (EFI_SUCCESS, False, ?s)" "\<not> PcdFmpMultiImageMinimalUpdate tinyServices"
    by (simp_all add: tinyServices_def)
  have init: "mFmpLibInitialized tinyGlobals" by (simp add: tinyGlobals_def)
  have run: "FmpTegraCheckImage ?I tinyServices (Some tinyPackage) 412 True tinyGlobals ?s
      = Some (EFI_SUCCESS, Some (IMAGE_UPDATABLE_VALID, LAST_ATTEMPT_STATUS_SUCCESS), tinyGlobals, ?s)"
    using ci svc init by (simp add: FmpTegraCheckImage_def tinyPackage_valid tinyPackage_fields)
  from FmpTegraCheckImage_sound [OF run] obtain Images where "FmpImageArray ?I = Some Images"
      "\<forall>(n, i) \<in> set Images. image_checked ?I tinyPackage 412 False tinyGlobals ?s n i"
    using svc(2) by (auto simp: tinyPackage_fields)
  then have "image_checked ?I tinyPackage 412 False tinyGlobals ?s (W ''x'') 1" by (auto simp: tinyFmp_array)
  with run show ?thesis by blast
qed

section \<open>The production fuse\<close>

lemma fields_SkipField: "DASH \<in> set s \<Longrightarrow> FwPackage.fields (SkipField s) = tl (FwPackage.fields s)"
  by (induction s rule: SkipField.induct) auto

lemma SkipField_none: "DASH \<notin> set s \<Longrightarrow> SkipField s = []"
  by (induction s rule: SkipField.induct) auto

lemma fields_dash: "DASH \<in> set s \<longleftrightarrow> 1 < length (FwPackage.fields s)"
  by (simp add: length_fields) (metis (mono_tags, lifting) filter_empty_conv)

lemma SkipField_fields: "n < length (FwPackage.fields s) \<Longrightarrow> FwPackage.fields ((SkipField ^^ n) s) = drop n (FwPackage.fields s)"
proof (induction n)
  case (Suc n)
  then have f: "FwPackage.fields ((SkipField ^^ n) s) = drop n (FwPackage.fields s)" by simp
  with Suc.prems have "DASH \<in> set ((SkipField ^^ n) s)" by (simp add: fields_dash)
  from fields_SkipField [OF this] f show ?case by (simp add: drop_Suc tl_drop)
qed simp

lemma SkipField_beyond: "length (FwPackage.fields s) \<le> n \<Longrightarrow> (SkipField ^^ n) s = []"
proof (induction n)
  case (Suc n)
  show ?case
  proof (cases "length (FwPackage.fields s) \<le> n")
    case True
    with Suc.IH show ?thesis by simp
  next
    case False
    with Suc.prems have "n < length (FwPackage.fields s)" "length (drop n (FwPackage.fields s)) = 1" by simp_all
    with SkipField_fields [of n s] have "DASH \<notin> set ((SkipField ^^ n) s)" by (simp add: fields_dash)
    with SkipField_none show ?thesis by simp
  qed
qed simp

lemma starts_with_field: "(\<exists>r. s = 0x30 # DASH # r) \<longleftrightarrow> (\<exists>f fs. FwPackage.fields s = [0x30] # f # fs)"
proof
  assume "\<exists>f fs. FwPackage.fields s = [0x30] # f # fs"
  then obtain f fs where f: "FwPackage.fields s = [0x30] # f # fs" by blast
  have nd: "(0x30 :: byte) \<noteq> DASH" by (simp add: DASH_def)
  from f obtain c t where s: "s = c # t" by (cases s) auto
  with f have c: "c = 0x30" "c \<noteq> DASH" "hd (FwPackage.fields t) = []" "tl (FwPackage.fields t) = f # fs" by (auto split: if_splits)
  then obtain d u where t: "t = d # u" by (cases t) auto
  with c have "d = DASH" by (auto split: if_splits)
  with s t c show "\<exists>r. s = 0x30 # DASH # r" by simp
next
  assume "\<exists>r. s = 0x30 # DASH # r"
  then obtain r where s: "s = 0x30 # DASH # r" ..
  have "FwPackage.fields r \<noteq> []" by simp
  then obtain f fs where "FwPackage.fields r = f # fs" by (cases "FwPackage.fields r") auto
  with s show "\<exists>f fs. FwPackage.fields s = [0x30] # f # fs" by (simp add: DASH_def)
qed

text \<open>
  A device counts as one without the production fuse exactly when its specification has at least six
  fields and the fifth one is \<open>0\<close>; a missing specification counts as production.
\<close>

theorem GetFuseSettings_fields:
  "mIsProductionFused (snd (GetFuseSettings V g)) \<longleftrightarrow>
     \<not> (SpecSizeStatus V = EFI_BUFFER_TOO_SMALL \<and> SpecAllocated V \<and> SpecStatus V = EFI_SUCCESS
        \<and> 5 < length (FwPackage.fields (SpecString V)) \<and> FwPackage.fields (SpecString V) ! 4 = [0x30])"
proof -
  let ?s = "SpecString V"
  have four: "SkipField (SkipField (SkipField (SkipField ?s))) = (SkipField ^^ 4) ?s"
    by (simp add: numeral_eq_Suc)
  have "(\<exists>r. (SkipField ^^ 4) ?s = 0x30 # DASH # r) \<longleftrightarrow> 5 < length (FwPackage.fields ?s) \<and> FwPackage.fields ?s ! 4 = [0x30]"
  proof (cases "4 < length (FwPackage.fields ?s)")
    case True
    then have "FwPackage.fields ((SkipField ^^ 4) ?s) = FwPackage.fields ?s ! 4 # drop 5 (FwPackage.fields ?s)"
      using SkipField_fields [OF True] Cons_nth_drop_Suc [OF True] by simp
    then show ?thesis unfolding starts_with_field
      by (cases "drop 5 (FwPackage.fields ?s)") (auto simp: not_less dest: arg_cong [of _ _ length])
  next
    case False
    with SkipField_beyond [of ?s 4] show ?thesis by simp
  qed
  then show ?thesis unfolding GetFuseSettings_def four Let_def by (simp split: if_splits)
qed

end
