(* ===== verification/FwPartitionMm.thy ===== *)
theory FwPartitionMm
  imports BrBctUpdate
begin

text \<open>
  Firmware partitions whose flash belongs to the management mode (\<open>FwPartitionMmDxe\<close>). The driver of
  the boot phase, \<open>FwPartitionMmDxe.c\<close>, registers the partitions and passes every read and write on as a
  message, which \<open>FwPartitionMmComm.c\<close> builds in a communication buffer; in the management mode
  \<open>FwPartitionStandaloneMm.c\<close> handles the message on a registry of its own, which
  \<open>FwPartitionNorFlashStmm.c\<close> fills from the flash.

  The buffer is a record of its header fields and the bytes behind them; the transport between the two
  sides, \<open>Communicate\<close>, is a parameter. Reading past the buffer, a failed \<open>ASSERT\<close> and the call of a null
  function pointer have no result. \<open>NV_ASSERT_RETURN\<close> is taken as in the builds without debug code.
\<close>

section \<open>Messages\<close>

definition FW_PARTITION_COMM_BUFFER_SIZE :: nat where "FW_PARTITION_COMM_BUFFER_SIZE = 65 * 1024"
definition FW_PARTITION_COMM_HEADER_SIZE :: nat where "FW_PARTITION_COMM_HEADER_SIZE = 16"
definition FW_PARTITION_COMM_FUNCTION_NOOP :: nat where "FW_PARTITION_COMM_FUNCTION_NOOP = 0"
definition FW_PARTITION_COMM_FUNCTION_INITIALIZE :: nat where "FW_PARTITION_COMM_FUNCTION_INITIALIZE = 1"
definition FW_PARTITION_COMM_FUNCTION_GET_PARTITIONS :: nat where "FW_PARTITION_COMM_FUNCTION_GET_PARTITIONS = 2"
definition FW_PARTITION_COMM_FUNCTION_READ_DATA :: nat where "FW_PARTITION_COMM_FUNCTION_READ_DATA = 3"
definition FW_PARTITION_COMM_FUNCTION_WRITE_DATA :: nat where "FW_PARTITION_COMM_FUNCTION_WRITE_DATA = 4"
definition MAX_FW_PARTITIONS :: nat where "MAX_FW_PARTITIONS = 80"

lemmas comm_functions [codes] = FW_PARTITION_COMM_FUNCTION_INITIALIZE_def
  FW_PARTITION_COMM_FUNCTION_GET_PARTITIONS_def FW_PARTITION_COMM_FUNCTION_READ_DATA_def
  FW_PARTITION_COMM_FUNCTION_WRITE_DATA_def

text \<open>
  \<open>CommMessageLength\<close> is a field of \<open>EFI_MM_COMMUNICATE_HEADER\<close>, which precedes the header of this
  protocol; the others are that header and all bytes behind it.
\<close>

record FW_PARTITION_COMM_HEADER =
  CommMessageLength :: nat
  CommFunction :: nat
  CommReturnStatus :: EFI_STATUS
  CommData :: "byte list"

text \<open>Sizes and offsets with 64-bit integers and pointers.\<close>

definition OFFSET_MM_COMMUNICATE_Data :: nat where "OFFSET_MM_COMMUNICATE_Data = 24"
definition SIZE_OF_COMM_HEADER :: nat where "SIZE_OF_COMM_HEADER = 24"
definition SIZE_OF_COMM_INITIALIZE :: nat where "SIZE_OF_COMM_INITIALIZE = 24"
definition SIZE_OF_COMM_GET_PARTITIONS :: nat where "SIZE_OF_COMM_GET_PARTITIONS = 104"
definition OFFSET_Partitions :: nat where "OFFSET_Partitions = 24"
definition SIZE_OF_MM_PARTITION_INFO :: nat where "SIZE_OF_MM_PARTITION_INFO = 80"
definition SIZE_OF_COMM_READ_WRITE :: nat where "SIZE_OF_COMM_READ_WRITE = 96"
definition SIZE_OF_COMM_Name :: nat where "SIZE_OF_COMM_Name = 72"
definition OFFSET_COMM_Data :: nat where "OFFSET_COMM_Data = 88"

lemmas comm_layout [layout] = FW_PARTITION_COMM_BUFFER_SIZE_def FW_PARTITION_COMM_HEADER_SIZE_def
  OFFSET_MM_COMMUNICATE_Data_def SIZE_OF_COMM_HEADER_def SIZE_OF_COMM_INITIALIZE_def
  SIZE_OF_COMM_GET_PARTITIONS_def OFFSET_Partitions_def SIZE_OF_MM_PARTITION_INFO_def
  SIZE_OF_COMM_READ_WRITE_def SIZE_OF_COMM_Name_def OFFSET_COMM_Data_def

definition bytes64 :: "nat \<Rightarrow> byte list" where
  "bytes64 v = bytes32 v @ bytes32 (v div 2 ^ 32)"

text \<open>A string of UTF-16 characters with its terminating zero.\<close>

definition NameBytes :: "wstring \<Rightarrow> byte list" where
  "NameBytes Name' = concat (map (\<lambda>c. bytes16 (unat c)) (Name' @ [0]))"

section \<open>Sending\<close>

definition MmInitCommBuffer ::
  "nat \<Rightarrow> nat \<Rightarrow> FW_PARTITION_COMM_HEADER \<Rightarrow> EFI_STATUS \<times> FW_PARTITION_COMM_HEADER" where
  "MmInitCommBuffer DataSize Function C =
     (if add64 (add64 DataSize OFFSET_MM_COMMUNICATE_Data) FW_PARTITION_COMM_HEADER_SIZE > FW_PARTITION_COMM_BUFFER_SIZE
      then (EFI_INVALID_PARAMETER, C)
      else (EFI_SUCCESS, C\<lparr>CommMessageLength := add64 DataSize FW_PARTITION_COMM_HEADER_SIZE,
              CommFunction := Function, CommReturnStatus := EFI_PROTOCOL_ERROR\<rparr>))"

text \<open>
  The communication protocols: size of the message, the buffer, and the world behind them, with the
  status of the transport. The one for the PRM phase may be null.
\<close>

type_synonym 's COMMUNICATE =
  "nat \<Rightarrow> FW_PARTITION_COMM_HEADER \<Rightarrow> 's \<Rightarrow> (EFI_STATUS \<times> FW_PARTITION_COMM_HEADER \<times> 's) option"

record 's MM_COMM_SERVICES =
  MmStrings :: EDK2_STRINGS
  mMmCommProtocol :: "'s COMMUNICATE"
  mMmPrmCommProtocol :: "'s COMMUNICATE option"

definition SendThrough ::
  "'s COMMUNICATE \<Rightarrow> nat \<Rightarrow> FW_PARTITION_COMM_HEADER \<Rightarrow> 's \<Rightarrow> (EFI_STATUS \<times> FW_PARTITION_COMM_HEADER \<times> 's) option" where
  "SendThrough Communicate DataSize C s = do {
     (Status, C, s) \<leftarrow>
       Communicate (add64 (add64 DataSize OFFSET_MM_COMMUNICATE_Data) FW_PARTITION_COMM_HEADER_SIZE) C s;
     Some (if EFI_ERROR Status then Status else CommReturnStatus C, C, s) }"

definition MmSendCommBuffer ::
  "'s MM_COMM_SERVICES \<Rightarrow> nat \<Rightarrow> FW_PARTITION_COMM_HEADER \<Rightarrow> 's \<Rightarrow> (EFI_STATUS \<times> FW_PARTITION_COMM_HEADER \<times> 's) option" where
  "MmSendCommBuffer M DataSize C s = SendThrough (mMmCommProtocol M) DataSize C s"

definition MmPrmSendCommBuffer ::
  "'s MM_COMM_SERVICES \<Rightarrow> nat \<Rightarrow> FW_PARTITION_COMM_HEADER \<Rightarrow> 's \<Rightarrow> (EFI_STATUS \<times> FW_PARTITION_COMM_HEADER \<times> 's) option" where
  "MmPrmSendCommBuffer M DataSize C s =
     (case mMmPrmCommProtocol M of
        None \<Rightarrow> Some (EFI_UNSUPPORTED, C, s)
      | Some Communicate \<Rightarrow> SendThrough Communicate DataSize C s)"

definition MmSendInitialize ::
  "'s MM_COMM_SERVICES \<Rightarrow> nat \<Rightarrow> bool \<Rightarrow> nat \<Rightarrow> FW_PARTITION_COMM_HEADER \<Rightarrow> 's
   \<Rightarrow> (EFI_STATUS \<times> FW_PARTITION_COMM_HEADER \<times> 's) option" where
  "MmSendInitialize M ActiveBootChain Overwrite ChipId C s =
     (case MmInitCommBuffer SIZE_OF_COMM_INITIALIZE FW_PARTITION_COMM_FUNCTION_INITIALIZE C of (Status, C) \<Rightarrow>
        if EFI_ERROR Status then Some (Status, C, s)
        else do {
          Data \<leftarrow> store_bytes (CommData C) 0
            (bytes64 ActiveBootChain @ [if Overwrite then 1 else 0] @ replicate 7 0 @ bytes64 ChipId);
          MmSendCommBuffer M SIZE_OF_COMM_INITIALIZE (C\<lparr>CommData := Data\<rparr>) s })"

text \<open>The last results are the erase block size of the boot configuration table, the count and the bytes of the array.\<close>

definition MmSendGetPartitions ::
  "'s MM_COMM_SERVICES \<Rightarrow> nat \<Rightarrow> FW_PARTITION_COMM_HEADER \<Rightarrow> 's
   \<Rightarrow> (EFI_STATUS \<times> FW_PARTITION_COMM_HEADER \<times> 's \<times> (nat \<times> nat \<times> byte list) option) option" where
  "MmSendGetPartitions M MaxCount C s =
     (let PayloadSize = add64 (MaxCount * SIZE_OF_MM_PARTITION_INFO mod 2 ^ 64) OFFSET_Partitions in
      case MmInitCommBuffer PayloadSize FW_PARTITION_COMM_FUNCTION_GET_PARTITIONS C of (Status, C) \<Rightarrow>
        if EFI_ERROR Status then Some (Status, C, s, None)
        else do {
          Data \<leftarrow> store_bytes (CommData C) 0 (replicate SIZE_OF_COMM_GET_PARTITIONS 0);
          Data \<leftarrow> store_bytes Data 0 (bytes64 MaxCount);
          (Status, C, s) \<leftarrow> MmSendCommBuffer M PayloadSize (C\<lparr>CommData := Data\<rparr>) s;
          if EFI_ERROR Status then Some (Status, C, s, None)
          else do {
            BrBctEraseBlockSize \<leftarrow> load64 (CommData C) 8;
            Count \<leftarrow> load64 (CommData C) 16;
            if \<not> Count \<le> MaxCount then Some (EFI_INVALID_PARAMETER, C, s, None)
            else do {
              Infos \<leftarrow> load_bytes (CommData C) OFFSET_Partitions (Count * SIZE_OF_MM_PARTITION_INFO);
              Some (Status, C, s, Some (BrBctEraseBlockSize, Count, Infos)) } } })"

text \<open>
  The head of a message that reads or writes: the buffer with name, offset and length in it. The number
  of characters for the name is the size of its field in bytes.
\<close>

definition FillReadWrite ::
  "EDK2_STRINGS \<Rightarrow> wstring \<Rightarrow> nat \<Rightarrow> nat \<Rightarrow> FW_PARTITION_COMM_HEADER
   \<Rightarrow> (EFI_STATUS \<times> FW_PARTITION_COMM_HEADER) option" where
  "FillReadWrite L Name' Offset' Bytes' C = do {
     Data \<leftarrow> store_bytes (CommData C) 0 (replicate SIZE_OF_COMM_READ_WRITE 0);
     (case StrnCpyS L SIZE_OF_COMM_Name Name' (length Name') [] of (Status, Copied) \<Rightarrow>
        if EFI_ERROR Status then Some (Status, C\<lparr>CommData := Data\<rparr>)
        else do {
          Data \<leftarrow> store_bytes Data 0 (NameBytes Copied);
          Data \<leftarrow> store_bytes Data 72 (bytes64 Offset' @ bytes64 Bytes');
          Some (EFI_SUCCESS, C\<lparr>CommData := Data\<rparr>) }) }"

text \<open>\<open>Buffer\<close> and \<open>p\<close> are the caller's buffer and the offset of the pointer in it.\<close>

definition MmSendReadData ::
  "'s MM_COMM_SERVICES \<Rightarrow> wstring \<Rightarrow> nat \<Rightarrow> nat \<Rightarrow> byte list \<Rightarrow> nat \<Rightarrow> bool \<Rightarrow> FW_PARTITION_COMM_HEADER \<Rightarrow> 's
   \<Rightarrow> (EFI_STATUS \<times> byte list \<times> FW_PARTITION_COMM_HEADER \<times> 's) option" where
  "MmSendReadData M Name' Offset' Bytes' Buffer p IsMmPrm C s =
     (let PayloadSize = add64 OFFSET_COMM_Data Bytes' in
      case MmInitCommBuffer PayloadSize FW_PARTITION_COMM_FUNCTION_READ_DATA C of (Status, C) \<Rightarrow>
        if EFI_ERROR Status then Some (Status, Buffer, C, s)
        else do {
          (Status, C) \<leftarrow> FillReadWrite (MmStrings M) Name' Offset' Bytes' C;
          if EFI_ERROR Status then Some (Status, Buffer, C, s)
          else do {
            (Status, C, s) \<leftarrow> (if IsMmPrm then MmPrmSendCommBuffer M PayloadSize C s
                               else MmSendCommBuffer M PayloadSize C s);
            if EFI_ERROR Status then Some (Status, Buffer, C, s)
            else do {
              Data \<leftarrow> load_bytes (CommData C) OFFSET_COMM_Data Bytes';
              Buffer \<leftarrow> store_bytes Buffer p Data;
              Some (EFI_SUCCESS, Buffer, C, s) } } })"

definition MmSendWriteData ::
  "'s MM_COMM_SERVICES \<Rightarrow> wstring \<Rightarrow> nat \<Rightarrow> nat \<Rightarrow> byte list \<Rightarrow> FW_PARTITION_COMM_HEADER \<Rightarrow> 's
   \<Rightarrow> (EFI_STATUS \<times> FW_PARTITION_COMM_HEADER \<times> 's) option" where
  "MmSendWriteData M Name' Offset' Bytes' Buffer C s =
     (let PayloadSize = add64 OFFSET_COMM_Data Bytes' in
      case MmInitCommBuffer PayloadSize FW_PARTITION_COMM_FUNCTION_WRITE_DATA C of (Status, C) \<Rightarrow>
        if EFI_ERROR Status then Some (Status, C, s)
        else do {
          (Status, C) \<leftarrow> FillReadWrite (MmStrings M) Name' Offset' Bytes' C;
          if EFI_ERROR Status then Some (Status, C, s)
          else do {
            New \<leftarrow> load_bytes Buffer 0 Bytes';
            Data \<leftarrow> store_bytes (CommData C) OFFSET_COMM_Data New;
            MmSendCommBuffer M PayloadSize (C\<lparr>CommData := Data\<rparr>) s } })"

section \<open>The flash of the management mode\<close>

definition MAX_STMM_NOR_FLASH_DEVICES :: nat where "MAX_STMM_NOR_FLASH_DEVICES = 16"

datatype NOR_FLASH_TYPE = NOR_FLASH_TYPE_FW_AND_DATA | NOR_FLASH_TYPE_DATA_ONLY | NOR_FLASH_TYPE_FW_ONLY

text \<open>The fields that the driver of the boot phase has too, and the two that only this one has.\<close>

record 'w STMM_NOR_FLASH_INFO =
  StmmNorInfo :: "'w FW_PARTITION_NOR_FLASH_INFO"
  StmmSocketId :: nat
  StmmFlashType :: NOR_FLASH_TYPE

text \<open>The access functions have the bodies of those in \<open>FwPartitionNorFlashDxe.c\<close>.\<close>

definition StmmNorFlashErase ::
  "'w STMM_NOR_FLASH_INFO \<Rightarrow> nat \<Rightarrow> nat \<Rightarrow> 'w \<Rightarrow> (EFI_STATUS \<times> 'w) option" where
  "StmmNorFlashErase I Offset' Bytes' w = FPNorFlashErase (StmmNorInfo I) Offset' Bytes' w"

definition StmmNorFlashRead ::
  "'w STMM_NOR_FLASH_INFO \<Rightarrow> nat \<Rightarrow> nat \<Rightarrow> byte list \<Rightarrow> 'w \<Rightarrow> (EFI_STATUS \<times> byte list \<times> 'w) option" where
  "StmmNorFlashRead I Offset' Bytes' Buffer w = FPNorFlashRead (StmmNorInfo I) Offset' Bytes' Buffer w"

definition StmmNorFlashWrite ::
  "'w STMM_NOR_FLASH_INFO \<Rightarrow> nat \<Rightarrow> nat \<Rightarrow> byte list \<Rightarrow> 'w \<Rightarrow> (EFI_STATUS \<times> 'w) option" where
  "StmmNorFlashWrite I Offset' Bytes' Buffer w = FPNorFlashWrite (StmmNorInfo I) Offset' Bytes' Buffer w"

text \<open>What the services and the flash return for a handle; the socket is the value of its protocol.\<close>

record 'w STMM_NOR_HANDLE =
  StmmNorProtocol :: "EFI_STATUS \<times> 'w NOR_FLASH_PROTOCOL option"
  StmmNorGetAttributes :: "EFI_STATUS \<times> NOR_FLASH_ATTRIBUTES"
  StmmSocketIdProtocol :: "EFI_STATUS \<times> nat option"

primrec StmmHandlesLoop ::
  "nat \<Rightarrow> NOR_FLASH_TYPE \<Rightarrow> 'w STMM_NOR_HANDLE list \<Rightarrow> 'w STMM_NOR_FLASH_INFO list
   \<Rightarrow> 'w STMM_NOR_FLASH_INFO list option" where
  "StmmHandlesLoop ActiveBootChain FlashType [] Devices = Some Devices"
| "StmmHandlesLoop ActiveBootChain FlashType (H # Hs) Devices =
     (case (StmmNorProtocol H, StmmSocketIdProtocol H) of
        ((Status, Some N), (SocketStatus, SocketIdProtocol)) \<Rightarrow>
          if EFI_ERROR Status \<or> EFI_ERROR (fst (StmmNorGetAttributes H))
          then StmmHandlesLoop ActiveBootChain FlashType Hs Devices
          else (case SocketIdProtocol of
              None \<Rightarrow> StmmHandlesLoop ActiveBootChain FlashType Hs Devices
            | Some Socket \<Rightarrow>
                if EFI_ERROR SocketStatus then StmmHandlesLoop ActiveBootChain FlashType Hs Devices
                else if length Devices \<ge> MAX_STMM_NOR_FLASH_DEVICES then Some Devices
                else do {
                  Info \<leftarrow> NorFlashInfo ActiveBootChain N (snd (StmmNorGetAttributes H));
                  StmmHandlesLoop ActiveBootChain FlashType Hs
                    (Devices @ [\<lparr> StmmNorInfo = Info, StmmSocketId = Socket mod 2 ^ 8,
                                  StmmFlashType = FlashType \<rparr>]) })
      | ((Status, None), _) \<Rightarrow> StmmHandlesLoop ActiveBootChain FlashType Hs Devices)"

text \<open>The buffer for the handles holds \<open>MAX_NOR_FLASH_DEVICES\<close>; with more handles the call fails.\<close>

definition StmmNorFlashInitDevices ::
  "nat \<Rightarrow> NOR_FLASH_TYPE \<Rightarrow> EFI_STATUS \<times> 'w STMM_NOR_HANDLE list \<Rightarrow> 'w STMM_NOR_FLASH_INFO list
   \<Rightarrow> (EFI_STATUS \<times> 'w STMM_NOR_FLASH_INFO list) option" where
  "StmmNorFlashInitDevices ActiveBootChain FlashType Located Devices =
     (case Located of (Status, Handles) \<Rightarrow>
        if EFI_ERROR Status then Some (Status, Devices)
        else do {
          Devices \<leftarrow> StmmHandlesLoop ActiveBootChain FlashType Handles Devices;
          Some (EFI_SUCCESS, Devices) })"

text \<open>The devices as \<open>FwPartitionDeviceLib\<close> calls them. The erase block size is never set.\<close>

definition StmmDeviceOps :: "'w STMM_NOR_FLASH_INFO list \<Rightarrow> 'w DEVICE_OPS" where
  "StmmDeviceOps Devices =
     \<lparr> DeviceRead = (\<lambda>d PartitionName Offset' Bytes' Buffer w.
         if d < length Devices then StmmNorFlashRead (Devices ! d) Offset' Bytes' Buffer w else None),
       DevicePrmRead = (\<lambda>d PartitionName Offset' Bytes' Buffer w. None),
       DeviceWrite = (\<lambda>d PartitionName Offset' Bytes' Buffer w.
         if d < length Devices then StmmNorFlashWrite (Devices ! d) Offset' Bytes' Buffer w else None),
       DeviceBlockSize = (\<lambda>d. NorBlockSize (NorAttributes (StmmNorInfo (Devices ! d)))),
       DeviceEraseBlockSize = (\<lambda>d. 0) \<rparr>"

text \<open>
  What the initialization finds: the boot chain the secure boot loader reports, the chain of the
  partition table, the settings, the pool, and the handles of the two flash protocols.
\<close>

record 'w STMM_INIT =
  StmmGetActiveBootChain :: "EFI_STATUS \<times> nat"
  StmmGetBootChainForGpt :: nat
  PcdDataOnlyFlashIsSupported :: bool
  PcdFwBlobIsSupported :: bool
  StmmInfoAllocated :: bool
  StmmNorFlash2 :: "EFI_STATUS \<times> 'w STMM_NOR_HANDLE list"
  StmmNorFlash :: "EFI_STATUS \<times> 'w STMM_NOR_HANDLE list"
  StmmPartitionData :: "CPUBL_PARTITION \<Rightarrow> EFI_STATUS \<times> nat \<times> nat"

text \<open>
  The partitions of one device on the first socket. \<open>Status\<close> is what is left in the variable of that
  name, which no step but the next one looks at.
\<close>

definition StmmAddDevice ::
  "EDK2_SERVICES \<Rightarrow> PLATFORM \<Rightarrow> 'w STMM_INIT \<Rightarrow> 'w STMM_NOR_FLASH_INFO list \<Rightarrow> nat \<Rightarrow> EFI_STATUS
   \<Rightarrow> FW_PARTITION_GLOBALS \<Rightarrow> 'w \<Rightarrow> (EFI_STATUS \<times> FW_PARTITION_GLOBALS \<times> 'w) option" where
  "StmmAddDevice S P V Devices d Status G w =
     (let I = Devices ! d; Size = NorBytes (StmmNorInfo I); Type' = StmmFlashType I in
      if StmmSocketId I \<noteq> 0 then Some (Status, G, w)
      else do {
        (Status, G, w) \<leftarrow> (if Type' = NOR_FLASH_TYPE_FW_AND_DATA
           then FwPartitionAddFromDeviceGpt S P (StmmDeviceOps Devices) G d Size w
           else Some (Status, G, w));
        (Status, G) \<leftarrow> (if Type' = NOR_FLASH_TYPE_DATA_ONLY
           then FwDeviceAddAsPartition S (StmmPartitionData V) G (W ''MM-NorFlash'') (Device d) 0 Size
           else Some (Status, G));
        (Status, G) \<leftarrow> (if PcdFwBlobIsSupported V \<and> Type' \<noteq> NOR_FLASH_TYPE_DATA_ONLY
           then FwDeviceAddAsPartition S (StmmPartitionData V) G (W ''NorFlash-Blob'') (Device d) 0 Size
           else Some (Status, G));
        Some (Status, G, w) })"

primrec StmmAddDevicesLoop ::
  "EDK2_SERVICES \<Rightarrow> PLATFORM \<Rightarrow> 'w STMM_INIT \<Rightarrow> 'w STMM_NOR_FLASH_INFO list \<Rightarrow> nat list \<Rightarrow> EFI_STATUS
   \<Rightarrow> FW_PARTITION_GLOBALS \<Rightarrow> 'w \<Rightarrow> (EFI_STATUS \<times> FW_PARTITION_GLOBALS \<times> 'w) option" where
  "StmmAddDevicesLoop S P V Devices [] Status G w = Some (Status, G, w)"
| "StmmAddDevicesLoop S P V Devices (d # ds) Status G w = do {
     (Status, G, w) \<leftarrow> StmmAddDevice S P V Devices d Status G w;
     StmmAddDevicesLoop S P V Devices ds Status G w }"

text \<open>The devices of the flash: those of firmware, where data has a flash of its own, and the others.\<close>

definition StmmFindDevices ::
  "'w STMM_INIT \<Rightarrow> nat \<Rightarrow> (EFI_STATUS \<times> 'w STMM_NOR_FLASH_INFO list) option" where
  "StmmFindDevices V ActiveBootChain = do {
     (_, Devices) \<leftarrow> (if PcdDataOnlyFlashIsSupported V \<and> PcdFwBlobIsSupported V
        then StmmNorFlashInitDevices ActiveBootChain NOR_FLASH_TYPE_FW_ONLY (StmmNorFlash2 V) []
        else Some (EFI_SUCCESS, []));
     StmmNorFlashInitDevices ActiveBootChain
       (if PcdDataOnlyFlashIsSupported V then NOR_FLASH_TYPE_DATA_ONLY else NOR_FLASH_TYPE_FW_AND_DATA)
       (StmmNorFlash V) Devices }"

text \<open>
  The state of the management mode: the devices, the registry, and the world with the flash. A second
  initialization after a successful one is not represented.
\<close>

record 'w STMM_STATE =
  mStmmDevices :: "'w STMM_NOR_FLASH_INFO list"
  mStmmPartitions :: FW_PARTITION_GLOBALS
  StmmWorld :: 'w

definition FwPartitionNorFlashStmmInitialize ::
  "EDK2_SERVICES \<Rightarrow> PLATFORM \<Rightarrow> 'w STMM_INIT \<Rightarrow> nat \<Rightarrow> bool \<Rightarrow> nat \<Rightarrow> 'w STMM_STATE
   \<Rightarrow> (EFI_STATUS \<times> 'w STMM_STATE) option" where
  "FwPartitionNorFlashStmmInitialize S P V ActiveBootChain Overwrite ChipId s =
     (let Chain = (case StmmGetActiveBootChain V of (Status, c) \<Rightarrow>
            if EFI_ERROR Status then u32 ActiveBootChain else c);
          Failed = (\<lambda>Status G w. Some (Status, s\<lparr>mStmmDevices := [],
            mStmmPartitions := FwPartitionDeviceLibDeinit G, StmmWorld := w\<rparr>)) in
      if Chain \<noteq> ActiveBootChain then Some (EFI_INVALID_PARAMETER, s)
      else if mStmmDevices s \<noteq> [] then None
      else do {
        (Status, G) \<leftarrow> FwPartitionDeviceLibInit S (mStmmPartitions s) ActiveBootChain MAX_FW_PARTITIONS
          Overwrite ChipId (StmmGetBootChainForGpt V);
        if EFI_ERROR Status then Some (Status, s\<lparr>mStmmPartitions := G\<rparr>)
        else if \<not> StmmInfoAllocated V then Failed EFI_OUT_OF_RESOURCES G (StmmWorld s)
        else do {
          (Status, Devices) \<leftarrow> StmmFindDevices V Chain;
          if EFI_ERROR Status then Failed Status G (StmmWorld s)
          else do {
            (Status, G, w) \<leftarrow> StmmAddDevicesLoop S P V Devices [0..<length Devices] Status G (StmmWorld s);
            if EFI_ERROR Status then Failed Status G w
            else Some (Status, s\<lparr>mStmmDevices := Devices, mStmmPartitions := G, StmmWorld := w\<rparr>) } } })"

section \<open>The handler in the management mode\<close>

text \<open>The loop that copies the partitions into the reply; the erase block size is that of the last \<open>BCT\<close>.\<close>

primrec CopyPartitionsLoop ::
  "'w DEVICE_OPS \<Rightarrow> FW_PARTITION_PRIVATE_DATA list \<Rightarrow> nat \<Rightarrow> byte list \<Rightarrow> nat \<Rightarrow> (byte list \<times> nat) option" where
  "CopyPartitionsLoop D [] p Data EraseBlockSize' = Some (Data, EraseBlockSize')"
| "CopyPartitionsLoop D (Partition # Ps) p Data EraseBlockSize' = do {
     let Info = PartitionInfo Partition;
     Data \<leftarrow> store_bytes Data p (NameBytes (Name Info));
     Data \<leftarrow> store_bytes Data (p + SIZE_OF_COMM_Name) (bytes64 (Bytes Info));
     CopyPartitionsLoop D Ps (p + SIZE_OF_MM_PARTITION_INFO) Data
       (if Name Info = W ''BCT''
        then (case DeviceInfo Partition of Device d \<Rightarrow> DeviceBlockSize D d | PseudoDevice _ \<Rightarrow> 1)
        else EraseBlockSize') }"

definition HandleGetPartitions ::
  "'w DEVICE_OPS \<Rightarrow> FW_PARTITION_GLOBALS \<Rightarrow> nat \<Rightarrow> FW_PARTITION_COMM_HEADER \<Rightarrow> FW_PARTITION_COMM_HEADER option" where
  "HandleGetPartitions D G PayloadSize C = do {
     MaxCount \<leftarrow> load64 (CommData C) 0;
     if PayloadSize \<noteq> add64 OFFSET_Partitions (MaxCount * SIZE_OF_MM_PARTITION_INFO mod 2 ^ 64)
     then Some (C\<lparr>CommReturnStatus := EFI_INVALID_PARAMETER\<rparr>)
     else if FwPartitionGetCount G > MaxCount then Some (C\<lparr>CommReturnStatus := EFI_BUFFER_TOO_SMALL\<rparr>)
     else do {
       (Data, EraseBlockSize') \<leftarrow>
         CopyPartitionsLoop D (FwPartitionGetPrivateArray G) OFFSET_Partitions (CommData C) 0;
       Data \<leftarrow> store_bytes Data 8 (bytes64 EraseBlockSize' @ bytes64 (FwPartitionGetCount G));
       Some (C\<lparr>CommData := Data, CommReturnStatus := EFI_SUCCESS\<rparr>) } }"

text \<open>
  A request to read or write: refused, or the partition with the offset on its device and the number
  of bytes. The name ends at the first zero character, wherever that is.
\<close>

definition LocateRequest ::
  "FW_PARTITION_GLOBALS \<Rightarrow> nat \<Rightarrow> FW_PARTITION_COMM_HEADER \<Rightarrow> (EFI_STATUS + FW_PARTITION_PRIVATE_DATA \<times> nat \<times> nat) option" where
  "LocateRequest G PayloadSize C =
     (if PayloadSize < SIZE_OF_COMM_READ_WRITE then Some (Inl EFI_INVALID_PARAMETER)
      else do {
        Bytes' \<leftarrow> load64 (CommData C) 80;
        if PayloadSize \<noteq> add64 OFFSET_COMM_Data Bytes' then Some (Inl EFI_INVALID_PARAMETER)
        else do {
          Name' \<leftarrow> StrAt (CommData C) 0;
          (case FwPartitionFindByName G Name' of
             None \<Rightarrow> Some (Inl EFI_NOT_FOUND)
           | Some i \<Rightarrow> do {
               Offset' \<leftarrow> load64 (CommData C) 72;
               let Partition = mPrivate G ! i;
               Some (Inr (Partition, add64 (Offset (PartitionInfo Partition)) Offset', Bytes')) }) } })"

text \<open>The pseudo device has a null read function.\<close>

definition HandleReadData ::
  "'w DEVICE_OPS \<Rightarrow> FW_PARTITION_GLOBALS \<Rightarrow> nat \<Rightarrow> FW_PARTITION_COMM_HEADER \<Rightarrow> 'w
   \<Rightarrow> (FW_PARTITION_COMM_HEADER \<times> 'w) option" where
  "HandleReadData D G PayloadSize C w = do {
     Request \<leftarrow> LocateRequest G PayloadSize C;
     (case Request of
        Inl Status \<Rightarrow> Some (C\<lparr>CommReturnStatus := Status\<rparr>, w)
      | Inr (Partition, Start, Bytes') \<Rightarrow>
          (case DeviceInfo Partition of
             Device d \<Rightarrow> do {
               (Status, Data, w) \<leftarrow> DeviceRead D d (Name (PartitionInfo Partition)) Start Bytes'
                 (drop OFFSET_COMM_Data (CommData C)) w;
               Some (C\<lparr>CommData := take OFFSET_COMM_Data (CommData C) @ Data, CommReturnStatus := Status\<rparr>, w) }
           | PseudoDevice _ \<Rightarrow> None)) }"

text \<open>The write function of the pseudo device is \<open>FwPartitionWriteToUpdateInactivePartitions\<close>.\<close>

definition HandleWriteData ::
  "EDK2_SERVICES \<Rightarrow> 'w DEVICE_OPS \<Rightarrow> FW_PARTITION_GLOBALS \<Rightarrow> nat \<Rightarrow> FW_PARTITION_COMM_HEADER \<Rightarrow> 'w
   \<Rightarrow> (FW_PARTITION_COMM_HEADER \<times> FW_PARTITION_GLOBALS \<times> 'w) option" where
  "HandleWriteData S D G PayloadSize C w = do {
     Request \<leftarrow> LocateRequest G PayloadSize C;
     (case Request of
        Inl Status \<Rightarrow> Some (C\<lparr>CommReturnStatus := Status\<rparr>, G, w)
      | Inr (Partition, Start, Bytes') \<Rightarrow> do {
          let New = drop OFFSET_COMM_Data (CommData C);
          (Status, G, w) \<leftarrow> (case DeviceInfo Partition of
             Device d \<Rightarrow> do {
               (Status, w) \<leftarrow> DeviceWrite D d (Name (PartitionInfo Partition)) Start Bytes' New w;
               Some (Status, G, w) }
           | PseudoDevice Mm \<Rightarrow> FwPartitionWriteToUpdateInactivePartitions S D G
               (Name (PartitionInfo Partition)) Mm Start Bytes' New w);
          Some (C\<lparr>CommReturnStatus := Status\<rparr>, G, w) }) }"

definition HandleInitialize ::
  "EDK2_SERVICES \<Rightarrow> PLATFORM \<Rightarrow> 'w STMM_INIT \<Rightarrow> nat \<Rightarrow> FW_PARTITION_COMM_HEADER \<Rightarrow> 'w STMM_STATE
   \<Rightarrow> (FW_PARTITION_COMM_HEADER \<times> 'w STMM_STATE) option" where
  "HandleInitialize S P V PayloadSize C s =
     (if PayloadSize < SIZE_OF_COMM_INITIALIZE
      then Some (C\<lparr>CommReturnStatus := EFI_INVALID_PARAMETER\<rparr>, s)
      else do {
        ActiveBootChain \<leftarrow> load64 (CommData C) 0;
        Overwrite \<leftarrow> load8 (CommData C) 8;
        ChipId \<leftarrow> load64 (CommData C) 16;
        (Status, s) \<leftarrow>
          FwPartitionNorFlashStmmInitialize S P V ActiveBootChain (Overwrite \<noteq> 0) ChipId s;
        Some (C\<lparr>CommReturnStatus := Status\<rparr>, s) })"

text \<open>
  The handler returns \<open>EFI_SUCCESS\<close> whatever it stores in the buffer. \<open>CommBuffer\<close> and \<open>CommBufferSize\<close> are
  \<open>None\<close> for null pointers.
\<close>

definition FwPartitionMmHandler ::
  "EDK2_SERVICES \<Rightarrow> PLATFORM \<Rightarrow> 'w STMM_INIT \<Rightarrow> FW_PARTITION_COMM_HEADER option \<Rightarrow> nat option \<Rightarrow> 'w STMM_STATE
   \<Rightarrow> (EFI_STATUS \<times> FW_PARTITION_COMM_HEADER option \<times> 'w STMM_STATE) option" where
  "FwPartitionMmHandler S P V CommBuffer CommBufferSize s =
     (case (CommBuffer, CommBufferSize) of
        (Some C, Some n) \<Rightarrow>
          if n < SIZE_OF_COMM_HEADER then Some (EFI_SUCCESS, CommBuffer, s)
          else do {
            let PayloadSize = n - FW_PARTITION_COMM_HEADER_SIZE;
            let D = StmmDeviceOps (mStmmDevices s);
            let G = mStmmPartitions s;
            (C, s) \<leftarrow>
              (if CommFunction C = FW_PARTITION_COMM_FUNCTION_INITIALIZE then HandleInitialize S P V PayloadSize C s
               else if CommFunction C = FW_PARTITION_COMM_FUNCTION_GET_PARTITIONS then do {
                 C \<leftarrow> HandleGetPartitions D G PayloadSize C;
                 Some (C, s) }
               else if CommFunction C = FW_PARTITION_COMM_FUNCTION_READ_DATA then do {
                 (C, w) \<leftarrow> HandleReadData D G PayloadSize C (StmmWorld s);
                 Some (C, s\<lparr>StmmWorld := w\<rparr>) }
               else if CommFunction C = FW_PARTITION_COMM_FUNCTION_WRITE_DATA then do {
                 (C, G, w) \<leftarrow> HandleWriteData S D G PayloadSize C (StmmWorld s);
                 Some (C, s\<lparr>mStmmPartitions := G, StmmWorld := w\<rparr>) }
               else Some (C\<lparr>CommReturnStatus := EFI_INVALID_PARAMETER\<rparr>, s));
            Some (EFI_SUCCESS, Some C, s) }
      | _ \<Rightarrow> Some (EFI_SUCCESS, CommBuffer, s))"

section \<open>The driver of the boot phase\<close>

definition FW_PARTITION_MM_TRANSFER_SIZE :: nat where "FW_PARTITION_MM_TRANSFER_SIZE = 32 * 1024"
definition FW_PARTITION_MM_DEVICE_INDEX_NORMAL :: nat where "FW_PARTITION_MM_DEVICE_INDEX_NORMAL = 0"
definition FW_PARTITION_MM_DEVICE_INDEX_PSEUDO :: nat where "FW_PARTITION_MM_DEVICE_INDEX_PSEUDO = 1"
definition FW_PARTITION_MM_DEVICE_MAX :: nat where "FW_PARTITION_MM_DEVICE_MAX = 2"

text \<open>The loop of \<open>FPMmRead\<close>; \<open>p\<close> is the offset of the pointer in the caller's buffer.\<close>

function MmReadLoop ::
  "'s MM_COMM_SERVICES \<Rightarrow> wstring \<Rightarrow> bool \<Rightarrow> EFI_STATUS \<Rightarrow> nat \<Rightarrow> nat \<Rightarrow> byte list \<Rightarrow> nat \<Rightarrow> FW_PARTITION_COMM_HEADER
   \<Rightarrow> 's \<Rightarrow> (EFI_STATUS \<times> byte list \<times> FW_PARTITION_COMM_HEADER \<times> 's) option" where
  "MmReadLoop M Name' IsMmPrm Status Offset' Bytes' Buffer p C s =
     (if Bytes' = 0 then Some (Status, Buffer, C, s)
      else
        let ReadBytes' = min FW_PARTITION_MM_TRANSFER_SIZE Bytes' in
        do {
          (Status, Buffer, C, s) \<leftarrow> MmSendReadData M Name' Offset' ReadBytes' Buffer p IsMmPrm C s;
          if EFI_ERROR Status then Some (Status, Buffer, C, s)
          else MmReadLoop M Name' IsMmPrm Status (add64 Offset' ReadBytes') (Bytes' - ReadBytes') Buffer
                 (p + ReadBytes') C s })"
  by auto
termination
  by (relation "measure (\<lambda>(M, Name', IsMmPrm, Status, Offset', Bytes', Buffer, p, C, s). Bytes')")
    (auto simp: FW_PARTITION_MM_TRANSFER_SIZE_def)

declare MmReadLoop.simps [simp del]

definition FPMmRead ::
  "'s MM_COMM_SERVICES \<Rightarrow> wstring \<Rightarrow> nat \<Rightarrow> nat \<Rightarrow> byte list \<Rightarrow> bool \<Rightarrow> FW_PARTITION_COMM_HEADER \<Rightarrow> 's
   \<Rightarrow> (EFI_STATUS \<times> byte list \<times> FW_PARTITION_COMM_HEADER \<times> 's) option" where
  "FPMmRead M Name' Offset' Bytes' Buffer IsMmPrm C s =
     MmReadLoop M Name' IsMmPrm EFI_SUCCESS Offset' Bytes' Buffer 0 C s"

definition FPDeviceRead ::
  "'s MM_COMM_SERVICES \<Rightarrow> wstring \<Rightarrow> nat \<Rightarrow> nat \<Rightarrow> byte list \<Rightarrow> FW_PARTITION_COMM_HEADER \<times> 's
   \<Rightarrow> (EFI_STATUS \<times> byte list \<times> FW_PARTITION_COMM_HEADER \<times> 's) option" where
  "FPDeviceRead M Name' Offset' Bytes' Buffer = (\<lambda>(C, s). FPMmRead M Name' Offset' Bytes' Buffer False C s)"

definition FPDevicePrmRead ::
  "'s MM_COMM_SERVICES \<Rightarrow> wstring \<Rightarrow> nat \<Rightarrow> nat \<Rightarrow> byte list \<Rightarrow> FW_PARTITION_COMM_HEADER \<times> 's
   \<Rightarrow> (EFI_STATUS \<times> byte list \<times> FW_PARTITION_COMM_HEADER \<times> 's) option" where
  "FPDevicePrmRead M Name' Offset' Bytes' Buffer = (\<lambda>(C, s). FPMmRead M Name' Offset' Bytes' Buffer True C s)"

text \<open>
  The installation of the protocols of all partitions; \<open>Handles\<close> are the partitions with a handle and
  \<open>Install\<close> is what the boot services return for one. The status is that of the last attempt.
\<close>

primrec InstallLoop ::
  "(nat \<Rightarrow> EFI_STATUS) \<Rightarrow> nat list \<Rightarrow> EFI_STATUS \<Rightarrow> nat set \<Rightarrow> EFI_STATUS \<times> nat set" where
  "InstallLoop Install [] Status Handles = (Status, Handles)"
| "InstallLoop Install (i # is) Status Handles =
     (if i \<in> Handles then InstallLoop Install is Status Handles
      else InstallLoop Install is (Install i)
             (if EFI_ERROR (Install i) then Handles else insert i Handles))"

definition FPMmInstallProtocols ::
  "(nat \<Rightarrow> EFI_STATUS) \<Rightarrow> FW_PARTITION_GLOBALS \<Rightarrow> nat set \<Rightarrow> EFI_STATUS \<times> nat set" where
  "FPMmInstallProtocols Install G Handles =
     InstallLoop Install [0..<FwPartitionGetCount G] EFI_SUCCESS Handles"

text \<open>
  A write. \<open>InstallAll\<close> is \<open>FPMmInstallProtocols\<close> on the registry at that moment, which is not part of
  the world of a device.
\<close>

definition FPMmWrite ::
  "'s MM_COMM_SERVICES \<Rightarrow> (FW_PARTITION_COMM_HEADER \<times> 's \<Rightarrow> EFI_STATUS \<times> FW_PARTITION_COMM_HEADER \<times> 's) \<Rightarrow> nat
   \<Rightarrow> wstring \<Rightarrow> nat \<Rightarrow> nat \<Rightarrow> byte list \<Rightarrow> FW_PARTITION_COMM_HEADER \<times> 's
   \<Rightarrow> (EFI_STATUS \<times> FW_PARTITION_COMM_HEADER \<times> 's) option" where
  "FPMmWrite M InstallAll d Name' Offset' Bytes' Buffer = (\<lambda>(C, s). do {
     (Status, C, s) \<leftarrow> MmSendWriteData M Name' Offset' Bytes' Buffer C s;
     Some (if \<not> EFI_ERROR Status \<and> d = FW_PARTITION_MM_DEVICE_INDEX_PSEUDO then InstallAll (C, s)
           else (Status, C, s)) })"

text \<open>
  The two devices, as \<open>FwPartitionMmDxeInitialize\<close> sets them up. Only the normal one gets the erase
  block size of the boot configuration table.
\<close>

definition MmDeviceOps ::
  "'s MM_COMM_SERVICES \<Rightarrow> (FW_PARTITION_COMM_HEADER \<times> 's \<Rightarrow> EFI_STATUS \<times> FW_PARTITION_COMM_HEADER \<times> 's) \<Rightarrow> nat
   \<Rightarrow> (FW_PARTITION_COMM_HEADER \<times> 's) DEVICE_OPS" where
  "MmDeviceOps M InstallAll BrBctEraseBlockSize =
     \<lparr> DeviceRead = (\<lambda>d Name' Offset' Bytes' Buffer w.
         if d < FW_PARTITION_MM_DEVICE_MAX then FPDeviceRead M Name' Offset' Bytes' Buffer w else None),
       DevicePrmRead = (\<lambda>d Name' Offset' Bytes' Buffer w.
         if d < FW_PARTITION_MM_DEVICE_MAX then FPDevicePrmRead M Name' Offset' Bytes' Buffer w else None),
       DeviceWrite = (\<lambda>d Name' Offset' Bytes' Buffer w.
         if d < FW_PARTITION_MM_DEVICE_MAX then FPMmWrite M InstallAll d Name' Offset' Bytes' Buffer w else None),
       DeviceBlockSize = (\<lambda>d. 1),
       DeviceEraseBlockSize =
         (\<lambda>d. if d = FW_PARTITION_MM_DEVICE_INDEX_NORMAL then u32 BrBctEraseBlockSize else 0) \<rparr>"

text \<open>
  The loop over \<open>n\<close> entries of the reply from the \<open>i\<close>th on. A partition that is there already is skipped,
  any other error only stays in the status until the next partition.
\<close>

primrec AddMmPartitionsLoop ::
  "EDK2_SERVICES \<Rightarrow> byte list \<Rightarrow> nat \<Rightarrow> nat \<Rightarrow> EFI_STATUS \<Rightarrow> FW_PARTITION_GLOBALS \<Rightarrow> nat
   \<Rightarrow> (EFI_STATUS \<times> FW_PARTITION_GLOBALS \<times> nat) option" where
  "AddMmPartitionsLoop S Infos 0 i Status G NumPartitions = Some (Status, G, NumPartitions)"
| "AddMmPartitionsLoop S Infos (Suc n) i Status G NumPartitions = do {
     Name' \<leftarrow> StrAt Infos (i * SIZE_OF_MM_PARTITION_INFO);
     Bytes' \<leftarrow> load64 Infos (i * SIZE_OF_MM_PARTITION_INFO + SIZE_OF_COMM_Name);
     (Status, G) \<leftarrow> (if Name' = FW_PARTITION_UPDATE_INACTIVE_PARTITIONS
        then FwPartitionAddPseudoPartition S G (Some FW_PARTITION_MM_DEVICE_INDEX_PSEUDO)
        else FwPartitionAdd S G Name' (Device FW_PARTITION_MM_DEVICE_INDEX_NORMAL) 0 Bytes');
     if Status = EFI_ALREADY_STARTED
     then AddMmPartitionsLoop S Infos n (i + 1) EFI_SUCCESS G NumPartitions
     else AddMmPartitionsLoop S Infos n (i + 1) Status G (NumPartitions + 1) }"

text \<open>The buffer for the reply has room for \<open>MAX_FW_PARTITIONS\<close> entries.\<close>

definition FPMmAddPartitions ::
  "EDK2_SERVICES \<Rightarrow> 's MM_COMM_SERVICES \<Rightarrow> bool \<Rightarrow> FW_PARTITION_GLOBALS \<Rightarrow> nat \<Rightarrow> FW_PARTITION_COMM_HEADER \<Rightarrow> 's
   \<Rightarrow> (EFI_STATUS \<times> nat option \<times> FW_PARTITION_GLOBALS \<times> nat \<times> FW_PARTITION_COMM_HEADER \<times> 's) option" where
  "FPMmAddPartitions S M Allocated G NumPartitions C s =
     (if \<not> Allocated then Some (EFI_OUT_OF_RESOURCES, None, G, NumPartitions, C, s)
      else do {
        (Status, C, s, Reply) \<leftarrow> MmSendGetPartitions M MAX_FW_PARTITIONS C s;
        if EFI_ERROR Status then Some (Status, None, G, NumPartitions, C, s)
        else do {
          (BrBctEraseBlockSize, Count, Infos) \<leftarrow> Reply;
          if Count = 0 then Some (EFI_NOT_FOUND, Some BrBctEraseBlockSize, G, NumPartitions, C, s)
          else do {
            (Status, G, NumPartitions) \<leftarrow> AddMmPartitionsLoop S Infos Count 0 Status G NumPartitions;
            Some (Status, Some BrBctEraseBlockSize, G, NumPartitions, C, s) } } })"

text \<open>What the entry point finds: hob, protocols, pool, settings, and the installations.\<close>

record MM_DXE_INIT =
  MmHobBootChain :: "nat option"
  MmCommStatus :: EFI_STATUS
  MmBufferAllocated :: bool
  MmInfoAllocated :: bool
  MmPartitionInfoAllocated :: bool
  MmPcdOverwrite :: bool
  MmChipId :: nat
  MmGptBootChain :: nat
  MmInstall :: "nat \<Rightarrow> EFI_STATUS"
  MmBrBctPcds :: BR_BCT_PCDS
  MmBrBctAlloc :: "nat \<Rightarrow> nat \<Rightarrow> bool"
  MmBrBctInstall :: EFI_STATUS
  MmEventStatus :: EFI_STATUS

text \<open>The state of the driver: its registry, the partitions with a handle, and the BR-BCT library.\<close>

record MM_DXE_STATE =
  MmRegistry :: FW_PARTITION_GLOBALS
  MmInstalled :: "nat set"
  MmNumPartitions :: nat
  MmBrBct :: "nat BR_BCT_UPDATE"

definition MmDxeFailed :: "MM_DXE_STATE \<Rightarrow> MM_DXE_STATE" where
  "MmDxeFailed d = d\<lparr>MmRegistry := FwPartitionDeviceLibDeinit (MmRegistry d), MmInstalled := {},
     MmBrBct := BrBctUpdateDeviceLibDeinit (MmBrBct d)\<rparr>"

text \<open>
  The descriptor of a partition as the BR-BCT library reads it, and its initialization, which is left
  out without a partition \<open>BCT\<close>.
\<close>

definition MmDescriptors :: "FW_PARTITION_GLOBALS \<Rightarrow> nat PARTITION_DESCRIPTORS" where
  "MmDescriptors G = \<lparr> PartitionBytes = (\<lambda>i. Bytes (PartitionInfo (mPrivate G ! i))), PartitionBlockSize = (\<lambda>i. 1) \<rparr>"

definition MmInitBrBct ::
  "MM_DXE_INIT \<Rightarrow> nat \<Rightarrow> nat \<Rightarrow> MM_DXE_STATE \<Rightarrow> (EFI_STATUS \<times> MM_DXE_STATE) option" where
  "MmInitBrBct V ActiveBootChain BrBctEraseBlockSize d =
     (if BrBctEraseBlockSize = 0 then Some (EFI_SUCCESS, d)
      else do {
        (Status, B) \<leftarrow> BrBctUpdateDeviceLibInit (FwPartitionFindByName (MmRegistry d)) (MmDescriptors (MmRegistry d))
          (MmBrBctPcds V) (MmBrBctAlloc V) ActiveBootChain (u32 BrBctEraseBlockSize) (MmBrBct d);
        Some (if EFI_ERROR Status then Status else MmBrBctInstall V, d\<lparr>MmBrBct := B\<rparr>) })"

text \<open>The steps from the message \<open>INITIALIZE\<close> to the label \<open>Done\<close>.\<close>

definition MmDxeConnect ::
  "EDK2_SERVICES \<Rightarrow> 's MM_COMM_SERVICES \<Rightarrow> MM_DXE_INIT \<Rightarrow> nat \<Rightarrow> MM_DXE_STATE \<Rightarrow> FW_PARTITION_COMM_HEADER \<Rightarrow> 's
   \<Rightarrow> (EFI_STATUS \<times> MM_DXE_STATE \<times> FW_PARTITION_COMM_HEADER \<times> 's) option" where
  "MmDxeConnect S M V ActiveBootChain d C s = do {
     (Status, C, s) \<leftarrow> MmSendInitialize M ActiveBootChain (MmPcdOverwrite V) (MmChipId V) C s;
     if EFI_ERROR Status then Some (Status, d, C, s)
     else do {
       (Status, BrBctEraseBlockSize, G, NumPartitions, C, s) \<leftarrow>
         FPMmAddPartitions S M (MmPartitionInfoAllocated V) (MmRegistry d) (MmNumPartitions d) C s;
       let d = d\<lparr>MmRegistry := G, MmNumPartitions := NumPartitions\<rparr>;
       if EFI_ERROR Status then Some (Status, d, C, s)
       else (case FPMmInstallProtocols (MmInstall V) G (MmInstalled d) of (Status, Handles) \<Rightarrow>
         let d = d\<lparr>MmInstalled := Handles\<rparr> in
         if EFI_ERROR Status then Some (Status, d, C, s)
         else do {
           BrBctEraseBlockSize \<leftarrow> BrBctEraseBlockSize;
           (Status, d) \<leftarrow> MmInitBrBct V ActiveBootChain BrBctEraseBlockSize d;
           Some (if EFI_ERROR Status then Status else MmEventStatus V, d, C, s) }) } }"

definition FwPartitionMmDxeInitialize ::
  "EDK2_SERVICES \<Rightarrow> 's MM_COMM_SERVICES \<Rightarrow> MM_DXE_INIT \<Rightarrow> MM_DXE_STATE \<Rightarrow> FW_PARTITION_COMM_HEADER \<Rightarrow> 's
   \<Rightarrow> (EFI_STATUS \<times> MM_DXE_STATE \<times> FW_PARTITION_COMM_HEADER \<times> 's) option" where
  "FwPartitionMmDxeInitialize S M V d C s =
     (case MmHobBootChain V of
        None \<Rightarrow> Some (EFI_UNSUPPORTED, d, C, s)
      | Some ActiveBootChain \<Rightarrow>
          if EFI_ERROR (MmCommStatus V) then Some (MmCommStatus V, d, C, s)
          else if \<not> MmBufferAllocated V then Some (EFI_OUT_OF_RESOURCES, MmDxeFailed d, C, s)
          else do {
            (Status, G) \<leftarrow> FwPartitionDeviceLibInit S (MmRegistry d) ActiveBootChain MAX_FW_PARTITIONS
              (MmPcdOverwrite V) (MmChipId V) (MmGptBootChain V);
            let d = d\<lparr>MmRegistry := G\<rparr>;
            if EFI_ERROR Status then Some (Status, d, C, s)
            else if \<not> MmInfoAllocated V then Some (EFI_OUT_OF_RESOURCES, MmDxeFailed d, C, s)
            else do {
              (Status, d, C, s) \<leftarrow> MmDxeConnect S M V ActiveBootChain d C s;
              Some (Status, if EFI_ERROR Status then MmDxeFailed d else d, C, s) } })"

end
