(* ===== verification/FwPartitionMmProps.thy ===== *)
theory FwPartitionMmProps
  imports FwPartitionMm BrBctTheorems FwPartitionTheorems
begin

text \<open>
  The messages between the driver of the boot phase and the management mode: what the one writes into
  the buffer the other finds there, and what a read or a write of a partition does to the flash.
\<close>

section \<open>Fields of a message\<close>

lemma load64_drop: "load64 b i = load64 (drop i b) 0"
proof -
  have "drop 4 (drop i b) = drop (i + 4) b" by (simp add: add.commute)
  then show ?thesis
    using load32_drop [of b i] load32_drop [of b "i + 4"] load32_drop [of "drop i b" 4]
    by (simp add: load64_def)
qed

lemma length_bytes64 [simp]: "length (bytes64 v) = 8"
  by (simp add: bytes64_def)

lemma load64_field: "v < 2 ^ 64 \<Longrightarrow> load64 (bytes64 v @ rest) 0 = Some v"
proof -
  assume v: "v < 2 ^ 64"
  have lo: "bytes32 v = bytes32 (v mod 2 ^ 32)"
  proof -
    have "(of_nat v :: byte) = of_nat (v mod 2 ^ 32)" for v
      by (rule word_of_nat_eq_iff [THEN iffD2]) (simp add: take_bit_eq_mod mod_mod_cancel)
    moreover have "(of_nat (v div 2 ^ k) :: byte) = of_nat (v mod 2 ^ 32 div 2 ^ k)" if "k + 8 \<le> 32" for k
    proof -
      have "take_bit 8 (drop_bit k (take_bit 32 v)) = take_bit 8 (drop_bit k v)"
        using that by (simp add: drop_bit_take_bit min_absorb1 min_absorb2)
      then have "v mod 2 ^ 32 div 2 ^ k mod 2 ^ 8 = v div 2 ^ k mod 2 ^ 8"
        by (simp only: take_bit_eq_mod drop_bit_eq_div)
      then show ?thesis by (intro word_of_nat_eq_iff [THEN iffD2]) (simp add: take_bit_eq_mod)
    qed
    note this [of 8] this [of 16] this [of 24]
    ultimately show ?thesis by (simp add: bytes32_def bytes16_def flip: div_mult2_eq)
  qed
  have "load32 (bytes64 v @ rest) 0 = Some (v mod 2 ^ 32)"
    using load32_field [of "v mod 2 ^ 32" "bytes32 (v div 2 ^ 32) @ rest"] by (simp only: bytes64_def lo append_assoc) simp
  moreover have "v div 2 ^ 32 < 2 ^ 32" using v by (simp add: less_mult_imp_div_less)
  then have "load32 (bytes64 v @ rest) 4 = Some (v div 2 ^ 32)"
    by (subst load32_drop) (simp add: bytes64_def)
  ultimately show ?thesis by (simp add: load64_def)
qed

lemma load16_here: "v < 2 ^ 16 \<Longrightarrow> load16 (a @ bytes16 v @ rest) (length a) = Some v"
  using load16_bytes16 [of v] by (simp add: load16_def load8_def bytes16_def nth_append)

lemma NameBytes_simps [simp]:
  "NameBytes (c # Name') = bytes16 (unat c) @ NameBytes Name'" "NameBytes [] = bytes16 0"
  by (simp_all add: NameBytes_def)

lemma length_NameBytes [simp]: "length (NameBytes Name') = 2 * (length Name' + 1)"
  by (induction Name') simp_all

lemma StrAt_NameBytes: "0 \<notin> set Name' \<Longrightarrow> StrAt (a @ NameBytes Name' @ rest) (length a) = Some Name'"
proof (induction Name' arbitrary: a)
  case Nil
  then show ?case using load16_here [of 0 a rest] by (subst StrAt.simps) simp
next
  case (Cons c Name')
  have "unat c < 2 ^ 16" using unsigned_less [of c] by simp
  from load16_here [OF this, of a "NameBytes Name' @ rest"]
  have l: "load16 (a @ NameBytes (c # Name') @ rest) (length a) = Some (unat c)" by simp
  have "unat c \<noteq> 0" using Cons.prems by (auto simp: unat_eq_zero)
  moreover have "StrAt (a @ NameBytes (c # Name') @ rest) (length a + 2) = Some Name'"
    using Cons.IH [of "a @ bytes16 (unat c)"] Cons.prems by simp
  ultimately show ?case by (subst StrAt.simps) (simp add: l del: NameBytes_simps)
qed

section \<open>A request in the buffer\<close>

text \<open>The bytes behind the header, as the sender leaves them for a read or a write.\<close>

definition request :: "wstring \<Rightarrow> nat \<Rightarrow> nat \<Rightarrow> byte list" where
  "request Name' off n = NameBytes Name' @ replicate (70 - 2 * length Name') 0 @ bytes64 off @ bytes64 n"

lemma length_request [simp]: "length Name' \<le> 35 \<Longrightarrow> length (request Name' off n) = 88"
  by (simp add: request_def)

lemma store_bytes_mid:
  "length new = length old \<Longrightarrow> store_bytes (a @ old @ c) (length a) new = Some (a @ new @ c)"
  by (simp add: store_bytes_def)

lemma FillReadWrite_request:
  assumes "documented_strings L" and "length Name' \<le> 35" and "96 \<le> length (CommData C)"
  shows "FillReadWrite L Name' off n C
    = Some (EFI_SUCCESS, C\<lparr>CommData := request Name' off n @ replicate 8 0 @ drop 96 (CommData C)\<rparr>)"
proof -
  have copy: "StrnCpyS L 72 Name' (length Name') [] = (EFI_SUCCESS, Name')"
    using assms(1,2) by (simp add: documented_strings_def)
  have n: "2 * (length Name' + 1) + ((70 - 2 * length Name') + (16 + 8)) = (96 :: nat)" using assms(2) by simp
  let ?gap = "replicate (70 - 2 * length Name') (0 :: byte)" and ?rest = "replicate 8 (0 :: byte) @ drop 96 (CommData C)"
  have zero: "store_bytes (CommData C) 0 (replicate 96 0)
      = Some ([] @ replicate (2 * (length Name' + 1)) 0 @ ?gap @ replicate 16 0 @ ?rest)"
    using assms(3) by (simp only: append_assoc [symmetric] append_Nil replicate_add [symmetric] n add.assoc)
      (simp add: store_bytes_def)
  have named: "store_bytes ([] @ replicate (2 * (length Name' + 1)) 0 @ ?gap @ replicate 16 0 @ ?rest) 0 (NameBytes Name')
      = Some ((NameBytes Name' @ ?gap) @ replicate 16 0 @ ?rest)"
    using store_bytes_mid [of "NameBytes Name'" "replicate (2 * (length Name' + 1)) 0" "[]" "?gap @ replicate 16 0 @ ?rest"]
    by (simp only: length_NameBytes length_replicate list.size append_Nil append_assoc)
  have "length (NameBytes Name' @ ?gap) = 72" using assms(2) by simp
  then have placed: "store_bytes ((NameBytes Name' @ ?gap) @ replicate 16 0 @ ?rest) 72 (bytes64 off @ bytes64 n')
      = Some ((NameBytes Name' @ ?gap) @ (bytes64 off @ bytes64 n') @ ?rest)" for n'
    using store_bytes_mid [where a = "NameBytes Name' @ ?gap" and new = "bytes64 off @ bytes64 n'"
        and old = "replicate 16 0"] by simp
  show ?thesis
    unfolding FillReadWrite_def layout copy
    by (simp only: zero named placed [unfolded append_assoc] bind.bind_lunit prod.case if_False not_True_eq_False
        simp_thms request_def append_assoc Let_def)
qed

lemma LocateRequest_request:
  assumes "0 \<notin> set Name'" and "length Name' \<le> 35" and "off < 2 ^ 64" and "n < 2 ^ 63"
    and "CommData C = request Name' off n @ rest" and "FwPartitionFindByName G Name' = Some i"
  shows "LocateRequest G (88 + n) C = Some (if n < 8 then Inl EFI_INVALID_PARAMETER
    else Inr (mPrivate G ! i, add64 (POffset (mPrivate G ! i)) off, n))"
proof -
  have len: "length (NameBytes Name' @ replicate (70 - 2 * length Name') (0 :: byte)) = 72" using assms(2) by simp
  have "drop 72 (CommData C) = bytes64 off @ bytes64 n @ rest"
    unfolding assms(5) request_def using len by (simp add: append_assoc [symmetric] del: append_assoc)
  moreover from this have "drop 80 (CommData C) = bytes64 n @ rest"
    using drop_drop [of 8 72 "CommData C"] by simp
  ultimately have f: "load64 (CommData C) 72 = Some off" "load64 (CommData C) 80 = Some n"
    using load64_field [of off] load64_field [of n] assms(3,4) by (simp_all add: load64_drop [of "CommData C"])
  have name: "StrAt (CommData C) 0 = Some Name'"
    using StrAt_NameBytes [OF assms(1), of "[]"] by (simp add: assms(5) request_def)
  have "add64 88 n = 88 + n" using assms(4) by (intro add64_less) simp
  then show ?thesis
    by (simp add: LocateRequest_def f name assms(6) layout Let_def)
qed

section \<open>The handler behind the transport\<close>

text \<open>
  The communication protocol passes a message to the handler, with the length of the message without
  its header, and returns the buffer as the handler leaves it.
\<close>

definition handler_transport ::
  "EDK2_SERVICES \<Rightarrow> PLATFORM \<Rightarrow> 'w STMM_INIT \<Rightarrow> 'w STMM_STATE COMMUNICATE \<Rightarrow> bool" where
  "handler_transport S P V Communicate \<longleftrightarrow>
     (\<forall>C s. Communicate (OFFSET_MM_COMMUNICATE_Data + CommMessageLength C) C s =
        map_option (\<lambda>(Status, C', s'). (EFI_SUCCESS, case C' of None \<Rightarrow> C | Some C' \<Rightarrow> C', s'))
          (FwPartitionMmHandler S P V (Some C) (Some (CommMessageLength C)) s))"

lemma handler_transportD:
  "handler_transport S P V Communicate \<Longrightarrow> CommMessageLength C = n
   \<Longrightarrow> FwPartitionMmHandler S P V (Some C) (Some n) s = Some (EFI_SUCCESS, Some C', s')
   \<Longrightarrow> Communicate (OFFSET_MM_COMMUNICATE_Data + n) C s = Some (EFI_SUCCESS, C', s')"
  unfolding handler_transport_def by fastforce

lemma handler_transport_None:
  "handler_transport S P V Communicate \<Longrightarrow> CommMessageLength C = n
   \<Longrightarrow> FwPartitionMmHandler S P V (Some C) (Some n) s = None
   \<Longrightarrow> Communicate (OFFSET_MM_COMMUNICATE_Data + n) C s = None"
  unfolding handler_transport_def by fastforce

text \<open>
  The management mode has a partition with this name, which a name field holds, on the flash \<open>d\<close>; the
  flash keeps its contract, and \<open>Start\<close> is where the partition starts.
\<close>

definition mm_partition ::
  "('w \<Rightarrow> nat \<Rightarrow> memory) \<Rightarrow> 'w STMM_STATE \<Rightarrow> wstring \<Rightarrow> nat \<Rightarrow> nat \<Rightarrow> bool" where
  "mm_partition view s Name' d Start \<longleftrightarrow>
     0 \<notin> set Name' \<and> length Name' \<le> 35 \<and> d < length (mStmmDevices s)
     \<and> nor_world (map StmmNorInfo (mStmmDevices s)) view
     \<and> (\<exists>i. FwPartitionFindByName (mStmmPartitions s) Name' = Some i
          \<and> DeviceInfo (mPrivate (mStmmPartitions s) ! i) = Device d
          \<and> POffset (mPrivate (mStmmPartitions s) ! i) = Start)"

definition comm_room :: "FW_PARTITION_COMM_HEADER \<Rightarrow> bool" where
  "comm_room C \<longleftrightarrow> OFFSET_MM_COMMUNICATE_Data + FW_PARTITION_COMM_HEADER_SIZE + length (CommData C)
     = FW_PARTITION_COMM_BUFFER_SIZE"

abbreviation StmmFlash :: "'w STMM_STATE \<Rightarrow> nat \<Rightarrow> 'w FW_PARTITION_NOR_FLASH_INFO" where
  "StmmFlash s d \<equiv> StmmNorInfo (mStmmDevices s ! d)"

definition reads_succeed :: "'w FW_PARTITION_NOR_FLASH_INFO \<Rightarrow> bool" where
  "reads_succeed I \<longleftrightarrow>
     (\<forall>off n w. off + n \<le> NorBytes I \<longrightarrow> fst (NorRead (NorFlash I) off n w) = EFI_SUCCESS)"

lemma FPNorFlashRead_succeeds:
  assumes "nor_world Devices view" and "d < length Devices" and "I = Devices ! d" and "reads_succeed I"
    and "off + n \<le> NorBytes I" and "n \<le> length buf"
  shows "FPNorFlashRead I off n buf w = Some (EFI_SUCCESS, content (view w d) off n @ drop n buf, w)"
proof -
  from assms(1-3) have law: "flash_contract (NorFlash I) (NorBlockSize (NorAttributes I)) (NorBytes I) view d"
    and full: "NorBytes I < 2 ^ 32" by (auto simp: nor_world_def Let_def)
  have check: "FwPartitionCheckOffsetAndBytes (NorBytes I) off n = EFI_SUCCESS"
    using assms(5) full by (simp add: CheckOffsetAndBytes_success)
  have small: "u32 off = off" "u32 n = n" using assms(5) full by (simp_all add: u32_def)
  have "fst (NorRead (NorFlash I) off n w) = EFI_SUCCESS" using assms(4,5) unfolding reads_succeed_def by blast
  then obtain b where b: "NorRead (NorFlash I) off n w = (EFI_SUCCESS, b)" by (metis prod.collapse)
  with flash_contractD(1) [OF law assms(5)] have "b = content (view w d) off n" by simp
  then show ?thesis
    using assms(6) by (simp add: FPNorFlashRead_def check small b store_bytes_def)
qed

lemma handler_read:
  assumes "mm_partition view s Name' d Start" and "reads_succeed (StmmFlash s d)"
    and "Start + off + n \<le> NorBytes (StmmFlash s d)" and "n \<le> length rest"
    and "CommFunction C = FW_PARTITION_COMM_FUNCTION_READ_DATA" and "CommData C = request Name' off n @ rest"
  shows "FwPartitionMmHandler S P V (Some C) (Some (104 + n)) s = Some (EFI_SUCCESS,
    Some (if n < 8 then C\<lparr>CommReturnStatus := EFI_INVALID_PARAMETER\<rparr>
          else C\<lparr>CommData := request Name' off n @ content (view (StmmWorld s) d) (Start + off) n @ drop n rest,
                 CommReturnStatus := EFI_SUCCESS\<rparr>), s)"
proof -
  let ?G = "mStmmPartitions s" and ?Devices = "map StmmNorInfo (mStmmDevices s)"
  from assms(1) obtain i where p: "0 \<notin> set Name'" "length Name' \<le> 35" "d < length (mStmmDevices s)"
      "nor_world ?Devices view" "FwPartitionFindByName ?G Name' = Some i" "DeviceInfo (mPrivate ?G ! i) = Device d"
      "POffset (mPrivate ?G ! i) = Start"
    by (auto simp: mm_partition_def)
  have I: "?Devices ! d = StmmFlash s d" using p(3) by simp
  have full: "NorBytes (StmmFlash s d) < 2 ^ 32" using p(3,4) I by (auto simp: nor_world_def Let_def)
  with assms(3) have "off < 2 ^ 64" "n < 2 ^ 63" "add64 Start off = Start + off" by (simp_all add: add64_less)
  note located = LocateRequest_request [OF p(1,2) this(1,2) assms(6) p(5), unfolded p(7) this(3)]
  have "d < length ?Devices" using p(3) by simp
  note flash = FPNorFlashRead_succeeds [OF p(4) this I [symmetric] assms(2,3,4), of "StmmWorld s"]
  have split: "drop 88 (CommData C) = rest" "take 88 (CommData C) = request Name' off n"
    using p(2) assms(6) by simp_all
  have "HandleReadData (StmmDeviceOps (mStmmDevices s)) ?G (88 + n) C (StmmWorld s)
    = Some (if n < 8 then C\<lparr>CommReturnStatus := EFI_INVALID_PARAMETER\<rparr>
            else C\<lparr>CommData := request Name' off n @ content (view (StmmWorld s) d) (Start + off) n @ drop n rest,
                   CommReturnStatus := EFI_SUCCESS\<rparr>, StmmWorld s)"
    using p(3) by (simp add: HandleReadData_def located p(6) StmmDeviceOps_def StmmNorFlashRead_def layout split flash)
  then show ?thesis
    by (simp add: FwPartitionMmHandler_def layout codes Let_def assms(5))
qed

section \<open>Reads\<close>

text \<open>The number of bytes the buffer has room for behind the header of a read or a write.\<close>

definition comm_capacity :: nat where
  "comm_capacity = FW_PARTITION_COMM_BUFFER_SIZE - OFFSET_MM_COMMUNICATE_Data - FW_PARTITION_COMM_HEADER_SIZE - OFFSET_COMM_Data"

lemma comm_capacity_eq: "comm_capacity = 66432"
  by (simp add: comm_capacity_def layout)

lemma MmInitCommBuffer_result:
  "n < 2 ^ 63 \<Longrightarrow> MmInitCommBuffer (88 + n) f C = (if n \<le> comm_capacity then (EFI_SUCCESS,
     C\<lparr>CommMessageLength := 104 + n, CommFunction := f, CommReturnStatus := EFI_PROTOCOL_ERROR\<rparr>)
     else (EFI_INVALID_PARAMETER, C))"
  by (simp add: MmInitCommBuffer_def add64_less layout comm_capacity_eq)

lemma SendThrough_handler:
  assumes "handler_transport S P V Communicate" and "CommMessageLength C = 104 + n" and "n \<le> comm_capacity"
    and "FwPartitionMmHandler S P V (Some C) (Some (104 + n)) s = Some (EFI_SUCCESS, Some C', s')"
  shows "SendThrough Communicate (88 + n) C s = Some (CommReturnStatus C', C', s')"
  using handler_transportD [OF assms(1,2,4)] assms(3)
  by (simp add: SendThrough_def add64_def layout comm_capacity_eq)

text \<open>One message: the bytes of the flash, or a refusal of messages that are smaller than the structure.\<close>

lemma MmSendReadData_result:
  assumes "documented_strings (MmStrings M)" and "handler_transport S P V (mMmCommProtocol M)"
    and "mm_partition view s Name' d Start" and "reads_succeed (StmmFlash s d)"
    and "Start + off + n \<le> NorBytes (StmmFlash s d)" and "n \<le> FW_PARTITION_MM_TRANSFER_SIZE"
    and "p + n \<le> length Buffer" and "comm_room C"
  shows "\<exists>C'. comm_room C' \<and> MmSendReadData M Name' off n Buffer p False C s
    = Some (if n < 8 then (EFI_INVALID_PARAMETER, Buffer, C', s)
            else (EFI_SUCCESS, take p Buffer @ content (view (StmmWorld s) d) (Start + off) n
                    @ drop (p + n) Buffer, C', s))"
proof -
  have name: "length Name' \<le> 35" using assms(3) by (simp add: mm_partition_def)
  have room: "length (CommData C) = 66520" using assms(8) by (simp add: comm_room_def layout)
  let ?rest = "replicate 8 (0 :: byte) @ drop 96 (CommData C)"
  let ?C1 = "C\<lparr>CommMessageLength := 104 + n, CommFunction := FW_PARTITION_COMM_FUNCTION_READ_DATA,
      CommReturnStatus := EFI_PROTOCOL_ERROR\<rparr>"
  let ?C2 = "?C1\<lparr>CommData := request Name' off n @ ?rest\<rparr>"
  have fill: "FillReadWrite (MmStrings M) Name' off n ?C1 = Some (EFI_SUCCESS, ?C2)"
    using FillReadWrite_request [OF assms(1) name, of ?C1] room by simp
  have fits: "n \<le> comm_capacity" "n < 2 ^ 63"
    using assms(6) by (simp_all add: comm_capacity_eq FW_PARTITION_MM_TRANSFER_SIZE_def)
  have rest: "n \<le> length ?rest" using room assms(6) by (simp add: FW_PARTITION_MM_TRANSFER_SIZE_def)
  let ?bytes = "content (view (StmmWorld s) d) (Start + off) n"
  define C' where "C' = (if n < 8 then ?C2\<lparr>CommReturnStatus := EFI_INVALID_PARAMETER\<rparr>
    else ?C2\<lparr>CommData := request Name' off n @ ?bytes @ drop n ?rest, CommReturnStatus := EFI_SUCCESS\<rparr>)"
  have "FwPartitionMmHandler S P V (Some ?C2) (Some (104 + n)) s = Some (EFI_SUCCESS, Some C', s)"
    unfolding C'_def using handler_read [OF assms(3,4,5) rest, of ?C2] by simp
  from SendThrough_handler [OF assms(2) _ fits(1) this]
  have sent: "SendThrough (mMmCommProtocol M) (88 + n) ?C2 s = Some (CommReturnStatus C', C', s)" by simp
  have "comm_room C'"
    using name room rest by (auto simp: C'_def comm_room_def layout)
  moreover have "load_bytes (CommData C') 88 n = Some ?bytes" if "\<not> n < 8"
    using that name by (simp add: C'_def load_bytes_def)
  moreover have "store_bytes Buffer p ?bytes = Some (take p Buffer @ ?bytes @ drop (p + n) Buffer)"
    using assms(7) by (simp add: store_bytes_def)
  moreover have "CommReturnStatus C' = (if n < 8 then EFI_INVALID_PARAMETER else EFI_SUCCESS)"
    by (simp add: C'_def)
  moreover have "add64 88 n = 88 + n"
    using assms(6) by (intro add64_less) (simp add: FW_PARTITION_MM_TRANSFER_SIZE_def)
  ultimately show ?thesis
    unfolding MmSendReadData_def Let_def OFFSET_COMM_Data_def
    by (intro exI [of _ C']) (simp add: MmInitCommBuffer_result [OF fits(2)] fits(1) fill MmSendCommBuffer_def sent)
qed

text \<open>What a read delivers: everything, unless a last message would ask for fewer than eight bytes.\<close>

definition delivered :: "nat \<Rightarrow> nat" where
  "delivered n = (let Tail = n mod FW_PARTITION_MM_TRANSFER_SIZE in if Tail < 8 then n - Tail else n)"

lemma MmReadLoop_result:
  assumes "documented_strings (MmStrings M)" and "handler_transport S P V (mMmCommProtocol M)"
    and "mm_partition view s Name' d Start" and "reads_succeed (StmmFlash s d)"
  shows "Start + off + n \<le> NorBytes (StmmFlash s d) \<Longrightarrow> p + n \<le> length Buffer \<Longrightarrow> comm_room C
    \<Longrightarrow> \<exists>C'. MmReadLoop M Name' False EFI_SUCCESS off n Buffer p C s
      = Some (if delivered n = n then EFI_SUCCESS else EFI_INVALID_PARAMETER,
          take p Buffer @ content (view (StmmWorld s) d) (Start + off) (delivered n)
            @ drop (p + delivered n) Buffer, C', s)"
proof (induction n arbitrary: off Buffer p C rule: less_induct)
  case (less n)
  let ?T = FW_PARTITION_MM_TRANSFER_SIZE
  have T: "?T = 32768" by (simp add: FW_PARTITION_MM_TRANSFER_SIZE_def)
  have small: "NorBytes (StmmFlash s d) < 2 ^ 32"
    using assms(3) by (auto simp: mm_partition_def nor_world_def Let_def)
  show ?case
  proof (cases "n = 0")
    case True
    then show ?thesis by (simp add: MmReadLoop.simps delivered_def content_def)
  next
    case False
    let ?m = "min ?T n" and ?bytes = "\<lambda>off m. content (view (StmmWorld s) d) (Start + off) m"
    have m: "Start + off + ?m \<le> NorBytes (StmmFlash s d)" "?m \<le> ?T" "p + ?m \<le> length Buffer"
      using less.prems(1,2) by simp_all
    from MmSendReadData_result [OF assms m less.prems(3)] obtain C1 where C1: "comm_room C1" "MmSendReadData M Name' off ?m Buffer p False C s
        = Some (if ?m < 8 then (EFI_INVALID_PARAMETER, Buffer, C1, s)
            else (EFI_SUCCESS, take p Buffer @ ?bytes off ?m @ drop (p + ?m) Buffer, C1, s))"
      by blast
    show ?thesis
    proof (cases "?m < 8")
      case True
      then have "delivered n = 0" using T by (simp add: delivered_def)
      with False True C1 show ?thesis by (subst MmReadLoop.simps) (simp add: Let_def content_def)
    next
      case no: False
      let ?Buffer = "take p Buffer @ ?bytes off ?m @ drop (p + ?m) Buffer"
      have step: "MmReadLoop M Name' False EFI_SUCCESS off n Buffer p C s
          = MmReadLoop M Name' False EFI_SUCCESS (off + ?m) (n - ?m) ?Buffer (p + ?m) C1 s"
        using less.prems(1) small no False C1(2) by (subst MmReadLoop.simps) (simp add: Let_def add64_less)
      have len: "length ?Buffer = length Buffer" using less.prems(2) by simp
      have rest: "delivered n = ?m + delivered (n - ?m)"
      proof (cases "n \<le> ?T")
        case True
        with no show ?thesis by (cases "n = ?T") (simp_all add: delivered_def min_absorb2 T)
      next
        case False
        obtain k where k: "n mod ?T = k" "(n - ?T) mod ?T = k" "k \<le> n - ?T"
          using False by (simp add: le_mod_geq)
        with False show ?thesis by (simp add: delivered_def Let_def min_absorb1)
      qed
      from less.IH [of "n - ?m" "off + ?m" "p + ?m" ?Buffer C1] False less.prems len C1(1) T
      obtain C2 where C2: "MmReadLoop M Name' False EFI_SUCCESS (off + ?m) (n - ?m) ?Buffer (p + ?m) C1 s
          = Some (if delivered (n - ?m) = n - ?m then EFI_SUCCESS else EFI_INVALID_PARAMETER,
              take (p + ?m) ?Buffer @ ?bytes (off + ?m) (delivered (n - ?m))
                @ drop (p + ?m + delivered (n - ?m)) ?Buffer, C2, s)" by auto
      have "delivered (n - ?m) = n - ?m \<longleftrightarrow> delivered n = n" using rest by auto
      moreover have "take (p + ?m) ?Buffer = take p Buffer @ ?bytes off ?m"
        using less.prems(2) by simp
      moreover have "drop (p + ?m + k) ?Buffer = drop (p + ?m + k) Buffer" for k
        using less.prems(2) by (simp add: add.commute)
      moreover have "?bytes off ?m @ ?bytes (off + ?m) k = ?bytes off (?m + k)" for k
        by (rule nth_equalityI) (auto simp: nth_append add.assoc)
      ultimately show ?thesis
        unfolding step C2 rest by (auto simp: add.assoc [symmetric])
    qed
  qed
qed

section \<open>Writes\<close>

lemma handler_write:
  assumes "mm_partition view s Name' d Start" and "off < 2 ^ 64" and "n < 2 ^ 63"
    and "CommFunction C = FW_PARTITION_COMM_FUNCTION_WRITE_DATA" and "CommData C = request Name' off n @ rest"
  shows "FwPartitionMmHandler S P V (Some C) (Some (104 + n)) s =
    (if n < 8 then Some (EFI_SUCCESS, Some (C\<lparr>CommReturnStatus := EFI_INVALID_PARAMETER\<rparr>), s)
     else map_option (\<lambda>(st, w). (EFI_SUCCESS, Some (C\<lparr>CommReturnStatus := st\<rparr>), s\<lparr>StmmWorld := w\<rparr>))
            (FPNorFlashWrite (StmmFlash s d) (add64 Start off) n rest (StmmWorld s)))"
proof -
  let ?G = "mStmmPartitions s"
  from assms(1) obtain i where p: "0 \<notin> set Name'" "length Name' \<le> 35" "d < length (mStmmDevices s)"
      "FwPartitionFindByName ?G Name' = Some i" "DeviceInfo (mPrivate ?G ! i) = Device d"
      "POffset (mPrivate ?G ! i) = Start"
    by (auto simp: mm_partition_def)
  note located = LocateRequest_request [OF p(1,2) assms(2,3,5) p(4), unfolded p(6)]
  have behind: "drop 88 (CommData C) = rest" using p(2) assms(5) by simp
  have "HandleWriteData S (StmmDeviceOps (mStmmDevices s)) ?G (88 + n) C (StmmWorld s)
    = (if n < 8 then Some (C\<lparr>CommReturnStatus := EFI_INVALID_PARAMETER\<rparr>, ?G, StmmWorld s)
       else map_option (\<lambda>(st, w). (C\<lparr>CommReturnStatus := st\<rparr>, ?G, w))
              (FPNorFlashWrite (StmmFlash s d) (add64 Start off) n rest (StmmWorld s)))"
    using p(3) by (cases "FPNorFlashWrite (StmmFlash s d) (add64 Start off) n rest (StmmWorld s)")
      (auto simp: HandleWriteData_def located p(5) StmmDeviceOps_def StmmNorFlashWrite_def layout behind)
  then show ?thesis
    by (cases "FPNorFlashWrite (StmmFlash s d) (add64 Start off) n rest (StmmWorld s)")
      (auto simp: FwPartitionMmHandler_def layout codes Let_def assms(4))
qed

lemma FPNorFlashWrite_prefix:
  "n \<le> length buf \<Longrightarrow> FPNorFlashWrite I off n (take n buf @ rest) w = FPNorFlashWrite I off n buf w"
proof -
  assume n: "n \<le> length buf"
  have "u32 n \<le> n" by (simp add: u32_def)
  with n have "load_bytes (take n buf @ rest) 0 (u32 n) = load_bytes buf 0 (u32 n)"
    by (simp add: load_bytes_def min_absorb1)
  then show ?thesis by (simp only: FPNorFlashWrite_def)
qed

lemma MmSendWriteData_result:
  assumes "documented_strings (MmStrings M)" and "handler_transport S P V (mMmCommProtocol M)"
    and "mm_partition view s Name' d Start" and "off < 2 ^ 64" and "n < 2 ^ 63" and "n \<le> length Buffer"
    and "comm_room C"
  shows "\<exists>C'. MmSendWriteData M Name' off n Buffer C s =
    (if n < 8 \<or> comm_capacity < n then Some (EFI_INVALID_PARAMETER, C' EFI_INVALID_PARAMETER, s)
     else map_option (\<lambda>(st, w). (st, C' st, s\<lparr>StmmWorld := w\<rparr>))
            (FPNorFlashWrite (StmmFlash s d) (add64 Start off) n Buffer (StmmWorld s)))"
proof (cases "n \<le> comm_capacity")
  case False
  with add64_less [of 88 n] assms(5) show ?thesis
    by (intro exI [of _ "\<lambda>st. C"])
      (simp add: MmSendWriteData_def OFFSET_COMM_Data_def MmInitCommBuffer_result [OF assms(5)])
next
  case True
  have name: "length Name' \<le> 35" using assms(3) by (simp add: mm_partition_def)
  have room: "length (CommData C) = 66520" using assms(7) by (simp add: comm_room_def layout)
  let ?rest = "replicate 8 (0 :: byte) @ drop 96 (CommData C)"
  let ?C1 = "C\<lparr>CommMessageLength := 104 + n, CommFunction := FW_PARTITION_COMM_FUNCTION_WRITE_DATA,
      CommReturnStatus := EFI_PROTOCOL_ERROR\<rparr>"
  let ?C2 = "?C1\<lparr>CommData := request Name' off n @ ?rest\<rparr>"
  let ?C3 = "?C1\<lparr>CommData := request Name' off n @ take n Buffer @ drop n ?rest\<rparr>"
  have fill: "FillReadWrite (MmStrings M) Name' off n ?C1 = Some (EFI_SUCCESS, ?C2)"
    using FillReadWrite_request [OF assms(1) name, of ?C1] room by simp
  have rest: "n \<le> length ?rest" using room True by (simp add: comm_capacity_eq)
  have load: "load_bytes Buffer 0 n = Some (take n Buffer)" using assms(6) by (simp add: load_bytes_def)
  have store: "store_bytes (request Name' off n @ ?rest) 88 (take n Buffer) = Some (CommData ?C3)"
    using assms(6) rest name by (simp add: store_bytes_def)
  have size: "add64 88 n = 88 + n" using assms(5) by (intro add64_less) simp
  have sends: "MmSendWriteData M Name' off n Buffer C s = SendThrough (mMmCommProtocol M) (88 + n) ?C3 s"
    unfolding MmSendWriteData_def Let_def OFFSET_COMM_Data_def
    by (simp add: size MmInitCommBuffer_result [OF assms(5)] True fill load store [simplified] MmSendCommBuffer_def)
  note handled = handler_write [OF assms(3,4,5), of ?C3 "take n Buffer @ drop n ?rest" S P V, simplified,
      unfolded FPNorFlashWrite_prefix [OF assms(6)]]
  show ?thesis
  proof (cases "n < 8")
    case True
    with handled SendThrough_handler [OF assms(2) _ \<open>n \<le> comm_capacity\<close>, of ?C3 s] show ?thesis
      by (intro exI [of _ "\<lambda>st. ?C3\<lparr>CommReturnStatus := st\<rparr>"]) (simp add: sends)
  next
    case False
    show ?thesis
    proof (cases "FPNorFlashWrite (StmmFlash s d) (add64 Start off) n Buffer (StmmWorld s)")
      case None
      with handled False have none: "FwPartitionMmHandler S P V (Some ?C3) (Some (104 + n)) s = None" by simp
      have length: "CommMessageLength ?C3 = 104 + n" by simp
      have "SendThrough (mMmCommProtocol M) (88 + n) ?C3 s = None"
        using handler_transport_None [OF assms(2) length none] \<open>n \<le> comm_capacity\<close>
        by (simp add: SendThrough_def add64_def layout comm_capacity_eq)
      with None False \<open>n \<le> comm_capacity\<close> show ?thesis by (simp add: sends)
    next
      case (Some r)
      with handled False SendThrough_handler [OF assms(2) _ \<open>n \<le> comm_capacity\<close>, of ?C3 s] \<open>n \<le> comm_capacity\<close>
      show ?thesis
        by (intro exI [of _ "\<lambda>st. ?C3\<lparr>CommReturnStatus := st\<rparr>"]) (auto simp: sends split: prod.splits)
    qed
  qed
qed

section \<open>The properties\<close>

text \<open>
  C11: A read through the management mode returns the bytes that the flash has at the start of the
  partition plus the offset, whatever the size of the partition; where a last message would ask for one to seven
  bytes, it fails with \<open>EFI_INVALID_PARAMETER\<close> after everything before them has been delivered. The management
  mode is as before.
\<close>

theorem mm_read_delivers:
  assumes "documented_strings (MmStrings M)" and "handler_transport S P V (mMmCommProtocol M)"
    and "mm_partition view s Name' d Start" and "reads_succeed (StmmFlash s d)"
    and "Start + off + n \<le> NorBytes (StmmFlash s d)" and "n \<le> length Buffer" and "comm_room C"
  shows "\<exists>C'. FPMmRead M Name' off n Buffer False C s
    = Some (if n mod FW_PARTITION_MM_TRANSFER_SIZE \<in> {1..7} then EFI_INVALID_PARAMETER else EFI_SUCCESS,
        content (view (StmmWorld s) d) (Start + off) (delivered n) @ drop (delivered n) Buffer, C', s)"
proof -
  have "k \<in> {1..7} \<longleftrightarrow> (if k < 8 then n - k else n) \<noteq> n" if "k \<le> n" for k :: nat
    using that by auto
  from this [of "n mod FW_PARTITION_MM_TRANSFER_SIZE"]
  have "n mod FW_PARTITION_MM_TRANSFER_SIZE \<in> {1..7} \<longleftrightarrow> delivered n \<noteq> n"
    unfolding delivered_def Let_def by simp
  then show ?thesis
    using MmReadLoop_result [OF assms(1-5), of 0 Buffer C] assms(6,7) by (auto simp: FPMmRead_def)
qed

text \<open>
  C12: A write through the management mode is the write of the flash at the start of the partition plus the
  offset, and nothing else: neither the size of the partition nor the boot chain it belongs to is looked at,
  and the sum may wrap around. Writes of fewer than eight bytes, and those that the buffer has no room for, are
  refused and leave the flash as it is.
\<close>

theorem mm_write_unchecked:
  assumes "documented_strings (MmStrings M)" and "handler_transport S P V (mMmCommProtocol M)"
    and "mm_partition view s Name' d Start" and "off < 2 ^ 64" and "n < 2 ^ 63" and "n \<le> length Buffer"
    and "comm_room C"
  shows "\<exists>C'. FPMmWrite M InstallAll FW_PARTITION_MM_DEVICE_INDEX_NORMAL Name' off n Buffer (C, s) =
    (if n < 8 \<or> comm_capacity < n then Some (EFI_INVALID_PARAMETER, C' EFI_INVALID_PARAMETER, s)
     else map_option (\<lambda>(st, w). (st, C' st, s\<lparr>StmmWorld := w\<rparr>))
            (FPNorFlashWrite (StmmFlash s d) ((Start + off) mod 2 ^ 64) n Buffer (StmmWorld s)))"
proof -
  from MmSendWriteData_result [OF assms] obtain C' where
    "MmSendWriteData M Name' off n Buffer C s =
      (if n < 8 \<or> comm_capacity < n then Some (EFI_INVALID_PARAMETER, C' EFI_INVALID_PARAMETER, s)
       else map_option (\<lambda>(st, w). (st, C' st, s\<lparr>StmmWorld := w\<rparr>))
              (FPNorFlashWrite (StmmFlash s d) (add64 Start off) n Buffer (StmmWorld s)))" by blast
  then show ?thesis
    by (intro exI [of _ C'], cases "FPNorFlashWrite (StmmFlash s d) (add64 Start off) n Buffer (StmmWorld s)")
      (auto simp: FPMmWrite_def add64_def FW_PARTITION_MM_DEVICE_INDEX_NORMAL_def
        FW_PARTITION_MM_DEVICE_INDEX_PSEUDO_def)
qed

section \<open>An example\<close>

text \<open>
  The flash and the partitions of the example for the boot configuration table, in the management mode. Its first
  partition has eight bytes.
\<close>

definition tinyStmm :: "memory STMM_STATE" where
  "tinyStmm = \<lparr> mStmmDevices = [\<lparr> StmmNorInfo = hd (tinyFlash False), StmmSocketId = 0,
       StmmFlashType = NOR_FLASH_TYPE_FW_AND_DATA \<rparr>],
     mStmmPartitions = tinyRegistry, StmmWorld = tinyMemory \<rparr>"

definition tinyStmmInit :: "memory STMM_INIT" where
  "tinyStmmInit = \<lparr> StmmGetActiveBootChain = (EFI_SUCCESS, 0), StmmGetBootChainForGpt = 0,
     PcdDataOnlyFlashIsSupported = False, PcdFwBlobIsSupported = False, StmmInfoAllocated = True,
     StmmNorFlash2 = (EFI_NOT_FOUND, []), StmmNorFlash = (EFI_NOT_FOUND, []),
     StmmPartitionData = (\<lambda>p. (EFI_NOT_FOUND, 0, 0)) \<rparr>"

definition tinyComm :: "memory STMM_STATE MM_COMM_SERVICES" where
  "tinyComm = \<lparr> MmStrings = edk2_strings,
     mMmCommProtocol = (\<lambda>n C s. map_option (\<lambda>(Status, C', s'). (EFI_SUCCESS, case C' of None \<Rightarrow> C | Some C' \<Rightarrow> C', s'))
       (FwPartitionMmHandler exampleServices examplePlatform tinyStmmInit (Some C) (Some (CommMessageLength C)) s)),
     mMmPrmCommProtocol = None \<rparr>"

definition tinyCommBuffer :: FW_PARTITION_COMM_HEADER where
  "tinyCommBuffer = \<lparr> CommMessageLength = 0, CommFunction = 0, CommReturnStatus = EFI_SUCCESS,
     CommData = replicate 66520 0 \<rparr>"

lemma tinyComm_ready:
  "documented_strings (MmStrings tinyComm)"
  "handler_transport exampleServices examplePlatform tinyStmmInit (mMmCommProtocol tinyComm)"
  "mm_partition tinyView tinyStmm (W ''BCT'') 0 0" "reads_succeed (StmmFlash tinyStmm 0)" "comm_room tinyCommBuffer"
  "NorBytes (StmmFlash tinyStmm 0) = 65536" "tinyView (StmmWorld tinyStmm) 0 = tinyMemory"
  using tinyFlash_world [of False]
  by (simp_all add: tinyComm_def edk2_strings_documented handler_transport_def mm_partition_def tinyStmm_def tinyRegistry_def
      FwPartitionFindByName_def W_def reads_succeed_def tinyFlash_def memory_flash_def comm_room_def
      tinyCommBuffer_def layout tinyView_def)

theorem mm_read_delivers_witness:
  "(\<exists>C'. FPMmRead tinyComm (W ''BCT'') 49152 8 (replicate 8 0) False tinyCommBuffer tinyStmm
       = Some (EFI_SUCCESS, [1, 2, 3, 0, 0, 0, 0, 0], C', tinyStmm))
   \<and> (\<exists>C'. FPMmRead tinyComm (W ''BCT'') 49152 7 (replicate 8 0) False tinyCommBuffer tinyStmm
       = Some (EFI_INVALID_PARAMETER, replicate 8 0, C', tinyStmm))"
proof -
  note at = mm_read_delivers [OF tinyComm_ready(1-4) _ _ tinyComm_ready(5), where off = 49152, unfolded tinyComm_ready(6,7)]
  have d: "delivered 8 = 8" "delivered 7 = 0" by (simp_all add: delivered_def FW_PARTITION_MM_TRANSFER_SIZE_def)
  have c: "content tinyMemory 49152 8 = [1, 2, 3, 0, 0, 0, 0, 0]" "content tinyMemory 49152 0 = []"
    by (simp_all add: content_def upt_conv_Cons tinyMemory_def)
  show ?thesis
    using at [of 8 "replicate 8 0"] at [of 7 "replicate 8 0"]
    by (simp add: d c FW_PARTITION_MM_TRANSFER_SIZE_def)
qed

theorem mm_write_unchecked_witness:
  "\<exists>C' s'. FPMmWrite tinyComm (\<lambda>(C, s). (EFI_SUCCESS, C, s)) FW_PARTITION_MM_DEVICE_INDEX_NORMAL (W ''BCT'')
      49156 8 [1, 2, 3, 4, 5, 6, 7, 8] (tinyCommBuffer, tinyStmm) = Some (EFI_SUCCESS, C', s')
    \<and> content (StmmWorld s') 49156 8 = [1, 2, 3, 4, 5, 6, 7, 8]"
proof -
  let ?xs = "[1, 2, 3, 4, 5, 6, 7, 8] :: byte list" and ?f = "program (erased tinyMemory 49156 8) 49156 [1, 2, 3, 4, 5, 6, 7, 8]"
  have "FPNorFlashWrite (StmmFlash tinyStmm 0) 49156 8 ?xs (StmmWorld tinyStmm) = Some (EFI_SUCCESS, ?f)"
    using tiny_align [of 8]
    by (simp add: tinyStmm_def tinyFlash_def FPNorFlashWrite_def EraseBeforeWrite_def FPNorFlashErase_def memory_flash_def
        FwPartitionCheckOffsetAndBytes_def add64_def load_bytes_def u32_def)
  moreover have "content ?f 49156 8 = ?xs"
  proof -
    have "content ?f 49156 (length ?xs) = ?xs" by (rule program_erased) simp_all
    moreover have "length ?xs = 8" by simp
    ultimately show ?thesis by (simp only:)
  qed
  ultimately show ?thesis
    using mm_write_unchecked [OF tinyComm_ready(1-3) _ _ _ tinyComm_ready(5), where off = 49156 and n = 8
        and Buffer = ?xs and InstallAll = "\<lambda>(C, s). (EFI_SUCCESS, C, s)"]
    by (auto simp: comm_capacity_eq)
qed

end
