(* ===== verification/FwVersion.thy ===== *)
theory FwVersion
  imports TegraFmpUpdate WildcardString
begin

text \<open>
  The version of the firmware: \<open>VerPartitionLib.c\<close>, which parses the content of the version partition,
  the two variants of the version library (\<open>FmpVersionLib.c\<close> with \<open>FmpVersionLibPartition.c\<close> or
  \<open>FmpVersionLibPcd.c\<close>), and the entry points of \<open>FmpDeviceLib.c\<close> that hand this version, the check and
  the update to the firmware management protocol.

  A pointer into a zero-terminated string is the list of the characters from there on, as in the
  theory of the wildcard library.
\<close>

section \<open>The version partition\<close>

definition NEWLINE :: byte where "NEWLINE = 0x0a"
definition VERSION_STR_ID :: cstring where "VERSION_STR_ID = [0x4e, 0x56, 0x34]"
definition VERSION_STR_CRC32 :: cstring where "VERSION_STR_CRC32 = [0x43, 0x52, 0x43, 0x33, 0x32, 0x3a]"
definition VERSION_STRING_LINE :: nat where "VERSION_STRING_LINE = 2"
definition VERSION32_LINE :: nat where "VERSION32_LINE = 5"
definition VERSION_CRC32_LINE :: nat where "VERSION_CRC32_LINE = 6"

lemmas version_codes [codes] = VERSION_STR_ID_def VERSION_STR_CRC32_def VERSION_STRING_LINE_def
  VERSION32_LINE_def VERSION_CRC32_LINE_def

text \<open>
  The EDK2 functions the parser calls: \<open>AsciiStrStr\<close>, \<open>CalculateCrc32\<close>, the two conversions of hexadecimal
  numbers, and whether \<open>AllocatePool\<close> has as many bytes.
\<close>

record VER_SERVICES =
  VerStrStr :: "cstring \<Rightarrow> cstring \<Rightarrow> cstring option"
  VerCrc32 :: "byte list \<Rightarrow> nat"
  AsciiStrHexToUintn :: "cstring \<Rightarrow> nat"
  AsciiStrHexToUint64 :: "cstring \<Rightarrow> nat"
  VerAllocatePool :: "nat \<Rightarrow> bool"

text \<open>The loop of \<open>AsciiFindLine\<close> with \<open>n\<close> lines left to skip.\<close>

primrec FindLineLoop :: "(cstring \<Rightarrow> cstring \<Rightarrow> cstring option) \<Rightarrow> nat \<Rightarrow> cstring \<Rightarrow> cstring option" where
  "FindLineLoop StrStr 0 Line = Some Line"
| "FindLineLoop StrStr (Suc n) Line =
     (case StrStr Line [NEWLINE] of
        None \<Rightarrow> None
      | Some Found \<Rightarrow> FindLineLoop StrStr n (tl Found))"

definition AsciiFindLine :: "(cstring \<Rightarrow> cstring \<Rightarrow> cstring option) \<Rightarrow> cstring \<Rightarrow> nat \<Rightarrow> cstring option" where
  "AsciiFindLine StrStr String' LineNumber = FindLineLoop StrStr (LineNumber - 1) String'"

text \<open>
  The checksum in the last line against that of the lines before it; \<open>EFI_SUCCESS\<close> when they agree.
  \<open>DataLen\<close> is the size the caller gave.
\<close>

definition CheckVersionCrc :: "VER_SERVICES \<Rightarrow> cstring \<Rightarrow> nat \<Rightarrow> EFI_STATUS" where
  "CheckVersionCrc V VerData DataLen =
     (case AsciiFindLine (VerStrStr V) VerData VERSION_CRC32_LINE of
        None \<Rightarrow> EFI_VOLUME_CORRUPTED
      | Some Line \<Rightarrow>
          let CrcReceived = VerCrc32 V (take (length VerData - length Line) VerData) in
          (case VerStrStr V Line VERSION_STR_CRC32 of
             None \<Rightarrow> EFI_INVALID_PARAMETER
           | Some Found \<Rightarrow>
               let CrcStr = drop (length VERSION_STR_CRC32) Found in
               if DataLen \<le> length VerData - length CrcStr then EFI_INVALID_PARAMETER
               else if u32 (AsciiStrHexToUintn V CrcStr) \<noteq> CrcReceived then EFI_VOLUME_CORRUPTED
               else EFI_SUCCESS))"

text \<open>
  The lines with the version string and the number. A missing end of the string's line is a null
  pointer that is subtracted from.
\<close>

definition ExtractVersion :: "VER_SERVICES \<Rightarrow> cstring \<Rightarrow> (EFI_STATUS \<times> cstring option \<times> nat option) option" where
  "ExtractVersion V VerData =
     (case AsciiFindLine (VerStrStr V) VerData VERSION_STRING_LINE of
        None \<Rightarrow> Some (EFI_INVALID_PARAMETER, None, None)
      | Some Line \<Rightarrow> do {
          EndOfLine \<leftarrow> VerStrStr V Line [NEWLINE];
          let LineLength = length Line - length EndOfLine;
          if \<not> VerAllocatePool V (LineLength + 1) then Some (EFI_OUT_OF_RESOURCES, None, None)
          else (case AsciiFindLine (VerStrStr V) VerData VERSION32_LINE of
              None \<Rightarrow> Some (EFI_INVALID_PARAMETER, None, None)
            | Some Line32 \<Rightarrow>
                let Version64 = AsciiStrHexToUint64 V Line32 in
                if Version64 > 2 ^ 32 - 1 then Some (EFI_INVALID_PARAMETER, None, None)
                else Some (EFI_SUCCESS, Some (take LineLength Line), Some Version64)) })"

text \<open>
  \<open>Data\<close> is the memory from the pointer on. The second and third result are the version string and the
  version, \<open>None\<close> for a null pointer and for a variable that keeps its value.
\<close>

definition VerPartitionGetVersion ::
  "VER_SERVICES \<Rightarrow> byte list \<Rightarrow> nat \<Rightarrow> (EFI_STATUS \<times> cstring option \<times> nat option) option" where
  "VerPartitionGetVersion V Data DataLen = do {
     Id \<leftarrow> AsciiStrnCmpIsZero Data 0 VERSION_STR_ID (length VERSION_STR_ID);
     if \<not> Id then Some (EFI_UNSUPPORTED, None, None)
     else do {
       VerData \<leftarrow> CString Data 0;
       let Status = CheckVersionCrc V VerData DataLen;
       if EFI_ERROR Status then Some (Status, None, None)
       else ExtractVersion V VerData } }"

section \<open>The version library\<close>

text \<open>
  The module variables of both files; \<open>mFmpVersionCallback\<close> says whether the function pointer is set, and
  \<open>VersionCallbacks\<close> are the statuses it was called with.
\<close>

record FMP_VERSION_GLOBALS =
  mFmpVersionStatus :: EFI_STATUS
  mFmpVersion :: nat
  mFmpVersionString :: "wstring option"
  mFmpVersionCallback :: bool
  mVersionBootChain :: nat
  VersionCallbacks :: "EFI_STATUS list"

definition InitialVersionGlobals :: FMP_VERSION_GLOBALS where
  "InitialVersionGlobals = \<lparr> mFmpVersionStatus = EFI_UNSUPPORTED, mFmpVersion = 0, mFmpVersionString = None,
     mFmpVersionCallback = False, mVersionBootChain = 2 ^ 32 - 1, VersionCallbacks = [] \<rparr>"

text \<open>\<open>Version\<close> and \<open>VersionString\<close> say whether the caller wants the result.\<close>

definition FmpVersionGet ::
  "(nat \<Rightarrow> bool) \<Rightarrow> bool \<Rightarrow> bool \<Rightarrow> FMP_VERSION_GLOBALS \<Rightarrow> (EFI_STATUS \<times> nat option \<times> wstring option) option" where
  "FmpVersionGet Alloc Version VersionString G =
     (if EFI_ERROR (mFmpVersionStatus G) then Some (mFmpVersionStatus G, None, None)
      else
        let Stored = (if Version then Some (mFmpVersion G) else None) in
        if \<not> VersionString then Some (EFI_SUCCESS, Stored, None)
        else do {
          String' \<leftarrow> mFmpVersionString G;
          if \<not> Alloc (2 * (length String' + 1)) then Some (EFI_OUT_OF_RESOURCES, Stored, None)
          else Some (EFI_SUCCESS, Stored, Some String') })"

section \<open>The version from the partition\<close>

definition VER_PARTITION_NAME :: wstring where "VER_PARTITION_NAME = W ''VER''"
definition VERSION_BUFFER_SIZE :: nat where "VERSION_BUFFER_SIZE = 8 * 1024"

text \<open>
  The image protocol, the parser, the pool, the conversion of a string to UTF-16 and the variable
  \<open>SystemFwVersions\<close>, whose status is not used.
\<close>

record ('i, 's) FMP_VERSION_SERVICES =
  VersionProtocol :: "('i, 's) NVIDIA_FW_IMAGE_PROTOCOL"
  VersionParser :: VER_SERVICES
  VersionAlloc :: "nat \<Rightarrow> bool"
  AsciiStrToUnicodeStrS :: "cstring \<Rightarrow> nat \<Rightarrow> EFI_STATUS \<times> wstring"
  SetSystemFwVersions :: "nat list \<Rightarrow> 's \<Rightarrow> 's"

definition SetFwVersionVariable ::
  "('i, 's) FMP_VERSION_SERVICES \<Rightarrow> nat \<Rightarrow> nat \<Rightarrow> FMP_VERSION_GLOBALS \<Rightarrow> 's \<Rightarrow> 's" where
  "SetFwVersionVariable E ActiveVersion InactiveVersion G s =
     SetSystemFwVersions E
       [if mVersionBootChain G = BOOT_CHAIN_A then ActiveVersion else InactiveVersion,
        if mVersionBootChain G = BOOT_CHAIN_B then ActiveVersion else InactiveVersion] s"

text \<open>The read and the parsing of a version, which the code has twice.\<close>

definition ReadVersion ::
  "('i, 's) FMP_VERSION_SERVICES \<Rightarrow> 'i \<Rightarrow> nat \<Rightarrow> nat \<Rightarrow> byte list \<Rightarrow> 's
   \<Rightarrow> (EFI_STATUS \<times> cstring option \<times> nat option \<times> byte list \<times> 's) option" where
  "ReadVersion E i BufferSize Flags DataBuffer s = do {
     (Status, DataBuffer, s) \<leftarrow> ImageRead (VersionProtocol E) i 0 BufferSize DataBuffer Flags s;
     if EFI_ERROR Status then Some (Status, None, None, DataBuffer, s)
     else if BufferSize = 0 then None
     else do {
       DataBuffer \<leftarrow> store_bytes DataBuffer (BufferSize - 1) [0];
       (Status, VerStr, Version) \<leftarrow> VerPartitionGetVersion (VersionParser E) DataBuffer BufferSize;
       Some (Status, VerStr, Version, DataBuffer, s) } }"

definition StoreVersionString ::
  "('i, 's) FMP_VERSION_SERVICES \<Rightarrow> cstring \<Rightarrow> FMP_VERSION_GLOBALS \<Rightarrow> EFI_STATUS \<times> FMP_VERSION_GLOBALS" where
  "StoreVersionString E VerStr G =
     (let VerStrSize = length VerStr + 1 in
      if \<not> VersionAlloc E (VerStrSize * 2) then (EFI_OUT_OF_RESOURCES, G\<lparr>mFmpVersionString := None\<rparr>)
      else (case AsciiStrToUnicodeStrS E VerStr VerStrSize of (Status, Copied) \<Rightarrow>
        let G = G\<lparr>mFmpVersionString := Some Copied\<rparr> in
        if EFI_ERROR Status then (Status, G) else (EFI_SUCCESS, G\<lparr>mFmpVersionStatus := EFI_SUCCESS\<rparr>)))"

text \<open>Up to the label \<open>Done\<close>: the status, and the version of the inactive chain.\<close>

definition GetBothVersions ::
  "('i, 's) FMP_VERSION_SERVICES \<Rightarrow> 'i \<Rightarrow> FMP_VERSION_GLOBALS \<Rightarrow> 's
   \<Rightarrow> (EFI_STATUS \<times> nat \<times> FMP_VERSION_GLOBALS \<times> 's) option" where
  "GetBothVersions E i G s = do {
     (Status, Attributes) \<leftarrow> ImageGetAttributes (VersionProtocol E) i s;
     if EFI_ERROR Status then Some (Status, 2 ^ 32 - 1, G, s)
     else if \<not> VersionAlloc E VERSION_BUFFER_SIZE then Some (EFI_OUT_OF_RESOURCES, 2 ^ 32 - 1, G, s)
     else do {
       let BufferSize = min (ReadBytes Attributes) VERSION_BUFFER_SIZE;
       (Status, VerStr, Version, DataBuffer, s) \<leftarrow>
         ReadVersion E i BufferSize FW_IMAGE_RW_FLAG_NONE (replicate VERSION_BUFFER_SIZE 0) s;
       let G = (case Version of None \<Rightarrow> G | Some v \<Rightarrow> G\<lparr>mFmpVersion := v\<rparr>);
       if EFI_ERROR Status then Some (Status, 2 ^ 32 - 1, G, s)
       else do {
         VerStr \<leftarrow> VerStr;
         (case StoreVersionString E VerStr G of (Status, G) \<Rightarrow>
           if EFI_ERROR Status then Some (Status, 2 ^ 32 - 1, G, s)
           else do {
             (InactiveStatus, InactiveStr, InactiveVersion, DataBuffer, s) \<leftarrow>
               ReadVersion E i BufferSize FW_IMAGE_RW_FLAG_READ_INACTIVE_IMAGE DataBuffer s;
             Some (Status, case InactiveVersion of None \<Rightarrow> 2 ^ 32 - 1 | Some v \<Rightarrow> v, G, s) }) } } }"

definition FmpVersionPartitionGetInfo ::
  "('i, 's) FMP_VERSION_SERVICES \<Rightarrow> 'i FW_IMAGE_LIB \<Rightarrow> FMP_VERSION_GLOBALS \<Rightarrow> 's
   \<Rightarrow> (EFI_STATUS \<times> FMP_VERSION_GLOBALS \<times> 's) option" where
  "FmpVersionPartitionGetInfo E Lib G s =
     (case FwImageFindProtocol Lib VER_PARTITION_NAME of
        None \<Rightarrow> Some (EFI_NOT_FOUND, G, s)
      | Some i \<Rightarrow> do {
          (Status, InactiveVersion, G, s) \<leftarrow> GetBothVersions E i G s;
          let G = (if EFI_ERROR Status
                   then G\<lparr>mFmpVersionString := None, mFmpVersion := 0, mFmpVersionStatus := EFI_UNSUPPORTED\<rparr>
                   else G);
          Some (mFmpVersionStatus G, G, SetFwVersionVariable E
            (if mFmpVersionStatus G = EFI_SUCCESS then mFmpVersion G else 2 ^ 32 - 1) InactiveVersion G s) })"

definition FmpVersionFwImageCallback ::
  "('i, 's) FMP_VERSION_SERVICES \<Rightarrow> 'i FW_IMAGE_LIB \<Rightarrow> FMP_VERSION_GLOBALS \<Rightarrow> 's
   \<Rightarrow> ('i FW_IMAGE_LIB \<times> FMP_VERSION_GLOBALS \<times> 's) option" where
  "FmpVersionFwImageCallback E Lib G s = do {
     (Status, G, s) \<leftarrow> (if mFmpVersionStatus G = EFI_UNSUPPORTED then FmpVersionPartitionGetInfo E Lib G s
                        else Some (EFI_SUCCESS, G, s));
     if Status = EFI_NOT_FOUND then Some (Lib, G, s)
     else if \<not> mFmpVersionCallback G then None
     else Some (FwImageRegisterImageAddedCallback False Lib,
                G\<lparr>VersionCallbacks := VersionCallbacks G @ [mFmpVersionStatus G]\<rparr>, s) }"

text \<open>The registration calls the callback at once when there are images already.\<close>

definition FmpVersionLibInit ::
  "('i, 's) FMP_VERSION_SERVICES \<Rightarrow> nat \<Rightarrow> bool \<Rightarrow> 'i FW_IMAGE_LIB \<Rightarrow> FMP_VERSION_GLOBALS \<Rightarrow> 's
   \<Rightarrow> (EFI_STATUS \<times> 'i FW_IMAGE_LIB \<times> FMP_VERSION_GLOBALS \<times> 's) option" where
  "FmpVersionLibInit E ActiveBootChain Callback Lib G s =
     (if \<not> Callback then Some (EFI_INVALID_PARAMETER, Lib, G, s)
      else
        let G = G\<lparr>mVersionBootChain := ActiveBootChain, mFmpVersionCallback := True\<rparr>;
            Lib = FwImageRegisterImageAddedCallback True Lib in
        if mNumImages Lib > 0 then do {
          (Lib, G, s) \<leftarrow> FmpVersionFwImageCallback E Lib G s;
          Some (EFI_SUCCESS, Lib, G, s) }
        else Some (EFI_SUCCESS, Lib, G, s))"

section \<open>The version from the build\<close>

text \<open>The settings with the version string and the number, and the services on UTF-16 strings.\<close>

record PCD_VERSION =
  PcdUefiVersionString :: wstring
  PcdUefiHexVersionNumber :: "wstring option"
  PcdVersionAlloc :: "nat \<Rightarrow> bool"
  StrHexToUint64S :: "wstring \<Rightarrow> EFI_STATUS \<times> nat"

definition FmpVersionPcdGetInfo ::
  "EDK2_STRINGS \<Rightarrow> PCD_VERSION \<Rightarrow> FMP_VERSION_GLOBALS \<Rightarrow> EFI_STATUS \<times> FMP_VERSION_GLOBALS" where
  "FmpVersionPcdGetInfo L P G =
     (let VersionStrLen = 2 * (length (PcdUefiVersionString P) + 1) in
      if \<not> PcdVersionAlloc P VersionStrLen then (EFI_OUT_OF_RESOURCES, G\<lparr>mFmpVersionString := None\<rparr>)
      else
        let G = G\<lparr>mFmpVersionString :=
                    Some (snd (StrCpyS L (VersionStrLen div 2) (PcdUefiVersionString P) []))\<rparr> in
        (case PcdUefiHexVersionNumber P of
           None \<Rightarrow> (EFI_UNSUPPORTED, G)
         | Some VersionStr \<Rightarrow>
             (case (if VersionStr = [] then (EFI_SUCCESS, 0) else StrHexToUint64S P VersionStr) of
                (Status, Version64) \<Rightarrow>
                  if EFI_ERROR Status \<or> Version64 > 2 ^ 32 - 1 then (EFI_UNSUPPORTED, G)
                  else (EFI_SUCCESS, G\<lparr>mFmpVersion := Version64, mFmpVersionStatus := EFI_SUCCESS\<rparr>))))"

definition FmpVersionLibInitPcd ::
  "EDK2_STRINGS \<Rightarrow> PCD_VERSION \<Rightarrow> bool \<Rightarrow> FMP_VERSION_GLOBALS \<Rightarrow> EFI_STATUS \<times> FMP_VERSION_GLOBALS" where
  "FmpVersionLibInitPcd L P Callback G =
     (if \<not> Callback then (EFI_INVALID_PARAMETER, G)
      else (case FmpVersionPcdGetInfo L P G of (Status, G) \<Rightarrow>
        (EFI_SUCCESS, G\<lparr>VersionCallbacks := VersionCallbacks G @ [mFmpVersionStatus G]\<rparr>)))"

section \<open>The entry points of the FMP device library\<close>

definition RegisterFmpInstaller :: "bool \<Rightarrow> FMP_GLOBALS \<Rightarrow> EFI_STATUS \<times> FMP_GLOBALS" where
  "RegisterFmpInstaller Function g = FmpTegraRegisterInstaller Function g"

definition RegisterFmpUninstaller :: "FMP_GLOBALS \<Rightarrow> EFI_STATUS" where
  "RegisterFmpUninstaller g = FmpTegraRegisterUninstaller g"

text \<open>An argument \<open>Size\<close>, \<open>Supported\<close>, \<open>Setting\<close> or \<open>Version\<close> says whether the pointer is not null.\<close>

definition FmpDeviceGetSize :: "bool \<Rightarrow> EFI_STATUS \<times> nat option" where
  "FmpDeviceGetSize Size = (if \<not> Size then (EFI_INVALID_PARAMETER, None) else (EFI_SUCCESS, Some 0))"

definition FmpDeviceGetAttributes :: "nat \<Rightarrow> nat \<Rightarrow> bool \<Rightarrow> bool \<Rightarrow> EFI_STATUS \<times> (nat \<times> nat) option" where
  "FmpDeviceGetAttributes PcdSupported PcdSetting Supported Setting =
     (if \<not> Supported \<or> \<not> Setting then (EFI_INVALID_PARAMETER, None)
      else (EFI_SUCCESS, Some (PcdSupported, PcdSetting)))"

definition FmpDeviceGetVersionString ::
  "(nat \<Rightarrow> bool) \<Rightarrow> bool \<Rightarrow> FMP_VERSION_GLOBALS \<Rightarrow> (EFI_STATUS \<times> wstring option) option" where
  "FmpDeviceGetVersionString Alloc VersionString G =
     (if \<not> VersionString then Some (EFI_INVALID_PARAMETER, None)
      else map_option (\<lambda>(Status, _, String'). (Status, String')) (FmpVersionGet Alloc False True G))"

definition FmpDeviceGetVersion ::
  "(nat \<Rightarrow> bool) \<Rightarrow> bool \<Rightarrow> FMP_VERSION_GLOBALS \<Rightarrow> (EFI_STATUS \<times> nat option) option" where
  "FmpDeviceGetVersion Alloc Version G =
     (if \<not> Version then Some (EFI_INVALID_PARAMETER, None)
      else map_option (\<lambda>(Status, Stored, _). (Status, Stored)) (FmpVersionGet Alloc True False G))"

text \<open>\<open>LastAttemptStatus\<close> is a local variable in the variants without a status.\<close>

definition FmpDeviceCheckImageWithStatus ::
  "('i, 's) FMP_IMAGES \<Rightarrow> 's FMP_SERVICES \<Rightarrow> byte list option \<Rightarrow> nat \<Rightarrow> bool \<Rightarrow> FMP_GLOBALS \<Rightarrow> 's
   \<Rightarrow> (EFI_STATUS \<times> (IMAGE_UPDATABLE \<times> LAST_ATTEMPT_STATUS) option \<times> FMP_GLOBALS \<times> 's) option" where
  "FmpDeviceCheckImageWithStatus I S Capsule ImageSize Results g s = FmpTegraCheckImage I S Capsule ImageSize Results g s"

definition FmpDeviceCheckImage ::
  "('i, 's) FMP_IMAGES \<Rightarrow> 's FMP_SERVICES \<Rightarrow> byte list option \<Rightarrow> nat \<Rightarrow> bool \<Rightarrow> FMP_GLOBALS \<Rightarrow> 's
   \<Rightarrow> (EFI_STATUS \<times> IMAGE_UPDATABLE option \<times> FMP_GLOBALS \<times> 's) option" where
  "FmpDeviceCheckImage I S Capsule ImageSize ImageUpdatable g s =
     map_option (\<lambda>(Status, Results, g, s). (Status, map_option fst Results, g, s))
       (FmpDeviceCheckImageWithStatus I S Capsule ImageSize ImageUpdatable g s)"

definition FmpDeviceSetImageWithStatus ::
  "('i, 's) FMP_IMAGES \<Rightarrow> 's FMP_SERVICES \<Rightarrow> byte list option \<Rightarrow> bool \<Rightarrow> FMP_GLOBALS \<Rightarrow> 's
   \<Rightarrow> (EFI_STATUS \<times> LAST_ATTEMPT_STATUS option \<times> FMP_GLOBALS \<times> 's) option" where
  "FmpDeviceSetImageWithStatus I S Capsule Result g s = FmpTegraSetImage I S Capsule Result g s"

definition FmpDeviceSetImage ::
  "('i, 's) FMP_IMAGES \<Rightarrow> 's FMP_SERVICES \<Rightarrow> byte list option \<Rightarrow> FMP_GLOBALS \<Rightarrow> 's
   \<Rightarrow> (EFI_STATUS \<times> FMP_GLOBALS \<times> 's) option" where
  "FmpDeviceSetImage I S Capsule g s =
     map_option (\<lambda>(Status, Last, g, s). (Status, g, s)) (FmpDeviceSetImageWithStatus I S Capsule True g s)"

end
