(* ===== verification/FwVersionProps.thy ===== *)
theory FwVersionProps
  imports FwVersion TegraFmpExample FwPartitionTheorems
begin

text \<open>
  What the parser of the version partition accepts, and that the version the firmware management
  protocol reports is the one of the running boot chain.
\<close>

section \<open>Hexadecimal numbers\<close>

definition hex_digit :: "nat \<Rightarrow> byte" where
  "hex_digit k = of_nat (if k < 10 then 0x30 + k else 0x41 + (k - 10))"

primrec hex_digits :: "nat \<Rightarrow> nat \<Rightarrow> cstring" where
  "hex_digits 0 v = []"
| "hex_digits (Suc n) v = hex_digits n (v div 16) @ [hex_digit (v mod 16)]"

text \<open>
  \<open>AsciiStrHexToUintn\<close> and \<open>AsciiStrHexToUint64\<close> read a number with or without the prefix \<open>0x\<close>, up to the
  end of the line or of the string.
\<close>

definition documented_hex :: "(cstring \<Rightarrow> nat) \<Rightarrow> bool" where
  "documented_hex f \<longleftrightarrow>
     (\<forall>prefix n v rest. prefix \<in> {[], [0x30, 0x78]} \<longrightarrow> 0 < n \<longrightarrow> n \<le> 16 \<longrightarrow> v < 16 ^ n
        \<longrightarrow> rest = [] \<or> hd rest = NEWLINE \<longrightarrow> f (prefix @ hex_digits n v @ rest) = v)"

lemma documented_hexD:
  "documented_hex f \<Longrightarrow> prefix \<in> {[], [0x30, 0x78]} \<Longrightarrow> 0 < n \<Longrightarrow> n \<le> 16 \<Longrightarrow> v < 16 ^ n
     \<Longrightarrow> rest = [] \<or> hd rest = NEWLINE \<Longrightarrow> f (prefix @ hex_digits n v @ rest) = v"
  unfolding documented_hex_def by blast

text \<open>A function that keeps this.\<close>

definition hex_value :: "byte \<Rightarrow> nat option" where
  "hex_value c =
     (if 0x30 \<le> c \<and> c \<le> 0x39 then Some (unat c - 0x30)
      else if 0x41 \<le> c \<and> c \<le> 0x46 then Some (unat c - 0x41 + 10)
      else if 0x61 \<le> c \<and> c \<le> 0x66 then Some (unat c - 0x61 + 10)
      else None)"

fun read_digits :: "nat \<Rightarrow> cstring \<Rightarrow> nat" where
  "read_digits acc [] = acc"
| "read_digits acc (c # s) = (case hex_value c of None \<Rightarrow> acc | Some k \<Rightarrow> read_digits (16 * acc + k) s)"

definition read_hex :: "cstring \<Rightarrow> nat" where
  "read_hex s = read_digits 0 (if take 2 s = [0x30, 0x78] then drop 2 s else s)"

lemma hex_digit_value:
  assumes "k < 16"
  shows "hex_value (hex_digit k) = Some k" and "hex_digit k \<notin> {0, NEWLINE, 0x78}"
proof -
  have "\<forall>k \<in> set [0..<16]. hex_value (hex_digit k) = Some k \<and> hex_digit k \<notin> {0, NEWLINE, 0x78}"
    by code_simp
  with assms show "hex_value (hex_digit k) = Some k" "hex_digit k \<notin> {0, NEWLINE, 0x78}" by simp_all
qed

lemma hex_digits_plain: "c \<in> set (hex_digits n v) \<Longrightarrow> c \<notin> {0, NEWLINE, 0x78}"
proof (induction n arbitrary: v)
  case (Suc n)
  then show ?case using hex_digit_value(2) [of "v mod 16"] by auto
qed simp

lemma length_hex_digits [simp]: "length (hex_digits n v) = n"
  by (induction n arbitrary: v) simp_all

lemma read_hex_digits: "v < 16 ^ n \<Longrightarrow> read_digits acc (hex_digits n v @ rest) = read_digits (acc * 16 ^ n + v) rest"
proof (induction n arbitrary: v rest)
  case (Suc n)
  have "v div 16 < 16 ^ n" using Suc.prems by (simp add: less_mult_imp_div_less mult.commute)
  from Suc.IH [OF this] show ?case
    by (simp add: hex_digit_value(1) algebra_simps)
qed simp

lemma read_hex_documented: "documented_hex read_hex"
  unfolding documented_hex_def
proof (intro allI impI)
  fix prefix rest :: cstring and n v :: nat
  assume p: "prefix \<in> {[], [0x30, 0x78]}" and n: "0 < n" "n \<le> 16" "v < 16 ^ n" and r: "rest = [] \<or> hd rest = NEWLINE"
  have stop: "read_digits v rest = v" using r by (cases rest) (auto simp: hex_value_def NEWLINE_def)
  have "take 2 (hex_digits n v @ rest) \<noteq> [0x30, 0x78]"
  proof
    assume *: "take 2 (hex_digits n v @ rest) = [0x30, 0x78]"
    have "(take 2 (hex_digits n v @ rest)) ! 1 = (hex_digits n v @ rest) ! 1" by (rule nth_take) simp
    with * have x: "(hex_digits n v @ rest) ! 1 = 0x78" by simp
    show False
    proof (cases "n = 1")
      case True
      with x * r show False by (cases rest) (auto simp: NEWLINE_def nth_append)
    next
      case False
      with n(1) have "1 < n" by simp
      with x have "hex_digits n v ! 1 = 0x78" by (simp add: nth_append)
      moreover have "hex_digits n v ! 1 \<in> set (hex_digits n v)" using \<open>1 < n\<close> by (intro nth_mem) simp
      ultimately have "0x78 \<in> set (hex_digits n v)" by (simp only:)
      from hex_digits_plain [OF this] show False by simp
    qed
  qed
  with p stop n(3) read_hex_digits [of v n 0 rest] show "read_hex (prefix @ hex_digits n v @ rest) = v"
    by (auto simp: read_hex_def)
qed

section \<open>Lines\<close>

lemma StrStr_first:
  assumes "documented_StrStr StrStr" and "c \<notin> set l"
  shows "StrStr (l @ c # t @ r) (c # t) = Some (c # t @ r)"
proof (cases "StrStr (l @ c # t @ r) (c # t)")
  case None
  from StrStr_None [OF assms(1) None, of l r] show ?thesis by simp
next
  case (Some u)
  from StrStr_Some [OF assms(1) Some] obtain a r' where u: "l @ c # t @ r = a @ u" "u = (c # t) @ r'"
    "\<And>a' r'. l @ c # t @ r = a' @ (c # t) @ r' \<Longrightarrow> length a \<le> length a'" by auto
  from u(3) [of l r] have "length a \<le> length l" by simp
  moreover have "\<not> length a < length l"
  proof
    assume "length a < length l"
    moreover from u(1,2) have "(l @ c # t @ r) ! length a = c" by (simp add: nth_append)
    ultimately have "c \<in> set l" by (auto simp: nth_append in_set_conv_nth)
    with assms(2) show False ..
  qed
  ultimately have "length a = length l" by simp
  with u(1) have "u = c # t @ r" by simp
  with Some show ?thesis by simp
qed

lemma FindLineLoop_line:
  assumes "documented_StrStr StrStr" and "NEWLINE \<notin> set l"
  shows "FindLineLoop StrStr (Suc n) (l @ NEWLINE # r) = FindLineLoop StrStr n r"
  using StrStr_first [OF assms, of "[]" r] by simp

section \<open>The version file\<close>

text \<open>
  The file as it is described at the head of \<open>VerPartitionLib.c\<close>: the identifier, the version string, the
  board, the time and the version as a number, each on a line, then the line with the checksum of the
  lines before.
\<close>

definition version_head :: "cstring \<Rightarrow> cstring \<Rightarrow> cstring \<Rightarrow> nat \<Rightarrow> cstring" where
  "version_head str board stamp v =
     VERSION_STR_ID @ NEWLINE # str @ NEWLINE # board @ NEWLINE # stamp @ NEWLINE
       # ([0x30, 0x78] @ hex_digits 8 v) @ [NEWLINE]"

definition version_file :: "cstring \<Rightarrow> cstring \<Rightarrow> cstring \<Rightarrow> nat \<Rightarrow> cstring \<Rightarrow> nat \<Rightarrow> cstring" where
  "version_file str board stamp v label crc =
     version_head str board stamp v @ label @ VERSION_STR_CRC32 @ hex_digits 8 crc"

definition plain_text :: "cstring \<Rightarrow> bool" where
  "plain_text s \<longleftrightarrow> 0 \<notin> set s \<and> NEWLINE \<notin> set s"

lemmas version_text = version_file_def version_head_def VERSION_STR_ID_def VERSION_STR_CRC32_def plain_text_def

lemma version_lines:
  assumes "documented_StrStr StrStr" and "plain_text str" and "plain_text board" and "plain_text stamp"
  shows "AsciiFindLine StrStr (version_head str board stamp v @ rest) VERSION_CRC32_LINE = Some rest"
    and "AsciiFindLine StrStr (version_head str board stamp v @ rest) VERSION_STRING_LINE
       = Some (str @ NEWLINE # board @ NEWLINE # stamp @ NEWLINE # [0x30, 0x78] @ hex_digits 8 v @ NEWLINE # rest)"
    and "AsciiFindLine StrStr (version_head str board stamp v @ rest) VERSION32_LINE
       = Some ([0x30, 0x78] @ hex_digits 8 v @ NEWLINE # rest)"
proof -
  have id: "NEWLINE \<notin> set VERSION_STR_ID" and number: "NEWLINE \<notin> set ([0x30, 0x78] @ hex_digits 8 v)"
    using hex_digits_plain [of NEWLINE 8 v] by (auto simp: VERSION_STR_ID_def NEWLINE_def)
  note line = FindLineLoop_line [OF assms(1)]
  have count: "VERSION_CRC32_LINE - 1 = Suc (Suc (Suc (Suc (Suc 0))))" "VERSION_STRING_LINE - 1 = Suc 0"
    "VERSION32_LINE - 1 = Suc (Suc (Suc (Suc 0)))"
    by (simp_all add: version_codes)
  have s: "NEWLINE \<notin> set str" "NEWLINE \<notin> set board" "NEWLINE \<notin> set stamp"
    using assms(2-4) by (simp_all add: plain_text_def)
  let ?r3 = "stamp @ NEWLINE # ([0x30, 0x78] @ hex_digits 8 v) @ NEWLINE # rest"
  have head: "version_head str board stamp v @ rest
      = VERSION_STR_ID @ NEWLINE # str @ NEWLINE # board @ NEWLINE # ?r3" by (simp add: version_head_def)
  show "AsciiFindLine StrStr (version_head str board stamp v @ rest) VERSION_CRC32_LINE = Some rest"
    unfolding AsciiFindLine_def head count
    by (simp only: line [OF id] line [OF s(1)] line [OF s(2)] line [OF s(3)] line [OF number]
        FindLineLoop.simps(1))
  show "AsciiFindLine StrStr (version_head str board stamp v @ rest) VERSION_STRING_LINE
       = Some (str @ NEWLINE # board @ NEWLINE # stamp @ NEWLINE # [0x30, 0x78] @ hex_digits 8 v @ NEWLINE # rest)"
    unfolding AsciiFindLine_def head count
    by (simp only: line [OF id] FindLineLoop.simps(1)) simp
  show "AsciiFindLine StrStr (version_head str board stamp v @ rest) VERSION32_LINE
       = Some ([0x30, 0x78] @ hex_digits 8 v @ NEWLINE # rest)"
    unfolding AsciiFindLine_def head count
    by (simp only: line [OF id] line [OF s(1)] line [OF s(2)] line [OF s(3)]
        FindLineLoop.simps(1)) simp
qed

text \<open>The services the parser relies on, and a file as the build writes it.\<close>

definition documented_version :: "VER_SERVICES \<Rightarrow> bool" where
  "documented_version V \<longleftrightarrow> documented_StrStr (VerStrStr V) \<and> documented_hex (AsciiStrHexToUintn V)
     \<and> documented_hex (AsciiStrHexToUint64 V)"

lemma version_file_plain:
  assumes "plain_text str" and "plain_text board" and "plain_text stamp" and "0 \<notin> set label"
  shows "0 \<notin> set (version_file str board stamp v label crc)"
  using assms hex_digits_plain [of 0 8 v] hex_digits_plain [of 0 8 crc] by (auto simp: version_text NEWLINE_def)

lemma CheckVersionCrc_file:
  assumes "documented_version V" and "plain_text str" and "plain_text board" and "plain_text stamp"
    and "0x43 \<notin> set label" and "crc < 2 ^ 32" and "length (version_file str board stamp v label crc) < DataLen"
  shows "CheckVersionCrc V (version_file str board stamp v label crc) DataLen
    = (if crc = VerCrc32 V (version_head str board stamp v) then EFI_SUCCESS else EFI_VOLUME_CORRUPTED)"
proof -
  let ?head = "version_head str board stamp v" and ?Line = "label @ VERSION_STR_CRC32 @ hex_digits 8 crc"
  have S: "documented_StrStr (VerStrStr V)" and H: "documented_hex (AsciiStrHexToUintn V)"
    using assms(1) by (simp_all add: documented_version_def)
  have line: "AsciiFindLine (VerStrStr V) (version_file str board stamp v label crc) VERSION_CRC32_LINE = Some ?Line"
    unfolding version_file_def by (rule version_lines(1) [OF S assms(2-4)])
  have found: "VerStrStr V ?Line VERSION_STR_CRC32 = Some (VERSION_STR_CRC32 @ hex_digits 8 crc)"
    using StrStr_first [OF S assms(5), of "tl VERSION_STR_CRC32" "hex_digits 8 crc"] by (simp add: VERSION_STR_CRC32_def)
  have number: "AsciiStrHexToUintn V (hex_digits 8 crc) = crc"
    using documented_hexD [OF H, of "[]" 8 crc "[]"] assms(6) by simp
  have head: "take (length (version_file str board stamp v label crc) - length ?Line)
      (version_file str board stamp v label crc) = ?head"
    by (simp add: version_file_def)
  have behind: "drop (length VERSION_STR_CRC32) (VERSION_STR_CRC32 @ hex_digits 8 crc) = hex_digits 8 crc"
    by simp
  have inside: "\<not> DataLen \<le> length (version_file str board stamp v label crc) - length (hex_digits 8 crc)"
    using assms(7) by simp
  have word: "u32 crc = crc" using assms(6) by simp
  show ?thesis
    unfolding CheckVersionCrc_def line option.case found Let_def head behind number word if_not_P [OF inside]
    by auto
qed

lemma ExtractVersion_file:
  assumes "documented_version V" and "plain_text str" and "plain_text board" and "plain_text stamp"
    and "VerAllocatePool V (length str + 1)" and "v < 2 ^ 32"
  shows "ExtractVersion V (version_file str board stamp v label crc) = Some (EFI_SUCCESS, Some str, Some v)"
proof -
  have S: "documented_StrStr (VerStrStr V)" and H: "documented_hex (AsciiStrHexToUint64 V)"
    using assms(1) by (simp_all add: documented_version_def)
  let ?rest = "label @ VERSION_STR_CRC32 @ hex_digits 8 crc"
  note lines = version_lines(2,3) [OF S assms(2-4), of v ?rest, folded version_file_def]
  have newline: "VerStrStr V (str @ NEWLINE # r) [NEWLINE] = Some (NEWLINE # r)" for r
    using StrStr_first [OF S, of NEWLINE str "[]" r] assms(2) by (simp add: plain_text_def)
  have number: "AsciiStrHexToUint64 V ([0x30, 0x78] @ hex_digits 8 v @ NEWLINE # ?rest) = v"
    using documented_hexD [OF H, of "[0x30, 0x78]" 8 v "NEWLINE # ?rest"] assms(6) by simp
  show ?thesis
    unfolding ExtractVersion_def lines option.case bind.bind_lunit newline Let_def number
    using assms(5,6) by simp
qed

lemma version_file_checked_buffer:
  assumes "documented_version V" and "plain_text str" and "plain_text board" and "plain_text stamp"
    and "0 \<notin> set label" and "0x43 \<notin> set label" and "VerAllocatePool V (length str + 1)"
    and "v < 2 ^ 32" and "crc < 2 ^ 32" and "length (version_file str board stamp v label crc) < DataLen"
  shows "VerPartitionGetVersion V (version_file str board stamp v label crc @ 0 # rest) DataLen
    = Some (if crc = VerCrc32 V (version_head str board stamp v) then (EFI_SUCCESS, Some str, Some v)
            else (EFI_VOLUME_CORRUPTED, None, None))"
proof -
  let ?file = "version_file str board stamp v label crc"
  have start: "?file @ 0 # rest = VERSION_STR_ID @ drop 3 ?file @ 0 # rest"
    by (simp add: version_file_def version_head_def VERSION_STR_ID_def)
  have "0 \<notin> set VERSION_STR_ID" by (simp add: VERSION_STR_ID_def)
  then have "AsciiStrnCmpIsZero (?file @ 0 # rest) 0 VERSION_STR_ID (length VERSION_STR_ID) = Some True"
    by (subst start) (rule AsciiStrnCmp_same(1))
  moreover have "CString (?file @ 0 # rest) 0 = Some ?file"
    using version_file_plain [OF assms(2-5), of v crc] by (auto simp: CString_drop takeWhile_append)
  ultimately show ?thesis
    by (simp add: VerPartitionGetVersion_def Let_def CheckVersionCrc_file [OF assms(1-4,6,9,10)]
        ExtractVersion_file [OF assms(1-4,7,8)])
qed

text \<open>
  C14: The version partition round trip, with its checksum: a file as the build writes it, for any
  version string, board, time and version number, is read back to that string and that number when the
  checksum in its last line is that of the lines before; with any other checksum it is refused with
  \<open>EFI_VOLUME_CORRUPTED\<close>, and no version is returned.
\<close>

theorem version_file_checked:
  assumes "documented_version V" and "plain_text str" and "plain_text board" and "plain_text stamp"
    and "0 \<notin> set label" and "0x43 \<notin> set label" and "VerAllocatePool V (length str + 1)"
    and "v < 2 ^ 32" and "crc < 2 ^ 32" and "length (version_file str board stamp v label crc) < DataLen"
  shows "VerPartitionGetVersion V (version_file str board stamp v label crc @ 0 # rest) DataLen
    = Some (if crc = VerCrc32 V (version_head str board stamp v) then (EFI_SUCCESS, Some str, Some v)
            else (EFI_VOLUME_CORRUPTED, None, None))"
  by (rule version_file_checked_buffer [OF assms])

text \<open>A file with the version \<open>1.0\<close>, and one with another checksum.\<close>

definition exampleVersionServices :: VER_SERVICES where
  "exampleVersionServices = \<lparr> VerStrStr = FirstOccurrence, VerCrc32 = (\<lambda>s. length s), AsciiStrHexToUintn = read_hex,
     AsciiStrHexToUint64 = read_hex, VerAllocatePool = (\<lambda>n. True) \<rparr>"

lemma exampleVersionServices_documented: "documented_version exampleVersionServices"
  by (simp add: documented_version_def exampleVersionServices_def FirstOccurrence_documented read_hex_documented)

theorem version_file_checked_witness:
  "VerPartitionGetVersion exampleVersionServices
     (version_file [0x31, 0x2e, 0x30] [0x62] [0x74] 0x10000 [0x20] 23 @ [0]) 100
   = Some (EFI_SUCCESS, Some [0x31, 0x2e, 0x30], Some 0x10000)
   \<and> VerPartitionGetVersion exampleVersionServices
     (version_file [0x31, 0x2e, 0x30] [0x62] [0x74] 0x10000 [0x20] 24 @ [0]) 100
   = Some (EFI_VOLUME_CORRUPTED, None, None)"
proof -
  have p: "plain_text [0x31, 0x2e, 0x30]" "plain_text [0x62]" "plain_text [0x74]"
    by (simp_all add: plain_text_def NEWLINE_def)
  have crc: "VerCrc32 exampleVersionServices (version_head [0x31, 0x2e, 0x30] [0x62] [0x74] 0x10000) = 23"
    by (simp add: exampleVersionServices_def version_head_def VERSION_STR_ID_def)
  show ?thesis
    using version_file_checked [OF exampleVersionServices_documented p, where label = "[0x20]" and v = "0x10000" and crc = 23
        and DataLen = 100 and rest = "[]"]
      version_file_checked [OF exampleVersionServices_documented p, where label = "[0x20]" and v = "0x10000" and crc = 24
        and DataLen = 100 and rest = "[]"] crc
    by (simp add: version_file_def version_head_def VERSION_STR_ID_def VERSION_STR_CRC32_def exampleVersionServices_def)
qed

section \<open>The version of the running chain\<close>

text \<open>A successful end of the inquiry: the image was read, its content parsed, and the result stored.\<close>

lemma ReadVersion_success:
  assumes "ReadVersion E i n f buf s = Some (EFI_SUCCESS, VerStr, Version, buf', s')"
  obtains b where "ImageRead (VersionProtocol E) i 0 n buf f s = Some (EFI_SUCCESS, b, s')" "n \<noteq> 0"
    "store_bytes b (n - 1) [0] = Some buf'"
    "VerPartitionGetVersion (VersionParser E) buf' n = Some (EFI_SUCCESS, VerStr, Version)"
  using assms by (auto simp: ReadVersion_def bind_eq_Some_conv split: if_splits)

lemma StoreVersionString_success:
  "StoreVersionString E VerStr G = (EFI_SUCCESS, G') \<Longrightarrow>
     G' = G\<lparr>mFmpVersionString := Some (snd (AsciiStrToUnicodeStrS E VerStr (length VerStr + 1))),
            mFmpVersionStatus := EFI_SUCCESS\<rparr>"
  by (auto simp: StoreVersionString_def Let_def split: if_splits prod.splits)

lemma GetBothVersions_success:
  assumes "GetBothVersions E i G s = Some (EFI_SUCCESS, InactiveVersion, G', s')"
  obtains A VerStr Version buf s1 where "ImageGetAttributes (VersionProtocol E) i s = Some (EFI_SUCCESS, A)"
    "ReadVersion E i (min (ReadBytes A) VERSION_BUFFER_SIZE) FW_IMAGE_RW_FLAG_NONE
       (replicate VERSION_BUFFER_SIZE 0) s = Some (EFI_SUCCESS, Some VerStr, Version, buf, s1)"
    "G' = G\<lparr>mFmpVersion := (case Version of None \<Rightarrow> mFmpVersion G | Some v \<Rightarrow> v),
        mFmpVersionString := Some (snd (AsciiStrToUnicodeStrS E VerStr (length VerStr + 1))),
        mFmpVersionStatus := EFI_SUCCESS\<rparr>"
proof -
  let ?buf = "replicate VERSION_BUFFER_SIZE (0 :: byte)"
  obtain st A where A: "ImageGetAttributes (VersionProtocol E) i s = Some (st, A)" "st = EFI_SUCCESS"
    and alloc: "VersionAlloc E VERSION_BUFFER_SIZE"
    using assms by (auto simp: GetBothVersions_def bind_eq_Some_conv split: if_splits)
  let ?n = "min (ReadBytes A) VERSION_BUFFER_SIZE"
  obtain st2 Str Version buf s1 where r: "ReadVersion E i ?n FW_IMAGE_RW_FLAG_NONE ?buf s
      = Some (st2, Str, Version, buf, s1)"
    using assms A alloc by (auto simp: GetBothVersions_def bind_eq_Some_conv Let_def)
  then have "st2 = EFI_SUCCESS" and "Str \<noteq> None"
    using assms A alloc by (cases Str; auto simp: GetBothVersions_def Let_def split: if_splits)+
  then obtain VerStr where v: "st2 = EFI_SUCCESS" "Str = Some VerStr" by auto
  let ?G = "case Version of None \<Rightarrow> G | Some v \<Rightarrow> G\<lparr>mFmpVersion := v\<rparr>"
  obtain st3 G3 where g: "StoreVersionString E VerStr ?G = (st3, G3)"
    by (cases "StoreVersionString E VerStr ?G")
  have "st3 = EFI_SUCCESS" and "G' = G3"
    using assms A alloc r v g by (auto simp: GetBothVersions_def Let_def bind_eq_Some_conv split: if_splits)
  with StoreVersionString_success g have "G' = ?G\<lparr>mFmpVersionString :=
      Some (snd (AsciiStrToUnicodeStrS E VerStr (length VerStr + 1))), mFmpVersionStatus := EFI_SUCCESS\<rparr>"
    by blast
  with that [of A VerStr Version buf s1] A r v show ?thesis by (auto split: option.splits)
qed

text \<open>A file at the start of a partition is what the parser sees, with a zero behind it.\<close>

lemma file_in_buffer:
  assumes "take n b = take n data" and "data = file @ 0 # pad" and "length file < n" and "n \<le> length data"
    and "store_bytes b (n - 1) [0] = Some b'"
  shows "\<exists>rest. b' = file @ 0 # rest"
proof -
  have b': "b' = take (n - 1) b @ [0] @ drop (n - 1 + 1) b" using assms(5) by (auto simp: store_bytes_def split: if_splits)
  have t: "take (n - 1) b = take (n - 1) data"
    using assms(1) by (metis diff_le_self min_absorb1 take_take)
  show ?thesis
  proof (cases "n - 1 = length file")
    case True
    with assms(2) t have "take (n - 1) b = file" by simp
    then show ?thesis unfolding b' by simp
  next
    case False
    with assms(3) have "Suc (length file) < n" by simp
    then obtain k where "n = Suc (Suc (length file + k))" by (auto dest: less_imp_Suc_add)
    with assms(2) t have "take (n - 1) b = file @ 0 # take k pad" by simp
    then show ?thesis unfolding b' by simp
  qed
qed

text \<open>
  C13: The version that the firmware management protocol reports is that of the running boot chain: when the
  inquiry of the version partition returns \<open>EFI_SUCCESS\<close>, and the partition of the running chain holds a file as
  the build writes it, then the checksum of that file is right, \<open>FmpDeviceGetVersion\<close> returns its number and
  \<open>FmpDeviceGetVersionString\<close> its string.
\<close>

theorem running_version_reported:
  assumes "nor_image_ok Devices view s i" and "VersionProtocol E = ImageProtocol (PartitionProtocol S (NorDeviceOps Devices))"
    and "FwImageFindProtocol Lib VER_PARTITION_NAME = Some i" and "img_slot s i FW_IMAGE_RW_FLAG_NONE = Some p"
    and "part_data view (snd s) p = version_file str board stamp v label crc @ 0 # pad"
    and "length (version_file str board stamp v label crc) < min (ReadBytes (ImageAttributes (mImages (fst s) ! i))) VERSION_BUFFER_SIZE"
    and "documented_version (VersionParser E)" and "plain_text str" and "plain_text board" and "plain_text stamp"
    and "0 \<notin> set label" and "0x43 \<notin> set label" and "VerAllocatePool (VersionParser E) (length str + 1)"
    and "v < 2 ^ 32" and "crc < 2 ^ 32"
    and "FmpVersionPartitionGetInfo E Lib G s = Some (EFI_SUCCESS, G', s')"
  shows "crc = VerCrc32 (VersionParser E) (version_head str board stamp v)
    \<and> FmpDeviceGetVersion Alloc True G' = Some (EFI_SUCCESS, Some v)
    \<and> (\<exists>Copied. Copied = snd (AsciiStrToUnicodeStrS E str (length str + 1))
         \<and> FmpDeviceGetVersionString Alloc True G'
             = Some (if Alloc (2 * (length Copied + 1)) then (EFI_SUCCESS, Some Copied) else (EFI_OUT_OF_RESOURCES, None)))"
proof -
  obtain Inactive G1 s1 where both: "GetBothVersions E i G s = Some (EFI_SUCCESS, Inactive, G1, s1)" and G': "G' = G1"
    using assms(3,16) by (auto simp: FmpVersionPartitionGetInfo_def bind_eq_Some_conv Let_def split: if_splits)
  obtain A VerStr Version buf s2 where attr: "ImageGetAttributes (VersionProtocol E) i s = Some (EFI_SUCCESS, A)"
    and read: "ReadVersion E i (min (ReadBytes A) VERSION_BUFFER_SIZE) FW_IMAGE_RW_FLAG_NONE
       (replicate VERSION_BUFFER_SIZE 0) s = Some (EFI_SUCCESS, Some VerStr, Version, buf, s2)"
    and G1: "G1 = G\<lparr>mFmpVersion := (case Version of None \<Rightarrow> mFmpVersion G | Some v \<Rightarrow> v),
        mFmpVersionString := Some (snd (AsciiStrToUnicodeStrS E VerStr (length VerStr + 1))),
        mFmpVersionStatus := EFI_SUCCESS\<rparr>"
    using GetBothVersions_success [OF both] by blast
  have A: "A = ImageAttributes (mImages (fst s) ! i)"
    using attr unfolding assms(2)
    by (cases s) (auto simp: ImageProtocol_def FwImageGetAttributes_def bind_eq_Some_conv split: if_splits)
  let ?n = "min (ReadBytes A) VERSION_BUFFER_SIZE" and ?file = "version_file str board stamp v label crc"
  obtain b where b: "ImageRead (VersionProtocol E) i 0 ?n (replicate VERSION_BUFFER_SIZE 0) FW_IMAGE_RW_FLAG_NONE s
      = Some (EFI_SUCCESS, b, s2)" "store_bytes b (?n - 1) [0] = Some buf"
      "VerPartitionGetVersion (VersionParser E) buf ?n = Some (EFI_SUCCESS, Some VerStr, Version)"
    using ReadVersion_success [OF read] by blast
  from nor.parts.images.image_read [OF assms(1) b(1) [unfolded assms(2)]] assms(4)
  have data: "?n \<le> length (part_data view (snd s) p)" "take ?n b = slice 0 ?n (part_data view (snd s) p)" by auto
  have "take ?n b = take ?n (part_data view (snd s) p)" using data(2) by (simp add: slice_def)
  from file_in_buffer [OF this assms(5) assms(6) [folded A] data(1) b(2)]
  obtain rest where "buf = ?file @ 0 # rest" by blast
  with b(3) version_file_checked_buffer [OF assms(7-15) assms(6) [folded A], of rest]
  have "crc = VerCrc32 (VersionParser E) (version_head str board stamp v)" "VerStr = str" "Version = Some v"
    by (auto split: if_splits)
  then show ?thesis
    by (auto simp: G' G1 FmpDeviceGetVersion_def FmpDeviceGetVersionString_def FmpVersionGet_def Let_def)
qed

text \<open>The example: one image \<open>VER\<close> on the second partition of the example's flash, which starts with a file.\<close>

definition verWorld :: "cstring \<Rightarrow> nat FW_IMAGE_GLOBALS \<times> FW_PARTITION_GLOBALS \<times> memory" where
  "verWorld file = (\<lparr> mImages = [tinyImage VER_PARTITION_NAME 1 32768], mBootChain = 0 \<rparr>,
     (tinyRegistry, \<lambda>a. if 32768 \<le> a \<and> a < 32768 + length file then file ! (a - 32768) else 0))"

definition verLibrary :: "nat FW_IMAGE_LIB" where
  "verLibrary = \<lparr> mFwImages = Some [(VER_PARTITION_NAME, 0)], mNumImages = 1, mImageAddedCallback = True,
     ImageAddedCalls = 0 \<rparr>"

definition verServices :: "(nat, nat FW_IMAGE_GLOBALS \<times> FW_PARTITION_GLOBALS \<times> memory) FMP_VERSION_SERVICES" where
  "verServices = \<lparr> VersionProtocol = ImageProtocol (PartitionProtocol exampleServices (NorDeviceOps (tinyFlash False))),
     VersionParser = exampleVersionServices, VersionAlloc = (\<lambda>n. True),
     AsciiStrToUnicodeStrS = (\<lambda>t n. (EFI_SUCCESS, map ucast t)), SetSystemFwVersions = (\<lambda>vs s. s) \<rparr>"

definition verFile :: cstring where
  "verFile = version_file [0x31, 0x2e, 0x30] [0x62] [0x74] 0x10000 [0x20] 23"

lemma verFile_length: "length verFile = 38"
  by (simp add: verFile_def version_text)

lemma verWorld_data: "part_data tinyView (snd (verWorld verFile)) 1 = verFile @ 0 # replicate 32729 0"
proof -
  have "part_data tinyView (snd (verWorld verFile)) 1 = content (snd (snd (verWorld verFile))) 32768 32768"
    by (simp add: part_data_def verWorld_def tinyRegistry_def tinyView_def)
  also have "\<dots> = verFile @ replicate 32730 0"
    by (rule nth_equalityI) (auto simp: verWorld_def nth_append verFile_length)
  finally show ?thesis by (simp flip: replicate_Suc)
qed

lemma verWorld_ok: "nor_image_ok (tinyFlash False) tinyView (verWorld verFile) 0"
proof -
  have "length (part_data tinyView (snd (verWorld verFile)) 1) = 32768"
    unfolding verWorld_data by (simp add: verFile_length)
  moreover have "part_unit (NorDeviceOps (tinyFlash False)) (tinyRegistry, f) 1 = 4" for f
    by (simp add: part_unit_def tinyRegistry_def NorDeviceOps_def tinyFlash_def)
  ultimately show ?thesis
    using tinyRegistry_valid [of 1 False]
    by (auto simp: img_ok_def verWorld_def Let_def slots_def tinyImage_def img_slot_def ReadPartition_def
        HasAImage_def HasBImage_def image_flags ForcedPartition_def)
qed

lemma verWorld_read:
  assumes "f \<in> {FW_IMAGE_RW_FLAG_NONE, FW_IMAGE_RW_FLAG_READ_INACTIVE_IMAGE}" and "length buf = 8192"
  shows "ImageRead (VersionProtocol verServices) 0 0 8192 buf f (verWorld verFile)
    = Some (EFI_SUCCESS, content (snd (snd (verWorld verFile))) 32768 8192, verWorld verFile)"
proof -
  obtain A where A: "PartitionGetAttributes (PartitionProtocol exampleServices (NorDeviceOps (tinyFlash False))) 1
      (tinyRegistry, snd (snd (verWorld verFile))) = Some (EFI_SUCCESS, A)" "AttrBytes A = 32768"
    using tiny_attributes [of 1 exampleServices False] by auto
  show ?thesis
    using assms A tiny_read [of 1 8192 buf 0 exampleServices False]
    by (auto simp: verServices_def ImageProtocol_def FwImageRead_def verWorld_def tinyImage_def ReadPartition_def
        HasAImage_def HasBImage_def FwImageCheckOffsetAndBytes_def add64_def image_flags ForcedPartition_def)
qed

lemma verServices_documented: "documented_version (VersionParser verServices)"
  using exampleVersionServices_documented by (simp add: verServices_def)

lemma verWorld_version:
  assumes "f \<in> {FW_IMAGE_RW_FLAG_NONE, FW_IMAGE_RW_FLAG_READ_INACTIVE_IMAGE}" and "length buf = 8192"
  shows "\<exists>buf'. ReadVersion verServices 0 8192 f buf (verWorld verFile)
    = Some (EFI_SUCCESS, Some [0x31, 0x2e, 0x30], Some 0x10000, buf', verWorld verFile) \<and> length buf' = 8192"
proof -
  let ?m = "snd (snd (verWorld verFile))"
  have plain: "plain_text [0x31, 0x2e, 0x30]" "plain_text [0x62]" "plain_text [0x74]"
    by (simp_all add: plain_text_def NEWLINE_def)
  obtain b where b: "store_bytes (content ?m 32768 8192) (8192 - 1) [0] = Some b"
    using store_bytes_total [of 8191 "[0]" "content ?m 32768 8192"] by auto
  have take: "content f off 8192 = take 8192 (content f off 32768)" for f off
    by (rule nth_equalityI) auto
  have "content ?m 32768 8192 = take 8192 (part_data tinyView (snd (verWorld verFile)) 1)"
    by (simp add: part_data_def verWorld_def tinyRegistry_def tinyView_def take)
  then have "take 8192 (content ?m 32768 8192) = take 8192 (part_data tinyView (snd (verWorld verFile)) 1)" by simp
  moreover have "8192 \<le> length (part_data tinyView (snd (verWorld verFile)) 1)"
    unfolding verWorld_data by (simp add: verFile_length)
  moreover have "length verFile < 8192" by (simp add: verFile_length)
  ultimately obtain rest where rest: "b = verFile @ 0 # rest"
    using file_in_buffer [OF _ verWorld_data _ _ b] by blast
  have parsed: "VerPartitionGetVersion exampleVersionServices b 8192
      = Some (EFI_SUCCESS, Some [0x31, 0x2e, 0x30], Some 0x10000)"
    unfolding rest verFile_def
    using version_file_checked_buffer [OF exampleVersionServices_documented plain, where label = "[0x20]"
        and v = "0x10000" and crc = 23 and DataLen = 8192 and rest = rest] verFile_length [unfolded verFile_def]
    by (simp add: exampleVersionServices_def version_head_def VERSION_STR_ID_def)
  show ?thesis
    using verWorld_read [OF assms] b parsed store_bytes_length [OF b]
    by (simp add: ReadVersion_def) (simp add: verServices_def)
qed

theorem running_version_reported_witness:
  "\<exists>G' s'. FmpVersionPartitionGetInfo verServices verLibrary InitialVersionGlobals (verWorld verFile)
      = Some (EFI_SUCCESS, G', s')
    \<and> FmpDeviceGetVersion (\<lambda>n. True) True G' = Some (EFI_SUCCESS, Some 0x10000)
    \<and> FmpDeviceGetVersionString (\<lambda>n. True) True G' = Some (EFI_SUCCESS, Some (W ''1.0''))"
proof -
  let ?E = verServices and ?s = "verWorld verFile"
  have plain: "plain_text [0x31, 0x2e, 0x30]" "plain_text [0x62]" "plain_text [0x74]"
    by (simp_all add: plain_text_def NEWLINE_def)
  obtain A where attr: "ImageGetAttributes (VersionProtocol ?E) 0 ?s = Some (EFI_SUCCESS, A)" "ReadBytes A = 32768"
    by (simp add: verServices_def ImageProtocol_def FwImageGetAttributes_def verWorld_def tinyImage_def)
  obtain b where one: "ReadVersion ?E 0 8192 FW_IMAGE_RW_FLAG_NONE (replicate 8192 0) ?s
      = Some (EFI_SUCCESS, Some [0x31, 0x2e, 0x30], Some 0x10000, b, ?s)" "length b = 8192"
    using verWorld_version [of FW_IMAGE_RW_FLAG_NONE "replicate 8192 0"] by auto
  obtain b' where two: "ReadVersion ?E 0 8192 FW_IMAGE_RW_FLAG_READ_INACTIVE_IMAGE b ?s
      = Some (EFI_SUCCESS, Some [0x31, 0x2e, 0x30], Some 0x10000, b', ?s)"
    using verWorld_version [OF _ one(2), of FW_IMAGE_RW_FLAG_READ_INACTIVE_IMAGE] by auto
  have find: "FwImageFindProtocol verLibrary VER_PARTITION_NAME = Some 0"
    by (simp add: FwImageFindProtocol_def verLibrary_def StrnCmpIsZero_take)
  have "\<exists>G1. GetBothVersions ?E 0 InitialVersionGlobals ?s = Some (EFI_SUCCESS, 0x10000, G1, ?s)
      \<and> mFmpVersionStatus G1 = EFI_SUCCESS"
    using attr one two
    by (simp add: GetBothVersions_def VERSION_BUFFER_SIZE_def StoreVersionString_def) (simp add: verServices_def)
  then obtain G' where run: "FmpVersionPartitionGetInfo ?E verLibrary InitialVersionGlobals ?s = Some (EFI_SUCCESS, G', ?s)"
    by (auto simp: FmpVersionPartitionGetInfo_def find SetFwVersionVariable_def verServices_def)
  have "img_slot ?s 0 FW_IMAGE_RW_FLAG_NONE = Some 1"
    by (simp add: img_slot_def verWorld_def tinyImage_def ReadPartition_def HasAImage_def HasBImage_def
        image_flags ForcedPartition_def)
  moreover have "VersionProtocol ?E = ImageProtocol (PartitionProtocol exampleServices (NorDeviceOps (tinyFlash False)))"
    by (simp add: verServices_def)
  ultimately have "FmpDeviceGetVersion (\<lambda>n. True) True G' = Some (EFI_SUCCESS, Some 0x10000)
      \<and> FmpDeviceGetVersionString (\<lambda>n. True) True G' = Some (EFI_SUCCESS, Some (W ''1.0''))"
    using running_version_reported [OF verWorld_ok [unfolded verFile_def] _ find _ verWorld_data [unfolded verFile_def] _
        verServices_documented plain _ _ _ _ _ run [unfolded verFile_def], where Alloc = "\<lambda>n. True" and S = exampleServices]
      verFile_length [unfolded verFile_def]
    by (simp add: verWorld_def tinyImage_def VERSION_BUFFER_SIZE_def verServices_def exampleVersionServices_def W_def verFile_def)
  with run show ?thesis by blast
qed

end
