(* ===== verification/Erot.thy ===== *)
theory Erot
  imports MctpPldmBase
begin

text \<open>
  \<open>ErotLib.c\<close> and \<open>MctpNvVdmLib.c\<close>: the external roots of trust (ERoTs) of the system, each reached through
  an instance of the MCTP protocol, the requests sent to all of them, and the message that reports the
  end of the boot.

  A protocol instance is a value of type \<open>'p\<close>, and its functions are parameters, as are the services
  of EDK2; a buffer passed with its length is the list of its bytes. A null pointer that is followed, a
  failed \<open>ASSERT\<close> and the use of a variable that was never set have no result. Device names are left out.
\<close>

section \<open>Vendor defined messages\<close>

definition MCTP_SUCCESS :: byte where [codes]: "MCTP_SUCCESS = 0x00"
definition MCTP_TYPE_VENDOR_IANA :: byte where [codes]: "MCTP_TYPE_VENDOR_IANA = 0x7f"
definition MCTP_NV_NVIDIA_IANA_ID :: "32 word" where [codes]: "MCTP_NV_NVIDIA_IANA_ID = 0x1647"
definition MCTP_NV_TYPE_EROT :: byte where [codes]: "MCTP_NV_TYPE_EROT = 0x1"
definition MCTP_NV_CMD_BOOT_COMPLETE :: byte where [codes]: "MCTP_NV_CMD_BOOT_COMPLETE = 0x2"
definition MCTP_NV_VER_BOOT_COMPLETE :: byte where [codes]: "MCTP_NV_VER_BOOT_COMPLETE = 0x2"
definition MCTP_NV_BOOT_COMPLETE_SLOT_VALID :: byte where [codes]: "MCTP_NV_BOOT_COMPLETE_SLOT_VALID = 0x4"

text \<open>The packed structures: \<open>MCTP_NV_VDM_COMMON\<close>, the request and the response.\<close>

definition OFFSET_NvVendor :: nat where [layout]: "OFFSET_NvVendor = 1"
definition OFFSET_NvInstanceId :: nat where [layout]: "OFFSET_NvInstanceId = 5"
definition OFFSET_NvBootSlot :: nat where [layout]: "OFFSET_NvBootSlot = 9"
definition OFFSET_NvCompletionCode :: nat where [layout]: "OFFSET_NvCompletionCode = 9"
definition sizeof_BOOT_COMPLETE_REQUEST :: nat where [layout]: "sizeof_BOOT_COMPLETE_REQUEST = 12"
definition sizeof_BOOT_COMPLETE_RESPONSE :: nat where [layout]: "sizeof_BOOT_COMPLETE_RESPONSE = 10"

definition MctpNvFillVendorId :: "byte list \<Rightarrow> byte list option" where
  "MctpNvFillVendorId Vendor = MctpUint32ToBEBuffer Vendor MCTP_NV_NVIDIA_IANA_ID"

definition MctpNvReqFillCommon :: "byte list \<Rightarrow> byte \<Rightarrow> byte \<Rightarrow> byte list option" where
  "MctpNvReqFillCommon Common Command Version = do {
     Common \<leftarrow> store_bytes Common 0 [MCTP_TYPE_VENDOR_IANA];
     Vendor \<leftarrow> load_bytes Common OFFSET_NvVendor 4;
     Vendor \<leftarrow> MctpNvFillVendorId Vendor;
     Common \<leftarrow> store_bytes Common OFFSET_NvVendor Vendor;
     store_bytes Common OFFSET_NvInstanceId [MCTP_RQ, MCTP_NV_TYPE_EROT, Command, Version] }"

definition MctpNvBootCompleteFillReq :: "byte list \<Rightarrow> nat \<Rightarrow> byte list option" where
  "MctpNvBootCompleteFillReq Req BootSlot = do {
     Req \<leftarrow> MctpNvReqFillCommon Req MCTP_NV_CMD_BOOT_COMPLETE MCTP_NV_VER_BOOT_COMPLETE;
     store_bytes Req OFFSET_NvBootSlot [of_nat BootSlot OR MCTP_NV_BOOT_COMPLETE_SLOT_VALID, 0, 0] }"

section \<open>Devices and state\<close>

definition DEVICE_TYPE_EROT :: byte where [codes]: "DEVICE_TYPE_EROT = 1"

record MCTP_DEVICE_ATTRIBUTES =
  MctpDeviceType :: byte
  MctpSocket :: byte

text \<open>
  \<open>MctpDoRequest p Request Buffer s\<close> returns the status, the response buffer afterwards and the value
  stored into \<open>*ResponseLength\<close>, if there is one. \<open>ErotRuntimePool\<close> tells whether the pool has as many bytes,
  and \<open>Uninitialised n\<close> are \<open>n\<close> bytes of memory that nothing was written to.
\<close>

record ('h, 'p, 's) EROT_SERVICES =
  LocateMctpHandles :: "'s \<Rightarrow> EFI_STATUS \<times> 'h list"
  MctpHandleProtocol :: "'h \<Rightarrow> EFI_STATUS \<times> 'p"
  MctpGetDeviceAttributes :: "'p \<Rightarrow> EFI_STATUS \<times> MCTP_DEVICE_ATTRIBUTES"
  MctpDoRequest :: "'p \<Rightarrow> byte list \<Rightarrow> byte list \<Rightarrow> 's \<Rightarrow> (EFI_STATUS \<times> byte list \<times> nat option \<times> 's) option"
  ErotRuntimePool :: "nat \<Rightarrow> bool"
  Uninitialised :: "nat \<Rightarrow> byte list"
  PlatformIsSilicon :: bool
  InstallBootComplete :: "'s \<Rightarrow> EFI_STATUS \<times> 's"

text \<open>\<open>mErots\<close> is the zeroed array of protocol pointers, or null.\<close>

record 'p EROT_GLOBALS =
  mErotLibInitialized :: bool
  mNumErots :: nat
  mErots :: "'p option list option"

definition InitialErotGlobals :: "'p EROT_GLOBALS" where
  "InitialErotGlobals = \<lparr>mErotLibInitialized = False, mNumErots = 0, mErots = None\<rparr>"

section \<open>Finding the devices\<close>

text \<open>The loop over the handles; the flag tells whether it ended without \<open>goto Done\<close>.\<close>

primrec LocateErotsLoop ::
  "('h, 'p, 's) EROT_SERVICES \<Rightarrow> 'h list \<Rightarrow> 'p EROT_GLOBALS \<Rightarrow> (EFI_STATUS \<times> 'p EROT_GLOBALS) option" where
  "LocateErotsLoop E [] g = Some (EFI_SUCCESS, g)"
| "LocateErotsLoop E (H # Hs) g =
     (case MctpHandleProtocol E H of (Status, Protocol) \<Rightarrow>
        if EFI_ERROR Status then Some (Status, g)
        else case MctpGetDeviceAttributes E Protocol of (Status, Attributes) \<Rightarrow>
          if EFI_ERROR Status then LocateErotsLoop E Hs g
          else if MctpDeviceType Attributes \<noteq> DEVICE_TYPE_EROT then LocateErotsLoop E Hs g
          else do {
            Array \<leftarrow> mErots g;
            if mNumErots g < length Array
            then LocateErotsLoop E Hs (g\<lparr>mErots := Some (Array[mNumErots g := Some Protocol]),
                                        mNumErots := mNumErots g + 1\<rparr>)
            else None })"

definition ErotLocateProtocols ::
  "('h, 'p, 's) EROT_SERVICES \<Rightarrow> 's \<Rightarrow> 'p EROT_GLOBALS \<Rightarrow> (EFI_STATUS \<times> 'p EROT_GLOBALS) option" where
  "ErotLocateProtocols E s g = do {
     (Status, g) \<leftarrow>
       (case LocateMctpHandles E s of (Status, Handles) \<Rightarrow>
          if EFI_ERROR Status then Some (Status, g)
          else if \<not> ErotRuntimePool E (length Handles * 8)
          then Some (EFI_OUT_OF_RESOURCES, g\<lparr>mErots := None\<rparr>)
          else do {
            (Status, g) \<leftarrow> LocateErotsLoop E Handles
              (g\<lparr>mErots := Some (replicate (length Handles) None), mNumErots := 0\<rparr>);
            Some (if EFI_ERROR Status then Status
                  else if mNumErots g = 0 then EFI_NOT_FOUND else EFI_SUCCESS, g) });
     Some (Status, if EFI_ERROR Status then g\<lparr>mErots := None, mNumErots := 0\<rparr> else g) }"

definition ErotGetNumErots :: "'p EROT_GLOBALS \<Rightarrow> nat" where
  "ErotGetNumErots g = mNumErots g"

text \<open>The inner \<open>None\<close> is the null pointer.\<close>

definition ErotGetMctpProtocolByIndex :: "nat \<Rightarrow> 'p EROT_GLOBALS \<Rightarrow> 'p option option" where
  "ErotGetMctpProtocolByIndex ErotIndex g =
     (if ErotIndex < mNumErots g then do {
        Array \<leftarrow> mErots g;
        if ErotIndex < length Array then Some (Array ! ErotIndex) else None }
      else Some None)"

primrec BySocketLoop ::
  "('h, 'p, 's) EROT_SERVICES \<Rightarrow> nat \<Rightarrow> 'p EROT_GLOBALS \<Rightarrow> nat list \<Rightarrow> 'p option option" where
  "BySocketLoop E Socket g [] = Some None"
| "BySocketLoop E Socket g (Index # Rest) = do {
     Entry \<leftarrow> ErotGetMctpProtocolByIndex Index g;
     Protocol \<leftarrow> Entry;
     case MctpGetDeviceAttributes E Protocol of (Status, Attributes) \<Rightarrow>
       if EFI_ERROR Status then None
       else if unat (MctpSocket Attributes) = Socket then Some (Some Protocol)
       else BySocketLoop E Socket g Rest }"

definition ErotGetMctpProtocolBySocket ::
  "('h, 'p, 's) EROT_SERVICES \<Rightarrow> nat \<Rightarrow> 'p EROT_GLOBALS \<Rightarrow> 'p option option" where
  "ErotGetMctpProtocolBySocket E Socket g = BySocketLoop E Socket g [0..<mNumErots g]"

section \<open>Initialisation\<close>

definition ErotLibInit ::
  "('h, 'p, 's) EROT_SERVICES \<Rightarrow> 's \<Rightarrow> 'p EROT_GLOBALS \<Rightarrow> (EFI_STATUS \<times> 'p EROT_GLOBALS) option" where
  "ErotLibInit E s g =
     (if mErotLibInitialized g then Some (EFI_SUCCESS, g)
      else do {
        (Status, g) \<leftarrow> ErotLocateProtocols E s g;
        if EFI_ERROR Status then Some (Status, g)
        else Some (EFI_SUCCESS, g\<lparr>mErotLibInitialized := True\<rparr>) })"

definition ErotLibDeinit :: "'p EROT_GLOBALS \<Rightarrow> EFI_STATUS \<times> 'p EROT_GLOBALS" where
  "ErotLibDeinit g =
     (if \<not> mErotLibInitialized g then (EFI_SUCCESS, g)
      else (EFI_SUCCESS, g\<lparr>mErots := None, mNumErots := 0, mErotLibInitialized := True\<rparr>))"

section \<open>Requests\<close>

text \<open>
  The loop of \<open>ErotSendRequestToAll\<close>. \<open>Buffer\<close>, \<open>ResponseLength\<close> and \<open>Error\<close> are the variables of the
  function; the status that \<open>DoRequest\<close> returns is not stored, so that the first test sees the one of
  \<open>GetDeviceAttributes\<close>. \<open>Check\<close> is the function of the caller.
\<close>

primrec SendToAllLoop ::
  "('h, 'p, 's) EROT_SERVICES \<Rightarrow> byte list \<Rightarrow> ('p \<Rightarrow> byte list \<Rightarrow> byte list \<Rightarrow> nat \<Rightarrow> EFI_STATUS) \<Rightarrow> nat list
   \<Rightarrow> 'p EROT_GLOBALS \<Rightarrow> byte list \<Rightarrow> nat option \<Rightarrow> bool \<Rightarrow> 's \<Rightarrow> (bool \<times> byte list \<times> 's) option" where
  "SendToAllLoop E Req Check [] g Buffer ResponseLength Error s = Some (Error, Buffer, s)"
| "SendToAllLoop E Req Check (Index # Rest) g Buffer ResponseLength Error s = do {
     Entry \<leftarrow> ErotGetMctpProtocolByIndex Index g;
     Protocol \<leftarrow> Entry;
     let (Status, Attributes) = MctpGetDeviceAttributes E Protocol;
     if EFI_ERROR Status then None
     else do {
       (_, Buffer, Stored, s) \<leftarrow> MctpDoRequest E Protocol Req Buffer s;
       let ResponseLength = (if Stored = None then ResponseLength else Stored);
       if EFI_ERROR Status then SendToAllLoop E Req Check Rest g Buffer ResponseLength True s
       else do {
         Length \<leftarrow> ResponseLength;
         let Status = Check Protocol Req Buffer Length;
         SendToAllLoop E Req Check Rest g Buffer ResponseLength (Error \<or> EFI_ERROR Status) s } } }"

definition ErotSendRequestToAll ::
  "('h, 'p, 's) EROT_SERVICES \<Rightarrow> byte list \<Rightarrow> byte list \<Rightarrow> ('p \<Rightarrow> byte list \<Rightarrow> byte list \<Rightarrow> nat \<Rightarrow> EFI_STATUS)
   \<Rightarrow> 'p EROT_GLOBALS \<Rightarrow> 's \<Rightarrow> (EFI_STATUS \<times> byte list \<times> 'p EROT_GLOBALS \<times> 's) option" where
  "ErotSendRequestToAll E Req Buffer Check g s = do {
     (Status, g) \<leftarrow> ErotLibInit E s g;
     if EFI_ERROR Status then Some (Status, Buffer, g, s)
     else do {
       (Error, Buffer, s) \<leftarrow> SendToAllLoop E Req Check [0..<ErotGetNumErots g] g Buffer None False s;
       Some (if Error then EFI_DEVICE_ERROR else EFI_SUCCESS, Buffer, g, s) } }"

text \<open>The code from the label \<open>Done\<close> on.\<close>

definition BootCompleteDone :: "('h, 'p, 's) EROT_SERVICES \<Rightarrow> nat \<Rightarrow> 's \<Rightarrow> EFI_STATUS \<times> 's" where
  "BootCompleteDone E Socket s =
     (EFI_SUCCESS, if Socket = 0 then snd (InstallBootComplete E s) else s)"

text \<open>The request with its response, from the protocol of the socket on.\<close>

definition BootCompleteRequest ::
  "('h, 'p, 's) EROT_SERVICES \<Rightarrow> 'p \<Rightarrow> nat \<Rightarrow> 's \<Rightarrow> (EFI_STATUS \<times> 's) option" where
  "BootCompleteRequest E Protocol BootSlot s =
     (if EFI_ERROR (fst (MctpGetDeviceAttributes E Protocol)) then None
      else do {
        Req \<leftarrow> MctpNvBootCompleteFillReq (Uninitialised E sizeof_BOOT_COMPLETE_REQUEST) BootSlot;
        (Status, Rsp, ResponseLength, s) \<leftarrow>
          MctpDoRequest E Protocol Req (Uninitialised E sizeof_BOOT_COMPLETE_RESPONSE) s;
        if EFI_ERROR Status then Some (Status, s)
        else do {
          Length \<leftarrow> ResponseLength;
          if Length \<noteq> sizeof_BOOT_COMPLETE_RESPONSE then Some (EFI_DEVICE_ERROR, s)
          else do {
            CompletionCode \<leftarrow> load8 Rsp OFFSET_NvCompletionCode;
            if CompletionCode \<noteq> MCTP_SUCCESS then Some (EFI_DEVICE_ERROR, s)
            else Some (EFI_SUCCESS, s) } } })"

definition ErotSendBootComplete ::
  "('h, 'p, 's) EROT_SERVICES \<Rightarrow> nat \<Rightarrow> nat \<Rightarrow> 'p EROT_GLOBALS \<Rightarrow> 's
   \<Rightarrow> (EFI_STATUS \<times> 'p EROT_GLOBALS \<times> 's) option" where
  "ErotSendBootComplete E Socket BootSlot g s =
     (if \<not> PlatformIsSilicon E
      then (case BootCompleteDone E Socket s of (Status, s) \<Rightarrow> Some (Status, g, s))
      else do {
        (Status, g) \<leftarrow> ErotLibInit E s g;
        if Status = EFI_NOT_FOUND
        then (case BootCompleteDone E Socket s of (Status, s) \<Rightarrow> Some (Status, g, s))
        else if EFI_ERROR Status then Some (Status, g, s)
        else do {
          Found \<leftarrow> ErotGetMctpProtocolBySocket E Socket g;
          case Found of
            None \<Rightarrow> Some (EFI_INVALID_PARAMETER, g, s)
          | Some Protocol \<Rightarrow> do {
              (Status, s) \<leftarrow> BootCompleteRequest E Protocol BootSlot s;
              if EFI_ERROR Status then Some (Status, g, s)
              else (case BootCompleteDone E Socket s of (Status, s) \<Rightarrow> Some (Status, g, s)) } } })"

end
