(* ===== verification/FmpErot.thy ===== *)
theory FmpErot
  imports Erot PldmTaskHandlers BootChainInfo
begin

text \<open>
  \<open>FmpErotSupport.c\<close>, \<open>FmpErotLib.c\<close> and their \<open>UpdateProgress.c\<close>: the update of the firmware through the
  external roots of trust (ERoTs) on the server platforms. The library asks the ERoT of the first socket for its
  descriptors and its version at the end of the DXE phase, compares a package with these descriptors, and runs one
  task of the PLDM update for each ERoT.

  The conventions are those of the theories of the ERoT library and of the update tasks. The installer, the
  library of the parameters, the PCDs and the display are parameters. Log output is left out.
\<close>

section \<open>Constants\<close>

definition FMP_EROT_SOCKET :: nat where [codes]: "FMP_EROT_SOCKET = 0"
definition FMP_EROT_EC_FW_COMPONENT_ID :: nat where [codes]: "FMP_EROT_EC_FW_COMPONENT_ID = 0xFF00"
definition FMP_EROT_NVIDIA_IANA_ID :: nat where [codes]: "FMP_EROT_NVIDIA_IANA_ID = 0x1647"
definition FMP_EROT_QUERY_DEVICE_IDS_RSP_SIZE :: nat where [layout]: "FMP_EROT_QUERY_DEVICE_IDS_RSP_SIZE = 128"
definition FMP_EROT_GET_FW_PARAMS_RSP_SIZE :: nat where [layout]: "FMP_EROT_GET_FW_PARAMS_RSP_SIZE = 256"
definition PLDM_FW_DESCRIPTOR_TYPE_IANA_ENTERPRISE :: nat
  where [codes]: "PLDM_FW_DESCRIPTOR_TYPE_IANA_ENTERPRISE = 1"
definition PLDM_FW_STRING_TYPE_ASCII :: byte where [codes]: "PLDM_FW_STRING_TYPE_ASCII = 1"

definition OFFSET_Metadata_FwVersion :: nat where [layout]: "OFFSET_Metadata_FwVersion = 16"

text \<open>Further fields of \<open>PLDM_FW_COMPONENT_PARAMETER_TABLE_ENTRY\<close>.\<close>

definition OFFSET_Entry_ActiveComparisonStamp :: nat where [layout]: "OFFSET_Entry_ActiveComparisonStamp = 5"
definition OFFSET_Entry_ActiveVersionStringType :: nat where [layout]: "OFFSET_Entry_ActiveVersionStringType = 9"
definition OFFSET_Entry_ActiveReleaseDate :: nat where [layout]: "OFFSET_Entry_ActiveReleaseDate = 11"
definition OFFSET_Entry_PendingComparisonStamp :: nat where [layout]: "OFFSET_Entry_PendingComparisonStamp = 19"
definition OFFSET_Entry_PendingVersionStringType :: nat where [layout]: "OFFSET_Entry_PendingVersionStringType = 23"
definition OFFSET_Entry_PendingReleaseDate :: nat where [layout]: "OFFSET_Entry_PendingReleaseDate = 25"
definition sizeof_ReleaseDate :: nat where [layout]: "sizeof_ReleaseDate = 8"

text \<open>The descriptor that the list of the ERoT must start with.\<close>

definition mNvIanaIdDesc :: "byte list" where
  "mNvIanaIdDesc = bytes16 PLDM_FW_DESCRIPTOR_TYPE_IANA_ENTERPRISE @ bytes16 4 @ bytes32 FMP_EROT_NVIDIA_IANA_ID"

text \<open>The codes of the last attempt; the last one is shifted by the error of the update tasks.\<close>

datatype EROT_LAST_ATTEMPT =
    EROT_LAS_SUCCESS
  | EROT_LAS_BAD_IMAGE_POINTER | EROT_LAS_FMP_LIB_UNINITIALIZED | EROT_LAS_INVALID_PACKAGE_HEADER
  | EROT_LAS_UNSUPPORTED_PACKAGE_TYPE | EROT_LAS_UNKNOWN_PACKAGE_FW_VERSION
  | EROT_LAS_FW_VERSION_MISMATCH | EROT_LAS_TASK_LIB_INIT_FAILED | EROT_LAS_TASK_CREATE_FAILED
  | EROT_LAS_PLDM_FW_UPDATE_TASK_ERROR PLDM_FW_UPDATE_TASK_ERROR

datatype EROT_UPDATABLE = EROT_IMAGE_UPDATABLE_VALID | EROT_IMAGE_UPDATABLE_INVALID

section \<open>State\<close>

text \<open>
  \<open>ErotPrint n Bytes\<close> are the characters that \<open>UnicodeSPrintAsciiFormat\<close> writes for the format \<open>%.*a\<close> with the
  precision \<open>n\<close>, and \<open>NewChars n\<close> the content of a new buffer for \<open>n\<close> characters. \<open>ErotHob\<close> is the active boot chain
  in the block that the earlier phase hands over, if that block has the right size, and \<open>ErotCreateEvent\<close> is the status
  of \<open>CreateEventEx\<close> with whether it stored an event. \<open>TasksAllocated n\<close> tells whether the pool has memory for \<open>n\<close> tasks.
\<close>

record ('h, 'p, 's) FMP_EROT_SERVICES =
  ErotLib :: "('h, 'p, 's) EROT_SERVICES"
  TasksAllocated :: "nat \<Rightarrow> bool"
  ErotCrc32 :: "byte list \<Rightarrow> nat"
  ErotPrint :: "nat \<Rightarrow> byte list \<Rightarrow> wstring"
  NewChars :: "nat \<Rightarrow> wstring"
  PcdSetVersionString :: "wstring \<Rightarrow> 's \<Rightarrow> EFI_STATUS \<times> 's"
  PcdSetReleaseDate :: "wstring \<Rightarrow> 's \<Rightarrow> EFI_STATUS \<times> 's"
  ErotFmpParamLibInit :: "'s \<Rightarrow> 's"
  ErotCallInstaller :: "'h option \<Rightarrow> 's \<Rightarrow> EFI_STATUS \<times> 's"
  ErotWatchdogSeconds :: nat
  ErotDisplay :: "nat \<Rightarrow> EFI_STATUS"
  ErotHob :: "nat option"
  ErotCreateEvent :: "EFI_STATUS \<times> bool"

text \<open>
  The module variables, those of the ERoT library and those of the update tasks. \<open>mVersionString\<close> is the whole buffer
  in the pool, \<open>mErotInstaller\<close> and \<open>mEndOfDxeEvent\<close> say whether the pointers are set. \<open>ErotDisplayed\<close> lists the
  completions that reached the display, and \<open>ErotWatchdog\<close> is what the watchdog was last set to.
\<close>

record ('h, 'p) FMP_EROT_GLOBALS =
  ErotState :: "'p EROT_GLOBALS"
  ErotTasks :: task_globals
  mInitialized :: bool
  mVersionStatus :: EFI_STATUS
  mVersion :: nat
  mVersionString :: "wstring option"
  mErotActiveBootChain :: nat
  mEndOfDxeEvent :: bool
  mImageHandle :: "'h option"
  mQueryDeviceIdsRsp :: "byte list option"
  mGetFwParamsRsp :: "byte list option"
  mErotInstaller :: bool
  ErotWatchdog :: nat
  ErotDisplayed :: "nat list"

section \<open>Progress\<close>

definition ErotImageProgress ::
  "('h, 'p, 's) FMP_EROT_SERVICES \<Rightarrow> nat \<Rightarrow> ('h, 'p) FMP_EROT_GLOBALS \<Rightarrow> EFI_STATUS \<times> ('h, 'p) FMP_EROT_GLOBALS" where
  "ErotImageProgress F Completion g =
     (if Completion > 100 then (EFI_INVALID_PARAMETER, g)
      else (ErotDisplay F Completion,
        g\<lparr>ErotWatchdog := (if Completion \<noteq> 100 \<and> ErotWatchdogSeconds F \<noteq> 0 then ErotWatchdogSeconds F else 0),
          ErotDisplayed := ErotDisplayed g @ [Completion]\<rparr>))"

text \<open>The calls that the update tasks make of it, one after the other.\<close>

definition ReportProgress ::
  "('h, 'p, 's) FMP_EROT_SERVICES \<Rightarrow> nat list \<Rightarrow> ('h, 'p) FMP_EROT_GLOBALS \<Rightarrow> ('h, 'p) FMP_EROT_GLOBALS" where
  "ReportProgress F Completions g = fold (\<lambda>c g. snd (ErotImageProgress F c g)) Completions g"

section \<open>The version\<close>

definition FmpErotGetPkgMetadataFwVersion :: "byte list \<Rightarrow> (EFI_STATUS \<times> nat) option" where
  "FmpErotGetPkgMetadataFwVersion Hdr = do {
     Size \<leftarrow> load16 Hdr OFFSET_Hdr_Size;
     FwVersion \<leftarrow> load32 Hdr (Size + OFFSET_Metadata_FwVersion);
     Some (EFI_SUCCESS, FwVersion) }"

text \<open>\<open>StrSize\<close>, in bytes, of the string at the start of a buffer.\<close>

definition ErotStrSize :: "wstring \<Rightarrow> nat option" where
  "ErotStrSize Buffer =
     (if 0 \<in> set Buffer then Some (2 * (length (takeWhile (\<lambda>c. c \<noteq> 0) Buffer) + 1)) else None)"

text \<open>
  The arguments say which pointers are given, the results are what is stored. \<open>StrSize\<close> counts bytes already,
  so that twice as many are copied.
\<close>

definition FmpErotGetVersion ::
  "('h, 'p, 's) FMP_EROT_SERVICES \<Rightarrow> bool \<Rightarrow> bool \<Rightarrow> ('h, 'p) FMP_EROT_GLOBALS
   \<Rightarrow> (EFI_STATUS \<times> nat option \<times> wstring option) option" where
  "FmpErotGetVersion F Version VersionString g =
     (if \<not> mInitialized g then Some (EFI_UNSUPPORTED, None, None)
      else if EFI_ERROR (mVersionStatus g) then Some (mVersionStatus g, None, None)
      else
        let Stored = (if Version then Some (mVersion g) else None) in
        if \<not> VersionString then Some (EFI_SUCCESS, Stored, None)
        else do {
          Buffer \<leftarrow> mVersionString g;
          Size \<leftarrow> ErotStrSize Buffer;
          let VersionStringSize = Size * 2;
          if \<not> ErotRuntimePool (ErotLib F) VersionStringSize then Some (EFI_OUT_OF_RESOURCES, Stored, None)
          else if VersionStringSize \<le> 2 * length Buffer
          then Some (EFI_SUCCESS, Stored, Some (take (VersionStringSize div 2) Buffer))
          else None })"

section \<open>Checking and setting an image\<close>

text \<open>The results are stored through the two pointers; \<open>Results\<close> says whether both are given.\<close>

definition FmpErotCheckImage ::
  "('h, 'p, 's) FMP_EROT_SERVICES \<Rightarrow> byte list option \<Rightarrow> nat \<Rightarrow> bool \<Rightarrow> ('h, 'p) FMP_EROT_GLOBALS
   \<Rightarrow> (EFI_STATUS \<times> (EROT_UPDATABLE \<times> EROT_LAST_ATTEMPT) option) option" where
  "FmpErotCheckImage F Capsule ImageSize Results g =
     (if \<not> Results then Some (EFI_INVALID_PARAMETER, None)
      else case Capsule of
        None \<Rightarrow> Some (EFI_INVALID_PARAMETER, Some (EROT_IMAGE_UPDATABLE_INVALID, EROT_LAS_BAD_IMAGE_POINTER))
      | Some Hdr \<Rightarrow>
          if \<not> mInitialized g
          then Some (EFI_NOT_READY, Some (EROT_IMAGE_UPDATABLE_INVALID, EROT_LAS_FMP_LIB_UNINITIALIZED))
          else do {
            Status \<leftarrow> PldmFwPkgHdrValidate (ErotCrc32 F) Hdr ImageSize;
            if EFI_ERROR Status
            then Some (EFI_ABORTED, Some (EROT_IMAGE_UPDATABLE_INVALID, EROT_LAS_INVALID_PACKAGE_HEADER))
            else do {
              Rsp \<leftarrow> mQueryDeviceIdsRsp g;
              Count \<leftarrow> load8 Rsp OFFSET_QueryIds_Count;
              Match \<leftarrow> PldmFwPkgMatchesFD Hdr (unat Count) Rsp OFFSET_QueryIds_Descriptors;
              Some (case Match of
                  None \<Rightarrow> (EFI_ABORTED, Some (EROT_IMAGE_UPDATABLE_INVALID, EROT_LAS_UNSUPPORTED_PACKAGE_TYPE))
                | Some _ \<Rightarrow> (EFI_SUCCESS, Some (EROT_IMAGE_UPDATABLE_VALID, EROT_LAS_SUCCESS))) } })"

text \<open>
  The loop that creates the tasks, one for each ERoT. A task keeps the protocol of its ERoT, so that from here on a
  protocol is the address of its instance.
\<close>

primrec CreateTasksLoop ::
  "('h, nat, 's) EROT_SERVICES \<Rightarrow> byte list \<Rightarrow> nat \<Rightarrow> nat EROT_GLOBALS \<Rightarrow> nat list \<Rightarrow> task_globals
   \<Rightarrow> (EFI_STATUS \<times> task_globals) option" where
  "CreateTasksLoop E Capsule ImageSize g [] T = Some (EFI_SUCCESS, T)"
| "CreateTasksLoop E Capsule ImageSize g (Index # Rest) T = do {
     Entry \<leftarrow> ErotGetMctpProtocolByIndex Index g;
     Protocol \<leftarrow> Entry;
     (T, Status) \<leftarrow> PldmFwUpdateTaskCreate Protocol (fst (MctpGetDeviceAttributes E Protocol)) Capsule ImageSize T;
     if EFI_ERROR Status then Some (Status, T) else CreateTasksLoop E Capsule ImageSize g Rest T }"

text \<open>
  The update tasks: initialisation with as many tasks as there are ERoTs, the tasks, and their execution. The inner
  \<open>None\<close> says that the tasks are still running after the given environments.
\<close>

definition ErotUpdate ::
  "('h, nat, 's) FMP_EROT_SERVICES \<Rightarrow> fd_env list \<Rightarrow> byte list \<Rightarrow> nat \<Rightarrow> ('h, nat) FMP_EROT_GLOBALS
   \<Rightarrow> ((EFI_STATUS \<times> EROT_LAST_ATTEMPT) option \<times> ('h, nat) FMP_EROT_GLOBALS) option" where
  "ErotUpdate F es Capsule ImageSize g =
     (let NumErots = ErotGetNumErots (ErotState g);
          (T, Status) = PldmFwUpdateTaskLibInit (TasksAllocated F NumErots) NumErots True (ErotTasks g) in
      if EFI_ERROR Status then Some (Some (EFI_ABORTED, EROT_LAS_TASK_LIB_INIT_FAILED), g\<lparr>ErotTasks := T\<rparr>)
      else do {
        (Status, T) \<leftarrow> CreateTasksLoop (ErotLib F) Capsule ImageSize (ErotState g) [0..<NumErots] T;
        if EFI_ERROR Status then Some (Some (EFI_ABORTED, EROT_LAS_TASK_CREATE_FAILED), g\<lparr>ErotTasks := T\<rparr>)
        else do {
          (T, Result) \<leftarrow> PldmFwUpdateTaskExecuteAll es T;
          let g = ReportProgress F (ProgressLog T) (g\<lparr>ErotTasks := T\<rparr>);
          Some (map_option (\<lambda>(Status, Error, ActivationMethod).
              if EFI_ERROR Status then (EFI_ABORTED, EROT_LAS_PLDM_FW_UPDATE_TASK_ERROR Error)
              else (EFI_SUCCESS, EROT_LAS_SUCCESS)) Result, g) } })"

text \<open>\<open>Result\<close> says whether the pointer for the status of the last attempt is given.\<close>

definition FmpErotSetImage ::
  "('h, nat, 's) FMP_EROT_SERVICES \<Rightarrow> fd_env list \<Rightarrow> byte list option \<Rightarrow> nat \<Rightarrow> nat \<Rightarrow> bool \<Rightarrow> ('h, nat) FMP_EROT_GLOBALS
   \<Rightarrow> ((EFI_STATUS \<times> EROT_LAST_ATTEMPT option) option \<times> ('h, nat) FMP_EROT_GLOBALS) option" where
  "FmpErotSetImage F es Capsule ImageSize CapsuleFwVersion Result g =
     (if \<not> Result then Some (Some (EFI_INVALID_PARAMETER, None), g)
      else case Capsule of
        None \<Rightarrow> Some (Some (EFI_INVALID_PARAMETER, Some EROT_LAS_BAD_IMAGE_POINTER), g)
      | Some Hdr \<Rightarrow>
          if \<not> mInitialized g then Some (Some (EFI_NOT_READY, Some EROT_LAS_FMP_LIB_UNINITIALIZED), g)
          else do {
            let g = snd (ErotImageProgress F 0 g);
            (Status, PkgFwVersion) \<leftarrow> FmpErotGetPkgMetadataFwVersion Hdr;
            if EFI_ERROR Status then Some (Some (EFI_ABORTED, Some EROT_LAS_UNKNOWN_PACKAGE_FW_VERSION), g)
            else if CapsuleFwVersion \<noteq> PkgFwVersion
            then Some (Some (EFI_ABORTED, Some EROT_LAS_FW_VERSION_MISMATCH), g)
            else do {
              (Result, g) \<leftarrow> ErotUpdate F es Hdr ImageSize g;
              Some (map_option (\<lambda>(Status, Last). (Status, Some Last)) Result, g) } })"

section \<open>What the ERoT reports\<close>

definition FmpErotQueryDeviceIds ::
  "('h, 'p, 's) FMP_EROT_SERVICES \<Rightarrow> 'p \<Rightarrow> ('h, 'p) FMP_EROT_GLOBALS \<Rightarrow> 's
   \<Rightarrow> (EFI_STATUS \<times> ('h, 'p) FMP_EROT_GLOBALS \<times> 's) option" where
  "FmpErotQueryDeviceIds F Protocol g s =
     (let E = ErotLib F in
      if \<not> ErotRuntimePool E FMP_EROT_QUERY_DEVICE_IDS_RSP_SIZE
      then Some (EFI_OUT_OF_RESOURCES, g\<lparr>mQueryDeviceIdsRsp := None\<rparr>, s)
      else do {
        Req \<leftarrow> PldmFwFillCommon (Uninitialised E sizeof_MCTP_PLDM_COMMON) True 0 PLDM_FW_QUERY_DEVICE_IDS;
        (Status, Rsp, RspLength, s) \<leftarrow>
          MctpDoRequest E Protocol Req (Uninitialised E FMP_EROT_QUERY_DEVICE_IDS_RSP_SIZE) s;
        let g = g\<lparr>mQueryDeviceIdsRsp := Some Rsp\<rparr>;
        if EFI_ERROR Status then Some (Status, g, s)
        else do {
          Length \<leftarrow> RspLength;
          Status \<leftarrow> PldmFwQueryDeviceIdsCheckRsp Rsp Length;
          Some (Status, g, s) } })"

definition FmpErotGetFwParams ::
  "('h, 'p, 's) FMP_EROT_SERVICES \<Rightarrow> 'p \<Rightarrow> ('h, 'p) FMP_EROT_GLOBALS \<Rightarrow> 's
   \<Rightarrow> (EFI_STATUS \<times> ('h, 'p) FMP_EROT_GLOBALS \<times> 's) option" where
  "FmpErotGetFwParams F Protocol g s =
     (let E = ErotLib F in
      if \<not> ErotRuntimePool E FMP_EROT_GET_FW_PARAMS_RSP_SIZE
      then Some (EFI_OUT_OF_RESOURCES, g\<lparr>mGetFwParamsRsp := None\<rparr>, s)
      else do {
        Req \<leftarrow> PldmFwFillCommon (Uninitialised E sizeof_MCTP_PLDM_COMMON) True 1 PLDM_FW_GET_FW_PARAMS;
        (Status, Rsp, RspLength, s) \<leftarrow>
          MctpDoRequest E Protocol Req (Uninitialised E FMP_EROT_GET_FW_PARAMS_RSP_SIZE) s;
        let g = g\<lparr>mGetFwParamsRsp := Some Rsp\<rparr>;
        if EFI_ERROR Status then Some (Status, g, s)
        else do {
          Length \<leftarrow> RspLength;
          Status \<leftarrow> PldmFwGetFwParamsCheckRsp Rsp Length;
          Some (Status, g, s) } })"

text \<open>The loop over the components: whether the ERoT's own is among them, and the last other one.\<close>

primrec FindComponentLoop :: "byte list \<Rightarrow> nat list \<Rightarrow> bool \<Rightarrow> nat option \<Rightarrow> (bool \<times> nat option) option" where
  "FindComponentLoop Rsp [] ErotComponentFound ComponentEntry = Some (ErotComponentFound, ComponentEntry)"
| "FindComponentLoop Rsp (Index # Rest) ErotComponentFound ComponentEntry = do {
     FwComponentEntry \<leftarrow> PldmFwGetFwParamsComponent Rsp Index;
     Id \<leftarrow> load16 Rsp (FwComponentEntry + OFFSET_Entry_Id);
     if Id = FMP_EROT_EC_FW_COMPONENT_ID then FindComponentLoop Rsp Rest True ComponentEntry
     else FindComponentLoop Rsp Rest ErotComponentFound (Some FwComponentEntry) }"

text \<open>The version of a component, its string and its release date: those pending, when chain 0 boots them.\<close>

definition SelectVersion :: "byte list \<Rightarrow> nat \<Rightarrow> nat \<Rightarrow> (nat \<times> byte list \<times> byte list) option" where
  "SelectVersion Rsp ComponentEntry ActiveBootChain = do {
     ActiveLength \<leftarrow> load8 Rsp (ComponentEntry + OFFSET_Entry_ActiveVersionStringLength);
     PendingLength \<leftarrow> load8 Rsp (ComponentEntry + OFFSET_Entry_PendingVersionStringLength);
     let ActiveString = ComponentEntry + OFFSET_Entry_ActiveVersionString;
     if PendingLength \<noteq> 0 \<and> ActiveBootChain = 0 then do {
       Version \<leftarrow> load32 Rsp (ComponentEntry + OFFSET_Entry_PendingComparisonStamp);
       String' \<leftarrow> load_bytes Rsp (ActiveString + unat ActiveLength) (unat PendingLength);
       Date \<leftarrow> load_bytes Rsp (ComponentEntry + OFFSET_Entry_PendingReleaseDate) sizeof_ReleaseDate;
       Some (Version, String', Date) }
     else do {
       Version \<leftarrow> load32 Rsp (ComponentEntry + OFFSET_Entry_ActiveComparisonStamp);
       String' \<leftarrow> load_bytes Rsp ActiveString (unat ActiveLength);
       Date \<leftarrow> load_bytes Rsp (ComponentEntry + OFFSET_Entry_ActiveReleaseDate) sizeof_ReleaseDate;
       Some (Version, String', Date) } }"

text \<open>The rest of \<open>FmpErotGetVersionInfo\<close>, from the check of the types of the strings on.\<close>

definition StoreVersion ::
  "('h, 'p, 's) FMP_EROT_SERVICES \<Rightarrow> byte list \<Rightarrow> nat \<Rightarrow> ('h, 'p) FMP_EROT_GLOBALS \<Rightarrow> 's
   \<Rightarrow> (EFI_STATUS \<times> ('h, 'p) FMP_EROT_GLOBALS \<times> 's) option" where
  "StoreVersion F Rsp ComponentEntry g s = do {
     ActiveType \<leftarrow> load8 Rsp (ComponentEntry + OFFSET_Entry_ActiveVersionStringType);
     PendingLength \<leftarrow> load8 Rsp (ComponentEntry + OFFSET_Entry_PendingVersionStringLength);
     PendingType \<leftarrow> load8 Rsp (ComponentEntry + OFFSET_Entry_PendingVersionStringType);
     if ActiveType \<noteq> PLDM_FW_STRING_TYPE_ASCII \<or> PendingLength \<noteq> 0 \<and> PendingType \<noteq> PLDM_FW_STRING_TYPE_ASCII
     then Some (EFI_UNSUPPORTED, g, s)
     else do {
       (Version, ComponentVersionString, ComponentReleaseDate) \<leftarrow> SelectVersion Rsp ComponentEntry (mErotActiveBootChain g);
       let g = g\<lparr>mVersion := Version\<rparr>;
       let Chars = length ComponentVersionString + 1;
       if \<not> ErotRuntimePool (ErotLib F) (Chars * 2) then Some (EFI_OUT_OF_RESOURCES, g\<lparr>mVersionString := None\<rparr>, s)
       else do {
         let Printed = ErotPrint F (length ComponentVersionString) ComponentVersionString;
         let g = g\<lparr>mVersionString := Some (Printed @ [0] @ drop (length Printed + 1) (NewChars F Chars)),
                   mVersionStatus := EFI_SUCCESS\<rparr>;
         let s = snd (PcdSetVersionString F Printed s);
         let s = snd (PcdSetReleaseDate F (ErotPrint F sizeof_ReleaseDate ComponentReleaseDate) s);
         Some (EFI_SUCCESS, g, s) } } }"

text \<open>The components of a response to GetFirmwareParameters.\<close>

definition ErotComponents ::
  "('h, 'p, 's) FMP_EROT_SERVICES \<Rightarrow> ('h, 'p) FMP_EROT_GLOBALS \<Rightarrow> 's
   \<Rightarrow> (EFI_STATUS \<times> ('h, 'p) FMP_EROT_GLOBALS \<times> 's) option" where
  "ErotComponents F g s = do {
     Rsp \<leftarrow> mGetFwParamsRsp g;
     Count \<leftarrow> FwParamsComponentCount Rsp;
     if Count \<noteq> 2 then Some (EFI_UNSUPPORTED, g, s)
     else do {
       (ErotComponentFound, ComponentEntry) \<leftarrow> FindComponentLoop Rsp [0..<Count] False None;
       case ComponentEntry of
         None \<Rightarrow> Some (EFI_UNSUPPORTED, g, s)
       | Some Entry \<Rightarrow>
           if \<not> ErotComponentFound then Some (EFI_UNSUPPORTED, g, s)
           else StoreVersion F Rsp Entry g s } }"

definition FmpErotGetVersionInfo ::
  "('h, 'p, 's) FMP_EROT_SERVICES \<Rightarrow> ('h, 'p) FMP_EROT_GLOBALS \<Rightarrow> 's
   \<Rightarrow> (EFI_STATUS \<times> ('h, 'p) FMP_EROT_GLOBALS \<times> 's) option" where
  "FmpErotGetVersionInfo F g s = do {
     Found \<leftarrow> ErotGetMctpProtocolBySocket (ErotLib F) FMP_EROT_SOCKET (ErotState g);
     case Found of
       None \<Rightarrow> Some (EFI_DEVICE_ERROR, g, s)
     | Some Protocol \<Rightarrow>
         let Status = fst (MctpGetDeviceAttributes (ErotLib F) Protocol) in
         if EFI_ERROR Status then Some (Status, g, s)
         else do {
           (Status, g, s) \<leftarrow> FmpErotQueryDeviceIds F Protocol g s;
           if EFI_ERROR Status then Some (Status, g, s)
           else do {
             Rsp \<leftarrow> mQueryDeviceIdsRsp g;
             Desc \<leftarrow> load_bytes Rsp OFFSET_QueryIds_Descriptors (length mNvIanaIdDesc);
             if Desc \<noteq> mNvIanaIdDesc then Some (EFI_DEVICE_ERROR, g, s)
             else do {
               (Status, g, s) \<leftarrow> FmpErotGetFwParams F Protocol g s;
               if EFI_ERROR Status then Some (Status, g, s) else ErotComponents F g s } } } }"

section \<open>Initialisation\<close>

text \<open>The code behind the label \<open>Done\<close> for an error.\<close>

definition EndOfDxeFailed ::
  "('h, 'p, 's) FMP_EROT_SERVICES \<Rightarrow> ('h, 'p) FMP_EROT_GLOBALS \<Rightarrow> 's \<Rightarrow> ('h, 'p) FMP_EROT_GLOBALS \<times> 's" where
  "EndOfDxeFailed F g s =
     (let g = g\<lparr>mQueryDeviceIdsRsp := None, mGetFwParamsRsp := None, mVersionString := None,
                ErotState := snd (ErotLibDeinit (ErotState g))\<rparr> in
      (g, if mErotInstaller g then snd (ErotCallInstaller F (mImageHandle g) s) else s))"

definition FmpErotEndOfDxeNotify ::
  "('h, 'p, 's) FMP_EROT_SERVICES \<Rightarrow> ('h, 'p) FMP_EROT_GLOBALS \<Rightarrow> 's \<Rightarrow> (('h, 'p) FMP_EROT_GLOBALS \<times> 's) option" where
  "FmpErotEndOfDxeNotify F g s = do {
     let s = ErotFmpParamLibInit F s;
     (Status, st) \<leftarrow> ErotLibInit (ErotLib F) s (ErotState g);
     let g = g\<lparr>ErotState := st\<rparr>;
     if EFI_ERROR Status then Some (EndOfDxeFailed F g s)
     else do {
       (Status, g, s) \<leftarrow> FmpErotGetVersionInfo F g s;
       (Status, g, s) \<leftarrow> (if EFI_ERROR Status then FmpErotGetVersionInfo F g s else Some (Status, g, s));
       if EFI_ERROR Status then Some (EndOfDxeFailed F g s)
       else if \<not> mErotInstaller g then Some (EndOfDxeFailed F g s)
       else do {
         let (Status, s) = ErotCallInstaller F (mImageHandle g) s;
         if EFI_ERROR Status then Some (EndOfDxeFailed F (g\<lparr>mInitialized := False\<rparr>) s)
         else Some (g\<lparr>mInitialized := True\<rparr>, s) } } }"

definition FmpErotLibConstructor ::
  "('h, 'p, 's) FMP_EROT_SERVICES \<Rightarrow> 'h option \<Rightarrow> ('h, 'p) FMP_EROT_GLOBALS \<Rightarrow> EFI_STATUS \<times> ('h, 'p) FMP_EROT_GLOBALS" where
  "FmpErotLibConstructor F ImageHandle g =
     (let g = g\<lparr>mImageHandle := ImageHandle\<rparr>;
          (Status, g) =
            (case ErotHob F of
               None \<Rightarrow> (EFI_NOT_FOUND, g)
             | Some ActiveBootChain \<Rightarrow>
                 (fst (ErotCreateEvent F), g\<lparr>mErotActiveBootChain := ActiveBootChain,
                    mEndOfDxeEvent := (mEndOfDxeEvent g \<or> snd (ErotCreateEvent F))\<rparr>)) in
      (EFI_SUCCESS, if EFI_ERROR Status
         then g\<lparr>mEndOfDxeEvent := False, mImageHandle := None, mErotActiveBootChain := 2 ^ 32 - 1\<rparr> else g))"

section \<open>The entry points for the firmware management protocol\<close>

definition ErotRegisterFmpInstaller :: "bool \<Rightarrow> ('h, 'p) FMP_EROT_GLOBALS \<Rightarrow> EFI_STATUS \<times> ('h, 'p) FMP_EROT_GLOBALS" where
  "ErotRegisterFmpInstaller Function g = (EFI_SUCCESS, g\<lparr>mErotInstaller := Function\<rparr>)"

definition ErotFmpDeviceGetVersionString ::
  "('h, 'p, 's) FMP_EROT_SERVICES \<Rightarrow> bool \<Rightarrow> ('h, 'p) FMP_EROT_GLOBALS \<Rightarrow> (EFI_STATUS \<times> wstring option) option" where
  "ErotFmpDeviceGetVersionString F VersionString g =
     (if \<not> VersionString then Some (EFI_INVALID_PARAMETER, None)
      else map_option (\<lambda>(Status, _, String'). (Status, String')) (FmpErotGetVersion F False True g))"

definition ErotFmpDeviceGetVersion ::
  "('h, 'p, 's) FMP_EROT_SERVICES \<Rightarrow> bool \<Rightarrow> ('h, 'p) FMP_EROT_GLOBALS \<Rightarrow> (EFI_STATUS \<times> nat option) option" where
  "ErotFmpDeviceGetVersion F Version g =
     (if \<not> Version then Some (EFI_INVALID_PARAMETER, None)
      else map_option (\<lambda>(Status, Stored, _). (Status, Stored)) (FmpErotGetVersion F True False g))"

definition ErotFmpDeviceCheckImageWithStatus ::
  "('h, 'p, 's) FMP_EROT_SERVICES \<Rightarrow> byte list option \<Rightarrow> nat \<Rightarrow> bool \<Rightarrow> ('h, 'p) FMP_EROT_GLOBALS
   \<Rightarrow> (EFI_STATUS \<times> (EROT_UPDATABLE \<times> EROT_LAST_ATTEMPT) option) option" where
  "ErotFmpDeviceCheckImageWithStatus F Capsule ImageSize Results g = FmpErotCheckImage F Capsule ImageSize Results g"

definition ErotFmpDeviceCheckImage ::
  "('h, 'p, 's) FMP_EROT_SERVICES \<Rightarrow> byte list option \<Rightarrow> nat \<Rightarrow> bool \<Rightarrow> ('h, 'p) FMP_EROT_GLOBALS
   \<Rightarrow> (EFI_STATUS \<times> EROT_UPDATABLE option) option" where
  "ErotFmpDeviceCheckImage F Capsule ImageSize ImageUpdatable g =
     map_option (\<lambda>(Status, Results). (Status, map_option fst Results))
       (ErotFmpDeviceCheckImageWithStatus F Capsule ImageSize ImageUpdatable g)"

definition ErotFmpDeviceSetImageWithStatus ::
  "('h, nat, 's) FMP_EROT_SERVICES \<Rightarrow> fd_env list \<Rightarrow> byte list option \<Rightarrow> nat \<Rightarrow> nat \<Rightarrow> bool \<Rightarrow> ('h, nat) FMP_EROT_GLOBALS
   \<Rightarrow> ((EFI_STATUS \<times> EROT_LAST_ATTEMPT option) option \<times> ('h, nat) FMP_EROT_GLOBALS) option" where
  "ErotFmpDeviceSetImageWithStatus F es Capsule ImageSize CapsuleFwVersion Result g =
     FmpErotSetImage F es Capsule ImageSize CapsuleFwVersion Result g"

definition ErotFmpDeviceSetImage ::
  "('h, nat, 's) FMP_EROT_SERVICES \<Rightarrow> fd_env list \<Rightarrow> byte list option \<Rightarrow> nat \<Rightarrow> nat \<Rightarrow> ('h, nat) FMP_EROT_GLOBALS
   \<Rightarrow> (EFI_STATUS option \<times> ('h, nat) FMP_EROT_GLOBALS) option" where
  "ErotFmpDeviceSetImage F es Capsule ImageSize CapsuleFwVersion g =
     map_option (\<lambda>(Result, g). (map_option fst Result, g))
       (ErotFmpDeviceSetImageWithStatus F es Capsule ImageSize CapsuleFwVersion True g)"

end
