(* ===== verification/ErotProps.thy ===== *)
theory ErotProps
  imports Erot
begin

text \<open>
  Properties of the ERoT library: which devices it finds, what a request to all of them reports, and what is left after
  it was shut down.
\<close>

text \<open>
  One ERoT, the protocol with the value \<open>0\<close>, on the socket 0. It answers a request with the response that
  \<open>Answer\<close> gives for its command.
\<close>

definition exampleErot :: "(byte \<Rightarrow> byte list) \<Rightarrow> (nat, nat, unit) EROT_SERVICES" where
  "exampleErot Answer =
     \<lparr>LocateMctpHandles = (\<lambda>s. (EFI_SUCCESS, [0])), MctpHandleProtocol = (\<lambda>h. (EFI_SUCCESS, h)),
      MctpGetDeviceAttributes = (\<lambda>p. (EFI_SUCCESS, \<lparr>MctpDeviceType = DEVICE_TYPE_EROT, MctpSocket = 0\<rparr>)),
      MctpDoRequest = (\<lambda>p Req Buffer s. let Rsp = Answer (Req ! 3) in
         if length Rsp \<le> length Buffer then Some (EFI_SUCCESS, Rsp @ drop (length Rsp) Buffer, Some (length Rsp), s)
         else Some (EFI_BUFFER_TOO_SMALL, Buffer, None, s)),
      ErotRuntimePool = (\<lambda>n. True), Uninitialised = (\<lambda>n. replicate n 0xA5), PlatformIsSilicon = True,
      InstallBootComplete = (\<lambda>s. (EFI_SUCCESS, s))\<rparr>"

section \<open>The array of devices\<close>

text \<open>The array is large enough for the devices counted, and each of these is set.\<close>

definition erots_ok :: "'p EROT_GLOBALS \<Rightarrow> 'p list \<Rightarrow> bool" where
  "erots_ok g ps \<longleftrightarrow> (case mErots g of
       None \<Rightarrow> ps = []
     | Some Array \<Rightarrow> take (length ps) Array = map Some ps) \<and> mNumErots g = length ps"

text \<open>The protocols of the handles up to the first that cannot be opened, as far as they are ERoTs.\<close>

definition is_erot :: "('h, 'p, 's) EROT_SERVICES \<Rightarrow> 'p \<Rightarrow> bool" where
  "is_erot E p \<longleftrightarrow> fst (MctpGetDeviceAttributes E p) = EFI_SUCCESS
     \<and> MctpDeviceType (snd (MctpGetDeviceAttributes E p)) = DEVICE_TYPE_EROT"

lemma LocateErotsLoop_found:
  assumes "mErots g = Some A" and "take (mNumErots g) A = map Some ps" and "length ps = mNumErots g"
    and "mNumErots g + length Hs \<le> length A" and "\<forall>H \<in> set Hs. fst (MctpHandleProtocol E H) = EFI_SUCCESS"
  shows "\<exists>g'. LocateErotsLoop E Hs g = Some (EFI_SUCCESS, g') \<and> mErotLibInitialized g' = mErotLibInitialized g
    \<and> erots_ok g' (ps @ filter (is_erot E) (map (\<lambda>H. snd (MctpHandleProtocol E H)) Hs)) \<and> mErots g' \<noteq> None"
  using assms
proof (induction Hs arbitrary: g A ps)
  case Nil
  then show ?case by (simp add: erots_ok_def)
next
  case (Cons H Hs)
  let ?p = "snd (MctpHandleProtocol E H)" and ?n = "mNumErots g"
  obtain p where p: "MctpHandleProtocol E H = (EFI_SUCCESS, p)"
    using Cons.prems(5) by (cases "MctpHandleProtocol E H") auto
  obtain st a where a: "MctpGetDeviceAttributes E p = (st, a)" by (cases "MctpGetDeviceAttributes E p")
  show ?case
  proof (cases "is_erot E p")
    case True
    let ?g = "g\<lparr>mErots := Some (A[?n := Some p]), mNumErots := ?n + 1\<rparr>"
    have "?n < length A" using Cons.prems(4) by simp
    then have "take (?n + 1) (A[?n := Some p]) = map Some (ps @ [p])"
      using Cons.prems(2,3) by (simp add: take_Suc_conv_app_nth)
    with Cons.IH [of ?g "A[?n := Some p]" "ps @ [p]"] Cons.prems True p a \<open>?n < length A\<close>
    show ?thesis by (simp add: is_erot_def)
  next
    case False
    with Cons.IH [of g A ps] Cons.prems p a show ?thesis by (auto simp: is_erot_def)
  qed
qed

text \<open>
  When every handle can be opened, the library finds exactly the devices that say they are ERoTs, in the order of their
  handles; without any it reports \<open>EFI_NOT_FOUND\<close>.
\<close>

lemma ErotLibInit_finds:
  assumes "\<not> mErotLibInitialized g" and "LocateMctpHandles E s = (EFI_SUCCESS, Hs)"
    and "\<forall>H \<in> set Hs. fst (MctpHandleProtocol E H) = EFI_SUCCESS" and "ErotRuntimePool E (length Hs * 8)"
    and "ps = filter (is_erot E) (map (\<lambda>H. snd (MctpHandleProtocol E H)) Hs)"
  shows "\<exists>g'. ErotLibInit E s g = Some (if ps = [] then EFI_NOT_FOUND else EFI_SUCCESS, g')
    \<and> erots_ok g' ps \<and> (mErotLibInitialized g' \<longleftrightarrow> ps \<noteq> [])"
proof -
  let ?g = "g\<lparr>mErots := Some (replicate (length Hs) None), mNumErots := 0\<rparr>"
  from LocateErotsLoop_found [of ?g "replicate (length Hs) None" "[]" Hs E] assms(3) obtain g' where
      loop: "LocateErotsLoop E Hs ?g = Some (EFI_SUCCESS, g')" "mErotLibInitialized g' = mErotLibInitialized g"
        "erots_ok g' ps"
    using assms(5) by auto
  have "mNumErots g' = length ps" using loop(3) by (simp add: erots_ok_def)
  with loop assms(1,2,4) show ?thesis
    by (auto simp: ErotLibInit_def ErotLocateProtocols_def erots_ok_def split: option.splits)
qed

section \<open>Requests\<close>

text \<open>
  What \<open>ErotSendRequestToAll\<close> returns does not depend on the status of the requests it sends: with any other status
  of \<open>DoRequest\<close> in place of the one returned, the result is the same.
\<close>

theorem erot_request_status_ignored:
  fixes E :: "('h, 'p, 's) EROT_SERVICES"
  shows "ErotSendRequestToAll (E\<lparr>MctpDoRequest := (\<lambda>p Req Buffer s. map_option (\<lambda>(st, r). (other p s, r)) (MctpDoRequest E p Req Buffer s))\<rparr>)
      Req Buffer Check g s
    = ErotSendRequestToAll E Req Buffer Check g s"
proof -
  define E' where "E' = E\<lparr>MctpDoRequest := (\<lambda>p Req Buffer s. map_option (\<lambda>(st, r). (other p s, r)) (MctpDoRequest E p Req Buffer s))\<rparr>"
  have E': "LocateMctpHandles E' = LocateMctpHandles E" "MctpHandleProtocol E' = MctpHandleProtocol E"
      "MctpGetDeviceAttributes E' = MctpGetDeviceAttributes E" "ErotRuntimePool E' = ErotRuntimePool E"
      "MctpDoRequest E' p Req Buffer s = map_option (\<lambda>(st, r). (other p s, r)) (MctpDoRequest E p Req Buffer s)" for p Req Buffer s
    by (simp_all add: E'_def)
  have "LocateErotsLoop E' Hs g = LocateErotsLoop E Hs g" for Hs g
    by (induction Hs arbitrary: g) (auto simp: E' split: prod.splits option.splits intro!: Option.bind_cong)
  then have init: "ErotLibInit E' s g = ErotLibInit E s g"
    by (simp add: ErotLibInit_def ErotLocateProtocols_def E' split: prod.split)
  have bind_other: "Option.bind (map_option (\<lambda>(st, r). (x, r)) o') (\<lambda>(_, b, n, s). f b n s) = Option.bind o' (\<lambda>(_, b, n, s). f b n s)"
    for x o' and f :: "byte list \<Rightarrow> nat option \<Rightarrow> 's \<Rightarrow> 'c option"
    by (cases o') auto
  have "SendToAllLoop E' Req Check is g Buffer n Error s = SendToAllLoop E Req Check is g Buffer n Error s" for "is" g Buffer n Error s
    by (induction "is" arbitrary: Buffer n Error s)
      (auto simp: E' bind_other Let_def intro!: Option.bind_cong split: prod.splits)
  then show ?thesis
    by (auto simp: ErotSendRequestToAll_def init simp flip: E'_def intro!: Option.bind_cong split: prod.splits)
qed

section \<open>After the shutdown\<close>

text \<open>
  \<open>ErotLibDeinit\<close> leaves a library that still counts as initialised but knows no ERoT: from then on a request to all
  ERoTs is a success that sends nothing, and the end of the boot can be reported to no socket.
\<close>

theorem erot_deinit_pretends:
  assumes "mErotLibInitialized g" and "g' = snd (ErotLibDeinit g)"
  shows "ErotLibInit E s g' = Some (EFI_SUCCESS, g') \<and> ErotGetNumErots g' = 0
    \<and> ErotSendRequestToAll E Req Buffer Check g' s = Some (EFI_SUCCESS, Buffer, g', s)
    \<and> (PlatformIsSilicon E \<longrightarrow> ErotSendBootComplete E Socket BootSlot g' s = Some (EFI_INVALID_PARAMETER, g', s))"
proof -
  have g': "mErotLibInitialized g'" "mNumErots g' = 0"
    using assms by (simp_all add: ErotLibDeinit_def)
  then have init: "ErotLibInit E s g' = Some (EFI_SUCCESS, g')" for E :: "('b, 'a, 'c) EROT_SERVICES" and s
    by (simp add: ErotLibInit_def)
  then show ?thesis
    using g' by (simp add: ErotSendRequestToAll_def ErotSendBootComplete_def ErotGetNumErots_def ErotGetMctpProtocolBySocket_def)
qed

theorem erot_deinit_pretends_witness:
  "ErotSendRequestToAll (exampleErot (\<lambda>c. [])) [1, 2] [3] (\<lambda>p q r n. EFI_DEVICE_ERROR)
      (snd (ErotLibDeinit \<lparr>mErotLibInitialized = True, mNumErots = 1, mErots = Some [Some 0]\<rparr>)) ()
    = Some (EFI_SUCCESS, [3], \<lparr>mErotLibInitialized = True, mNumErots = 0, mErots = None\<rparr>, ())"
proof -
  let ?g = "\<lparr>mErotLibInitialized = True, mNumErots = 1, mErots = Some [Some (0 :: nat)]\<rparr>"
  have "mErotLibInitialized ?g" by simp
  from erot_deinit_pretends [OF this refl, of "exampleErot (\<lambda>c. [])"] show ?thesis
    by (simp add: ErotLibDeinit_def)
qed

section \<open>The report of the end of the boot\<close>

lemma BootCompleteFillReq_bytes:
  assumes "length b = sizeof_BOOT_COMPLETE_REQUEST"
  shows "MctpNvBootCompleteFillReq b BootSlot
    = Some [0x7F, 0, 0, 0x16, 0x47, 0x80, 1, 2, 2, of_nat BootSlot OR 4, 0, 0]"
proof -
  from assms obtain a0 a1 a2 a3 a4 a5 a6 a7 a8 a9 a10 a11 where "b = [a0, a1, a2, a3, a4, a5, a6, a7, a8, a9, a10, a11]"
    by (auto simp: layout numeral_eq_Suc length_Suc_conv)
  then show ?thesis
    by (simp add: MctpNvBootCompleteFillReq_def MctpNvReqFillCommon_def MctpNvFillVendorId_def MctpUint32ToBEBuffer_def
        store_bytes_def load_bytes_def layout codes)
qed

end
