(* ===== verification/FmpErotProps.thy ===== *)
theory FmpErotProps
  imports FmpErot ErotProps PldmTaskTheorems
begin

text \<open>
  Properties of the update through the ERoTs: what a successful update has done, what happens after one that
  failed, which packages the check accepts, and which version the library reports.
\<close>

section \<open>The tasks of an update\<close>

text \<open>The protocols of the ERoTs with the given indices.\<close>

definition protocols_of :: "'p EROT_GLOBALS \<Rightarrow> nat list \<Rightarrow> 'p list \<Rightarrow> bool" where
  "protocols_of g is ps \<longleftrightarrow> list_all2 (\<lambda>i p. ErotGetMctpProtocolByIndex i g = Some (Some p)) is ps"

lemma CreateTasksLoop_tasks:
  assumes "CreateTasksLoop E C n g is T = Some (st, T')"
  shows "\<exists>ps. T' = T\<lparr>mTasks := mTasks T @ map (\<lambda>p. NewTask p C n) ps\<rparr> \<and> (\<not> EFI_ERROR st \<longrightarrow> st = EFI_SUCCESS \<and> protocols_of g is ps)"
  using assms
proof (induction "is" arbitrary: T)
  case Nil
  then show ?case by (auto simp: protocols_of_def intro!: exI [of _ "[]"])
next
  case (Cons i "is")
  then obtain p where i: "ErotGetMctpProtocolByIndex i g = Some (Some p)"
      "if EFI_ERROR (fst (MctpGetDeviceAttributes E p)) then st = fst (MctpGetDeviceAttributes E p) \<and> T' = T\<lparr>mTasks := mTasks T @ [NewTask p C n]\<rparr>
       else CreateTasksLoop E C n g is (T\<lparr>mTasks := mTasks T @ [NewTask p C n]\<rparr>) = Some (st, T')"
    by (auto simp: bind_eq_Some_conv PldmFwUpdateTaskCreate_def split: if_splits)
  show ?case
  proof (cases "EFI_ERROR (fst (MctpGetDeviceAttributes E p))")
    case True
    with i(2) show ?thesis by (auto intro!: exI [of _ "[p]"])
  next
    case False
    with i(2) Cons.IH obtain ps where
        "T' = T\<lparr>mTasks := mTasks T @ map (\<lambda>p. NewTask p C n) (p # ps)\<rparr>" "\<not> EFI_ERROR st \<longrightarrow> st = EFI_SUCCESS \<and> protocols_of g is ps"
      by fastforce
    with i(1) show ?thesis by (auto simp: protocols_of_def intro!: exI [of _ "p # ps"])
  qed
qed

text \<open>The globals of the tasks when their execution starts, with the protocols \<open>ps\<close>.\<close>

definition started_tasks :: "nat list \<Rightarrow> byte list \<Rightarrow> nat \<Rightarrow> task_globals \<Rightarrow> task_globals" where
  "started_tasks ps C n T = T\<lparr>mNumDevices := length ps, mNumTasksComplete := 0, mStatus := EFI_SUCCESS,
     mActivationMethod := 0, mError := ERROR_NONE, mProgressFunction := True, mCompletion := 0, ProgressLog := [],
     mTasks := map (\<lambda>p. NewTask p C n) ps\<rparr>"

lemma started_tasks_start: "machine_start (started_tasks ps C n T)"
  by (auto simp: machine_start_def started_tasks_def)

lemma started_tasks_simps [simp]:
  "mTasks (started_tasks ps C n T) = map (\<lambda>p. NewTask p C n) ps" "mStatus (started_tasks ps C n T) = EFI_SUCCESS"
  "mCancelAllUpdates (started_tasks ps C n T) = mCancelAllUpdates T"
  by (simp_all add: started_tasks_def)

lemma ReportProgress_tasks [simp]: "ErotTasks (ReportProgress F cs g) = ErotTasks g"
  unfolding ReportProgress_def by (induction cs arbitrary: g) (simp_all add: ErotImageProgress_def)

definition erot_result :: "EFI_STATUS \<Rightarrow> PLDM_FW_UPDATE_TASK_ERROR \<Rightarrow> EFI_STATUS \<times> EROT_LAST_ATTEMPT" where
  "erot_result status err =
     (if EFI_ERROR status then (EFI_ABORTED, EROT_LAS_PLDM_FW_UPDATE_TASK_ERROR err) else (EFI_SUCCESS, EROT_LAS_SUCCESS))"

text \<open>
  An update ends before its tasks run, with tasks that have sent nothing, or with the tasks that an execution leaves.
\<close>

definition idle_tasks :: "task_globals \<Rightarrow> task_globals \<Rightarrow> bool" where
  "idle_tasks T T' \<longleftrightarrow> mCancelAllUpdates T' = mCancelAllUpdates T \<and> (\<forall>t \<in> set (mTasks T'). requests t = [])"

lemma ErotUpdate_outcome:
  assumes "ErotUpdate F es C n g = Some (out, g')"
  shows "idle_tasks (ErotTasks g) (ErotTasks g')
      \<and> out \<in> {Some (EFI_ABORTED, EROT_LAS_TASK_LIB_INIT_FAILED), Some (EFI_ABORTED, EROT_LAS_TASK_CREATE_FAILED)}
    \<or> (\<exists>ps r. protocols_of (ErotState g) [0..<mNumErots (ErotState g)] ps
        \<and> PldmFwUpdateTaskExecuteAll es (started_tasks ps C n (ErotTasks g)) = Some (ErotTasks g', r)
        \<and> out = map_option (\<lambda>(status, err, act). erot_result status err) r)"
proof -
  let ?N = "mNumErots (ErotState g)" and ?T = "(ErotTasks g)\<lparr>mNumDevices := mNumErots (ErotState g), mTasks := [],
      mNumTasksComplete := 0, mStatus := EFI_SUCCESS, mActivationMethod := 0, mError := ERROR_NONE,
      mProgressFunction := True, mCompletion := 0, ProgressLog := []\<rparr>"
  have none: "requests (NewTask p C n) = []" for p by (simp add: requests_def NewTask_def)
  show ?thesis
  proof (cases "TasksAllocated F ?N")
    case False
    with assms show ?thesis
      by (auto simp: ErotUpdate_def Let_def PldmFwUpdateTaskLibInit_def ErotGetNumErots_def idle_tasks_def)
  next
    case True
    with assms obtain st T where create: "CreateTasksLoop (ErotLib F) C n (ErotState g) [0..<?N] ?T = Some (st, T)"
        and rest: "(if EFI_ERROR st then Some (Some (EFI_ABORTED, EROT_LAS_TASK_CREATE_FAILED), g\<lparr>ErotTasks := T\<rparr>)
          else Option.bind (PldmFwUpdateTaskExecuteAll es T) (\<lambda>(T, r).
            Some (map_option (\<lambda>(status, err, act). erot_result status err) r,
              ReportProgress F (ProgressLog T) (g\<lparr>ErotTasks := T\<rparr>)))) = Some (out, g')"
      by (auto simp: ErotUpdate_def Let_def bind_eq_Some_conv PldmFwUpdateTaskLibInit_def ErotGetNumErots_def
          erot_result_def split: if_splits)
    from CreateTasksLoop_tasks [OF create] obtain ps where ps: "T = ?T\<lparr>mTasks := map (\<lambda>p. NewTask p C n) ps\<rparr>"
        "\<not> EFI_ERROR st \<Longrightarrow> protocols_of (ErotState g) [0..<?N] ps"
      by auto
    show ?thesis
    proof (cases "EFI_ERROR st")
      case True
      with rest ps(1) show ?thesis by (auto simp: idle_tasks_def none)
    next
      case False
      then have "length ps = ?N" using ps(2) by (auto simp: protocols_of_def dest: list_all2_lengthD)
      then have "T = started_tasks ps C n (ErotTasks g)" using ps(1) by (simp add: started_tasks_def)
      with False rest ps(2) show ?thesis by (auto simp: bind_eq_Some_conv)
    qed
  qed
qed

text \<open>A call of \<open>FmpErotSetImage\<close> leaves the tasks as they are or makes an update.\<close>

lemma ErotSetImage_outcome:
  assumes "FmpErotSetImage F es Capsule n v Result g = Some (out, g')"
  shows "ErotTasks g' = ErotTasks g \<and> (\<exists>st L. out = Some (st, L) \<and> EFI_ERROR st
        \<and> (\<forall>err. L \<noteq> Some (EROT_LAS_PLDM_FW_UPDATE_TASK_ERROR err)))
    \<or> (\<exists>C h out'. Capsule = Some C \<and> FmpErotGetPkgMetadataFwVersion C = Some (EFI_SUCCESS, v)
        \<and> ErotTasks h = ErotTasks g \<and> ErotState h = ErotState g
        \<and> ErotUpdate F es C n h = Some (out', g') \<and> out = map_option (\<lambda>(st, L). (st, Some L)) out')"
proof -
  have start: "ErotTasks (snd (ErotImageProgress F 0 g)) = ErotTasks g"
      "ErotState (snd (ErotImageProgress F 0 g)) = ErotState g"
    by (simp_all add: ErotImageProgress_def)
  let ?h = "snd (ErotImageProgress F 0 g)"
  from assms have "ErotTasks g' = ErotTasks g \<and> (\<exists>st L. out = Some (st, L) \<and> EFI_ERROR st
        \<and> (\<forall>err. L \<noteq> Some (EROT_LAS_PLDM_FW_UPDATE_TASK_ERROR err)))
    \<or> (\<exists>C out'. Capsule = Some C \<and> FmpErotGetPkgMetadataFwVersion C = Some (EFI_SUCCESS, v)
        \<and> ErotUpdate F es C n ?h = Some (out', g') \<and> out = map_option (\<lambda>(st, L). (st, Some L)) out')"
    by (auto simp: FmpErotSetImage_def Let_def bind_eq_Some_conv FmpErotGetPkgMetadataFwVersion_def start
        split: if_splits option.splits)
  with start show ?thesis by blast
qed

lemma SetImage_ran:
  assumes "FmpErotSetImage F es (Some C) n v True g = Some (Some (st, Some L), g')"
    and "st = EFI_SUCCESS \<or> L = EROT_LAS_PLDM_FW_UPDATE_TASK_ERROR err"
  shows "\<exists>ps status error act. protocols_of (ErotState g) [0..<mNumErots (ErotState g)] ps
       \<and> PldmFwUpdateTaskExecuteAll es (started_tasks ps C n (ErotTasks g))
       = Some (ErotTasks g', Some (status, error, act)) \<and> (st, L) = erot_result status error"
    and "FmpErotGetPkgMetadataFwVersion C = Some (EFI_SUCCESS, v)"
proof -
  from ErotSetImage_outcome [OF assms(1)] assms(2) obtain h where h: "FmpErotGetPkgMetadataFwVersion C = Some (EFI_SUCCESS, v)"
      "ErotTasks h = ErotTasks g" "ErotState h = ErotState g" "ErotUpdate F es C n h = Some (Some (st, L), g')"
    by (elim disjE exE conjE) (auto simp: eq_commute [of "Some (_, _)"])
  show "FmpErotGetPkgMetadataFwVersion C = Some (EFI_SUCCESS, v)" by (rule h(1))
  show "\<exists>ps status error act. protocols_of (ErotState g) [0..<mNumErots (ErotState g)] ps
       \<and> PldmFwUpdateTaskExecuteAll es (started_tasks ps C n (ErotTasks g))
       = Some (ErotTasks g', Some (status, error, act)) \<and> (st, L) = erot_result status error"
  proof -
    from ErotUpdate_outcome [OF h(4)] assms(2) h(2,3) obtain ps r where "protocols_of (ErotState g) [0..<mNumErots (ErotState g)] ps"
        "PldmFwUpdateTaskExecuteAll es (started_tasks ps C n (ErotTasks g)) = Some (ErotTasks g', r)"
        "Some (st, L) = map_option (\<lambda>(status, err, act). erot_result status err) r"
      by (elim disjE exE conjE) auto
    then show ?thesis by (cases r) auto
  qed
qed

text \<open>An execution that fails cancels all updates.\<close>

lemma TaskTurn_failure_cancels:
  assumes "machine_inv G" "i < length (mTasks G)" "TaskTurn e i G = Some (G', d)"
    and "mStatus G \<noteq> EFI_SUCCESS \<longrightarrow> mCancelAllUpdates G"
  shows "mStatus G' \<noteq> EFI_SUCCESS \<longrightarrow> mCancelAllUpdates G'"
proof (cases "Complete (mTasks G ! i)")
  case True
  with assms(3,4) show ?thesis by (simp add: TaskTurn_def Let_def)
next
  case False
  have inv: "task_inv (mError G \<noteq> ERROR_NONE) (mCancelAllUpdates G) (mTasks G ! i)"
    using assms(1,2) by (simp add: machine_inv_def)
  from assms(3) False obtain G1 T1 s1 where
      h: "mPldmFwTaskStateTable (TaskState (mTasks G ! i)) e i G (mTasks G ! i) = Some (G1, T1, s1)"
      and G': "(G', d) = (if Complete T1
         then TaskCompleted (T1\<lparr>TaskState := s1\<rparr>) (G1\<lparr>mTasks := (mTasks G1)[i := T1\<lparr>TaskState := s1\<rparr>]\<rparr>)
         else (G1\<lparr>mTasks := (mTasks G1)[i := T1\<lparr>TaskState := s1\<rparr>]\<rparr>, False))"
    by (rule TaskTurnE)
  have "mStatus G1 = mStatus G" "mCancelAllUpdates G1 = mCancelAllUpdates G"
    using contractD(1) [OF task_inv_step(2) [OF h False inv]] by (simp_all add: globals_kept_def)
  then show ?thesis
    using assms(4) G' TaskCompleted_globals(4,5) by (auto split: if_splits dest: arg_cong [where f = fst])
qed

lemma loop_failure_cancels:
  assumes "machine_inv G" "PldmFwTaskStateMachineLoop es i G = Some (G', d)"
    and "mStatus G \<noteq> EFI_SUCCESS \<longrightarrow> mCancelAllUpdates G"
  shows "mStatus G' \<noteq> EFI_SUCCESS \<longrightarrow> mCancelAllUpdates G'"
  using assms
proof (induction es arbitrary: i G)
  case Nil
  then show ?case by simp
next
  case (Cons e es)
  show ?case
  proof (cases "mTasks G = []")
    case True
    with Cons.prems show ?thesis by simp
  next
    case False
    define j where "j = (if i < length (mTasks G) then i else 0)"
    have j: "j < length (mTasks G)" using False by (simp add: j_def)
    from Cons.prems(2) False obtain G1 d1 where turn: "TaskTurn e j G = Some (G1, d1)"
        and rest: "if d1 then G' = G1 else PldmFwTaskStateMachineLoop es (j + 1) G1 = Some (G', d)"
      by (auto simp: j_def [symmetric] bind_eq_Some_conv split: if_splits)
    from TaskTurn_failure_cancels [OF Cons.prems(1) j turn Cons.prems(3)] TaskTurn_inv [OF Cons.prems(1) j turn] rest
    show ?thesis using Cons.IH by (auto split: if_splits)
  qed
qed

lemma failed_execution_cancels:
  assumes "machine_start G" "PldmFwUpdateTaskExecuteAll es G = Some (G', Some (status, err, act))"
    and "EFI_ERROR status"
  shows "mCancelAllUpdates G'"
proof -
  from assms(2,3) obtain d where "PldmFwTaskStateMachineLoop es 0 G = Some (G', d)" "mStatus G' \<noteq> EFI_SUCCESS"
    by (auto simp: PldmFwUpdateTaskExecuteAll_def bind_eq_Some_conv split: if_splits)
  with loop_failure_cancels [OF machine_start_inv [OF assms(1)] this(1)] assms(1) show ?thesis
    by (simp add: machine_start_def)
qed

section \<open>Examples\<close>

definition exampleFmpErot :: "(byte \<Rightarrow> byte list) \<Rightarrow> (nat, nat, unit) FMP_EROT_SERVICES" where
  "exampleFmpErot Answer =
     \<lparr>ErotLib = exampleErot Answer, TasksAllocated = (\<lambda>n. True), ErotCrc32 = length,
      ErotPrint = (\<lambda>n bs. map ucast (take n bs)), NewChars = (\<lambda>n. replicate n 0xA5A5),
      PcdSetVersionString = (\<lambda>v s. (EFI_SUCCESS, s)), PcdSetReleaseDate = (\<lambda>d s. (EFI_SUCCESS, s)),
      ErotFmpParamLibInit = (\<lambda>s. s), ErotCallInstaller = (\<lambda>h s. (EFI_SUCCESS, s)), ErotWatchdogSeconds = 5,
      ErotDisplay = (\<lambda>c. EFI_SUCCESS), ErotHob = Some 0, ErotCreateEvent = (EFI_SUCCESS, True)\<rparr>"

text \<open>The library after a successful initialisation with one ERoT; the package has the version 0x2211AABB.\<close>

definition exampleFmpGlobals :: "bool \<Rightarrow> (nat, nat) FMP_EROT_GLOBALS" where
  "exampleFmpGlobals cancel =
     \<lparr>ErotState = \<lparr>mErotLibInitialized = True, mNumErots = 1, mErots = Some [Some 7]\<rparr>,
      ErotTasks = (exampleGlobals cancel)\<lparr>mTasks := []\<rparr>, mInitialized = True, mVersionStatus = EFI_SUCCESS,
      mVersion = 0, mVersionString = None, mErotActiveBootChain = 0, mEndOfDxeEvent = True, mImageHandle = Some 0,
      mQueryDeviceIdsRsp = Some (exampleQueryRsp @ replicate 112 0), mGetFwParamsRsp = Some exampleParamsRsp,
      mErotInstaller = True, ErotWatchdog = 0, ErotDisplayed = []\<rparr>"

text \<open>The example package with 20 bytes of image, which hold the metadata with the version 0x11223344.\<close>

definition exampleErotPkg :: "byte list" where
  "exampleErotPkg = mPldmGuidV1_0
     @ [1, 83, 0] @ [0, 0, 0, 0, 0, 0, 0, 0, 0, 0, 0, 0, 0] @ [8, 0, 0, 0]
     @ [1] @ [18, 0, 1, 0, 0, 0, 0, 0, 0, 0, 0, 1] @ [0, 0, 2, 0, 0xAA, 0xBB]
     @ [1, 0] @ [10, 0, 7, 0, 0, 0, 0, 0, 0, 0, 0, 0, 83, 0, 0, 0, 20, 0, 0, 0, 0, 0]
     @ [79, 0, 0, 0] @ [0, 0, 0, 0, 0, 0, 0, 0, 0, 0, 0, 0, 0, 0, 0, 0, 0x44, 0x33, 0x22, 0x11]"

lemma exampleErotPkg_version: "FmpErotGetPkgMetadataFwVersion exampleErotPkg = Some (EFI_SUCCESS, 0x11223344)"
  by code_simp

lemmas erot_example_simps = started_tasks_def exampleErotPkg_def mPldmGuidV1_0_def

lemma erot_success_run:
  "\<exists>T'. PldmFwUpdateTaskExecuteAll (map exampleEnv exampleMessages)
      (started_tasks [7] exampleErotPkg 103 ((exampleGlobals False)\<lparr>mTasks := []\<rparr>)) = Some (T', Some (EFI_SUCCESS, ERROR_NONE, 0))"
  by (simp add: run_simps package_simps component_simps exampleMessages_def erot_example_simps)

lemma erot_failed_run:
  "\<exists>T'. PldmFwUpdateTaskExecuteAll (map exampleEnv [[], []] @ [failingEnv] @ map exampleEnv [[], []])
      (started_tasks [7] exampleErotPkg 103 ((exampleGlobals False)\<lparr>mTasks := []\<rparr>))
        = Some (T', Some (EFI_PROTOCOL_ERROR, ERROR_SEND_REQ_FAILED, 0))
    \<and> (\<exists>T''. PldmFwUpdateTaskExecuteAll (map exampleEnv cancelMessages) (started_tasks [7] exampleErotPkg 103 T')
        = Some (T'', Some (EFI_SUCCESS, ERROR_NONE, 0)))"
  by (simp add: run_simps package_simps failingEnv_def PldmFwTaskSetError_def cancelMessages_def erot_example_simps)

lemma example_SetImage:
  assumes "PldmFwUpdateTaskExecuteAll es (started_tasks [7] exampleErotPkg 103 (ErotTasks g)) = Some (T', Some (status, err, act))"
    and "mInitialized g" "ErotState g = ErotState (exampleFmpGlobals False)"
  shows "\<exists>g'. FmpErotSetImage (exampleFmpErot A) es (Some exampleErotPkg) 103 0x11223344 True g
      = Some (Some (case erot_result status err of (st, L) \<Rightarrow> (st, Some L)), g')
    \<and> ErotTasks g' = T' \<and> mInitialized g' \<and> ErotState g' = ErotState g"
proof -
  have st: "ErotState g = \<lparr>mErotLibInitialized = True, mNumErots = 1, mErots = Some [Some 7]\<rparr>"
    using assms(3) by (simp add: exampleFmpGlobals_def)
  have keep: "mInitialized (ReportProgress F cs h) = mInitialized h" "ErotState (ReportProgress F cs h) = ErotState h" for F cs h
    unfolding ReportProgress_def by (induction cs arbitrary: h) (simp_all add: ErotImageProgress_def)
  have run: "PldmFwUpdateTaskExecuteAll es ((ErotTasks g)\<lparr>mNumDevices := Suc 0,
      mNumTasksComplete := 0, mStatus := EFI_SUCCESS, mActivationMethod := 0, mError := ERROR_NONE,
      mProgressFunction := True, mCompletion := 0, ProgressLog := [], mTasks := [NewTask 7 exampleErotPkg 103]\<rparr>) = Some (T', Some (status, err, act))"
    using assms(1) by (simp add: started_tasks_def)
  then show ?thesis
    using assms(2)
    by (auto simp: FmpErotSetImage_def ErotUpdate_def ErotImageProgress_def exampleErotPkg_version st ErotGetNumErots_def
        PldmFwUpdateTaskLibInit_def PldmFwUpdateTaskCreate_def ErotGetMctpProtocolByIndex_def exampleFmpErot_def
        exampleErot_def keep erot_result_def)
qed

section \<open>The outcome of an update\<close>

text \<open>
  C15: When \<open>FmpErotSetImage\<close> reports success, and updates were not cancelled before, then the version in the package is
  the one the capsule announced, and for every ERoT there is a task of its own: the task number k talks to the protocol of
  the ERoT number k, has worked through this package to the end without an error, and has sent the request that activates
  the firmware.
\<close>

theorem erot_update_success:
  assumes "FmpErotSetImage F es (Some C) n v True g = Some (Some (EFI_SUCCESS, Some L), g')"
    and "\<not> mCancelAllUpdates (ErotTasks g)"
  shows "FmpErotGetPkgMetadataFwVersion C = Some (EFI_SUCCESS, v)
    \<and> length (mTasks (ErotTasks g')) = ErotGetNumErots (ErotState g)
    \<and> (\<forall>k < ErotGetNumErots (ErotState g). \<exists>T. T = mTasks (ErotTasks g') ! k
        \<and> ErotGetMctpProtocolByIndex k (ErotState g) = Some (Some (FD T))
        \<and> PkgHdr T = C \<and> Complete T \<and> Status T = EFI_SUCCESS
        \<and> (\<exists>m \<in> set (requests T). 3 < length m \<and> m ! 3 = PLDM_FW_ACTIVATE_FW))"
proof -
  note ran = SetImage_ran [OF assms(1), simplified]
  let ?N = "mNumErots (ErotState g)"
  from ran(1) obtain ps err act where ps: "protocols_of (ErotState g) [0..<?N] ps"
      and run: "PldmFwUpdateTaskExecuteAll es (started_tasks ps C n (ErotTasks g)) = Some (ErotTasks g', Some (EFI_SUCCESS, err, act))"
    by (auto simp: erot_result_def split: if_splits)
  note inv = ExecuteAll_inv [OF machine_start_inv [OF started_tasks_start] run]
  have N: "length ps = ?N" using ps by (auto simp: protocols_of_def dest: list_all2_lengthD)
  have fds: "map FD (mTasks (ErotTasks g')) = ps" and packages: "map PkgHdr (mTasks (ErotTasks g')) = map (\<lambda>p. C) ps"
    using inv(2) by (simp_all add: evolves_def NewTask_def comp_def)
  have len: "length (mTasks (ErotTasks g')) = ?N" using arg_cong [OF fds, of length] N by simp
  have "Complete T \<and> Status T = EFI_SUCCESS \<and> activated T" if T: "T \<in> set (mTasks (ErotTasks g'))" for T
  proof -
    have "mStatus (ErotTasks g') = EFI_SUCCESS" "Complete T" using inv(3) [OF refl] T by auto
    moreover from this have "Status T = EFI_SUCCESS" "\<not> mCancelAllUpdates (ErotTasks g')"
      using inv(1,2) assms(2) T by (auto simp: evolves_def machine_inv_def split: if_splits)
    moreover from this have "activated T"
      using inv(1) T \<open>Complete T\<close> by (auto simp: machine_inv_def task_inv_def task_control_def task_activation_def)
    ultimately show ?thesis by simp
  qed
  moreover have "ErotGetMctpProtocolByIndex k (ErotState g) = Some (Some (FD (mTasks (ErotTasks g') ! k)))"
      "PkgHdr (mTasks (ErotTasks g') ! k) = C" if "k < ?N" for k
    using that ps N len arg_cong [OF fds, of "\<lambda>xs. xs ! k"] arg_cong [OF packages, of "\<lambda>xs. xs ! k"]
    by (auto simp: protocols_of_def list_all2_conv_all_nth)
  ultimately show ?thesis using ran(2) len by (auto simp: activated_def ErotGetNumErots_def)
qed

theorem erot_update_success_witness:
  "\<exists>g'. FmpErotSetImage (exampleFmpErot (\<lambda>c. [])) (map exampleEnv exampleMessages) (Some exampleErotPkg) 103 0x11223344 True
        (exampleFmpGlobals False) = Some (Some (EFI_SUCCESS, Some EROT_LAS_SUCCESS), g')
    \<and> length (mTasks (ErotTasks g')) = 1
    \<and> FD (mTasks (ErotTasks g') ! 0) = 7
    \<and> (\<exists>m \<in> set (requests (mTasks (ErotTasks g') ! 0)). 3 < length m \<and> m ! 3 = PLDM_FW_ACTIVATE_FW)"
proof -
  obtain T' where "PldmFwUpdateTaskExecuteAll (map exampleEnv exampleMessages)
      (started_tasks [7] exampleErotPkg 103 (ErotTasks (exampleFmpGlobals False))) = Some (T', Some (EFI_SUCCESS, ERROR_NONE, 0))"
    using erot_success_run by (auto simp: exampleFmpGlobals_def)
  from example_SetImage [OF this] obtain g' where run: "FmpErotSetImage (exampleFmpErot (\<lambda>c. []))
      (map exampleEnv exampleMessages) (Some exampleErotPkg) 103 0x11223344 True (exampleFmpGlobals False)
      = Some (Some (EFI_SUCCESS, Some EROT_LAS_SUCCESS), g')"
    by (auto simp: erot_result_def exampleFmpGlobals_def)
  have "\<not> mCancelAllUpdates (ErotTasks (exampleFmpGlobals False))"
    by (simp add: exampleFmpGlobals_def exampleGlobals_def)
  from erot_update_success [OF run this] run show ?thesis
    by (auto simp: exampleFmpGlobals_def ErotGetNumErots_def ErotGetMctpProtocolByIndex_def)
qed

text \<open>
  Any number of calls of \<open>FmpErotSetImage\<close> one after the other, whatever their arguments and results, and whatever the
  devices do. The other entry points leave the tasks alone.
\<close>

inductive set_images ::
  "('h, nat, 's) FMP_EROT_SERVICES \<Rightarrow> ('h, nat) FMP_EROT_GLOBALS \<Rightarrow> ('h, nat) FMP_EROT_GLOBALS \<Rightarrow> bool"
  for F :: "('h, nat, 's) FMP_EROT_SERVICES" where
  none: "set_images F g g"
| call: "set_images F g g1 \<Longrightarrow> FmpErotSetImage F es Capsule n v Result g1 = Some (out, g2) \<Longrightarrow> set_images F g g2"

text \<open>The requests of a task that update, transfer or activate firmware.\<close>

definition update_requests :: "PLDM_FW_UPDATE_TASK \<Rightarrow> byte list list" where
  "update_requests T = filter (\<lambda>m. m ! 3 \<in> set update_commands) (requests T)"

lemma no_update_requests:
  assumes "\<And>m. m \<in> set (requests T) \<Longrightarrow> m ! 3 \<notin> {PLDM_FW_REQUEST_UPDATE, PLDM_FW_PASS_COMPONENT_TABLE,
    PLDM_FW_UPDATE_COMPONENT, PLDM_FW_ACTIVATE_FW}"
  shows "update_requests T = []"
  using assms by (auto simp: update_requests_def filter_empty_conv update_commands_def)

lemma cancelled_update:
  assumes "ErotUpdate F es C n g = Some (out, g')" and "mCancelAllUpdates (ErotTasks g)"
  shows "mCancelAllUpdates (ErotTasks g') \<and> (\<forall>T \<in> set (mTasks (ErotTasks g')). update_requests T = [])"
  using ErotUpdate_outcome [OF assms(1)]
proof (elim disjE exE conjE)
  assume "idle_tasks (ErotTasks g) (ErotTasks g')"
  with assms(2) show ?thesis by (simp add: idle_tasks_def update_requests_def)
next
  fix ps r
  assume run: "PldmFwUpdateTaskExecuteAll es (started_tasks ps C n (ErotTasks g)) = Some (ErotTasks g', r)"
  have "mCancelAllUpdates (ErotTasks g')"
    using ExecuteAll_inv(2) [OF machine_start_inv [OF started_tasks_start] run] assms(2) by (simp add: evolves_def)
  moreover have "update_requests T = []" if "T \<in> set (mTasks (ErotTasks g'))" for T
    using cancelled_execution_updates_nothing [OF started_tasks_start _ run that] assms(2)
    by (intro no_update_requests) simp
  ultimately show ?thesis by blast
qed

lemma cancelled_SetImage:
  assumes "FmpErotSetImage F es Capsule n v Result g = Some (out, g')" and "mCancelAllUpdates (ErotTasks g)"
  shows "mCancelAllUpdates (ErotTasks g')
    \<and> (mTasks (ErotTasks g') = mTasks (ErotTasks g) \<and> (\<forall>L. out \<noteq> Some (EFI_SUCCESS, L))
       \<or> (\<forall>T \<in> set (mTasks (ErotTasks g')). update_requests T = []))"
  using ErotSetImage_outcome [OF assms(1)]
proof (elim disjE exE conjE)
  fix C h out'
  assume h: "ErotTasks h = ErotTasks g" "ErotUpdate F es C n h = Some (out', g')"
  with assms(2) have "mCancelAllUpdates (ErotTasks h)" by simp
  from cancelled_update [OF h(2) this] show ?thesis by blast
qed (use assms(2) in auto)

lemma set_images_cancelled:
  assumes "set_images F g g'" and "mCancelAllUpdates (ErotTasks g)"
  shows "mCancelAllUpdates (ErotTasks g')"
  using assms by (induction rule: set_images.induct) (blast dest: cancelled_SetImage)+

text \<open>
  C16: After a call of \<open>FmpErotSetImage\<close> that failed in the tasks, no later call does anything, however many come in between
  and however they end, for as long as the globals are kept, that is until the next boot: a later call either makes no
  update at all, so that it leaves the tasks of the last one as they are and does not report success, or none of its
  tasks has sent its ERoT a request to update, to pass a component table, to update a component or to activate firmware.
  The second holds also for a call that reports success.
\<close>

theorem erot_failed_update_blocks_next:
  assumes "FmpErotSetImage F es (Some C) n v True g = Some (Some (EFI_ABORTED, Some (EROT_LAS_PLDM_FW_UPDATE_TASK_ERROR err)), g1)"
    and "set_images F g1 g2"
    and "FmpErotSetImage F es' Capsule n' v' Result g2 = Some (out, g3)"
  shows "mTasks (ErotTasks g3) = mTasks (ErotTasks g2) \<and> (\<forall>L. out \<noteq> Some (EFI_SUCCESS, L))
    \<or> (\<forall>T \<in> set (mTasks (ErotTasks g3)). \<forall>m \<in> set (requests T).
        m ! 3 \<notin> {PLDM_FW_REQUEST_UPDATE, PLDM_FW_PASS_COMPONENT_TABLE, PLDM_FW_UPDATE_COMPONENT, PLDM_FW_ACTIVATE_FW})"
proof -
  from SetImage_ran(1) [OF assms(1), of err] obtain ps status act where
      "PldmFwUpdateTaskExecuteAll es (started_tasks ps C n (ErotTasks g)) = Some (ErotTasks g1, Some (status, err, act))"
      "EFI_ERROR status"
    by (auto simp: erot_result_def split: if_splits)
  then have "mCancelAllUpdates (ErotTasks g1)"
    by (rule failed_execution_cancels [OF started_tasks_start])
  then have "mCancelAllUpdates (ErotTasks g2)"
    by (rule set_images_cancelled [OF assms(2)])
  from cancelled_SetImage [OF assms(3) this] show ?thesis
    by (auto simp: update_requests_def filter_empty_conv update_commands_def)
qed

text \<open>
  The calls of the witness: an update whose first request cannot be sent, a call for another version, and an update
  that reports success.
\<close>

theorem erot_failed_update_blocks_next_witness:
  "\<exists>g1 g2 g3. FmpErotSetImage (exampleFmpErot (\<lambda>c. [])) (map exampleEnv [[], []] @ [failingEnv] @ map exampleEnv [[], []])
        (Some exampleErotPkg) 103 0x11223344 True (exampleFmpGlobals False)
      = Some (Some (EFI_ABORTED, Some (EROT_LAS_PLDM_FW_UPDATE_TASK_ERROR ERROR_SEND_REQ_FAILED)), g1)
    \<and> FmpErotSetImage (exampleFmpErot (\<lambda>c. [])) [] (Some exampleErotPkg) 103 0 True g1
      = Some (Some (EFI_ABORTED, Some EROT_LAS_FW_VERSION_MISMATCH), g2)
    \<and> FmpErotSetImage (exampleFmpErot (\<lambda>c. [])) (map exampleEnv cancelMessages) (Some exampleErotPkg) 103 0x11223344 True g2
      = Some (Some (EFI_SUCCESS, Some EROT_LAS_SUCCESS), g3)
    \<and> (\<forall>T \<in> set (mTasks (ErotTasks g3)). \<forall>m \<in> set (requests T). m ! 3 \<noteq> PLDM_FW_ACTIVATE_FW)"
proof -
  obtain T1 T2 where T: "PldmFwUpdateTaskExecuteAll (map exampleEnv [[], []] @ [failingEnv] @ map exampleEnv [[], []])
      (started_tasks [7] exampleErotPkg 103 (ErotTasks (exampleFmpGlobals False)))
        = Some (T1, Some (EFI_PROTOCOL_ERROR, ERROR_SEND_REQ_FAILED, 0))"
      "PldmFwUpdateTaskExecuteAll (map exampleEnv cancelMessages) (started_tasks [7] exampleErotPkg 103 T1)
        = Some (T2, Some (EFI_SUCCESS, ERROR_NONE, 0))"
    using erot_failed_run unfolding exampleFmpGlobals_def by auto
  from example_SetImage [OF T(1), of "\<lambda>c. []"] obtain g1 where g1: "FmpErotSetImage (exampleFmpErot (\<lambda>c. []))
      (map exampleEnv [[], []] @ [failingEnv] @ map exampleEnv [[], []]) (Some exampleErotPkg) 103 0x11223344 True (exampleFmpGlobals False)
      = Some (Some (EFI_ABORTED, Some (EROT_LAS_PLDM_FW_UPDATE_TASK_ERROR ERROR_SEND_REQ_FAILED)), g1)"
      "ErotTasks g1 = T1" "mInitialized g1" "ErotState g1 = ErotState (exampleFmpGlobals False)"
    by (auto simp: erot_result_def exampleFmpGlobals_def)
  define g2 where "g2 = snd (ErotImageProgress (exampleFmpErot (\<lambda>c. [])) 0 g1)"
  have call: "FmpErotSetImage (exampleFmpErot (\<lambda>c. [])) [] (Some exampleErotPkg) 103 0 True g1
      = Some (Some (EFI_ABORTED, Some EROT_LAS_FW_VERSION_MISMATCH), g2)"
    using g1(3) by (simp add: FmpErotSetImage_def exampleErotPkg_version g2_def)
  have g2: "ErotTasks g2 = T1" "mInitialized g2" "ErotState g2 = ErotState (exampleFmpGlobals False)"
    using g1(2-4) by (simp_all add: g2_def ErotImageProgress_def)
  from example_SetImage [of _ g2, OF _ g2(2,3), of _ T2 EFI_SUCCESS] T(2) g2(1) obtain g3 where
      g3: "FmpErotSetImage (exampleFmpErot (\<lambda>c. [])) (map exampleEnv cancelMessages) (Some exampleErotPkg) 103 0x11223344 True g2
        = Some (Some (EFI_SUCCESS, Some EROT_LAS_SUCCESS), g3)"
    by (fastforce simp: erot_result_def)
  have "m ! 3 \<noteq> PLDM_FW_ACTIVATE_FW" if "T \<in> set (mTasks (ErotTasks g3))" "m \<in> set (requests T)" for T m
    using erot_failed_update_blocks_next [OF g1(1) set_images.call [OF set_images.none call] g3] that by auto
  with g1(1) call g3 show ?thesis by blast
qed

section \<open>The check\<close>

text \<open>
  C17: When the library is initialised and holds a response of its ERoT whose descriptors can be read, \<open>FmpErotCheckImage\<close>
  reports success, among the packages whose device records and their descriptors lie inside the package, exactly for
  those that have the declared layout and contain a record all of whose descriptors the ERoT has reported. The layout
  alone does not imply that the records lie inside the package.
\<close>

theorem erot_check_exact:
  assumes "mInitialized g" and "mQueryDeviceIdsRsp g = Some Rsp" and "load8 Rsp OFFSET_QueryIds_Count = Some c"
    and "DescriptorsAt Rsp OFFSET_QueryIds_Descriptors (unat c) = Some fds" and "PkgRecords p = Some rs"
  shows "FmpErotCheckImage F (Some p) (length p) True g = Some (EFI_SUCCESS, R)
    \<longleftrightarrow> R = Some (EROT_IMAGE_UPDATABLE_VALID, EROT_LAS_SUCCESS)
      \<and> (\<exists>sz ia imgs. PkgWellFormed (ErotCrc32 F) p sz ia imgs) \<and> (\<exists>(r, ds) \<in> set rs. set ds \<subseteq> set fds)"
proof -
  have match: "PldmFwPkgMatchesFD p (unat c) Rsp OFFSET_QueryIds_Descriptors
      = Some (map_option fst (find (\<lambda>(r, ds). set ds \<subseteq> set fds) rs))"
    using assms(4,5) by (auto simp: PkgRecords_def PldmFwPkgMatchesFD_def bind_eq_Some_conv MatchesFDLoop_decoded)
  have "(\<exists>r. find (\<lambda>(r, ds). set ds \<subseteq> set fds) rs = Some r) \<longleftrightarrow> (\<exists>(r, ds) \<in> set rs. set ds \<subseteq> set fds)"
    using find_None_iff [of "\<lambda>(r, ds). set ds \<subseteq> set fds" rs] not_None_eq [of "find (\<lambda>(r, ds). set ds \<subseteq> set fds) rs"]
    by blast
  then show ?thesis
    using assms(1-3) match hdr_validate_iff [of "ErotCrc32 F" p]
    by (auto simp: FmpErotCheckImage_def bind_eq_Some_conv split: if_splits option.splits)
qed

theorem erot_check_exact_witness:
  "FmpErotCheckImage (exampleFmpErot (\<lambda>c. [])) (Some exampleErotPkg) (length exampleErotPkg) True (exampleFmpGlobals False)
    = Some (EFI_SUCCESS, Some (EROT_IMAGE_UPDATABLE_VALID, EROT_LAS_SUCCESS))"
proof -
  have g: "mInitialized (exampleFmpGlobals False)"
      "mQueryDeviceIdsRsp (exampleFmpGlobals False) = Some (exampleQueryRsp @ replicate 112 0)"
    by (simp_all add: exampleFmpGlobals_def)
  have d: "load8 (exampleQueryRsp @ replicate 112 0) OFFSET_QueryIds_Count = Some 1"
      "DescriptorsAt (exampleQueryRsp @ replicate 112 0) OFFSET_QueryIds_Descriptors (unat (1 :: byte)) = Some [(0, [0xAA, 0xBB])]"
      "PkgRecords exampleErotPkg = Some [(37, [(0, [0xAA, 0xBB])])]"
    by code_simp+
  have "PldmFwPkgHdrValidate length exampleErotPkg (length exampleErotPkg) = Some EFI_SUCCESS" by code_simp
  then have "\<exists>sz ia imgs. PkgWellFormed (ErotCrc32 (exampleFmpErot (\<lambda>c. []))) exampleErotPkg sz ia imgs"
    by (simp add: hdr_validate_iff exampleFmpErot_def)
  moreover have "\<exists>(r, ds) \<in> set [(37 :: nat, [(0 :: nat, [0xAA, 0xBB :: byte])])]. set ds \<subseteq> set [(0, [0xAA, 0xBB])]" by simp
  ultimately show ?thesis by (intro iffD2 [OF erot_check_exact [OF g d]] conjI refl)
qed

section \<open>The version\<close>

definition same_setup :: "('h, 'p) FMP_EROT_GLOBALS \<Rightarrow> ('h, 'p) FMP_EROT_GLOBALS \<Rightarrow> bool" where
  "same_setup g g' \<longleftrightarrow> mInitialized g' = mInitialized g \<and> mErotActiveBootChain g' = mErotActiveBootChain g
     \<and> mErotInstaller g' = mErotInstaller g \<and> ErotState g' = ErotState g"

lemma VersionInfo_keeps:
  fixes g :: "('h, 'p) FMP_EROT_GLOBALS"
  assumes "FmpErotGetVersionInfo F g s = Some (st, g', s')"
  shows "same_setup g g'"
proof -
  have q: "same_setup g g1" if "FmpErotQueryDeviceIds F p g s = Some (st, g1, s1)" for p st g1 s1
    using that unfolding FmpErotQueryDeviceIds_def Let_def
    by (elim bind_SomeE prod_SomeE if_SomeE) (auto simp: same_setup_def)
  have f: "same_setup g g2" if "FmpErotGetFwParams F p g1 s1 = Some (st, g2, s2)" "same_setup g g1" for p st g1 s1 g2 s2
    using that unfolding FmpErotGetFwParams_def Let_def
    by (elim bind_SomeE prod_SomeE if_SomeE) (auto simp: same_setup_def)
  have c: "same_setup g g3" if "ErotComponents F g2 s2 = Some (st, g3, s3)" "same_setup g g2" for st g2 s2 g3 s3
    using that unfolding ErotComponents_def StoreVersion_def Let_def
    by (elim bind_SomeE prod_SomeE if_SomeE option_SomeE) (auto simp: same_setup_def)
  have r: "same_setup h h" for h :: "('h, 'p) FMP_EROT_GLOBALS" by (simp add: same_setup_def)
  show ?thesis
    using assms unfolding FmpErotGetVersionInfo_def Let_def
    by (elim bind_SomeE prod_SomeE option_SomeE if_SomeE; (simp add: r)?; (blast intro: q f c)?)
qed

definition component_id :: "byte list \<Rightarrow> nat \<Rightarrow> nat \<Rightarrow> nat \<Rightarrow> bool" where
  "component_id Rsp i e cid \<longleftrightarrow> PldmFwGetFwParamsComponent Rsp i = Some e \<and> load16 Rsp (e + OFFSET_Entry_Id) = Some cid"

lemma FindComponentLoop_two:
  assumes "FindComponentLoop Rsp [0..<2] False None = Some (True, Some e)"
  shows "\<exists>i e' cid. i < 2 \<and> component_id Rsp i e cid \<and> cid \<noteq> FMP_EROT_EC_FW_COMPONENT_ID
    \<and> component_id Rsp (1 - i) e' FMP_EROT_EC_FW_COMPONENT_ID"
proof -
  have "[0..<2] = [0, 1::nat]" by (simp add: upt_rec)
  with assms obtain e0 e1 i0 i1 where c: "component_id Rsp 0 e0 i0" "component_id Rsp 1 e1 i1"
      "i0 = FMP_EROT_EC_FW_COMPONENT_ID \<and> i1 \<noteq> FMP_EROT_EC_FW_COMPONENT_ID \<and> e = e1
       \<or> i0 \<noteq> FMP_EROT_EC_FW_COMPONENT_ID \<and> i1 = FMP_EROT_EC_FW_COMPONENT_ID \<and> e = e0"
    by (auto simp: component_id_def bind_eq_Some_conv split: if_splits)
  from c(3) show ?thesis
  proof
    assume "i0 = FMP_EROT_EC_FW_COMPONENT_ID \<and> i1 \<noteq> FMP_EROT_EC_FW_COMPONENT_ID \<and> e = e1"
    with c(1,2) show ?thesis by (intro exI [of _ "1 :: nat"] exI [of _ e0] exI [of _ i1]) auto
  next
    assume "i0 \<noteq> FMP_EROT_EC_FW_COMPONENT_ID \<and> i1 = FMP_EROT_EC_FW_COMPONENT_ID \<and> e = e0"
    with c(1,2) show ?thesis by (intro exI [of _ "0 :: nat"] exI [of _ e1] exI [of _ i0]) auto
  qed
qed

lemma QueryDeviceIds_success:
  assumes "FmpErotQueryDeviceIds F p g s = Some (EFI_SUCCESS, g', s')"
  shows "\<exists>Q. g' = g\<lparr>mQueryDeviceIdsRsp := Some Q\<rparr>"
  using assms by (auto simp: FmpErotQueryDeviceIds_def bind_eq_Some_conv Let_def split: if_splits)

lemma GetFwParams_success:
  assumes "FmpErotGetFwParams F p g s = Some (EFI_SUCCESS, g', s')"
  shows "\<exists>Rsp. g' = g\<lparr>mGetFwParamsRsp := Some Rsp\<rparr>"
  using assms by (auto simp: FmpErotGetFwParams_def bind_eq_Some_conv Let_def split: if_splits)

lemma ErotComponents_success:
  assumes "ErotComponents F g s = Some (EFI_SUCCESS, g', s')"
  shows "\<exists>Rsp e V t d. mGetFwParamsRsp g = Some Rsp \<and> FwParamsComponentCount Rsp = Some 2
    \<and> FindComponentLoop Rsp [0..<2] False None = Some (True, Some e)
    \<and> SelectVersion Rsp e (mErotActiveBootChain g) = Some (V, t, d)
    \<and> g' = g\<lparr>mVersion := V, mVersionString := Some (ErotPrint F (length t) t @ [0]
            @ drop (length (ErotPrint F (length t) t) + 1) (NewChars F (length t + 1))), mVersionStatus := EFI_SUCCESS\<rparr>"
  using assms
  by (auto simp: ErotComponents_def StoreVersion_def bind_eq_Some_conv Let_def split: if_splits option.splits)

lemma VersionInfo_success:
  assumes "FmpErotGetVersionInfo F g s = Some (EFI_SUCCESS, g', s')"
  shows "\<exists>Q Rsp e V t d. mQueryDeviceIdsRsp g' = Some Q \<and> take 8 (drop OFFSET_QueryIds_Descriptors Q) = mNvIanaIdDesc
    \<and> mGetFwParamsRsp g' = Some Rsp \<and> FwParamsComponentCount Rsp = Some 2
    \<and> FindComponentLoop Rsp [0..<2] False None = Some (True, Some e)
    \<and> SelectVersion Rsp e (mErotActiveBootChain g) = Some (V, t, d) \<and> mVersion g' = V
    \<and> mVersionString g' = Some (ErotPrint F (length t) t @ [0]
            @ drop (length (ErotPrint F (length t) t) + 1) (NewChars F (length t + 1)))
    \<and> mVersionStatus g' = EFI_SUCCESS"
proof -
  from assms obtain p g1 s1 g2 s2 Q where q: "FmpErotQueryDeviceIds F p g s = Some (EFI_SUCCESS, g1, s1)"
      "mQueryDeviceIdsRsp g1 = Some Q" "load_bytes Q OFFSET_QueryIds_Descriptors (length mNvIanaIdDesc) = Some mNvIanaIdDesc"
      "FmpErotGetFwParams F p g1 s1 = Some (EFI_SUCCESS, g2, s2)" "ErotComponents F g2 s2 = Some (EFI_SUCCESS, g', s')"
    unfolding FmpErotGetVersionInfo_def Let_def
    by (elim bind_SomeE prod_SomeE option_SomeE if_SomeE; simp)
  have "take 8 (drop OFFSET_QueryIds_Descriptors Q) = mNvIanaIdDesc"
    using q(3) by (auto simp: load_bytes_def mNvIanaIdDesc_def split: if_splits)
  then show ?thesis
    using QueryDeviceIds_success [OF q(1)] q(2) GetFwParams_success [OF q(4)] ErotComponents_success [OF q(5)] by auto
qed

text \<open>What a version taken from the entry \<open>e\<close> is, by the chain that booted.\<close>

definition reported_stamp :: "byte list \<Rightarrow> nat \<Rightarrow> nat \<Rightarrow> nat option" where
  "reported_stamp Rsp e chain =
     load32 Rsp (e + (if load8 Rsp (e + OFFSET_Entry_PendingVersionStringLength) \<noteq> Some 0 \<and> chain = 0
                      then OFFSET_Entry_PendingComparisonStamp else OFFSET_Entry_ActiveComparisonStamp))"

lemma SelectVersion_stamp:
  "SelectVersion Rsp e chain = Some (V, t, d) \<Longrightarrow> reported_stamp Rsp e chain = Some V"
  by (auto simp: SelectVersion_def reported_stamp_def bind_eq_Some_conv Let_def split: if_splits)

lemma EndOfDxe_initialised:
  assumes "FmpErotEndOfDxeNotify F g s = Some (g', s')" and "mInitialized g'" and "\<not> mInitialized g"
  shows "\<exists>g1 g2 s1 s2. FmpErotGetVersionInfo F g1 s1 = Some (EFI_SUCCESS, g2, s2) \<and> g' = g2\<lparr>mInitialized := True\<rparr>
    \<and> mErotActiveBootChain g1 = mErotActiveBootChain g"
proof -
  have failed: "mInitialized (fst (EndOfDxeFailed F h s)) = mInitialized h" for h s
    by (simp add: EndOfDxeFailed_def Let_def)
  let ?s = "ErotFmpParamLibInit F s"
  from assms(1) obtain si st where init: "ErotLibInit (ErotLib F) ?s (ErotState g) = Some (si, st)"
      and rest: "(if EFI_ERROR si then Some (EndOfDxeFailed F (g\<lparr>ErotState := st\<rparr>) ?s) else
        Option.bind (FmpErotGetVersionInfo F (g\<lparr>ErotState := st\<rparr>) ?s) (\<lambda>(st1, g1, s1).
        Option.bind (if EFI_ERROR st1 then FmpErotGetVersionInfo F g1 s1 else Some (st1, g1, s1)) (\<lambda>(st2, g2, s2).
          if EFI_ERROR st2 then Some (EndOfDxeFailed F g2 s2)
          else if \<not> mErotInstaller g2 then Some (EndOfDxeFailed F g2 s2)
          else let (si, s3) = ErotCallInstaller F (mImageHandle g2) s2 in
            if EFI_ERROR si then Some (EndOfDxeFailed F (g2\<lparr>mInitialized := False\<rparr>) s3)
            else Some (g2\<lparr>mInitialized := True\<rparr>, s3)))) = Some (g', s')"
    unfolding FmpErotEndOfDxeNotify_def Let_def by (auto simp: bind_eq_Some_conv)
  have "\<not> EFI_ERROR si"
  proof
    assume "EFI_ERROR si"
    with rest have "EndOfDxeFailed F (g\<lparr>ErotState := st\<rparr>) ?s = (g', s')" by simp
    with failed [of "g\<lparr>ErotState := st\<rparr>" ?s] assms(2,3) show False by simp
  qed
  with rest obtain st1 g1 s1 st2 g2 s2 where v: "FmpErotGetVersionInfo F (g\<lparr>ErotState := st\<rparr>) ?s = Some (st1, g1, s1)"
      "(if EFI_ERROR st1 then FmpErotGetVersionInfo F g1 s1 else Some (st1, g1, s1)) = Some (st2, g2, s2)"
      and fin: "(if EFI_ERROR st2 then Some (EndOfDxeFailed F g2 s2)
          else if \<not> mErotInstaller g2 then Some (EndOfDxeFailed F g2 s2)
          else let (si, s3) = ErotCallInstaller F (mImageHandle g2) s2 in
            if EFI_ERROR si then Some (EndOfDxeFailed F (g2\<lparr>mInitialized := False\<rparr>) s3)
            else Some (g2\<lparr>mInitialized := True\<rparr>, s3)) = Some (g', s')"
    by (auto simp: bind_eq_Some_conv)
  obtain h sh where h: "FmpErotGetVersionInfo F h sh = Some (st2, g2, s2)" "same_setup g (h\<lparr>ErotState := ErotState g\<rparr>)"
    using v VersionInfo_keeps [OF v(1)] by (cases "EFI_ERROR st1") (auto simp: same_setup_def)
  with VersionInfo_keeps [OF h(1)] have g2: "\<not> mInitialized g2" "mErotActiveBootChain h = mErotActiveBootChain g"
    using assms(3) by (auto simp: same_setup_def)
  have "st2 = EFI_SUCCESS" "g' = g2\<lparr>mInitialized := True\<rparr>"
    using fin assms(2) g2(1) failed
    by (auto simp: Let_def split: if_splits prod.splits dest: arg_cong [where f = "mInitialized \<circ> fst"])
  with h(1) g2(2) show ?thesis by blast
qed

text \<open>
  C18: When the library has initialised itself at the end of the DXE phase, the ERoT that it has asked has introduced
  itself with NVIDIA's identifier and has listed two components, its own and another one; the version that the library
  reports is the stamp of the other one: the pending stamp, when a pending version exists and chain 0 was booted, and the
  active one otherwise.
\<close>

theorem erot_version_reported:
  assumes "FmpErotEndOfDxeNotify F g s = Some (g', s')" and "mInitialized g'" and "\<not> mInitialized g"
  shows "\<exists>Q Rsp i e e' id V. mQueryDeviceIdsRsp g' = Some Q \<and> take 8 (drop OFFSET_QueryIds_Descriptors Q) = mNvIanaIdDesc
    \<and> mGetFwParamsRsp g' = Some Rsp \<and> FwParamsComponentCount Rsp = Some 2
    \<and> i < 2 \<and> component_id Rsp i e id \<and> id \<noteq> FMP_EROT_EC_FW_COMPONENT_ID
    \<and> component_id Rsp (1 - i) e' FMP_EROT_EC_FW_COMPONENT_ID
    \<and> reported_stamp Rsp e (mErotActiveBootChain g) = Some V
    \<and> ErotFmpDeviceGetVersion F True g' = Some (EFI_SUCCESS, Some V)"
proof -
  from EndOfDxe_initialised [OF assms] obtain g1 g2 s1 s2 where v: "FmpErotGetVersionInfo F g1 s1 = Some (EFI_SUCCESS, g2, s2)"
      "g' = g2\<lparr>mInitialized := True\<rparr>" "mErotActiveBootChain g1 = mErotActiveBootChain g"
    by blast
  from VersionInfo_success [OF v(1)] obtain Q Rsp e V t d where r: "mQueryDeviceIdsRsp g2 = Some Q"
      "take 8 (drop OFFSET_QueryIds_Descriptors Q) = mNvIanaIdDesc" "mGetFwParamsRsp g2 = Some Rsp"
      "FwParamsComponentCount Rsp = Some 2" "FindComponentLoop Rsp [0..<2] False None = Some (True, Some e)"
      "SelectVersion Rsp e (mErotActiveBootChain g1) = Some (V, t, d)" "mVersion g2 = V" "mVersionStatus g2 = EFI_SUCCESS"
    by blast
  moreover have "ErotFmpDeviceGetVersion F True g' = Some (EFI_SUCCESS, Some V)"
    using v(2) r(7,8) by (simp add: ErotFmpDeviceGetVersion_def FmpErotGetVersion_def)
  ultimately show ?thesis
    using FindComponentLoop_two [OF r(5)] SelectVersion_stamp [OF r(6)] v(2,3) by auto
qed

text \<open>
  The ERoT of the example lists its own component and one with the active version \<open>1.0\<close>, stamp 7, and the pending
  version \<open>1.1\<close>, stamp 9.
\<close>

definition exampleAnswers :: "byte \<Rightarrow> byte list" where
  "exampleAnswers Command =
     (if Command = PLDM_FW_QUERY_DEVICE_IDS then [1, 0, 5, 1, 0, 8, 0, 0, 0, 1] @ mNvIanaIdDesc
      else [1, 1, 5, 2, 0, 0, 0, 0, 0, 2, 0, 0, 0, 0, 0]
        @ [10, 0, 0, 0xFF, 0, 0, 0, 0, 0, 1, 0] @ replicate 8 0 @ [0, 0, 0, 0, 1, 0] @ replicate 14 0
        @ [10, 0, 1, 0, 0, 7, 0, 0, 0, 1, 3] @ replicate 8 0 @ [9, 0, 0, 0, 1, 3] @ replicate 14 0
        @ [0x31, 0x2E, 0x30, 0x31, 0x2E, 0x31])"

definition exampleErotStart :: "(nat, nat) FMP_EROT_GLOBALS" where
  "exampleErotStart =
     (exampleFmpGlobals False)\<lparr>ErotState := InitialErotGlobals, mInitialized := False, mVersionStatus := EFI_UNSUPPORTED,
        mQueryDeviceIdsRsp := None, mGetFwParamsRsp := None\<rparr>"

lemmas erot_version_simps = FmpErotEndOfDxeNotify_def exampleErotStart_def exampleFmpErot_def exampleErot_def exampleFmpGlobals_def
  InitialErotGlobals_def ErotLibInit_def ErotLocateProtocols_def FmpErotGetVersionInfo_def ErotGetMctpProtocolBySocket_def
  ErotGetMctpProtocolByIndex_def FmpErotQueryDeviceIds_def FmpErotGetFwParams_def ErotComponents_def StoreVersion_def
  SelectVersion_def PldmFwFillCommon_def PldmFillCommon_def PldmFwQueryDeviceIdsCheckRsp_def PldmFwGetFwParamsCheckRsp_def
  PldmFwCheckRspCompletion_def PldmFwPrintQueryDeviceIdsRsp_def DescSize_def PldmFwGetFwParamsComponent_def
  PldmFwGetFwParamsComponentTableOffset_def FwParamsEntrySize_def FwParamsComponentCount_def
  exampleAnswers_def mNvIanaIdDesc_def bytes16_def bytes32_def store_bytes_def load_bytes_def load8_def load16_def load32_def
  codes layout Let_def upt_rec nth_append

lemma exampleErotStart_run:
  "\<exists>g'. FmpErotEndOfDxeNotify (exampleFmpErot exampleAnswers) exampleErotStart () = Some (g', ())
    \<and> mInitialized g' \<and> mVersion g' = 9 \<and> mVersionStatus g' = EFI_SUCCESS \<and> mVersionString g' = Some [0x31, 0x2E, 0x31, 0]"
proof -
  have "map_option (\<lambda>(g, s). (mInitialized g, mVersion g, mVersionStatus g, mVersionString g))
      (FmpErotEndOfDxeNotify (exampleFmpErot exampleAnswers) exampleErotStart ())
    = Some (True, 9, EFI_SUCCESS, Some [0x31, 0x2E, 0x31, 0])"
    by (simp add: erot_version_simps)
  then show ?thesis by auto
qed

theorem erot_version_reported_witness:
  "\<exists>g'. FmpErotEndOfDxeNotify (exampleFmpErot exampleAnswers) exampleErotStart () = Some (g', ())
    \<and> (\<exists>Rsp e. mGetFwParamsRsp g' = Some Rsp \<and> reported_stamp Rsp e 0 = Some 9)
    \<and> ErotFmpDeviceGetVersion (exampleFmpErot exampleAnswers) True g' = Some (EFI_SUCCESS, Some 9)"
proof -
  obtain g' where g': "FmpErotEndOfDxeNotify (exampleFmpErot exampleAnswers) exampleErotStart () = Some (g', ())"
      "mInitialized g'" "mVersion g' = 9" "mVersionStatus g' = EFI_SUCCESS"
    using exampleErotStart_run by blast
  have start: "\<not> mInitialized exampleErotStart" "mErotActiveBootChain exampleErotStart = 0"
    by (simp_all add: exampleErotStart_def exampleFmpGlobals_def)
  have nine: "ErotFmpDeviceGetVersion (exampleFmpErot exampleAnswers) True g' = Some (EFI_SUCCESS, Some 9)"
    using g'(2-4) by (simp add: ErotFmpDeviceGetVersion_def FmpErotGetVersion_def)
  from erot_version_reported [OF g'(1,2) start(1)] obtain Rsp e V where "mGetFwParamsRsp g' = Some Rsp"
      "reported_stamp Rsp e (mErotActiveBootChain exampleErotStart) = Some V"
      "ErotFmpDeviceGetVersion (exampleFmpErot exampleAnswers) True g' = Some (EFI_SUCCESS, Some V)"
    by (elim exE conjE)
  with nine start(2) have "mGetFwParamsRsp g' = Some Rsp \<and> reported_stamp Rsp e 0 = Some 9" by simp
  with g'(1) nine show ?thesis by blast
qed

text \<open>
  A request for the string of the version copies twice as many bytes as the string has: whenever the string fills its
  buffer, the copy reads behind it.
\<close>

theorem erot_version_string_overread:
  assumes "mInitialized g" and "mVersionStatus g = EFI_SUCCESS" and "mVersionString g = Some (t @ [0])" and "0 \<notin> set t"
    and "ErotRuntimePool (ErotLib F) (2 * (length t + 1) * 2)"
  shows "ErotFmpDeviceGetVersionString F True g = None"
proof -
  have "takeWhile (\<lambda>c. c \<noteq> 0) (t @ [0]) = t" using assms(4) by (subst takeWhile_append2) auto
  then have "ErotStrSize (t @ [0]) = Some (2 * (length t + 1))" by (simp add: ErotStrSize_def)
  with assms show ?thesis by (simp add: ErotFmpDeviceGetVersionString_def FmpErotGetVersion_def)
qed

theorem erot_version_string_overread_witness:
  "\<exists>g'. FmpErotEndOfDxeNotify (exampleFmpErot exampleAnswers) exampleErotStart () = Some (g', ())
    \<and> ErotFmpDeviceGetVersionString (exampleFmpErot exampleAnswers) True g' = None"
proof -
  obtain g' where g': "FmpErotEndOfDxeNotify (exampleFmpErot exampleAnswers) exampleErotStart () = Some (g', ())"
      "mInitialized g'" "mVersionStatus g' = EFI_SUCCESS" "mVersionString g' = Some ([0x31, 0x2E, 0x31] @ [0])"
    using exampleErotStart_run by auto
  have "ErotFmpDeviceGetVersionString (exampleFmpErot exampleAnswers) True g' = None"
    by (rule erot_version_string_overread [OF g'(2-4)]) (simp_all add: exampleFmpErot_def exampleErot_def)
  with g'(1) show ?thesis by blast
qed

end
