(* ===== verification/Spec2Isabelle.thy ===== *)
theory Spec2Isabelle
  imports PldmTaskTheorems PldmTaskFunctional Crc8 BootChainTheorems FwPackage
    WildcardString FwPartitionTheorems SeqRecordCommProps SatMc FwImageTheorems TegraFmpClaims FwPartitionMmProps FwVersionProps
    FmpErotProps
begin

text \<open>
  Verification of the firmware update path of \<open>edk2-nvidia\<close>, the NVIDIA platform code for the EDK2
  UEFI firmware. The repository holds several hundred drivers and libraries; this development models
  the ones through which new firmware reaches a machine, under \<open>src/Silicon/NVIDIA\<close>.

  \<^bold>\<open>The program.\<close> An update arrives as a package. For the platform's own firmware it is an NVIDIA
  package (\<open>FwPackageLib\<close>) whose images are written to partitions of the boot flash. The partitions
  come in two sets, one per boot chain; \<open>BootChainInfoLib\<close> maps base names to the names of a chain and
  back, \<open>FwPartitionDeviceLib\<close> keeps the registry of partitions, which it fills from the partition
  table (\<open>GptLib\<close>), and \<open>BootChainDxe\<close> switches the machine to the other chain over two resets and
  rolls back when the new chain does not come up. The bytes get to the flash through drivers for NOR flash
  and for block devices (\<open>FwPartitionNorFlashDxe\<close>, \<open>FwPartitionBlockIoDxe\<close>) or, where the flash belongs to
  the management mode, through messages to it (\<open>FwPartitionMmDxe\<close>). \<open>FwImageDxe\<close> joins the two partitions of
  a base name to one image, \<open>FwImageLib\<close> lists the images, \<open>BrBctUpdateDeviceLib\<close> keeps the boot
  configuration table by which the boot ROM finds its chain, and \<open>FmpDeviceLib\<close> carries out an update from
  a capsule on top of these: it checks the package, writes and verifies the images of the inactive
  chain and switches the table. \<open>FmpVersionLib\<close> and \<open>VerPartitionLib\<close> report the version of the running
  chain. The management mode also keeps records in NOR flash over resets (\<open>SequentialRecordStMm\<close>): error
  logs, the CMET record, and the service that deletes variables. For attached devices the package is a DMTF
  PLDM package (\<open>PldmFwUpdatePkgLib\<close>): \<open>PldmFwUpdateTaskLib\<close> runs one state machine per device that
  identifies the device, matches it with the package, passes the components, serves the device's
  requests for data and activates the result, with messages built and checked by \<open>MctpBaseLib\<close>,
  \<open>PldmBaseLib\<close> and \<open>PldmFwUpdateLib\<close>. On the servers these devices are the external roots of trust (ERoTs), which
  hold the platform's own firmware: \<open>ErotLib\<close> finds them and \<open>FmpErotLib\<close>, the counterpart of \<open>FmpDeviceLib\<close>,
  checks a capsule against what they report and runs a task for each. \<open>Crc8Lib\<close> and \<open>WildcardStringLib\<close> are stand-alone helpers.

  \<^bold>\<open>Theories.\<close>
  \<^item> \<open>Prelude\<close>: status codes, byte buffers with checked loads and stores, walks over consecutive
    records of variable length.
  \<^item> \<open>MctpPldmBase\<close> (\<open>MctpBaseLib.c\<close>, \<open>PldmBaseLib.c\<close>), \<open>PldmFwUpdate\<close> (\<open>PldmFwUpdateLib.c\<close>) and
    \<open>PldmFwPkg\<close> (\<open>PldmFwUpdatePkgLib.c\<close>): messages, inventory responses and the package.
  \<^item> \<open>PldmTask\<close> and \<open>PldmTaskHandlers\<close> (\<open>PldmFwUpdateTaskLib.c\<close>): the task record, the globals, one
    definition per state handler, the table of states, the loop over the tasks and the entry
    points. \<open>PldmTaskContract\<close> states what any handler may do, \<open>PldmTaskRun\<close> evaluates two complete
    runs, \<open>PldmTaskProps\<close>, \<open>PldmTaskTheorems\<close> and \<open>PldmTaskFunctional\<close> hold the properties.
  \<^item> \<open>Crc8\<close> (\<open>Crc8Lib.c\<close>) and \<open>WildcardString\<close> (\<open>WildcardStringLib.c\<close>).
  \<^item> \<open>BootChainInfo\<close> (\<open>BootChainInfoLib.c\<close>), \<open>BootChain\<close> (\<open>BootChainDxe.c\<close>), with \<open>BootChainProps\<close> and
    \<open>BootChainTheorems\<close>.
  \<^item> \<open>GptLib\<close> (\<open>GptLib.c\<close>), \<open>FwPartition\<close> (\<open>FwPartitionDeviceLib.c\<close>), with \<open>FwPartitionProps\<close> and
    \<open>FwPartitionTheorems\<close>.
  \<^item> \<open>FwPackage\<close> (\<open>FwPackageLib.c\<close>).
  \<^item> \<open>MachineArith\<close> and \<open>NorFlash\<close>: wrapping arithmetic; the flash protocol, and a memory in which
    programming clears bits and only an erasure sets them.
  \<^item> \<open>SeqRecord\<close> (\<open>SequentialRecordStorage.c\<close>), with \<open>SeqRecordProps\<close> and \<open>SeqRecordTheorems\<close>;
    \<open>CmetRecord\<close> (\<open>CmetRecordStorage.c\<close>); \<open>SeqRecordComm\<close>, \<open>SeqRecordCommProps\<close> and \<open>SatMc\<close>
    (\<open>SequentialRecordComm.c\<close>).
  \<^item> \<open>FwPartitionDrivers\<close> (\<open>FwPartitionNorFlashDxe.c\<close>, \<open>FwPartitionBlockIoDxe.c\<close>) and \<open>FwImage\<close>
    (\<open>FwImageDxe.c\<close>, \<open>FwImageLib.c\<close>). \<open>FwStore\<close>, \<open>FwImageStore\<close> and \<open>FwDriversStore\<close> hold the contracts of
    devices, partitions and images and that each layer keeps its own; \<open>FwImageTheorems\<close> the property.
  \<^item> \<open>BrBctUpdate\<close> (\<open>BrBctUpdateDeviceLib.c\<close>), with \<open>BrBctProps\<close> and \<open>BrBctTheorems\<close>.
  \<^item> \<open>TegraFmp\<close> and \<open>TegraFmpUpdate\<close> (\<open>TegraFmp.c\<close>, \<open>FwImageNames.c\<close>, \<open>UpdateProgress.c\<close>). \<open>TegraFmpProps\<close> and
    \<open>TegraFmpWrite\<close> deal with one image and with the loops over all images, \<open>TegraFmpSet\<close>,
    \<open>TegraFmpOutcome\<close> and \<open>TegraFmpTheorems\<close> with the update as a whole, \<open>TegraFmpExample\<close> holds an
    example and \<open>TegraFmpClaims\<close> the properties.
  \<^item> \<open>FwVersion\<close> (\<open>VerPartitionLib.c\<close>, \<open>FmpVersionLib.c\<close>, \<open>FmpVersionLibPartition.c\<close>,
    \<open>FmpVersionLibPcd.c\<close>, \<open>FmpDeviceLib.c\<close>) and \<open>FwVersionProps\<close>.
  \<^item> \<open>FwPartitionMm\<close> (\<open>FwPartitionMmDxe.c\<close>, \<open>FwPartitionMmComm.c\<close>, \<open>FwPartitionStandaloneMm.c\<close>,
    \<open>FwPartitionNorFlashStmm.c\<close>) and \<open>FwPartitionMmProps\<close>.
  \<^item> \<open>Erot\<close> (\<open>ErotLib.c\<close>, \<open>MctpNvVdmLib.c\<close>) and \<open>ErotProps\<close>; \<open>FmpErot\<close> (\<open>FmpErotSupport.c\<close>, \<open>FmpErotLib.c\<close> and
    their \<open>UpdateProgress.c\<close>) and \<open>FmpErotProps\<close>.

  \<^bold>\<open>How state and operations correspond to the code.\<close> A definition has the name of the C function,
  type or constant it translates; the loops and the straight parts of long functions are
  definitions of their own (\<open>ExecuteUpdateRequest\<close>, \<open>MovePartition\<close>, \<open>RequestFwDataCheck\<close>). The module
  globals are a record that an operation takes and returns: \<open>task_globals\<close> for \<open>PldmFwUpdateTaskLib.c\<close>,
  \<open>FW_PARTITION_GLOBALS\<close> for \<open>FwPartitionDeviceLib.c\<close>, \<open>FW_IMAGE_GLOBALS\<close> and \<open>FW_IMAGE_LIB\<close> for the images,
  \<open>BR_BCT_UPDATE\<close> for \<open>BrBctUpdateDeviceLib.c\<close>, \<open>FMP_GLOBALS\<close> for \<open>TegraFmp.c\<close>, \<open>FMP_VERSION_GLOBALS\<close> for the
  version library, \<open>STMM_STATE\<close> and \<open>MM_DXE_STATE\<close> for the two sides of \<open>FwPartitionMmDxe\<close>, \<open>EROT_GLOBALS\<close> for \<open>ErotLib.c\<close> and
  \<open>FMP_EROT_GLOBALS\<close>, which contains it and the globals of the tasks, for \<open>FmpErotSupport.c\<close>. The state of an
  update from a capsule is the tuple of these from the images down to the memory of the flash. An \<open>EFI_STATUS\<close> is a value, every early return a
  branch. A C expression that reads or writes outside a buffer, dereferences null or fails an
  \<open>ASSERT\<close> has no result: it is \<open>None\<close>, so that a theorem with a conclusion \<open>= Some r\<close> excludes it.
  \<open>UINTN\<close>, \<open>UINT64\<close> and \<open>UINT32\<close> are \<open>nat\<close> with the wrap-around written out where the code can reach it
  (\<open>add64\<close>, \<open>sub64\<close>, \<open>mod 2 ^ 32\<close>), bytes and UTF-16 characters are words.

  \<^bold>\<open>Parameters.\<close> Code outside the repository is an argument. The EDK2 string, checksum and pool
  functions are the records \<open>EDK2_STRINGS\<close> and \<open>EDK2_SERVICES\<close>, \<open>AsciiStrStr\<close> an argument of
  \<open>WildcardString\<close>; \<open>documented_strings\<close> and \<open>documented_StrStr\<close> state what their documentation
  promises, and \<open>edk2_strings\<close> and \<open>FirstOccurrence\<close> are functions that keep it. The runtime services
  that \<open>BootChainDxe\<close> calls are the record \<open>BC_SERVICES\<close> over an arbitrary world, with \<open>reliable\<close> as
  their documented behaviour and \<open>fallible\<close> as that of services whose reads and writes can fail; the devices below the partitions are \<open>DEVICE_OPS\<close>. The flash and block
  protocols are \<open>NOR_FLASH_PROTOCOL\<close> and \<open>EFI_BLOCK_IO_PROTOCOL\<close>, with \<open>flash_contract\<close> and \<open>block_contract\<close> as
  what they promise, failures included; \<open>memory_flash\<close> is a flash that keeps it. The update from a capsule
  has its images in \<open>FMP_IMAGES\<close> and its other services in \<open>FMP_SERVICES\<close>; the parser of the version
  partition has \<open>VER_SERVICES\<close> with \<open>documented_version\<close>; the communication with the management mode is
  \<open>MM_COMM_SERVICES\<close>, with \<open>handler_transport\<close> for a transport that delivers a message to its handler; the
  variables of the management mode are \<open>SMM_VARIABLE_PROTOCOL\<close>; the ERoTs are \<open>EROT_SERVICES\<close> and
  \<open>FMP_EROT_SERVICES\<close>, with an ERoT that answers in \<open>exampleErot\<close>. What a PLDM device
  and the clock do is one \<open>fd_env\<close> per turn of the loop.

  \<^bold>\<open>Interfaces.\<close> The locale \<open>record_area\<close> (Prelude) states what a walk over records relies on and is
  interpreted on the descriptors, the parameter entries, the device records and the component images;
  \<open>message_header\<close> (MctpPldmBase) is the contract of a message header, interpreted for MCTP control
  and for PLDM; \<open>registry_keeps\<close> (FwPartitionProps) lifts a statement from the two basic steps of the
  partition registry to all entry points, interpreted for the invariant and for the settings.
  \<open>record_log\<close> (SeqRecordTheorems) is the contract of a log of records, interpreted on the record storage as
  \<open>seq_log\<close>. \<open>block_device\<close>, \<open>partition_store\<close> and \<open>image_store\<close> (FwStore) are the contracts of the layers
  of an update: a device that keeps the first gives partitions that keep the second (\<open>parts\<close>), and
  these give images that keep the third (\<open>images\<close>), by \<open>sublocale\<close>. \<open>block_device\<close> is interpreted on both
  storage drivers, \<open>nor\<close> and \<open>blk\<close>, so that for example \<open>nor.parts.images.image_write\<close> is what a write of an
  image does to the memory of the flash. The updates of images and of the boot configuration table are proved
  over these contracts, in \<open>context image_store\<close> and \<open>context partition_store\<close>.

  \<^bold>\<open>What is shown.\<close>
  \<^item> PLDM packages: the header check accepts exactly the packages whose areas fit, and the image records then
    lie inside the header; when the descriptors can be read, the matching record is the first one whose descriptors
    the device has. The check does not look at the descriptors, so that the match can leave a package that passed it.
  \<^item> PLDM tasks: when an execution returns, every task is complete, and the status and the error say whether one
    failed; a request is sent at most three times in a row; success means that every device was sent the request to
    activate its firmware. What the devices answer does not get a task into the state \<open>StateMax\<close>, into waiting for
    nothing or into the error state without an error, so that the assertions on these states hold. Other assertions
    and accesses can fail: the length of a request with a long version string, a reply with 4092 or more bytes of data,
    and what a package with wrong descriptors or offsets leads to.
  \<^item> Boot chains: while the variable services work, a request is answered once the protocol for the selection of a
    chain is there, a failed switch is rolled back, and an update ends after at most two resets; a request does not get
    stuck when reads and writes of variables fail.
  \<^item> Partitions: an entry that is found in a valid partition table lies in its usable range; names are unique; unless
    the platform allows it, no write touches a partition of the active chain, and an update of the partition table does
    not move a partition over an active one. The registry implements a finite map. A partition that the update adds
    escapes the check.
  \<^item> Records: a write appends to the log of a socket, in the block or in the next one, and what was
    written last is read back, also through the messages; a damaged block is given up. Where the code
    is not safe (a record larger than a block, an unreadable header) the theorems say what happens.
  \<^item> Storage: a write of an image comes back when it is read and touches no other image, down to the
    memory of the flash, with failures of the flash at any point.
  \<^item> Boot configuration table: initialization gives a library that can switch; a switch installs the
    table of the new chain in all its slots, from the last to the first, and a failure leaves at most one
    slot in doubt; an update of the backup keeps the copy of the running chain.
  \<^item> Capsules: a checked capsule has valid and fitting images for the whole system; a successful update has
    installed every image; whatever happens, the running chain keeps its partitions; the switch of the table
    comes last, after everything else is in place, and an update that fails to write leaves a first
    image that the boot ROM does not start.
  \<^item> Versions: a version file is read back exactly when its checksum is right, and the reported version is
    that of the running chain.
  \<^item> Management mode: a read through messages delivers the bytes of the flash, but for a tail of fewer than
    eight bytes; a write is not checked against the partition or the running chain there.
  \<^item> ERoTs: the check accepts exactly the well-formed packages for a reported device, among those with readable
    records; a successful update has run a task of its own to the end for every ERoT; the version reported is that of
    the chain that booted. The theorems also show the consequences of three defects (a failed update, after which no
    later one in the same boot sends any firmware, a released library, an ignored status).
  \<^item> Packages, names, checksums and patterns: what validation guarantees, round trips, the
    equivalence of the table-driven CRC with its bitwise definition, and exactness of the
    pattern match where the code has it.

  \<^bold>\<open>Bounds.\<close> The loop over the tasks runs over a finite list of environments, one per turn, of any
  length: its theorems hold after every number of turns, and \<open>None\<close> for a turn that has no result.
  No other definition needs fuel: the loops are recursions on a count or on the remaining input, or, where
  they may not end (an unreadable record header, a device with block size 0, an enumeration of variables
  that never stops), \<open>partial_function\<close>s, for which not returning is \<open>None\<close>; the properties show the result
  where there is one.
  A boot is a call of \<open>BootChainExecuteUpdate\<close>; three resets are the code's own limit. The model of the
  TNSPEC comparison has the code's 64 tokens per specification.

  \<^bold>\<open>Not modelled.\<close> Log output and device names; the handlers that convert addresses for the runtime
  phase (\<open>FwPartitionAddressChangeHandler\<close> and its like), since the model has no addresses; the
  registration of events, protocol notifications and message handlers, which only hand functions to the
  boot services; display output. \<open>SiblingPartitionLib\<close> is left out as a sequence of calls of EDK2 handles and
  device paths. Hardware drivers (PCIe, USB, Ethernet, SMMU, display, flash controllers), vendored code,
  device tree and ACPI table builders, setup menus and shell applications are left out: they are
  register sequences without a specification in the repository, or glue around EDK2 protocols.

  \<^bold>\<open>Open.\<close> The transports below the MCTP protocol (\<open>ErotQspiLib\<close>, \<open>MctpMmDxe\<close>) are not modelled yet: the tasks and
  the ERoT library see them as their environment. Of the repository's other logic the FRU parser (\<open>FruLib\<close>)
  and the launcher of the operating system (\<open>L4TLauncher\<close>) would be next.
\<close>

end
